(* ===== verification/Prelude.thy ===== *)
theory Prelude
  imports "HOL-Library.Code_Target_Numeral" Main "HOL-Library.Sublist" "HOL-Library.AList" "HOL-Library.Char_ord" "HOL-Library.List_Lexorder"
begin

text \<open>
  Shared vocabulary of the development: the Rust standard-library operations on
  strings, integers, slices, hash maps and loops that the components use.

  A Rust \<open>str\<close> is the list of its UTF-8 bytes (\<open>string\<close>, a list of 8-bit
  characters), so \<open>starts_with\<close>, \<open>strip_prefix\<close>, \<open>split\<close> on an ASCII character and
  byte lengths are the list operations.  A \<open>u64\<close> or \<open>usize\<close> is a natural number;
  where the code saturates, the bound is written out.  A \<open>HashMap\<close> is an
  association list with distinct keys, its order standing for the unspecified
  iteration order.
\<close>

named_theorems str_simps "rewriting rules of the string operations"
named_theorems loop_simps "rewriting rules of the loop and result combinators"

section \<open>Bytes, strings\<close>

abbreviation byte :: "char \<Rightarrow> nat" where
  "byte c \<equiv> of_char c"

abbreviation starts_with :: "string \<Rightarrow> string \<Rightarrow> bool" where
  "starts_with s p \<equiv> prefix p s"

abbreviation ends_with :: "string \<Rightarrow> string \<Rightarrow> bool" where
  "ends_with s p \<equiv> suffix p s"

definition strip_prefix :: "string \<Rightarrow> string \<Rightarrow> string option" where
  "strip_prefix s p = (if prefix p s then Some (drop (length p) s) else None)"

lemma strip_prefix_Some_iff [str_simps]: "strip_prefix s p = Some r \<longleftrightarrow> s = p @ r"
  by (auto simp: strip_prefix_def prefix_def)

lemma strip_prefix_None_iff [str_simps]: "strip_prefix s p = None \<longleftrightarrow> \<not> prefix p s"
  by (auto simp: strip_prefix_def)

definition trim_start_matches :: "char \<Rightarrow> string \<Rightarrow> string" where
  "trim_start_matches c s = dropWhile (\<lambda>x. x = c) s"

definition trim_end_matches :: "char \<Rightarrow> string \<Rightarrow> string" where
  "trim_end_matches c s = rev (dropWhile (\<lambda>x. x = c) (rev s))"

definition replace_char :: "char \<Rightarrow> char \<Rightarrow> string \<Rightarrow> string" where
  "replace_char a b s = map (\<lambda>x. if x = a then b else x) s"

fun contains :: "string \<Rightarrow> string \<Rightarrow> bool" where
  "contains [] p = (p = [])"
| "contains (c # cs) p = (prefix p (c # cs) \<or> contains cs p)"

fun split_on :: "char \<Rightarrow> string \<Rightarrow> string list" where
  "split_on c [] = [[]]"
| "split_on c (x # xs) =
     (if x = c then [] # split_on c xs
      else (case split_on c xs of [] \<Rightarrow> [[x]] | y # ys \<Rightarrow> (x # y) # ys))"

fun join_with :: "string \<Rightarrow> string list \<Rightarrow> string" where
  "join_with sep [] = []"
| "join_with sep [x] = x"
| "join_with sep (x # y # ys) = x @ sep @ join_with sep (y # ys)"

text \<open>\<open>split_once\<close> and \<open>rsplit_once\<close>: around the first and the last occurrence.\<close>

fun split_once :: "char \<Rightarrow> string \<Rightarrow> (string \<times> string) option" where
  "split_once c [] = None"
| "split_once c (x # xs) =
     (if x = c then Some ([], xs) else map_option (\<lambda>(a, b). (x # a, b)) (split_once c xs))"

definition rsplit_once :: "char \<Rightarrow> string \<Rightarrow> (string \<times> string) option" where
  "rsplit_once c s = map_option (\<lambda>(a, b). (rev b, rev a)) (split_once c (rev s))"

definition to_ascii_lowercase :: "string \<Rightarrow> string" where
  "to_ascii_lowercase s =
     map (\<lambda>c. if 65 \<le> byte c \<and> byte c \<le> 90 then char_of (byte c + 32) else c) s"

definition eq_ignore_ascii_case :: "string \<Rightarrow> string \<Rightarrow> bool" where
  "eq_ignore_ascii_case a b \<longleftrightarrow> to_ascii_lowercase a = to_ascii_lowercase b"

text \<open>
  \<open>str::trim\<close> removes the code points with the Unicode property \<open>White_Space\<close>.
  \<open>ws_len\<close> is the number of bytes of such a code point at the front of a string
  (0: none); \<open>ws_len_rev\<close> the same on a reversed string.
\<close>

definition ascii_ws :: "char \<Rightarrow> bool" where
  "ascii_ws c \<longleftrightarrow> (9 \<le> byte c \<and> byte c \<le> 13) \<or> byte c = 32"

definition ws2 :: "char \<Rightarrow> char \<Rightarrow> bool" where
  "ws2 a b \<longleftrightarrow> byte a = 194 \<and> (byte b = 133 \<or> byte b = 160)"

definition ws3 :: "char \<Rightarrow> char \<Rightarrow> char \<Rightarrow> bool" where
  "ws3 a b c \<longleftrightarrow>
     (byte a = 225 \<and> byte b = 154 \<and> byte c = 128) \<or>
     (byte a = 226 \<and> byte b = 128 \<and>
        ((128 \<le> byte c \<and> byte c \<le> 138) \<or> byte c = 168 \<or> byte c = 169 \<or> byte c = 175)) \<or>
     (byte a = 226 \<and> byte b = 129 \<and> byte c = 159) \<or>
     (byte a = 227 \<and> byte b = 128 \<and> byte c = 128)"

definition ws_len :: "string \<Rightarrow> nat" where
  "ws_len s = (case s of
      [] \<Rightarrow> 0
    | a # s1 \<Rightarrow> if ascii_ws a then 1 else
        (case s1 of
           [] \<Rightarrow> 0
         | b # s2 \<Rightarrow> if ws2 a b then 2 else
             (case s2 of [] \<Rightarrow> 0 | c # _ \<Rightarrow> if ws3 a b c then 3 else 0)))"

definition ws_len_rev :: "string \<Rightarrow> nat" where
  "ws_len_rev s = (case s of
      [] \<Rightarrow> 0
    | a # s1 \<Rightarrow> if ascii_ws a then 1 else
        (case s1 of
           [] \<Rightarrow> 0
         | b # s2 \<Rightarrow> if ws2 b a then 2 else
             (case s2 of [] \<Rightarrow> 0 | c # _ \<Rightarrow> if ws3 c b a then 3 else 0)))"

function strip_ws :: "(string \<Rightarrow> nat) \<Rightarrow> string \<Rightarrow> string" where
  "strip_ws f s = (if s = [] \<or> f s = 0 then s else strip_ws f (drop (f s) s))"
  by pat_completeness auto
termination
  by (relation "measure (\<lambda>(f, s). length s)") auto

declare strip_ws.simps [simp del]

definition trim :: "string \<Rightarrow> string" where
  "trim s = rev (strip_ws ws_len_rev (rev (strip_ws ws_len s)))"

text \<open>\<open>s.chars().take(n).collect()\<close>: the first \<open>n\<close> code points, a code point being a
  byte and the continuation bytes (10xxxxxx) after it.\<close>

fun take_chars :: "nat \<Rightarrow> string \<Rightarrow> string" where
  "take_chars n [] = []"
| "take_chars n (c # cs) =
     (if 128 \<le> byte c \<and> byte c < 192 then c # take_chars n cs
      else if n = 0 then [] else c # take_chars (n - 1) cs)"

section \<open>Integers\<close>

definition u64_max :: nat where "u64_max = 18446744073709551615"

definition u32_max :: nat where "u32_max = 4294967295"

definition sat_add :: "nat \<Rightarrow> nat \<Rightarrow> nat" where
  "sat_add a b = min (a + b) u64_max"

definition sat_mul :: "nat \<Rightarrow> nat \<Rightarrow> nat" where
  "sat_mul a b = min (a * b) u64_max"

definition div_ceil :: "nat \<Rightarrow> nat \<Rightarrow> nat" where
  "div_ceil a b = (if a mod b = 0 then a div b else a div b + 1)"

fun show_nat :: "nat \<Rightarrow> string" where
  "show_nat n =
     (if n < 10 then [char_of (48 + n)] else show_nat (n div 10) @ [char_of (48 + n mod 10)])"

declare show_nat.simps [simp del]

definition show_int :: "int \<Rightarrow> string" where
  "show_int i = (if i < 0 then ''-'' @ show_nat (nat (- i)) else show_nat (nat i))"

definition digit :: "char \<Rightarrow> nat option" where
  "digit c = (if 48 \<le> byte c \<and> byte c \<le> 57 then Some (byte c - 48) else None)"

fun parse_digits :: "nat \<Rightarrow> nat \<Rightarrow> string \<Rightarrow> nat option" where
  "parse_digits limit acc [] = Some acc"
| "parse_digits limit acc (c # cs) =
     (case digit c of
        None \<Rightarrow> None
      | Some d \<Rightarrow> if acc * 10 + d > limit then None else parse_digits limit (acc * 10 + d) cs)"

text \<open>\<open>str::parse\<close> on an unsigned type: an optional plus sign, at least one digit, no
  other character, no overflow.\<close>

definition parse_uint :: "nat \<Rightarrow> string \<Rightarrow> nat option" where
  "parse_uint limit s =
     (case s of
        [] \<Rightarrow> None
      | c # cs \<Rightarrow>
          if c = CHR ''+'' then (if cs = [] then None else parse_digits limit 0 cs)
          else parse_digits limit 0 s)"

definition parse_i64 :: "string \<Rightarrow> int option" where
  "parse_i64 s =
     (case s of
        [] \<Rightarrow> None
      | c # cs \<Rightarrow>
          if c = CHR ''-'' then
            (if cs = [] then None
             else map_option (\<lambda>n. - int n) (parse_digits 9223372036854775808 0 cs))
          else map_option int (parse_uint 9223372036854775807 s))"

section \<open>Slices and maps\<close>

text \<open>\<open>slice::chunks\<close> (the code never passes 0, on which Rust panics).\<close>

function chunks_of :: "nat \<Rightarrow> 'a list \<Rightarrow> 'a list list" where
  "chunks_of n xs = (if xs = [] \<or> n = 0 then [] else take n xs # chunks_of n (drop n xs))"
  by pat_completeness auto
termination
  by (relation "measure (\<lambda>(n, xs). length xs)") auto

declare chunks_of.simps [simp del]

type_synonym ('k, 'v) hmap = "('k \<times> 'v) list"

abbreviation hinsert :: "'k \<Rightarrow> 'v \<Rightarrow> ('k, 'v) hmap \<Rightarrow> ('k, 'v) hmap" where
  "hinsert \<equiv> AList.update"

abbreviation hremove :: "'k \<Rightarrow> ('k, 'v) hmap \<Rightarrow> ('k, 'v) hmap" where
  "hremove \<equiv> AList.delete"

abbreviation hget :: "('k, 'v) hmap \<Rightarrow> 'k \<Rightarrow> 'v option" where
  "hget \<equiv> map_of"

definition hkeys :: "('k, 'v) hmap \<Rightarrow> 'k list" where
  "hkeys m = map fst m"

definition hvalues :: "('k, 'v) hmap \<Rightarrow> 'v list" where
  "hvalues m = map snd m"

definition hwf :: "('k, 'v) hmap \<Rightarrow> bool" where
  "hwf m \<longleftrightarrow> distinct (map fst m)"

text \<open>\<open>HashMap\<close> collected from an iterator of pairs: a later pair overwrites.\<close>

definition hcollect :: "('k \<times> 'v) list \<Rightarrow> ('k, 'v) hmap" where
  "hcollect ps = fold (\<lambda>(k, v) m. hinsert k v m) ps []"

text \<open>\<open>iter_mut().find(p)\<close> followed by an update of the element found: the new list and the
  updated element.\<close>

fun update_first :: "('a \<Rightarrow> bool) \<Rightarrow> ('a \<Rightarrow> 'a) \<Rightarrow> 'a list \<Rightarrow> 'a list \<times> 'a option" where
  "update_first p f [] = ([], None)"
| "update_first p f (x # xs) =
     (if p x then (f x # xs, Some (f x))
      else (case update_first p f xs of (ys, r) \<Rightarrow> (x # ys, r)))"

section \<open>Loops and results\<close>

text \<open>\<open>for x in xs { body?; }\<close> over a mutable state: the state reached is kept when the
  body returns an error.\<close>

fun for_each :: "('a \<Rightarrow> 's \<Rightarrow> 's \<times> ('e + unit)) \<Rightarrow> 'a list \<Rightarrow> 's \<Rightarrow> 's \<times> ('e + unit)" where
  "for_each f [] s = (s, Inr ())"
| "for_each f (x # xs) s =
     (case f x s of (s', Inl e) \<Rightarrow> (s', Inl e) | (s', Inr u) \<Rightarrow> for_each f xs s')"

text \<open>\<open>iter.map(f).collect::<Result<Vec<_>, _>>()\<close>: the first error wins.\<close>

fun collect_res :: "('a \<Rightarrow> 'e + 'b) \<Rightarrow> 'a list \<Rightarrow> 'e + 'b list" where
  "collect_res f [] = Inr []"
| "collect_res f (x # xs) =
     (case f x of
        Inl e \<Rightarrow> Inl e
      | Inr y \<Rightarrow> (case collect_res f xs of Inl e \<Rightarrow> Inl e | Inr ys \<Rightarrow> Inr (y # ys)))"

text \<open>The question mark on a result, and on a result that comes with a state.\<close>

definition and_then :: "'e + 'a \<Rightarrow> ('a \<Rightarrow> 'e + 'b) \<Rightarrow> 'e + 'b" where
  "and_then r f = (case r of Inl e \<Rightarrow> Inl e | Inr v \<Rightarrow> f v)"

definition then_st :: "'s \<times> ('e + 'a) \<Rightarrow> ('s \<Rightarrow> 'a \<Rightarrow> 's \<times> ('e + 'b)) \<Rightarrow> 's \<times> ('e + 'b)" where
  "then_st r f = (case r of (s, Inl e) \<Rightarrow> (s, Inl e) | (s, Inr v) \<Rightarrow> f s v)"

text \<open>A result computed without changing the state.\<close>

definition lift_st :: "'s \<Rightarrow> 'e + 'a \<Rightarrow> 's \<times> ('e + 'a)" where
  "lift_st s r = (s, r)"

definition ok_or :: "'e \<Rightarrow> 'a option \<Rightarrow> 'e + 'a" where
  "ok_or e x = (case x of None \<Rightarrow> Inl e | Some v \<Rightarrow> Inr v)"

definition map_err :: "('e \<Rightarrow> 'f) \<Rightarrow> 'e + 'a \<Rightarrow> 'f + 'a" where
  "map_err f r = (case r of Inl e \<Rightarrow> Inl (f e) | Inr v \<Rightarrow> Inr v)"

definition or_else :: "'a option \<Rightarrow> 'a option \<Rightarrow> 'a option" where
  "or_else a b = (case a of Some x \<Rightarrow> Some x | None \<Rightarrow> b)"

definition quoted :: "string \<Rightarrow> string" where
  "quoted s = [CHR 0x27] @ s @ [CHR 0x27]"

definition is_ok :: "'e + 'a \<Rightarrow> bool" where
  "is_ok r = (case r of Inl _ \<Rightarrow> False | Inr _ \<Rightarrow> True)"


section \<open>Lemmas on strings\<close>

lemma trim_start_matches_prefix [str_simps]:
  "trim_start_matches c (c # s) = trim_start_matches c s"
  by (simp add: trim_start_matches_def)

lemma trim_start_matches_id: "s = [] \<or> hd s \<noteq> c \<Longrightarrow> trim_start_matches c s = s"
  by (cases s) (auto simp: trim_start_matches_def)

lemma trim_start_matches_hd: "trim_start_matches c s = [] \<or> hd (trim_start_matches c s) \<noteq> c"
  by (induction s) (auto simp: trim_start_matches_def)

lemma trim_start_matches_idem [simp]:
  "trim_start_matches c (trim_start_matches c s) = trim_start_matches c s"
  by (rule trim_start_matches_id) (rule trim_start_matches_hd)

lemma trim_end_matches_id: "s = [] \<or> last s \<noteq> c \<Longrightarrow> trim_end_matches c s = s"
  by (cases s rule: rev_cases) (auto simp: trim_end_matches_def)

lemma trim_end_matches_last: "trim_end_matches c s = [] \<or> last (trim_end_matches c s) \<noteq> c"
  by (induction s rule: rev_induct) (auto simp: trim_end_matches_def)

lemma trim_end_matches_idem [simp]:
  "trim_end_matches c (trim_end_matches c s) = trim_end_matches c s"
  by (rule trim_end_matches_id) (rule trim_end_matches_last)

lemma trim_end_matches_snoc [str_simps, simp]:
  "trim_end_matches c (s @ [c]) = trim_end_matches c s"
  by (simp add: trim_end_matches_def)

lemma trim_end_matches_prefix: "prefix (trim_end_matches c s) s"
proof -
  have "suffix (dropWhile (\<lambda>x. x = c) (rev s)) (rev s)"
    by (rule suffix_dropWhile)
  then show ?thesis
    by (simp add: trim_end_matches_def suffix_to_prefix)
qed

lemma trim_end_matches_Nil [simp]: "trim_end_matches c [] = []"
  by (simp add: trim_end_matches_def)

lemma trim_start_matches_Nil [simp]: "trim_start_matches c [] = []"
  by (simp add: trim_start_matches_def)

lemma set_trim_start_matches: "set (trim_start_matches c s) \<subseteq> set s"
  by (auto simp: trim_start_matches_def dest: set_dropWhileD)

lemma length_replace_char [simp]: "length (replace_char a b s) = length s"
  by (simp add: replace_char_def)

lemma replace_char_notin: "a \<noteq> b \<Longrightarrow> a \<notin> set (replace_char a b s)"
  by (auto simp: replace_char_def)

lemma replace_char_id: "a \<notin> set s \<Longrightarrow> replace_char a b s = s"
  by (auto simp: replace_char_def intro: map_idI)

lemma replace_char_Nil_iff [simp]: "replace_char a b s = [] \<longleftrightarrow> s = []"
  by (simp add: replace_char_def)

lemma contains_iff: "contains s p \<longleftrightarrow> sublist p s"
proof (induction s)
  case Nil
  then show ?case by simp
next
  case (Cons c s)
  then show ?case
    by (auto simp: sublist_Cons_right)
qed

lemma split_on_not_Nil [simp]: "split_on c s \<noteq> []"
  by (induction s) (auto split: list.splits)

lemma split_on_no_sep: "x \<in> set (split_on c s) \<Longrightarrow> c \<notin> set x"
proof (induction s arbitrary: x)
  case Nil
  then show ?case by simp
next
  case (Cons a s)
  then show ?case
    by (cases "split_on c s") (auto split: if_splits)
qed

lemma split_on_single: "c \<notin> set s \<Longrightarrow> split_on c s = [s]"
  by (induction s) auto

lemma split_on_append_sep: "split_on c (s @ c # t) = split_on c s @ split_on c t"
proof (induction s)
  case Nil
  then show ?case by simp
next
  case (Cons a s)
  then show ?case
    by (cases "split_on c s") auto
qed

lemma split_join:
  assumes "xs \<noteq> []" "\<forall>x\<in>set xs. c \<notin> set x"
  shows "split_on c (join_with [c] xs) = xs"
  using assms
proof (induction "[c]" xs rule: join_with.induct)
  case 1
  then show ?case by simp
next
  case (2 x)
  then show ?case by (simp add: split_on_single)
next
  case (3 x y ys)
  then show ?case
    by (simp add: split_on_append_sep split_on_single)
qed

lemma join_split: "join_with [c] (split_on c s) = s"
proof (induction s)
  case Nil
  then show ?case by simp
next
  case (Cons a s)
  show ?case
  proof (cases "split_on c s")
    case Nil
    then show ?thesis by simp
  next
    case (Cons y ys)
    with Cons.IH show ?thesis by (cases ys) auto
  qed
qed

lemma split_once_Some: "split_once c s = Some (a, b) \<Longrightarrow> s = a @ c # b \<and> c \<notin> set a"
  by (induction s arbitrary: a b) (auto split: if_splits)

lemma split_once_None_iff: "split_once c s = None \<longleftrightarrow> c \<notin> set s"
  by (induction s) auto

lemma byte_less: "byte c < 256"
proof -
  have "byte c mod 256 = byte c" by (rule of_char_mod_256)
  then show ?thesis by (metis mod_less_divisor zero_less_numeral)
qed

section \<open>Lemmas on integers\<close>

lemma sat_add_le [simp]: "sat_add a b \<le> u64_max"
  by (simp add: sat_add_def)

lemma sat_add_exact: "a + b \<le> u64_max \<Longrightarrow> sat_add a b = a + b"
  by (simp add: sat_add_def)

lemma sat_add_mono: "a \<le> u64_max \<Longrightarrow> a \<le> sat_add a b"
  by (simp add: sat_add_def)

lemma div_ceil_mult: "0 < b \<Longrightarrow> a \<le> div_ceil a b * b"
proof (cases "a mod b = 0")
  case True
  then have "a div b * b = a" using div_mult_mod_eq [of a b] by simp
  with True show ?thesis by (simp add: div_ceil_def)
next
  case False
  assume "0 < b"
  then have "a mod b \<le> b" by simp
  then have "a div b * b + a mod b \<le> a div b * b + b" by (rule add_left_mono)
  with False show ?thesis by (simp add: div_ceil_def algebra_simps)
qed

lemma div_ceil_pos: "0 < a \<Longrightarrow> 0 < b \<Longrightarrow> 0 < div_ceil a b"
  by (auto simp: div_ceil_def)

text \<open>A pause that doubles up to a cap.\<close>

lemma capped_double: "min (min (b * 2) c * 2 ^ j) c = min (b * 2 ^ Suc j) (c :: nat)"
proof (cases "b * 2 \<le> c")
  case False
  have "c * 1 \<le> c * 2 ^ j" "b * 2 * 1 \<le> b * 2 * 2 ^ j" by (rule mult_le_mono2, simp)+
  then have "min (c * 2 ^ j) c = c" "min (b * 2 * 2 ^ j) c = c"
    using False by (simp_all only: min_def split: if_split) linarith+
  with False show ?thesis by (simp add: mult.assoc)
qed (simp add: min_def mult.assoc)

lemma digit_show: "d < 10 \<Longrightarrow> digit (char_of (48 + d)) = Some d"
  by (simp add: digit_def)

lemma parse_digits_append:
  "parse_digits limit acc (xs @ ys) =
     (case parse_digits limit acc xs of None \<Rightarrow> None | Some a \<Rightarrow> parse_digits limit a ys)"
  by (induction xs arbitrary: acc) (auto split: option.splits)

lemma parse_digits_show: "n \<le> limit \<Longrightarrow> parse_digits limit 0 (show_nat n) = Some n"
proof (induction n rule: show_nat.induct)
  case (1 n)
  show ?case
  proof (cases "n < 10")
    case True
    with 1 show ?thesis
      by (simp add: show_nat.simps digit_show)
  next
    case False
    have "n div 10 \<le> limit" using 1(2) by (meson div_le_dividend le_trans)
    with 1(1) False have ih: "parse_digits limit 0 (show_nat (n div 10)) = Some (n div 10)"
      by simp
    have "n div 10 * 10 + n mod 10 = n" by simp
    with False ih 1(2) show ?thesis
      by (subst show_nat.simps) (simp add: parse_digits_append digit_show)
  qed
qed

lemma show_nat_not_Nil [simp]: "show_nat n \<noteq> []"
  by (subst show_nat.simps) auto

lemma show_nat_chars: "c \<in> set (show_nat n) \<Longrightarrow> 48 \<le> byte c \<and> byte c \<le> 57"
proof (induction n rule: show_nat.induct)
  case (1 n)
  then show ?case
    by (subst (asm) (2) show_nat.simps) (auto split: if_splits)
qed

lemma parse_uint_show: "n \<le> limit \<Longrightarrow> parse_uint limit (show_nat n) = Some n"
proof -
  assume le: "n \<le> limit"
  obtain c cs where s: "show_nat n = c # cs"
    by (cases "show_nat n") auto
  then have "48 \<le> byte c" using show_nat_chars [of c n] by auto
  then have "c \<noteq> CHR ''+''" by auto
  with s parse_digits_show [OF le] show ?thesis by (simp add: parse_uint_def)
qed

lemma show_nat_inj: "show_nat a = show_nat b \<Longrightarrow> a = b"
  by (metis parse_digits_show max.cobounded1 max.cobounded2 option.inject)

lemma parse_digits_le: "parse_digits limit acc s = Some n \<Longrightarrow> acc \<le> limit \<Longrightarrow> n \<le> limit"
proof (induction limit acc s rule: parse_digits.induct)
  case (1 limit acc)
  then show ?case by simp
next
  case (2 limit acc c cs)
  show ?case
  proof (cases "digit c")
    case None
    with 2 show ?thesis by simp
  next
    case (Some d)
    with 2 show ?thesis by (cases "acc * 10 + d > limit") simp_all
  qed
qed

lemma parse_uint_le:
  assumes "parse_uint limit s = Some n"
  shows "n \<le> limit"
proof (cases s)
  case Nil
  with assms show ?thesis by (simp add: parse_uint_def)
next
  case (Cons c cs)
  then have "parse_digits limit 0 cs = Some n \<or> parse_digits limit 0 s = Some n"
    using assms by (simp add: parse_uint_def del: parse_digits.simps split: if_splits)
  then show ?thesis
    using parse_digits_le [of limit 0 cs n] parse_digits_le [of limit 0 s n] by blast
qed

section \<open>Lemmas on slices and maps\<close>

lemma chunks_of_Nil [simp]: "chunks_of n [] = []"
  by (simp add: chunks_of.simps)

lemma concat_chunks_of: "0 < n \<Longrightarrow> concat (chunks_of n xs) = xs"
proof (induction n xs rule: chunks_of.induct)
  case (1 n xs)
  then show ?case by (subst chunks_of.simps) auto
qed

lemma chunks_of_length: "ys \<in> set (chunks_of n xs) \<Longrightarrow> ys \<noteq> [] \<and> length ys \<le> n"
proof (induction n xs rule: chunks_of.induct)
  case (1 n xs)
  show ?case
  proof (cases "xs = [] \<or> n = 0")
    case True
    with 1(2) show ?thesis by (simp add: chunks_of.simps)
  next
    case False
    with 1(2) have "ys = take n xs \<or> ys \<in> set (chunks_of n (drop n xs))"
      by (subst (asm) chunks_of.simps) simp
    with 1(1) [OF False] False show ?thesis by auto
  qed
qed

definition all_but_last_full :: "nat \<Rightarrow> nat list \<Rightarrow> bool" where
  "all_but_last_full k ls \<longleftrightarrow> (\<forall>l\<in>set (butlast ls). l = k)"

lemma chunks_of_full: "all_but_last_full n (map length (chunks_of n xs))"
proof (induction n xs rule: chunks_of.induct)
  case (1 n xs)
  show ?case
  proof (cases "xs = [] \<or> n = 0")
    case True
    then show ?thesis by (subst chunks_of.simps) (simp add: all_but_last_full_def)
  next
    case False
    with 1 have ih: "all_but_last_full n (map length (chunks_of n (drop n xs)))" by blast
    show ?thesis
    proof (cases "drop n xs = []")
      case True
      with False show ?thesis by (subst chunks_of.simps) (simp add: all_but_last_full_def)
    next
      case rest: False
      then have "chunks_of n (drop n xs) \<noteq> []" "n < length xs"
        using False by (auto simp: chunks_of.simps [of n "drop n xs"])
      with ih False show ?thesis
        by (subst chunks_of.simps) (simp add: all_but_last_full_def)
    qed
  qed
qed

lemma enumerate_map:
  "List.enumerate n (map f xs) = map (\<lambda>(i, x). (i, f x)) (List.enumerate n xs)"
  by (induction xs arbitrary: n) auto

lemma enumerate_blocks:
  "all_but_last_full k (map length bs) \<Longrightarrow>
    concat (map (\<lambda>(i, b). List.enumerate (i * k) b) (List.enumerate n bs)) =
    List.enumerate (n * k) (concat bs)"
proof (induction bs arbitrary: n)
  case Nil
  then show ?case by simp
next
  case (Cons b bs)
  show ?case
  proof (cases "bs = []")
    case True
    then show ?thesis by simp
  next
    case False
    with Cons.prems have "length b = k" "all_but_last_full k (map length bs)"
      by (auto simp: all_but_last_full_def)
    with Cons.IH [of "Suc n"] show ?thesis
      by (simp add: enumerate_append_eq add.commute)
  qed
qed

lemma hwf_Nil [simp]: "hwf []"
  by (simp add: hwf_def)

lemma hwf_hinsert [simp]: "hwf m \<Longrightarrow> hwf (hinsert k v m)"
  by (simp add: hwf_def distinct_update)

lemma hwf_hremove [simp]: "hwf m \<Longrightarrow> hwf (hremove k m)"
  by (simp add: hwf_def distinct_delete)

lemma hget_hinsert [simp]: "hget (hinsert k v m) = (hget m)(k \<mapsto> v)"
  by (rule update_conv')

lemma hget_hremove [simp]: "hget (hremove k m) = (hget m)(k := None)"
  by (rule delete_conv')

lemma set_hinsert: "p \<in> set (hinsert k v m) \<Longrightarrow> p = (k, v) \<or> p \<in> set m"
  by (induction m) (auto split: if_splits)

lemma hget_None_hkeys: "hget m k = None \<longleftrightarrow> k \<notin> set (hkeys m)"
  by (simp add: hkeys_def map_of_eq_None_iff)

lemma hget_Some_in: "hget m k = Some v \<Longrightarrow> (k, v) \<in> set m"
  by (rule map_of_SomeD)

lemma hget_Some_iff: "hwf m \<Longrightarrow> hget m k = Some v \<longleftrightarrow> (k, v) \<in> set m"
  by (simp add: hwf_def)

lemma set_hvalues: "hwf m \<Longrightarrow> v \<in> set (hvalues m) \<longleftrightarrow> (\<exists>k. hget m k = Some v)"
  by (force simp: hvalues_def hget_Some_iff)

lemma hcollect_snoc: "hcollect (ps @ [(k, v)]) = hinsert k v (hcollect ps)"
  by (simp add: hcollect_def)

lemma hwf_hcollect [simp]: "hwf (hcollect ps)"
proof (induction ps rule: rev_induct)
  case Nil
  then show ?case by (simp add: hcollect_def)
next
  case (snoc p ps)
  then show ?case by (cases p) (simp add: hcollect_snoc)
qed

lemma hget_hcollect: "hget (hcollect ps) k = hget (rev ps) k"
proof (induction ps rule: rev_induct)
  case Nil
  then show ?case by (simp add: hcollect_def)
next
  case (snoc p ps)
  then show ?case by (cases p) (simp add: hcollect_snoc)
qed

lemma length_update_first [simp]: "length (fst (update_first p f xs)) = length xs"
  by (induction xs) (auto split: prod.splits)

lemma update_first_snd: "snd (update_first p f xs) = map_option f (find p xs)"
  by (induction xs) (auto split: prod.splits)

lemma update_first_rel:
  "list_all2 (\<lambda>x y. y = x \<or> (p x \<and> y = f x)) xs (fst (update_first p f xs))"
  by (induction xs) (auto simp: list_all2_same split: prod.splits)

lemma update_first_in:
  "y \<in> set (fst (update_first p f xs)) \<Longrightarrow> y \<in> set xs \<or> (\<exists>x\<in>set xs. p x \<and> y = f x)"
  by (induction xs) (auto split: prod.splits if_splits)

lemma map_update_first:
  "(\<And>x. p x \<Longrightarrow> k (f x) = k x) \<Longrightarrow> map k (fst (update_first p f xs)) = map k xs"
  by (induction xs) (auto split: prod.splits)

lemma update_first_none: "find p xs = None \<Longrightarrow> update_first p f xs = (xs, None)"
  by (induction xs) (auto split: if_splits)

lemma find_Some_D: "find p xs = Some x \<Longrightarrow> x \<in> set xs \<and> p x"
  by (induction xs) (auto split: if_splits)

lemma find_append: "find p (xs @ ys) = (case find p xs of Some x \<Rightarrow> Some x | None \<Rightarrow> find p ys)"
  by (induction xs) auto

lemma find_None_filter: "find p xs = None \<longleftrightarrow> filter p xs = []"
  by (induction xs) auto

section \<open>Lemmas on loops\<close>

lemma for_each_inv:
  assumes "P s" "\<And>x s. x \<in> set xs \<Longrightarrow> P s \<Longrightarrow> P (fst (f x s))"
  shows "P (fst (for_each f xs s))"
  using assms
proof (induction xs arbitrary: s)
  case Nil
  then show ?case by simp
next
  case (Cons x xs)
  from Cons.prems have "P (fst (f x s))" by simp
  with Cons show ?case
    by (cases "f x s") (auto split: sum.splits)
qed

lemma for_each_append:
  "for_each f (xs @ ys) s =
     (case for_each f xs s of (s', Inl e) \<Rightarrow> (s', Inl e) | (s', Inr u) \<Rightarrow> for_each f ys s')"
  by (induction xs arbitrary: s) (auto split: prod.splits sum.splits)

lemma collect_res_Inr_D: "collect_res f xs = Inr ys \<Longrightarrow> list_all2 (\<lambda>x y. f x = Inr y) xs ys"
  by (induction xs arbitrary: ys) (auto split: sum.splits)

lemma collect_res_Inr_I: "list_all2 (\<lambda>x y. f x = Inr y) xs ys \<Longrightarrow> collect_res f xs = Inr ys"
  by (induction rule: list_all2_induct) auto

lemma collect_res_Inr_iff:
  "collect_res f xs = Inr ys \<longleftrightarrow> list_all2 (\<lambda>x y. f x = Inr y) xs ys"
  using collect_res_Inr_D collect_res_Inr_I by blast

lemma collect_res_append:
  "collect_res f (xs @ ys) =
     (case collect_res f xs of
        Inl e \<Rightarrow> Inl e
      | Inr as \<Rightarrow> (case collect_res f ys of Inl e \<Rightarrow> Inl e | Inr bs \<Rightarrow> Inr (as @ bs)))"
  by (induction xs) (auto split: sum.splits)

lemma collect_res_concat:
  "collect_res f (concat xss) =
     (case collect_res (collect_res f) xss of Inl e \<Rightarrow> Inl e | Inr yss \<Rightarrow> Inr (concat yss))"
  by (induction xss) (auto simp: collect_res_append split: sum.splits)

lemma collect_res_length: "collect_res f xs = Inr ys \<Longrightarrow> length ys = length xs"
  by (drule collect_res_Inr_D) (simp add: list_all2_lengthD)

lemma and_then_simps [loop_simps, simp]:
  "and_then (Inl e) f = Inl e" "and_then (Inr v) f = f v"
  by (simp_all add: and_then_def)

lemma and_then_Inr: "and_then r f = Inr w \<longleftrightarrow> (\<exists>v. r = Inr v \<and> f v = Inr w)"
  by (cases r) simp_all

lemma then_st_simps [loop_simps, simp]:
  "then_st (s, Inl e) f = (s, Inl e)" "then_st (s, Inr v) f = f s v"
  by (simp_all add: then_st_def)

lemma then_st_Inr: "then_st r f = (s', Inr w) \<longleftrightarrow> (\<exists>s v. r = (s, Inr v) \<and> f s v = (s', Inr w))"
  by (cases r; cases "snd r") auto

lemma then_st_inv:
  "P (fst r) \<Longrightarrow> (\<And>s v. r = (s, Inr v) \<Longrightarrow> P s \<Longrightarrow> P (fst (f s v))) \<Longrightarrow> P (fst (then_st r f))"
  by (cases r; cases "snd r") auto

lemma ok_or_simps [loop_simps, simp]:
  "ok_or e None = Inl e" "ok_or e (Some v) = Inr v"
  by (simp_all add: ok_or_def)

lemma map_err_simps [loop_simps, simp]:
  "map_err f (Inl e) = Inl (f e)" "map_err f (Inr v) = Inr v"
  by (simp_all add: map_err_def)

lemma is_ok_simps [loop_simps, simp]: "\<not> is_ok (Inl e)" "is_ok (Inr v)"
  by (simp_all add: is_ok_def)

end
