(* ===== verification/Json.thy ===== *)
theory Json
  imports Prelude
begin

text \<open>
  \<open>serde_json::Value\<close>, the field access the components use, and the merge patch of
  \<open>preferences.rs\<close> (RFC 7396) with the algorithm of the RFC as reference.  An integral number
  is \<open>JInt\<close>; a floating-point number is kept as its text.  An object is an association list
  with distinct keys.
\<close>

datatype json =
    JNull
  | JBool bool
  | JInt int
  | JFloat string
  | JStr string
  | JArr "json list"
  | JObj "(string \<times> json) list"

definition as_object :: "json \<Rightarrow> (string \<times> json) list option" where
  "as_object j = (case j of JObj m \<Rightarrow> Some m | _ \<Rightarrow> None)"

definition as_array :: "json \<Rightarrow> json list option" where
  "as_array j = (case j of JArr xs \<Rightarrow> Some xs | _ \<Rightarrow> None)"

definition as_str :: "json \<Rightarrow> string option" where
  "as_str j = (case j of JStr s \<Rightarrow> Some s | _ \<Rightarrow> None)"

definition as_u64 :: "json \<Rightarrow> nat option" where
  "as_u64 j = (case j of
      JInt i \<Rightarrow> if 0 \<le> i \<and> i \<le> int u64_max then Some (nat i) else None
    | _ \<Rightarrow> None)"

definition as_i64 :: "json \<Rightarrow> int option" where
  "as_i64 j = (case j of
      JInt i \<Rightarrow> if - 9223372036854775808 \<le> i \<and> i \<le> 9223372036854775807 then Some i else None
    | _ \<Rightarrow> None)"

definition as_bool :: "json \<Rightarrow> bool option" where
  "as_bool j = (case j of JBool b \<Rightarrow> Some b | _ \<Rightarrow> None)"

text \<open>\<open>Value::get\<close> on an object; None on any other value.\<close>

definition jget :: "json \<Rightarrow> string \<Rightarrow> json option" where
  "jget j k = (case j of JObj m \<Rightarrow> hget m k | _ \<Rightarrow> None)"

definition jget2 :: "json option \<Rightarrow> string \<Rightarrow> string \<Rightarrow> json option" where
  "jget2 j a b = (case j of None \<Rightarrow> None | Some v \<Rightarrow>
     (case jget v a of None \<Rightarrow> None | Some w \<Rightarrow> jget w b))"

section \<open>Reading fields\<close>

text \<open>What a derived \<open>Deserialize\<close> does with one field: required, optional (missing or null),
  with a default, or an array.\<close>

definition field :: "(json \<Rightarrow> 'a option) \<Rightarrow> json \<Rightarrow> string \<Rightarrow> 'a option" where
  "field conv j k = Option.bind (jget j k) conv"

definition opt_field :: "(json \<Rightarrow> 'a option) \<Rightarrow> json \<Rightarrow> string \<Rightarrow> 'a option option" where
  "opt_field conv j k =
     (case jget j k of
        None \<Rightarrow> Some None
      | Some v \<Rightarrow> if v = JNull then Some None else map_option Some (conv v))"

definition default_field :: "'a \<Rightarrow> (json \<Rightarrow> 'a option) \<Rightarrow> json \<Rightarrow> string \<Rightarrow> 'a option" where
  "default_field d conv j k = (case jget j k of None \<Rightarrow> Some d | Some v \<Rightarrow> conv v)"

fun list_of_json :: "(json \<Rightarrow> 'a option) \<Rightarrow> json list \<Rightarrow> 'a list option" where
  "list_of_json conv [] = Some []"
| "list_of_json conv (j # js) =
     (case (conv j, list_of_json conv js) of (Some x, Some xs) \<Rightarrow> Some (x # xs) | _ \<Rightarrow> None)"

definition list_field :: "(json \<Rightarrow> 'a option) \<Rightarrow> json \<Rightarrow> string \<Rightarrow> 'a list option" where
  "list_field conv j k = Option.bind (Option.bind (jget j k) as_array) (list_of_json conv)"

text \<open>The derived \<open>Deserialize\<close> takes a struct from an object, whose unknown keys it ignores,
  and also from an array that gives its fields in order and may stop early.\<close>

definition struct_of_json :: "string list \<Rightarrow> json \<Rightarrow> json option" where
  "struct_of_json names j =
     (case j of
        JObj m \<Rightarrow> Some j
      | JArr xs \<Rightarrow> if length xs \<le> length names then Some (JObj (zip names xs)) else None
      | _ \<Rightarrow> None)"

definition i64_ok :: "int \<Rightarrow> bool" where
  "i64_ok i \<longleftrightarrow> - 9223372036854775808 \<le> i \<and> i \<le> 9223372036854775807"

lemma field_simps [str_simps]:
  "field as_str (JObj m) k = (case hget m k of Some (JStr x) \<Rightarrow> Some x | _ \<Rightarrow> None)"
  by (simp add: field_def as_str_def jget_def split: option.splits)

lemma as_u64_int: "n \<le> u64_max \<Longrightarrow> as_u64 (JInt (int n)) = Some n"
  by (simp add: as_u64_def)

lemma as_i64_int: "i64_ok i \<Longrightarrow> as_i64 (JInt i) = Some i"
  by (simp add: as_i64_def i64_ok_def)

section \<open>The merge patch of \<open>preferences.rs\<close>\<close>

fun apply_merge_patch :: "json \<Rightarrow> json \<Rightarrow> json"
  and merge_entries :: "(string \<times> json) list \<Rightarrow> (string \<times> json) list \<Rightarrow> (string \<times> json) list"
where
  "apply_merge_patch target (JObj patch_map) =
     JObj (merge_entries (case target of JObj m \<Rightarrow> m | _ \<Rightarrow> []) patch_map)"
| "apply_merge_patch target JNull = JNull"
| "apply_merge_patch target (JBool b) = JBool b"
| "apply_merge_patch target (JInt i) = JInt i"
| "apply_merge_patch target (JFloat f) = JFloat f"
| "apply_merge_patch target (JStr s) = JStr s"
| "apply_merge_patch target (JArr xs) = JArr xs"
| "merge_entries m [] = m"
| "merge_entries m ((key, value) # ps) =
     merge_entries
       (case value of
          JNull \<Rightarrow> hremove key m
        | JObj _ \<Rightarrow>
            hinsert key
              (apply_merge_patch (case hget m key of Some x \<Rightarrow> x | None \<Rightarrow> JNull) value) m
        | _ \<Rightarrow> hinsert key value m) ps"

text \<open>\<open>MergePatch(Target, Patch)\<close> as RFC 7396 states it; an undefined target is None.\<close>

fun rfc_merge :: "json option \<Rightarrow> json \<Rightarrow> json"
  and rfc_entries :: "(string \<times> json) list \<Rightarrow> (string \<times> json) list \<Rightarrow> (string \<times> json) list"
where
  "rfc_merge target (JObj ps) =
     JObj (rfc_entries (case target of Some (JObj m) \<Rightarrow> m | _ \<Rightarrow> []) ps)"
| "rfc_merge target JNull = JNull"
| "rfc_merge target (JBool b) = JBool b"
| "rfc_merge target (JInt i) = JInt i"
| "rfc_merge target (JFloat f) = JFloat f"
| "rfc_merge target (JStr s) = JStr s"
| "rfc_merge target (JArr xs) = JArr xs"
| "rfc_entries m [] = m"
| "rfc_entries m ((name, value) # ps) =
     rfc_entries
       (if value = JNull then (if hget m name = None then m else hremove name m)
        else hinsert name (rfc_merge (hget m name) value) m) ps"

text \<open>Every object in a value has distinct keys.\<close>

fun jwf :: "json \<Rightarrow> bool" where
  "jwf (JObj m) = (distinct (map fst m) \<and> list_all (\<lambda>p. jwf (snd p)) m)"
| "jwf (JArr xs) = list_all jwf xs"
| "jwf _ = True"

section \<open>Lemmas\<close>

lemma jget_JObj [simp]: "jget (JObj m) k = hget m k"
  by (simp add: jget_def)

lemma jget2_None [simp]: "jget2 None a b = None"
  by (simp add: jget2_def)

lemma hremove_absent: "hget m k = None \<Longrightarrow> hremove k m = m"
  by (simp add: map_of_eq_None_iff delete_id)

lemma merge_is_rfc:
  "apply_merge_patch (case t of Some x \<Rightarrow> x | None \<Rightarrow> JNull) p = rfc_merge t p"
  "merge_entries m ps = rfc_entries m ps"
proof (induction t p and m ps rule: rfc_merge_rfc_entries.induct)
  case (1 target ps)
  then show ?case by (cases target) (auto split: json.splits)
next
  case (9 m n v ps)
  show ?case
  proof (cases v)
    case JNull
    with 9 show ?thesis by (auto simp: hremove_absent)
  next
    case (JObj x)
    with 9 show ?thesis by (cases "hget m n") auto
  qed (use 9 in auto)
qed auto

lemma apply_merge_patch_rfc: "apply_merge_patch t p = rfc_merge (Some t) p"
  using merge_is_rfc(1) [of "Some t" p] by simp

text \<open>What one patch does to one key.\<close>

definition patched :: "json option \<Rightarrow> json \<Rightarrow> json option" where
  "patched old value = (if value = JNull then None else Some (rfc_merge old value))"

lemma rfc_entries_get:
  assumes "distinct (map fst ps)"
  shows "hget (rfc_entries m ps) k =
    (case hget ps k of None \<Rightarrow> hget m k | Some v \<Rightarrow> patched (hget m k) v)"
  using assms
proof (induction ps arbitrary: m)
  case Nil
  then show ?case by simp
next
  case (Cons p ps)
  obtain n v where p: "p = (n, v)" by (cases p)
  with Cons.prems have dist: "distinct (map fst ps)" and fresh: "hget ps n = None"
    by (auto simp: map_of_eq_None_iff)
  show ?case
    using Cons.IH [OF dist] fresh
    by (auto simp: p patched_def split: option.splits)
qed

lemma merge_patch_get:
  assumes "distinct (map fst ps)"
  shows "jget (apply_merge_patch t (JObj ps)) k =
    (case hget ps k of None \<Rightarrow> jget t k | Some v \<Rightarrow> patched (jget t k) v)"
  by (cases t) (simp_all add: apply_merge_patch_rfc rfc_entries_get [OF assms] jget_def split: option.split)

text \<open>Applying a patch twice is applying it once.\<close>

lemma hinsert_same: "hget m k = Some v \<Longrightarrow> hinsert k v m = m"
  by (induction m) (auto split: if_splits)

lemma rfc_entries_stable:
  assumes "\<forall>(k, v)\<in>set ps. (v = JNull \<longrightarrow> hget m k = None) \<and>
             (v \<noteq> JNull \<longrightarrow> (\<exists>w. hget m k = Some w \<and> rfc_merge (Some w) v = w))"
  shows "rfc_entries m ps = m"
  using assms
proof (induction ps)
  case Nil
  then show ?case by simp
next
  case (Cons p ps)
  obtain n v where p: "p = (n, v)" by (cases p)
  show ?case
  proof (cases "v = JNull")
    case True
    with Cons p show ?thesis by auto
  next
    case False
    with Cons.prems p obtain w where w: "hget m n = Some w" "rfc_merge (Some w) v = w" by auto
    with False p have "rfc_entries m (p # ps) = rfc_entries (hinsert n w m) ps" by simp
    also have "hinsert n w m = m" using w by (simp add: hinsert_same)
    finally show ?thesis using Cons by auto
  qed
qed

lemma rfc_merge_idem: "jwf p \<Longrightarrow> rfc_merge (Some (rfc_merge t p)) p = rfc_merge t p"
proof (induction p arbitrary: t)
  case (JObj ps)
  let ?m = "case t of Some (JObj m) \<Rightarrow> m | _ \<Rightarrow> []"
  let ?r = "rfc_entries ?m ps"
  from JObj.prems have dist: "distinct (map fst ps)" and sub: "\<forall>p\<in>set ps. jwf (snd p)"
    by (auto simp: list_all_iff)
  have "rfc_entries ?r ps = ?r"
  proof (rule rfc_entries_stable, clarify)
    fix k v
    assume kv: "(k, v) \<in> set ps"
    with dist have get: "hget ?r k = patched (hget ?m k) v"
      using rfc_entries_get [OF dist, of ?m k] by simp
    have "rfc_merge (Some (rfc_merge (hget ?m k) v)) v = rfc_merge (hget ?m k) v"
      using JObj.IH [OF kv] sub kv by fastforce
    with get show "(v = JNull \<longrightarrow> hget ?r k = None) \<and>
        (v \<noteq> JNull \<longrightarrow> (\<exists>w. hget ?r k = Some w \<and> rfc_merge (Some w) v = w))"
      by (simp add: patched_def)
  qed
  then show ?case by simp
qed auto

section \<open>Codecs\<close>

text \<open>
  The derived \<open>Serialize\<close> and \<open>Deserialize\<close> of a type: what is written reads back, for the values
  whose numbers fit their fields.  What the state database, the activity log and the preferences
  keep is read through this contract.
\<close>

locale json_codec =
  fixes enc :: "'a \<Rightarrow> json"
    and dec :: "json \<Rightarrow> 'a option"
    and wf :: "'a \<Rightarrow> bool"
  assumes dec_enc: "wf x \<Longrightarrow> dec (enc x) = Some x"
begin

lemma dec_list: "\<forall>x\<in>set xs. wf x \<Longrightarrow> list_of_json dec (map enc xs) = Some xs"
  by (induction xs) (simp_all add: dec_enc)

text \<open>Different values are written differently.\<close>

lemma enc_inj: "inj_on enc {x. wf x}"
  by (rule inj_onI) (metis dec_enc mem_Collect_eq option.inject)

end

section \<open>Properties\<close>

text \<open>C31. The merge of a preferences patch is the merge patch of RFC 7396.\<close>

theorem merge_patch_is_rfc_7396: "apply_merge_patch t p = rfc_merge (Some t) p"
  by (rule apply_merge_patch_rfc)

text \<open>Sending the same patch twice changes nothing the second time.\<close>

theorem merge_patch_idempotent:
  assumes "jwf p"
  shows "apply_merge_patch (apply_merge_patch t p) p = apply_merge_patch t p"
  using rfc_merge_idem [OF assms] by (simp add: apply_merge_patch_rfc)

lemma merge_patch_idempotent_witness:
  "apply_merge_patch (apply_merge_patch (JObj [(''a'', JInt 1)]) (JObj [(''a'', JNull), (''b'', JInt 2)]))
     (JObj [(''a'', JNull), (''b'', JInt 2)]) =
   apply_merge_patch (JObj [(''a'', JInt 1)]) (JObj [(''a'', JNull), (''b'', JInt 2)])"
  by (rule merge_patch_idempotent) simp

end
