(* ===== verification/Client_Error.thy ===== *)
theory Client_Error
  imports Prelude
begin

text \<open>
  The error type every fallible operation returns (\<open>aeordb-client-lib/src/error.rs\<close>): its
  variants, their \<open>Display\<close> text, the transience test the sync runner retries on, and the
  HTTP status and category an error is answered with.  \<open>std::io::Error\<close> and
  \<open>serde_json::Error\<close> are the text they display.
\<close>

datatype client_error =
    Server string
  | Configuration string
  | NotFound string
  | BadRequest string
  | Forbidden string
  | BadGateway string
  | UpstreamUnreachable string
  | UpstreamServer (up_status: nat) (up_message: string)
  | UpstreamProtocol string
  | UpstreamRejected (rej_status: nat) (rej_message: string)
  | Io string
  | Serialization string

type_synonym 'a res = "client_error + 'a"

text \<open>The \<open>#[error("...")]\<close> formats.\<close>

fun error_text :: "client_error \<Rightarrow> string" where
  "error_text (Server m) = ''server error: '' @ m"
| "error_text (Configuration m) = ''configuration error: '' @ m"
| "error_text (NotFound m) = ''not found: '' @ m"
| "error_text (BadRequest m) = ''bad request: '' @ m"
| "error_text (Forbidden m) = ''forbidden: '' @ m"
| "error_text (BadGateway m) = ''bad gateway: '' @ m"
| "error_text (UpstreamUnreachable m) = ''upstream unreachable: '' @ m"
| "error_text (UpstreamServer st m) =
     ''upstream server error (HTTP '' @ show_nat st @ ''): '' @ m"
| "error_text (UpstreamProtocol m) = ''upstream protocol error: '' @ m"
| "error_text (UpstreamRejected st m) =
     ''upstream rejected (HTTP '' @ show_nat st @ ''): '' @ m"
| "error_text (Io m) = ''io error: '' @ m"
| "error_text (Serialization m) = ''serialization error: '' @ m"

definition retryable_rejection :: "string \<Rightarrow> bool" where
  "retryable_rejection message =
     (let lower = to_ascii_lowercase message in
        contains lower ''retryable'' \<or>
        contains lower ''retry shortly'' \<or>
        contains lower ''already in progress'' \<or>
        contains lower ''engine refused /blobs/commit'')"

definition transient_server_text :: "string \<Rightarrow> bool" where
  "transient_server_text message =
     (let lower = to_ascii_lowercase message in
        contains lower ''http 502'' \<or>
        contains lower ''http 503'' \<or>
        contains lower ''http 504'' \<or>
        contains lower ''bad gateway'' \<or>
        contains lower ''service unavailable'' \<or>
        contains lower ''gateway timeout'' \<or>
        contains lower ''connection refused'' \<or>
        contains lower ''connection reset'' \<or>
        contains lower ''timed out'' \<or>
        contains lower ''timeout'')"

fun is_transient_upstream :: "client_error \<Rightarrow> bool" where
  "is_transient_upstream (UpstreamUnreachable m) = True"
| "is_transient_upstream (UpstreamServer st m) = (st = 502 \<or> st = 503 \<or> st = 504)"
| "is_transient_upstream (UpstreamRejected st m) = (st = 429 \<and> retryable_rejection m)"
| "is_transient_upstream (Server m) = transient_server_text m"
| "is_transient_upstream _ = False"

fun category_for :: "client_error \<Rightarrow> string" where
  "category_for (NotFound m) = ''not_found''"
| "category_for (BadRequest m) = ''bad_request''"
| "category_for (Forbidden m) = ''forbidden''"
| "category_for (BadGateway m) = ''bad_gateway''"
| "category_for (Configuration m) = ''configuration''"
| "category_for (Server m) = ''server''"
| "category_for (Io m) = ''io''"
| "category_for (Serialization m) = ''serialization''"
| "category_for (UpstreamUnreachable m) = ''upstream_unreachable''"
| "category_for (UpstreamServer st m) = ''upstream_server''"
| "category_for (UpstreamProtocol m) = ''upstream_protocol''"
| "category_for (UpstreamRejected st m) = ''upstream_rejected''"

text \<open>\<open>StatusCode::from_u16\<close> accepts 100 to 999.\<close>

definition status_from_u16 :: "nat \<Rightarrow> nat option" where
  "status_from_u16 n = (if 100 \<le> n \<and> n < 1000 then Some n else None)"

fun response_status :: "client_error \<Rightarrow> nat" where
  "response_status (NotFound m) = 404"
| "response_status (BadRequest m) = 400"
| "response_status (Forbidden m) = 403"
| "response_status (BadGateway m) = 502"
| "response_status (Configuration m) = 400"
| "response_status (Server m) = 500"
| "response_status (Io m) = 500"
| "response_status (Serialization m) = 500"
| "response_status (UpstreamUnreachable m) = 502"
| "response_status (UpstreamServer st m) = 502"
| "response_status (UpstreamProtocol m) = 502"
| "response_status (UpstreamRejected st m) =
     (case status_from_u16 st of Some c \<Rightarrow> c | None \<Rightarrow> 502)"

record error_body =
  eb_error :: string
  eb_category :: string

definition into_response :: "client_error \<Rightarrow> nat \<times> error_body" where
  "into_response e =
     (response_status e, \<lparr>eb_error = error_text e, eb_category = category_for e\<rparr>)"

section \<open>Lemmas\<close>

lemma transient_upstream_server [simp]:
  "is_transient_upstream (UpstreamServer st m) \<longleftrightarrow> st \<in> {502, 503, 504}"
  by auto

lemma contains_append: "contains m p \<Longrightarrow> contains (a @ m) p"
  by (induction a) (cases m; auto)+

lemma response_status_valid:
  "100 \<le> response_status e \<and> response_status e < 1000"
  by (cases e) (auto simp: status_from_u16_def)

text \<open>The category determines the variant: a client branching on it loses nothing.\<close>

fun error_variant :: "client_error \<Rightarrow> nat" where
  "error_variant (Server _) = 0" | "error_variant (Configuration _) = 1"
| "error_variant (NotFound _) = 2" | "error_variant (BadRequest _) = 3"
| "error_variant (Forbidden _) = 4" | "error_variant (BadGateway _) = 5"
| "error_variant (UpstreamUnreachable _) = 6" | "error_variant (UpstreamServer _ _) = 7"
| "error_variant (UpstreamProtocol _) = 8" | "error_variant (UpstreamRejected _ _) = 9"
| "error_variant (Io _) = 10" | "error_variant (Serialization _) = 11"

lemma category_for_variant: "category_for a = category_for b \<Longrightarrow> error_variant a = error_variant b"
  by (cases a; cases b) simp_all

section \<open>Properties\<close>



end
