(* ===== verification/Paths.thy ===== *)
theory Paths
  imports Prelude
begin

text \<open>
  The part of \<open>std::path\<close> (on Unix) the program uses: a path is its text, and every
  comparison (\<open>==\<close>, \<open>starts_with\<close>, \<open>strip_prefix\<close>) works on its components.  Empty
  segments and inner dots disappear, a leading dot is \<open>CurDir\<close>, two dots are
  \<open>ParentDir\<close> and are never resolved.
\<close>

datatype path_component = RootDir | CurDir | ParentDir | Normal string

definition raw_parts :: "string \<Rightarrow> string list" where
  "raw_parts s = filter (\<lambda>p. p \<noteq> []) (split_on CHR ''/'' s)"

definition component_of :: "string \<Rightarrow> path_component" where
  "component_of p = (if p = ''..'' then ParentDir else Normal p)"

definition path_body :: "string list \<Rightarrow> path_component list" where
  "path_body ps = map component_of (filter (\<lambda>p. p \<noteq> ''.'') ps)"

definition path_components :: "string \<Rightarrow> path_component list" where
  "path_components s =
     (if prefix ''/'' s then RootDir # path_body (raw_parts s)
      else (case raw_parts s of
              [] \<Rightarrow> []
            | x # xs \<Rightarrow> if x = ''.'' then CurDir # path_body xs else path_body (x # xs)))"

definition path_eq :: "string \<Rightarrow> string \<Rightarrow> bool" where
  "path_eq a b \<longleftrightarrow> path_components a = path_components b"

definition path_starts_with :: "string \<Rightarrow> string \<Rightarrow> bool" where
  "path_starts_with a b \<longleftrightarrow> prefix (path_components b) (path_components a)"

fun component_text :: "path_component \<Rightarrow> string" where
  "component_text RootDir = ''/''"
| "component_text CurDir = ''.''"
| "component_text ParentDir = ''..''"
| "component_text (Normal p) = p"

text \<open>The text of a component list: the root is a leading slash, the rest is joined by
  slashes.\<close>

fun path_text :: "path_component list \<Rightarrow> string" where
  "path_text (RootDir # cs) = CHR ''/'' # join_with ''/'' (map component_text cs)"
| "path_text cs = join_with ''/'' (map component_text cs)"

definition path_strip_prefix :: "string \<Rightarrow> string \<Rightarrow> string option" where
  "path_strip_prefix a b =
     (if path_starts_with a b
      then Some (path_text (drop (length (path_components b)) (path_components a)))
      else None)"

definition path_is_absolute :: "string \<Rightarrow> bool" where
  "path_is_absolute p \<longleftrightarrow> prefix ''/'' p"

definition path_join :: "string \<Rightarrow> string \<Rightarrow> string" where
  "path_join base p =
     (if prefix ''/'' p then p
      else if base = [] \<or> last base = CHR ''/'' then base @ p
      else base @ ''/'' @ p)"

definition path_file_name :: "string \<Rightarrow> string option" where
  "path_file_name p =
     (case rev (path_components p) of Normal n # _ \<Rightarrow> Some n | _ \<Rightarrow> None)"

definition path_parent :: "string \<Rightarrow> string option" where
  "path_parent p =
     (case rev (path_components p) of
        [] \<Rightarrow> None
      | RootDir # _ \<Rightarrow> None
      | _ # cs \<Rightarrow> Some (path_text (rev cs)))"

text \<open>\<open>Path::extension\<close>: what follows the last dot of the file name, unless that dot is
  its first character.\<close>

definition path_extension :: "string \<Rightarrow> string option" where
  "path_extension p =
     (case path_file_name p of
        None \<Rightarrow> None
      | Some n \<Rightarrow>
          (case rsplit_once CHR ''.'' n of
             None \<Rightarrow> None
           | Some (before, after) \<Rightarrow> if before = [] then None else Some after))"

section \<open>Lemmas\<close>

lemma raw_parts_Nil [simp]: "raw_parts [] = []"
  by (simp add: raw_parts_def)

lemma raw_parts_sep: "raw_parts (a @ CHR ''/'' # b) = raw_parts a @ raw_parts b"
  by (simp add: raw_parts_def split_on_append_sep)

lemma raw_parts_lead [simp]: "raw_parts (CHR ''/'' # b) = raw_parts b"
  by (simp add: raw_parts_def)

lemma raw_parts_trail [simp]: "raw_parts (a @ ''/'') = raw_parts a"
  using raw_parts_sep [of a "[]"] by simp

lemma raw_parts_ne: "s \<noteq> [] \<Longrightarrow> \<not> prefix ''/'' s \<Longrightarrow> raw_parts s \<noteq> []"
proof (cases s)
  case (Cons c cs)
  assume "\<not> prefix ''/'' s"
  with Cons have "c \<noteq> CHR ''/''" by auto
  with Cons show ?thesis by (cases "split_on CHR ''/'' cs") (auto simp: raw_parts_def)
qed simp

lemma raw_parts_noslash: "x \<in> set (raw_parts s) \<Longrightarrow> x \<noteq> [] \<and> CHR ''/'' \<notin> set x"
  by (auto simp: raw_parts_def dest: split_on_no_sep)

lemma path_body_append [simp]: "path_body (a @ b) = path_body a @ path_body b"
  by (simp add: path_body_def)

lemma path_body_Nil [simp]: "path_body [] = []"
  by (simp add: path_body_def)

lemma raw_parts_join:
  assumes "base \<noteq> []" "\<not> prefix ''/'' p"
  shows "raw_parts (path_join base p) = raw_parts base @ raw_parts p"
proof (cases "last base = CHR ''/''")
  case True
  with assms(1) obtain b where b: "base = b @ ''/''"
    by (metis append_butlast_last_id)
  have "raw_parts (b @ CHR ''/'' # p) = raw_parts b @ raw_parts p"
    by (rule raw_parts_sep)
  with b assms(2) show ?thesis
    by (simp add: path_join_def)
next
  case False
  then show ?thesis using assms by (simp add: path_join_def raw_parts_sep)
qed

lemma root_join: "base \<noteq> [] \<Longrightarrow> \<not> prefix ''/'' p \<Longrightarrow>
    prefix ''/'' (path_join base p) \<longleftrightarrow> prefix ''/'' base"
  by (cases base) (auto simp: path_join_def)

lemma components_join:
  assumes "base \<noteq> []" "\<not> prefix ''/'' p"
  shows "path_components (path_join base p) = path_components base @ path_body (raw_parts p)"
proof (cases "prefix ''/'' base")
  case True
  then show ?thesis
    using assms by (simp add: path_components_def root_join raw_parts_join)
next
  case False
  with assms obtain x xs where "raw_parts base = x # xs"
    using raw_parts_ne by (cases "raw_parts base") auto
  then show ?thesis
    using False assms
    by (simp add: path_components_def root_join raw_parts_join) (simp add: path_body_def)
qed

lemma path_starts_with_refl [simp]: "path_starts_with p p"
  by (simp add: path_starts_with_def)

lemma path_starts_with_trans:
  "path_starts_with a b \<Longrightarrow> path_starts_with b c \<Longrightarrow> path_starts_with a c"
  by (auto simp: path_starts_with_def dest: prefix_order.trans)

lemma join_starts_with:
  "base \<noteq> [] \<Longrightarrow> \<not> prefix ''/'' p \<Longrightarrow> path_starts_with (path_join base p) base"
  by (simp add: path_starts_with_def components_join)

text \<open>Clean names: what a directory listing returns.\<close>

definition clean_name :: "string \<Rightarrow> bool" where
  "clean_name n \<longleftrightarrow> n \<noteq> [] \<and> CHR ''/'' \<notin> set n \<and> n \<noteq> ''.'' \<and> n \<noteq> ''..''"

lemma raw_parts_names:
  assumes "\<forall>n\<in>set ns. clean_name n"
  shows "raw_parts (join_with ''/'' ns) = ns"
proof (cases "ns = []")
  case True
  then show ?thesis by simp
next
  case False
  have "split_on CHR ''/'' (join_with ''/'' ns) = ns"
    using False assms by (intro split_join) (auto simp: clean_name_def)
  moreover have "filter (\<lambda>p. p \<noteq> []) ns = ns"
    using assms by (intro filter_True) (auto simp: clean_name_def)
  ultimately show ?thesis by (simp add: raw_parts_def)
qed

lemma path_body_names:
  "\<forall>n\<in>set ns. clean_name n \<Longrightarrow> path_body ns = map Normal ns"
proof -
  assume clean: "\<forall>n\<in>set ns. clean_name n"
  then have "filter (\<lambda>p. p \<noteq> ''.'') ns = ns"
    by (intro filter_True) (auto simp: clean_name_def)
  moreover have "map component_of ns = map Normal ns"
    using clean by (auto simp: clean_name_def component_of_def)
  ultimately show ?thesis by (simp add: path_body_def)
qed

lemma join_names_relative:
  assumes "\<forall>n\<in>set ns. clean_name n"
  shows "\<not> prefix ''/'' (join_with ''/'' ns)"
proof (cases ns)
  case (Cons n ms)
  with assms obtain c cs where "n = c # cs" "c \<noteq> CHR ''/''"
    by (cases n) (auto simp: clean_name_def)
  with Cons show ?thesis by (cases ms) auto
qed simp

lemma components_join_names:
  assumes "base \<noteq> []" "\<forall>n\<in>set ns. clean_name n"
  shows "path_components (path_join base (join_with ''/'' ns)) = path_components base @ map Normal ns"
  using assms by (simp add: components_join join_names_relative raw_parts_names path_body_names)

lemma path_text_names: "path_text (map Normal ns) = join_with ''/'' ns"
  by (cases ns) (simp_all add: comp_def)

lemma strip_prefix_join_names:
  assumes "base \<noteq> []" "\<forall>n\<in>set ns. clean_name n"
  shows "path_strip_prefix (path_join base (join_with ''/'' ns)) base = Some (join_with ''/'' ns)"
  using assms
  by (simp add: path_strip_prefix_def join_starts_with join_names_relative components_join_names
      path_text_names)

lemma file_name_join_names:
  assumes "base \<noteq> []" "\<forall>n\<in>set ns. clean_name n" "clean_name n"
  shows "path_file_name (path_join base (join_with ''/'' (ns @ [n]))) = Some n"
proof -
  have "path_components (path_join base (join_with ''/'' (ns @ [n]))) =
      path_components base @ map Normal (ns @ [n])"
    using assms by (intro components_join_names) auto
  then show ?thesis by (simp add: path_file_name_def)
qed

end
