(* ===== verification/State_Store.thy ===== *)
theory State_Store
  imports Json Client_Error Paths
begin

text \<open>
  \<open>state.rs\<close>: the state database of the client over the embedded \<open>aeordb\<close> engine.  The engine
  is third-party code: its operations are the fields of \<open>engine\<close>, over an engine state of any
  type, with the JSON encoding of a file's bytes folded in (\<open>en_read\<close> is None when the read
  fails or the bytes are not JSON).  What the code relies on is \<open>engine_ok\<close>, stated over the
  view \<open>files\<close> of the engine's contents; \<open>mem_engine\<close> is an instance of it, used only to show
  that the hypotheses hold somewhere.
\<close>

section \<open>The engine\<close>

text \<open>The depth of \<open>MergeDepth::ReplaceBeyond\<close> is the third component of a patch.\<close>

type_synonym json_patch = "string \<times> json \<times> nat"

record 'e engine =
  en_ensure_root :: "'e \<Rightarrow> 'e \<times> (string + unit)"
  en_snapshots_enabled :: "'e \<Rightarrow> bool"
  en_disable_snapshots :: "'e \<Rightarrow> 'e \<times> (string + unit)"
  en_store :: "string \<Rightarrow> json \<Rightarrow> 'e \<Rightarrow> 'e \<times> (string + unit)"
  en_store_batch :: "(string \<times> json) list \<Rightarrow> 'e \<Rightarrow> 'e \<times> (string + unit)"
  en_merge_batch :: "json_patch list \<Rightarrow> 'e \<Rightarrow> 'e \<times> (string + unit)"
  en_merge :: "json_patch \<Rightarrow> 'e \<Rightarrow> 'e \<times> (string + unit)"
  en_read :: "string \<Rightarrow> 'e \<Rightarrow> json option"
  en_delete :: "string \<Rightarrow> 'e \<Rightarrow> 'e \<times> (string + unit)"
  en_exists :: "string \<Rightarrow> 'e \<Rightarrow> string + bool"
  en_list :: "string \<Rightarrow> 'e \<Rightarrow> string + string list"
  en_shutdown :: "'e \<Rightarrow> 'e \<times> (string + unit)"

definition map_server :: "string \<Rightarrow> 'e \<times> (string + 'a) \<Rightarrow> 'e \<times> 'a res" where
  "map_server message r =
     (case r of (e, v) \<Rightarrow> (e, map_err (\<lambda>error. Server (message @ '': '' @ error)) v))"

definition store_json :: "'e engine \<Rightarrow> string \<Rightarrow> json \<Rightarrow> 'e \<Rightarrow> 'e \<times> unit res" where
  "store_json en path v e =
     map_server (''failed to store '' @ path @ '' in state database'') (en_store en path v e)"

definition store_json_values_batch ::
  "'e engine \<Rightarrow> (string \<times> json) list \<Rightarrow> 'e \<Rightarrow> 'e \<times> unit res" where
  "store_json_values_batch en files e =
     (if files = [] then (e, Inr ())
      else map_server ''failed to store JSON batch in state database''
             (en_store_batch en files e))"

definition merge_json_files_batch ::
  "'e engine \<Rightarrow> json_patch list \<Rightarrow> 'e \<Rightarrow> 'e \<times> unit res" where
  "merge_json_files_batch en patches e =
     (if patches = [] then (e, Inr ())
      else map_server ''failed to merge JSON batch in state database''
             (en_merge_batch en patches e))"

definition merge_json_file :: "'e engine \<Rightarrow> json_patch \<Rightarrow> 'e \<Rightarrow> 'e \<times> unit res" where
  "merge_json_file en patch e =
     map_server (''failed to merge '' @ fst patch @ '' in state database'') (en_merge en patch e)"

definition state_exists :: "'e engine \<Rightarrow> string \<Rightarrow> 'e \<Rightarrow> bool res" where
  "state_exists en path e =
     map_err (\<lambda>error. Server (''failed to check existence of '' @ path @
         '' in state database: '' @ error)) (en_exists en path e)"

definition unwrap_or :: "'a \<Rightarrow> 'e + 'a \<Rightarrow> 'a" where
  "unwrap_or d r = (case r of Inl _ \<Rightarrow> d | Inr v \<Rightarrow> v)"

text \<open>\<open>read_json::<T>\<close>: \<open>of_json\<close> is the derived \<open>Deserialize\<close> of \<open>T\<close>.  A missing, unreadable or
  ill-typed file is None; the function never fails.\<close>

definition read_json :: "'e engine \<Rightarrow> (json \<Rightarrow> 'a option) \<Rightarrow> string \<Rightarrow> 'e \<Rightarrow> 'a option" where
  "read_json en of_json path e =
     (if \<not> unwrap_or False (state_exists en path e) then None
      else case en_read en path e of None \<Rightarrow> None | Some j \<Rightarrow> of_json j)"

definition state_delete :: "'e engine \<Rightarrow> string \<Rightarrow> 'e \<Rightarrow> 'e \<times> unit res" where
  "state_delete en path e =
     map_server (''failed to delete '' @ path @ '' from state database'') (en_delete en path e)"

definition list_directory :: "'e engine \<Rightarrow> string \<Rightarrow> 'e \<Rightarrow> string list" where
  "list_directory en path e = unwrap_or [] (en_list en path e)"

definition state_shutdown :: "'e engine \<Rightarrow> 'e \<Rightarrow> 'e \<times> unit res" where
  "state_shutdown en e = map_server ''failed to shut down state database'' (en_shutdown en e)"

section \<open>Opening the database\<close>

definition state_directories :: "string list" where
  "state_directories =
     [''/client/'', ''/sync/'', ''/sync/state/'', ''/sync/migrations/'', ''/sync/conflicts/'',
      ''/sync/activity/'', ''/sync/files-index/'', ''/sync/files-v2/'', ''/settings/'']"

definition ensure_directory_structure :: "'e engine \<Rightarrow> 'e \<Rightarrow> 'e \<times> unit res" where
  "ensure_directory_structure en =
     for_each (\<lambda>d e. if unwrap_or False (state_exists en d e) then (e, Inr ())
                     else store_json en (d @ ''/.keep'') (JObj []) e) state_directories"

definition disable_snapshot_writes :: "'e engine \<Rightarrow> 'e \<Rightarrow> 'e \<times> unit res" where
  "disable_snapshot_writes en e =
     (if \<not> en_snapshots_enabled en e then (e, Inr ())
      else case en_disable_snapshots en e of
             (e', r) \<Rightarrow> (e', map_err (\<lambda>error. Configuration
                 (''failed to disable snapshots for state database: '' @ error)) r))"

definition state_initialize :: "'e engine \<Rightarrow> 'e \<Rightarrow> 'e \<times> unit res" where
  "state_initialize en e =
     (case en_ensure_root en e of
        (e1, Inl error) \<Rightarrow>
          (e1, Inl (Configuration (''failed to initialize state database root: '' @ error)))
      | (e1, Inr _) \<Rightarrow>
          (case ensure_directory_structure en e1 of
             (e2, Inl error) \<Rightarrow> (e2, Inl error)
           | (e2, Inr _) \<Rightarrow> disable_snapshot_writes en e2))"

text \<open>The disk the database file lies on, over a disk state of any type.\<close>

record ('d, 'e) db_system =
  db_mkdirs :: "string \<Rightarrow> 'd \<Rightarrow> 'd \<times> (string + unit)"
  db_exists :: "string \<Rightarrow> 'd \<Rightarrow> bool"
  db_open :: "string \<Rightarrow> 'd \<Rightarrow> 'd \<times> (string + 'e)"
  db_create :: "string \<Rightarrow> 'd \<Rightarrow> 'd \<times> (string + 'e)"
  db_rename :: "string \<Rightarrow> string \<Rightarrow> 'd \<Rightarrow> 'd \<times> (string + unit)"
  db_remove :: "string \<Rightarrow> 'd \<Rightarrow> 'd \<times> (string + unit)"

definition backup_path :: "string \<Rightarrow> int \<Rightarrow> string" where
  "backup_path database_path now = database_path @ ''.corrupt.'' @ show_int now"

definition backup_and_recreate ::
  "('d, 'e) db_system \<Rightarrow> string \<Rightarrow> int \<Rightarrow> 'd \<Rightarrow> 'd \<times> 'e res" where
  "backup_and_recreate sys database_path now d =
     (let d1 = (case db_rename sys database_path (backup_path database_path now) d of
                  (d1, Inl _) \<Rightarrow> fst (db_remove sys database_path d1)
                | (d1, Inr _) \<Rightarrow> d1)
      in case db_create sys database_path d1 of
           (d2, r) \<Rightarrow> (d2, map_err (\<lambda>error. Configuration
               (''failed to recreate state database at '' @ database_path @ '': '' @ error)) r))"

definition open_engine ::
  "('d, 'e) db_system \<Rightarrow> string \<Rightarrow> int \<Rightarrow> 'd \<Rightarrow> 'd \<times> 'e res" where
  "open_engine sys database_path now d =
     (if db_exists sys database_path d then
        (case db_open sys database_path d of
           (d1, Inr e) \<Rightarrow> (d1, Inr e)
         | (d1, Inl _) \<Rightarrow> backup_and_recreate sys database_path now d1)
      else case db_create sys database_path d of
             (d1, r) \<Rightarrow> (d1, map_err (\<lambda>error. Configuration
                 (''failed to create state database at '' @ database_path @ '': '' @ error)) r))"

text \<open>\<open>open_or_create\<close>: initialise, retry once, and as the last resort recreate.\<close>

definition open_or_create ::
  "('d, 'e) db_system \<Rightarrow> 'e engine \<Rightarrow> string \<Rightarrow> int \<Rightarrow> 'd \<Rightarrow> 'd \<times> 'e res" where
  "open_or_create sys en database_path now d =
     (case (case path_parent database_path of
              Some parent \<Rightarrow> db_mkdirs sys parent d
            | None \<Rightarrow> (d, Inr ())) of
        (d1, Inl error) \<Rightarrow> (d1, Inl (Io error))
      | (d1, Inr _) \<Rightarrow>
          (case open_engine sys database_path now d1 of
             (d2, Inl error) \<Rightarrow> (d2, Inl error)
           | (d2, Inr e) \<Rightarrow>
               (case state_initialize en e of
                  (e1, Inr _) \<Rightarrow> (d2, Inr e1)
                | (e1, Inl _) \<Rightarrow>
                    (case state_initialize en e1 of
                       (e2, Inr _) \<Rightarrow> (d2, Inr e2)
                     | (e2, Inl _) \<Rightarrow>
                         (case backup_and_recreate sys database_path now d2 of
                            (d3, Inl error) \<Rightarrow> (d3, Inl error)
                          | (d3, Inr e3) \<Rightarrow>
                              (case state_initialize en e3 of
                                 (e4, Inl error) \<Rightarrow> (d3, Inl error)
                               | (e4, Inr _) \<Rightarrow> (d3, Inr e4)))))))"

section \<open>The client identity\<close>

record client_identity =
  ci_id :: string
  ci_name :: string

definition identity_to_json :: "client_identity \<Rightarrow> json" where
  "identity_to_json i = JObj [(''id'', JStr (ci_id i)), (''name'', JStr (ci_name i))]"

definition identity_of_json :: "json \<Rightarrow> client_identity option" where
  "identity_of_json j =
     (case (jget j ''id'', jget j ''name'') of
        (Some (JStr i), Some (JStr n)) \<Rightarrow> Some \<lparr>ci_id = i, ci_name = n\<rparr>
      | _ \<Rightarrow> None)"

definition get_or_create_identity ::
  "'e engine \<Rightarrow> string \<Rightarrow> string \<Rightarrow> 'e \<Rightarrow> 'e \<times> client_identity" where
  "get_or_create_identity en uuid hostname e =
     (case read_json en identity_of_json ''/client/identity.json'' e of
        Some i \<Rightarrow> (e, i)
      | None \<Rightarrow>
          (let i = \<lparr>ci_id = uuid, ci_name = hostname\<rparr>
           in (fst (store_json en ''/client/identity.json'' (identity_to_json i) e), i)))"

section \<open>What the code relies on\<close>

type_synonym files = "string \<Rightarrow> json option"

text \<open>The effect of one depth-2 merge on a file: an entry of an object of the patch replaces
  or (null) removes the entry, everything else of that object is kept, and a scalar field is
  set.\<close>

definition object_field :: "json \<Rightarrow> string \<Rightarrow> bool" where
  "object_field j a \<longleftrightarrow> (case jget j a of None \<Rightarrow> False | Some w \<Rightarrow> as_object w \<noteq> None)"

definition merged2 :: "json option \<Rightarrow> json \<Rightarrow> json option \<Rightarrow> bool" where
  "merged2 old patch new \<longleftrightarrow>
     (\<exists>m. new = Some (JObj m)) \<and>
     (\<forall>a v. jget patch a = Some v \<and> v \<noteq> JNull \<and> as_object v = None \<longrightarrow>
        jget (the new) a = Some v) \<and>
     (\<forall>a. jget patch a = None \<longrightarrow> jget (the new) a = (case old of None \<Rightarrow> None | Some o' \<Rightarrow> jget o' a)) \<and>
     (\<forall>a. object_field patch a \<longrightarrow>
        (\<exists>m. jget (the new) a = Some (JObj m) \<and> distinct (map fst m)) \<and>
        (\<forall>b. jget2 new a b =
           (case jget2 (Some patch) a b of
              None \<Rightarrow> jget2 old a b
            | Some v \<Rightarrow> if v = JNull then None else Some v)))"

text \<open>A patch is an object with distinct keys.\<close>

definition patch_ok :: "json \<Rightarrow> bool" where
  "patch_ok patch \<longleftrightarrow> as_object patch \<noteq> None \<and> jwf patch"

text \<open>A path in the engine's normal form: absolute, no empty inner segment.\<close>

definition plain :: "string \<Rightarrow> bool" where
  "plain p \<longleftrightarrow> (case split_on CHR ''/'' p of
      [] \<Rightarrow> False | s # ss \<Rightarrow> s = [] \<and> ss \<noteq> [] \<and> [] \<notin> set (butlast ss))"

text \<open>The identifier of a relationship or a connection, as a segment of such a path.\<close>

definition rel_ok :: "string \<Rightarrow> bool" where
  "rel_ok rel \<longleftrightarrow> rel \<noteq> [] \<and> CHR ''/'' \<notin> set rel"

definition law_store :: "'e engine \<Rightarrow> ('e \<Rightarrow> files) \<Rightarrow> bool" where
  "law_store en files \<longleftrightarrow> (\<forall>p v e e' u. plain p \<longrightarrow>
     en_store en p v e = (e', Inr u) \<longrightarrow> files e' = (files e)(p \<mapsto> v))"

definition law_store_batch :: "'e engine \<Rightarrow> ('e \<Rightarrow> files) \<Rightarrow> bool" where
  "law_store_batch en files \<longleftrightarrow> (\<forall>ps e e' u. (\<forall>q\<in>set ps. plain (fst q)) \<longrightarrow>
     en_store_batch en ps e = (e', Inr u) \<longrightarrow>
     files e' = fold (\<lambda>(p, v) f. f(p \<mapsto> v)) ps (files e))"

definition law_merge_batch :: "'e engine \<Rightarrow> ('e \<Rightarrow> files) \<Rightarrow> bool" where
  "law_merge_batch en files \<longleftrightarrow> (\<forall>ps e e' u.
     distinct (map fst ps) \<longrightarrow> (\<forall>q\<in>set ps. plain (fst q) \<and> patch_ok (fst (snd q)) \<and> snd (snd q) = 2) \<longrightarrow>
     en_merge_batch en ps e = (e', Inr u) \<longrightarrow>
     (\<forall>q\<in>set ps. merged2 (files e (fst q)) (fst (snd q)) (files e' (fst q))) \<and>
     (\<forall>p. p \<notin> fst ` set ps \<longrightarrow> files e' p = files e p))"

definition law_merge :: "'e engine \<Rightarrow> ('e \<Rightarrow> files) \<Rightarrow> bool" where
  "law_merge en files \<longleftrightarrow> (\<forall>p patch e e' u. plain p \<longrightarrow> patch_ok patch \<longrightarrow>
     en_merge en (p, patch, 2) e = (e', Inr u) \<longrightarrow>
     merged2 (files e p) patch (files e' p) \<and> (\<forall>q. q \<noteq> p \<longrightarrow> files e' q = files e q))"

definition law_read :: "'e engine \<Rightarrow> ('e \<Rightarrow> files) \<Rightarrow> bool" where
  "law_read en files \<longleftrightarrow> (\<forall>p e. plain p \<longrightarrow> en_read en p e = files e p)"

definition law_exists :: "'e engine \<Rightarrow> ('e \<Rightarrow> files) \<Rightarrow> bool" where
  "law_exists en files \<longleftrightarrow> (\<forall>p e. plain p \<longrightarrow>
     en_exists en p e =
       Inr (if ends_with p ''/'' then \<exists>q. files e q \<noteq> None \<and> strict_prefix p q
            else files e p \<noteq> None))"

definition law_list :: "'e engine \<Rightarrow> ('e \<Rightarrow> files) \<Rightarrow> bool" where
  "law_list en files \<longleftrightarrow> (\<forall>p e. plain p \<longrightarrow> ends_with p ''/'' \<longrightarrow>
     (\<exists>ns. en_list en p e = Inr ns \<and> distinct ns \<and>
        (\<forall>n. n \<in> set ns \<longleftrightarrow> n \<noteq> [] \<and> CHR ''/'' \<notin> set n \<and>
           (\<exists>q. files e q \<noteq> None \<and> (q = p @ n \<or> prefix (p @ n @ ''/'') q)))))"

definition law_delete :: "'e engine \<Rightarrow> ('e \<Rightarrow> files) \<Rightarrow> bool" where
  "law_delete en files \<longleftrightarrow> (\<forall>p e e' u. plain p \<longrightarrow>
     en_delete en p e = (e', Inr u) \<longrightarrow> files e' = (files e)(p := None))"

definition engine_ok :: "'e engine \<Rightarrow> ('e \<Rightarrow> files) \<Rightarrow> bool" where
  "engine_ok en files \<longleftrightarrow>
     law_store en files \<and> law_store_batch en files \<and> law_merge_batch en files \<and>
     law_merge en files \<and> law_read en files \<and> law_exists en files \<and> law_list en files \<and>
     law_delete en files"

lemma engine_store: "engine_ok en files \<Longrightarrow> plain p \<Longrightarrow> en_store en p v e = (e', Inr u) \<Longrightarrow>
    files e' = (files e)(p \<mapsto> v)"
  unfolding engine_ok_def law_store_def by blast

lemma engine_store_batch: "engine_ok en files \<Longrightarrow> \<forall>q\<in>set ps. plain (fst q) \<Longrightarrow>
    en_store_batch en ps e = (e', Inr u) \<Longrightarrow>
    files e' = fold (\<lambda>(p, v) f. f(p \<mapsto> v)) ps (files e)"
  unfolding engine_ok_def law_store_batch_def by blast

lemma engine_merge_batch:
  assumes "engine_ok en files" "en_merge_batch en ps e = (e', Inr u)" "distinct (map fst ps)"
    "\<forall>q\<in>set ps. plain (fst q) \<and> patch_ok (fst (snd q)) \<and> snd (snd q) = 2"
  shows "\<forall>q\<in>set ps. merged2 (files e (fst q)) (fst (snd q)) (files e' (fst q))"
    and "p \<notin> fst ` set ps \<Longrightarrow> files e' p = files e p"
  using assms unfolding engine_ok_def law_merge_batch_def by blast+

lemma engine_merge:
  assumes "engine_ok en files" "plain p" "patch_ok patch"
    "en_merge en (p, patch, 2) e = (e', Inr u)"
  shows "merged2 (files e p) patch (files e' p)" and "q \<noteq> p \<Longrightarrow> files e' q = files e q"
  using assms unfolding engine_ok_def law_merge_def by blast+

lemma engine_read: "engine_ok en files \<Longrightarrow> plain p \<Longrightarrow> en_read en p e = files e p"
  unfolding engine_ok_def law_read_def by blast

lemma engine_exists: "engine_ok en files \<Longrightarrow> plain p \<Longrightarrow> \<not> ends_with p ''/'' \<Longrightarrow>
    en_exists en p e = Inr (files e p \<noteq> None)"
  unfolding engine_ok_def law_exists_def by simp

lemma engine_exists_dir: "engine_ok en files \<Longrightarrow> plain p \<Longrightarrow> ends_with p ''/'' \<Longrightarrow>
    en_exists en p e = Inr (\<exists>q. files e q \<noteq> None \<and> strict_prefix p q)"
  unfolding engine_ok_def law_exists_def by simp

lemma engine_list:
  assumes "engine_ok en files" "plain p" "ends_with p ''/''"
  obtains ns where "en_list en p e = Inr ns" "distinct ns"
    "\<And>n. n \<in> set ns \<longleftrightarrow> n \<noteq> [] \<and> CHR ''/'' \<notin> set n \<and>
       (\<exists>q. files e q \<noteq> None \<and> (q = p @ n \<or> prefix (p @ n @ ''/'') q))"
  using assms unfolding engine_ok_def law_list_def by blast

lemma engine_delete: "engine_ok en files \<Longrightarrow> plain p \<Longrightarrow> en_delete en p e = (e', Inr u) \<Longrightarrow>
    files e' = (files e)(p := None)"
  unfolding engine_ok_def law_delete_def by blast

section \<open>Lemmas\<close>

lemma map_server_Inr: "map_server m r = (e', Inr v) \<longleftrightarrow> r = (e', Inr v)"
  by (cases r; cases "snd r") (auto simp: map_server_def)

lemma fst_map_server [simp]: "fst (map_server m r) = fst r"
  by (simp add: map_server_def split: prod.splits)

lemma store_json_files:
  "engine_ok en files \<Longrightarrow> plain p \<Longrightarrow> store_json en p v e = (e', Inr u) \<Longrightarrow>
    files e' = (files e)(p \<mapsto> v)"
  unfolding store_json_def map_server_Inr by (rule engine_store)

lemma read_json_files:
  assumes "engine_ok en files" "plain p" "\<not> ends_with p ''/''"
  shows "read_json en of_json p e = (case files e p of None \<Rightarrow> None | Some j \<Rightarrow> of_json j)"
  by (simp add: read_json_def state_exists_def engine_exists [OF assms]
      engine_read [OF assms(1,2)] unwrap_or_def split: option.splits)

lemma state_exists_files:
  "engine_ok en files \<Longrightarrow> plain p \<Longrightarrow> \<not> ends_with p ''/'' \<Longrightarrow>
    state_exists en p e = Inr (files e p \<noteq> None)"
  unfolding state_exists_def by (subst engine_exists) simp_all

lemma state_delete_files:
  "engine_ok en files \<Longrightarrow> plain p \<Longrightarrow> state_delete en p e = (e', Inr u) \<Longrightarrow>
    files e' = (files e)(p := None)"
  unfolding state_delete_def map_server_Inr by (rule engine_delete)

lemma store_json_values_batch_files:
  assumes "engine_ok en files" "\<forall>q\<in>set ps. plain (fst q)"
    "store_json_values_batch en ps e = (e', Inr u)"
  shows "files e' = fold (\<lambda>(p, v) f. f(p \<mapsto> v)) ps (files e)"
proof (cases "ps = []")
  case True
  with assms(3) show ?thesis by (simp add: store_json_values_batch_def)
next
  case False
  with assms(3) have "en_store_batch en ps e = (e', Inr u)"
    by (simp add: store_json_values_batch_def map_server_Inr)
  with assms show ?thesis by (blast intro: engine_store_batch)
qed

text \<open>A file of the database that holds a value of a type with a codec.\<close>

context json_codec
begin

lemma stored_is_read:
  assumes "engine_ok en files" "plain p" "\<not> ends_with p ''/''"
    "store_json en p (enc x) e = (e', Inr u)" "wf x"
  shows "read_json en dec p e' = Some x"
  using dec_enc [OF assms(5)] store_json_files [OF assms(1,2,4)]
  by (simp add: read_json_files [OF assms(1-3)])

lemma store_keeps_others:
  assumes "engine_ok en files" "plain p" "store_json en p (enc x) e = (e', Inr u)"
    "plain q" "\<not> ends_with q ''/''" "q \<noteq> p"
  shows "read_json en conv q e' = read_json en conv q e"
  using store_json_files [OF assms(1-3)] assms(6) by (simp add: read_json_files [OF assms(1,4,5)])

end

lemma fold_upd_get:
  "fold (\<lambda>(p, v) f. f(p \<mapsto> v)) ps f q = (case map_of (rev ps) q of None \<Rightarrow> f q | Some v \<Rightarrow> Some v)"
  by (induction ps arbitrary: f) (auto simp: map_add_def split: option.splits)

interpretation identity: json_codec identity_to_json identity_of_json "\<lambda>i. True"
  by unfold_locales (simp add: identity_of_json_def identity_to_json_def)

section \<open>An engine in memory\<close>

text \<open>An association list of files; every operation succeeds.\<close>

definition mem_object :: "json option \<Rightarrow> (string \<times> json) list" where
  "mem_object j = (case j of Some (JObj m) \<Rightarrow> AList.clearjunk m | _ \<Rightarrow> [])"

definition mem_entries :: "(string \<times> json) list \<Rightarrow> (string \<times> json) list \<Rightarrow> (string \<times> json) list" where
  "mem_entries = fold (\<lambda>(b, v) m. if v = JNull then hremove b m else hinsert b v m)"

definition mem_fields :: "(string \<times> json) list \<Rightarrow> (string \<times> json) list \<Rightarrow> (string \<times> json) list" where
  "mem_fields = fold (\<lambda>(a, v) m. case v of
      JNull \<Rightarrow> hremove a m
    | JObj qs \<Rightarrow> hinsert a (JObj (mem_entries qs (mem_object (hget m a)))) m
    | _ \<Rightarrow> hinsert a v m)"

definition mem_merge1 :: "json option \<Rightarrow> json \<Rightarrow> json" where
  "mem_merge1 old patch =
     (case patch of JObj ps \<Rightarrow> JObj (mem_fields ps (mem_object old)) | _ \<Rightarrow> patch)"

definition mem_apply :: "json_patch \<Rightarrow> (string, json) hmap \<Rightarrow> (string, json) hmap" where
  "mem_apply q m = hinsert (fst q) (mem_merge1 (hget m (fst q)) (fst (snd q))) m"

definition mem_names :: "string \<Rightarrow> string list \<Rightarrow> string list" where
  "mem_names d qs =
     remdups (filter (\<lambda>n. n \<noteq> [])
       (map (\<lambda>q. takeWhile (\<lambda>c. c \<noteq> CHR ''/'') (drop (length d) q)) (filter (prefix d) qs)))"

definition mem_engine :: "(string, json) hmap engine" where
  "mem_engine =
     \<lparr>en_ensure_root = (\<lambda>m. (m, Inr ())),
      en_snapshots_enabled = (\<lambda>m. False),
      en_disable_snapshots = (\<lambda>m. (m, Inr ())),
      en_store = (\<lambda>p v m. (hinsert p v m, Inr ())),
      en_store_batch = (\<lambda>ps m. (fold (\<lambda>(p, v). hinsert p v) ps m, Inr ())),
      en_merge_batch = (\<lambda>ps m. (fold mem_apply ps m, Inr ())),
      en_merge = (\<lambda>q m. (mem_apply q m, Inr ())),
      en_read = (\<lambda>p m. hget m p),
      en_delete = (\<lambda>p m. (hremove p m, Inr ())),
      en_exists = (\<lambda>p m. Inr (if ends_with p ''/'' then list_ex (strict_prefix p) (hkeys m)
                              else hget m p \<noteq> None)),
      en_list = (\<lambda>p m. Inr (mem_names p (hkeys m))),
      en_shutdown = (\<lambda>m. (m, Inr ()))\<rparr>"

lemma mem_entries_get:
  assumes "distinct (map fst qs)"
  shows "hget (mem_entries qs m) b =
    (case hget qs b of None \<Rightarrow> hget m b | Some v \<Rightarrow> if v = JNull then None else Some v)"
  using assms
proof (induction qs arbitrary: m)
  case Nil
  then show ?case by (simp add: mem_entries_def)
next
  case (Cons q qs)
  obtain n v where q: "q = (n, v)" by (cases q)
  with Cons.prems have dist: "distinct (map fst qs)" and fresh: "hget qs n = None"
    by (auto simp: map_of_eq_None_iff)
  show ?case
    using Cons.IH [OF dist] fresh
    by (auto simp: q mem_entries_def split: option.splits)
qed

lemma mem_entries_distinct:
  "distinct (map fst m) \<Longrightarrow> distinct (map fst (mem_entries qs m))"
  by (induction qs arbitrary: m) (auto simp: mem_entries_def distinct_update distinct_delete)

definition mem_field :: "json option \<Rightarrow> json \<Rightarrow> json option" where
  "mem_field old v = (case v of
      JNull \<Rightarrow> None
    | JObj qs \<Rightarrow> Some (JObj (mem_entries qs (mem_object old)))
    | _ \<Rightarrow> Some v)"

lemma mem_fields_get:
  assumes "distinct (map fst qs)"
  shows "hget (mem_fields qs m) a =
    (case hget qs a of None \<Rightarrow> hget m a | Some v \<Rightarrow> mem_field (hget m a) v)"
  using assms
proof (induction qs arbitrary: m)
  case Nil
  then show ?case by (simp add: mem_fields_def)
next
  case (Cons q qs)
  obtain n v where q: "q = (n, v)" by (cases q)
  with Cons.prems have dist: "distinct (map fst qs)" and fresh: "hget qs n = None"
    by (auto simp: map_of_eq_None_iff)
  define m1 where "m1 = (case v of
      JNull \<Rightarrow> hremove n m
    | JObj qs \<Rightarrow> hinsert n (JObj (mem_entries qs (mem_object (hget m n)))) m
    | _ \<Rightarrow> hinsert n v m)"
  have m1: "hget m1 = (hget m)(n := mem_field (hget m n) v)"
    by (cases v) (simp_all add: m1_def mem_field_def)
  have "mem_fields (q # qs) m = mem_fields qs m1"
    by (simp add: q mem_fields_def m1_def)
  with Cons.IH [OF dist, of m1] fresh show ?case
    by (auto simp: q m1 split: option.splits)
qed

lemma mem_object_get: "hget (mem_object j) a = (case j of None \<Rightarrow> None | Some v \<Rightarrow> jget v a)"
  by (simp add: mem_object_def jget_def map_of_clearjunk split: option.splits json.splits)

lemma mem_merge1_get:
  assumes "distinct (map fst ps)" "\<forall>p\<in>set ps. jwf (snd p)"
  shows "jget (mem_merge1 old (JObj ps)) a = (case hget ps a of
      None \<Rightarrow> (case old of None \<Rightarrow> None | Some v \<Rightarrow> jget v a)
    | Some v \<Rightarrow> mem_field (case old of None \<Rightarrow> None | Some v \<Rightarrow> jget v a) v)"
  using assms by (simp add: mem_merge1_def mem_fields_get mem_object_get split: option.split)

text \<open>A field of the patch that is an object is merged entry by entry.\<close>

lemma mem_merge1_object:
  assumes ps: "distinct (map fst ps)" "\<forall>p\<in>set ps. jwf (snd p)" and field: "object_field (JObj ps) a"
  shows "\<exists>m. jget (mem_merge1 old (JObj ps)) a = Some (JObj m) \<and> distinct (map fst m)"
    and "jget2 (Some (mem_merge1 old (JObj ps))) a b =
      (case jget2 (Some (JObj ps)) a b of
         None \<Rightarrow> jget2 old a b | Some v \<Rightarrow> if v = JNull then None else Some v)"
proof -
  from field obtain qs where qs: "hget ps a = Some (JObj qs)"
    by (auto simp: object_field_def as_object_def split: option.splits json.splits)
  then have "(a, JObj qs) \<in> set ps" by (rule map_of_SomeD)
  with ps have dist: "distinct (map fst qs)" by fastforce
  let ?x = "case old of None \<Rightarrow> None | Some v \<Rightarrow> jget v a"
  have r: "jget (mem_merge1 old (JObj ps)) a = Some (JObj (mem_entries qs (mem_object ?x)))"
    using qs by (simp add: mem_merge1_get [OF ps] mem_field_def)
  have d: "distinct (map fst (mem_object ?x))"
    by (simp add: mem_object_def split: option.splits json.splits)
  with r show "\<exists>m. jget (mem_merge1 old (JObj ps)) a = Some (JObj m) \<and> distinct (map fst m)"
    by (simp add: mem_entries_distinct)
  have "hget (mem_object ?x) b = jget2 old a b"
    by (simp add: mem_object_get jget2_def split: option.splits)
  then show "jget2 (Some (mem_merge1 old (JObj ps))) a b =
      (case jget2 (Some (JObj ps)) a b of
         None \<Rightarrow> jget2 old a b | Some v \<Rightarrow> if v = JNull then None else Some v)"
    using r qs by (simp add: jget2_def mem_entries_get [OF dist] mem_object_get split: option.split)
qed

lemma mem_merged2:
  assumes "patch_ok patch"
  shows "merged2 old patch (Some (mem_merge1 old patch))"
proof -
  from assms obtain ps where ps: "patch = JObj ps" "distinct (map fst ps)" "\<forall>p\<in>set ps. jwf (snd p)"
    by (cases patch) (auto simp: patch_ok_def as_object_def list_all_iff)
  note get = mem_merge1_get [OF ps(2,3), of old, folded ps(1)]
  have scalar: "mem_field x v = Some v" if "v \<noteq> JNull" "as_object v = None" for x v
    using that by (cases v) (simp_all add: mem_field_def as_object_def)
  show ?thesis
    unfolding merged2_def
  proof (intro conjI allI impI)
    show "\<exists>m. Some (mem_merge1 old patch) = Some (JObj m)"
      using ps by (simp add: mem_merge1_def)
  next
    fix a v
    assume v: "jget patch a = Some v \<and> v \<noteq> JNull \<and> as_object v = None"
    then have "hget ps a = Some v" unfolding ps(1) jget_JObj by blast
    then show "jget (the (Some (mem_merge1 old patch))) a = Some v"
      unfolding option.sel get using v scalar by simp
  next
    fix a
    assume "jget patch a = None"
    then have "hget ps a = None" unfolding ps(1) jget_JObj by blast
    then show "jget (the (Some (mem_merge1 old patch))) a =
        (case old of None \<Rightarrow> None | Some o' \<Rightarrow> jget o' a)"
      unfolding option.sel get by simp
  next
    fix a
    assume field: "object_field patch a"
    note merged = mem_merge1_object [OF ps(2,3) field [unfolded ps(1)], of old, folded ps(1)]
    show "\<exists>m. jget (the (Some (mem_merge1 old patch))) a = Some (JObj m) \<and> distinct (map fst m)"
      using merged(1) by simp
    show "jget2 (Some (mem_merge1 old patch)) a b =
        (case jget2 (Some patch) a b of None \<Rightarrow> jget2 old a b
         | Some v \<Rightarrow> if v = JNull then None else Some v)" for b by (rule merged(2))
  qed
qed

lemma mem_apply_get: "hget (mem_apply q m) = (hget m)(fst q \<mapsto> mem_merge1 (hget m (fst q)) (fst (snd q)))"
  by (simp add: mem_apply_def)

lemma mem_batch_get:
  assumes "distinct (map fst ps)"
  shows "(\<forall>q\<in>set ps. hget (fold mem_apply ps m) (fst q) =
            Some (mem_merge1 (hget m (fst q)) (fst (snd q)))) \<and>
         (\<forall>p. p \<notin> fst ` set ps \<longrightarrow> hget (fold mem_apply ps m) p = hget m p)"
  using assms
proof (induction ps arbitrary: m)
  case Nil
  then show ?case by simp
next
  case (Cons q ps)
  then have dist: "distinct (map fst ps)" and fresh: "fst q \<notin> fst ` set ps" by simp_all
  note ih = Cons.IH [OF dist, of "mem_apply q m"]
  have "hget (fold mem_apply (q # ps) m) (fst q) = Some (mem_merge1 (hget m (fst q)) (fst (snd q)))"
    using ih fresh by (simp add: mem_apply_get)
  moreover have "hget (fold mem_apply (q # ps) m) (fst r) =
      Some (mem_merge1 (hget m (fst r)) (fst (snd r)))" if "r \<in> set ps" for r
  proof -
    from that have "fst r \<in> fst ` set ps" by simp
    with fresh have "fst r \<noteq> fst q" by metis
    with ih that show ?thesis by (simp add: mem_apply_get)
  qed
  moreover have "hget (fold mem_apply (q # ps) m) p = hget m p" if "p \<notin> fst ` set (q # ps)" for p
    using ih that by (simp add: mem_apply_get)
  ultimately show ?case by simp
qed

lemma hget_fold_hinsert:
  "hget (fold (\<lambda>(p, v). hinsert p v) ps m) = fold (\<lambda>(p, v) f. f(p \<mapsto> v)) ps (hget m)"
  by (induction ps arbitrary: m) (auto simp: split_beta)

lemma mem_names_in:
  "n \<in> set (mem_names d qs) \<longleftrightarrow> n \<noteq> [] \<and> CHR ''/'' \<notin> set n \<and>
     (\<exists>q\<in>set qs. q = d @ n \<or> prefix (d @ n @ ''/'') q)"
proof -
  have "(\<exists>q\<in>set qs. prefix d q \<and> n = takeWhile (\<lambda>c. c \<noteq> CHR ''/'') (drop (length d) q)) \<longleftrightarrow>
      CHR ''/'' \<notin> set n \<and> (\<exists>q\<in>set qs. q = d @ n \<or> prefix (d @ n @ ''/'') q)"
    (is "?l \<longleftrightarrow> ?r")
  proof
    assume ?l
    then obtain q r where q: "q \<in> set qs" "q = d @ r" "n = takeWhile (\<lambda>c. c \<noteq> CHR ''/'') r"
      by (auto simp: prefix_def)
    have split: "r = n @ dropWhile (\<lambda>c. c \<noteq> CHR ''/'') r" using q by simp
    have "CHR ''/'' \<notin> set n" using q by (auto dest: set_takeWhileD)
    moreover have "q = d @ n \<or> prefix (d @ n @ ''/'') q"
    proof (cases "dropWhile (\<lambda>c. c \<noteq> CHR ''/'') r")
      case Nil
      with split q show ?thesis by simp
    next
      case (Cons c cs)
      then have "c = CHR ''/''" by (meson dropWhile_eq_Cons_conv)
      with Cons split q show ?thesis by (metis append.assoc append_Cons append_Nil prefixI)
    qed
    ultimately show ?r using q by blast
  next
    assume ?r
    then obtain q where q: "CHR ''/'' \<notin> set n" "q \<in> set qs"
      "q = d @ n \<or> prefix (d @ n @ ''/'') q" by blast
    then obtain r where "q = d @ n @ r" "r = [] \<or> hd r = CHR ''/''"
      by (auto simp: prefix_def)
    moreover have "n = takeWhile (\<lambda>c. c \<noteq> CHR ''/'') (n @ r)" if "r = [] \<or> hd r = CHR ''/''" for r
      using q(1) that by (induction n) (auto, cases r, auto)
    ultimately have "prefix d q \<and> n = takeWhile (\<lambda>c. c \<noteq> CHR ''/'') (drop (length d) q)"
      by (metis append_eq_conv_conj prefixI)
    with q(2) show ?l by blast
  qed
  then show ?thesis by (auto simp: mem_names_def)
qed

lemma mem_merge_batch: "law_merge_batch mem_engine hget"
  unfolding law_merge_batch_def
proof (intro allI impI)
  fix ps :: "json_patch list" and e e' u
  assume dist: "distinct (map fst ps)"
    and ok: "\<forall>q\<in>set ps. plain (fst q) \<and> patch_ok (fst (snd q)) \<and> snd (snd q) = 2"
    and "en_merge_batch mem_engine ps e = (e', Inr u)"
  then have e': "e' = fold mem_apply ps e" by (simp add: mem_engine_def)
  note get = mem_batch_get [OF dist, of e]
  have "merged2 (hget e (fst q)) (fst (snd q)) (hget e' (fst q))" if "q \<in> set ps" for q
  proof -
    have "hget e' (fst q) = Some (mem_merge1 (hget e (fst q)) (fst (snd q)))"
      using get that unfolding e' by blast
    moreover have "patch_ok (fst (snd q))" using ok that by blast
    ultimately show ?thesis by (simp add: mem_merged2)
  qed
  then show "(\<forall>q\<in>set ps. merged2 (hget e (fst q)) (fst (snd q)) (hget e' (fst q))) \<and>
      (\<forall>p. p \<notin> fst ` set ps \<longrightarrow> hget e' p = hget e p)"
    using get unfolding e' by blast
qed

lemma mem_list: "law_list mem_engine hget"
  unfolding law_list_def
proof (intro allI impI)
  fix p and e :: "(string, json) hmap"
  have "distinct (mem_names p (hkeys e))" by (simp add: mem_names_def)
  moreover have "n \<in> set (mem_names p (hkeys e)) \<longleftrightarrow> n \<noteq> [] \<and> CHR ''/'' \<notin> set n \<and>
      (\<exists>q. hget e q \<noteq> None \<and> (q = p @ n \<or> prefix (p @ n @ ''/'') q))" for n
    unfolding mem_names_in hget_None_hkeys by blast
  ultimately show "\<exists>ns. en_list mem_engine p e = Inr ns \<and> distinct ns \<and>
        (\<forall>n. n \<in> set ns \<longleftrightarrow> n \<noteq> [] \<and> CHR ''/'' \<notin> set n \<and>
           (\<exists>q. hget e q \<noteq> None \<and> (q = p @ n \<or> prefix (p @ n @ ''/'') q)))"
    by (simp add: mem_engine_def)
qed

lemma mem_engine_ok: "engine_ok mem_engine hget"
  unfolding engine_ok_def
proof (intro conjI mem_merge_batch mem_list)
  show "law_merge mem_engine hget"
    unfolding law_merge_def mem_engine_def using mem_merged2 by (auto simp: mem_apply_def)
  show "law_exists mem_engine hget"
    by (auto simp: law_exists_def mem_engine_def list_ex_iff hget_None_hkeys)
qed (auto simp: law_store_def law_store_batch_def law_read_def law_delete_def mem_engine_def
    hget_fold_hinsert)

section \<open>Properties\<close>

text \<open>The identity of a client is stable: what the first call returned, the next call returns
  from the database, whatever identifier and host name it is then offered.\<close>

theorem identity_is_stable:
  assumes "engine_ok en files"
    and "store_json en ''/client/identity.json'' (identity_to_json
      (snd (get_or_create_identity en uuid host e))) e = (e1, Inr u)"
    and "get_or_create_identity en uuid host e = (e', i)"
  shows "get_or_create_identity en uuid' host' e' = (e', i)"
proof -
  have plain: "plain ''/client/identity.json''" by code_simp
  have not_dir: "\<not> ends_with ''/client/identity.json'' ''/''" by code_simp
  show ?thesis
  proof (cases "read_json en identity_of_json ''/client/identity.json'' e")
    case (Some j)
    with assms(3) show ?thesis by (auto simp: get_or_create_identity_def)
  next
    case None
    with assms(2,3) have "e' = e1" "store_json en ''/client/identity.json'' (identity_to_json i) e = (e1, Inr u)"
      by (auto simp: get_or_create_identity_def Let_def)
    with identity.stored_is_read [OF assms(1) plain not_dir this(2)] show ?thesis
      by (simp add: get_or_create_identity_def)
  qed
qed

lemma identity_is_stable_witness:
  "get_or_create_identity mem_engine ''u2'' ''other''
     (fst (get_or_create_identity mem_engine ''u1'' ''host'' [])) =
   get_or_create_identity mem_engine ''u1'' ''host''
     (fst (get_or_create_identity mem_engine ''u1'' ''host'' []))"
proof -
  let ?i = "snd (get_or_create_identity mem_engine ''u1'' ''host'' [])"
  have "is_ok (snd (store_json mem_engine ''/client/identity.json'' (identity_to_json ?i) []))"
    by code_simp
  then obtain e1 u where
    st: "store_json mem_engine ''/client/identity.json'' (identity_to_json ?i) [] = (e1, Inr u)"
    by (cases "store_json mem_engine ''/client/identity.json'' (identity_to_json ?i) []";
        cases "snd (store_json mem_engine ''/client/identity.json'' (identity_to_json ?i) [])") auto
  obtain e' i where run: "get_or_create_identity mem_engine ''u1'' ''host'' [] = (e', i)" by force
  from identity_is_stable [OF mem_engine_ok st run] run show ?thesis by simp
qed

end
