(* ===== verification/Activity_Log.thy ===== *)
theory Activity_Log
  imports State_Store "HOL-Library.List_Lexorder" "HOL-Library.Char_ord"
begin

text \<open>
  The event log of \<open>sync/activity.rs\<close>: every event but a progress report is a file of the state
  database, the newest hundred are also in an index file, and the latest progress report of a
  relationship is kept in memory.  Clock and identifiers are part of the event.
\<close>

section \<open>Events\<close>

record sync_event =
  ev_id :: string
  ev_relationship_id :: string
  ev_relationship_name :: string
  ev_event_type :: string
  ev_summary :: string
  ev_files_affected :: nat
  ev_bytes_transferred :: nat
  ev_duration_ms :: nat
  ev_errors :: "string list"
  ev_progress_percent :: "string option"
  ev_timestamp :: int

text \<open>A floating-point field accepts an integer too; null and a missing field are None, and None
  is not written.\<close>

definition as_f64 :: "json \<Rightarrow> string option" where
  "as_f64 j = (case j of
      JFloat s \<Rightarrow> Some s | JInt i \<Rightarrow> Some (show_int i @ ''.0'') | _ \<Rightarrow> None)"

definition event_to_json :: "sync_event \<Rightarrow> json" where
  "event_to_json v =
     JObj ([(''id'', JStr (ev_id v)), (''relationship_id'', JStr (ev_relationship_id v)),
            (''relationship_name'', JStr (ev_relationship_name v)),
            (''event_type'', JStr (ev_event_type v)), (''summary'', JStr (ev_summary v)),
            (''files_affected'', JInt (int (ev_files_affected v))),
            (''bytes_transferred'', JInt (int (ev_bytes_transferred v))),
            (''duration_ms'', JInt (int (ev_duration_ms v))),
            (''errors'', JArr (map JStr (ev_errors v)))] @
           (case ev_progress_percent v of
              None \<Rightarrow> [] | Some p \<Rightarrow> [(''progress_percent'', JFloat p)]) @
           [(''timestamp'', JInt (ev_timestamp v))])"

definition event_of_json :: "json \<Rightarrow> sync_event option" where
  "event_of_json j =
     (case (field as_str j ''id'', field as_str j ''relationship_id'',
            field as_str j ''relationship_name'', field as_str j ''event_type'',
            field as_str j ''summary'') of
        (Some i, Some r, Some n, Some t, Some s) \<Rightarrow>
          (case (field as_u64 j ''files_affected'', field as_u64 j ''bytes_transferred'',
                 field as_u64 j ''duration_ms'', list_field as_str j ''errors'',
                 opt_field as_f64 j ''progress_percent'', field as_i64 j ''timestamp'') of
             (Some f, Some b, Some d, Some es, Some p, Some ts) \<Rightarrow>
               Some \<lparr>ev_id = i, ev_relationship_id = r, ev_relationship_name = n,
                     ev_event_type = t, ev_summary = s, ev_files_affected = f,
                     ev_bytes_transferred = b, ev_duration_ms = d, ev_errors = es,
                     ev_progress_percent = p, ev_timestamp = ts\<rparr>
           | _ \<Rightarrow> None)
      | _ \<Rightarrow> None)"

definition events_to_json :: "sync_event list \<Rightarrow> json" where
  "events_to_json es = JArr (map event_to_json es)"

definition events_of_json :: "json \<Rightarrow> sync_event list option" where
  "events_of_json j = Option.bind (as_array j) (list_of_json event_of_json)"

section \<open>Order\<close>

text \<open>The order of the list: by timestamp, then by id, both descending.  Its key is an instance
  of \<open>linorder\<close>, so that the stable sort of the code is \<open>sort_key\<close>.\<close>

datatype event_key = Event_Key (key_time: int) (key_id: string)

instantiation event_key :: linorder
begin

definition less_eq_event_key :: "event_key \<Rightarrow> event_key \<Rightarrow> bool" where
  "less_eq_event_key a b \<longleftrightarrow>
     key_time b < key_time a \<or> key_time a = key_time b \<and> key_id b \<le> key_id a"

definition less_event_key :: "event_key \<Rightarrow> event_key \<Rightarrow> bool" where
  "less_event_key a b \<longleftrightarrow>
     key_time b < key_time a \<or> key_time a = key_time b \<and> key_id b < key_id a"

instance
  by standard (auto simp: less_eq_event_key_def less_event_key_def event_key.expand)

end

definition event_key :: "sync_event \<Rightarrow> event_key" where
  "event_key v = Event_Key (ev_timestamp v) (ev_id v)"

text \<open>\<open>retain\<close> with the set of the ids seen.\<close>

fun dedupe_by :: "('a \<Rightarrow> 'b) \<Rightarrow> 'b list \<Rightarrow> 'a list \<Rightarrow> 'a list" where
  "dedupe_by f seen [] = []"
| "dedupe_by f seen (x # xs) =
     (if f x \<in> set seen then dedupe_by f seen xs else x # dedupe_by f (f x # seen) xs)"

definition sort_dedupe_truncate :: "sync_event list \<Rightarrow> nat \<Rightarrow> sync_event list" where
  "sort_dedupe_truncate events limit = take limit (dedupe_by ev_id [] (sort_key event_key events))"

definition is_durable_activity_event :: "sync_event \<Rightarrow> bool" where
  "is_durable_activity_event v \<longleftrightarrow> ev_event_type v \<noteq> ''progress''"

section \<open>The log\<close>

definition latest_events_limit :: nat where "latest_events_limit = 100"

type_synonym progress_map = "(string, sync_event) hmap"

definition event_path :: "sync_event \<Rightarrow> string" where
  "event_path v =
     (let short = (if 8 \<le> length (ev_id v) \<and>
                      (length (ev_id v) = 8 \<or> \<not> (128 \<le> byte (ev_id v ! 8) \<and> byte (ev_id v ! 8) < 192))
                   then take 8 (ev_id v) else ev_id v)
      in ''/sync/activity/'' @ ev_relationship_id v @ ''/'' @ show_int (ev_timestamp v) @ ''-'' @
         short @ ''.json'')"

definition activity_dir :: "string \<Rightarrow> string" where
  "activity_dir rel = ''/sync/activity/'' @ rel @ ''/''"

definition index_path :: "string \<Rightarrow> string" where
  "index_path rel = ''/sync/activity/'' @ rel @ ''/latest-events.json''"

definition update_latest_events_index ::
  "'e engine \<Rightarrow> sync_event \<Rightarrow> 'e \<Rightarrow> 'e \<times> unit res" where
  "update_latest_events_index en v e =
     (let p = index_path (ev_relationship_id v);
          old = (case read_json en events_of_json p e of Some es \<Rightarrow> es | None \<Rightarrow> []);
          events = filter is_durable_activity_event (old @ [v])
      in store_json en p (events_to_json (sort_dedupe_truncate events latest_events_limit)) e)"

definition log_event ::
  "'e engine \<Rightarrow> sync_event \<Rightarrow> 'e \<times> progress_map \<Rightarrow> ('e \<times> progress_map) \<times> unit res" where
  "log_event en v s =
     (case s of (e, progress) \<Rightarrow>
        if ev_event_type v = ''progress'' then
          ((e, hinsert (ev_relationship_id v) v progress), Inr ())
        else
          (case store_json en (event_path v) (event_to_json v) e of
             (e1, Inl error) \<Rightarrow> ((e1, progress), Inl error)
           | (e1, Inr _) \<Rightarrow>
               (case update_latest_events_index en v e1 of
                  (e2, Inl error) \<Rightarrow> ((e2, progress), Inl error)
                | (e2, Inr _) \<Rightarrow> ((e2, hremove (ev_relationship_id v) progress), Inr ()))))"

text \<open>The events of the files of the directory, newest file name first.\<close>

definition timestamped_entries :: "'e engine \<Rightarrow> string \<Rightarrow> 'e \<Rightarrow> string list" where
  "timestamped_entries en rel e =
     rev (sort (filter (\<lambda>name. ends_with name ''.json'' \<and> name \<noteq> ''.keep'' \<and>
       name \<noteq> ''latest-events.json'' \<and> name \<noteq> ''latest-progress.json'')
       (list_directory en (activity_dir rel) e)))"

fun read_entries ::
  "'e engine \<Rightarrow> string \<Rightarrow> 'e \<Rightarrow> string list \<Rightarrow> sync_event list \<Rightarrow> sync_event list" where
  "read_entries en rel e [] events = events"
| "read_entries en rel e (n # ns) events =
     (case read_json en event_of_json (activity_dir rel @ n) e of
        Some v \<Rightarrow>
          if is_durable_activity_event v \<and> ev_id v \<notin> ev_id ` set events
          then read_entries en rel e ns (events @ [v]) else read_entries en rel e ns events
      | None \<Rightarrow> read_entries en rel e ns events)"

definition candidate_limit :: "nat \<Rightarrow> nat" where
  "candidate_limit limit = sat_add (sat_mul limit 2) 10"

definition get_events ::
  "'e engine \<Rightarrow> string \<Rightarrow> nat \<Rightarrow> 'e \<times> progress_map \<Rightarrow>
     ('e \<times> progress_map) \<times> sync_event list res" where
  "get_events en rel limit s =
     (case s of (e, progress) \<Rightarrow>
        if limit = 0 then (s, Inr [])
        else
          let latest = (case hget progress rel of Some v \<Rightarrow> [v] | None \<Rightarrow> [])
          in case read_json en events_of_json (index_path rel) e of
               Some events \<Rightarrow>
                 (s, Inr (sort_dedupe_truncate
                            (filter is_durable_activity_event events @ latest) limit))
             | None \<Rightarrow>
                 (case state_exists en (activity_dir rel) e of
                    Inl error \<Rightarrow> (s, Inl error)
                  | Inr False \<Rightarrow> (s, Inr (sort_dedupe_truncate latest limit))
                  | Inr True \<Rightarrow>
                      (let names = take (candidate_limit limit) (timestamped_entries en rel e);
                           events = sort_dedupe_truncate (read_entries en rel e names latest) limit
                       in ((fst (store_json en (index_path rel) (events_to_json events) e),
                            progress), Inr events))))"

section \<open>Encoding\<close>

definition event_wf :: "sync_event \<Rightarrow> bool" where
  "event_wf v \<longleftrightarrow> ev_files_affected v \<le> u64_max \<and> ev_bytes_transferred v \<le> u64_max \<and>
     ev_duration_ms v \<le> u64_max \<and> i64_ok (ev_timestamp v)"

lemma list_of_json_map: "(\<And>x. x \<in> set xs \<Longrightarrow> conv (enc x) = Some x) \<Longrightarrow> list_of_json conv (map enc xs) = Some xs"
  by (induction xs) auto

lemma list_of_json_all: "list_of_json conv js = Some xs \<Longrightarrow> x \<in> set xs \<Longrightarrow> \<exists>j. conv j = Some x"
  by (induction js arbitrary: xs) (auto split: option.splits)

lemma event_decode: "event_wf v \<Longrightarrow> event_of_json (event_to_json v) = Some v"
  by (cases "ev_progress_percent v")
    (auto simp: event_of_json_def event_to_json_def event_wf_def field_def jget_def as_str_def
      as_u64_int as_i64_int opt_field_def as_f64_def list_field_def as_array_def
      list_of_json_map)

interpretation event: json_codec event_to_json event_of_json event_wf
  by unfold_locales (rule event_decode)

interpretation events: json_codec events_to_json events_of_json "\<lambda>es. \<forall>v\<in>set es. event_wf v"
  by unfold_locales (simp add: events_of_json_def events_to_json_def as_array_def event.dec_list)

lemma as_u64_le: "as_u64 j = Some n \<Longrightarrow> n \<le> u64_max"
  by (auto simp: as_u64_def split: json.splits if_splits)

lemma as_i64_le: "as_i64 j = Some i \<Longrightarrow> i64_ok i"
  by (auto simp: as_i64_def i64_ok_def split: json.splits if_splits)

lemma field_Some: "field conv j k = Some x \<Longrightarrow> \<exists>v. conv v = Some x"
  by (auto simp: field_def bind_eq_Some_conv)

lemma read_event_wf: "event_of_json j = Some v \<Longrightarrow> event_wf v"
  by (auto simp: event_of_json_def event_wf_def split: option.splits
      dest!: field_Some as_u64_le as_i64_le)

lemma read_events_wf: "events_of_json j = Some es \<Longrightarrow> v \<in> set es \<Longrightarrow> event_wf v"
  by (auto simp: events_of_json_def bind_eq_Some_conv dest!: list_of_json_all read_event_wf)

section \<open>Order\<close>

lemma set_dedupe: "set (dedupe_by f seen xs) \<subseteq> set xs"
  by (induction f seen xs rule: dedupe_by.induct) auto

lemma dedupe_distinct:
  "distinct (map f (dedupe_by f seen xs)) \<and> f ` set (dedupe_by f seen xs) \<inter> set seen = {}"
  by (induction f seen xs rule: dedupe_by.induct) auto

lemma dedupe_sorted: "sorted (map k xs) \<Longrightarrow> sorted (map k (dedupe_by f seen xs))"
proof (induction f seen xs rule: dedupe_by.induct)
  case (2 f seen x xs)
  then show ?case using set_dedupe [of f "f x # seen" xs] by auto
qed simp

lemma dedupe_id: "distinct (map f xs) \<Longrightarrow> f ` set xs \<inter> set seen = {} \<Longrightarrow> dedupe_by f seen xs = xs"
  by (induction f seen xs rule: dedupe_by.induct) auto

lemma dedupe_set: "set s = set t \<Longrightarrow> dedupe_by f s xs = dedupe_by f t xs"
proof (induction xs arbitrary: s t)
  case (Cons x xs)
  from Cons.IH [of "f x # s" "f x # t"] Cons.IH [of s t] Cons.prems show ?case by auto
qed simp

lemma dedupe_other: "z \<notin> f ` set xs \<Longrightarrow> dedupe_by f (z # seen) xs = dedupe_by f seen xs"
proof (induction xs arbitrary: seen)
  case (Cons x xs)
  have "dedupe_by f (f x # z # seen) xs = dedupe_by f (z # f x # seen) xs" for seen
    by (rule dedupe_set) auto
  with Cons show ?case by auto
qed simp

lemma sdt_sorted: "sorted (map event_key (sort_dedupe_truncate es limit))"
  unfolding sort_dedupe_truncate_def take_map [symmetric]
  by (intro sorted_wrt_take dedupe_sorted) simp

lemma sdt_distinct: "distinct (map ev_id (sort_dedupe_truncate es limit))"
  unfolding sort_dedupe_truncate_def using dedupe_distinct [of ev_id "[]"]
  by (metis distinct_take take_map)

lemma sdt_length: "length (sort_dedupe_truncate es limit) \<le> limit"
  by (simp add: sort_dedupe_truncate_def)

lemma sdt_set: "set (sort_dedupe_truncate es limit) \<subseteq> set es"
  unfolding sort_dedupe_truncate_def using set_dedupe [of ev_id "[]"] set_take_subset by fastforce

lemma sdt_again: "sort_dedupe_truncate (sort_dedupe_truncate es a) b = sort_dedupe_truncate es (min a b)"
proof -
  let ?es = "sort_dedupe_truncate es a"
  have "sort_key event_key ?es = ?es" by (rule sort_key_id_if_sorted) (rule sdt_sorted)
  moreover have "dedupe_by ev_id [] ?es = ?es" by (rule dedupe_id) (simp_all add: sdt_distinct)
  ultimately have "sort_dedupe_truncate ?es b = take b ?es" by (simp add: sort_dedupe_truncate_def)
  then show ?thesis by (simp add: sort_dedupe_truncate_def min.commute)
qed

lemma sort_newest:
  "\<forall>u\<in>set es. event_key v < event_key u \<Longrightarrow>
    sort_key event_key (es @ [v]) = v # sort_key event_key es"
  by (induction es) auto

lemma sdt_newest:
  assumes "\<forall>u\<in>set es. ev_timestamp u < ev_timestamp v" "ev_id v \<notin> ev_id ` set es" "0 < limit"
  shows "sort_dedupe_truncate (es @ [v]) limit = v # sort_dedupe_truncate es (limit - 1)"
proof -
  have "\<forall>u\<in>set es. event_key v < event_key u"
    using assms(1) by (auto simp: event_key_def less_event_key_def)
  then show ?thesis
    using assms(2,3)
    by (simp add: sort_dedupe_truncate_def sort_newest dedupe_other take_Cons')
qed

section \<open>What the log promises\<close>

lemma read_entries_durable:
  "x \<in> set (read_entries en rel e ns events) \<Longrightarrow> x \<in> set events \<or> is_durable_activity_event x"
  by (induction en rel e ns events rule: read_entries.induct) (auto split: option.splits if_splits)

definition listed :: "string \<Rightarrow> progress_map \<Rightarrow> sync_event \<Rightarrow> bool" where
  "listed rel progress v \<longleftrightarrow> is_durable_activity_event v \<or> hget progress rel = Some v"

lemma sdt_listed:
  "(\<And>x. x \<in> set es \<Longrightarrow> listed rel progress x) \<Longrightarrow>
    list_all (listed rel progress) (sort_dedupe_truncate es limit)"
  using sdt_set [of es limit] by (auto simp: list_all_iff)

lemma get_events_is_sdt:
  assumes "snd (get_events en rel limit (e, progress)) = Inr es"
  shows "\<exists>cs. es = sort_dedupe_truncate cs limit \<and> (\<forall>x\<in>set cs. listed rel progress x)"
proof (cases "limit = 0")
  case True
  with assms show ?thesis
    by (intro exI [of _ "[]"]) (simp add: get_events_def sort_dedupe_truncate_def)
next
  case False
  define latest where "latest = (case hget progress rel of Some v \<Rightarrow> [v] | None \<Rightarrow> [])"
  have latest: "x \<in> set latest \<Longrightarrow> listed rel progress x" for x
    by (auto simp: latest_def listed_def split: option.splits)
  show ?thesis
  proof (cases "read_json en events_of_json (index_path rel) e")
    case (Some events)
    with assms False have "es = sort_dedupe_truncate (filter is_durable_activity_event events @ latest) limit"
      by (simp add: get_events_def latest_def)
    with latest show ?thesis
      by (intro exI [of _ "filter is_durable_activity_event events @ latest"]) (auto simp: listed_def)
  next
    case None
    with assms False obtain there where "state_exists en (activity_dir rel) e = Inr there"
      by (auto simp: get_events_def Let_def split: sum.splits)
    with assms False None
    have "es = sort_dedupe_truncate (if there
        then read_entries en rel e (take (candidate_limit limit) (timestamped_entries en rel e)) latest
        else latest) limit"
      by (cases there) (simp_all add: get_events_def latest_def Let_def)
    with latest show ?thesis
      by (intro exI conjI) (auto simp: listed_def split: if_splits dest!: latest read_entries_durable)
  qed
qed


definition indexed_events :: "'e engine \<Rightarrow> string \<Rightarrow> 'e \<Rightarrow> sync_event list" where
  "indexed_events en rel e =
     (case read_json en events_of_json (index_path rel) e of
        Some es \<Rightarrow> filter is_durable_activity_event es | None \<Rightarrow> [])"

lemma indexed_wf: "v \<in> set (indexed_events en rel e) \<Longrightarrow> event_wf v"
  by (auto simp: indexed_events_def read_json_def split: option.splits if_splits
      dest: read_events_wf [OF sym] read_events_wf)

lemma index_path_plain: "rel_ok rel \<Longrightarrow> plain (index_path rel)" "\<not> ends_with (index_path rel) ''/''"
  by (auto simp: index_path_def plain_def rel_ok_def split_on_append_sep split_on_single
      suffix_def)

lemma event_path_plain:
  assumes "rel_ok (ev_relationship_id v)" "CHR ''/'' \<notin> set (ev_id v)"
  shows "plain (event_path v)"
proof -
  have "CHR ''/'' \<notin> set (show_int i)" for i
    using show_nat_chars [of "CHR ''/''"] by (auto simp: show_int_def)
  moreover have "CHR ''/'' \<notin> set (take 8 (ev_id v))" using assms(2) by (meson in_set_takeD)
  ultimately show ?thesis
    using assms by (auto simp: event_path_def plain_def rel_ok_def Let_def
        split_on_append_sep split_on_single)
qed

lemma event_path_not_index: "event_path v \<noteq> index_path (ev_relationship_id v)"
proof
  assume "event_path v = index_path (ev_relationship_id v)"
  then obtain s where s: "show_int (ev_timestamp v) @ s = ''latest-events.json''"
    unfolding event_path_def index_path_def Let_def append_assoc same_append_eq
    by (simp only: append_Cons append_Nil list.inject simp_thms)
  have "CHR ''l'' \<notin> set (show_int (ev_timestamp v))" "show_int (ev_timestamp v) \<noteq> []"
    using show_nat_chars [of "CHR ''l''"] by (auto simp: show_int_def)
  with s show False by (cases "show_int (ev_timestamp v)") auto
qed

lemma log_event_Inr:
  assumes "is_durable_activity_event v" "log_event en v (e, progress) = ((e', progress'), Inr u)"
  obtains e1 u1 u2 where "store_json en (event_path v) (event_to_json v) e = (e1, Inr u1)"
    and "update_latest_events_index en v e1 = (e', Inr u2)"
    and "progress' = hremove (ev_relationship_id v) progress"
  using assms by (auto simp: log_event_def is_durable_activity_event_def split: prod.splits sum.splits)

text \<open>When the newest event of a relationship has been logged, a list of at most a hundred events
  starts with it, without a progress report, and goes on with the events the index had.\<close>

theorem logged_event_comes_first:
  assumes "engine_ok en files" "rel_ok (ev_relationship_id v)" "CHR ''/'' \<notin> set (ev_id v)"
    and "event_wf v" "is_durable_activity_event v" "0 < limit" "limit \<le> latest_events_limit"
    and "log_event en v (e, progress) = ((e', progress'), Inr u)"
    and "\<forall>w\<in>set (indexed_events en (ev_relationship_id v) e).
      ev_timestamp w < ev_timestamp v \<and> ev_id w \<noteq> ev_id v"
  shows "get_events en (ev_relationship_id v) limit (e', progress') =
    ((e', progress'), Inr (v # sort_dedupe_truncate
       (indexed_events en (ev_relationship_id v) e) (limit - 1)))"
proof -
  let ?rel = "ev_relationship_id v"
  let ?old = "indexed_events en ?rel e"
  obtain e1 u1 u2 where 1: "store_json en (event_path v) (event_to_json v) e = (e1, Inr u1)"
    and 2: "update_latest_events_index en v e1 = (e', Inr u2)"
    and p: "progress' = hremove ?rel progress"
    using log_event_Inr [OF assms(5,8)] by blast
  have "files e1 (index_path ?rel) = files e (index_path ?rel)"
    using store_json_files [OF assms(1) event_path_plain [OF assms(2,3)] 1]
    by (simp add: event_path_not_index [symmetric] event_path_not_index)
  then have old: "indexed_events en ?rel e1 = ?old"
    by (simp add: indexed_events_def read_json_files [OF assms(1) index_path_plain(1) [OF assms(2)] index_path_plain(2)])
  define new where "new = sort_dedupe_truncate (?old @ [v]) latest_events_limit"
  have "store_json en (index_path ?rel) (events_to_json new) e1 = (e', Inr u2)"
    using 2 old assms(5)
    by (auto simp: update_latest_events_index_def indexed_events_def new_def Let_def split: option.splits)
  from events.stored_is_read [OF assms(1) index_path_plain(1) [OF assms(2)] index_path_plain(2) this]
  have read: "read_json en events_of_json (index_path ?rel) e' = Some new"
    using sdt_set [of "?old @ [v]" latest_events_limit] indexed_wf [of _ en ?rel e] assms(4)
    by (auto simp: new_def)
  have durable: "filter is_durable_activity_event new = new"
    using assms(5) unfolding new_def
    by (intro filter_True) (auto simp: indexed_events_def split: option.splits dest!: subsetD [OF sdt_set])
  have "sort_dedupe_truncate new limit = v # sort_dedupe_truncate ?old (limit - 1)"
    unfolding new_def sdt_again using assms(6,7,9) by (subst sdt_newest) (auto simp: min_def)
  then show ?thesis using assms(6) read durable by (simp add: get_events_def p)
qed

definition sample_event :: sync_event where
  "sample_event =
     \<lparr>ev_id = ''0123456789'', ev_relationship_id = ''r1'', ev_relationship_name = ''Docs'',
      ev_event_type = ''push'', ev_summary = ''pushed'', ev_files_affected = 1,
      ev_bytes_transferred = 5, ev_duration_ms = 2, ev_errors = [], ev_progress_percent = None,
      ev_timestamp = 1000\<rparr>"

definition sample_progress :: sync_event where
  "sample_progress = sample_event\<lparr>ev_id := ''p1'', ev_event_type := ''progress'', ev_timestamp := 900\<rparr>"

lemma logged_event_comes_first_witness:
  "snd (get_events mem_engine ''r1'' 5
     (fst (log_event mem_engine sample_event ([], [(''r1'', sample_progress)])))) = Inr [sample_event]"
proof -
  let ?run = "log_event mem_engine sample_event ([], [(''r1'', sample_progress)])"
  have "is_ok (snd ?run)" by code_simp
  then obtain e' progress' u where run: "?run = ((e', progress'), Inr u)"
    by (cases ?run; cases "fst ?run"; cases "snd ?run") auto
  have old: "indexed_events mem_engine ''r1'' [] = []" by code_simp
  have "get_events mem_engine (ev_relationship_id sample_event) 5 (e', progress') =
    ((e', progress'), Inr (sample_event # sort_dedupe_truncate
       (indexed_events mem_engine (ev_relationship_id sample_event) []) (5 - 1)))"
    by (rule logged_event_comes_first [OF mem_engine_ok _ _ _ _ _ _ run])
      (simp_all add: sample_event_def old rel_ok_def event_wf_def i64_ok_def u64_max_def
        is_durable_activity_event_def latest_events_limit_def)
  then show ?thesis using old run by (simp add: sample_event_def sort_dedupe_truncate_def)
qed

text \<open>When the index is missing, a read writes it, and writes the progress report that is meant to stay
  in memory into the database.\<close>

lemma progress_reaches_the_database:
  "hget (fst (fst (get_events mem_engine ''r1'' 5
     (fst (store_json mem_engine ''/sync/activity/r1/.keep'' (JObj []) []),
      [(''r1'', sample_progress)])))) ''/sync/activity/r1/latest-events.json'' =
    Some (events_to_json [sample_progress])"
  by code_simp

end
