(* ===== verification/Format.thy ===== *)
theory Format
  imports Prelude
begin

text \<open>
  The texts \<open>sync/activity.rs\<close> makes of counts, sizes, durations and rates.  A non-negative
  \<open>f64\<close> is a pair \<open>(m, e)\<close> that stands for \<open>m * 2 ^ e\<close>; \<open>f64_div\<close> rounds a quotient to the nearest
  number with a 53-bit significand, ties to even, and \<open>fixed\<close> is the exact decimal rounding of
  \<open>format!("{:.d}")\<close>.
\<close>

section \<open>Floating point\<close>

type_synonym f64 = "nat \<times> int"

definition round_half_even :: "nat \<Rightarrow> nat \<Rightarrow> nat" where
  "round_half_even a b =
     (let q = a div b; r = a mod b
      in if 2 * r < b \<or> 2 * r = b \<and> even q then q else q + 1)"

fun bit_len :: "nat \<Rightarrow> nat" where
  "bit_len n = (if n = 0 then 0 else 1 + bit_len (n div 2))"

declare bit_len.simps [simp del]

definition f64_div :: "nat \<Rightarrow> nat \<Rightarrow> f64" where
  "f64_div a b =
     (if a = 0 then (0, 0)
      else
        let e0 = int (bit_len a) - int (bit_len b) - 53;
            e = (if a * 2 ^ nat (- e0) < 2 ^ 53 * (b * 2 ^ nat e0) then e0 else e0 + 1)
        in (round_half_even (a * 2 ^ nat (- e)) (b * 2 ^ nat e), e))"

definition f64_of :: "nat \<Rightarrow> f64" where
  "f64_of n = f64_div n 1"

definition f64_quot :: "f64 \<Rightarrow> f64 \<Rightarrow> f64" where
  "f64_quot x y =
     (let s = snd x - snd y in f64_div (fst x * 2 ^ nat s) (fst y * 2 ^ nat (- s)))"

definition f64_times :: "f64 \<Rightarrow> nat \<Rightarrow> f64" where
  "f64_times x k = f64_div (fst x * k * 2 ^ nat (snd x)) (2 ^ nat (- snd x))"

definition f64_ge :: "f64 \<Rightarrow> nat \<Rightarrow> bool" where
  "f64_ge x k \<longleftrightarrow> k * 2 ^ nat (- snd x) \<le> fst x * 2 ^ nat (snd x)"

text \<open>The saturating cast \<open>as u64\<close>.\<close>

definition f64_trunc :: "f64 \<Rightarrow> nat" where
  "f64_trunc x = min (fst x * 2 ^ nat (snd x) div 2 ^ nat (- snd x)) u64_max"

definition pad0 :: "nat \<Rightarrow> string \<Rightarrow> string" where
  "pad0 n s = replicate (n - length s) CHR ''0'' @ s"

definition fixed :: "nat \<Rightarrow> f64 \<Rightarrow> string" where
  "fixed d x =
     (let n = round_half_even (fst x * 10 ^ d * 2 ^ nat (snd x)) (2 ^ nat (- snd x))
      in show_nat (n div 10 ^ d) @
         (if d = 0 then [] else CHR ''.'' # pad0 d (show_nat (n mod 10 ^ d))))"

section \<open>The texts\<close>

fun insert_commas :: "nat \<Rightarrow> string \<Rightarrow> string" where
  "insert_commas i [] = []"
| "insert_commas i (c # cs) =
     (if 0 < i \<and> i mod 3 = 0 then CHR '','' # c # insert_commas (i + 1) cs
      else c # insert_commas (i + 1) cs)"

definition format_count :: "nat \<Rightarrow> string" where
  "format_count n = rev (insert_commas 0 (rev (show_nat n)))"

definition pluralize :: "nat \<Rightarrow> string \<Rightarrow> string" where
  "pluralize n singular =
     (if n = 1 then format_count n @ '' '' @ singular else format_count n @ '' '' @ singular @ ''s'')"

definition byte_units :: "string list" where
  "byte_units = [''B'', ''KB'', ''MB'', ''GB'', ''TB'']"

text \<open>The loop divides by 1024 while the value is at least 1024 and a unit is left.\<close>

fun scale_bytes :: "nat \<Rightarrow> f64 \<Rightarrow> nat \<Rightarrow> f64 \<times> nat" where
  "scale_bytes left x unit =
     (if f64_ge x 1024 \<and> 0 < left then scale_bytes (left - 1) (fst x, snd x - 10) (unit + 1)
      else (x, unit))"

declare scale_bytes.simps [simp del]

definition format_bytes_with_precision :: "nat \<Rightarrow> bool \<Rightarrow> string" where
  "format_bytes_with_precision bytes precise =
     (case scale_bytes (length byte_units - 1) (f64_of bytes) 0 of
        (x, unit) \<Rightarrow>
          (if unit = 0 then show_nat bytes
           else if precise then fixed 2 x
           else if f64_ge x 100 then fixed 0 x
           else if f64_ge x 10 then fixed 1 x
           else fixed 2 x) @ '' '' @ byte_units ! unit)"

definition format_bytes :: "nat \<Rightarrow> string" where
  "format_bytes bytes = format_bytes_with_precision bytes False"

definition format_bytes_precise :: "nat \<Rightarrow> string" where
  "format_bytes_precise bytes = format_bytes_with_precision bytes True"

definition format_duration :: "nat \<Rightarrow> string" where
  "format_duration ms =
     (if ms < 1000 then show_nat ms @ ''ms''
      else if ms < 60000 then fixed 1 (f64_quot (f64_of ms) (f64_of 1000)) @ ''s''
      else
        let total_seconds = ms div 1000;
            minutes = total_seconds div 60;
            seconds = total_seconds mod 60
        in if minutes < 60 then show_nat minutes @ ''m '' @ pad0 2 (show_nat seconds) @ ''s''
           else show_nat (minutes div 60) @ ''h '' @ pad0 2 (show_nat (minutes mod 60)) @ ''m'')"

definition format_duration_minutes :: "nat \<Rightarrow> string" where
  "format_duration_minutes ms = fixed 2 (f64_quot (f64_of ms) (f64_of 60000)) @ '' minutes''"

definition format_rate :: "nat \<Rightarrow> nat \<Rightarrow> string option" where
  "format_rate bytes ms =
     (if bytes = 0 \<or> ms = 0 then None
      else Some (format_bytes
        (f64_trunc (f64_times (f64_quot (f64_of bytes) (f64_of ms)) 1000)) @ ''/s''))"

section \<open>Lemmas\<close>

lemma insert_commas_digits: "CHR '','' \<notin> set s \<Longrightarrow> filter (\<lambda>c. c \<noteq> CHR '','') (insert_commas i s) = s"
  by (induction s arbitrary: i) auto

lemma show_nat_no_comma: "CHR '','' \<notin> set (show_nat n)"
  using show_nat_chars [of "CHR '',''" n] by auto

lemma format_count_digits: "filter (\<lambda>c. c \<noteq> CHR '','') (format_count n) = show_nat n"
  using insert_commas_digits [of "rev (show_nat n)" 0] show_nat_no_comma [of n]
  by (simp add: format_count_def rev_filter [symmetric])

text \<open>Two counts have one text only if they are equal.\<close>

lemma format_count_inj: "format_count a = format_count b \<longleftrightarrow> a = b"
  using format_count_digits [of a] format_count_digits [of b] show_nat_inj [of a b] by auto

lemma round_half_even_error:
  assumes "0 < b"
  shows "2 * (round_half_even a b * b) \<le> 2 * a + b" and "2 * a \<le> 2 * (round_half_even a b * b) + b"
proof -
  obtain q r where qr: "a = b * q + r" "r < b" "q = a div b" "r = a mod b"
    using assms by (metis mod_less_divisor mult_div_mod_eq)
  show "2 * (round_half_even a b * b) \<le> 2 * a + b"
    unfolding round_half_even_def Let_def qr(3,4) [symmetric] using qr(1,2) by (auto simp: algebra_simps)
  show "2 * a \<le> 2 * (round_half_even a b * b) + b"
    unfolding round_half_even_def Let_def qr(3,4) [symmetric] using qr(1,2) by (auto simp: algebra_simps)
qed

lemma length_pad0: "length (pad0 n s) = max n (length s)"
  by (simp add: pad0_def)

lemma scale_bytes_unit: "snd (scale_bytes left x unit) \<le> unit + left"
proof (induction left x unit rule: scale_bytes.induct)
  case (1 left x unit)
  then show ?case by (subst scale_bytes.simps) auto
qed

lemma format_count_sample: "format_count 1234567 = ''1,234,567''"
  by code_simp

lemma format_duration_sample: "format_duration 61000 = ''1m 01s''"
  by code_simp

lemma format_bytes_sample: "format_bytes 1536 = ''1.50 KB''"
proof -
  have "format_bytes 1536 = map char_of [49, 46, 53, 48 :: nat] @ '' KB''"
    by (simp add: format_bytes_def format_bytes_with_precision_def byte_units_def scale_bytes.simps
        f64_ge_def fixed_def f64_of_def f64_div_def round_half_even_def bit_len.simps Let_def
        show_nat.simps pad0_def) code_simp
  also have "\<dots> = ''1.50 KB''" by code_simp
  finally show ?thesis .
qed

end
