(* ===== verification/Config.thy ===== *)
theory Config
  imports Prelude Paths Client_Error
begin

text \<open>
  The configuration: the records of \<open>connections.rs\<close>, \<open>sync/relationships.rs\<close> and
  \<open>config.rs\<close>, and the store that keeps one configuration in memory behind a lock and in a
  YAML file.  The file system and \<open>serde_yaml\<close> are the fields of \<open>config_env\<close>; the text of
  the file is part of the state.
\<close>

type_synonym timestamp = int

datatype auth_type = ApiKey | AuthNone

record remote_connection =
  rc_id :: string
  rc_name :: string
  rc_url :: string
  rc_auth_type :: auth_type
  rc_api_key :: "string option"
  rc_share_base_url :: "string option"
  rc_created_at :: timestamp
  rc_updated_at :: timestamp

datatype sync_direction = Bidirectional | PullOnly | PushOnly

record delete_propagation =
  dp_local_to_remote :: bool
  dp_remote_to_local :: bool

definition default_delete_propagation :: delete_propagation where
  "default_delete_propagation = \<lparr>dp_local_to_remote = False, dp_remote_to_local = False\<rparr>"

record sync_relationship =
  sr_id :: string
  sr_name :: string
  sr_remote_connection_id :: string
  sr_remote_path :: string
  sr_local_path :: string
  sr_direction :: sync_direction
  sr_filter :: "string option"
  sr_delete_propagation :: delete_propagation
  sr_enabled :: bool
  sr_created_at :: timestamp
  sr_updated_at :: timestamp

record client_settings =
  set_sync_interval_seconds :: nat
  set_auto_start_sync :: bool
  set_auto_start_system :: bool
  set_client_name :: "string option"

record client_config =
  cc_connections :: "remote_connection list"
  cc_relationships :: "sync_relationship list"
  cc_settings :: client_settings

definition default_settings :: client_settings where
  "default_settings =
     \<lparr>set_sync_interval_seconds = 60, set_auto_start_sync = True,
      set_auto_start_system = False, set_client_name = None\<rparr>"

definition default_config :: client_config where
  "default_config =
     \<lparr>cc_connections = [], cc_relationships = [], cc_settings = default_settings\<rparr>"

text \<open>
  What the store asks of the system: the debug form of a path, the outcome of
  \<open>create_dir_all\<close>, of reading the file, of the YAML conversions, of the write (on failure,
  the message and what is left in the file) and of the permission change.
\<close>

record config_env =
  ce_path :: string
  ce_debug :: "string \<Rightarrow> string"
  ce_mkdirs :: "string \<Rightarrow> string option"
  ce_read_error :: "string option"
  ce_parse :: "string \<Rightarrow> string + client_config"
  ce_serialize :: "client_config \<Rightarrow> string + string"
  ce_write_fails :: "string \<Rightarrow> (string \<times> string option) option"
  ce_chmod :: "string option"

record config_store =
  cs_config :: client_config
  cs_file :: "string option"

definition save_inner ::
  "config_env \<Rightarrow> client_config \<Rightarrow> string option \<Rightarrow> string option \<times> unit res" where
  "save_inner e config file =
     (case ce_serialize e config of
        Inl error \<Rightarrow> (file, Inl (Configuration (''failed to serialize config: '' @ error)))
      | Inr yaml \<Rightarrow>
          (case ce_write_fails e yaml of
             Some (error, left) \<Rightarrow>
               (left, Inl (Configuration
                  (''failed to write config to '' @ ce_debug e (ce_path e) @ '': '' @ error)))
           | None \<Rightarrow>
               (case ce_chmod e of
                  Some error \<Rightarrow>
                    (Some yaml, Inl (Configuration
                       (''failed to set config permissions on '' @ ce_debug e (ce_path e) @
                        '': '' @ error)))
                | None \<Rightarrow> (Some yaml, Inr ()))))"

definition config_load :: "config_env \<Rightarrow> string option \<Rightarrow> string option \<times> config_store res" where
  "config_load e file =
     (case (case path_parent (ce_path e) of
              Some parent \<Rightarrow>
                map_option (\<lambda>error. ''failed to create config directory '' @ ce_debug e parent @
                    '': '' @ error) (ce_mkdirs e parent)
            | None \<Rightarrow> None) of
        Some message \<Rightarrow> (file, Inl (Configuration message))
      | None \<Rightarrow>
          (case file of
             Some contents \<Rightarrow>
               (case ce_read_error e of
                  Some error \<Rightarrow>
                    (file, Inl (Configuration
                       (''failed to read config at '' @ ce_debug e (ce_path e) @ '': '' @ error)))
                | None \<Rightarrow>
                    (case ce_parse e contents of
                       Inl error \<Rightarrow>
                         (file, Inl (Configuration
                            (''failed to parse config at '' @ ce_debug e (ce_path e) @ '': '' @
                             error)))
                     | Inr config \<Rightarrow> (file, Inr \<lparr>cs_config = config, cs_file = file\<rparr>)))
           | None \<Rightarrow>
               (case save_inner e default_config file of
                  (file', Inl error) \<Rightarrow> (file', Inl error)
                | (file', Inr _) \<Rightarrow>
                    (file', Inr \<lparr>cs_config = default_config, cs_file = file'\<rparr>))))"

definition config_save :: "config_env \<Rightarrow> config_store \<Rightarrow> config_store \<times> unit res" where
  "config_save e s =
     (case save_inner e (cs_config s) (cs_file s) of (file', r) \<Rightarrow> (s\<lparr>cs_file := file'\<rparr>, r))"

definition config_get :: "config_store \<Rightarrow> client_config" where
  "config_get s = cs_config s"

text \<open>\<open>update\<close> runs the closure on the configuration under the write lock and then saves it;
  the closure's captured variables are the second component of its result, which the caller
  sees only when the save succeeds.\<close>

definition config_update ::
  "config_env \<Rightarrow> (client_config \<Rightarrow> client_config \<times> 'a) \<Rightarrow> config_store \<Rightarrow>
     config_store \<times> 'a res" where
  "config_update e updater s =
     (case updater (cs_config s) of
        (config, captured) \<Rightarrow>
          (case save_inner e config (cs_file s) of
             (file', Inl error) \<Rightarrow> (\<lparr>cs_config = config, cs_file = file'\<rparr>, Inl error)
           | (file', Inr _) \<Rightarrow> (\<lparr>cs_config = config, cs_file = file'\<rparr>, Inr captured)))"

definition default_config_dir :: "string option \<Rightarrow> string" where
  "default_config_dir config_dir =
     path_join (case config_dir of Some d \<Rightarrow> d | None \<Rightarrow> ''.'') ''aeordb-client''"

definition default_config_path :: "string option \<Rightarrow> string" where
  "default_config_path config_dir = path_join (default_config_dir config_dir) ''config.yaml''"

definition default_data_dir :: "string option \<Rightarrow> string" where
  "default_data_dir data_dir =
     path_join (case data_dir of Some d \<Rightarrow> d | None \<Rightarrow> ''.'') ''aeordb-client''"

definition default_data_path :: "string option \<Rightarrow> string" where
  "default_data_path data_dir = path_join (default_data_dir data_dir) ''state.aeordb''"

section \<open>The interface the managers use\<close>

text \<open>
  A store of one value: \<open>view\<close> reads it, \<open>upd\<close> runs a closure on it.  The value becomes what
  the closure returns whatever the result, and a success hands back what the closure
  captured.
\<close>

locale value_store =
  fixes upd :: "('c \<Rightarrow> 'c \<times> 'a) \<Rightarrow> 's \<Rightarrow> 's \<times> 'a res"
    and view :: "'s \<Rightarrow> 'c"
  assumes view_upd: "view (fst (upd f s)) = fst (f (view s))"
    and upd_captured: "snd (upd f s) = Inr r \<Longrightarrow> r = snd (f (view s))"
begin

text \<open>What a closure preserves, the update preserves.\<close>

lemma upd_preserves:
  assumes "\<And>c. I c \<Longrightarrow> I (fst (f c))" "I (view s)"
  shows "I (view (fst (upd f s)))"
  using assms by (simp add: view_upd)

lemma upd_unchanged:
  assumes "fst (f (view s)) = view s"
  shows "view (fst (upd f s)) = view s"
  using assms by (simp add: view_upd)

lemma upd_result:
  assumes "upd f s = (s', Inr r)"
  shows "view s' = fst (f (view s)) \<and> r = snd (f (view s))"
  using assms view_upd [of f s] upd_captured [of f s r] by simp

end

section \<open>Lemmas\<close>

lemma config_update_view: "cs_config (fst (config_update e f s)) = fst (f (cs_config s))"
  by (auto simp: config_update_def split: prod.splits sum.splits)

lemma config_update_captured:
  "snd (config_update e f s) = Inr r \<Longrightarrow> r = snd (f (cs_config s))"
  by (auto simp: config_update_def split: prod.splits sum.splits)

interpretation cfg: value_store "config_update e" cs_config for e
  by unfold_locales (simp_all add: config_update_view config_update_captured)

text \<open>A successful update leaves in the file the text of the configuration in memory.\<close>

lemma save_inner_ok: "save_inner e c file = (file', Inr u) \<Longrightarrow>
    \<exists>yaml. ce_serialize e c = Inr yaml \<and> file' = Some yaml"
  by (auto simp: save_inner_def split: sum.splits option.splits)

lemma config_update_ok:
  assumes "config_update e f s = (s', Inr r)"
  shows "\<exists>yaml. ce_serialize e (cs_config s') = Inr yaml \<and> cs_file s' = Some yaml"
  using assms
  by (auto simp: config_update_def dest!: save_inner_ok split: prod.splits sum.splits)

lemma config_update_ok_iff:
  assumes "ce_serialize e (fst (f (cs_config s))) = Inr yaml" "ce_write_fails e yaml = None"
    "ce_chmod e = None"
  shows "config_update e f s =
    (\<lparr>cs_config = fst (f (cs_config s)), cs_file = Some yaml\<rparr>, Inr (snd (f (cs_config s))))"
  using assms by (cases "f (cs_config s)") (simp add: config_update_def save_inner_def)

text \<open>\<open>ConfigStore::load\<close> of a store written by a successful \<open>update\<close> gives back the
  configuration, for a serialiser that the parser inverts.\<close>

lemma config_load_after_update:
  assumes "config_update e f s = (s', Inr r)"
    and "\<And>c yaml. ce_serialize e c = Inr yaml \<Longrightarrow> ce_parse e yaml = Inr c"
    and "\<And>d. ce_mkdirs e d = None" "ce_read_error e = None"
  shows "config_load e (cs_file s') = (cs_file s', Inr s')"
proof -
  from config_update_ok [OF assms(1)] obtain yaml
    where y: "ce_serialize e (cs_config s') = Inr yaml" "cs_file s' = Some yaml" by blast
  with assms(2) have "ce_parse e yaml = Inr (cs_config s')" by blast
  with y assms(3,4) show ?thesis
    by (cases s') (simp add: config_load_def split: option.splits)
qed

section \<open>Properties\<close>

text \<open>C30. A configuration update that reports success can be loaded again: the file it left parses
  to the configuration in memory, whatever was in the file before.\<close>

theorem config_survives_restart:
  assumes "config_update e f s = (s', Inr r)"
    and "\<And>c yaml. ce_serialize e c = Inr yaml \<Longrightarrow> ce_parse e yaml = Inr c"
    and "\<And>d. ce_mkdirs e d = None" "ce_read_error e = None"
  shows "config_load e (cs_file s') = (cs_file s', Inr s')"
  using assms by (rule config_load_after_update)

definition sample_config_env :: config_env where
  "sample_config_env =
     \<lparr>ce_path = ''/home/u/.config/aeordb-client/config.yaml'', ce_debug = (\<lambda>p. p),
      ce_mkdirs = (\<lambda>d. None), ce_read_error = None,
      ce_parse = (\<lambda>t. if t = ''default'' then Inr default_config else Inl ''unknown''),
      ce_serialize = (\<lambda>c. if c = default_config then Inr ''default'' else Inl ''unsupported''),
      ce_write_fails = (\<lambda>t. None), ce_chmod = None\<rparr>"

lemma config_survives_restart_witness:
  "config_load sample_config_env (Some ''default'') =
     (Some ''default'', Inr \<lparr>cs_config = default_config, cs_file = Some ''default''\<rparr>)"
proof -
  have run: "config_update sample_config_env (\<lambda>c. (c, ())) \<lparr>cs_config = default_config, cs_file = None\<rparr> =
      (\<lparr>cs_config = default_config, cs_file = Some ''default''\<rparr>, Inr ())"
    by (simp add: config_update_def save_inner_def sample_config_env_def)
  have "ce_serialize sample_config_env c = Inr yaml \<Longrightarrow> ce_parse sample_config_env yaml = Inr c"
    for c yaml by (simp add: sample_config_env_def split: if_splits)
  from config_survives_restart [OF run this] show ?thesis by (simp add: sample_config_env_def)
qed

end
