(* ===== verification/Jwt_Cache.thy ===== *)
theory Jwt_Cache
  imports Prelude
begin

text \<open>
  The process-wide token cache (\<open>jwt_cache.rs\<close>): one slot per connection, created empty on
  first use and shared by every later caller.  A slot is named by its connection id; the
  two lock paths of \<open>slot_for\<close> give the same map, since the second look-up happens under
  the write lock.
\<close>

type_synonym jwt_cache = "(string, string option) hmap"

definition jwt_cache_new :: jwt_cache where
  "jwt_cache_new = []"

definition slot_for :: "string \<Rightarrow> jwt_cache \<Rightarrow> jwt_cache" where
  "slot_for connection_id slots =
     (case hget slots connection_id of
        Some slot \<Rightarrow> slots
      | None \<Rightarrow> hinsert connection_id None slots)"

definition drop_slot :: "string \<Rightarrow> jwt_cache \<Rightarrow> jwt_cache" where
  "drop_slot connection_id slots = hremove connection_id slots"

text \<open>Access through the slot: read it, replace it.\<close>

definition slot_read :: "string \<Rightarrow> jwt_cache \<Rightarrow> string option" where
  "slot_read connection_id slots =
     (case hget slots connection_id of Some (Some token) \<Rightarrow> Some token | _ \<Rightarrow> None)"

definition slot_write :: "string \<Rightarrow> string option \<Rightarrow> jwt_cache \<Rightarrow> jwt_cache" where
  "slot_write connection_id token slots = hinsert connection_id token slots"

section \<open>Lemmas\<close>

lemma slot_for_present: "hget (slot_for i c) i \<noteq> None"
  by (auto simp: slot_for_def split: option.splits)

lemma slot_for_idem [simp]: "slot_for i (slot_for i c) = slot_for i c"
  by (auto simp: slot_for_def split: option.splits)

lemma slot_read_slot_for [simp]: "slot_read i (slot_for j c) = slot_read i c"
  by (auto simp: slot_for_def slot_read_def split: option.splits)

lemma slot_read_write [simp]:
  "slot_read i (slot_write j t c) = (if i = j then t else slot_read i c)"
  by (auto simp: slot_write_def slot_read_def split: option.splits)

lemma slot_read_drop [simp]:
  "slot_read i (drop_slot j c) = (if i = j then None else slot_read i c)"
  by (auto simp: drop_slot_def slot_read_def split: option.splits)

end
