(* ===== verification/Connections.thy ===== *)
theory Connections
  imports Config Jwt_Cache
begin

text \<open>
  \<open>connections.rs\<close>: URL normalisation, the connection manager over the configuration store,
  the connection test and the start-up probe that rewrites a stored \<open>http\<close> URL when the
  server redirects to \<open>https\<close> on the same host.
\<close>

section \<open>URLs\<close>

definition normalize_url :: "string \<Rightarrow> string" where
  "normalize_url input =
     (let trimmed = trim_end_matches CHR ''/'' (trim input)
      in if trimmed = [] then []
         else if contains trimmed ''://'' then trimmed
         else ''http://'' @ trimmed)"

definition base_url :: "remote_connection \<Rightarrow> string" where
  "base_url c = normalize_url (rc_url c)"

definition effective_share_url :: "remote_connection \<Rightarrow> string" where
  "effective_share_url c =
     (case rc_share_base_url c of
        Some s \<Rightarrow> if s = [] then normalize_url (rc_url c) else normalize_url s
      | None \<Rightarrow> normalize_url (rc_url c))"

text \<open>What the code reads of a parsed \<open>reqwest::Url\<close> (\<open>port\<close> is None for the default port of
  the scheme).\<close>

record url_view =
  url_scheme :: string
  url_host :: "string option"
  url_port :: "nat option"

definition ports_match :: "nat option \<Rightarrow> nat option \<Rightarrow> bool" where
  "ports_match a b =
     (case (a, b) of
        (None, None) \<Rightarrow> True
      | (Some left, Some right) \<Rightarrow> left = right \<or> (left = 80 \<and> right = 443)
      | (Some left, None) \<Rightarrow> left = 80
      | (None, Some right) \<Rightarrow> right = 443)"

definition is_same_host_https_upgrade :: "url_view \<Rightarrow> url_view \<Rightarrow> bool" where
  "is_same_host_https_upgrade base target =
     (if url_scheme base \<noteq> ''http'' \<or> url_scheme target \<noteq> ''https'' \<or>
         url_host target \<noteq> url_host base
      then False
      else ports_match (url_port base) (url_port target))"

section \<open>The connection manager\<close>

record create_connection_request =
  cr_name :: string
  cr_url :: string
  cr_auth_type :: auth_type
  cr_api_key :: "string option"
  cr_share_base_url :: "string option"

text \<open>An \<open>Option<Option<String>>\<close>: absent, or present with a null or a text.\<close>

record update_connection_request =
  ur_name :: "string option"
  ur_url :: "string option"
  ur_auth_type :: "auth_type option"
  ur_api_key :: "string option option"
  ur_share_base_url :: "string option option"

definition non_empty :: "string option \<Rightarrow> string option" where
  "non_empty x = (case x of Some s \<Rightarrow> if s = [] then None else Some s | None \<Rightarrow> None)"

text \<open>\<open>create\<close>: \<open>now\<close> and \<open>uuid\<close> are the clock and the generated identifier.\<close>

definition connection_create ::
  "config_env \<Rightarrow> timestamp \<Rightarrow> string \<Rightarrow> create_connection_request \<Rightarrow> config_store \<Rightarrow>
     config_store \<times> remote_connection res" where
  "connection_create e now uuid request s =
     (let connection =
        \<lparr>rc_id = uuid, rc_name = cr_name request, rc_url = normalize_url (cr_url request),
         rc_auth_type = cr_auth_type request, rc_api_key = cr_api_key request,
         rc_share_base_url = cr_share_base_url request,
         rc_created_at = now, rc_updated_at = now\<rparr>
      in config_update e
           (\<lambda>c. (c\<lparr>cc_connections := cc_connections c @ [connection]\<rparr>, connection)) s)"

definition with_normal_url :: "remote_connection \<Rightarrow> remote_connection" where
  "with_normal_url c = c\<lparr>rc_url := normalize_url (rc_url c)\<rparr>"

definition connection_list :: "config_store \<Rightarrow> remote_connection list" where
  "connection_list s =
     sort_key rc_name (map with_normal_url (cc_connections (config_get s)))"

definition connection_get :: "string \<Rightarrow> config_store \<Rightarrow> remote_connection option" where
  "connection_get i s =
     map_option with_normal_url (find (\<lambda>c. rc_id c = i) (cc_connections (config_get s)))"

text \<open>The assignments of \<open>update\<close> on the connection found, in the order of the code.\<close>

definition apply_auth_type :: "auth_type option \<Rightarrow> remote_connection \<Rightarrow> remote_connection" where
  "apply_auth_type t c =
     (case t of
        None \<Rightarrow> c
      | Some t \<Rightarrow>
          (let c = c\<lparr>rc_auth_type := t\<rparr>
           in if rc_auth_type c = AuthNone then c\<lparr>rc_api_key := None\<rparr> else c))"

definition apply_api_key ::
  "string option option \<Rightarrow> remote_connection \<Rightarrow> remote_connection" where
  "apply_api_key k c =
     (case k of
        None \<Rightarrow> c
      | Some k \<Rightarrow>
          (let c = c\<lparr>rc_api_key := non_empty k\<rparr>
           in c\<lparr>rc_auth_type := (if rc_api_key c \<noteq> None then ApiKey else AuthNone)\<rparr>))"

definition apply_connection_update ::
  "timestamp \<Rightarrow> update_connection_request \<Rightarrow> remote_connection \<Rightarrow> remote_connection" where
  "apply_connection_update now request c =
     (let c = (case ur_name request of None \<Rightarrow> c | Some n \<Rightarrow> c\<lparr>rc_name := n\<rparr>);
          c = (case ur_url request of None \<Rightarrow> c | Some u \<Rightarrow> c\<lparr>rc_url := normalize_url u\<rparr>);
          c = apply_auth_type (ur_auth_type request) c;
          c = apply_api_key (ur_api_key request) c;
          c = (case ur_share_base_url request of
                 None \<Rightarrow> c | Some s \<Rightarrow> c\<lparr>rc_share_base_url := non_empty s\<rparr>)
      in c\<lparr>rc_updated_at := now\<rparr>)"

definition connection_update_closure ::
  "timestamp \<Rightarrow> string \<Rightarrow> update_connection_request \<Rightarrow> client_config \<Rightarrow>
     client_config \<times> remote_connection option" where
  "connection_update_closure now i request c =
     (case update_first (\<lambda>x. rc_id x = i) (apply_connection_update now request)
             (cc_connections c) of
        (cs, updated) \<Rightarrow> (c\<lparr>cc_connections := cs\<rparr>, updated))"

definition connection_update ::
  "config_env \<Rightarrow> timestamp \<Rightarrow> string \<Rightarrow> update_connection_request \<Rightarrow> config_store \<Rightarrow>
     config_store \<times> remote_connection res" where
  "connection_update e now i request s =
     (case config_update e (connection_update_closure now i request) s of
        (s', Inl error) \<Rightarrow> (s', Inl error)
      | (s', Inr (Some connection)) \<Rightarrow> (s', Inr connection)
      | (s', Inr None) \<Rightarrow> (s', Inl (NotFound (''connection not found: '' @ i))))"

text \<open>\<open>delete\<close>: refused while a relationship refers to the connection.  The captured pair is
  \<open>(matching_relationships, found)\<close>.\<close>

definition connection_delete_closure ::
  "string \<Rightarrow> client_config \<Rightarrow> client_config \<times> (nat \<times> bool)" where
  "connection_delete_closure i c =
     (let matching = length (filter (\<lambda>r. sr_remote_connection_id r = i) (cc_relationships c))
      in if matching > 0 then (c, (matching, False))
         else
           let kept = filter (\<lambda>x. rc_id x \<noteq> i) (cc_connections c)
           in (c\<lparr>cc_connections := kept\<rparr>,
               (matching, length kept < length (cc_connections c))))"

definition connection_delete ::
  "config_env \<Rightarrow> string \<Rightarrow> config_store \<Rightarrow> config_store \<times> unit res" where
  "connection_delete e i s =
     (case config_update e (connection_delete_closure i) s of
        (s', Inl error) \<Rightarrow> (s', Inl error)
      | (s', Inr (matching, found)) \<Rightarrow>
          if matching > 0 then
            (s', Inl (BadRequest
               (''connection cannot be deleted while sync relationships are still '' @
                ''configured against it ('' @ show_nat matching @
                '' configured); delete those syncs first'')))
          else if \<not> found then (s', Inl (NotFound (''connection not found: '' @ i)))
          else (s', Inr ()))"

section \<open>Connection test\<close>

record connection_test_result =
  ct_success :: bool
  ct_message :: string
  ct_latency_ms :: "nat option"

datatype health_outcome =
    HealthResponse nat nat
  | HealthSendError string
  | HealthTimeout

definition is_success :: "nat \<Rightarrow> bool" where
  "is_success status \<longleftrightarrow> 200 \<le> status \<and> status < 300"

text \<open>\<open>send\<close> is the network: the URL, the \<open>Authorization\<close> header, and the status and latency
  or the failure within the ten seconds.\<close>

definition test_connection ::
  "(string \<Rightarrow> string option \<Rightarrow> health_outcome) \<Rightarrow> string \<Rightarrow> config_store \<Rightarrow>
     connection_test_result res" where
  "test_connection send i s =
     (case connection_get i s of
        None \<Rightarrow> Inl (NotFound (''connection not found: '' @ i))
      | Some connection \<Rightarrow>
          (let health_url = base_url connection @ ''/system/health'';
               header = (if rc_auth_type connection = ApiKey
                         then map_option (\<lambda>k. ''Bearer '' @ k) (rc_api_key connection)
                         else None)
           in case send health_url header of
                HealthResponse status latency \<Rightarrow>
                  if is_success status
                  then Inr \<lparr>ct_success = True,
                            ct_message = ''connected (HTTP '' @ show_nat status @ '')'',
                            ct_latency_ms = Some latency\<rparr>
                  else Inr \<lparr>ct_success = False,
                            ct_message = ''server returned HTTP '' @ show_nat status,
                            ct_latency_ms = Some latency\<rparr>
              | HealthSendError error \<Rightarrow>
                  Inr \<lparr>ct_success = False, ct_message = ''connection failed: '' @ error,
                       ct_latency_ms = None\<rparr>
              | HealthTimeout \<Rightarrow>
                  Inr \<lparr>ct_success = False, ct_message = ''connection timed out (10s)'',
                       ct_latency_ms = None\<rparr>))"

section \<open>The upgrade probe\<close>

text \<open>
  What the probe asks of \<open>reqwest\<close>: the answer to the GET of one connection (status and
  \<open>Location\<close> header), URL parsing and joining, and the clock.
\<close>

record probe_env =
  pe_client_ok :: bool
  pe_get :: "string \<Rightarrow> string \<Rightarrow> (nat \<times> string option) option"
  pe_parse :: "string \<Rightarrow> url_view option"
  pe_join :: "string \<Rightarrow> string \<Rightarrow> url_view option"
  pe_now :: "string \<Rightarrow> timestamp"

definition upgraded_base :: "url_view \<Rightarrow> string" where
  "upgraded_base target =
     ''https://'' @ (case url_host target of Some h \<Rightarrow> h | None \<Rightarrow> []) @
     (case url_port target of Some p \<Rightarrow> '':'' @ show_nat p | None \<Rightarrow> [])"

text \<open>The new base URL one connection's probe finds, None on every \<open>continue\<close>.\<close>

definition probe_target :: "probe_env \<Rightarrow> remote_connection \<Rightarrow> string option" where
  "probe_target pe conn =
     (let base = base_url conn; probe_url = base @ ''/system/health''
      in if starts_with base ''https://'' then None
         else case pe_get pe (rc_id conn) probe_url of
                None \<Rightarrow> None
              | Some (status, location) \<Rightarrow>
                  if \<not> (status = 301 \<or> status = 308) then None
                  else case location of
                         None \<Rightarrow> None
                       | Some location \<Rightarrow>
                           (case (pe_parse pe probe_url, pe_join pe probe_url location) of
                              (Some b, Some target) \<Rightarrow>
                                if is_same_host_https_upgrade b target
                                then Some (upgraded_base target) else None
                            | _ \<Rightarrow> None))"

definition upgrade_request :: "string \<Rightarrow> update_connection_request" where
  "upgrade_request u =
     \<lparr>ur_name = None, ur_url = Some u, ur_auth_type = None, ur_api_key = None,
      ur_share_base_url = None\<rparr>"

definition probe_step ::
  "config_env \<Rightarrow> probe_env \<Rightarrow> remote_connection \<Rightarrow> config_store \<times> jwt_cache \<Rightarrow>
     config_store \<times> jwt_cache" where
  "probe_step e pe conn st =
     (case st of (s, jwt) \<Rightarrow>
        (case probe_target pe conn of
           None \<Rightarrow> (s, jwt)
         | Some new_base \<Rightarrow>
             (case connection_update e (pe_now pe (rc_id conn)) (rc_id conn)
                     (upgrade_request new_base) s of
                (s', Inr _) \<Rightarrow> (s', slot_write (rc_id conn) None (slot_for (rc_id conn) jwt))
              | (s', Inl _) \<Rightarrow> (s', jwt))))"

definition probe_and_upgrade_connection_urls ::
  "config_env \<Rightarrow> probe_env \<Rightarrow> config_store \<times> jwt_cache \<Rightarrow> config_store \<times> jwt_cache" where
  "probe_and_upgrade_connection_urls e pe st =
     (if pe_client_ok pe then fold (probe_step e pe) (connection_list (fst st)) st else st)"

section \<open>Lemmas\<close>

lemma suffix_last: "suffix [c] s \<longleftrightarrow> s \<noteq> [] \<and> last s = c"
  by (auto simp: suffix_def) (metis append_butlast_last_id)

lemma normalize_url_form:
  "normalize_url s = [] \<or>
   (contains (normalize_url s) ''://'' \<and> last (normalize_url s) \<noteq> CHR ''/'')"
proof -
  let ?t = "trim_end_matches CHR ''/'' (trim s)"
  have l: "?t = [] \<or> last ?t \<noteq> CHR ''/''" by (rule trim_end_matches_last)
  show ?thesis
    using l by (auto simp: normalize_url_def Let_def)
qed

lemma apply_update_id [simp]: "rc_id (apply_connection_update now request c) = rc_id c"
  by (simp add: apply_connection_update_def apply_auth_type_def apply_api_key_def Let_def
      split: option.splits)

lemma apply_update_created [simp]:
  "rc_created_at (apply_connection_update now request c) = rc_created_at c"
  by (simp add: apply_connection_update_def apply_auth_type_def apply_api_key_def Let_def
      split: option.splits)

text \<open>A connection without authentication holds no key.\<close>

definition auth_consistent :: "remote_connection \<Rightarrow> bool" where
  "auth_consistent c \<longleftrightarrow> (rc_auth_type c = AuthNone \<longrightarrow> rc_api_key c = None)"

lemma apply_auth_type_consistent:
  "auth_consistent c \<Longrightarrow> auth_consistent (apply_auth_type t c)"
  by (auto simp: apply_auth_type_def auth_consistent_def Let_def split: option.splits)

lemma apply_api_key_consistent:
  "auth_consistent c \<Longrightarrow> auth_consistent (apply_api_key k c)"
  by (auto simp: apply_api_key_def auth_consistent_def Let_def split: option.splits)

lemma apply_update_consistent:
  assumes "auth_consistent c"
  shows "auth_consistent (apply_connection_update now request c)"
proof -
  have name: "auth_consistent (case ur_name request of None \<Rightarrow> c | Some n \<Rightarrow> c\<lparr>rc_name := n\<rparr>)"
    using assms by (simp add: auth_consistent_def split: option.splits)
  have url: "auth_consistent (case u of None \<Rightarrow> d | Some v \<Rightarrow> d\<lparr>rc_url := normalize_url v\<rparr>)"
    if "auth_consistent d" for u d
    using that by (simp add: auth_consistent_def split: option.splits)
  have share: "auth_consistent
      ((case u of None \<Rightarrow> d | Some v \<Rightarrow> d\<lparr>rc_share_base_url := non_empty v\<rparr>)\<lparr>rc_updated_at := n\<rparr>)"
    if "auth_consistent d" for u d n
    using that by (simp add: auth_consistent_def split: option.splits)
  show ?thesis
    unfolding apply_connection_update_def Let_def
    by (intro share apply_api_key_consistent apply_auth_type_consistent url name)
qed

text \<open>Every relationship refers to a connection of the configuration.\<close>

definition references_ok :: "client_config \<Rightarrow> bool" where
  "references_ok c \<longleftrightarrow>
     (\<forall>r\<in>set (cc_relationships c). sr_remote_connection_id r \<in> rc_id ` set (cc_connections c))"

lemma references_ok_alt:
  "references_ok c \<longleftrightarrow>
     set (map sr_remote_connection_id (cc_relationships c)) \<subseteq> set (map rc_id (cc_connections c))"
  by (auto simp: references_ok_def)

lemma update_closure_keeps:
  "cc_relationships (fst (connection_update_closure now i request c)) = cc_relationships c"
  "map rc_id (cc_connections (fst (connection_update_closure now i request c))) =
     map rc_id (cc_connections c)"
proof -
  have "map rc_id (fst (update_first (\<lambda>x. rc_id x = i) (apply_connection_update now request)
      (cc_connections c))) = map rc_id (cc_connections c)"
    by (rule map_update_first) simp
  then show "map rc_id (cc_connections (fst (connection_update_closure now i request c))) =
     map rc_id (cc_connections c)"
    by (auto simp: connection_update_closure_def split: prod.splits)
  show "cc_relationships (fst (connection_update_closure now i request c)) = cc_relationships c"
    by (simp add: connection_update_closure_def split: prod.splits)
qed

lemma update_closure_references:
  "references_ok c \<Longrightarrow> references_ok (fst (connection_update_closure now i request c))"
  by (metis references_ok_def update_closure_keeps list.set_map)

lemma delete_closure_references:
  assumes "references_ok c"
  shows "references_ok (fst (connection_delete_closure i c))"
proof (cases "\<exists>r\<in>set (cc_relationships c). sr_remote_connection_id r = i")
  case True
  then have "filter (\<lambda>r. sr_remote_connection_id r = i) (cc_relationships c) \<noteq> []"
    by (simp add: filter_empty_conv)
  with assms show ?thesis by (simp add: connection_delete_closure_def)
next
  case False
  then have "filter (\<lambda>r. sr_remote_connection_id r = i) (cc_relationships c) = []"
    by (simp add: filter_empty_conv)
  with assms False show ?thesis
    by (auto simp: connection_delete_closure_def references_ok_def Let_def)
qed

lemma connection_update_store:
  "cs_config (fst (connection_update e now i request s)) =
     fst (connection_update_closure now i request (cs_config s))"
proof -
  have "fst (connection_update e now i request s) =
      fst (config_update e (connection_update_closure now i request) s)"
    by (auto simp: connection_update_def split: prod.splits sum.splits option.splits)
  then show ?thesis by (simp add: cfg.view_upd)
qed

lemma connection_delete_store:
  "cs_config (fst (connection_delete e i s)) = fst (connection_delete_closure i (cs_config s))"
proof -
  have "fst (connection_delete e i s) = fst (config_update e (connection_delete_closure i) s)"
    by (auto simp: connection_delete_def split: prod.splits sum.splits)
  then show ?thesis by (simp add: cfg.view_upd)
qed

section \<open>Properties\<close>

text \<open>A connection whose authentication is off holds no API key, and an update of it by any
  request keeps it so, whichever of the two fields the request sets.\<close>

theorem connection_update_keeps_auth:
  assumes "auth_consistent c"
  shows "auth_consistent (apply_connection_update now request c) \<and>
    rc_id (apply_connection_update now request c) = rc_id c"
  using apply_update_consistent [OF assms] by simp

lemma connection_update_keeps_auth_witness:
  "auth_consistent (apply_connection_update 2
     \<lparr>ur_name = None, ur_url = None, ur_auth_type = Some AuthNone, ur_api_key = Some (Some ''k''),
      ur_share_base_url = None\<rparr>
     \<lparr>rc_id = ''c1'', rc_name = ''home'', rc_url = ''http://h'', rc_auth_type = ApiKey,
      rc_api_key = Some ''old'', rc_share_base_url = None, rc_created_at = 1, rc_updated_at = 1\<rparr>)"
  by (rule connection_update_keeps_auth [THEN conjunct1]) (simp add: auth_consistent_def)

text \<open>A stored URL is empty, or has a scheme and no trailing slash, whatever the user typed.\<close>

theorem normalized_url_shape:
  "normalize_url s = [] \<or>
   (contains (normalize_url s) ''://'' \<and> last (normalize_url s) \<noteq> CHR ''/'')"
  by (rule normalize_url_form)

end
