(* ===== verification/Remote_Client.thy ===== *)
theory Remote_Client
  imports Connections Json
begin

text \<open>
  The transport of \<open>remote/mod.rs\<close>: the authorization header and the token exchange behind it,
  the redirect walk that keeps method, body and authorization, the single retry on 401, and
  the classification of failures.  The network is the record \<open>net\<close> over a world of any type;
  the state of a client is the world with the token slot of its connection.
\<close>

section \<open>Requests and responses\<close>

datatype http_method = GET | HEAD | POST | PUT | PATCH | DELETE

datatype http_body = NoBody | JsonBody json | BytesBody string | StreamBody string

datatype client_kind = DefaultKind | SearchKind | BlobCheckKind | BlobCommitKind | FileTransferKind

record http_request =
  rq_method :: http_method
  rq_url :: string
  rq_auth :: "string option"
  rq_headers :: "(string \<times> string) list"
  rq_body :: http_body

record http_response =
  rs_status :: nat
  rs_headers :: "(string \<times> string) list"
  rs_body :: "string option"

text \<open>The classes of \<open>reqwest::Error\<close> the code tells apart, each with its text.\<close>

datatype send_error = ConnectError string | TimeoutError string | RequestError string | OtherError string

fun send_error_text :: "send_error \<Rightarrow> string" where
  "send_error_text (ConnectError m) = m"
| "send_error_text (TimeoutError m) = m"
| "send_error_text (RequestError m) = m"
| "send_error_text (OtherError m) = m"

text \<open>
  The network: one request and its answer (a body that cannot be read is None) through a client
  that follows no redirects and through the shared client with its own policy, the resolution
  of a \<open>Location\<close> against a URL, JSON parsing with its error text, the display form of a status,
  and base64 decoding.
\<close>

record 'w net =
  net_send :: "client_kind \<Rightarrow> http_request \<Rightarrow> 'w \<Rightarrow> 'w \<times> (send_error + http_response)"
  net_plain :: "http_request \<Rightarrow> 'w \<Rightarrow> 'w \<times> (send_error + http_response)"
  net_join :: "string \<Rightarrow> string \<Rightarrow> string + string"
  net_parse :: "string \<Rightarrow> string + json"
  net_status :: "nat \<Rightarrow> string"
  net_base64 :: "string \<Rightarrow> string + string"

type_synonym 'w cstate = "'w \<times> string option"

definition kind_timeout :: "client_kind \<Rightarrow> nat" where
  "kind_timeout k = (case k of
      DefaultKind \<Rightarrow> 30
    | SearchKind \<Rightarrow> 60 * 60
    | BlobCheckKind \<Rightarrow> 24 * 60 * 60
    | BlobCommitKind \<Rightarrow> 24 * 60 * 60
    | FileTransferKind \<Rightarrow> 24 * 60 * 60)"

text \<open>A request can be sent again unless its body is a stream.\<close>

definition clonable :: "http_request \<Rightarrow> bool" where
  "clonable r = (case rq_body r of StreamBody _ \<Rightarrow> False | _ \<Rightarrow> True)"

definition is_redirect :: "nat \<Rightarrow> bool" where
  "is_redirect status \<longleftrightarrow> status = 301 \<or> status = 302 \<or> status = 307 \<or> status = 308"

definition location_of :: "http_response \<Rightarrow> string option" where
  "location_of r = hget (rs_headers r) ''location''"

definition body_text :: "http_response \<Rightarrow> string" where
  "body_text r = (case rs_body r of Some t \<Rightarrow> t | None \<Rightarrow> [])"

definition response_json :: "'w net \<Rightarrow> http_response \<Rightarrow> string + json" where
  "response_json n r =
     (case rs_body r of Some t \<Rightarrow> net_parse n t | None \<Rightarrow> Inl ''error decoding response body'')"

section \<open>Percent encoding\<close>

definition unreserved :: "char \<Rightarrow> bool" where
  "unreserved c \<longleftrightarrow>
     (65 \<le> byte c \<and> byte c \<le> 90) \<or> (97 \<le> byte c \<and> byte c \<le> 122) \<or>
     (48 \<le> byte c \<and> byte c \<le> 57) \<or> c \<in> {CHR ''-'', CHR ''_'', CHR ''.'', CHR ''~'', CHR ''/''}"

definition hex_upper :: "nat \<Rightarrow> char" where
  "hex_upper d = (if d < 10 then char_of (48 + d) else char_of (55 + d))"

definition simple_url_encode :: "string \<Rightarrow> string" where
  "simple_url_encode input =
     concat (map (\<lambda>c. if unreserved c then [c]
                      else [CHR ''%'', hex_upper (byte c div 16), hex_upper (byte c mod 16)]) input)"

section \<open>Classification\<close>

definition classify_reqwest_send_error :: "send_error \<Rightarrow> string \<Rightarrow> client_error" where
  "classify_reqwest_send_error error remote_path = (case error of
      ConnectError m \<Rightarrow>
        UpstreamUnreachable (''couldn'' @ [CHR 0x27] @ ''t reach engine for '' @ remote_path @ '': '' @ m)
    | TimeoutError m \<Rightarrow>
        UpstreamUnreachable (''couldn'' @ [CHR 0x27] @ ''t reach engine for '' @ remote_path @ '': '' @ m)
    | RequestError m \<Rightarrow>
        UpstreamProtocol (''malformed request to engine for '' @ remote_path @ '': '' @ m)
    | OtherError m \<Rightarrow>
        UpstreamUnreachable (''transport error talking to engine for '' @ remote_path @ '': '' @ m))"

definition upstream_body_message :: "'w net \<Rightarrow> string \<Rightarrow> string" where
  "upstream_body_message n body =
     (case net_parse n body of
        Inl _ \<Rightarrow> take_chars 200 body
      | Inr v \<Rightarrow>
          (let message = (case Option.bind (jget v ''error'') as_str of
                            Some m \<Rightarrow> m | None \<Rightarrow> take_chars 200 body)
           in if Option.bind (jget v ''retryable'') as_bool = Some True
              then message @ '' (retryable)'' else message))"

definition classify_upstream_status :: "'w net \<Rightarrow> nat \<Rightarrow> string \<Rightarrow> string \<Rightarrow> client_error" where
  "classify_upstream_status n status body remote_path =
     (let body_excerpt = upstream_body_message n body
      in if 400 \<le> status \<and> status < 500
         then UpstreamRejected status (''engine refused '' @ remote_path @ '': '' @ body_excerpt)
         else UpstreamServer status (''engine failed for '' @ remote_path @ '': '' @ body_excerpt))"

definition response_excerpt :: "string \<Rightarrow> string" where
  "response_excerpt body = take_chars 500 body"

definition ok_json :: json where
  "ok_json = JObj [(''ok'', JBool True)]"

definition json_value_response :: "'w net \<Rightarrow> http_response \<Rightarrow> string \<Rightarrow> json res" where
  "json_value_response n r context =
     (let text = body_text r
      in if \<not> is_success (rs_status r)
         then Inl (classify_upstream_status n (rs_status r) text context)
         else if trim text = [] then Inr ok_json
         else map_err (\<lambda>error. UpstreamProtocol (''failed to parse '' @ context @ '' response: '' @
                 error @ ''; body: '' @ response_excerpt text)) (net_parse n text))"

section \<open>The client\<close>

record remote_client =
  rm_base_url :: string
  rm_api_key :: "string option"

definition from_connection_cached :: "remote_connection \<Rightarrow> remote_client" where
  "from_connection_cached c =
     \<lparr>rm_base_url = base_url c,
      rm_api_key = (if rc_auth_type c = ApiKey then rc_api_key c else None)\<rparr>"

definition invalidate_token :: "'w cstate \<Rightarrow> 'w cstate" where
  "invalidate_token s = (fst s, None)"

text \<open>The redirects of the token exchange: at most five URLs are asked, each with the same POST.
  The arrow between the URLs of an error text is the character U+2192.\<close>

definition arrow :: string where
  "arrow = '' '' @ [CHR 0xE2, CHR 0x86, CHR 0x92] @ '' ''"

definition token_request :: "json \<Rightarrow> string \<Rightarrow> http_request" where
  "token_request body url =
     \<lparr>rq_method = POST, rq_url = url, rq_auth = None, rq_headers = [], rq_body = JsonBody body\<rparr>"

function token_walk ::
  "'w net \<Rightarrow> json \<Rightarrow> string list \<Rightarrow> string \<Rightarrow> 'w \<Rightarrow> 'w \<times> (http_response \<times> string list) res" where
  "token_walk n body chain url w =
     (case net_send n DefaultKind (token_request body url) w of
        (w1, Inl e) \<Rightarrow>
          (w1, Inl (Server (''token exchange POST to '' @ url @ '' failed: '' @ send_error_text e)))
      | (w1, Inr r) \<Rightarrow>
          if \<not> is_redirect (rs_status r) then (w1, Inr (r, chain))
          else case location_of r of
            None \<Rightarrow>
              (w1, Inl (Server (''token exchange returned HTTP '' @ net_status n (rs_status r) @
                 '' with no Location header (chain: '' @ join_with arrow chain @ '')'')))
          | Some loc \<Rightarrow>
              (case net_join n url loc of
                 Inl e \<Rightarrow>
                   (w1, Inl (Server (''token exchange got HTTP '' @ net_status n (rs_status r) @
                      '' with unparseable Location '' @ [CHR 0x27] @ loc @ [CHR 0x27] @ '': '' @ e)))
               | Inr next_url \<Rightarrow>
                   if 5 \<le> length chain
                   then (w1, Inl (Server (''token exchange exceeded 5 redirects (chain: '' @
                           join_with arrow chain @ arrow @ next_url @ '')'')))
                   else token_walk n body (chain @ [next_url]) next_url w1))"
  by pat_completeness auto
termination
  by (relation "measure (\<lambda>(n, body, chain, url, w). 5 - length chain)") auto

declare token_walk.simps [simp del]

definition token_body :: "string \<Rightarrow> json" where
  "token_body api_key = JObj [(''api_key'', JStr api_key), (''include_refresh'', JBool False)]"

definition exchange_token :: "'w net \<Rightarrow> remote_client \<Rightarrow> string \<Rightarrow> 'w \<Rightarrow> 'w \<times> string res" where
  "exchange_token n c api_key w =
     (let initial_url = rm_base_url c @ ''/auth/token''
      in then_st (token_walk n (token_body api_key) [initial_url] initial_url w) (\<lambda>w1 (r, chain).
           if \<not> is_success (rs_status r) then
             (w1, Inl (Server (''token exchange returned HTTP '' @ net_status n (rs_status r) @
                '' for '' @ rm_base_url c @
                (if 1 < length chain
                 then '' (after redirect: '' @ join_with arrow chain @ '')'' else []) @
                '' '' @ [CHR 0xE2, CHR 0x80, CHR 0x94] @
                '' check that the connection URL is correct and that the engine is reachable'')))
           else lift_st w1
             (and_then (map_err (\<lambda>e. Server (''token exchange response parse failed: '' @ e))
                          (response_json n r))
               (\<lambda>b. ok_or (Server (''token exchange response missing '' @ [CHR 0x27] @ ''token'' @
                                    [CHR 0x27] @ '' field''))
                      (Option.bind (jget b ''token'') as_str)))))"

definition auth_header :: "'w net \<Rightarrow> remote_client \<Rightarrow> 'w cstate \<Rightarrow> 'w cstate \<times> string option" where
  "auth_header n c s =
     (case rm_api_key c of
        None \<Rightarrow> (s, None)
      | Some api_key \<Rightarrow>
          (case snd s of
             Some token \<Rightarrow> (s, Some (''Bearer '' @ token))
           | None \<Rightarrow>
               (case exchange_token n c api_key (fst s) of
                  (w1, Inr token) \<Rightarrow> ((w1, Some token), Some (''Bearer '' @ token))
                | (w1, Inl _) \<Rightarrow> ((w1, None), Some (''Bearer '' @ api_key)))))"

text \<open>The redirect walk: \<open>k\<close> more answers are inspected, then the request is sent once more and
  its answer returned whatever it is.\<close>

fun follow_redirects ::
  "'w net \<Rightarrow> client_kind \<Rightarrow> nat \<Rightarrow> http_request \<Rightarrow> 'w \<Rightarrow> 'w \<times> (send_error + http_response)" where
  "follow_redirects n kind 0 request w = net_send n kind request w"
| "follow_redirects n kind (Suc k) request w =
     (case net_send n kind request w of
        (w1, Inl e) \<Rightarrow> (w1, Inl e)
      | (w1, Inr r) \<Rightarrow>
          if \<not> is_redirect (rs_status r) then (w1, Inr r)
          else case location_of r of
            None \<Rightarrow> (w1, Inr r)
          | Some location \<Rightarrow>
              (case net_join n (rq_url request) location of
                 Inl _ \<Rightarrow> (w1, Inr r)
               | Inr next_url \<Rightarrow>
                   if \<not> clonable request then (w1, Inr r)
                   else follow_redirects n kind k (request\<lparr>rq_url := next_url\<rparr>) w1))"

definition send_following_auth_redirects ::
  "'w net \<Rightarrow> client_kind \<Rightarrow> http_request \<Rightarrow> 'w \<Rightarrow> 'w \<times> (send_error + http_response)" where
  "send_following_auth_redirects n kind request w = follow_redirects n kind 5 request w"

definition send_attempt ::
  "'w net \<Rightarrow> remote_client \<Rightarrow> client_kind \<Rightarrow> http_request \<Rightarrow> 'w cstate \<Rightarrow>
     'w cstate \<times> (send_error + http_response)" where
  "send_attempt n c kind request s =
     (case auth_header n c s of
        ((w1, slot), auth) \<Rightarrow>
          (case send_following_auth_redirects n kind
                  (case auth of None \<Rightarrow> request | Some a \<Rightarrow> request\<lparr>rq_auth := Some a\<rparr>) w1 of
             (w2, r) \<Rightarrow> ((w2, slot), r)))"

definition authed_send_with_client ::
  "'w net \<Rightarrow> remote_client \<Rightarrow> client_kind \<Rightarrow> http_request \<Rightarrow> 'w cstate \<Rightarrow>
     'w cstate \<times> (send_error + http_response)" where
  "authed_send_with_client n c kind request s =
     then_st (send_attempt n c kind request s) (\<lambda>s1 r.
       if rs_status r = 401
       then send_attempt n c kind request (invalidate_token s1)
       else (s1, Inr r))"

definition authed_send ::
  "'w net \<Rightarrow> remote_client \<Rightarrow> http_request \<Rightarrow> 'w cstate \<Rightarrow>
     'w cstate \<times> (send_error + http_response)" where
  "authed_send n c request s = authed_send_with_client n c DefaultKind request s"

definition portal_url :: "'w net \<Rightarrow> remote_client \<Rightarrow> string \<Rightarrow> 'w \<Rightarrow> 'w \<times> string res" where
  "portal_url n c path w =
     (case rm_api_key c of
        None \<Rightarrow> (w, Inl (NotFound ''connection has no API key; cannot mint a portal token''))
      | Some api_key \<Rightarrow>
          then_st (exchange_token n c api_key w) (\<lambda>w1 token.
            (w1, Inr (trim_end_matches CHR ''/'' (rm_base_url c) @ ''/?token='' @ token @
                      ''&page=files&path='' @ simple_url_encode path))))"

section \<open>Counting requests\<close>

text \<open>The same network with a log of the requests it was asked.\<close>

definition logged :: "'w net \<Rightarrow> ('w \<times> http_request list) net" where
  "logged n =
     \<lparr>net_send = (\<lambda>kind r (w, log). case net_send n kind r w of (w', a) \<Rightarrow> ((w', log @ [r]), a)),
      net_plain = (\<lambda>r (w, log). case net_plain n r w of (w', a) \<Rightarrow> ((w', log @ [r]), a)),
      net_join = net_join n, net_parse = net_parse n, net_status = net_status n,
      net_base64 = net_base64 n\<rparr>"

lemma logged_simps [simp]:
  "net_send (logged n) kind r (w, log) = (case net_send n kind r w of (w', a) \<Rightarrow> ((w', log @ [r]), a))"
  "net_join (logged n) = net_join n" "net_parse (logged n) = net_parse n"
  "net_status (logged n) = net_status n"
  by (simp_all add: logged_def)

lemma token_walk_step:
  assumes "net_send n DefaultKind (token_request body url) w = (w1, a)"
  shows "fst (token_walk n body chain url w) = w1 \<or>
    (length chain < 5 \<and>
     (\<exists>u. token_walk n body chain url w = token_walk n body (chain @ [u]) u w1))"
  using assms
  by (auto simp: token_walk.simps [of n body chain url w] split: sum.splits option.splits)

lemma token_walk_log:
  assumes "length chain \<le> 5"
    and "fst (token_walk (logged n) body chain url (w, log)) = (w', log')"
  shows "\<exists>rs. log' = log @ rs \<and> rs \<noteq> [] \<and> length rs \<le> 6 - length chain \<and>
    (\<forall>r\<in>set rs. rq_method r = POST \<and> rq_body r = JsonBody body)"
  using assms
proof (induction "5 - length chain" arbitrary: chain url w log rule: less_induct)
  case less
  let ?req = "token_request body url"
  have req: "rq_method ?req = POST" "rq_body ?req = JsonBody body"
    by (simp_all add: token_request_def)
  obtain w1 a where "net_send n DefaultKind ?req w = (w1, a)" by force
  then have "net_send (logged n) DefaultKind ?req (w, log) = ((w1, log @ [?req]), a)" by simp
  from token_walk_step [OF this, of chain] consider
      (stop) "fst (token_walk (logged n) body chain url (w, log)) = (w1, log @ [?req])"
    | (go) u where "length chain < 5" "fst (token_walk (logged n) body chain url (w, log)) =
        fst (token_walk (logged n) body (chain @ [u]) u (w1, log @ [?req]))"
    by fastforce
  then show ?case
  proof cases
    case stop
    with less.prems req show ?thesis by auto
  next
    case go
    have "5 - length (chain @ [u]) < 5 - length chain" "length (chain @ [u]) \<le> 5"
      using go(1) by auto
    from less.hyps [OF this] go(2) less.prems(2)
    obtain rs where "log' = (log @ [?req]) @ rs" "length rs \<le> 6 - length (chain @ [u])"
      "\<forall>r\<in>set rs. rq_method r = POST \<and> rq_body r = JsonBody body" by metis
    then have "log' = log @ (?req # rs) \<and> ?req # rs \<noteq> [] \<and> length (?req # rs) \<le> 6 - length chain \<and>
        (\<forall>r\<in>set (?req # rs). rq_method r = POST \<and> rq_body r = JsonBody body)"
      using req go(1) by auto
    then show ?thesis by blast
  qed
qed

lemma exchange_token_world:
  "fst (exchange_token n c k w) =
     fst (token_walk n (token_body k) [rm_base_url c @ ''/auth/token''] (rm_base_url c @ ''/auth/token'') w)"
  by (simp add: exchange_token_def Let_def then_st_def lift_st_def split: prod.splits sum.splits)

lemma exchange_token_log:
  assumes "fst (exchange_token (logged n) c k (w, log)) = (w', log')"
  shows "\<exists>rs. log' = log @ rs \<and> rs \<noteq> [] \<and> length rs \<le> 5 \<and>
    (\<forall>r\<in>set rs. rq_method r = POST \<and> rq_body r = JsonBody (token_body k))"
  using token_walk_log [of "[rm_base_url c @ ''/auth/token'']" n "token_body k" _ w log w' log'] assms
  by (simp add: exchange_token_world)

text \<open>The redirect walk asks at most six times; every request differs from the first in its URL
  only.\<close>

lemma follow_log:
  "fst (follow_redirects (logged n) kind k r (w, log)) = (w', log') \<Longrightarrow>
    \<exists>us. log' = log @ map (\<lambda>u. r\<lparr>rq_url := u\<rparr>) us \<and> us \<noteq> [] \<and> hd us = rq_url r \<and> length us \<le> Suc k"
proof (induction k arbitrary: r w log)
  case 0
  then show ?case
    by (auto split: prod.splits intro!: exI [of _ "[rq_url r]"])
next
  case (Suc k)
  obtain w1 a where send: "net_send n kind r w = (w1, a)" by force
  show ?case
  proof (cases "fst (follow_redirects (logged n) kind (Suc k) r (w, log)) = (w1, log @ [r])")
    case True
    with Suc.prems show ?thesis by (auto intro!: exI [of _ "[rq_url r]"])
  next
    case False
    then obtain u where
      "follow_redirects (logged n) kind (Suc k) r (w, log) =
         follow_redirects (logged n) kind k (r\<lparr>rq_url := u\<rparr>) (w1, log @ [r])"
      by (auto simp: send split: sum.splits option.splits if_splits)
    with Suc.prems Suc.IH [of "r\<lparr>rq_url := u\<rparr>" w1 "log @ [r]"] obtain us where
      "log' = (log @ [r]) @ map (\<lambda>v. r\<lparr>rq_url := v\<rparr>) us" "length us \<le> Suc k"
      by auto
    then have "log' = log @ map (\<lambda>v. r\<lparr>rq_url := v\<rparr>) (rq_url r # us) \<and> length (rq_url r # us) \<le> Suc (Suc k)"
      by simp
    then show ?thesis by (metis list.distinct(1) list.sel(1))
  qed
qed

text \<open>One attempt, and the attempt with its retry.\<close>

lemma auth_header_log:
  assumes "fst (auth_header (logged n) c ((w, log), slot)) = ((w', log'), slot')"
  shows "\<exists>rs. log' = log @ rs \<and> length rs \<le> 5"
proof (cases "rm_api_key c = None \<or> slot \<noteq> None")
  case True
  with assms show ?thesis by (cases "rm_api_key c") (auto simp: auth_header_def)
next
  case False
  then obtain k where k: "rm_api_key c = Some k" "slot = None" by auto
  with assms have "fst (exchange_token (logged n) c k (w, log)) = (w', log')"
    by (auto simp: auth_header_def split: prod.splits sum.splits)
  from exchange_token_log [OF this] show ?thesis by blast
qed

lemma attempt_log:
  assumes "fst (send_attempt (logged n) c kind r ((w, log), slot)) = ((w', log'), slot')"
  shows "\<exists>rs. log' = log @ rs \<and> length rs \<le> 11"
proof -
  obtain w1 log1 slot1 auth where h: "auth_header (logged n) c ((w, log), slot) = (((w1, log1), slot1), auth)"
    by (metis surj_pair)
  then obtain rs1 where rs1: "log1 = log @ rs1" "length rs1 \<le> 5"
    using auth_header_log [of n c w log slot w1 log1 slot1] by auto
  let ?r = "case auth of None \<Rightarrow> r | Some a \<Rightarrow> r\<lparr>rq_auth := Some a\<rparr>"
  from assms h have "fst (follow_redirects (logged n) kind 5 ?r (w1, log1)) = (w', log')"
    by (auto simp: send_attempt_def send_following_auth_redirects_def split: prod.splits)
  from follow_log [OF this] obtain us where
    us: "log' = log1 @ map (\<lambda>u. ?r\<lparr>rq_url := u\<rparr>) us" "length us \<le> 6" by auto
  with rs1 show ?thesis
    by (intro exI [of _ "rs1 @ map (\<lambda>u. ?r\<lparr>rq_url := u\<rparr>) us"]) simp
qed

lemma authed_send_log:
  assumes "fst (authed_send_with_client (logged n) c kind r ((w, log), slot)) = ((w', log'), slot')"
  shows "\<exists>rs. log' = log @ rs \<and> length rs \<le> 22"
proof -
  obtain w1 log1 slot1 a where s1: "send_attempt (logged n) c kind r ((w, log), slot) = (((w1, log1), slot1), a)"
    by (metis surj_pair)
  then obtain rs1 where rs1: "log1 = log @ rs1" "length rs1 \<le> 11"
    using attempt_log [of n c kind r w log slot w1 log1 slot1] by auto
  show ?thesis
  proof (cases "\<exists>x. a = Inr x \<and> rs_status x = 401")
    case False
    with assms s1 rs1 show ?thesis
      by (auto simp: authed_send_with_client_def then_st_def split: sum.splits)
  next
    case True
    with assms s1 have "fst (send_attempt (logged n) c kind r ((w1, log1), None)) = ((w', log'), slot')"
      by (auto simp: authed_send_with_client_def invalidate_token_def)
    from attempt_log [OF this] obtain rs2 where "log' = log1 @ rs2" "length rs2 \<le> 11" by blast
    with rs1 show ?thesis by (intro exI [of _ "rs1 @ rs2"]) simp
  qed
qed

text \<open>Percent encoding leaves only unreserved characters and percent signs.\<close>

lemma hex_upper_unreserved: "d < 16 \<Longrightarrow> unreserved (hex_upper d)"
  by (auto simp: hex_upper_def unreserved_def)

lemma simple_url_encode_chars: "c \<in> set (simple_url_encode s) \<Longrightarrow> unreserved c \<or> c = CHR ''%''"
proof -
  have b: "byte d div 16 < 16" "byte d mod 16 < 16" for d :: char
    using byte_less [of d] by (simp_all add: less_mult_imp_div_less)
  assume "c \<in> set (simple_url_encode s)"
  then show ?thesis
    using hex_upper_unreserved [OF b(1)] hex_upper_unreserved [OF b(2)]
    by (auto simp: simple_url_encode_def split: if_splits)
qed

section \<open>Properties\<close>

text \<open>Exchanging an API key for a token sends between one and five requests, however the
  server redirects, and each is a POST with the key as its body: a redirect never turns it
  into a GET and never loses the body.\<close>

theorem exchange_token_bounded:
  "\<exists>rs. snd (fst (exchange_token (logged n) c k (w, log))) = log @ rs \<and> rs \<noteq> [] \<and>
     length rs \<le> 5 \<and>
     list_all (\<lambda>r. rq_method r = POST \<and> rq_body r = JsonBody (token_body k)) rs"
proof -
  obtain w' log' where run: "fst (exchange_token (logged n) c k (w, log)) = (w', log')" by force
  from exchange_token_log [OF this] show ?thesis by (auto simp: run list_all_iff)
qed

text \<open>C11. One authenticated call ends after at most 22 requests: two attempts of at most five
  requests for a token and six for the redirect walk each.\<close>

theorem authed_send_bounded:
  "\<exists>rs. snd (fst (fst (authed_send_with_client (logged n) c kind r ((w, log), slot)))) = log @ rs \<and>
     length rs \<le> 22"
proof -
  obtain w' log' slot' where run:
    "fst (authed_send_with_client (logged n) c kind r ((w, log), slot)) = ((w', log'), slot')"
    by (cases "fst (authed_send_with_client (logged n) c kind r ((w, log), slot))") force
  from authed_send_log [OF this] show ?thesis by (simp add: run)
qed

text \<open>Decoding a percent-encoded path, as a server does.\<close>

definition hex_value :: "char \<Rightarrow> nat" where
  "hex_value c = (if byte c < 58 then byte c - 48 else byte c - 55)"

fun url_decode :: "string \<Rightarrow> string" where
  "url_decode (c # a # b # cs) =
     (if c = CHR ''%'' then char_of (16 * hex_value a + hex_value b) # url_decode cs
      else c # url_decode (a # b # cs))"
| "url_decode cs = cs"

lemma hex_value_upper: "d < 16 \<Longrightarrow> hex_value (hex_upper d) = d"
proof -
  assume "d < 16"
  then have "d \<in> set [0..<16]" by simp
  moreover have "list_all (\<lambda>d. hex_value (hex_upper d) = d) [0..<16]" by code_simp
  ultimately show ?thesis unfolding list_all_iff by blast
qed

lemma url_decode_plain: "c \<noteq> CHR ''%'' \<Longrightarrow> url_decode (c # s) = c # url_decode s"
  by (cases s; cases "tl s") auto

lemma url_decode_escape:
  "url_decode (CHR ''%'' # hex_upper (byte c div 16) # hex_upper (byte c mod 16) # s) = c # url_decode s"
proof -
  have "byte c < 256" by (rule byte_less)
  then have "byte c div 16 < 16" by (intro less_mult_imp_div_less) simp
  then show ?thesis by (simp add: hex_value_upper)
qed

text \<open>C12. A server that decodes the path of a URL gets back the path the client encoded; so two
  different remote paths never share a URL.\<close>

theorem url_encode_decode: "url_decode (simple_url_encode s) = s"
proof (induction s)
  case Nil
  then show ?case by (simp add: simple_url_encode_def)
next
  case (Cons c s)
  have step: "simple_url_encode (c # s) =
      (if unreserved c then [c]
       else [CHR ''%'', hex_upper (byte c div 16), hex_upper (byte c mod 16)]) @ simple_url_encode s"
    by (simp add: simple_url_encode_def)
  have pct: "\<not> unreserved CHR ''%''" by code_simp
  show ?case
  proof (cases "unreserved c")
    case True
    with pct have "c \<noteq> CHR ''%''" by auto
    with True Cons show ?thesis by (simp add: step url_decode_plain del: url_decode.simps)
  next
    case False
    with Cons show ?thesis by (simp add: step url_decode_escape del: url_decode.simps)
  qed
qed

end
