(* ===== verification/Metadata.thy ===== *)
theory Metadata
  imports State_Store
begin

text \<open>
  \<open>sync/metadata.rs\<close>: what the client remembers of each synchronised file, the pull checkpoint
  and the pending path migration, in the state database.  File metadata lies in buckets named
  by the first three digits of the hash of the remote path (version 2); an older index file
  and still older single files are read and migrated.  \<open>hash\<close> is the hexadecimal BLAKE3 hash.
\<close>

section \<open>Data\<close>

datatype sync_status = Synced | PendingPush | PendingPull | StatusError

record file_sync_meta =
  fm_path :: string
  fm_content_hash :: string
  fm_size :: nat
  fm_modified_at :: int
  fm_sync_status :: sync_status
  fm_last_synced_at :: int

record sync_checkpoint =
  ck_relationship_id :: string
  ck_remote_root_hash :: string
  ck_last_sync_at :: int

record sync_path_migration =
  pm_relationship_id :: string
  pm_old_remote_path :: string
  pm_new_remote_path :: string
  pm_old_local_path :: string
  pm_new_local_path :: string
  pm_created_at :: int

fun status_text :: "sync_status \<Rightarrow> string" where
  "status_text Synced = ''synced''"
| "status_text PendingPush = ''pending_push''"
| "status_text PendingPull = ''pending_pull''"
| "status_text StatusError = ''error''"

definition status_of_text :: "string \<Rightarrow> sync_status option" where
  "status_of_text s =
     (if s = ''synced'' then Some Synced
      else if s = ''pending_push'' then Some PendingPush
      else if s = ''pending_pull'' then Some PendingPull
      else if s = ''error'' then Some StatusError else None)"

definition meta_to_json :: "file_sync_meta \<Rightarrow> json" where
  "meta_to_json m =
     JObj [(''path'', JStr (fm_path m)), (''content_hash'', JStr (fm_content_hash m)),
           (''size'', JInt (int (fm_size m))), (''modified_at'', JInt (fm_modified_at m)),
           (''sync_status'', JStr (status_text (fm_sync_status m))),
           (''last_synced_at'', JInt (fm_last_synced_at m))]"

definition meta_of_json :: "json \<Rightarrow> file_sync_meta option" where
  "meta_of_json j =
     (case (field as_str j ''path'', field as_str j ''content_hash'', field as_u64 j ''size'',
            field as_i64 j ''modified_at'',
            Option.bind (field as_str j ''sync_status'') status_of_text,
            field as_i64 j ''last_synced_at'') of
        (Some p, Some h, Some n, Some t, Some st, Some l) \<Rightarrow>
          Some \<lparr>fm_path = p, fm_content_hash = h, fm_size = n, fm_modified_at = t,
                fm_sync_status = st, fm_last_synced_at = l\<rparr>
      | _ \<Rightarrow> None)"

definition checkpoint_to_json :: "sync_checkpoint \<Rightarrow> json" where
  "checkpoint_to_json c =
     JObj [(''relationship_id'', JStr (ck_relationship_id c)),
           (''remote_root_hash'', JStr (ck_remote_root_hash c)),
           (''last_sync_at'', JInt (ck_last_sync_at c))]"

definition checkpoint_of_json :: "json \<Rightarrow> sync_checkpoint option" where
  "checkpoint_of_json j =
     (case (field as_str j ''relationship_id'', field as_str j ''remote_root_hash'',
            field as_i64 j ''last_sync_at'') of
        (Some r, Some h, Some t) \<Rightarrow>
          Some \<lparr>ck_relationship_id = r, ck_remote_root_hash = h, ck_last_sync_at = t\<rparr>
      | _ \<Rightarrow> None)"

definition migration_to_json :: "sync_path_migration \<Rightarrow> json" where
  "migration_to_json m =
     JObj [(''relationship_id'', JStr (pm_relationship_id m)),
           (''old_remote_path'', JStr (pm_old_remote_path m)),
           (''new_remote_path'', JStr (pm_new_remote_path m)),
           (''old_local_path'', JStr (pm_old_local_path m)),
           (''new_local_path'', JStr (pm_new_local_path m)),
           (''created_at'', JInt (pm_created_at m))]"

definition migration_of_json :: "json \<Rightarrow> sync_path_migration option" where
  "migration_of_json j =
     (case (field as_str j ''relationship_id'', field as_str j ''old_remote_path'',
            field as_str j ''new_remote_path'', field as_str j ''old_local_path'',
            field as_str j ''new_local_path'', field as_i64 j ''created_at'') of
        (Some r, Some a, Some b, Some c, Some d, Some t) \<Rightarrow>
          Some \<lparr>pm_relationship_id = r, pm_old_remote_path = a, pm_new_remote_path = b,
                pm_old_local_path = c, pm_new_local_path = d, pm_created_at = t\<rparr>
      | _ \<Rightarrow> None)"

text \<open>A map of metadata (\<open>HashMap<String, FileSyncMeta>\<close>): one ill-typed entry rejects the whole
  map.\<close>

fun metas_of_entries :: "(string \<times> json) list \<Rightarrow> (string, file_sync_meta) hmap option" where
  "metas_of_entries [] = Some []"
| "metas_of_entries ((k, v) # ps) =
     (case (meta_of_json v, metas_of_entries ps) of
        (Some m, Some ms) \<Rightarrow> Some ((k, m) # ms)
      | _ \<Rightarrow> None)"

definition meta_map_of_json :: "json \<Rightarrow> (string, file_sync_meta) hmap option" where
  "meta_map_of_json j = (case j of JObj ps \<Rightarrow> metas_of_entries ps | _ \<Rightarrow> None)"

definition meta_map_to_json :: "(string, file_sync_meta) hmap \<Rightarrow> json" where
  "meta_map_to_json m = JObj (map (\<lambda>(k, v). (k, meta_to_json v)) m)"

text \<open>\<open>FileMetaBucket\<close>: the version is an 8-bit number, missing \<open>items\<close> are empty.\<close>

record file_meta_bucket =
  bk_version :: nat
  bk_items :: "(string, file_sync_meta) hmap"

definition bucket_of_json :: "json \<Rightarrow> file_meta_bucket option" where
  "bucket_of_json j =
     (case field as_u64 j ''$v'' of
        None \<Rightarrow> None
      | Some v \<Rightarrow>
          if v > 255 then None
          else case jget j ''items'' of
                 None \<Rightarrow> Some \<lparr>bk_version = v, bk_items = []\<rparr>
               | Some i \<Rightarrow>
                   map_option (\<lambda>items. \<lparr>bk_version = v, bk_items = items\<rparr>) (meta_map_of_json i))"

definition bucket_to_json :: "file_meta_bucket \<Rightarrow> json" where
  "bucket_to_json b =
     JObj [(''$v'', JInt (int (bk_version b))), (''items'', meta_map_to_json (bk_items b))]"

definition manifest_json :: json where
  "manifest_json = JObj [(''$v'', JInt 1), (''bucket_prefix_hex_chars'', JInt 3)]"

section \<open>Keys\<close>

definition file_meta_bucket_from_hash :: "string \<Rightarrow> string" where
  "file_meta_bucket_from_hash path_hash = take_chars 3 path_hash"

definition file_meta_v2_relationship_dir :: "string \<Rightarrow> string" where
  "file_meta_v2_relationship_dir rel = ''/sync/files-v2/'' @ rel @ ''/''"

definition file_meta_v2_manifest_key :: "string \<Rightarrow> string" where
  "file_meta_v2_manifest_key rel = file_meta_v2_relationship_dir rel @ ''manifest.json''"

definition file_meta_bucket_key_for_bucket :: "string \<Rightarrow> string \<Rightarrow> string" where
  "file_meta_bucket_key_for_bucket rel bucket =
     file_meta_v2_relationship_dir rel @ bucket @ ''.json''"

definition file_meta_bucket_key :: "string \<Rightarrow> string \<Rightarrow> string" where
  "file_meta_bucket_key rel path_hash =
     file_meta_bucket_key_for_bucket rel (file_meta_bucket_from_hash path_hash)"

definition file_meta_index_key :: "string \<Rightarrow> string" where
  "file_meta_index_key rel = ''/sync/files-index/'' @ rel @ ''.json''"

definition path_migration_key :: "string \<Rightarrow> string" where
  "path_migration_key rel = ''/sync/migrations/'' @ rel @ ''.json''"

definition checkpoint_key :: "string \<Rightarrow> string" where
  "checkpoint_key rel = ''/sync/meta/'' @ rel @ ''.json''"

definition legacy_dir :: "string \<Rightarrow> string" where
  "legacy_dir rel = ''/sync/files/'' @ rel @ ''/''"

definition file_meta_key :: "(string \<Rightarrow> string) \<Rightarrow> string \<Rightarrow> string \<Rightarrow> string" where
  "file_meta_key hash rel remote_path = legacy_dir rel @ hash remote_path @ ''.json''"

section \<open>Reading\<close>

definition has_v2_manifest :: "'e engine \<Rightarrow> string \<Rightarrow> 'e \<Rightarrow> bool res" where
  "has_v2_manifest en rel e = state_exists en (file_meta_v2_manifest_key rel) e"

definition list_file_metas_legacy :: "'e engine \<Rightarrow> string \<Rightarrow> 'e \<Rightarrow> file_sync_meta list res" where
  "list_file_metas_legacy en rel e =
     and_then (state_exists en (legacy_dir rel) e) (\<lambda>present.
       if \<not> present then Inr []
       else Inr (List.map_filter (\<lambda>entry.
                   if entry = ''.keep'' then None
                   else read_json en meta_of_json (legacy_dir rel @ entry) e)
                 (list_directory en (legacy_dir rel) e)))"

definition load_legacy_file_meta_index ::
  "'e engine \<Rightarrow> string \<Rightarrow> 'e \<Rightarrow> (string, file_sync_meta) hmap res" where
  "load_legacy_file_meta_index en rel e =
     (case read_json en meta_map_of_json (file_meta_index_key rel) e of
        Some index \<Rightarrow> Inr index
      | None \<Rightarrow>
          and_then (list_file_metas_legacy en rel e)
            (\<lambda>legacy. Inr (hcollect (map (\<lambda>m. (fm_path m, m)) legacy))))"

definition get_file_meta ::
  "'e engine \<Rightarrow> (string \<Rightarrow> string) \<Rightarrow> string \<Rightarrow> string \<Rightarrow> 'e \<Rightarrow> file_sync_meta option res" where
  "get_file_meta en hash rel remote_path e =
     and_then (has_v2_manifest en rel e) (\<lambda>v2.
       if v2 then
         Inr (case read_json en bucket_of_json (file_meta_bucket_key rel (hash remote_path)) e of
                Some bucket \<Rightarrow> hget (bk_items bucket) (hash remote_path)
              | None \<Rightarrow> None)
       else
         and_then (load_legacy_file_meta_index en rel e) (\<lambda>index.
           case hget index remote_path of
             Some m \<Rightarrow> Inr (Some m)
           | None \<Rightarrow> Inr (read_json en meta_of_json (file_meta_key hash rel remote_path) e)))"

definition list_file_metas_v2 :: "'e engine \<Rightarrow> string \<Rightarrow> 'e \<Rightarrow> file_sync_meta list res" where
  "list_file_metas_v2 en rel e =
     (let directory = file_meta_v2_relationship_dir rel
      in and_then (state_exists en directory e) (\<lambda>present.
           if \<not> present then Inr []
           else Inr (concat (map (\<lambda>entry.
             if entry = ''.keep'' \<or> entry = ''manifest.json'' \<or> \<not> ends_with entry ''.json'' then []
             else case read_json en bucket_of_json (directory @ entry) e of
                    Some bucket \<Rightarrow> hvalues (bk_items bucket)
                  | None \<Rightarrow> [])
             (list_directory en directory e)))))"

definition list_file_metas :: "'e engine \<Rightarrow> string \<Rightarrow> 'e \<Rightarrow> file_sync_meta list res" where
  "list_file_metas en rel e =
     and_then (has_v2_manifest en rel e) (\<lambda>v2.
       if v2 then list_file_metas_v2 en rel e
       else and_then (load_legacy_file_meta_index en rel e) (\<lambda>index.
              if index \<noteq> [] then Inr (hvalues index) else list_file_metas_legacy en rel e))"

section \<open>Writing\<close>

text \<open>\<open>ensure_v2_storage\<close>: the legacy index, grouped into buckets, and then the manifest, in
  one batch.\<close>

definition group_legacy ::
  "(string \<Rightarrow> string) \<Rightarrow> file_sync_meta list \<Rightarrow> (string, (string, file_sync_meta) hmap) hmap" where
  "group_legacy hash metas =
     fold (\<lambda>m buckets.
       (let path_hash = hash (fm_path m);
            bucket = file_meta_bucket_from_hash path_hash;
            items = (case hget buckets bucket of Some i \<Rightarrow> i | None \<Rightarrow> [])
        in hinsert bucket (hinsert path_hash m items) buckets)) metas []"

definition ensure_v2_storage ::
  "'e engine \<Rightarrow> (string \<Rightarrow> string) \<Rightarrow> string \<Rightarrow> 'e \<Rightarrow> 'e \<times> unit res" where
  "ensure_v2_storage en hash rel e =
     (case has_v2_manifest en rel e of
        Inl error \<Rightarrow> (e, Inl error)
      | Inr True \<Rightarrow> (e, Inr ())
      | Inr False \<Rightarrow>
          (case load_legacy_file_meta_index en rel e of
             Inl error \<Rightarrow> (e, Inl error)
           | Inr index \<Rightarrow>
               (let files = map (\<lambda>(bucket, items).
                      (file_meta_bucket_key_for_bucket rel bucket,
                       bucket_to_json \<lparr>bk_version = 1, bk_items = items\<rparr>))
                    (group_legacy hash (hvalues index))
                in store_json_values_batch en
                     (files @ [(file_meta_v2_manifest_key rel, manifest_json)]) e)))"

definition group_metas ::
  "(string \<Rightarrow> string) \<Rightarrow> string \<Rightarrow> file_sync_meta list \<Rightarrow> (string, (string, json) hmap) hmap" where
  "group_metas hash rel metas =
     fold (\<lambda>m buckets.
       (let path_hash = hash (fm_path m);
            key = file_meta_bucket_key rel path_hash;
            items = (case hget buckets key of Some i \<Rightarrow> i | None \<Rightarrow> [])
        in hinsert key (hinsert path_hash (meta_to_json m) items) buckets)) metas []"

definition set_file_metas_batch ::
  "'e engine \<Rightarrow> (string \<Rightarrow> string) \<Rightarrow> string \<Rightarrow> file_sync_meta list \<Rightarrow> 'e \<Rightarrow> 'e \<times> unit res" where
  "set_file_metas_batch en hash rel metas e =
     (if metas = [] then (e, Inr ())
      else then_st (ensure_v2_storage en hash rel e) (\<lambda>e1 _.
             merge_json_files_batch en
               (map (\<lambda>(key, items).
                  (key, JObj [(''$v'', JInt 1), (''items'', JObj items)], 2))
                (group_metas hash rel metas)) e1))"

definition set_file_meta ::
  "'e engine \<Rightarrow> (string \<Rightarrow> string) \<Rightarrow> string \<Rightarrow> file_sync_meta \<Rightarrow> 'e \<Rightarrow> 'e \<times> unit res" where
  "set_file_meta en hash rel m e = set_file_metas_batch en hash rel [m] e"

definition delete_if_exists :: "'e engine \<Rightarrow> string \<Rightarrow> 'e \<Rightarrow> 'e \<times> unit res" where
  "delete_if_exists en key e =
     (case state_exists en key e of
        Inl error \<Rightarrow> (e, Inl error)
      | Inr True \<Rightarrow> state_delete en key e
      | Inr False \<Rightarrow> (e, Inr ()))"

definition delete_file_meta ::
  "'e engine \<Rightarrow> (string \<Rightarrow> string) \<Rightarrow> string \<Rightarrow> string \<Rightarrow> 'e \<Rightarrow> 'e \<times> unit res" where
  "delete_file_meta en hash rel remote_path e =
     (case has_v2_manifest en rel e of
        Inl error \<Rightarrow> (e, Inl error)
      | Inr True \<Rightarrow>
          merge_json_file en
            (file_meta_bucket_key rel (hash remote_path),
             JObj [(''items'', JObj [(hash remote_path, JNull)])], 2) e
      | Inr False \<Rightarrow>
          (case load_legacy_file_meta_index en rel e of
             Inl error \<Rightarrow> (e, Inl error)
           | Inr index \<Rightarrow>
               then_st
                 (if hget index remote_path \<noteq> None
                  then store_json en (file_meta_index_key rel)
                         (meta_map_to_json (hremove remote_path index)) e
                  else (e, Inr ()))
                 (\<lambda>e1 _. delete_if_exists en (file_meta_key hash rel remote_path) e1)))"

section \<open>Checkpoint, migration, reset\<close>

definition get_checkpoint :: "'e engine \<Rightarrow> string \<Rightarrow> 'e \<Rightarrow> sync_checkpoint option" where
  "get_checkpoint en rel e = read_json en checkpoint_of_json (checkpoint_key rel) e"

definition set_checkpoint :: "'e engine \<Rightarrow> sync_checkpoint \<Rightarrow> 'e \<Rightarrow> 'e \<times> unit res" where
  "set_checkpoint en c e =
     store_json en (checkpoint_key (ck_relationship_id c)) (checkpoint_to_json c) e"

definition clear_checkpoint :: "'e engine \<Rightarrow> string \<Rightarrow> 'e \<Rightarrow> 'e \<times> unit res" where
  "clear_checkpoint en rel e = delete_if_exists en (checkpoint_key rel) e"

definition begin_path_migration ::
  "'e engine \<Rightarrow> int \<Rightarrow> string \<Rightarrow> string \<Rightarrow> string \<Rightarrow> string \<Rightarrow> string \<Rightarrow> 'e \<Rightarrow> 'e \<times> unit res" where
  "begin_path_migration en now rel old_remote new_remote old_local new_local e =
     then_st (clear_checkpoint en rel e) (\<lambda>e1 _.
       store_json en (path_migration_key rel)
         (migration_to_json
            \<lparr>pm_relationship_id = rel, pm_old_remote_path = old_remote,
             pm_new_remote_path = new_remote, pm_old_local_path = old_local,
             pm_new_local_path = new_local, pm_created_at = now\<rparr>) e1)"

definition get_path_migration :: "'e engine \<Rightarrow> string \<Rightarrow> 'e \<Rightarrow> sync_path_migration option" where
  "get_path_migration en rel e = read_json en migration_of_json (path_migration_key rel) e"

definition clear_path_migration :: "'e engine \<Rightarrow> string \<Rightarrow> 'e \<Rightarrow> 'e \<times> unit res" where
  "clear_path_migration en rel e = delete_if_exists en (path_migration_key rel) e"

definition clear_directory :: "'e engine \<Rightarrow> string \<Rightarrow> 'e \<Rightarrow> 'e \<times> unit res" where
  "clear_directory en d e =
     (case state_exists en d e of
        Inl error \<Rightarrow> (e, Inl error)
      | Inr False \<Rightarrow> (e, Inr ())
      | Inr True \<Rightarrow>
          for_each (\<lambda>entry e. if entry = ''.keep'' then (e, Inr ())
                              else state_delete en (d @ entry) e)
            (list_directory en d e) e)"

definition clear_relationship_state :: "'e engine \<Rightarrow> string \<Rightarrow> 'e \<Rightarrow> 'e \<times> unit res" where
  "clear_relationship_state en rel e =
     then_st (clear_checkpoint en rel e) (\<lambda>e _.
     then_st (clear_path_migration en rel e) (\<lambda>e _.
     then_st (clear_directory en (legacy_dir rel) e) (\<lambda>e _.
     then_st (delete_if_exists en (file_meta_index_key rel) e) (\<lambda>e _.
     clear_directory en (file_meta_v2_relationship_dir rel) e))))"

section \<open>Encoding\<close>

definition meta_wf :: "file_sync_meta \<Rightarrow> bool" where
  "meta_wf m \<longleftrightarrow> fm_size m \<le> u64_max \<and> i64_ok (fm_modified_at m) \<and> i64_ok (fm_last_synced_at m)"

lemma status_roundtrip [simp]: "status_of_text (status_text st) = Some st"
  by (cases st) (simp_all add: status_of_text_def)

interpretation file_meta: json_codec meta_to_json meta_of_json meta_wf
  by unfold_locales
    (simp add: meta_of_json_def meta_to_json_def field_def as_str_def meta_wf_def as_u64_int as_i64_int)

interpretation checkpoint: json_codec checkpoint_to_json checkpoint_of_json
  "\<lambda>c. i64_ok (ck_last_sync_at c)"
  by unfold_locales
    (simp add: checkpoint_of_json_def checkpoint_to_json_def field_def as_str_def as_i64_int)

interpretation migration: json_codec migration_to_json migration_of_json "\<lambda>m. i64_ok (pm_created_at m)"
  by unfold_locales
    (simp add: migration_of_json_def migration_to_json_def field_def as_str_def as_i64_int)

lemma metas_of_entries_defined:
  "(\<exists>ms. metas_of_entries ps = Some ms) \<longleftrightarrow> (\<forall>p\<in>set ps. meta_of_json (snd p) \<noteq> None)"
proof (induction ps rule: metas_of_entries.induct)
  case (2 k v ps)
  then show ?case by (cases "meta_of_json v"; cases "metas_of_entries ps") simp_all
qed simp

lemma metas_of_entries_get:
  "metas_of_entries ps = Some ms \<Longrightarrow> hget ms b = Option.bind (hget ps b) meta_of_json"
  by (induction ps arbitrary: ms rule: metas_of_entries.induct) (auto split: option.splits)

lemma metas_of_entries_keys: "metas_of_entries ps = Some ms \<Longrightarrow> map fst ms = map fst ps"
  by (induction ps arbitrary: ms rule: metas_of_entries.induct) (auto split: option.splits)

lemma metas_of_entries_enc:
  "\<forall>p\<in>set ps. meta_wf (snd p) \<Longrightarrow>
    metas_of_entries (map (\<lambda>(k, v). (k, meta_to_json v)) ps) = Some ps"
  by (induction ps) (auto simp: file_meta.dec_enc)

lemma meta_map_roundtrip:
  "\<forall>p\<in>set ps. meta_wf (snd p) \<Longrightarrow> meta_map_of_json (meta_map_to_json ps) = Some ps"
  by (simp add: meta_map_of_json_def meta_map_to_json_def metas_of_entries_enc)

interpretation bucket: json_codec bucket_to_json bucket_of_json
  "\<lambda>b. bk_version b \<le> 255 \<and> (\<forall>p\<in>set (bk_items b). meta_wf (snd p))"
  by unfold_locales (simp add: bucket_of_json_def bucket_to_json_def field_def as_u64_def u64_max_def
      meta_map_roundtrip)

section \<open>Keys of one relationship\<close>

definition hex_digest :: "(string \<Rightarrow> string) \<Rightarrow> bool" where
  "hex_digest hash \<longleftrightarrow>
     (\<forall>s. length (hash s) = 64 \<and> (\<forall>c\<in>set (hash s). byte c < 128 \<and> c \<noteq> CHR ''/''))"

lemma take_chars_ascii: "\<forall>c\<in>set s. byte c < 128 \<Longrightarrow> take_chars n s = take n s"
  by (induction n s rule: take_chars.induct) (auto simp: take_Cons')

lemma bucket_take: "hex_digest hash \<Longrightarrow> file_meta_bucket_from_hash (hash p) = take 3 (hash p)"
  by (simp add: file_meta_bucket_from_hash_def take_chars_ascii hex_digest_def)

lemma plain_key:
  assumes "rel_ok rel" "CHR ''/'' \<notin> set n"
  shows "plain (''/sync/files-v2/'' @ rel @ ''/'' @ n)" "plain (''/sync/files/'' @ rel @ ''/'' @ n)"
  using assms by (auto simp: plain_def rel_ok_def split_on_append_sep split_on_single)

lemma plain_file:
  assumes "CHR ''/'' \<notin> set n"
  shows "plain (''/sync/files-index/'' @ n)" "plain (''/sync/migrations/'' @ n)"
    "plain (''/sync/meta/'' @ n)"
  using assms by (simp_all add: plain_def split_on_single)

lemma take_noslash: "CHR ''/'' \<notin> set s \<Longrightarrow> CHR ''/'' \<notin> set (take n s)"
  by (meson in_set_takeD)

lemma bucket_key_plain:
  assumes "hex_digest hash" "rel_ok rel"
  shows "plain (file_meta_bucket_key rel (hash p))"
proof -
  have "CHR ''/'' \<notin> set (hash p)" using assms(1) by (auto simp: hex_digest_def)
  then have "CHR ''/'' \<notin> set (take 3 (hash p) @ ''.json'')" by (simp add: take_noslash)
  from plain_key(1) [OF assms(2) this] assms(1) show ?thesis
    by (simp add: file_meta_bucket_key_def file_meta_bucket_key_for_bucket_def
        file_meta_v2_relationship_dir_def bucket_take)
qed

lemma manifest_key_plain: "rel_ok rel \<Longrightarrow> plain (file_meta_v2_manifest_key rel)"
  unfolding file_meta_v2_manifest_key_def file_meta_v2_relationship_dir_def
  using plain_key(1) [of rel "''manifest.json''"] by simp

lemma key_not_dir [simp]:
  "\<not> ends_with (file_meta_bucket_key_for_bucket rel b) ''/''"
  "\<not> ends_with (file_meta_bucket_key rel h) ''/''"
  "\<not> ends_with (file_meta_v2_manifest_key rel) ''/''"
  "\<not> ends_with (checkpoint_key rel) ''/''"
  "\<not> ends_with (path_migration_key rel) ''/''"
  "\<not> ends_with (file_meta_index_key rel) ''/''"
  by (simp_all add: file_meta_bucket_key_def file_meta_bucket_key_for_bucket_def
      file_meta_v2_manifest_key_def checkpoint_key_def path_migration_key_def
      file_meta_index_key_def suffix_def Cons_eq_append_conv append_eq_append_conv2)

section \<open>The version-2 store of one relationship\<close>

text \<open>A bucket file as the code leaves it: version 1 and an object of decodable entries.\<close>

definition bucket_file_ok :: "json option \<Rightarrow> bool" where
  "bucket_file_ok j \<longleftrightarrow> (case j of None \<Rightarrow> True | Some v \<Rightarrow>
     jget v ''$v'' = Some (JInt 1) \<and>
     (\<exists>ps. jget v ''items'' = Some (JObj ps) \<and> distinct (map fst ps) \<and>
        (\<forall>p\<in>set ps. meta_of_json (snd p) \<noteq> None)))"

definition v2_store :: "files \<Rightarrow> string \<Rightarrow> bool" where
  "v2_store f rel \<longleftrightarrow> f (file_meta_v2_manifest_key rel) \<noteq> None \<and>
     (\<forall>h. bucket_file_ok (f (file_meta_bucket_key rel h)))"

definition v2_entry :: "files \<Rightarrow> string \<Rightarrow> string \<Rightarrow> file_sync_meta option" where
  "v2_entry f rel h = Option.bind (jget2 (f (file_meta_bucket_key rel h)) ''items'' h) meta_of_json"

lemma bucket_read:
  assumes "bucket_file_ok (Some j)"
  shows "\<exists>items. bucket_of_json j = Some \<lparr>bk_version = 1, bk_items = items\<rparr> \<and>
    (\<forall>h. hget items h = Option.bind (jget2 (Some j) ''items'' h) meta_of_json) \<and>
    distinct (map fst items)"
proof -
  from assms obtain ps where ps: "jget j ''$v'' = Some (JInt 1)" "jget j ''items'' = Some (JObj ps)"
    "distinct (map fst ps)" "\<forall>p\<in>set ps. meta_of_json (snd p) \<noteq> None"
    by (auto simp: bucket_file_ok_def)
  then obtain ms where ms: "metas_of_entries ps = Some ms"
    using metas_of_entries_defined by blast
  have "bucket_of_json j = Some \<lparr>bk_version = 1, bk_items = ms\<rparr>"
    using ps(1,2) ms
    by (simp add: bucket_of_json_def field_def as_u64_def u64_max_def meta_map_of_json_def)
  moreover have "hget ms h = Option.bind (jget2 (Some j) ''items'' h) meta_of_json" for h
    using metas_of_entries_get [OF ms] ps(2) by (simp add: jget2_def)
  moreover have "distinct (map fst ms)" using metas_of_entries_keys [OF ms] ps(3) by simp
  ultimately show ?thesis by blast
qed

lemma get_file_meta_v2:
  assumes "engine_ok en files" "hex_digest hash" "rel_ok rel" "v2_store (files e) rel"
  shows "get_file_meta en hash rel p e = Inr (v2_entry (files e) rel (hash p))"
proof -
  note mk = manifest_key_plain [OF assms(3)]
  note bk = bucket_key_plain [OF assms(2,3), of p]
  let ?k = "file_meta_bucket_key rel (hash p)"
  have man: "has_v2_manifest en rel e = Inr True"
    using assms(4) unfolding has_v2_manifest_def
    by (subst state_exists_files [OF assms(1) mk]) (simp_all add: v2_store_def)
  have read: "read_json en bucket_of_json ?k e =
      (case files e ?k of None \<Rightarrow> None | Some j \<Rightarrow> bucket_of_json j)"
    by (rule read_json_files [OF assms(1) bk]) simp
  show ?thesis
  proof (cases "files e ?k")
    case None
    then show ?thesis by (simp add: get_file_meta_def man read v2_entry_def)
  next
    case (Some j)
    with assms(4) have "bucket_file_ok (Some j)" by (metis v2_store_def)
    then obtain items where "bucket_of_json j = Some \<lparr>bk_version = 1, bk_items = items\<rparr>"
      "\<forall>h. hget items h = Option.bind (jget2 (Some j) ''items'' h) meta_of_json"
      using bucket_read by blast
    with Some show ?thesis by (simp add: get_file_meta_def man read v2_entry_def)
  qed
qed

text \<open>One merged bucket.\<close>

definition items_patch :: "(string \<times> json) list \<Rightarrow> json" where
  "items_patch items = JObj [(''$v'', JInt 1), (''items'', JObj items)]"

lemma merged_get:
  assumes "merged2 old patch new" "object_field patch a"
  shows "jget2 new a b = (case jget2 (Some patch) a b of
      None \<Rightarrow> jget2 old a b | Some v \<Rightarrow> if v = JNull then None else Some v)"
  using assms unfolding merged2_def by blast

lemma merged_object:
  assumes "merged2 old patch new" "object_field patch a"
  shows "\<exists>j m. new = Some j \<and> jget j a = Some (JObj m) \<and> distinct (map fst m)"
  using assms unfolding merged2_def by fastforce

lemma jget2_items: "new = Some j \<Longrightarrow> jget j a = Some (JObj m) \<Longrightarrow> jget2 new a b = hget m b"
  by (simp add: jget2_def)

lemma merged_bucket_ok:
  assumes old: "bucket_file_ok old" and m: "merged2 old patch new"
    and patch: "object_field patch ''items''"
    and vals: "\<And>b v. jget2 (Some patch) ''items'' b = Some v \<Longrightarrow> v \<noteq> JNull \<Longrightarrow>
      meta_of_json v \<noteq> None"
    and ver: "\<And>j. new = Some j \<Longrightarrow> jget j ''$v'' = Some (JInt 1)"
  shows "bucket_file_ok new"
proof -
  from merged_object [OF m patch] obtain j w
    where j: "new = Some j" "jget j ''items'' = Some (JObj w)" "distinct (map fst w)" by blast
  have "meta_of_json v \<noteq> None" if "(b, v) \<in> set w" for b v
  proof -
    from that j(3) have "hget w b = Some v" by simp
    then have *: "jget2 new ''items'' b = Some v" using j by (simp add: jget2_items)
    show ?thesis
    proof (cases "jget2 (Some patch) ''items'' b")
      case None
      with * merged_get [OF m patch] have old_b: "jget2 old ''items'' b = Some v" by simp
      then obtain j0 where j0: "old = Some j0" by (cases old) simp_all
      with old obtain ps where ps: "jget j0 ''items'' = Some (JObj ps)"
        "\<forall>p\<in>set ps. meta_of_json (snd p) \<noteq> None"
        by (auto simp: bucket_file_ok_def)
      with old_b j0 have "hget ps b = Some v" by (simp add: jget2_items)
      then have "(b, v) \<in> set ps" by (rule map_of_SomeD)
      with ps(2) show ?thesis by fastforce
    next
      case (Some u)
      with * merged_get [OF m patch, of b] have "u = v" "v \<noteq> JNull" by (auto split: if_splits)
      with Some vals show ?thesis by blast
    qed
  qed
  with j ver [OF j(1)] show ?thesis by (auto simp: bucket_file_ok_def)
qed

text \<open>The patches of a batch.\<close>

lemma group_metas_snoc:
  "group_metas hash rel (ms @ [m]) =
     hinsert (file_meta_bucket_key rel (hash (fm_path m)))
       (hinsert (hash (fm_path m)) (meta_to_json m)
          (case hget (group_metas hash rel ms) (file_meta_bucket_key rel (hash (fm_path m))) of
             Some i \<Rightarrow> i | None \<Rightarrow> []))
       (group_metas hash rel ms)"
  by (simp add: group_metas_def Let_def)

definition group_lookup :: "(string, (string, json) hmap) hmap \<Rightarrow> string \<Rightarrow> string \<Rightarrow> json option" where
  "group_lookup g key h = (case hget g key of None \<Rightarrow> None | Some items \<Rightarrow> hget items h)"

lemma group_lookup_last:
  "group_lookup (group_metas hash rel ms) (file_meta_bucket_key rel h) h =
     map_option meta_to_json (find (\<lambda>m. hash (fm_path m) = h) (rev ms))"
proof (induction ms rule: rev_induct)
  case Nil
  then show ?case by (simp add: group_metas_def group_lookup_def)
next
  case (snoc m ms)
  then show ?case
    by (auto simp: group_metas_snoc group_lookup_def split: option.splits)
qed

lemma group_wf: "hwf (group_metas hash rel ms)"
  by (induction ms rule: rev_induct) (simp add: group_metas_def, simp add: group_metas_snoc)

lemma group_items:
  "hget (group_metas hash rel ms) key = Some items \<Longrightarrow>
     distinct (map fst items) \<and>
     (\<forall>(h, v)\<in>set items. \<exists>m\<in>set ms. v = meta_to_json m) \<and>
     (\<exists>m\<in>set ms. key = file_meta_bucket_key rel (hash (fm_path m)))"
proof (induction ms arbitrary: key items rule: rev_induct)
  case Nil
  then show ?case by (simp add: group_metas_def)
next
  case (snoc m ms)
  let ?k = "file_meta_bucket_key rel (hash (fm_path m))"
  let ?old = "case hget (group_metas hash rel ms) ?k of Some i \<Rightarrow> i | None \<Rightarrow> []"
  show ?case
  proof (cases "key = ?k")
    case True
    with snoc.prems have items: "items = hinsert (hash (fm_path m)) (meta_to_json m) ?old"
      by (simp add: group_metas_snoc)
    have old: "distinct (map fst ?old) \<and> (\<forall>(h, v)\<in>set ?old. \<exists>m\<in>set ms. v = meta_to_json m)"
      using snoc.IH [of ?k] by (cases "hget (group_metas hash rel ms) ?k") auto
    then have "distinct (map fst items)" by (simp add: items distinct_update)
    moreover have "\<forall>(h, v)\<in>set items. \<exists>m\<in>set (ms @ [m]). v = meta_to_json m"
      using old unfolding items by (fastforce dest: set_hinsert)
    ultimately show ?thesis using True by auto
  next
    case False
    with snoc.prems have "hget (group_metas hash rel ms) key = Some items"
      by (simp add: group_metas_snoc)
    with snoc.IH show ?thesis by fastforce
  qed
qed

lemma meta_json_wf: "jwf (meta_to_json m)" "meta_to_json m \<noteq> JNull"
  by (simp_all add: meta_to_json_def)

lemma items_patch_ok:
  assumes "distinct (map fst items)" "\<forall>(h, v)\<in>set items. jwf v"
  shows "patch_ok (items_patch items)"
  using assms by (auto simp: patch_ok_def items_patch_def as_object_def list_all_iff)

lemma items_patch_get [simp]:
  "object_field (items_patch items) ''items''"
  "jget (items_patch items) ''$v'' = Some (JInt 1)"
  "jget2 (Some (items_patch items)) ''items'' h = hget items h"
  by (simp_all add: object_field_def items_patch_def as_object_def jget2_def)

lemma merged_version:
  assumes "merged2 old (items_patch items) (Some j)"
  shows "jget j ''$v'' = Some (JInt 1)"
proof -
  have "\<forall>a v. jget (items_patch items) a = Some v \<and> v \<noteq> JNull \<and> as_object v = None \<longrightarrow>
      jget (the (Some j)) a = Some v"
    using assms unfolding merged2_def by blast
  then show ?thesis by (simp add: as_object_def)
qed

text \<open>A merge of the grouped patches into a version-2 store.\<close>

definition group_patches :: "(string \<Rightarrow> string) \<Rightarrow> string \<Rightarrow> file_sync_meta list \<Rightarrow> json_patch list" where
  "group_patches hash rel ms =
     map (\<lambda>(key, items). (key, items_patch items, 2)) (group_metas hash rel ms)"

lemma group_patches_keys: "map fst (group_patches hash rel ms) = map fst (group_metas hash rel ms)"
  by (simp add: group_patches_def split_beta comp_def)

lemma group_patches_ok:
  assumes hex: "hex_digest hash" and rel: "rel_ok rel"
  shows "\<forall>q\<in>set (group_patches hash rel ms).
    plain (fst q) \<and> patch_ok (fst (snd q)) \<and> snd (snd q) = 2"
proof (clarsimp simp: group_patches_def)
  fix key items
  assume "(key, items) \<in> set (group_metas hash rel ms)"
  then have "hget (group_metas hash rel ms) key = Some items"
    using group_wf [of hash rel ms] by (simp add: hget_Some_iff)
  from group_items [OF this]
  have gi: "distinct (map fst items)" "\<forall>(h, v)\<in>set items. \<exists>m\<in>set ms. v = meta_to_json m"
    "\<exists>m\<in>set ms. key = file_meta_bucket_key rel (hash (fm_path m))" by blast+
  then have "\<forall>(h, v)\<in>set items. jwf v" by (auto simp: meta_json_wf)
  with gi show "plain key \<and> patch_ok (items_patch items)"
    by (auto intro: items_patch_ok bucket_key_plain [OF hex rel])
qed

lemma group_vals:
  assumes "\<forall>m\<in>set ms. meta_wf m" "hget (group_metas hash rel ms) key = Some items"
    "hget items h = Some v"
  shows "meta_of_json v \<noteq> None"
proof -
  from map_of_SomeD [OF assms(3)] group_items [OF assms(2)]
  obtain m where "m \<in> set ms" "v = meta_to_json m" by fastforce
  with assms(1) show ?thesis by (simp add: file_meta.dec_enc)
qed

lemma manifest_not_bucket:
  assumes "hex_digest hash"
  shows "file_meta_v2_manifest_key rel \<noteq> file_meta_bucket_key rel (hash p)"
proof
  assume "file_meta_v2_manifest_key rel = file_meta_bucket_key rel (hash p)"
  then have "''manifest.json'' = take 3 (hash p) @ ''.json''"
    by (simp add: file_meta_v2_manifest_key_def file_meta_bucket_key_def
        file_meta_bucket_key_for_bucket_def bucket_take [OF assms])
  then have "length ''manifest.json'' = length (take 3 (hash p) @ ''.json'')" by (rule arg_cong)
  then show False by simp
qed

lemma group_key:
  "hget (group_metas hash rel ms) key = Some items \<Longrightarrow>
    \<exists>m\<in>set ms. key = file_meta_bucket_key rel (hash (fm_path m))"
  using group_items by blast

lemma group_no_manifest:
  assumes "hex_digest hash"
  shows "hget (group_metas hash rel ms) (file_meta_v2_manifest_key rel) = None"
proof (rule ccontr)
  assume "hget (group_metas hash rel ms) (file_meta_v2_manifest_key rel) \<noteq> None"
  then obtain items where "hget (group_metas hash rel ms) (file_meta_v2_manifest_key rel) = Some items"
    by blast
  from group_key [OF this] manifest_not_bucket [OF assms] show False by metis
qed

text \<open>The file-wise effect of the merge.\<close>

definition grouped_merge ::
  "(string \<Rightarrow> string) \<Rightarrow> string \<Rightarrow> file_sync_meta list \<Rightarrow> files \<Rightarrow> files \<Rightarrow> bool" where
  "grouped_merge hash rel ms f f' \<longleftrightarrow>
     (\<forall>key. case hget (group_metas hash rel ms) key of
        None \<Rightarrow> f' key = f key
      | Some items \<Rightarrow> merged2 (f key) (items_patch items) (f' key))"

lemma grouped_None:
  "grouped_merge hash rel ms f f' \<Longrightarrow> hget (group_metas hash rel ms) key = None \<Longrightarrow> f' key = f key"
  unfolding grouped_merge_def by (drule spec [of _ key]) simp

lemma grouped_Some:
  "grouped_merge hash rel ms f f' \<Longrightarrow> hget (group_metas hash rel ms) key = Some items \<Longrightarrow>
    merged2 (f key) (items_patch items) (f' key)"
  unfolding grouped_merge_def by (drule spec [of _ key]) simp

lemma merge_grouped:
  assumes eng: "engine_ok en files" and hex: "hex_digest hash" and rel: "rel_ok rel"
    and run: "merge_json_files_batch en (group_patches hash rel ms) e = (e', Inr u)"
  shows "grouped_merge hash rel ms (files e) (files e')"
proof (cases "group_patches hash rel ms = []")
  case True
  then have "group_metas hash rel ms = []" by (simp add: group_patches_def)
  with True run show ?thesis by (simp add: merge_json_files_batch_def grouped_merge_def)
next
  case False
  with run have b: "en_merge_batch en (group_patches hash rel ms) e = (e', Inr u)"
    by (simp add: merge_json_files_batch_def map_server_Inr)
  have dist: "distinct (map fst (group_patches hash rel ms))"
    unfolding group_patches_keys using group_wf [of hash rel ms] by (simp add: hwf_def)
  note merged = engine_merge_batch [OF eng b dist group_patches_ok [OF hex rel]]
  have keys: "fst ` set (group_patches hash rel ms) = fst ` set (group_metas hash rel ms)"
    using group_patches_keys by (metis list.set_map)
  show ?thesis
    unfolding grouped_merge_def
  proof (intro allI, split option.split, intro conjI impI allI)
    fix key
    assume "hget (group_metas hash rel ms) key = None"
    with keys have "key \<notin> fst ` set (group_patches hash rel ms)" by (simp add: map_of_eq_None_iff)
    with merged(2) show "files e' key = files e key" by simp
  next
    fix key items
    assume "hget (group_metas hash rel ms) key = Some items"
    then have "(key, items_patch items, 2) \<in> set (group_patches hash rel ms)"
      unfolding group_patches_def by (force dest: map_of_SomeD)
    with merged(1) show "merged2 (files e key) (items_patch items) (files e' key)" by fastforce
  qed
qed

lemma grouped_bucket_ok:
  assumes "grouped_merge hash rel ms f f'" "\<forall>m\<in>set ms. meta_wf m" "bucket_file_ok (f key)"
  shows "bucket_file_ok (f' key)"
proof (cases "hget (group_metas hash rel ms) key")
  case None
  with assms show ?thesis by (simp add: grouped_None)
next
  case (Some items)
  note m = grouped_Some [OF assms(1) Some]
  show ?thesis
  proof (rule merged_bucket_ok [OF assms(3) m])
    show "meta_of_json v \<noteq> None" if "jget2 (Some (items_patch items)) ''items'' b = Some v" for b v
      using group_vals [OF assms(2) Some] that by simp
    show "jget j ''$v'' = Some (JInt 1)" if "f' key = Some j" for j
      using m that by (metis merged_version)
  qed simp
qed

lemma grouped_entry:
  assumes "grouped_merge hash rel ms f f'" "\<forall>m\<in>set ms. meta_wf m"
  shows "v2_entry f' rel h = (case find (\<lambda>m. hash (fm_path m) = h) (rev ms) of
      Some m \<Rightarrow> Some m | None \<Rightarrow> v2_entry f rel h)"
proof -
  let ?k = "file_meta_bucket_key rel h"
  let ?last = "find (\<lambda>m. hash (fm_path m) = h) (rev ms)"
  note last = group_lookup_last [of hash rel ms h]
  have get: "jget2 (f' ?k) ''items'' h = (case map_option meta_to_json ?last of
        None \<Rightarrow> jget2 (f ?k) ''items'' h | Some v \<Rightarrow> Some v)"
  proof (cases "hget (group_metas hash rel ms) ?k")
    case None
    with last have none: "?last = None" by (simp add: group_lookup_def)
    with grouped_None [OF assms(1) None] show ?thesis by simp
  next
    case (Some items)
    with last have items: "hget items h = map_option meta_to_json ?last"
      by (simp add: group_lookup_def)
    from merged_get [OF grouped_Some [OF assms(1) Some], of "''items''" h] items show ?thesis
      by (cases ?last) (simp_all add: meta_json_wf)
  qed
  show ?thesis
  proof (cases ?last)
    case None
    with get show ?thesis by (simp add: v2_entry_def)
  next
    case (Some m)
    then have "m \<in> set ms" by (auto dest: find_Some_D)
    with assms(2) have "meta_wf m" by blast
    with Some get show ?thesis by (simp add: v2_entry_def file_meta.dec_enc)
  qed
qed

section \<open>The operations on a version-2 store\<close>

definition meta_good ::
  "'e engine \<Rightarrow> ('e \<Rightarrow> files) \<Rightarrow> (string \<Rightarrow> string) \<Rightarrow> string \<Rightarrow> 'e \<Rightarrow> bool" where
  "meta_good en files hash rel e \<longleftrightarrow>
     engine_ok en files \<and> hex_digest hash \<and> rel_ok rel \<and> v2_store (files e) rel"

lemma v2_manifest_seen:
  "meta_good en files hash rel e \<Longrightarrow> has_v2_manifest en rel e = Inr True"
  using state_exists_files [OF _ manifest_key_plain, of en files rel e]
  by (simp add: has_v2_manifest_def meta_good_def v2_store_def)

lemma get_good:
  "meta_good en files hash rel e \<Longrightarrow>
    get_file_meta en hash rel p e = Inr (v2_entry (files e) rel (hash p))"
  unfolding meta_good_def by (blast intro: get_file_meta_v2)

lemma set_batch_good:
  assumes good: "meta_good en files hash rel e" and wf: "\<forall>m\<in>set ms. meta_wf m"
    and run: "set_file_metas_batch en hash rel ms e = (e', Inr u)"
  shows "meta_good en files hash rel e' \<and>
    (\<forall>h. v2_entry (files e') rel h = (case find (\<lambda>m. hash (fm_path m) = h) (rev ms) of
        Some m \<Rightarrow> Some m | None \<Rightarrow> v2_entry (files e) rel h))"
proof (cases "ms = []")
  case True
  with good run show ?thesis by (simp add: set_file_metas_batch_def)
next
  case False
  have ens: "ensure_v2_storage en hash rel e = (e, Inr ())"
    by (simp add: ensure_v2_storage_def v2_manifest_seen [OF good])
  from False run have "merge_json_files_batch en (group_patches hash rel ms) e = (e', Inr u)"
    by (simp add: set_file_metas_batch_def ens group_patches_def items_patch_def)
  with good have g: "grouped_merge hash rel ms (files e) (files e')"
    unfolding meta_good_def by (blast intro: merge_grouped)
  have "files e' (file_meta_v2_manifest_key rel) = files e (file_meta_v2_manifest_key rel)"
    using good by (intro grouped_None [OF g] group_no_manifest) (simp add: meta_good_def)
  with good grouped_bucket_ok [OF g wf] have "meta_good en files hash rel e'"
    by (simp add: meta_good_def v2_store_def)
  with grouped_entry [OF g wf] show ?thesis by blast
qed

text \<open>A bucket after the deletion of one of its entries.\<close>

lemma deleted_bucket:
  assumes merged: "merged2 old (JObj [(''items'', JObj [(g, JNull)])]) new"
    and ok: "bucket_file_ok old" and there: "old \<noteq> None"
  shows "jget2 new ''items'' h = (if h = g then None else jget2 old ''items'' h)" and "bucket_file_ok new"
proof -
  let ?patch = "JObj [(''items'', JObj [(g, JNull)])]"
  have f: "object_field ?patch ''items''" by (simp add: object_field_def as_object_def)
  have look: "jget2 (Some ?patch) ''items'' h = (if h = g then Some JNull else None)" for h
    by (simp add: jget2_def)
  show "jget2 new ''items'' h = (if h = g then None else jget2 old ''items'' h)"
    using merged_get [OF merged f, of h] by (simp add: look)
  show "bucket_file_ok new"
  proof (rule merged_bucket_ok [OF ok merged f])
    from there obtain j where j: "old = Some j" by auto
    with ok have ver: "jget j ''$v'' = Some (JInt 1)" by (simp add: bucket_file_ok_def)
    have "jget (the new) ''$v'' = (case old of None \<Rightarrow> None | Some o' \<Rightarrow> jget o' ''$v'')"
      using merged unfolding merged2_def by simp
    with j ver show "jget j' ''$v'' = Some (JInt 1)" if "new = Some j'" for j' using that by simp
  qed (simp add: look split: if_splits)
qed

lemma delete_good:
  assumes good: "meta_good en files hash rel e"
    and run: "delete_file_meta en hash rel p e = (e', Inr u)"
    and there: "v2_entry (files e) rel (hash p) \<noteq> None"
  shows "meta_good en files hash rel e' \<and>
    (\<forall>h. v2_entry (files e') rel h = (if h = hash p then None else v2_entry (files e) rel h))"
proof -
  let ?k = "file_meta_bucket_key rel (hash p)" and ?patch = "JObj [(''items'', JObj [(hash p, JNull)])]"
  have eng: "engine_ok en files" "hex_digest hash" "rel_ok rel" "v2_store (files e) rel"
    using good by (simp_all add: meta_good_def)
  from run have "en_merge en (?k, ?patch, 2) e = (e', Inr u)"
    by (simp add: delete_file_meta_def v2_manifest_seen [OF good] merge_json_file_def map_server_Inr)
  note m = engine_merge [OF eng(1) bucket_key_plain [OF eng(2,3)] _ this]
  have "patch_ok ?patch" by (simp add: patch_ok_def as_object_def)
  note merged = m(1) [OF this] and rest = m(2) [OF this]
  have old: "bucket_file_ok (files e ?k)" using eng(4) by (simp add: v2_store_def)
  have present: "files e ?k \<noteq> None" using there by (cases "files e ?k") (auto simp: v2_entry_def)
  note bucket = deleted_bucket [OF merged old present]
  have "bucket_file_ok (files e' (file_meta_bucket_key rel h))" for h
    using bucket(2) rest [of "file_meta_bucket_key rel h"] eng(4)
    by (cases "file_meta_bucket_key rel h = ?k") (simp_all add: v2_store_def)
  moreover have "files e' (file_meta_v2_manifest_key rel) \<noteq> None"
    using rest manifest_not_bucket [OF eng(2)] eng(4) by (simp add: v2_store_def)
  ultimately have "meta_good en files hash rel e'" using eng by (simp add: meta_good_def v2_store_def)
  moreover have "v2_entry (files e') rel h = (if h = hash p then None else v2_entry (files e) rel h)" for h
  proof (cases "file_meta_bucket_key rel h = ?k")
    case True
    with bucket(1) [of h] show ?thesis by (simp add: v2_entry_def)
  next
    case False
    then have "h \<noteq> hash p" by auto
    with False rest show ?thesis by (simp add: v2_entry_def)
  qed
  ultimately show ?thesis by blast
qed

section \<open>The interface of the sync passes\<close>

text \<open>
  A table of values under keys, as push and pull use it: \<open>put\<close> writes a batch in which a later
  value of the same key wins, \<open>del\<close> removes a present key.  Two keys are the same when
  \<open>same\<close> says so (here: equal path hashes).
\<close>

locale meta_table =
  fixes good :: "'s \<Rightarrow> bool"
    and get :: "'k \<Rightarrow> 's \<Rightarrow> 'v option res"
    and put :: "'v list \<Rightarrow> 's \<Rightarrow> 's \<times> unit res"
    and del :: "'k \<Rightarrow> 's \<Rightarrow> 's \<times> unit res"
    and key :: "'v \<Rightarrow> 'k"
    and same :: "'k \<Rightarrow> 'k \<Rightarrow> bool"
    and valid :: "'v \<Rightarrow> bool"
  assumes same_refl: "same k k"
    and same_sym: "same k k' \<Longrightarrow> same k' k"
    and same_trans: "same k k' \<Longrightarrow> same k' k'' \<Longrightarrow> same k k''"
    and get_same: "good s \<Longrightarrow> same k k' \<Longrightarrow> get k s = get k' s"
    and put_good: "good s \<Longrightarrow> \<forall>v\<in>set vs. valid v \<Longrightarrow> put vs s = (s', Inr u) \<Longrightarrow> good s'"
    and get_put: "good s \<Longrightarrow> \<forall>v\<in>set vs. valid v \<Longrightarrow> put vs s = (s', Inr u) \<Longrightarrow>
      get k s' = (case find (\<lambda>v. same (key v) k) (rev vs) of
        Some v \<Rightarrow> Inr (Some v) | None \<Rightarrow> get k s)"
    and del_good: "good s \<Longrightarrow> get k s = Inr (Some v) \<Longrightarrow> del k s = (s', Inr u) \<Longrightarrow> good s'"
    and get_del: "good s \<Longrightarrow> get k s = Inr (Some v) \<Longrightarrow> del k s = (s', Inr u) \<Longrightarrow>
      get k' s' = (if same k' k then Inr None else get k' s)"
begin

lemma get_put_one:
  assumes "good s" "valid v" "put [v] s = (s', Inr u)"
  shows "get k s' = (if same (key v) k then Inr (Some v) else get k s)"
  using get_put [OF assms(1) _ assms(3)] assms(2) by simp

lemma put_put:
  assumes "good s" "\<forall>v\<in>set (vs @ ws). valid v"
    "put vs s = (s1, Inr u1)" "put ws s1 = (s2, Inr u2)" "put (vs @ ws) s = (s3, Inr u3)"
  shows "get k s2 = get k s3"
proof -
  have "good s1" using put_good [OF assms(1) _ assms(3)] assms(2) by simp
  then have "get k s2 = (case find (\<lambda>v. same (key v) k) (rev ws) of
      Some v \<Rightarrow> Inr (Some v) | None \<Rightarrow> get k s1)"
    using get_put [OF _ _ assms(4)] assms(2) by simp
  moreover have "get k s1 = (case find (\<lambda>v. same (key v) k) (rev vs) of
      Some v \<Rightarrow> Inr (Some v) | None \<Rightarrow> get k s)"
    using get_put [OF assms(1) _ assms(3)] assms(2) by simp
  moreover have "get k s3 = (case find (\<lambda>v. same (key v) k) (rev (vs @ ws)) of
      Some v \<Rightarrow> Inr (Some v) | None \<Rightarrow> get k s)"
    using get_put [OF assms(1,2,5)] .
  moreover have "find p (rev (vs @ ws)) = (case find p (rev ws) of Some v \<Rightarrow> Some v | None \<Rightarrow> find p (rev vs))"
    for p using find_append [of p "rev ws" "rev vs"] by simp
  ultimately show ?thesis by (simp split: option.splits)
qed

text \<open>Writing one value and removing its key leaves the key empty and the others alone.\<close>

lemma put_del:
  assumes "good s" "valid v" "put [v] s = (s1, Inr u1)" "del (key v) s1 = (s2, Inr u2)"
  shows "get k s2 = (if same k (key v) then Inr None else get k s)"
proof -
  have g1: "good s1" using put_good [OF assms(1) _ assms(3)] assms(2) by simp
  have "get (key v) s1 = Inr (Some v)"
    using get_put_one [OF assms(1-3)] by (simp add: same_refl)
  with get_del [OF g1 _ assms(4)] have
    "get k s2 = (if same k (key v) then Inr None else get k s1)" by blast
  moreover have "get k s1 = get k s" if "\<not> same k (key v)"
    using get_put_one [OF assms(1-3)] that same_sym by auto
  ultimately show ?thesis by simp
qed

text \<open>Dropping the overwritten values of a batch first changes nothing.\<close>

lemma put_coalesced:
  assumes "good s" "\<forall>v\<in>set vs. valid v" "\<forall>w\<in>set ws. valid w"
    "\<And>k. find (\<lambda>v. same (key v) k) (rev ws) = find (\<lambda>v. same (key v) k) (rev vs)"
    "put vs s = (s1, Inr u1)" "put ws s = (s2, Inr u2)"
  shows "get k s2 = get k s1"
  using get_put [OF assms(1,2,5)] get_put [OF assms(1,3,6)] assms(4) by simp

end

interpretation meta: meta_table "meta_good en files hash rel" "get_file_meta en hash rel"
  "set_file_metas_batch en hash rel" "delete_file_meta en hash rel" fm_path
  "\<lambda>p q. hash p = hash q" meta_wf
  for en files hash rel
proof unfold_locales
  fix s k k'
  assume "meta_good en files hash rel s" "hash k = hash k'"
  then show "get_file_meta en hash rel k s = get_file_meta en hash rel k' s"
    by (simp add: get_good)
next
  fix s vs s' u k
  assume a: "meta_good en files hash rel s" "\<forall>v\<in>set vs. meta_wf v"
    "set_file_metas_batch en hash rel vs s = (s', Inr u)"
  note r = set_batch_good [OF a]
  show "meta_good en files hash rel s'" using r by blast
  show "get_file_meta en hash rel k s' =
      (case find (\<lambda>v. hash (fm_path v) = hash k) (rev vs) of
        Some v \<Rightarrow> Inr (Some v) | None \<Rightarrow> get_file_meta en hash rel k s)"
    using get_good [OF a(1)] get_good [OF conjunct1 [OF r]] spec [OF conjunct2 [OF r], of "hash k"]
    by (simp split: option.splits)
next
  fix s k v s' u k'
  assume a: "meta_good en files hash rel s" "get_file_meta en hash rel k s = Inr (Some v)"
    "delete_file_meta en hash rel k s = (s', Inr u)"
  then have "v2_entry (files s) rel (hash k) \<noteq> None" by (simp add: get_good)
  note r = delete_good [OF a(1,3) this]
  show "meta_good en files hash rel s'" using r by blast
  show "get_file_meta en hash rel k' s' =
      (if hash k' = hash k then Inr None else get_file_meta en hash rel k' s)"
    using r a(1) by (auto simp: get_good)
qed auto

section \<open>Properties\<close>

text \<open>C9. What the metadata store promises its callers.  On a version-2 store a batch write that
  succeeds makes every path of the batch answer with the last entry of the batch for it and
  leaves every other path (with another hash) as it was.\<close>

theorem metadata_read_back:
  assumes "meta_good en files hash rel e" "\<forall>m\<in>set ms. meta_wf m"
    and "set_file_metas_batch en hash rel ms e = (e', Inr u)"
  shows "get_file_meta en hash rel p e' =
    (case find (\<lambda>m. hash (fm_path m) = hash p) (rev ms) of
       Some m \<Rightarrow> Inr (Some m) | None \<Rightarrow> get_file_meta en hash rel p e)"
  using assms by (rule meta.get_put)

text \<open>Writing an entry and deleting its path again leaves every other path as it was and the
  path itself unknown.\<close>

theorem metadata_write_delete:
  assumes "meta_good en files hash rel e" "meta_wf m"
    and "set_file_meta en hash rel m e = (e1, Inr u1)"
    and "delete_file_meta en hash rel (fm_path m) e1 = (e2, Inr u2)"
  shows "get_file_meta en hash rel p e2 =
    (if hash p = hash (fm_path m) then Inr None else get_file_meta en hash rel p e)"
  using meta.put_del [OF assms(1,2) assms(3) [unfolded set_file_meta_def] assms(4)] .

text \<open>A version-2 store with nothing in it, for the examples.\<close>

definition sample_digest :: "string \<Rightarrow> string" where
  "sample_digest s = replicate 63 CHR ''a'' @ [if s = ''/r/x'' then CHR ''b'' else CHR ''c'']"

definition sample_store :: "(string, json) hmap" where
  "sample_store = [(file_meta_v2_manifest_key ''s1'', manifest_json)]"

definition sample_meta :: file_sync_meta where
  "sample_meta =
     \<lparr>fm_path = ''/r/x'', fm_content_hash = ''h'', fm_size = 3, fm_modified_at = 5,
      fm_sync_status = Synced, fm_last_synced_at = 9\<rparr>"

lemma take_chars_count:
  "length (filter (\<lambda>c. \<not> (128 \<le> byte c \<and> byte c < 192)) (take_chars n s)) \<le> n"
  by (induction n s rule: take_chars.induct) auto

lemma bucket_not_manifest: "file_meta_v2_manifest_key rel \<noteq> file_meta_bucket_key rel h"
proof
  assume "file_meta_v2_manifest_key rel = file_meta_bucket_key rel h"
  then have "take_chars 3 h = ''manifest''"
    by (simp add: file_meta_v2_manifest_key_def file_meta_bucket_key_def
        file_meta_bucket_key_for_bucket_def file_meta_bucket_from_hash_def)
  with take_chars_count [of 3 h] show False by simp
qed

lemma sample_good: "meta_good mem_engine hget sample_digest ''s1'' sample_store"
proof -
  have "hget sample_store (file_meta_bucket_key ''s1'' h) = None" for h
    using bucket_not_manifest [of "''s1''" h] by (simp add: sample_store_def)
  then show ?thesis
    using mem_engine_ok
    by (simp add: meta_good_def rel_ok_def v2_store_def bucket_file_ok_def hex_digest_def
        sample_digest_def) (simp add: sample_store_def)
qed

lemma metadata_read_back_witness:
  "get_file_meta mem_engine sample_digest ''s1'' ''/r/x''
     (fst (set_file_metas_batch mem_engine sample_digest ''s1'' [sample_meta] sample_store)) =
   Inr (Some sample_meta)"
proof -
  obtain e' r where run: "set_file_metas_batch mem_engine sample_digest ''s1'' [sample_meta]
      sample_store = (e', r)" by force
  have "is_ok (snd (set_file_metas_batch mem_engine sample_digest ''s1'' [sample_meta] sample_store))"
    by code_simp
  with run obtain u where "r = Inr u" by (cases r) auto
  with run metadata_read_back [OF sample_good, of "[sample_meta]" e' u "''/r/x''"] show ?thesis
    by (simp add: sample_meta_def meta_wf_def i64_ok_def u64_max_def)
qed

lemma metadata_write_delete_witness:
  "\<exists>e2 u. delete_file_meta mem_engine sample_digest ''s1'' ''/r/x''
      (fst (set_file_meta mem_engine sample_digest ''s1'' sample_meta sample_store)) = (e2, Inr u) \<and>
    get_file_meta mem_engine sample_digest ''s1'' ''/r/x'' e2 = Inr None"
proof -
  let ?set = "set_file_meta mem_engine sample_digest ''s1'' sample_meta sample_store"
  let ?del = "delete_file_meta mem_engine sample_digest ''s1'' ''/r/x'' (fst ?set)"
  have "is_ok (snd ?set)" "is_ok (snd ?del)" by code_simp+
  then obtain u1 u2 where ok: "?set = (fst ?set, Inr u1)" "?del = (fst ?del, Inr u2)"
    by (cases ?set; cases "snd ?set"; cases ?del; cases "snd ?del") auto
  have "meta_wf sample_meta" "fm_path sample_meta = ''/r/x''"
    by (simp_all add: sample_meta_def meta_wf_def i64_ok_def u64_max_def)
  with metadata_write_delete [OF sample_good _ ok(1), of "fst ?del" u2 "''/r/x''"] ok(2)
  show ?thesis by auto
qed

end
