(* ===== verification/Remote_Api.thy ===== *)
theory Remote_Api
  imports Remote_Client Metadata
begin

text \<open>
  The endpoints of the engine as \<open>RemoteClient\<close> calls them (\<open>remote/mod.rs\<close>): each builds one
  request, sends it through the authorised transport and turns the answer into a value or a
  classified error.
\<close>

section \<open>Data\<close>

definition as_u8 :: "json \<Rightarrow> nat option" where
  "as_u8 j = Option.bind (as_u64 j) (\<lambda>n. if n \<le> 255 then Some n else None)"

record remote_entry =
  re_name :: string
  re_entry_type :: nat
  re_size :: nat
  re_created_at :: int
  re_updated_at :: int
  re_content_type :: "string option"
  re_path :: "string option"
  re_hash :: "string option"
  re_target :: "string option"
  re_effective_permissions :: "string option"

definition is_file_entry :: "remote_entry \<Rightarrow> bool" where
  "is_file_entry e \<longleftrightarrow> re_entry_type e = 2"

definition is_directory_entry :: "remote_entry \<Rightarrow> bool" where
  "is_directory_entry e \<longleftrightarrow> re_entry_type e = 3"

definition is_symlink_entry :: "remote_entry \<Rightarrow> bool" where
  "is_symlink_entry e \<longleftrightarrow> re_entry_type e = 8"

definition entry_of_json :: "json \<Rightarrow> remote_entry option" where
  "entry_of_json j =
     (case (field as_str j ''name'', field as_u8 j ''entry_type'',
            default_field 0 as_u64 j ''size'', default_field 0 as_i64 j ''created_at'',
            default_field 0 as_i64 j ''updated_at'') of
        (Some name, Some ty, Some sz, Some created, Some updated) \<Rightarrow>
          (case (opt_field as_str j ''content_type'', opt_field as_str j ''path'',
                 opt_field as_str j ''hash'', opt_field as_str j ''target'',
                 opt_field as_str j ''effective_permissions'') of
             (Some ct, Some p, Some h, Some t, Some perms) \<Rightarrow>
               Some \<lparr>re_name = name, re_entry_type = ty, re_size = sz, re_created_at = created,
                     re_updated_at = updated, re_content_type = ct, re_path = p, re_hash = h,
                     re_target = t, re_effective_permissions = perms\<rparr>
           | _ \<Rightarrow> None)
      | _ \<Rightarrow> None)"

record remote_file_metadata =
  rfm_path :: string
  rfm_size :: nat
  rfm_content_type :: "string option"
  rfm_created_at :: "int option"
  rfm_updated_at :: "int option"

record directory_listing =
  dl_items :: "remote_entry list"
  dl_total :: "nat option"
  dl_limit :: "nat option"
  dl_offset :: "nat option"

record blob_config =
  bc_hash_algorithm :: string
  bc_chunk_size :: nat
  bc_chunk_hash_prefix :: string

record blob_check_response =
  bcr_have :: "string list"
  bcr_needed :: "string list"

record commit_file =
  cf_path :: string
  cf_chunks :: "string list"
  cf_content_hash :: "string option"
  cf_size :: "nat option"
  cf_content_type :: "string option"

definition commit_file_json :: "commit_file \<Rightarrow> json" where
  "commit_file_json f =
     JObj ([(''path'', JStr (cf_path f)), (''chunks'', JArr (map JStr (cf_chunks f)))] @
       (case cf_content_hash f of Some h \<Rightarrow> [(''content_hash'', JStr h)] | None \<Rightarrow> []) @
       (case cf_size f of Some n \<Rightarrow> [(''size'', JInt (int n))] | None \<Rightarrow> []) @
       (case cf_content_type f of Some t \<Rightarrow> [(''content_type'', JStr t)] | None \<Rightarrow> []))"

section \<open>Requests\<close>

definition mk_request :: "http_method \<Rightarrow> string \<Rightarrow> http_body \<Rightarrow> http_request" where
  "mk_request m url body =
     \<lparr>rq_method = m, rq_url = url, rq_auth = None, rq_headers = [], rq_body = body\<rparr>"

definition map_send ::
  "(send_error \<Rightarrow> client_error) \<Rightarrow> 's \<times> (send_error + http_response) \<Rightarrow> 's \<times> http_response res" where
  "map_send f r = (case r of (s, a) \<Rightarrow> (s, map_err f a))"

text \<open>The check of the status that classifies a refusal.\<close>

definition require_success :: "'w net \<Rightarrow> string \<Rightarrow> http_response \<Rightarrow> http_response res" where
  "require_success n what r =
     (if is_success (rs_status r) then Inr r
      else Inl (classify_upstream_status n (rs_status r) (body_text r) what))"

text \<open>The check of the older helpers, which answer with a generic server error.\<close>

definition require_success_server :: "string \<Rightarrow> http_response \<Rightarrow> http_response res" where
  "require_success_server message r = (if is_success (rs_status r) then Inr r else Inl (Server message))"

definition list_remote_directory ::
  "'w net \<Rightarrow> remote_client \<Rightarrow> string \<Rightarrow> 'w cstate \<Rightarrow> 'w cstate \<times> remote_entry list res" where
  "list_remote_directory n c remote_path s =
     then_st (map_send (\<lambda>e. Server (''failed to list remote directory '' @ remote_path @ '': '' @ send_error_text e))
                (authed_send n c (mk_request GET (rm_base_url c @ ''/files'' @ remote_path) NoBody) s))
       (\<lambda>s1 r. lift_st s1
         (and_then (require_success_server
                      (''remote returned HTTP '' @ net_status n (rs_status r) @ '' for '' @ remote_path) r)
           (\<lambda>r. and_then
              (map_err (\<lambda>e. Server (''failed to parse directory listing for '' @ remote_path @ '': '' @ e))
                 (response_json n r))
              (\<lambda>j. ok_or (Server (''failed to parse directory listing for '' @ remote_path @ '': items''))
                     (list_field entry_of_json j ''items'')))))"

definition header_i64 :: "http_response \<Rightarrow> string \<Rightarrow> int option" where
  "header_i64 r k = Option.bind (hget (rs_headers r) k) parse_i64"

definition download_file_with_range ::
  "'w net \<Rightarrow> remote_client \<Rightarrow> string \<Rightarrow> string option \<Rightarrow> 'w cstate \<Rightarrow>
     'w cstate \<times> (http_response \<times> remote_file_metadata) res" where
  "download_file_with_range n c remote_path rng s =
     then_st (map_send (\<lambda>e. Server (''failed to download '' @ remote_path @ '': '' @ send_error_text e))
       (authed_send_with_client n c FileTransferKind
          ((mk_request GET (rm_base_url c @ ''/files'' @ remote_path) NoBody)
             \<lparr>rq_headers := (case rng of Some v \<Rightarrow> [(''range'', v)] | None \<Rightarrow> [])\<rparr>) s))
       (\<lambda>s1 r. lift_st s1
         (and_then (require_success_server
                      (''remote returned HTTP '' @ net_status n (rs_status r) @ '' for '' @ remote_path) r)
           (\<lambda>r. Inr (r,
              \<lparr>rfm_path = (case hget (rs_headers r) ''x-aeordb-path'' of Some p \<Rightarrow> p | None \<Rightarrow> remote_path),
               rfm_size = (case Option.bind (hget (rs_headers r) ''x-aeordb-size'') (parse_uint u64_max) of
                             Some v \<Rightarrow> v | None \<Rightarrow> 0),
               rfm_content_type = hget (rs_headers r) ''content-type'',
               rfm_created_at = header_i64 r ''x-aeordb-created-at'',
               rfm_updated_at = header_i64 r ''x-aeordb-updated-at''\<rparr>))))"

definition download_file ::
  "'w net \<Rightarrow> remote_client \<Rightarrow> string \<Rightarrow> 'w cstate \<Rightarrow>
     'w cstate \<times> (http_response \<times> remote_file_metadata) res" where
  "download_file n c remote_path s = download_file_with_range n c remote_path None s"

definition file_event_stream ::
  "'w net \<Rightarrow> remote_client \<Rightarrow> string \<Rightarrow> 'w cstate \<Rightarrow> 'w cstate \<times> http_response res" where
  "file_event_stream n c path_prefix s =
     then_st (map_send (\<lambda>e. classify_reqwest_send_error e ''/system/events'')
       (authed_send n c (mk_request GET
          (rm_base_url c @ ''/system/events?events=entries_created,entries_deleted&path_prefix='' @
           simple_url_encode path_prefix) NoBody) s))
       (\<lambda>s1 r. lift_st s1 (require_success n ''/system/events'' r))"

definition remote_exists ::
  "'w net \<Rightarrow> remote_client \<Rightarrow> string \<Rightarrow> 'w cstate \<Rightarrow> 'w cstate \<times> bool res" where
  "remote_exists n c remote_path s =
     then_st (map_send (\<lambda>e. Server (''failed to check existence of '' @ remote_path @ '': '' @ send_error_text e))
       (authed_send n c (mk_request HEAD (rm_base_url c @ ''/files'' @ remote_path) NoBody) s))
       (\<lambda>s1 r. (s1, Inr (is_success (rs_status r))))"

text \<open>The hash query: both the path and the hash have to be equal, one row is enough.\<close>

definition hash_condition :: "string \<Rightarrow> string \<Rightarrow> json" where
  "hash_condition f v = JObj [(''field'', JStr f), (''op'', JStr ''eq''), (''value'', JStr v)]"

definition hash_query :: "string \<Rightarrow> string \<Rightarrow> string \<Rightarrow> json" where
  "hash_query query_root remote_path content_hash =
     JObj [(''path'', JStr query_root),
           (''where'', JObj [(''and'', JArr [hash_condition ''@path'' remote_path,
                                             hash_condition ''@hash'' content_hash])]),
           (''limit'', JInt 1), (''select'', JArr [JStr ''@path''])]"

definition remote_path_has_content_hash ::
  "'w net \<Rightarrow> remote_client \<Rightarrow> string \<Rightarrow> string \<Rightarrow> string \<Rightarrow> 'w cstate \<Rightarrow> 'w cstate \<times> bool res" where
  "remote_path_has_content_hash n c query_root remote_path content_hash s =
     then_st (map_send (\<lambda>e. classify_reqwest_send_error e remote_path)
       (authed_send n c (mk_request POST (rm_base_url c @ ''/files/query'')
          (JsonBody (hash_query query_root remote_path content_hash))) s))
       (\<lambda>s1 r. lift_st s1
         (and_then (require_success n remote_path r) (\<lambda>r.
            and_then (ok_or (UpstreamUnreachable
                (''failed to read hash query response for '' @ remote_path)) (rs_body r)) (\<lambda>body.
            and_then (map_err (\<lambda>e. UpstreamProtocol (''failed to parse hash query response for '' @
                  remote_path @ '': '' @ e @ ''; body: '' @ response_excerpt body)) (net_parse n body))
              (\<lambda>query.
            and_then (ok_or (UpstreamProtocol (''hash query response for '' @ remote_path @
                  '' missing results/items array; body: '' @ response_excerpt body))
                (Option.bind (or_else (jget query ''results'') (jget query ''items'')) as_array))
              (\<lambda>rows. Inr (list_ex (\<lambda>row.
                 Option.bind (or_else (jget row ''path'') (jget row ''@path'')) as_str =
                   Some remote_path) rows)))))))"

definition upload_file ::
  "'w net \<Rightarrow> remote_client \<Rightarrow> string \<Rightarrow> http_body \<Rightarrow> string option \<Rightarrow> 'w cstate \<Rightarrow>
     'w cstate \<times> unit res" where
  "upload_file n c remote_path body content_type s =
     (case auth_header n c s of
        ((w1, slot), auth) \<Rightarrow>
          (let req = (mk_request PUT (rm_base_url c @ ''/files'' @ remote_path) body)
             \<lparr>rq_headers := (case content_type of Some t \<Rightarrow> [(''Content-Type'', t)] | None \<Rightarrow> []),
              rq_auth := auth\<rparr>
           in case net_plain n req w1 of
                (w2, Inl e) \<Rightarrow> ((w2, slot), Inl (classify_reqwest_send_error e remote_path))
              | (w2, Inr r) \<Rightarrow>
                  ((w2, slot), and_then (require_success n remote_path r) (\<lambda>_. Inr ()))))"

definition delete_file ::
  "'w net \<Rightarrow> remote_client \<Rightarrow> string \<Rightarrow> 'w cstate \<Rightarrow> 'w cstate \<times> unit res" where
  "delete_file n c remote_path s =
     then_st (map_send (\<lambda>e. Server (''failed to delete remote '' @ remote_path @ '': '' @ send_error_text e))
       (authed_send n c (mk_request DELETE (rm_base_url c @ ''/files'' @ remote_path) NoBody) s))
       (\<lambda>s1 r. lift_st s1 (and_then (require_success_server
          (''remote returned HTTP '' @ net_status n (rs_status r) @ '' for DELETE '' @ remote_path) r)
          (\<lambda>_. Inr ())))"

definition create_symlink ::
  "'w net \<Rightarrow> remote_client \<Rightarrow> string \<Rightarrow> string \<Rightarrow> 'w cstate \<Rightarrow> 'w cstate \<times> unit res" where
  "create_symlink n c remote_path target s =
     then_st (map_send (\<lambda>e. Server (''failed to create symlink '' @ remote_path @ '': '' @ send_error_text e))
       (authed_send n c (mk_request PUT (rm_base_url c @ ''/links'' @ remote_path)
          (JsonBody (JObj [(''target'', JStr target)]))) s))
       (\<lambda>s1 r. lift_st s1 (and_then (require_success_server
          (''remote returned HTTP '' @ net_status n (rs_status r) @ '' for symlink '' @ remote_path) r)
          (\<lambda>_. Inr ())))"

text \<open>Without one of the two target headers the answer is None, also for an entry whose type
  header says symlink.\<close>

definition remote_symlink_target ::
  "'w net \<Rightarrow> remote_client \<Rightarrow> string \<Rightarrow> 'w cstate \<Rightarrow> 'w cstate \<times> string option res" where
  "remote_symlink_target n c remote_path s =
     then_st (map_send (\<lambda>e. Server (''failed to inspect remote symlink '' @ remote_path @ '': '' @ send_error_text e))
       (authed_send n c (mk_request HEAD (rm_base_url c @ ''/files'' @ remote_path @ ''?nofollow=true'') NoBody) s))
       (\<lambda>s1 r. (s1,
          if rs_status r = 404 then Inr None
          else if \<not> is_success (rs_status r) then
            Inl (Server (''remote returned HTTP '' @ net_status n (rs_status r) @
                 '' while inspecting symlink '' @ remote_path))
          else Inr (or_else (hget (rs_headers r) ''x-aeordb-symlink-target'')
                      (hget (rs_headers r) ''x-aeordb-link-target''))))"

definition rename_file ::
  "'w net \<Rightarrow> remote_client \<Rightarrow> string \<Rightarrow> string \<Rightarrow> 'w cstate \<Rightarrow> 'w cstate \<times> unit res" where
  "rename_file n c from_path to_path s =
     then_st (map_send (\<lambda>e. Server (''failed to rename '' @ from_path @ '' to '' @ to_path @ '': '' @ send_error_text e))
       (authed_send n c (mk_request PATCH
          (rm_base_url c @ ''/files/'' @ trim_start_matches CHR ''/'' from_path)
          (JsonBody (JObj [(''to'', JStr to_path)]))) s))
       (\<lambda>s1 r. lift_st s1 (and_then (require_success_server
          (''remote returned HTTP '' @ net_status n (rs_status r) @ '' for rename '' @ from_path @
           '' to '' @ to_path) r) (\<lambda>_. Inr ())))"

definition listing_of_json :: "json \<Rightarrow> directory_listing option" where
  "listing_of_json j =
     (case (list_field entry_of_json j ''items'', opt_field as_u64 j ''total'',
            opt_field as_u64 j ''limit'', opt_field as_u64 j ''offset'') of
        (Some items, Some t, Some l, Some off) \<Rightarrow>
          Some \<lparr>dl_items = items, dl_total = t, dl_limit = l, dl_offset = off\<rparr>
      | _ \<Rightarrow> None)"

definition page_params :: "nat option \<Rightarrow> nat option \<Rightarrow> string list" where
  "page_params limit offset =
     (case limit of Some l \<Rightarrow> [''limit='' @ show_nat l] | None \<Rightarrow> []) @
     (case offset of Some f \<Rightarrow> [''offset='' @ show_nat f] | None \<Rightarrow> [])"

definition list_directory_paginated ::
  "'w net \<Rightarrow> remote_client \<Rightarrow> string \<Rightarrow> nat option \<Rightarrow> nat option \<Rightarrow> 'w cstate \<Rightarrow>
     'w cstate \<times> directory_listing res" where
  "list_directory_paginated n c remote_path limit offset s =
     (let base = rm_base_url c @ ''/files'' @ remote_path;
          params = page_params limit offset;
          url = (if params \<noteq> [] then base @ ''?'' @ join_with ''&'' params else base)
      in then_st (map_send (\<lambda>e. classify_reqwest_send_error e remote_path)
           (authed_send n c (mk_request GET url NoBody) s))
         (\<lambda>s1 r. lift_st s1
           (and_then (require_success n remote_path r) (\<lambda>r.
              and_then (map_err (\<lambda>e. UpstreamProtocol (''failed to parse directory listing for '' @
                    remote_path @ '': '' @ e)) (response_json n r))
                (\<lambda>j. ok_or (UpstreamProtocol (''failed to parse directory listing for '' @
                    remote_path @ '': items'')) (listing_of_json j))))))"

definition search_body :: "string \<Rightarrow> string \<Rightarrow> nat option \<Rightarrow> nat option \<Rightarrow> json" where
  "search_body remote_root query limit offset =
     JObj [(''path'', JStr remote_root), (''query'', JStr query),
           (''limit'', JInt (int (min (case limit of Some l \<Rightarrow> l | None \<Rightarrow> 100) 1000))),
           (''offset'', JInt (int (case offset of Some f \<Rightarrow> f | None \<Rightarrow> 0)))]"

definition search_files ::
  "'w net \<Rightarrow> remote_client \<Rightarrow> string \<Rightarrow> string \<Rightarrow> nat option \<Rightarrow> nat option \<Rightarrow> 'w cstate \<Rightarrow>
     'w cstate \<times> json res" where
  "search_files n c remote_root query limit offset s =
     then_st (map_send (\<lambda>e. classify_reqwest_send_error e ''/files/search'')
       (authed_send_with_client n c SearchKind (mk_request POST (rm_base_url c @ ''/files/search'')
          (JsonBody (search_body remote_root query limit offset))) s))
       (\<lambda>s1 r. (s1, json_value_response n r ''/files/search''))"

text \<open>The share endpoints all send one request and return the answer's JSON.\<close>

definition json_call ::
  "'w net \<Rightarrow> remote_client \<Rightarrow> string \<Rightarrow> http_request \<Rightarrow> 'w cstate \<Rightarrow> 'w cstate \<times> json res" where
  "json_call n c context req s =
     then_st (map_send (\<lambda>e. classify_reqwest_send_error e context) (authed_send n c req s))
       (\<lambda>s1 r. (s1, json_value_response n r context))"

definition get_shares where
  "get_shares n c path s = json_call n c ''/files/shares''
     (mk_request GET (rm_base_url c @ ''/files/shares?path='' @ simple_url_encode path) NoBody) s"

definition share where
  "share n c body s = json_call n c ''/files/share''
     (mk_request POST (rm_base_url c @ ''/files/share'') (JsonBody body)) s"

definition unshare where
  "unshare n c body s = json_call n c ''/files/shares''
     (mk_request DELETE (rm_base_url c @ ''/files/shares'') (JsonBody body)) s"

definition get_shareable_users where
  "get_shareable_users n c s = json_call n c ''/auth/keys/users''
     (mk_request GET (rm_base_url c @ ''/auth/keys/users'') NoBody) s"

definition get_shareable_groups where
  "get_shareable_groups n c s = json_call n c ''/system/groups''
     (mk_request GET (rm_base_url c @ ''/system/groups'') NoBody) s"

definition create_share_link where
  "create_share_link n c body s = json_call n c ''/files/share-link''
     (mk_request POST (rm_base_url c @ ''/files/share-link'') (JsonBody body)) s"

definition get_share_links where
  "get_share_links n c path s = json_call n c ''/files/share-links''
     (mk_request GET (rm_base_url c @ ''/files/share-links?path='' @ simple_url_encode path) NoBody) s"

definition revoke_share_link where
  "revoke_share_link n c key_id s = json_call n c ''/files/share-links/{key_id}''
     (mk_request DELETE (rm_base_url c @ ''/files/share-links/'' @ key_id) NoBody) s"

section \<open>The portal's endpoints\<close>

definition engine_get_json ::
  "'w net \<Rightarrow> remote_client \<Rightarrow> string \<Rightarrow> string \<Rightarrow> 'w cstate \<Rightarrow> 'w cstate \<times> json res" where
  "engine_get_json n c url op s =
     then_st (map_send (\<lambda>e. Server (op @ '' send: '' @ send_error_text e))
                (authed_send n c (mk_request GET url NoBody) s))
       (\<lambda>s1 r. lift_st s1
         (and_then (require_success_server (op @ '' returned HTTP '' @ net_status n (rs_status r)) r)
           (\<lambda>r. map_err (\<lambda>e. Server (op @ '' parse: '' @ e)) (response_json n r))))"

definition engine_post_json ::
  "'w net \<Rightarrow> remote_client \<Rightarrow> string \<Rightarrow> json \<Rightarrow> string \<Rightarrow> 'w cstate \<Rightarrow> 'w cstate \<times> json res" where
  "engine_post_json n c url body op s =
     then_st (map_send (\<lambda>e. Server (op @ '' send: '' @ send_error_text e))
                (authed_send n c (mk_request POST url (JsonBody body)) s))
       (\<lambda>s1 r. lift_st s1
         (and_then (require_success_server (op @ '' returned HTTP '' @ net_status n (rs_status r)) r)
           (\<lambda>r. if body_text r = [] then Inr ok_json
                else map_err (\<lambda>e. Server (op @ '' parse: '' @ e)) (net_parse n (body_text r)))))"

definition fetch_deleted where
  "fetch_deleted n c dir_path s = engine_get_json n c
     (rm_base_url c @ ''/files/deleted?path='' @ simple_url_encode dir_path) ''fetch_deleted'' s"

definition restore_file where
  "restore_file n c file_path s = engine_post_json n c (rm_base_url c @ ''/files/restore'')
     (JObj [(''path'', JStr file_path)]) ''restore_file'' s"

definition fetch_version_history where
  "fetch_version_history n c file_path s = engine_get_json n c
     (rm_base_url c @ ''/versions/history/'' @ trim_start_matches CHR ''/'' file_path)
     ''fetch_version_history'' s"

definition fetch_snapshots where
  "fetch_snapshots n c s =
     engine_get_json n c (rm_base_url c @ ''/versions/snapshots'') ''fetch_snapshots'' s"

definition create_snapshot where
  "create_snapshot n c name s = engine_post_json n c (rm_base_url c @ ''/versions/snapshots'')
     (JObj [(''name'', JStr name)]) ''create_snapshot'' s"

definition restore_from_snapshot where
  "restore_from_snapshot n c snapshot_id file_path s = engine_post_json n c
     (rm_base_url c @ ''/versions/snapshots/'' @ snapshot_id @ ''/restore'')
     (JObj [(''path'', JStr file_path)]) ''restore_from_snapshot'' s"

definition copy_files where
  "copy_files n c paths destination s = engine_post_json n c (rm_base_url c @ ''/files/copy'')
     (JObj [(''paths'', JArr (map JStr paths)), (''destination'', JStr destination)])
     ''copy_files'' s"

definition create_symlink_via_header ::
  "'w net \<Rightarrow> remote_client \<Rightarrow> string \<Rightarrow> string \<Rightarrow> 'w cstate \<Rightarrow> 'w cstate \<times> unit res" where
  "create_symlink_via_header n c file_path target s =
     then_st (map_send (\<lambda>e. Server (''create_symlink_via_header send: '' @ send_error_text e))
       (authed_send n c
          ((mk_request PUT (rm_base_url c @ ''/files/'' @ trim_start_matches CHR ''/'' file_path) NoBody)
             \<lparr>rq_headers := [(''Content-Type'', ''application/json''), (''X-Aeor-Symlink'', target)]\<rparr>) s))
       (\<lambda>s1 r. lift_st s1 (and_then (require_success_server
          (''create_symlink_via_header returned HTTP '' @ net_status n (rs_status r) @ '' for '' @
           file_path) r) (\<lambda>_. Inr ())))"

section \<open>Chunks\<close>

definition blob_config_of_json :: "json \<Rightarrow> blob_config option" where
  "blob_config_of_json j =
     (case (field as_str j ''hash_algorithm'', field as_u64 j ''chunk_size'',
            field as_str j ''chunk_hash_prefix'') of
        (Some a, Some sz, Some p) \<Rightarrow>
          Some \<lparr>bc_hash_algorithm = a, bc_chunk_size = sz, bc_chunk_hash_prefix = p\<rparr>
      | _ \<Rightarrow> None)"

definition fetch_blob_config ::
  "'w net \<Rightarrow> remote_client \<Rightarrow> 'w cstate \<Rightarrow> 'w cstate \<times> blob_config res" where
  "fetch_blob_config n c s =
     then_st (map_send (\<lambda>e. classify_reqwest_send_error e ''/blobs/config'')
                (authed_send n c (mk_request GET (rm_base_url c @ ''/blobs/config'') NoBody) s))
       (\<lambda>s1 r. lift_st s1
         (and_then (require_success n ''/blobs/config'' r) (\<lambda>r.
            and_then (map_err (\<lambda>e. UpstreamProtocol (''blob_config parse: '' @ e)) (response_json n r))
              (\<lambda>j. ok_or (UpstreamProtocol ''blob_config parse: shape'') (blob_config_of_json j)))))"

definition check_response_of_json :: "json \<Rightarrow> blob_check_response option" where
  "check_response_of_json j =
     (case (list_field as_str j ''have'', list_field as_str j ''needed'') of
        (Some h, Some nd) \<Rightarrow> Some \<lparr>bcr_have = h, bcr_needed = nd\<rparr>
      | _ \<Rightarrow> None)"

definition blob_check_once ::
  "'w net \<Rightarrow> remote_client \<Rightarrow> string list \<Rightarrow> 'w cstate \<Rightarrow> 'w cstate \<times> blob_check_response res" where
  "blob_check_once n c hashes s =
     then_st (map_send (\<lambda>e. classify_reqwest_send_error e ''/blobs/check'')
       (authed_send_with_client n c BlobCheckKind (mk_request POST (rm_base_url c @ ''/blobs/check'')
          (JsonBody (JObj [(''hashes'', JArr (map JStr hashes))]))) s))
       (\<lambda>s1 r. lift_st s1
         (and_then (require_success n ''/blobs/check'' r) (\<lambda>r.
            and_then (map_err (\<lambda>e. UpstreamProtocol (''blob_check parse: '' @ e)) (response_json n r))
              (\<lambda>j. ok_or (UpstreamProtocol ''blob_check parse: shape'') (check_response_of_json j)))))"

text \<open>\<open>blob_check\<close> asks for at most 512 hashes at a time; the loop over the batches is written
  over the single request, which the client passes in.\<close>

fun check_batches ::
  "(string list \<Rightarrow> 's \<Rightarrow> 's \<times> blob_check_response res) \<Rightarrow> string list list \<Rightarrow>
     blob_check_response \<Rightarrow> 's \<Rightarrow> 's \<times> blob_check_response res" where
  "check_batches once [] combined s = (s, Inr combined)"
| "check_batches once (b # bs) combined s =
     then_st (once b s) (\<lambda>s1 r.
       check_batches once bs
         \<lparr>bcr_have = bcr_have combined @ bcr_have r, bcr_needed = bcr_needed combined @ bcr_needed r\<rparr> s1)"

definition blob_check_with ::
  "(string list \<Rightarrow> 's \<Rightarrow> 's \<times> blob_check_response res) \<Rightarrow> string list \<Rightarrow> 's \<Rightarrow>
     's \<times> blob_check_response res" where
  "blob_check_with once hashes s =
     (if hashes = [] then (s, Inr \<lparr>bcr_have = [], bcr_needed = []\<rparr>)
      else check_batches once (chunks_of 512 hashes) \<lparr>bcr_have = [], bcr_needed = []\<rparr> s)"

definition blob_check ::
  "'w net \<Rightarrow> remote_client \<Rightarrow> string list \<Rightarrow> 'w cstate \<Rightarrow> 'w cstate \<times> blob_check_response res" where
  "blob_check n c = blob_check_with (blob_check_once n c)"

text \<open>\<open>upload_chunk\<close>: its own retry on 401, through the redirect walk.\<close>

definition upload_chunk ::
  "'w net \<Rightarrow> remote_client \<Rightarrow> string \<Rightarrow> string \<Rightarrow> 'w cstate \<Rightarrow> 'w cstate \<times> unit res" where
  "upload_chunk n c hash_hex bytes s =
     (let req = mk_request PUT (rm_base_url c @ ''/blobs/chunks/'' @ hash_hex) (BytesBody bytes);
          classify = (\<lambda>r. and_then (require_success n (''/blobs/chunks/'' @ hash_hex) r) (\<lambda>_. Inr ()))
      in then_st (map_send (\<lambda>e. classify_reqwest_send_error e ''/blobs/chunks'')
           (send_attempt n c FileTransferKind req s))
         (\<lambda>s1 r.
           if rs_status r = 401 then
             then_st (map_send (\<lambda>e. classify_reqwest_send_error e ''/blobs/chunks retry'')
               (send_attempt n c FileTransferKind req (invalidate_token s1)))
               (\<lambda>s2 r2. lift_st s2 (classify r2))
           else lift_st s1 (classify r)))"

definition blob_commit ::
  "'w net \<Rightarrow> remote_client \<Rightarrow> commit_file list \<Rightarrow> 'w cstate \<Rightarrow> 'w cstate \<times> json res" where
  "blob_commit n c files s =
     then_st (map_send (\<lambda>e. classify_reqwest_send_error e ''/blobs/commit'')
       (authed_send_with_client n c BlobCommitKind (mk_request POST (rm_base_url c @ ''/blobs/commit'')
          (JsonBody (JObj [(''files'', JArr (map commit_file_json files))]))) s))
       (\<lambda>s1 r. lift_st s1
         (and_then (require_success n ''/blobs/commit'' r) (\<lambda>r.
            map_err (\<lambda>e. UpstreamProtocol (''blob_commit parse: '' @ e)) (response_json n r))))"

definition chunk_entry_of_json :: "json \<Rightarrow> (string \<times> string) option" where
  "chunk_entry_of_json j =
     (case (field as_str j ''hash'', field as_str j ''data'') of
        (Some h, Some d) \<Rightarrow> Some (h, d) | _ \<Rightarrow> None)"

definition sync_chunks ::
  "'w net \<Rightarrow> remote_client \<Rightarrow> string list \<Rightarrow> 'w cstate \<Rightarrow> 'w cstate \<times> (string \<times> string) list res" where
  "sync_chunks n c hashes s =
     then_st (map_send (\<lambda>e. Server (''sync_chunks send: '' @ send_error_text e))
       (authed_send n c (mk_request POST (rm_base_url c @ ''/sync/chunks'')
          (JsonBody (JObj [(''hashes'', JArr (map JStr hashes))]))) s))
       (\<lambda>s1 r. lift_st s1
         (and_then (require_success_server (''sync_chunks returned HTTP '' @
              net_status n (rs_status r) @ '': '' @ body_text r) r) (\<lambda>r.
            and_then (map_err (\<lambda>e. Server (''sync_chunks parse: '' @ e)) (response_json n r)) (\<lambda>j.
            and_then (ok_or (Server ''sync_chunks parse: shape'')
                        (list_field chunk_entry_of_json j ''chunks'')) (\<lambda>entries.
            collect_res (\<lambda>(h, d). map_err (\<lambda>e. Server (''sync_chunks base64 decode '' @ h @ '': '' @ e))
                                    (and_then (net_base64 n d) (\<lambda>b. Inr (h, b))))
              entries)))))"

definition chunk_hash :: "(string \<Rightarrow> string) \<Rightarrow> string \<Rightarrow> string \<Rightarrow> string" where
  "chunk_hash hash pre bytes = hash (pre @ bytes)"

section \<open>The operations the sync passes use\<close>

text \<open>The methods of \<open>RemoteClient\<close> as one value, over a world of any type; \<open>client_ops\<close> is the
  client of this theory.\<close>

record 'w remote_ops =
  ro_blob_config :: "'w \<Rightarrow> 'w \<times> blob_config res"
  ro_blob_check :: "string list \<Rightarrow> 'w \<Rightarrow> 'w \<times> blob_check_response res"
  ro_upload_chunk :: "string \<Rightarrow> string \<Rightarrow> 'w \<Rightarrow> 'w \<times> unit res"
  ro_blob_commit :: "commit_file list \<Rightarrow> 'w \<Rightarrow> 'w \<times> json res"
  ro_upload_file :: "string \<Rightarrow> http_body \<Rightarrow> string option \<Rightarrow> 'w \<Rightarrow> 'w \<times> unit res"
  ro_delete_file :: "string \<Rightarrow> 'w \<Rightarrow> 'w \<times> unit res"
  ro_create_symlink :: "string \<Rightarrow> string \<Rightarrow> 'w \<Rightarrow> 'w \<times> unit res"
  ro_symlink_target :: "string \<Rightarrow> 'w \<Rightarrow> 'w \<times> string option res"
  ro_rename_file :: "string \<Rightarrow> string \<Rightarrow> 'w \<Rightarrow> 'w \<times> unit res"
  ro_has_content_hash :: "string \<Rightarrow> string \<Rightarrow> string \<Rightarrow> 'w \<Rightarrow> 'w \<times> bool res"
  ro_sync_chunks :: "string list \<Rightarrow> 'w \<Rightarrow> 'w \<times> (string \<times> string) list res"

definition client_ops :: "'w net \<Rightarrow> remote_client \<Rightarrow> 'w cstate remote_ops" where
  "client_ops n c =
     \<lparr>ro_blob_config = fetch_blob_config n c, ro_blob_check = blob_check n c,
      ro_upload_chunk = upload_chunk n c, ro_blob_commit = blob_commit n c,
      ro_upload_file = upload_file n c, ro_delete_file = delete_file n c,
      ro_create_symlink = create_symlink n c, ro_symlink_target = remote_symlink_target n c,
      ro_rename_file = rename_file n c,
      ro_has_content_hash = remote_path_has_content_hash n c,
      ro_sync_chunks = sync_chunks n c\<rparr>"

section \<open>Lemmas\<close>

lemma check_batches_spec:
  assumes "check_batches once bs acc s = (s', Inr r)"
  shows "\<exists>rs. length rs = length bs \<and>
    r = \<lparr>bcr_have = bcr_have acc @ concat (map bcr_have rs),
         bcr_needed = bcr_needed acc @ concat (map bcr_needed rs)\<rparr> \<and>
    list_all2 (\<lambda>b x. \<exists>s1 s2. once b s1 = (s2, Inr x)) bs rs"
  using assms
proof (induction bs arbitrary: acc s)
  case Nil
  then show ?case by (auto intro!: exI [of _ "[]"])
next
  case (Cons b bs)
  then obtain s1 x where x: "once b s = (s1, Inr x)"
    and rest: "check_batches once bs
        \<lparr>bcr_have = bcr_have acc @ bcr_have x, bcr_needed = bcr_needed acc @ bcr_needed x\<rparr> s1 = (s', Inr r)"
    by (auto simp: then_st_Inr)
  from Cons.IH [OF rest] obtain rs where rs: "length rs = length bs"
    "r = \<lparr>bcr_have = (bcr_have acc @ bcr_have x) @ concat (map bcr_have rs),
          bcr_needed = (bcr_needed acc @ bcr_needed x) @ concat (map bcr_needed rs)\<rparr>"
    "list_all2 (\<lambda>b x. \<exists>s1 s2. once b s1 = (s2, Inr x)) bs rs" by auto
  show ?case
    by (rule exI [of _ "x # rs"]) (use rs x in auto)
qed

section \<open>Properties\<close>

lemma check_batches_ideal:
  assumes "\<forall>b\<in>set bs. \<forall>s. once b s = (s, Inr \<lparr>bcr_have = filter H b, bcr_needed = filter (\<lambda>h. \<not> H h) b\<rparr>)"
  shows "check_batches once bs acc s =
    (s, Inr \<lparr>bcr_have = bcr_have acc @ filter H (concat bs),
             bcr_needed = bcr_needed acc @ filter (\<lambda>h. \<not> H h) (concat bs)\<rparr>)"
  using assms by (induction bs arbitrary: acc) auto



end
