(* ===== verification/Push_Plan.thy ===== *)
theory Push_Plan
  imports Remote_Api
begin

text \<open>
  Planning a push batch (\<open>sync/push.rs\<close>): hashing a file, splitting it into chunks, planning a
  range of files on each worker and merging the partial plans, and reading a planned chunk
  back.  A file opened for reading is the list of results its \<open>read\<close> calls give for a buffer
  of the given size, so a read may be short and may fail; the end of the list is the end of
  the file.  \<open>hash\<close> is the hexadecimal BLAKE3 hash; a streaming hasher hashes the
  concatenation of what it was fed.
\<close>

section \<open>Data\<close>

record pending_push_file =
  pf_local_path :: string
  pf_remote_path :: string
  pf_content_hash :: string
  pf_file_size :: nat
  pf_modified_at :: int
  pf_content_type :: "string option"

record pending_chunk_ref =
  pc_hash :: string
  pc_local_path :: string
  pc_offset :: nat
  pc_len :: nat

record local_fs =
  lf_open :: "string \<Rightarrow> nat \<Rightarrow> string + (string + string) list"
  lf_read_at :: "string \<Rightarrow> nat \<Rightarrow> nat \<Rightarrow> string + string"
  lf_debug :: "string \<Rightarrow> string"

record push_batch =
  pb_files :: "pending_push_file list"
  pb_bytes :: nat
  pb_chunks :: nat

definition empty_batch :: push_batch where
  "empty_batch = \<lparr>pb_files = [], pb_bytes = 0, pb_chunks = 0\<rparr>"

definition push_batch_max_files :: nat where "push_batch_max_files = 32"
definition push_batch_max_bytes :: nat where "push_batch_max_bytes = 64 * 1024 * 1024"
definition push_batch_max_chunks :: nat where "push_batch_max_chunks = 8192"
definition push_parallelism_limit :: nat where "push_parallelism_limit = 4"
definition push_file_read_buffer :: nat where "push_file_read_buffer = 1024 * 1024"
definition blob_commit_safe_bytes :: nat where "blob_commit_safe_bytes = 30 * 1024 * 1024"

section \<open>Batches\<close>

definition estimated_chunk_count :: "nat \<Rightarrow> nat \<Rightarrow> nat" where
  "estimated_chunk_count byte_len chunk_size =
     (if byte_len = 0 then 0 else min (div_ceil byte_len (max chunk_size 1)) u64_max)"

definition should_flush_before :: "push_batch \<Rightarrow> pending_push_file \<Rightarrow> blob_config \<Rightarrow> bool" where
  "should_flush_before b file config =
     (if pb_files b = [] then False
      else
        let file_chunks = estimated_chunk_count (pf_file_size file) (bc_chunk_size config)
        in length (pb_files b) + 1 > push_batch_max_files \<or>
           sat_add (pb_bytes b) (pf_file_size file) > push_batch_max_bytes \<or>
           sat_add (pb_chunks b) file_chunks > push_batch_max_chunks)"

definition should_flush_now :: "push_batch \<Rightarrow> bool" where
  "should_flush_now b \<longleftrightarrow>
     length (pb_files b) \<ge> push_batch_max_files \<or> pb_bytes b \<ge> push_batch_max_bytes \<or>
     pb_chunks b \<ge> push_batch_max_chunks"

definition batch_push :: "push_batch \<Rightarrow> pending_push_file \<Rightarrow> blob_config \<Rightarrow> push_batch" where
  "batch_push b file config =
     \<lparr>pb_files = pb_files b @ [file],
      pb_bytes = sat_add (pb_bytes b) (pf_file_size file),
      pb_chunks = sat_add (pb_chunks b)
        (estimated_chunk_count (pf_file_size file) (bc_chunk_size config))\<rparr>"

text \<open>The estimate of the commit manifest.  \<open>json_len\<close> is the length of a string's JSON text.\<close>

definition estimated_blob_commit_file_bytes ::
  "(string \<Rightarrow> nat) \<Rightarrow> pending_push_file \<Rightarrow> blob_config \<Rightarrow> nat" where
  "estimated_blob_commit_file_bytes json_len file config =
     (let chunks = estimated_chunk_count (pf_file_size file) (bc_chunk_size config);
          chunk_array_bytes = (if chunks = 0 then 2 else sat_add (sat_mul chunks 67) 2);
          path_bytes = json_len (pf_remote_path file);
          hash_bytes = sat_add (length (pf_content_hash file)) 2;
          content_type_bytes = (case pf_content_type file of Some t \<Rightarrow> json_len t | None \<Rightarrow> 0)
      in sat_add (sat_add (sat_add (sat_add (sat_add 160 path_bytes) chunk_array_bytes) hash_bytes)
           (length (show_nat (pf_file_size file)))) content_type_bytes)"

definition estimated_blob_commit_body_bytes ::
  "(string \<Rightarrow> nat) \<Rightarrow> pending_push_file list \<Rightarrow> blob_config \<Rightarrow> nat" where
  "estimated_blob_commit_body_bytes json_len files config =
     fold (\<lambda>f bytes. sat_add bytes (estimated_blob_commit_file_bytes json_len f config)) files
       (length ([CHR ''{'', CHR 0x22] @ ''files'' @ [CHR 0x22] @ '':[]}''))"

section \<open>Hashing and chunking a file\<close>

fun read_all :: "(string + string) list \<Rightarrow> string \<Rightarrow> nat \<Rightarrow> string + (string \<times> nat)" where
  "read_all [] hasher tot = Inr (hasher, tot)"
| "read_all (Inl e # rs) hasher tot = Inl e"
| "read_all (Inr b # rs) hasher tot =
     (if b = [] then Inr (hasher, tot)
      else read_all rs (hasher @ b) (sat_add tot (length b)))"

definition hash_file_content ::
  "(string \<Rightarrow> string) \<Rightarrow> local_fs \<Rightarrow> string \<Rightarrow> string + (string \<times> nat)" where
  "hash_file_content hash fs path =
     and_then (map_err (\<lambda>e. ''failed to open '' @ lf_debug fs path @ '': '' @ e)
                (lf_open fs path push_file_read_buffer)) (\<lambda>reads.
     and_then (map_err (\<lambda>e. ''failed to read '' @ lf_debug fs path @ '': '' @ e)
                (read_all reads [] 0)) (\<lambda>(hasher, tot). Inr (hash hasher, tot)))"

record planned_file_chunks =
  pl_chunk_hashes :: "string list"
  pl_chunk_refs :: "pending_chunk_ref list"

text \<open>The chunk loop; the accumulator holds the hashes, the references, the offset and what the
  content hasher was fed.\<close>

fun chunk_loop ::
  "(string \<Rightarrow> string) \<Rightarrow> string \<Rightarrow> string \<Rightarrow> (string + string) list \<Rightarrow>
     string list \<times> pending_chunk_ref list \<times> nat \<times> string \<Rightarrow>
     string + (string list \<times> pending_chunk_ref list \<times> nat \<times> string)" where
  "chunk_loop hash pre path [] acc = Inr acc"
| "chunk_loop hash pre path (Inl e # rs) acc = Inl e"
| "chunk_loop hash pre path (Inr b # rs) (hashes, refs, offset, hasher) =
     (if b = [] then Inr (hashes, refs, offset, hasher)
      else
        let h = chunk_hash hash pre b
        in chunk_loop hash pre path rs
             (hashes @ [h],
              refs @ [\<lparr>pc_hash = h, pc_local_path = path, pc_offset = offset, pc_len = length b\<rparr>],
              sat_add offset (length b), hasher @ b))"

definition plan_file_chunks ::
  "(string \<Rightarrow> string) \<Rightarrow> local_fs \<Rightarrow> blob_config \<Rightarrow> pending_push_file \<Rightarrow>
     string + planned_file_chunks" where
  "plan_file_chunks hash fs config file =
     (let path = pf_local_path file
      in and_then (map_err (\<lambda>e. ''failed to open '' @ lf_debug fs path @ '': '' @ e)
                     (lf_open fs path (max (bc_chunk_size config) 1))) (\<lambda>reads.
         and_then (map_err (\<lambda>e. ''failed to read '' @ lf_debug fs path @ '': '' @ e)
                     (chunk_loop hash (bc_chunk_hash_prefix config) path reads ([], [], 0, [])))
           (\<lambda>(hashes, refs, offset, hasher).
              let planned_hash = hash hasher
              in if offset \<noteq> pf_file_size file \<or> planned_hash \<noteq> pf_content_hash file
                 then Inl (''file changed while preparing upload for '' @ lf_debug fs path @
                           '': expected size/hash '' @ show_nat (pf_file_size file) @ '':'' @
                           pf_content_hash file @ '', got '' @ show_nat offset @ '':'' @ planned_hash)
                 else Inr \<lparr>pl_chunk_hashes = hashes, pl_chunk_refs = refs\<rparr>)))"

section \<open>Planning a batch\<close>

record push_batch_plan =
  bp_commit_files :: "commit_file list"
  bp_unique_hashes :: "string list"
  bp_upload_chunks :: "(string, pending_chunk_ref) hmap"

record partial_plan =
  pp_indexed :: "(nat \<times> commit_file) list"
  pp_unique_hashes :: "string list"
  pp_upload_chunks :: "(string, pending_chunk_ref) hmap"

definition add_ref ::
  "pending_chunk_ref \<Rightarrow> string list \<times> (string, pending_chunk_ref) hmap \<Rightarrow>
     string list \<times> (string, pending_chunk_ref) hmap" where
  "add_ref r acc =
     (case acc of (unique, chunks) \<Rightarrow>
        if hget chunks (pc_hash r) = None
        then (unique @ [pc_hash r], hinsert (pc_hash r) r chunks) else (unique, chunks))"

definition commit_file_of :: "pending_push_file \<Rightarrow> string list \<Rightarrow> commit_file" where
  "commit_file_of file hashes =
     \<lparr>cf_path = pf_remote_path file, cf_chunks = hashes,
      cf_content_hash = Some (pf_content_hash file), cf_size = Some (pf_file_size file),
      cf_content_type = pf_content_type file\<rparr>"

fun plan_range_loop ::
  "(string \<Rightarrow> string) \<Rightarrow> local_fs \<Rightarrow> blob_config \<Rightarrow> nat \<Rightarrow> pending_push_file list \<Rightarrow>
     partial_plan \<Rightarrow> string + partial_plan" where
  "plan_range_loop hash fs config index [] acc = Inr acc"
| "plan_range_loop hash fs config index (file # files) acc =
     (case plan_file_chunks hash fs config file of
        Inl e \<Rightarrow> Inl e
      | Inr planned \<Rightarrow>
          (case fold add_ref (pl_chunk_refs planned) (pp_unique_hashes acc, pp_upload_chunks acc) of
             (unique, chunks) \<Rightarrow>
               plan_range_loop hash fs config (index + 1) files
                 \<lparr>pp_indexed =
                    pp_indexed acc @ [(index, commit_file_of file (pl_chunk_hashes planned))],
                  pp_unique_hashes = unique, pp_upload_chunks = chunks\<rparr>))"

definition plan_push_batch_range ::
  "(string \<Rightarrow> string) \<Rightarrow> local_fs \<Rightarrow> blob_config \<Rightarrow> nat \<Rightarrow> pending_push_file list \<Rightarrow>
     string + partial_plan" where
  "plan_push_batch_range hash fs config start_index files =
     plan_range_loop hash fs config start_index files
       \<lparr>pp_indexed = [], pp_unique_hashes = [], pp_upload_chunks = []\<rparr>"

text \<open>One partial plan merged into the plan so far: a hash already there is skipped, a new one
  takes its reference out of the partial map.\<close>

fun merge_hashes ::
  "string list \<Rightarrow> (string, pending_chunk_ref) hmap \<Rightarrow>
     string list \<times> (string, pending_chunk_ref) hmap \<Rightarrow>
     string list \<times> (string, pending_chunk_ref) hmap" where
  "merge_hashes [] partial acc = acc"
| "merge_hashes (h # hs) partial (unique, chunks) =
     (if hget chunks h \<noteq> None then merge_hashes hs partial (unique, chunks)
      else case hget partial h of
             None \<Rightarrow> merge_hashes hs partial (unique, chunks)
           | Some r \<Rightarrow> merge_hashes hs (hremove h partial) (unique @ [h], hinsert h r chunks))"

definition merge_partial_push_batch_plans :: "partial_plan list \<Rightarrow> push_batch_plan" where
  "merge_partial_push_batch_plans partials =
     (let indexed = concat (map pp_indexed partials);
          (unique, chunks) =
            fold (\<lambda>p. merge_hashes (pp_unique_hashes p) (pp_upload_chunks p)) partials ([], [])
      in \<lparr>bp_commit_files = map snd (sort_key fst indexed), bp_unique_hashes = unique,
          bp_upload_chunks = chunks\<rparr>)"

text \<open>\<open>available\<close> is the number of processors, when the system tells it.\<close>

definition push_worker_count :: "nat option \<Rightarrow> nat \<Rightarrow> nat" where
  "push_worker_count available item_count =
     (if item_count = 0 then 0
      else max (min (min (case available of Some n \<Rightarrow> n | None \<Rightarrow> push_parallelism_limit)
                       push_parallelism_limit) item_count) 1)"

definition plan_push_batch ::
  "(string \<Rightarrow> string) \<Rightarrow> local_fs \<Rightarrow> nat option \<Rightarrow> blob_config \<Rightarrow> pending_push_file list \<Rightarrow>
     string + push_batch_plan" where
  "plan_push_batch hash fs available config files =
     (let worker_count = push_worker_count available (length files)
      in if worker_count \<le> 1 then
           and_then (plan_push_batch_range hash fs config 0 files)
             (\<lambda>p. Inr (merge_partial_push_batch_plans [p]))
         else
           let files_per_worker = div_ceil (length files) worker_count
           in and_then
                (collect_res (\<lambda>(chunk_index, file_chunk).
                    plan_push_batch_range hash fs config (chunk_index * files_per_worker) file_chunk)
                  (List.enumerate 0 (chunks_of files_per_worker files)))
                (\<lambda>partials. Inr (merge_partial_push_batch_plans partials)))"

text \<open>\<open>read_pending_chunk\<close> reads the planned range again and compares its hash.\<close>

definition read_pending_chunk ::
  "(string \<Rightarrow> string) \<Rightarrow> local_fs \<Rightarrow> string \<Rightarrow> pending_chunk_ref \<Rightarrow> string res" where
  "read_pending_chunk hash fs hash_prefix chunk =
     and_then (map_err Io (lf_read_at fs (pc_local_path chunk) (pc_offset chunk) (pc_len chunk)))
       (\<lambda>bytes.
          let actual_hash = chunk_hash hash hash_prefix bytes
          in if actual_hash \<noteq> pc_hash chunk
             then Inl (Io (''file changed while reading chunk '' @ lf_debug fs (pc_local_path chunk) @
                       '' at offset '' @ show_nat (pc_offset chunk) @ '': expected '' @
                       pc_hash chunk @ '', got '' @ actual_hash))
             else Inr bytes)"

section \<open>Lemmas: reading and chunking\<close>

text \<open>What a list of read results delivers before its end, and the blocks of it.\<close>

fun blocks_of :: "(string + string) list \<Rightarrow> string list option" where
  "blocks_of [] = Some []"
| "blocks_of (Inl e # rs) = None"
| "blocks_of (Inr b # rs) = (if b = [] then Some [] else map_option (Cons b) (blocks_of rs))"

lemma read_all_blocks:
  "read_all rs h t = Inr (h', t') \<Longrightarrow>
    \<exists>bs. blocks_of rs = Some bs \<and> h' = h @ concat bs \<and>
      (t + length (concat bs) \<le> u64_max \<longrightarrow> t' = t + length (concat bs))"
proof (induction rs arbitrary: h t)
  case Nil
  then show ?case by simp
next
  case (Cons r rs)
  show ?case
  proof (cases r)
    case (Inl e)
    with Cons.prems show ?thesis by simp
  next
    case (Inr b)
    show ?thesis
    proof (cases "b = []")
      case True
      with Cons.prems Inr show ?thesis by simp
    next
      case False
      with Cons.prems Inr Cons.IH [of "h @ b" "sat_add t (length b)"]
      show ?thesis by (auto simp: sat_add_exact)
    qed
  qed
qed

fun refs_from :: "(string \<Rightarrow> string) \<Rightarrow> string \<Rightarrow> string \<Rightarrow> nat \<Rightarrow> string list \<Rightarrow> pending_chunk_ref list" where
  "refs_from hash pre path offset [] = []"
| "refs_from hash pre path offset (b # bs) =
     \<lparr>pc_hash = chunk_hash hash pre b, pc_local_path = path, pc_offset = offset, pc_len = length b\<rparr>
       # refs_from hash pre path (sat_add offset (length b)) bs"

lemma chunk_loop_blocks:
  "chunk_loop hash pre path rs (hs, refs, offset, fed) = Inr (hs', refs', offset', fed') \<Longrightarrow>
    \<exists>bs. blocks_of rs = Some bs \<and> hs' = hs @ map (chunk_hash hash pre) bs \<and>
      refs' = refs @ refs_from hash pre path offset bs \<and> fed' = fed @ concat bs \<and>
      (offset + length (concat bs) \<le> u64_max \<longrightarrow> offset' = offset + length (concat bs))"
proof (induction rs arbitrary: hs refs offset fed)
  case Nil
  then show ?case by simp
next
  case (Cons r rs)
  show ?case
  proof (cases r)
    case (Inl e)
    with Cons.prems show ?thesis by simp
  next
    case (Inr b)
    show ?thesis
    proof (cases "b = []")
      case True
      with Cons.prems Inr show ?thesis by simp
    next
      case False
      with Cons.prems Inr Cons.IH [of "hs @ [chunk_hash hash pre b]"
          "refs @ [\<lparr>pc_hash = chunk_hash hash pre b, pc_local_path = path, pc_offset = offset,
             pc_len = length b\<rparr>]" "sat_add offset (length b)" "fed @ b"]
      show ?thesis by (auto simp: Let_def sat_add_exact)
    qed
  qed
qed

lemma refs_from_hashes: "map pc_hash (refs_from hash pre path offset bs) = map (chunk_hash hash pre) bs"
  by (induction bs arbitrary: offset) auto

text \<open>A planned file: its chunks are the blocks of the file as it was read, and their
  concatenation has the recorded hash.\<close>

lemma plan_file_spec:
  assumes "plan_file_chunks hash fs config file = Inr planned"
  obtains bs reads where
    "lf_open fs (pf_local_path file) (max (bc_chunk_size config) 1) = Inr reads"
    "blocks_of reads = Some bs"
    "pl_chunk_hashes planned = map (chunk_hash hash (bc_chunk_hash_prefix config)) bs"
    "pl_chunk_refs planned =
       refs_from hash (bc_chunk_hash_prefix config) (pf_local_path file) 0 bs"
    "hash (concat bs) = pf_content_hash file"
proof -
  let ?pre = "bc_chunk_hash_prefix config" and ?path = "pf_local_path file"
  from assms obtain reads where reads: "lf_open fs ?path (max (bc_chunk_size config) 1) = Inr reads"
    by (cases "lf_open fs ?path (max (bc_chunk_size config) 1)") (simp_all add: plan_file_chunks_def)
  with assms obtain hs refs offset fed
    where loop: "chunk_loop hash ?pre ?path reads ([], [], 0, []) = Inr (hs, refs, offset, fed)"
    by (cases "chunk_loop hash ?pre ?path reads ([], [], 0, [])") (auto simp: plan_file_chunks_def)
  with assms reads have ok: "hash fed = pf_content_hash file"
    and pl: "planned = \<lparr>pl_chunk_hashes = hs, pl_chunk_refs = refs\<rparr>"
    by (auto simp: plan_file_chunks_def Let_def split: if_splits)
  from chunk_loop_blocks [OF loop] obtain bs where "blocks_of reads = Some bs"
    "hs = map (chunk_hash hash ?pre) bs" "refs = refs_from hash ?pre ?path 0 bs" "fed = concat bs"
    by auto
  with reads ok pl that show ?thesis by simp
qed

lemma plan_file_hashes:
  "plan_file_chunks hash fs config file = Inr planned \<Longrightarrow>
    map pc_hash (pl_chunk_refs planned) = pl_chunk_hashes planned"
  by (erule plan_file_spec) (simp add: refs_from_hashes)

section \<open>Lemmas: keeping the first reference of each hash\<close>

abbreviation keep_refs where
  "keep_refs rs acc \<equiv> fold add_ref rs acc"

definition keys_ok :: "string list \<times> (string, pending_chunk_ref) hmap \<Rightarrow> bool" where
  "keys_ok acc \<longleftrightarrow> map fst (snd acc) = fst acc \<and> distinct (fst acc) \<and>
     (\<forall>(h, r)\<in>set (snd acc). pc_hash r = h)"

lemma keys_ok_Nil [simp]: "keys_ok ([], [])"
  by (simp add: keys_ok_def)

lemma hinsert_new: "hget m k = None \<Longrightarrow> hinsert k v m = m @ [(k, v)]"
  by (induction m) auto

lemma add_ref_keys: "keys_ok acc \<Longrightarrow> keys_ok (add_ref r acc)"
  by (auto simp: keys_ok_def add_ref_def hinsert_new map_of_eq_None_iff split: prod.splits)

lemma keep_refs_keys: "keys_ok acc \<Longrightarrow> keys_ok (keep_refs rs acc)"
  by (induction rs arbitrary: acc) (auto simp: add_ref_keys)

lemma add_ref_mono: "k \<in> set (fst acc) \<Longrightarrow> k \<in> set (fst (add_ref r acc))"
  by (auto simp: add_ref_def split: prod.splits)

lemma keep_refs_set:
  "keys_ok acc \<Longrightarrow> set (fst (keep_refs rs acc)) = set (fst acc) \<union> pc_hash ` set rs"
proof (induction rs arbitrary: acc)
  case Nil
  then show ?case by simp
next
  case (Cons r rs)
  obtain u m where acc: "acc = (u, m)" by (cases acc)
  have "set (fst (add_ref r acc)) = insert (pc_hash r) (set (fst acc))"
    using Cons.prems by (force simp: acc add_ref_def keys_ok_def map_of_eq_None_iff)
  with Cons.IH [OF add_ref_keys [OF Cons.prems]] show ?case by simp
qed

text \<open>The references kept, in order.\<close>

lemma merge_is_keep:
  assumes "keys_ok (u, m)"
  shows "merge_hashes u m acc = keep_refs (map snd m) acc"
  using assms
proof (induction m arbitrary: u acc)
  case Nil
  then show ?case by (cases acc) (simp add: keys_ok_def)
next
  case (Cons p m)
  obtain h r where p: "p = (h, r)" by (cases p)
  define us where "us = map fst m"
  have u: "u = h # us" "h \<notin> set us" "map fst m = us" "distinct us"
    "pc_hash r = h" "\<forall>(k, x)\<in>set m. pc_hash x = k"
    using Cons.prems by (force simp: keys_ok_def p us_def)+
  then have ok: "keys_ok (us, m)" by (simp add: keys_ok_def)
  obtain a b where acc: "acc = (a, b)" by (cases acc)
  have "h \<notin> fst ` set m" using u(2) by (simp add: us_def)
  then have fresh: "hremove h ((h, r) # m) = m" by (simp add: delete_id)
  have skip: "merge_hashes us ((h, r) # m) acc' = merge_hashes us m acc'" if "h \<notin> set us" for us acc'
    using that
  proof (induction us arbitrary: acc' m)
    case (Cons k ks)
    obtain x y where [simp]: "acc' = (x, y)" by (cases acc')
    from Cons.prems have "k \<noteq> h" by auto
    then show ?case using Cons by (auto split: option.splits)
  qed simp
  show ?case
    using Cons.IH [OF ok] skip [OF u(2)] fresh u
    by (auto simp: p acc add_ref_def)
qed

lemma add_ref_has: "hget (snd acc) h \<noteq> None \<Longrightarrow> hget (snd (add_ref r acc)) h \<noteq> None"
  by (auto simp: add_ref_def split: prod.splits)

lemma keep_refs_has: "hget (snd acc) h \<noteq> None \<Longrightarrow> hget (snd (keep_refs rs acc)) h \<noteq> None"
proof (induction rs arbitrary: acc)
  case (Cons r rs)
  from Cons.IH [OF add_ref_has [OF Cons.prems]] show ?case by simp
qed simp

lemma keep_refs_all: "r \<in> set rs \<Longrightarrow> hget (snd (keep_refs rs acc)) (pc_hash r) \<noteq> None"
proof (induction rs arbitrary: acc)
  case Nil
  then show ?case by simp
next
  case (Cons x rs)
  show ?case
  proof (cases "r = x")
    case True
    have "hget (snd (add_ref x acc)) (pc_hash x) \<noteq> None"
      by (auto simp: add_ref_def split: prod.splits)
    with keep_refs_has True show ?thesis by simp
  next
    case False
    with Cons show ?thesis by simp
  qed
qed

lemma add_ref_known: "hget (snd acc) (pc_hash r) \<noteq> None \<Longrightarrow> add_ref r acc = acc"
  by (auto simp: add_ref_def split: prod.splits)

lemma keep_again:
  "keep_refs (map snd (snd (keep_refs rs ([], [])))) acc = keep_refs rs acc"
proof (induction rs rule: rev_induct)
  case Nil
  then show ?case by simp
next
  case (snoc r rs)
  obtain u m where um: "keep_refs rs ([], []) = (u, m)" by force
  have ok: "keys_ok (u, m)" using keep_refs_keys [of "([], [])" rs] um by simp
  show ?case
  proof (cases "hget m (pc_hash r) = None")
    case True
    then have "snd (keep_refs (rs @ [r]) ([], [])) = m @ [(pc_hash r, r)]"
      by (simp add: um add_ref_def hinsert_new)
    with snoc um show ?thesis by simp
  next
    case False
    then have same: "keep_refs (rs @ [r]) ([], []) = (u, m)" by (simp add: um add_ref_known)
    from False have "pc_hash r \<in> set u"
      using ok by (force simp: keys_ok_def map_of_eq_None_iff)
    moreover have "set u = pc_hash ` set rs"
      using keep_refs_set [of "([], [])" rs] um by simp
    ultimately obtain x where "x \<in> set rs" "pc_hash x = pc_hash r" by force
    then have "add_ref r (keep_refs rs acc) = keep_refs rs acc"
      by (metis add_ref_known keep_refs_all)
    with snoc um same show ?thesis by simp
  qed
qed

section \<open>Lemmas: ranges and workers\<close>

text \<open>What a range contributes when every file can be planned.\<close>

definition range_result ::
  "nat \<Rightarrow> (pending_push_file \<times> planned_file_chunks) list \<Rightarrow> partial_plan \<Rightarrow> partial_plan" where
  "range_result start fps acc =
     (let kept = keep_refs (concat (map (pl_chunk_refs \<circ> snd) fps))
                   (pp_unique_hashes acc, pp_upload_chunks acc)
      in \<lparr>pp_indexed = pp_indexed acc @ List.enumerate start
            (map (\<lambda>(f, p). commit_file_of f (pl_chunk_hashes p)) fps),
          pp_unique_hashes = fst kept, pp_upload_chunks = snd kept\<rparr>)"

definition plan_files ::
  "(string \<Rightarrow> string) \<Rightarrow> local_fs \<Rightarrow> blob_config \<Rightarrow> pending_push_file list \<Rightarrow>
     string + (pending_push_file \<times> planned_file_chunks) list" where
  "plan_files hash fs config files =
     collect_res (\<lambda>f. and_then (plan_file_chunks hash fs config f) (\<lambda>p. Inr (f, p))) files"

lemma plan_range_loop_spec:
  "plan_range_loop hash fs config start files acc =
     and_then (plan_files hash fs config files) (\<lambda>fps. Inr (range_result start fps acc))"
proof (induction files arbitrary: start acc)
  case Nil
  then show ?case by (simp add: plan_files_def range_result_def)
next
  case (Cons x xs)
  show ?case
  proof (cases "plan_file_chunks hash fs config x")
    case (Inl e)
    then show ?thesis by (simp add: plan_files_def)
  next
    case (Inr p)
    obtain u m where um: "keep_refs (pl_chunk_refs p) (pp_unique_hashes acc, pp_upload_chunks acc) = (u, m)"
      by force
    show ?thesis
      using Inr um Cons.IH
      by (simp add: plan_files_def range_result_def Let_def split: sum.splits)
  qed
qed

lemma plan_range_spec:
  "plan_push_batch_range hash fs config start files =
     and_then (plan_files hash fs config files)
       (\<lambda>fps. Inr (range_result start fps
          \<lparr>pp_indexed = [], pp_unique_hashes = [], pp_upload_chunks = []\<rparr>))"
  by (simp add: plan_push_batch_range_def plan_range_loop_spec)

text \<open>The plan of a whole batch, said without workers.\<close>

definition sequential_plan :: "(pending_push_file \<times> planned_file_chunks) list \<Rightarrow> push_batch_plan" where
  "sequential_plan fps =
     (let kept = keep_refs (concat (map (pl_chunk_refs \<circ> snd) fps)) ([], [])
      in \<lparr>bp_commit_files = map (\<lambda>(f, p). commit_file_of f (pl_chunk_hashes p)) fps,
          bp_unique_hashes = fst kept, bp_upload_chunks = snd kept\<rparr>)"

abbreviation fresh_range :: "nat \<Rightarrow> (pending_push_file \<times> planned_file_chunks) list \<Rightarrow> partial_plan" where
  "fresh_range start fps \<equiv>
     range_result start fps \<lparr>pp_indexed = [], pp_unique_hashes = [], pp_upload_chunks = []\<rparr>"

lemma merge_fresh:
  "merge_hashes (pp_unique_hashes (fresh_range start fps)) (pp_upload_chunks (fresh_range start fps)) acc =
     keep_refs (concat (map (pl_chunk_refs \<circ> snd) fps)) acc"
proof -
  let ?k = "keep_refs (concat (map (pl_chunk_refs \<circ> snd) fps)) ([], [])"
  have "keys_ok (fst ?k, snd ?k)" using keep_refs_keys [of "([], [])"] by simp
  from merge_is_keep [OF this] show ?thesis
    by (simp add: range_result_def Let_def keep_again)
qed

lemma merge_ranges:
  "fold (\<lambda>p. merge_hashes (pp_unique_hashes p) (pp_upload_chunks p))
     (map (\<lambda>(i, fps). fresh_range i fps) parts) acc =
   keep_refs (concat (map (pl_chunk_refs \<circ> snd) (concat (map snd parts)))) acc"
  by (induction parts arbitrary: acc) (auto simp: merge_fresh)

lemma sorted_enumerate: "sorted (map fst (List.enumerate n xs))"
  by (simp add: map_fst_enumerate)

lemma merge_parts:
  assumes "concat (map (\<lambda>(i, fps). List.enumerate i (map (\<lambda>(f, p). commit_file_of f (pl_chunk_hashes p)) fps)) parts)
      = List.enumerate 0 (map (\<lambda>(f, p). commit_file_of f (pl_chunk_hashes p)) (concat (map snd parts)))"
  shows "merge_partial_push_batch_plans (map (\<lambda>(i, fps). fresh_range i fps) parts) =
    sequential_plan (concat (map snd parts))"
proof -
  let ?cf = "\<lambda>(f, p). commit_file_of f (pl_chunk_hashes p)"
  have idx: "concat (map pp_indexed (map (\<lambda>(i, fps). fresh_range i fps) parts)) =
      concat (map (\<lambda>(i, fps). List.enumerate i (map ?cf fps)) parts)"
    by (induction parts) (auto simp: range_result_def Let_def)
  have "map snd (sort_key fst (List.enumerate 0 (map ?cf (concat (map snd parts))))) =
      map ?cf (concat (map snd parts))"
    by (simp add: sort_key_id_if_sorted sorted_enumerate)
  then show ?thesis
    unfolding merge_partial_push_batch_plans_def sequential_plan_def Let_def idx assms merge_ranges
    by (simp add: split_beta)
qed

lemma collect_ranges:
  "collect_res (\<lambda>(i, fc). plan_push_batch_range hash fs config (i * k) fc) (List.enumerate n cs) =
     and_then (collect_res (plan_files hash fs config) cs)
       (\<lambda>fpss. Inr (map (\<lambda>(i, fps). fresh_range i fps)
          (map (\<lambda>(i, fps). (i * k, fps)) (List.enumerate n fpss))))"
  by (induction cs arbitrary: n) (auto simp: plan_range_spec and_then_def split: sum.splits)

lemma map_length_collected:
  "collect_res (plan_files hash fs config) cs = Inr fpss \<Longrightarrow> map length fpss = map length cs"
proof -
  assume "collect_res (plan_files hash fs config) cs = Inr fpss"
  then have "list_all2 (\<lambda>c fps. plan_files hash fs config c = Inr fps) cs fpss"
    by (rule collect_res_Inr_D)
  then show ?thesis
    by (induction rule: list_all2_induct) (auto simp: plan_files_def dest: collect_res_length)
qed

text \<open>Whatever the number of workers, the plan is the sequential one, and so is the error.\<close>

lemma plan_push_batch_sequential:
  "plan_push_batch hash fs available config files =
     and_then (plan_files hash fs config files) (\<lambda>fps. Inr (sequential_plan fps))"
proof (cases "push_worker_count available (length files) \<le> 1")
  case True
  have "merge_partial_push_batch_plans [fresh_range 0 fps] = sequential_plan fps" for fps
    using merge_parts [of "[(0, fps)]"] by simp
  with True show ?thesis
    by (simp add: plan_push_batch_def plan_range_spec and_then_def split: sum.split)
next
  case False
  let ?w = "push_worker_count available (length files)"
  let ?k = "div_ceil (length files) ?w"
  let ?cs = "chunks_of ?k files"
  have "files \<noteq> []" using False by (auto simp: push_worker_count_def)
  then have "0 < ?k" using False by (intro div_ceil_pos) auto
  then have cat: "concat ?cs = files" by (rule concat_chunks_of)
  have whole: "plan_files hash fs config files =
      (case collect_res (plan_files hash fs config) ?cs of Inl e \<Rightarrow> Inl e | Inr fpss \<Rightarrow> Inr (concat fpss))"
    using collect_res_concat [of _ ?cs] unfolding plan_files_def cat .
  show ?thesis
  proof (cases "collect_res (plan_files hash fs config) ?cs")
    case (Inl e)
    with False whole show ?thesis by (simp add: plan_push_batch_def Let_def collect_ranges)
  next
    case (Inr fpss)
    let ?cf = "\<lambda>(f, p). commit_file_of f (pl_chunk_hashes p)"
    let ?parts = "map (\<lambda>(i, fps). (i * ?k, fps)) (List.enumerate 0 fpss)"
    have snds: "map snd ?parts = fpss" by (simp add: split_beta comp_def)
    have "all_but_last_full ?k (map length fpss)"
      using chunks_of_full [of ?k files] map_length_collected [OF Inr] by simp
    then have "all_but_last_full ?k (map length (map (map ?cf) fpss))" by (simp add: comp_def)
    from enumerate_blocks [OF this, of 0]
    have "concat (map (\<lambda>(i, fps). List.enumerate i (map ?cf fps)) ?parts) =
        List.enumerate 0 (map ?cf (concat (map snd ?parts)))"
      unfolding snds enumerate_map [of 0 "map ?cf" fpss] map_concat by (simp add: split_beta comp_def)
    from merge_parts [OF this]
    have "merge_partial_push_batch_plans (map (\<lambda>(i, fps). fresh_range i fps) ?parts) =
        sequential_plan (concat fpss)" unfolding snds .
    with False whole Inr show ?thesis
      by (simp add: plan_push_batch_def Let_def collect_ranges)
  qed
qed

section \<open>Properties\<close>

lemma plan_files_each:
  "plan_files hash fs config files = Inr fps \<Longrightarrow>
    list_all2 (\<lambda>f fp. fst fp = f \<and> plan_file_chunks hash fs config f = Inr (snd fp)) files fps"
  unfolding plan_files_def
  by (drule collect_res_Inr_D, erule list_all2_mono) (auto split: sum.splits simp: and_then_def)

lemma plan_files_fst: "plan_files hash fs config files = Inr fps \<Longrightarrow> map fst fps = files"
  by (drule plan_files_each) (induction rule: list_all2_induct, auto)

lemma planned_refs_hashes:
  assumes "plan_files hash fs config files = Inr fps" "fp \<in> set fps"
  shows "map pc_hash (pl_chunk_refs (snd fp)) = pl_chunk_hashes (snd fp)"
proof -
  from plan_files_each [OF assms(1)] assms(2)
  have "\<exists>f. plan_file_chunks hash fs config f = Inr (snd fp)"
    by (auto simp: list_all2_conv_all_nth in_set_conv_nth)
  then show ?thesis by (auto dest: plan_file_hashes)
qed

text \<open>C3. The plan of a batch does not depend on how many workers prepare it: whatever the
  parallelism, it is the plan of the files one after the other, and so is the error.\<close>

theorem plan_any_workers:
  "plan_push_batch hash fs available config files =
     and_then (plan_files hash fs config files) (\<lambda>fps. Inr (sequential_plan fps))"
  by (rule plan_push_batch_sequential)

lemma sequential_keys: "keys_ok (bp_unique_hashes (sequential_plan fps), bp_upload_chunks (sequential_plan fps))"
  using keep_refs_keys [of "([], [])" "concat (map (pl_chunk_refs \<circ> snd) fps)"]
  by (simp add: sequential_plan_def Let_def)

lemma sequential_hashes:
  "set (bp_unique_hashes (sequential_plan fps)) =
     (\<Union>fp\<in>set fps. pc_hash ` set (pl_chunk_refs (snd fp)))"
  using keep_refs_set [of "([], [])" "concat (map (pl_chunk_refs \<circ> snd) fps)"]
  by (auto simp: sequential_plan_def Let_def)

lemma plan_commit_files:
  assumes "plan_push_batch hash fs available config files = Inr plan"
  obtains fps where "plan_files hash fs config files = Inr fps" "plan = sequential_plan fps"
    "bp_commit_files plan = map (\<lambda>(f, p). commit_file_of f (pl_chunk_hashes p)) fps"
  using assms plan_push_batch_sequential [of hash fs available config files]
  by (cases "plan_files hash fs config files") (auto simp: sequential_plan_def Let_def)

lemma plan_covers:
  assumes "plan_push_batch hash fs available config files = Inr plan"
  shows "distinct (bp_unique_hashes plan) \<and>
    set (bp_unique_hashes plan) = (\<Union>c\<in>set (bp_commit_files plan). set (cf_chunks c)) \<and>
    map fst (bp_upload_chunks plan) = bp_unique_hashes plan \<and>
    (\<forall>(h, r)\<in>set (bp_upload_chunks plan). pc_hash r = h) \<and>
    map cf_path (bp_commit_files plan) = map pf_remote_path files"
proof -
  from plan_commit_files [OF assms] obtain fps
    where fps: "plan_files hash fs config files = Inr fps" and plan: "plan = sequential_plan fps"
    and commit: "bp_commit_files plan = map (\<lambda>(f, p). commit_file_of f (pl_chunk_hashes p)) fps" .
  have "(\<Union>c\<in>set (bp_commit_files plan). set (cf_chunks c)) =
      (\<Union>fp\<in>set fps. set (pl_chunk_hashes (snd fp)))"
    by (simp add: commit commit_file_of_def split_beta)
  also have "\<dots> = (\<Union>fp\<in>set fps. pc_hash ` set (pl_chunk_refs (snd fp)))"
    using planned_refs_hashes [OF fps] by (metis (no_types, lifting) SUP_cong set_map)
  also have "\<dots> = set (bp_unique_hashes plan)" by (simp add: plan sequential_hashes)
  finally have "(\<Union>c\<in>set (bp_commit_files plan). set (cf_chunks c)) = set (bp_unique_hashes plan)" .
  moreover have "map cf_path (bp_commit_files plan) = map pf_remote_path (map fst fps)"
    by (simp add: commit commit_file_of_def split_beta comp_def)
  ultimately show ?thesis
    using sequential_keys [of fps] plan_files_fst [OF fps] by (simp add: plan keys_ok_def)
qed

text \<open>C4. The chunks a file is committed with are the hashes of the blocks the file was read in,
  the blocks follow one another from offset 0, and their concatenation is content with the
  hash recorded for the file: a file that changed since it was hashed is refused.\<close>

theorem planned_chunks_rebuild_file:
  assumes "plan_file_chunks hash fs config file = Inr planned"
  shows "\<exists>bs reads.
    lf_open fs (pf_local_path file) (max (bc_chunk_size config) 1) = Inr reads \<and>
    blocks_of reads = Some bs \<and>
    pl_chunk_hashes planned = map (chunk_hash hash (bc_chunk_hash_prefix config)) bs \<and>
    map pc_len (pl_chunk_refs planned) = map length bs \<and>
    hash (concat bs) = pf_content_hash file"
proof -
  have lens: "map pc_len (refs_from hash pre path o' bs) = map length bs" for pre path o' bs
    by (induction bs arbitrary: o') auto
  from assms show ?thesis by (rule plan_file_spec) (auto simp: lens)
qed

section \<open>A sample file system\<close>

text \<open>Two files that share a block, for the examples below.\<close>

definition sample_hash :: "string \<Rightarrow> string" where
  "sample_hash s = CHR ''h'' # s"

definition sample_fs :: local_fs where
  "sample_fs =
     \<lparr>lf_open = (\<lambda>p n. if p = ''/l/a'' then Inr [Inr ''ab'', Inr ''cd'', Inr []]
                       else if p = ''/l/b'' then Inr [Inr ''cd'', Inr ''e'', Inr []]
                       else Inl ''not found''),
      lf_read_at = (\<lambda>p o' n.
         if p = ''/l/a'' then Inr (take n (drop o' ''abcd''))
         else if p = ''/l/b'' then Inr (take n (drop o' ''cde'')) else Inl ''not found''),
      lf_debug = (\<lambda>p. p)\<rparr>"

definition sample_config :: blob_config where
  "sample_config = \<lparr>bc_hash_algorithm = ''blake3'', bc_chunk_size = 2, bc_chunk_hash_prefix = ''c:''\<rparr>"

definition sample_file :: "string \<Rightarrow> string \<Rightarrow> pending_push_file" where
  "sample_file p content =
     \<lparr>pf_local_path = p, pf_remote_path = ''/r'' @ p, pf_content_hash = sample_hash content,
      pf_file_size = length content, pf_modified_at = 7, pf_content_type = None\<rparr>"

definition sample_files :: "pending_push_file list" where
  "sample_files = [sample_file ''/l/a'' ''abcd'', sample_file ''/l/b'' ''cde'']"

lemma is_ok_Inr: "is_ok r \<longleftrightarrow> (\<exists>x. r = Inr x)"
  by (cases r) (simp_all add: is_ok_def)

lemma planned_chunks_rebuild_file_witness:
  "\<exists>planned. plan_file_chunks sample_hash sample_fs sample_config (sample_file ''/l/a'' ''abcd'') =
       Inr planned \<and>
     (\<exists>bs. pl_chunk_hashes planned = map (chunk_hash sample_hash ''c:'') bs \<and>
        sample_hash (concat bs) = ''habcd'')"
proof -
  have "is_ok (plan_file_chunks sample_hash sample_fs sample_config (sample_file ''/l/a'' ''abcd''))"
    by code_simp
  then obtain planned where
    "plan_file_chunks sample_hash sample_fs sample_config (sample_file ''/l/a'' ''abcd'') = Inr planned"
    by (auto simp: is_ok_Inr)
  with planned_chunks_rebuild_file [OF this] show ?thesis
    by (auto simp: sample_config_def sample_file_def sample_hash_def)
qed

section \<open>Batch limits\<close>

text \<open>A batch within the limits: its counters are the saturated sums over its files, and only a
  file alone may exceed the byte and chunk limits.\<close>

definition batch_ok :: "blob_config \<Rightarrow> push_batch \<Rightarrow> bool" where
  "batch_ok config b \<longleftrightarrow>
     pb_bytes b = fold (\<lambda>f n. sat_add n (pf_file_size f)) (pb_files b) 0 \<and>
     pb_chunks b =
       fold (\<lambda>f n. sat_add n (estimated_chunk_count (pf_file_size f) (bc_chunk_size config)))
         (pb_files b) 0 \<and>
     length (pb_files b) \<le> push_batch_max_files \<and>
     (1 < length (pb_files b) \<longrightarrow>
        pb_bytes b \<le> push_batch_max_bytes \<and> pb_chunks b \<le> push_batch_max_chunks)"

lemma batch_ok_empty [simp]: "batch_ok config empty_batch"
  by (simp add: batch_ok_def empty_batch_def)

lemma batch_ok_push:
  assumes "batch_ok config b" "\<not> should_flush_before b file config"
  shows "batch_ok config (batch_push b file config)"
proof (cases "pb_files b = []")
  case True
  with assms(1) show ?thesis by (simp add: batch_ok_def batch_push_def push_batch_max_files_def)
next
  case False
  with assms show ?thesis
    by (simp add: batch_ok_def batch_push_def should_flush_before_def Let_def)
qed

end
