(* ===== verification/Relationships.thy ===== *)
theory Relationships
  imports Connections
begin

text \<open>
  \<open>sync/relationships.rs\<close>: the manager of the sync relationships over the configuration
  store, and \<open>sync/hierarchy.rs\<close>: which paths of a relationship belong to a more specific
  relationship on the same connection.
\<close>

section \<open>The relationship manager\<close>

record create_relationship_request =
  qr_name :: string
  qr_remote_connection_id :: string
  qr_remote_path :: string
  qr_local_path :: string
  qr_direction :: sync_direction
  qr_filter :: "string option"
  qr_delete_propagation :: "delete_propagation option"

record update_relationship_request =
  ux_name :: "string option"
  ux_remote_path :: "string option"
  ux_local_path :: "string option"
  ux_direction :: "sync_direction option"
  ux_filter :: "string option"
  ux_delete_propagation :: "delete_propagation option"
  ux_enabled :: "bool option"

text \<open>\<open>CHR 0x5C\<close> is the backslash, \<open>CHR 0x27\<close> the quote.\<close>

definition normalize_remote_path :: "string \<Rightarrow> string" where
  "normalize_remote_path path =
     (let normalized = replace_char (CHR 0x5C) CHR ''/'' path;
          normalized = (if starts_with normalized ''/'' then normalized
                        else ''/'' @ normalized)
      in if ends_with normalized ''/'' then normalized else normalized @ ''/'')"

text \<open>What \<open>create\<close> asks of the file system: whether the local path exists, the outcome of
  creating it, whether it is then a directory.\<close>

record local_path_env =
  lp_exists :: "string \<Rightarrow> bool"
  lp_mkdirs :: "string \<Rightarrow> string option"
  lp_is_dir :: "string \<Rightarrow> bool"

text \<open>\<open>create\<close> first checks (under the read lock, released at once) and later commits (under
  the write lock).\<close>

definition relationship_create_check ::
  "local_path_env \<Rightarrow> create_relationship_request \<Rightarrow> config_store \<Rightarrow> unit res" where
  "relationship_create_check le request s =
     (if connection_get (qr_remote_connection_id request) s = None then
        Inl (BadRequest (''connection not found: '' @ qr_remote_connection_id request))
      else case (if lp_exists le (qr_local_path request) then None
                 else lp_mkdirs le (qr_local_path request)) of
             Some error \<Rightarrow>
               Inl (Configuration (''cannot create local path '' @ [CHR 0x27] @
                    qr_local_path request @ [CHR 0x27] @ '': '' @ error))
           | None \<Rightarrow>
               if \<not> lp_is_dir le (qr_local_path request)
               then Inl (Configuration (''local path is not a directory: '' @
                         qr_local_path request))
               else Inr ())"

definition new_relationship ::
  "timestamp \<Rightarrow> string \<Rightarrow> create_relationship_request \<Rightarrow> sync_relationship" where
  "new_relationship now uuid request =
     \<lparr>sr_id = uuid, sr_name = qr_name request,
      sr_remote_connection_id = qr_remote_connection_id request,
      sr_remote_path = normalize_remote_path (qr_remote_path request),
      sr_local_path = qr_local_path request,
      sr_direction = qr_direction request,
      sr_filter = qr_filter request,
      sr_delete_propagation =
        (case qr_delete_propagation request of
           Some d \<Rightarrow> d | None \<Rightarrow> default_delete_propagation),
      sr_enabled = True, sr_created_at = now, sr_updated_at = now\<rparr>"

definition relationship_create_commit ::
  "config_env \<Rightarrow> timestamp \<Rightarrow> string \<Rightarrow> create_relationship_request \<Rightarrow> config_store \<Rightarrow>
     config_store \<times> sync_relationship res" where
  "relationship_create_commit e now uuid request s =
     (let relationship = new_relationship now uuid request
      in config_update e
           (\<lambda>c. (c\<lparr>cc_relationships := cc_relationships c @ [relationship]\<rparr>, relationship)) s)"

definition relationship_create ::
  "config_env \<Rightarrow> local_path_env \<Rightarrow> timestamp \<Rightarrow> string \<Rightarrow> create_relationship_request \<Rightarrow>
     config_store \<Rightarrow> config_store \<times> sync_relationship res" where
  "relationship_create e le now uuid request s =
     (case relationship_create_check le request s of
        Inl error \<Rightarrow> (s, Inl error)
      | Inr _ \<Rightarrow> relationship_create_commit e now uuid request s)"

definition relationship_list :: "config_store \<Rightarrow> sync_relationship list" where
  "relationship_list s = sort_key sr_name (cc_relationships (config_get s))"

definition relationship_get :: "string \<Rightarrow> config_store \<Rightarrow> sync_relationship option" where
  "relationship_get i s = find (\<lambda>r. sr_id r = i) (cc_relationships (config_get s))"

definition apply_relationship_update ::
  "timestamp \<Rightarrow> update_relationship_request \<Rightarrow> sync_relationship \<Rightarrow> sync_relationship" where
  "apply_relationship_update now request r =
     (let r = (case ux_name request of None \<Rightarrow> r | Some n \<Rightarrow> r\<lparr>sr_name := n\<rparr>);
          r = (case ux_remote_path request of
                 None \<Rightarrow> r | Some p \<Rightarrow> r\<lparr>sr_remote_path := normalize_remote_path p\<rparr>);
          r = (case ux_local_path request of None \<Rightarrow> r | Some p \<Rightarrow> r\<lparr>sr_local_path := p\<rparr>);
          r = (case ux_direction request of None \<Rightarrow> r | Some d \<Rightarrow> r\<lparr>sr_direction := d\<rparr>);
          r = (case ux_filter request of
                 None \<Rightarrow> r
               | Some f \<Rightarrow> r\<lparr>sr_filter := (if f = [] then None else Some f)\<rparr>);
          r = (case ux_delete_propagation request of
                 None \<Rightarrow> r | Some d \<Rightarrow> r\<lparr>sr_delete_propagation := d\<rparr>);
          r = (case ux_enabled request of None \<Rightarrow> r | Some b \<Rightarrow> r\<lparr>sr_enabled := b\<rparr>)
      in r\<lparr>sr_updated_at := now\<rparr>)"

definition relationship_update_closure ::
  "timestamp \<Rightarrow> string \<Rightarrow> update_relationship_request \<Rightarrow> client_config \<Rightarrow>
     client_config \<times> sync_relationship option" where
  "relationship_update_closure now i request c =
     (case update_first (\<lambda>x. sr_id x = i) (apply_relationship_update now request)
             (cc_relationships c) of
        (rs, updated) \<Rightarrow> (c\<lparr>cc_relationships := rs\<rparr>, updated))"

definition relationship_update ::
  "config_env \<Rightarrow> timestamp \<Rightarrow> string \<Rightarrow> update_relationship_request \<Rightarrow> config_store \<Rightarrow>
     config_store \<times> sync_relationship res" where
  "relationship_update e now i request s =
     (case config_update e (relationship_update_closure now i request) s of
        (s', Inl error) \<Rightarrow> (s', Inl error)
      | (s', Inr (Some r)) \<Rightarrow> (s', Inr r)
      | (s', Inr None) \<Rightarrow> (s', Inl (NotFound (''sync relationship not found: '' @ i))))"

definition relationship_delete_closure :: "string \<Rightarrow> client_config \<Rightarrow> client_config \<times> bool" where
  "relationship_delete_closure i c =
     (let kept = filter (\<lambda>r. sr_id r \<noteq> i) (cc_relationships c)
      in (c\<lparr>cc_relationships := kept\<rparr>, length kept < length (cc_relationships c)))"

definition relationship_delete ::
  "config_env \<Rightarrow> string \<Rightarrow> config_store \<Rightarrow> config_store \<times> unit res" where
  "relationship_delete e i s =
     (case config_update e (relationship_delete_closure i) s of
        (s', Inl error) \<Rightarrow> (s', Inl error)
      | (s', Inr found) \<Rightarrow>
          if \<not> found then (s', Inl (NotFound (''sync relationship not found: '' @ i)))
          else (s', Inr ()))"

definition enabled_request :: "bool \<Rightarrow> update_relationship_request" where
  "enabled_request b =
     \<lparr>ux_name = None, ux_remote_path = None, ux_local_path = None, ux_direction = None,
      ux_filter = None, ux_delete_propagation = None, ux_enabled = Some b\<rparr>"

definition relationship_enable ::
  "config_env \<Rightarrow> timestamp \<Rightarrow> string \<Rightarrow> config_store \<Rightarrow> config_store \<times> sync_relationship res" where
  "relationship_enable e now i s = relationship_update e now i (enabled_request True) s"

definition relationship_disable ::
  "config_env \<Rightarrow> timestamp \<Rightarrow> string \<Rightarrow> config_store \<Rightarrow> config_store \<times> sync_relationship res" where
  "relationship_disable e now i s = relationship_update e now i (enabled_request False) s"

section \<open>Parents and children\<close>

definition child_exclusions :: "sync_relationship \<Rightarrow> sync_relationship list \<Rightarrow> string list" where
  "child_exclusions r all_rels =
     map sr_remote_path
       (filter (\<lambda>other. sr_id other \<noteq> sr_id r \<and>
                sr_remote_connection_id other = sr_remote_connection_id r \<and>
                starts_with (sr_remote_path other) (sr_remote_path r) \<and>
                sr_remote_path other \<noteq> sr_remote_path r) all_rels)"

definition is_excluded_by_child :: "string \<Rightarrow> string list \<Rightarrow> bool" where
  "is_excluded_by_child remote_path exclusions =
     list_ex (\<lambda>x. starts_with remote_path x) exclusions"

definition child_local_exclusions ::
  "sync_relationship \<Rightarrow> sync_relationship list \<Rightarrow> string list" where
  "child_local_exclusions r all_rels =
     map sr_local_path
       (filter (\<lambda>other. sr_id other \<noteq> sr_id r \<and>
                sr_remote_connection_id other = sr_remote_connection_id r \<and>
                \<not> path_eq (sr_local_path other) (sr_local_path r) \<and>
                path_starts_with (sr_local_path other) (sr_local_path r)) all_rels)"

definition is_local_excluded_by_child :: "string \<Rightarrow> string list \<Rightarrow> bool" where
  "is_local_excluded_by_child path exclusions =
     list_ex (\<lambda>x. path_starts_with path x) exclusions"

section \<open>Lemmas\<close>

lemma normalize_remote_path_form:
  "starts_with (normalize_remote_path p) ''/'' \<and> ends_with (normalize_remote_path p) ''/'' \<and>
   CHR 0x5C \<notin> set (normalize_remote_path p)"
proof -
  have "CHR 0x5C \<notin> set (replace_char (CHR 0x5C) CHR ''/'' p)"
    by (rule replace_char_notin) simp
  then show ?thesis
    by (auto simp: normalize_remote_path_def Let_def)
qed

lemma normalize_remote_path_id:
  "starts_with p ''/'' \<Longrightarrow> ends_with p ''/'' \<Longrightarrow> CHR 0x5C \<notin> set p \<Longrightarrow>
    normalize_remote_path p = p"
  by (simp add: normalize_remote_path_def replace_char_id)

lemma normalize_remote_path_idem:
  "normalize_remote_path (normalize_remote_path p) = normalize_remote_path p"
  using normalize_remote_path_form by (intro normalize_remote_path_id) auto

lemma apply_relationship_update_keeps [simp]:
  "sr_id (apply_relationship_update now q r) = sr_id r"
  "sr_remote_connection_id (apply_relationship_update now q r) = sr_remote_connection_id r"
  "sr_created_at (apply_relationship_update now q r) = sr_created_at r"
  by (simp_all add: apply_relationship_update_def Let_def split: option.splits)

lemma apply_enabled_request:
  "apply_relationship_update now (enabled_request b) r = r\<lparr>sr_enabled := b, sr_updated_at := now\<rparr>"
  by (simp add: apply_relationship_update_def enabled_request_def)

lemma relationship_closure_references:
  assumes "references_ok c"
  shows "references_ok (fst (relationship_update_closure now i q c))"
proof -
  let ?u = "update_first (\<lambda>x. sr_id x = i) (apply_relationship_update now q) (cc_relationships c)"
  have "map sr_remote_connection_id (fst ?u) = map sr_remote_connection_id (cc_relationships c)"
    by (rule map_update_first) simp
  moreover have "fst (relationship_update_closure now i q c) = c\<lparr>cc_relationships := fst ?u\<rparr>"
    by (simp add: relationship_update_closure_def split: prod.splits)
  ultimately show ?thesis
    using assms by (simp add: references_ok_alt del: set_map)
qed

lemma relationship_delete_references:
  "references_ok c \<Longrightarrow> references_ok (fst (relationship_delete_closure i c))"
  by (simp add: relationship_delete_closure_def references_ok_def Let_def)

lemma relationship_update_store:
  "cs_config (fst (relationship_update e now i q s)) =
     fst (relationship_update_closure now i q (cs_config s))"
proof -
  have "fst (relationship_update e now i q s) =
      fst (config_update e (relationship_update_closure now i q) s)"
    by (auto simp: relationship_update_def split: prod.splits sum.splits option.splits)
  then show ?thesis by (simp add: cfg.view_upd)
qed

lemma relationship_delete_store:
  "cs_config (fst (relationship_delete e i s)) = fst (relationship_delete_closure i (cs_config s))"
proof -
  have "fst (relationship_delete e i s) = fst (config_update e (relationship_delete_closure i) s)"
    by (auto simp: relationship_delete_def split: prod.splits sum.splits)
  then show ?thesis by (simp add: cfg.view_upd)
qed

lemma relationship_commit_store:
  "cs_config (fst (relationship_create_commit e now uuid q s)) =
     (cs_config s)\<lparr>cc_relationships := cc_relationships (cs_config s) @ [new_relationship now uuid q]\<rparr>"
  by (simp add: relationship_create_commit_def Let_def cfg.view_upd)

lemma connection_create_store:
  "\<exists>x. rc_id x = uuid \<and> cs_config (fst (connection_create e now uuid q s)) =
     (cs_config s)\<lparr>cc_connections := cc_connections (cs_config s) @ [x]\<rparr>"
  unfolding connection_create_def Let_def cfg.view_upd
  by (rule exI, rule conjI [rotated]) (rule refl | simp)+

lemma connection_get_Some: "connection_get i s = Some c \<Longrightarrow> i \<in> rc_id ` set (cc_connections (cs_config s))"
  by (auto simp: connection_get_def config_get_def find_Some_iff)

lemma relationship_create_references:
  assumes "references_ok (cs_config s)"
  shows "references_ok (cs_config (fst (relationship_create e le now uuid q s)))"
proof (cases "relationship_create_check le q s")
  case (Inl x)
  with assms show ?thesis by (simp add: relationship_create_def)
next
  case (Inr u)
  then obtain c where "connection_get (qr_remote_connection_id q) s = Some c"
    by (auto simp: relationship_create_check_def split: if_splits)
  then have "qr_remote_connection_id q \<in> rc_id ` set (cc_connections (cs_config s))"
    by (rule connection_get_Some)
  with assms Inr show ?thesis
    by (auto simp: relationship_create_def relationship_commit_store references_ok_def
        new_relationship_def)
qed

text \<open>A path under a child's root is excluded from the parent, and only such a path.\<close>

lemma excluded_iff:
  "is_excluded_by_child p (child_exclusions r rels) \<longleftrightarrow>
     (\<exists>other\<in>set rels. sr_id other \<noteq> sr_id r \<and>
        sr_remote_connection_id other = sr_remote_connection_id r \<and>
        strict_prefix (sr_remote_path r) (sr_remote_path other) \<and>
        starts_with p (sr_remote_path other))"
  by (auto simp: is_excluded_by_child_def child_exclusions_def list_ex_iff strict_prefix_def)

lemma local_excluded_iff:
  "is_local_excluded_by_child p (child_local_exclusions r rels) \<longleftrightarrow>
     (\<exists>other\<in>set rels. sr_id other \<noteq> sr_id r \<and>
        sr_remote_connection_id other = sr_remote_connection_id r \<and>
        strict_prefix (path_components (sr_local_path r)) (path_components (sr_local_path other)) \<and>
        path_starts_with p (sr_local_path other))"
  by (auto simp: is_local_excluded_by_child_def child_local_exclusions_def list_ex_iff
      strict_prefix_def path_eq_def path_starts_with_def)

lemma local_excluded_below:
  "is_local_excluded_by_child p ex \<Longrightarrow> path_starts_with q p \<Longrightarrow> is_local_excluded_by_child q ex"
  by (auto simp: is_local_excluded_by_child_def list_ex_iff intro: path_starts_with_trans)

section \<open>Properties\<close>

text \<open>C32. Normalising a remote path gives a path that starts and ends with a slash and has no
  backslash, and normalising it again changes nothing.\<close>

theorem normalize_remote_path_normal_form:
  "starts_with (normalize_remote_path p) ''/'' \<and> ends_with (normalize_remote_path p) ''/'' \<and>
   CHR 0x5C \<notin> set (normalize_remote_path p) \<and>
   normalize_remote_path (normalize_remote_path p) = normalize_remote_path p"
  using normalize_remote_path_form normalize_remote_path_idem by blast

text \<open>A parent relationship leaves to its children exactly the remote paths that lie under the
  longer remote path of another relationship of the same connection.\<close>

theorem parent_leaves_children_paths:
  "is_excluded_by_child p (child_exclusions r rels) \<longleftrightarrow>
     (\<exists>other\<in>set rels. sr_id other \<noteq> sr_id r \<and>
        sr_remote_connection_id other = sr_remote_connection_id r \<and>
        strict_prefix (sr_remote_path r) (sr_remote_path other) \<and>
        starts_with p (sr_remote_path other))"
  by (rule excluded_iff)

end
