(* ===== verification/File_Filter.thy ===== *)
theory File_Filter
  imports Prelude Paths
begin

text \<open>
  The per-relationship file filter (\<open>sync/filter.rs\<close>) and the content type sent with an
  upload (\<open>sync/content_type.rs\<close>).  The \<open>glob_match\<close> crate is the parameter \<open>glob\<close>: its
  first argument is the pattern.
\<close>

record filter_pattern =
  fp_pattern :: string
  fp_exclude :: bool

definition parse_filter_pattern :: "string \<Rightarrow> filter_pattern" where
  "parse_filter_pattern p =
     (case strip_prefix p ''!'' of
        Some stripped \<Rightarrow> \<lparr>fp_pattern = trim stripped, fp_exclude = True\<rparr>
      | None \<Rightarrow> \<lparr>fp_pattern = p, fp_exclude = False\<rparr>)"

definition parse_filter :: "string \<Rightarrow> filter_pattern list" where
  "parse_filter f =
     map parse_filter_pattern (filter (\<lambda>p. p \<noteq> []) (map trim (split_on CHR '','' f)))"

definition matches_filter :: "(string \<Rightarrow> string \<Rightarrow> bool) \<Rightarrow> string \<Rightarrow> string option \<Rightarrow> bool" where
  "matches_filter glob filename f =
     (case f of
        None \<Rightarrow> True
      | Some s \<Rightarrow>
          if s = [] then True
          else
            let patterns = parse_filter s;
                includes = filter (\<lambda>p. \<not> fp_exclude p) patterns;
                excludes = filter fp_exclude patterns
            in if list_ex (\<lambda>p. glob (fp_pattern p) filename) excludes then False
               else if includes \<noteq> [] then list_ex (\<lambda>p. glob (fp_pattern p) filename) includes
               else True)"

text \<open>The table of \<open>mime_from_extension\<close>.\<close>

definition mime_table :: "(string \<times> string) list" where
  "mime_table =
     [(''json'', ''application/json''), (''txt'', ''text/plain''),
      (''md'', ''text/markdown''), (''markdown'', ''text/markdown''),
      (''html'', ''text/html''), (''htm'', ''text/html''), (''css'', ''text/css''),
      (''js'', ''application/javascript''), (''mjs'', ''application/javascript''),
      (''xml'', ''application/xml''), (''csv'', ''text/csv''), (''pdf'', ''application/pdf''),
      (''png'', ''image/png''), (''jpg'', ''image/jpeg''), (''jpeg'', ''image/jpeg''),
      (''gif'', ''image/gif''), (''svg'', ''image/svg+xml''), (''webp'', ''image/webp''),
      (''mp4'', ''video/mp4''), (''m4v'', ''video/mp4''), (''webm'', ''video/webm''),
      (''ogv'', ''video/ogg''), (''ogg'', ''video/ogg''), (''mov'', ''video/quicktime''),
      (''avi'', ''video/x-msvideo''), (''mkv'', ''video/x-matroska''),
      (''mp3'', ''audio/mpeg''), (''wav'', ''audio/wav''), (''flac'', ''audio/flac''),
      (''aac'', ''audio/aac''), (''m4a'', ''audio/mp4''), (''zip'', ''application/zip''),
      (''tar'', ''application/x-tar''), (''gz'', ''application/gzip''),
      (''yaml'', ''application/yaml''), (''yml'', ''application/yaml''),
      (''toml'', ''application/toml''), (''rs'', ''text/x-rust''), (''py'', ''text/x-python'')]"

text \<open>\<open>str::to_lowercase\<close> as far as the table can tell: besides the ASCII letters, the Kelvin
  sign (bytes E2 84 AA) is the only code point whose lower case is ASCII letters alone.\<close>

fun to_lowercase_ascii :: "string \<Rightarrow> string" where
  "to_lowercase_ascii (a # b # c # s) =
     (if byte a = 226 \<and> byte b = 132 \<and> byte c = 170 then CHR ''k'' # to_lowercase_ascii s
      else to_ascii_lowercase [a] @ to_lowercase_ascii (b # c # s))"
| "to_lowercase_ascii s = to_ascii_lowercase s"

definition mime_from_extension :: "string \<Rightarrow> string option" where
  "mime_from_extension path =
     (case path_extension path of
        None \<Rightarrow> None
      | Some extension \<Rightarrow>
          Some (case map_of mime_table (to_lowercase_ascii extension) of
                  Some mime \<Rightarrow> mime
                | None \<Rightarrow> ''application/octet-stream''))"

section \<open>Lemmas\<close>

lemma matches_filter_None [simp]: "matches_filter glob n None"
  by (simp add: matches_filter_def)

lemma matches_filter_empty [simp]: "matches_filter glob n (Some [])"
  by (simp add: matches_filter_def)

text \<open>The meaning of a filter: no exclude pattern matches, and an include pattern does unless
  there is none.\<close>

lemma matches_filter_meaning:
  assumes "s \<noteq> []"
  shows "matches_filter glob n (Some s) \<longleftrightarrow>
    (\<forall>p\<in>set (parse_filter s). fp_exclude p \<longrightarrow> \<not> glob (fp_pattern p) n) \<and>
    ((\<exists>p\<in>set (parse_filter s). \<not> fp_exclude p) \<longrightarrow>
     (\<exists>p\<in>set (parse_filter s). \<not> fp_exclude p \<and> glob (fp_pattern p) n))"
  using assms
  by (auto simp: matches_filter_def Let_def list_ex_iff filter_empty_conv)

lemma parse_filter_blank: "parse_filter s = [] \<Longrightarrow> matches_filter glob n (Some s)"
  by (simp add: matches_filter_def)

section \<open>Properties\<close>

text \<open>A filter lets a file name through when no exclusion matches it and, if there are
  inclusions, one of them does: exclusions win, and only exclusions means everything else.\<close>

theorem filter_semantics:
  assumes "s \<noteq> []"
  shows "matches_filter glob n (Some s) \<longleftrightarrow>
    (\<forall>p\<in>set (parse_filter s). fp_exclude p \<longrightarrow> \<not> glob (fp_pattern p) n) \<and>
    ((\<exists>p\<in>set (parse_filter s). \<not> fp_exclude p) \<longrightarrow>
     (\<exists>p\<in>set (parse_filter s). \<not> fp_exclude p \<and> glob (fp_pattern p) n))"
  using assms by (rule matches_filter_meaning)

lemma filter_semantics_witness:
  "\<not> matches_filter (\<lambda>p n. p = n) ''a.tmp'' (Some ''a.txt, !a.tmp'') \<and>
   matches_filter (\<lambda>p n. p = n) ''a.txt'' (Some ''a.txt, !a.tmp'')"
proof -
  have "parse_filter ''a.txt, !a.tmp'' =
      [\<lparr>fp_pattern = ''a.txt'', fp_exclude = False\<rparr>, \<lparr>fp_pattern = ''a.tmp'', fp_exclude = True\<rparr>]"
    by code_simp
  then show ?thesis by (simp add: filter_semantics)
qed

end
