(* ===== verification/Push_Scan.thy ===== *)
theory Push_Scan
  imports Relationships Metadata File_Filter
begin

text \<open>
  The pure part of a push scan (\<open>sync/push.rs\<close>): the walk of the local tree, the remote path of
  an entry, the skip tests of the lite scan, the identity of a symlink, and the classes of
  push errors.
\<close>

datatype push_scan_mode = Lite | Full

section \<open>The walk\<close>

text \<open>
  What \<open>read_dir\<close> answers during one walk: an error or the entries in the order of the system;
  an entry that cannot be read is an error, otherwise it has a name and what its type is found
  to be.  Symlinks are not followed, so the walk is a recursion on this tree.
\<close>

datatype walk_node =
    WFile
  | WSymlink
  | WOther
  | WTypeError string
  | WDirError string
  | WDir "walk_entry list"
and walk_entry =
    EntryError string
  | Entry string walk_node

type_synonym walk_result = "string list \<times> unit res"

fun walk_recursive :: "string list \<Rightarrow> string \<Rightarrow> walk_node \<Rightarrow> string list \<Rightarrow> walk_result"
  and walk_entries :: "string list \<Rightarrow> string \<Rightarrow> walk_entry list \<Rightarrow> string list \<Rightarrow> walk_result"
  and walk_one :: "string list \<Rightarrow> string \<Rightarrow> walk_entry \<Rightarrow> string list \<Rightarrow> walk_result"
where
  "walk_recursive exclusions dir (WDir entries) results = walk_entries exclusions dir entries results"
| "walk_recursive exclusions dir (WDirError e) results = (results, Inl (Io e))"
| "walk_recursive exclusions dir WFile results = (results, Inl (Io ''Not a directory''))"
| "walk_recursive exclusions dir WSymlink results = (results, Inl (Io ''Not a directory''))"
| "walk_recursive exclusions dir WOther results = (results, Inl (Io ''Not a directory''))"
| "walk_recursive exclusions dir (WTypeError e) results = (results, Inl (Io e))"
| "walk_entries exclusions dir [] results = (results, Inr ())"
| "walk_entries exclusions dir (x # xs) results =
     (case walk_one exclusions dir x results of
        (results1, Inl e) \<Rightarrow> (results1, Inl e)
      | (results1, Inr _) \<Rightarrow> walk_entries exclusions dir xs results1)"
| "walk_one exclusions dir (EntryError e) results = (results, Inl (Io e))"
| "walk_one exclusions dir (Entry name node) results =
     (let path = path_join dir name
      in case node of
           WTypeError e \<Rightarrow> (results, Inl (Io e))
         | WFile \<Rightarrow>
             if is_local_excluded_by_child path exclusions then (results, Inr ())
             else (results @ [path], Inr ())
         | WSymlink \<Rightarrow>
             if is_local_excluded_by_child path exclusions then (results, Inr ())
             else (results @ [path], Inr ())
         | WDir es \<Rightarrow>
             if is_local_excluded_by_child path exclusions then (results, Inr ())
             else walk_recursive exclusions path node results
         | WDirError e \<Rightarrow>
             if is_local_excluded_by_child path exclusions then (results, Inr ())
             else walk_recursive exclusions path node results
         | WOther \<Rightarrow> (results, Inr ()))"

definition walkdir :: "string \<Rightarrow> string list \<Rightarrow> walk_node \<Rightarrow> string list res" where
  "walkdir root exclusions tree =
     (case walk_recursive exclusions root tree [] of
        (results, Inl e) \<Rightarrow> Inl e | (results, Inr _) \<Rightarrow> Inr results)"

section \<open>Remote paths\<close>

definition remote_part :: "path_component \<Rightarrow> string option" where
  "remote_part c = (case c of
      Normal p \<Rightarrow> Some p | ParentDir \<Rightarrow> Some ''..'' | CurDir \<Rightarrow> None | RootDir \<Rightarrow> None)"

definition compute_remote_path :: "string \<Rightarrow> string \<Rightarrow> string" where
  "compute_remote_path relative remote_base =
     trim_end_matches CHR ''/'' remote_base @ ''/'' @
     join_with ''/'' (List.map_filter remote_part (path_components relative))"

definition compute_legacy_separator_remote_path :: "string \<Rightarrow> string \<Rightarrow> string option" where
  "compute_legacy_separator_remote_path relative remote_base =
     (let legacy_path = trim_end_matches CHR ''/'' remote_base @ ''/'' @ relative
      in if legacy_path \<noteq> compute_remote_path relative remote_base then Some legacy_path else None)"

definition is_under_remote_base :: "string \<Rightarrow> string \<Rightarrow> bool" where
  "is_under_remote_base path remote_base =
     (let base = trim_end_matches CHR ''/'' remote_base
      in path = base \<or> starts_with path (base @ ''/''))"

definition migration_old_remote_path_for_entry :: "string \<Rightarrow> sync_path_migration \<Rightarrow> string option" where
  "migration_old_remote_path_for_entry entry_path m =
     (case path_strip_prefix entry_path (pm_old_local_path m) of
        Some relative \<Rightarrow> Some (compute_remote_path relative (pm_old_remote_path m))
      | None \<Rightarrow>
          Option.bind (path_strip_prefix entry_path (pm_new_local_path m)) (\<lambda>relative_to_new.
          Option.bind (path_file_name (pm_old_local_path m)) (\<lambda>old_leaf.
          map_option (\<lambda>relative_to_old. compute_remote_path relative_to_old (pm_old_remote_path m))
            (path_strip_prefix relative_to_new old_leaf))))"

section \<open>Skips\<close>

definition can_lite_fast_skip ::
  "push_scan_mode \<Rightarrow> file_sync_meta option \<Rightarrow> nat \<Rightarrow> int \<Rightarrow> bool" where
  "can_lite_fast_skip scan_mode stored_meta file_size modified_at =
     (if scan_mode \<noteq> Lite then False
      else case stored_meta of
             Some m \<Rightarrow> fm_sync_status m = Synced \<and> fm_size m = file_size \<and>
                       fm_modified_at m = modified_at
           | None \<Rightarrow> False)"

definition can_lite_fast_skip_symlink ::
  "push_scan_mode \<Rightarrow> file_sync_meta option \<Rightarrow> string \<Rightarrow> bool" where
  "can_lite_fast_skip_symlink scan_mode stored_meta content_hash =
     (if scan_mode \<noteq> Lite then False
      else case stored_meta of
             Some m \<Rightarrow> fm_sync_status m = Synced \<and> fm_content_hash m = content_hash
           | None \<Rightarrow> False)"

definition needs_hash_skip_metadata_update :: "file_sync_meta \<Rightarrow> nat \<Rightarrow> int \<Rightarrow> bool" where
  "needs_hash_skip_metadata_update m file_size modified_at \<longleftrightarrow>
     fm_sync_status m \<noteq> Synced \<or> fm_size m \<noteq> file_size \<or> fm_modified_at m \<noteq> modified_at"

section \<open>Symlink identity\<close>

fun path_segments :: "string list \<Rightarrow> string list \<Rightarrow> string list" where
  "path_segments [] segments = segments"
| "path_segments (s # ss) segments =
     (if s = ''.'' then path_segments ss segments
      else if s = ''..'' then path_segments ss (butlast segments)
      else path_segments ss (segments @ [s]))"

definition normalize_remote_path_like_engine :: "string \<Rightarrow> string" where
  "normalize_remote_path_like_engine path =
     (let trimmed = trim (filter (\<lambda>c. c \<noteq> CHR 0x00) path)
      in if trimmed = [] then ''/''
         else
           let segments = path_segments (filter (\<lambda>s. s \<noteq> []) (split_on CHR ''/'' trimmed)) []
           in if segments = [] then ''/'' else CHR ''/'' # join_with ''/'' segments)"

definition symlink_identity_hash :: "(string \<Rightarrow> string) \<Rightarrow> string \<Rightarrow> string \<Rightarrow> string" where
  "symlink_identity_hash hash remote_path target =
     hash (''symlinkid:'' @ remote_path @ [CHR 0x00] @ normalize_remote_path_like_engine target)"

section \<open>Errors\<close>

definition is_transient_push_error :: "client_error \<Rightarrow> bool" where
  "is_transient_push_error e = is_transient_upstream e"

definition is_unrecoverable_push_error_message :: "string \<Rightarrow> bool" where
  "is_unrecoverable_push_error_message message =
     (let lower = to_ascii_lowercase message
      in contains lower ''401 unauthorized'' \<or>
         contains lower ''invalid or expired token'' \<or>
         (contains lower ''429 too many requests'' \<and>
          (contains lower ''token exchange'' \<or> contains lower ''auth'')))"

definition is_unrecoverable_push_error :: "client_error \<Rightarrow> bool" where
  "is_unrecoverable_push_error e =
     (if is_transient_push_error e then False
      else (case e of UpstreamRejected st _ \<Rightarrow> st = 401 | _ \<Rightarrow> False) \<or>
           is_unrecoverable_push_error_message (error_text e))"

definition should_emit_push_scan_progress :: "nat \<Rightarrow> bool" where
  "should_emit_push_scan_progress processed \<longleftrightarrow> 0 < processed \<and> processed mod 100 = 0"

section \<open>Lemmas\<close>

text \<open>The paths of a tree below a directory: its files and symlinks.\<close>

fun tree_paths :: "string \<Rightarrow> walk_node \<Rightarrow> string list"
  and entry_paths :: "string \<Rightarrow> walk_entry \<Rightarrow> string list"
  and entries_paths :: "string \<Rightarrow> walk_entry list \<Rightarrow> string list"
where
  "tree_paths path (WDir es) = entries_paths path es"
| "tree_paths path WFile = [path]"
| "tree_paths path WSymlink = [path]"
| "tree_paths path WOther = []"
| "tree_paths path (WTypeError e) = []"
| "tree_paths path (WDirError e) = []"
| "entry_paths dir (EntryError e) = []"
| "entry_paths dir (Entry name node) = tree_paths (path_join dir name) node"
| "entries_paths dir [] = []"
| "entries_paths dir (x # xs) = entry_paths dir x @ entries_paths dir xs"

fun names_ok :: "walk_node \<Rightarrow> bool"
  and entry_names_ok :: "walk_entry \<Rightarrow> bool"
where
  "names_ok (WDir es) = (\<forall>e\<in>set es. entry_names_ok e)"
| "names_ok _ = True"
| "entry_names_ok (EntryError e) = True"
| "entry_names_ok (Entry name node) = (clean_name name \<and> names_ok node)"

lemma excluded_join:
  "is_local_excluded_by_child dir ex \<Longrightarrow> dir \<noteq> [] \<Longrightarrow> clean_name name \<Longrightarrow>
    is_local_excluded_by_child (path_join dir name) ex"
proof -
  assume a: "is_local_excluded_by_child dir ex" "dir \<noteq> []" "clean_name name"
  then have "\<not> prefix ''/'' name" using join_names_relative [of "[name]"] by simp
  then have "path_starts_with (path_join dir name) dir" using a(2) by (intro join_starts_with)
  with a(1) show ?thesis by (rule local_excluded_below)
qed

lemma path_join_ne: "dir \<noteq> [] \<Longrightarrow> path_join dir name \<noteq> []"
  by (auto simp: path_join_def)

lemma tree_paths_excluded:
  "is_local_excluded_by_child dir ex \<Longrightarrow> dir \<noteq> [] \<Longrightarrow> names_ok node \<Longrightarrow>
    \<forall>p\<in>set (tree_paths dir node). is_local_excluded_by_child p ex"
  "is_local_excluded_by_child dir ex \<Longrightarrow> dir \<noteq> [] \<Longrightarrow> entry_names_ok e \<Longrightarrow>
    \<forall>p\<in>set (entry_paths dir e). is_local_excluded_by_child p ex"
  "is_local_excluded_by_child dir ex \<Longrightarrow> dir \<noteq> [] \<Longrightarrow> \<forall>e\<in>set es. entry_names_ok e \<Longrightarrow>
    \<forall>p\<in>set (entries_paths dir es). is_local_excluded_by_child p ex"
proof (induction dir node and dir e and dir es rule: tree_paths_entry_paths_entries_paths.induct)
  case (8 dir name node)
  have "is_local_excluded_by_child (path_join dir name) ex"
    using 8(2-4) by (intro excluded_join) simp_all
  from 8(1) [OF this path_join_ne [OF 8(3)]] 8(4) show ?case by simp
next
  case (10 dir x xs)
  have "\<forall>p\<in>set (entry_paths dir x). is_local_excluded_by_child p ex"
    using 10(1) [OF 10(3,4)] 10(5) by simp
  moreover have "\<forall>p\<in>set (entries_paths dir xs). is_local_excluded_by_child p ex"
    using 10(2) [OF 10(3,4)] 10(5) by simp
  ultimately show ?case by (simp only: entries_paths.simps set_append ball_Un)
qed simp_all

text \<open>A walk that ends without an error returns exactly the paths of the tree that are not under
  an excluded directory, in the order of the system.\<close>

lemma walk_spec:
  "dir \<noteq> [] \<Longrightarrow> names_ok node \<Longrightarrow> node \<notin> {WFile, WSymlink} \<Longrightarrow>
    walk_recursive ex dir node rs = (rs', Inr u) \<Longrightarrow>
    rs' = rs @ filter (\<lambda>p. \<not> is_local_excluded_by_child p ex) (tree_paths dir node)"
  "dir \<noteq> [] \<Longrightarrow> \<forall>e\<in>set es. entry_names_ok e \<Longrightarrow> walk_entries ex dir es rs = (rs', Inr u) \<Longrightarrow>
    rs' = rs @ filter (\<lambda>p. \<not> is_local_excluded_by_child p ex) (entries_paths dir es)"
  "dir \<noteq> [] \<Longrightarrow> entry_names_ok e \<Longrightarrow> walk_one ex dir e rs = (rs', Inr u) \<Longrightarrow>
    rs' = rs @ filter (\<lambda>p. \<not> is_local_excluded_by_child p ex) (entry_paths dir e)"
proof (induction ex dir node rs and ex dir es rs and ex dir e rs arbitrary: rs' and rs' and rs'
    rule: walk_recursive_walk_entries_walk_one.induct)
  case (8 ex dir x xs rs)
  then obtain rs1 where one: "walk_one ex dir x rs = (rs1, Inr ())"
    and rest: "walk_entries ex dir xs rs1 = (rs', Inr u)"
    by (auto split: prod.splits sum.splits)
  have "rs1 = rs @ filter (\<lambda>p. \<not> is_local_excluded_by_child p ex) (entry_paths dir x)"
    using 8(1) [of rs1] one 8(3,4) by simp
  moreover have "rs' = rs1 @ filter (\<lambda>p. \<not> is_local_excluded_by_child p ex) (entries_paths dir xs)"
    using 8(2) [OF one [symmetric]] rest 8(3,4) by simp
  ultimately show ?case by simp
next
  case (10 ex dir name node rs)
  show ?case
  proof (cases "is_local_excluded_by_child (path_join dir name) ex")
    case True
    have "\<forall>p\<in>set (tree_paths (path_join dir name) node). is_local_excluded_by_child p ex"
      using True 10(3,4) by (intro tree_paths_excluded(1)) (auto simp: path_join_ne)
    then have "filter (\<lambda>p. \<not> is_local_excluded_by_child p ex) (tree_paths (path_join dir name) node) = []"
      by (simp add: filter_empty_conv)
    with True 10(5) show ?thesis by (cases node) (auto simp: Let_def)
  next
    case False
    with 10 show ?thesis by (cases node) (auto simp: Let_def path_join_ne)
  qed
qed auto

section \<open>Properties\<close>

text \<open>C15. A walk of the local tree that ends without an error finds exactly the files and symlinks
  of the tree that are not in the territory of a child relationship, each once and in the
  order of the system: pruning a directory loses nothing else.\<close>

theorem walk_finds_all:
  assumes "root \<noteq> []" "names_ok tree" "walkdir root ex tree = Inr paths"
  shows "paths = filter (\<lambda>p. \<not> is_local_excluded_by_child p ex) (tree_paths root tree)"
proof -
  from assms(3) obtain u where run: "walk_recursive ex root tree [] = (paths, Inr u)"
    by (auto simp: walkdir_def split: prod.splits sum.splits)
  then have "tree \<notin> {WFile, WSymlink}" by auto
  from walk_spec(1) [OF assms(1,2) this run] show ?thesis by simp
qed

lemma walk_finds_all_witness:
  "walkdir ''/l'' [''/l/child''] (WDir [Entry ''a'' WFile, Entry ''child'' (WDir [Entry ''b'' WFile])]) =
     Inr [''/l/a'']"
proof -
  let ?tree = "WDir [Entry ''a'' WFile, Entry ''child'' (WDir [Entry ''b'' WFile])]"
  have "is_ok (walkdir ''/l'' [''/l/child''] ?tree)" by code_simp
  then obtain paths where run: "walkdir ''/l'' [''/l/child''] ?tree = Inr paths"
    by (cases "walkdir ''/l'' [''/l/child''] ?tree") auto
  have "names_ok ?tree" by code_simp
  from walk_finds_all [OF _ this run]
  have "paths = filter (\<lambda>p. \<not> is_local_excluded_by_child p [''/l/child'']) (tree_paths ''/l'' ?tree)"
    by simp
  also have "\<dots> = [''/l/a'']" by code_simp
  finally show ?thesis using run by simp
qed

definition clean_segments :: "string list \<Rightarrow> bool" where
  "clean_segments ss \<longleftrightarrow>
     list_all (\<lambda>s. s \<noteq> [] \<and> s \<noteq> ''.'' \<and> s \<noteq> ''..'' \<and> CHR ''/'' \<notin> set s) ss"

lemma path_segments_clean:
  "clean_segments acc \<Longrightarrow> \<forall>s\<in>set ss. s \<noteq> [] \<and> CHR ''/'' \<notin> set s \<Longrightarrow>
    clean_segments (path_segments ss acc)"
proof (induction ss acc rule: path_segments.induct)
  case (1 segments)
  then show ?case by simp
next
  case (2 s ss segments)
  have pop: "clean_segments (butlast segments)"
    using 2(4) by (auto simp: clean_segments_def list_all_iff dest: in_set_butlastD)
  have push: "s \<noteq> ''.'' \<Longrightarrow> s \<noteq> ''..'' \<Longrightarrow> clean_segments (segments @ [s])"
    using 2(4,5) by (simp add: clean_segments_def)
  have rest: "\<forall>s\<in>set ss. s \<noteq> [] \<and> CHR ''/'' \<notin> set s" using 2(5) by simp
  consider "s = ''.''" | "s = ''..''" | "s \<noteq> ''.''" "s \<noteq> ''..''" by blast
  then show ?case
  proof cases
    case dot: 1
    with 2(1) [OF dot 2(4) rest] show ?thesis by simp
  next
    case dots: 2
    with 2(2) [OF _ dots pop rest] show ?thesis by simp
  next
    case 3
    with 2(3) [OF 3 push [OF 3] rest] show ?thesis by simp
  qed
qed

text \<open>The form in which a symlink target enters its identity hash is the root or a slash before
  each segment, with no empty, dot or dot-dot segment: targets that name the same path share it.\<close>

theorem engine_path_is_clean:
  "normalize_remote_path_like_engine path = ''/'' \<or>
   (\<exists>ss. ss \<noteq> [] \<and> clean_segments ss \<and>
      normalize_remote_path_like_engine path = CHR ''/'' # join_with ''/'' ss)"
proof -
  let ?t = "trim (filter (\<lambda>c. c \<noteq> CHR 0x00) path)"
  let ?in = "filter (\<lambda>s. s \<noteq> []) (split_on CHR ''/'' ?t)"
  have "clean_segments (path_segments ?in [])"
    by (rule path_segments_clean) (auto simp: clean_segments_def dest: split_on_no_sep)
  then show ?thesis
    by (auto simp: normalize_remote_path_like_engine_def Let_def)
qed

end
