(* ===== verification/Push_Batch.thy ===== *)
theory Push_Batch
  imports Push_Plan Push_Scan
begin

text \<open>
  Sending a batch of files (\<open>sync/push.rs\<close>): the chunk protocol, the direct upload of a batch
  whose manifest would be too large, the flush with its fallback to one file at a time, and
  the metadata written for what was sent.  The local file system and the clock are functions
  of the world, so they may change with every remote call.  Progress reporting is left out,
  and concurrent work (uploads, file preparation, symlinks) is a sequence in the order the
  environment's permutations give.
\<close>

datatype entry_kind = StatFile | StatSymlink | StatOther

record entry_stat =
  es_kind :: entry_kind
  es_len :: nat
  es_mtime :: "int option"

record scan_fs =
  sf_exists :: "string \<Rightarrow> bool"
  sf_tree :: "string \<Rightarrow> walk_node"
  sf_lstat :: "string \<Rightarrow> string + entry_stat"
  sf_readlink :: "string \<Rightarrow> string + string"
  sf_mtime :: "string \<Rightarrow> string + int"
  sf_stream :: "string \<Rightarrow> string + string"

record push_prep_request =
  pr_entry_path :: string
  pr_remote_path :: string
  pr_modified_at :: int
  pr_content_type :: "string option"
  pr_stored_meta :: "file_sync_meta option"
  pr_migration_old :: "string option"
  pr_legacy :: "string option"

record pending_symlink =
  py_remote_path :: string
  py_target :: string
  py_content_hash :: string
  py_modified_at :: int

record 'w push_env =
  pe_remote :: "'w remote_ops"
  pe_fs :: "'w \<Rightarrow> local_fs"
  pe_scan :: "'w \<Rightarrow> scan_fs"
  pe_now :: "'w \<Rightarrow> int"
  pe_hash :: "string \<Rightarrow> string"
  pe_glob :: "string \<Rightarrow> string \<Rightarrow> bool"
  pe_json_len :: "string \<Rightarrow> nat"
  pe_commit_len :: "commit_file list \<Rightarrow> nat"
  pe_available :: "nat option"
  pe_order :: "pending_chunk_ref list \<Rightarrow> pending_chunk_ref list"
  pe_prep_order :: "push_prep_request list \<Rightarrow> push_prep_request list"
  pe_link_order :: "pending_symlink list \<Rightarrow> pending_symlink list"

datatype upload_strategy = ChunkedBlob | DirectFilePut

record upload_stats =
  us_strategy :: upload_strategy
  us_files :: nat
  us_total_file_bytes :: nat
  us_checked_chunks :: nat
  us_uploaded_chunks :: nat
  us_uploaded_bytes :: nat

section \<open>One batch\<close>

definition direct_put_one ::
  "'w push_env \<Rightarrow> pending_push_file \<Rightarrow> 'w \<Rightarrow> 'w \<times> unit res" where
  "direct_put_one env file w =
     (case sf_stream (pe_scan env w) (pf_local_path file) of
        Inl e \<Rightarrow> (w, Inl (Io e))
      | Inr content \<Rightarrow>
          ro_upload_file (pe_remote env) (pf_remote_path file) (StreamBody content)
            (pf_content_type file) w)"

definition push_batch_via_direct_file_put ::
  "'w push_env \<Rightarrow> pending_push_file list \<Rightarrow> 'w \<Rightarrow> 'w \<times> upload_stats res" where
  "push_batch_via_direct_file_put env files w =
     then_st (for_each (direct_put_one env) files w) (\<lambda>w1 _.
       (w1, Inr \<lparr>us_strategy = DirectFilePut, us_files = length files,
                 us_total_file_bytes = sum_list (map pf_file_size files),
                 us_checked_chunks = 0, us_uploaded_chunks = 0,
                 us_uploaded_bytes = fold (\<lambda>f b. sat_add b (pf_file_size f)) files 0\<rparr>))"

definition upload_one ::
  "'w push_env \<Rightarrow> blob_config \<Rightarrow> pending_chunk_ref \<Rightarrow> 'w \<Rightarrow> 'w \<times> unit res" where
  "upload_one env config chunk w =
     (case read_pending_chunk (pe_hash env) (pe_fs env w) (bc_chunk_hash_prefix config) chunk of
        Inl e \<Rightarrow> (w, Inl e)
      | Inr bytes \<Rightarrow> ro_upload_chunk (pe_remote env) (pc_hash chunk) bytes w)"

definition check_needed ::
  "'w push_env \<Rightarrow> string list \<Rightarrow> 'w \<Rightarrow> 'w \<times> string list res" where
  "check_needed env unique w =
     (if unique = [] then (w, Inr [])
      else then_st (ro_blob_check (pe_remote env) unique w) (\<lambda>w1 r. (w1, Inr (bcr_needed r))))"

definition chunks_to_send :: "push_batch_plan \<Rightarrow> string list \<Rightarrow> pending_chunk_ref list" where
  "chunks_to_send plan needed =
     map snd (filter (\<lambda>(h, r). h \<in> set needed) (bp_upload_chunks plan))"

definition send_plan ::
  "'w push_env \<Rightarrow> blob_config \<Rightarrow> pending_push_file list \<Rightarrow> push_batch_plan \<Rightarrow> 'w \<Rightarrow>
     'w \<times> upload_stats res" where
  "send_plan env config files plan w =
     then_st (check_needed env (bp_unique_hashes plan) w) (\<lambda>w1 needed.
       let chunks = pe_order env (chunks_to_send plan needed)
       in then_st (for_each (upload_one env config) chunks w1) (\<lambda>w2 _.
          then_st (ro_blob_commit (pe_remote env) (bp_commit_files plan) w2) (\<lambda>w3 _.
            (w3, Inr \<lparr>us_strategy = ChunkedBlob, us_files = length files,
                      us_total_file_bytes = sum_list (map pf_file_size files),
                      us_checked_chunks = length (bp_unique_hashes plan),
                      us_uploaded_chunks = length chunks,
                      us_uploaded_bytes = sum_list (map pc_len chunks)\<rparr>))))"

definition push_batch_via_chunks ::
  "'w push_env \<Rightarrow> blob_config \<Rightarrow> pending_push_file list \<Rightarrow> 'w \<Rightarrow> 'w \<times> upload_stats res" where
  "push_batch_via_chunks env config files w =
     (if files = [] then
        (w, Inr \<lparr>us_strategy = ChunkedBlob, us_files = 0, us_total_file_bytes = 0,
                 us_checked_chunks = 0, us_uploaded_chunks = 0, us_uploaded_bytes = 0\<rparr>)
      else if estimated_blob_commit_body_bytes (pe_json_len env) files config > blob_commit_safe_bytes
      then push_batch_via_direct_file_put env files w
      else case plan_push_batch (pe_hash env) (pe_fs env w) (pe_available env) config files of
             Inl e \<Rightarrow> (w, Inl (Io e))
           | Inr plan \<Rightarrow>
               if pe_commit_len env (bp_commit_files plan) > blob_commit_safe_bytes
               then push_batch_via_direct_file_put env files w
               else send_plan env config files plan w)"

section \<open>The state of a push\<close>

record ('w, 'e) push_state =
  ps_world :: 'w
  ps_store :: 'e
  ps_pushed :: nat
  ps_skipped :: nat
  ps_failed :: nat
  ps_deleted :: nat
  ps_bytes :: nat
  ps_errors :: "string list"
  ps_metas :: "(string, file_sync_meta) hmap"
  ps_seen :: "string list"
  ps_batch :: push_batch
  ps_pending :: "file_sync_meta list"
  ps_preps :: "push_prep_request list"
  ps_symlinks :: "pending_symlink list"
  ps_processed :: nat

text \<open>What stays fixed during one push.\<close>

record ('w, 'e) push_ctx =
  px_env :: "'w push_env"
  px_engine :: "'e engine"
  px_rel :: sync_relationship
  px_config :: blob_config
  px_mode :: push_scan_mode
  px_migration :: "sync_path_migration option"

abbreviation px_id :: "('w, 'e) push_ctx \<Rightarrow> string" where
  "px_id x \<equiv> sr_id (px_rel x)"

definition synced_meta :: "string \<Rightarrow> string \<Rightarrow> nat \<Rightarrow> int \<Rightarrow> int \<Rightarrow> file_sync_meta" where
  "synced_meta path content_hash size' modified_at now =
     \<lparr>fm_path = path, fm_content_hash = content_hash, fm_size = size',
      fm_modified_at = modified_at, fm_sync_status = Synced, fm_last_synced_at = now\<rparr>"

definition make_file_meta :: "int \<Rightarrow> pending_push_file \<Rightarrow> file_sync_meta" where
  "make_file_meta now file =
     synced_meta (pf_remote_path file) (pf_content_hash file) (pf_file_size file)
       (pf_modified_at file) now"

text \<open>One entry per path, the latest; \<open>into_values\<close> gives them in the map's order.\<close>

definition coalesce_file_metas :: "file_sync_meta list \<Rightarrow> file_sync_meta list" where
  "coalesce_file_metas metas = hvalues (hcollect (map (\<lambda>m. (fm_path m, m)) metas))"

text \<open>The pending updates are taken out before the write, so a failed write drops them.\<close>

definition flush_pending_metadata_updates ::
  "('w, 'e) push_ctx \<Rightarrow> ('w, 'e) push_state \<Rightarrow> ('w, 'e) push_state \<times> unit res" where
  "flush_pending_metadata_updates x st =
     (if ps_pending st = [] then (st, Inr ())
      else case set_file_metas_batch (px_engine x) (pe_hash (px_env x)) (px_id x)
                  (coalesce_file_metas (ps_pending st)) (ps_store st) of
             (e', r) \<Rightarrow> (st\<lparr>ps_pending := [], ps_store := e'\<rparr>, r))"

definition record_push_failure ::
  "('w, 'e) push_ctx \<Rightarrow> pending_push_file \<Rightarrow> client_error \<Rightarrow> ('w, 'e) push_state \<Rightarrow>
     ('w, 'e) push_state \<times> unit res" where
  "record_push_failure x file error st =
     (if is_transient_push_error error then (st, Inl error)
      else if is_unrecoverable_push_error error then
        (st, Inl (Server (''push aborted after unrecoverable remote auth/rate-limit error at '' @
             pf_remote_path file @ '': '' @ error_text error)))
      else
        let message = ''failed to upload '' @ pf_remote_path file @ '': '' @ error_text error;
            is_forbidden = contains message ''403 Forbidden'' \<or>
              (case error of UpstreamRejected status _ \<Rightarrow> status = 403 | _ \<Rightarrow> False);
            st1 = st\<lparr>ps_errors := ps_errors st @ [message], ps_failed := ps_failed st + 1\<rparr>
        in if is_forbidden then
             (st1\<lparr>ps_store := fst (set_file_meta (px_engine x) (pe_hash (px_env x)) (px_id x)
                 (make_file_meta (pe_now (px_env x) (ps_world st)) file) (ps_store st1))\<rparr>, Inr ())
           else (st1, Inr ()))"

text \<open>The files sent: metadata in memory and pending, counters.\<close>

definition note_pushed ::
  "file_sync_meta list \<Rightarrow> pending_push_file list \<Rightarrow> ('w, 'e) push_state \<Rightarrow> ('w, 'e) push_state" where
  "note_pushed metas files st =
     st\<lparr>ps_metas := fold (\<lambda>m. hinsert (fm_path m) m) metas (ps_metas st),
        ps_pending := ps_pending st @ metas,
        ps_pushed := ps_pushed st + length files,
        ps_bytes := ps_bytes st + sum_list (map pf_file_size files)\<rparr>"

text \<open>The fallback: each file alone; the accumulator holds the files sent and their metadata.\<close>

fun push_isolated ::
  "('w, 'e) push_ctx \<Rightarrow> pending_push_file list \<Rightarrow> pending_push_file list \<times> file_sync_meta list \<Rightarrow>
     ('w, 'e) push_state \<Rightarrow>
     ('w, 'e) push_state \<times> (pending_push_file list \<times> file_sync_meta list) res" where
  "push_isolated x [] acc st = (st, Inr acc)"
| "push_isolated x (file # files) (sent, metas) st =
     (case push_batch_via_chunks (px_env x) (px_config x) [file] (ps_world st) of
        (w, Inr _) \<Rightarrow>
          push_isolated x files
            (sent @ [file], metas @ [make_file_meta (pe_now (px_env x) w) file])
            (st\<lparr>ps_world := w\<rparr>)
      | (w, Inl error) \<Rightarrow>
          then_st (record_push_failure x file error (st\<lparr>ps_world := w\<rparr>)) (\<lambda>st1 _.
            push_isolated x files (sent, metas) st1))"

definition flush_push_batch ::
  "('w, 'e) push_ctx \<Rightarrow> ('w, 'e) push_state \<Rightarrow> ('w, 'e) push_state \<times> unit res" where
  "flush_push_batch x st =
     (if pb_files (ps_batch st) = [] then (st, Inr ())
      else
        let files = pb_files (ps_batch st);
            st0 = st\<lparr>ps_batch := empty_batch\<rparr>
        in case push_batch_via_chunks (px_env x) (px_config x) files (ps_world st0) of
             (w, Inr stats) \<Rightarrow>
               flush_pending_metadata_updates x
                 (note_pushed (map (make_file_meta (pe_now (px_env x) w)) files) files
                    (st0\<lparr>ps_world := w\<rparr>))
           | (w, Inl error) \<Rightarrow>
               if is_transient_push_error error then (st0\<lparr>ps_world := w\<rparr>, Inl error)
               else if is_unrecoverable_push_error error then
                 (st0\<lparr>ps_world := w\<rparr>,
                  Inl (Server (''push aborted after unrecoverable remote auth/rate-limit error: '' @
                       error_text error)))
               else
                 then_st (push_isolated x files ([], []) (st0\<lparr>ps_world := w\<rparr>))
                   (\<lambda>st1 (sent, metas).
                      flush_pending_metadata_updates x (note_pushed metas sent st1)))"

definition complete_entry ::
  "('w, 'e) push_ctx \<Rightarrow> ('w, 'e) push_state \<Rightarrow> ('w, 'e) push_state \<times> unit res" where
  "complete_entry x st =
     (let st1 = st\<lparr>ps_processed := ps_processed st + 1\<rparr>
      in if should_emit_push_scan_progress (ps_processed st1) then flush_push_batch x st1
         else (st1, Inr ()))"

end
