(* ===== verification/Push.thy ===== *)
theory Push
  imports Push_Batch
begin

text \<open>
  \<open>push_sync\<close> (\<open>sync/push.rs\<close>): inspection of every entry the walk found, processing of the
  prepared files (hash skip, moves of a migrated or legacy path, batching), the symlinks, the
  clean-up of a path migration and the propagation of local deletions.  A step returns the
  state reached and, as the code's question mark does, an error that ends the push.  Files are
  prepared when they are processed, in the order the environment gives.
\<close>

section \<open>Inspecting an entry\<close>

definition fail_entry ::
  "('w, 'e) push_ctx \<Rightarrow> string \<Rightarrow> ('w, 'e) push_state \<Rightarrow> ('w, 'e) push_state \<times> unit res" where
  "fail_entry x message st =
     complete_entry x (st\<lparr>ps_errors := ps_errors st @ [message], ps_failed := ps_failed st + 1\<rparr>)"

definition skip_entry ::
  "('w, 'e) push_ctx \<Rightarrow> ('w, 'e) push_state \<Rightarrow> ('w, 'e) push_state \<times> unit res" where
  "skip_entry x st = complete_entry x (st\<lparr>ps_skipped := ps_skipped st + 1\<rparr>)"

definition see_path :: "string \<Rightarrow> ('w, 'e) push_state \<Rightarrow> ('w, 'e) push_state" where
  "see_path p st = st\<lparr>ps_seen := ps_seen st @ [p]\<rparr>"

definition inspect_symlink ::
  "('w, 'e) push_ctx \<Rightarrow> string \<Rightarrow> string \<Rightarrow> entry_stat \<Rightarrow> ('w, 'e) push_state \<Rightarrow>
     ('w, 'e) push_state \<times> unit res" where
  "inspect_symlink x entry_path remote_path stat st =
     (let env = px_env x; st1 = see_path remote_path st
      in case sf_readlink (pe_scan env (ps_world st)) entry_path of
           Inl e \<Rightarrow>
             fail_entry x (''failed to read symlink '' @
               lf_debug (pe_fs env (ps_world st)) entry_path @ '': '' @ e) st1
         | Inr target \<Rightarrow>
             (let content_hash = symlink_identity_hash (pe_hash env) remote_path target
              in if can_lite_fast_skip_symlink (px_mode x) (hget (ps_metas st) remote_path) content_hash
                 then skip_entry x st1
                 else (st1\<lparr>ps_symlinks := ps_symlinks st1 @
                    [\<lparr>py_remote_path = remote_path, py_target = target,
                      py_content_hash = content_hash,
                      py_modified_at = (case es_mtime stat of
                         Some t \<Rightarrow> t | None \<Rightarrow> pe_now env (ps_world st))\<rparr>]\<rparr>, Inr ())))"

definition inspect_file ::
  "('w, 'e) push_ctx \<Rightarrow> string \<Rightarrow> string \<Rightarrow> string \<Rightarrow> entry_stat \<Rightarrow> ('w, 'e) push_state \<Rightarrow>
     ('w, 'e) push_state \<times> unit res" where
  "inspect_file x entry_path relative remote_path stat st =
     (let env = px_env x
      in case path_file_name entry_path of
           None \<Rightarrow> complete_entry x st
         | Some filename \<Rightarrow>
             if \<not> matches_filter (pe_glob env) filename (sr_filter (px_rel x)) then skip_entry x st
             else
               let st1 = see_path remote_path st
               in case map_err Io (sf_mtime (pe_scan env (ps_world st)) entry_path) of
                    Inl e \<Rightarrow>
                      fail_entry x (''failed to get mtime for '' @
                        lf_debug (pe_fs env (ps_world st)) entry_path @ '': '' @ error_text e) st1
                  | Inr mtime \<Rightarrow>
                      (let stored = hget (ps_metas st) remote_path
                       in if can_lite_fast_skip (px_mode x) stored (es_len stat) mtime
                          then skip_entry x st1
                          else (st1\<lparr>ps_preps := ps_preps st1 @
                             [\<lparr>pr_entry_path = entry_path, pr_remote_path = remote_path,
                               pr_modified_at = mtime,
                               pr_content_type = mime_from_extension entry_path,
                               pr_stored_meta = stored,
                               pr_migration_old = Option.bind (px_migration x)
                                 (migration_old_remote_path_for_entry entry_path),
                               pr_legacy = compute_legacy_separator_remote_path relative
                                 (sr_remote_path (px_rel x))\<rparr>]\<rparr>, Inr ())))"

definition inspect_entry ::
  "('w, 'e) push_ctx \<Rightarrow> string \<Rightarrow> ('w, 'e) push_state \<Rightarrow> ('w, 'e) push_state \<times> unit res" where
  "inspect_entry x entry_path st =
     (let env = px_env x
      in case sf_lstat (pe_scan env (ps_world st)) entry_path of
           Inl e \<Rightarrow>
             fail_entry x (''failed to read metadata for '' @
               lf_debug (pe_fs env (ps_world st)) entry_path @ '': '' @ e) st
         | Inr stat \<Rightarrow>
             (case path_strip_prefix entry_path (sr_local_path (px_rel x)) of
                None \<Rightarrow> complete_entry x st
              | Some relative \<Rightarrow>
                  (let remote_path = compute_remote_path relative (sr_remote_path (px_rel x))
                   in case es_kind stat of
                        StatSymlink \<Rightarrow> inspect_symlink x entry_path remote_path stat st
                      | StatOther \<Rightarrow> complete_entry x st
                      | StatFile \<Rightarrow> inspect_file x entry_path relative remote_path stat st)))"

section \<open>Processing a prepared file\<close>

record prepared_push_file =
  pp_file :: pending_push_file
  pp_request :: push_prep_request

definition prepare_push_file ::
  "(string \<Rightarrow> string) \<Rightarrow> local_fs \<Rightarrow> push_prep_request \<Rightarrow> string + prepared_push_file" where
  "prepare_push_file hash fs request =
     and_then (hash_file_content hash fs (pr_entry_path request)) (\<lambda>(content_hash, file_size).
       Inr \<lparr>pp_file =
              \<lparr>pf_local_path = pr_entry_path request, pf_remote_path = pr_remote_path request,
               pf_content_hash = content_hash, pf_file_size = file_size,
               pf_modified_at = pr_modified_at request,
               pf_content_type = pr_content_type request\<rparr>,
            pp_request = request\<rparr>)"

text \<open>A stage that may finish the entry: True when it did (\<open>complete_prepared_entry!(); continue\<close>),
  False when the code goes on to the next stage.\<close>

type_synonym ('w, 'e) stage = "('w, 'e) push_state \<Rightarrow> ('w, 'e) push_state \<times> bool res"

definition finish ::
  "('w, 'e) push_ctx \<Rightarrow> ('w, 'e) push_state \<Rightarrow> ('w, 'e) push_state \<times> bool res" where
  "finish x st = then_st (complete_entry x st) (\<lambda>st1 _. (st1, Inr True))"

definition or_stage :: "('w, 'e) stage \<Rightarrow> ('w, 'e) stage \<Rightarrow> ('w, 'e) stage" where
  "or_stage a b st = then_st (a st) (\<lambda>st1 ended. if ended then (st1, Inr True) else b st1)"

definition hash_skip_stage ::
  "('w, 'e) push_ctx \<Rightarrow> prepared_push_file \<Rightarrow> ('w, 'e) stage" where
  "hash_skip_stage x p st =
     (let file = pp_file p
      in case pr_stored_meta (pp_request p) of
           None \<Rightarrow> (st, Inr False)
         | Some m \<Rightarrow>
             if fm_content_hash m \<noteq> pf_content_hash file then (st, Inr False)
             else if \<not> needs_hash_skip_metadata_update m (pf_file_size file) (pf_modified_at file)
             then finish x (st\<lparr>ps_skipped := ps_skipped st + 1\<rparr>)
             else
               let u = make_file_meta (pe_now (px_env x) (ps_world st)) file
               in finish x (st\<lparr>ps_metas := hinsert (pf_remote_path file) u (ps_metas st),
                                ps_pending := ps_pending st @ [u],
                                ps_skipped := ps_skipped st + 1\<rparr>))"

text \<open>The metadata of a move that succeeded on the server.\<close>

definition move_metadata ::
  "('w, 'e) push_ctx \<Rightarrow> string \<Rightarrow> pending_push_file \<Rightarrow> ('w, 'e) push_state \<Rightarrow>
     ('w, 'e) push_state \<times> unit res" where
  "move_metadata x old_path file st =
     (let env = px_env x; u = make_file_meta (pe_now env (ps_world st)) file
      in case delete_file_meta (px_engine x) (pe_hash env) (px_id x) old_path (ps_store st) of
           (e1, Inl error) \<Rightarrow> (st\<lparr>ps_store := e1\<rparr>, Inl error)
         | (e1, Inr _) \<Rightarrow>
             (case set_file_meta (px_engine x) (pe_hash env) (px_id x) u e1 of
                (e2, Inl error) \<Rightarrow> (st\<lparr>ps_store := e2\<rparr>, Inl error)
              | (e2, Inr _) \<Rightarrow>
                  (st\<lparr>ps_store := e2,
                      ps_metas := hinsert (pf_remote_path file) u (hremove old_path (ps_metas st)),
                      ps_pushed := ps_pushed st + 1\<rparr>, Inr ())))"

text \<open>Whether a recorded old path may be moved: it is another path with the same content.\<close>

definition movable :: "('w, 'e) push_state \<Rightarrow> string option \<Rightarrow> pending_push_file \<Rightarrow> string option" where
  "movable st old file =
     (case old of
        None \<Rightarrow> None
      | Some old_path \<Rightarrow>
          (case hget (ps_metas st) old_path of
             None \<Rightarrow> None
           | Some m \<Rightarrow>
               if old_path \<noteq> pf_remote_path file \<and> fm_content_hash m = pf_content_hash file
               then Some old_path else None))"

definition legacy_move_stage ::
  "('w, 'e) push_ctx \<Rightarrow> prepared_push_file \<Rightarrow> ('w, 'e) stage" where
  "legacy_move_stage x p st =
     (let remote = pe_remote (px_env x); file = pp_file p
      in case movable st (pr_legacy (pp_request p)) file of
           None \<Rightarrow> (st, Inr False)
         | Some old_path \<Rightarrow>
             (case ro_has_content_hash remote (sr_remote_path (px_rel x)) old_path
                     (pf_content_hash file) (ps_world st) of
                (w, Inr True) \<Rightarrow>
                  (case ro_rename_file remote old_path (pf_remote_path file) w of
                     (w1, Inr _) \<Rightarrow>
                       then_st (move_metadata x old_path file (st\<lparr>ps_world := w1\<rparr>))
                         (\<lambda>st1 _. finish x st1)
                   | (w1, Inl _) \<Rightarrow> (st\<lparr>ps_world := w1\<rparr>, Inr False))
              | (w, _) \<Rightarrow> (st\<lparr>ps_world := w\<rparr>, Inr False)))"

definition migration_move_stage ::
  "('w, 'e) push_ctx \<Rightarrow> prepared_push_file \<Rightarrow> ('w, 'e) stage" where
  "migration_move_stage x p st =
     (let remote = pe_remote (px_env x); file = pp_file p
      in case movable st (pr_migration_old (pp_request p)) file of
           None \<Rightarrow> (st, Inr False)
         | Some old_path \<Rightarrow>
             (case ro_has_content_hash remote
                     (case px_migration x of Some m \<Rightarrow> pm_old_remote_path m | None \<Rightarrow> ''/'')
                     old_path (pf_content_hash file) (ps_world st) of
                (w, Inr True) \<Rightarrow>
                  (case ro_rename_file remote old_path (pf_remote_path file) w of
                     (w1, Inr _) \<Rightarrow>
                       then_st (move_metadata x old_path file (st\<lparr>ps_world := w1\<rparr>))
                         (\<lambda>st1 _. finish x st1)
                   | (w1, Inl error) \<Rightarrow>
                       finish x (st\<lparr>ps_world := w1,
                          ps_errors := ps_errors st @ [''failed to migrate remote '' @ old_path @
                            '' to '' @ pf_remote_path file @ '': '' @ error_text error],
                          ps_failed := ps_failed st + 1\<rparr>))
              | (w, _) \<Rightarrow> (st\<lparr>ps_world := w\<rparr>, Inr False)))"

text \<open>The old metadata of a file whose new path already has its content.\<close>

definition drop_old_metadata ::
  "('w, 'e) push_ctx \<Rightarrow> string \<Rightarrow> ('w, 'e) push_state \<Rightarrow> ('w, 'e) push_state \<times> unit res" where
  "drop_old_metadata x old_path st =
     (if hget (ps_metas st) old_path = None then (st, Inr ())
      else case delete_file_meta (px_engine x) (pe_hash (px_env x)) (px_id x) old_path (ps_store st) of
             (e1, Inl error) \<Rightarrow> (st\<lparr>ps_store := e1\<rparr>, Inl error)
           | (e1, Inr _) \<Rightarrow>
               (st\<lparr>ps_store := e1, ps_metas := hremove old_path (ps_metas st)\<rparr>, Inr ()))"

definition migration_target_stage ::
  "('w, 'e) push_ctx \<Rightarrow> prepared_push_file \<Rightarrow> ('w, 'e) stage" where
  "migration_target_stage x p st =
     (let env = px_env x; file = pp_file p
      in case (px_migration x, pr_migration_old (pp_request p)) of
           (Some m, Some old_path) \<Rightarrow>
             (case ro_has_content_hash (pe_remote env) (pm_new_remote_path m) (pf_remote_path file)
                     (pf_content_hash file) (ps_world st) of
                (w, Inr True) \<Rightarrow>
                  then_st (drop_old_metadata x old_path (st\<lparr>ps_world := w\<rparr>)) (\<lambda>st1 _.
                    let u = make_file_meta (pe_now env w) file
                    in case set_file_meta (px_engine x) (pe_hash env) (px_id x) u (ps_store st1) of
                         (e2, Inl error) \<Rightarrow> (st1\<lparr>ps_store := e2\<rparr>, Inl error)
                       | (e2, Inr _) \<Rightarrow>
                           finish x (st1\<lparr>ps_store := e2,
                             ps_metas := hinsert (pf_remote_path file) u (ps_metas st1),
                             ps_skipped := ps_skipped st1 + 1\<rparr>))
              | (w, _) \<Rightarrow> (st\<lparr>ps_world := w\<rparr>, Inr False))
         | _ \<Rightarrow> (st, Inr False))"

definition batch_stage :: "('w, 'e) push_ctx \<Rightarrow> pending_push_file \<Rightarrow> ('w, 'e) stage" where
  "batch_stage x file st =
     then_st (if should_flush_before (ps_batch st) file (px_config x)
              then flush_push_batch x st else (st, Inr ())) (\<lambda>st1 _.
     then_st (let st2 = st1\<lparr>ps_batch := batch_push (ps_batch st1) file (px_config x)\<rparr>
              in if should_flush_now (ps_batch st2) then flush_push_batch x st2
                 else (st2, Inr ())) (\<lambda>st3 _. finish x st3))"

definition process_prepared ::
  "('w, 'e) push_ctx \<Rightarrow> push_prep_request \<Rightarrow> ('w, 'e) push_state \<Rightarrow> ('w, 'e) push_state \<times> unit res" where
  "process_prepared x request st =
     (case prepare_push_file (pe_hash (px_env x)) (pe_fs (px_env x) (ps_world st)) request of
        Inl message \<Rightarrow> fail_entry x message st
      | Inr p \<Rightarrow>
          then_st
            (or_stage (hash_skip_stage x p)
              (or_stage
                (if pr_stored_meta request = None
                 then or_stage (legacy_move_stage x p)
                        (or_stage (migration_move_stage x p) (migration_target_stage x p))
                 else (\<lambda>st. (st, Inr False)))
                (batch_stage x (pp_file p))) st)
            (\<lambda>st1 _. (st1, Inr ())))"

section \<open>Symlinks\<close>

definition synced_symlink_meta :: "int \<Rightarrow> pending_symlink \<Rightarrow> file_sync_meta" where
  "synced_symlink_meta now s =
     synced_meta (py_remote_path s) (py_content_hash s) 0 (py_modified_at s) now"

datatype symlink_outcome = SymPushed | SymAlreadyPresent

definition push_symlink ::
  "'w push_env \<Rightarrow> push_scan_mode \<Rightarrow> pending_symlink \<Rightarrow> 'w \<Rightarrow> 'w \<times> symlink_outcome res" where
  "push_symlink env mode s w =
     (let create = (\<lambda>w. then_st (ro_create_symlink (pe_remote env) (py_remote_path s) (py_target s) w)
                      (\<lambda>w1 _. (w1, Inr SymPushed)))
      in if mode = Lite then
           (case ro_symlink_target (pe_remote env) (py_remote_path s) w of
              (w1, Inr (Some remote_target)) \<Rightarrow>
                if symlink_identity_hash (pe_hash env) (py_remote_path s) remote_target =
                   py_content_hash s
                then (w1, Inr SymAlreadyPresent) else create w1
            | (w1, _) \<Rightarrow> create w1)
         else create w)"

definition push_symlink_step ::
  "('w, 'e) push_ctx \<Rightarrow> pending_symlink \<Rightarrow> ('w, 'e) push_state \<Rightarrow> ('w, 'e) push_state" where
  "push_symlink_step x s st =
     (let env = px_env x
      in case push_symlink env (px_mode x) s (ps_world st) of
           (w, r) \<Rightarrow>
             (let st1 = st\<lparr>ps_world := w, ps_processed := ps_processed st + 1\<rparr>;
                  m = synced_symlink_meta (pe_now env w) s;
                  kept = st1\<lparr>ps_metas := hinsert (py_remote_path s) m (ps_metas st1),
                             ps_pending := ps_pending st1 @ [m]\<rparr>
              in case r of
                   Inr SymPushed \<Rightarrow> kept\<lparr>ps_pushed := ps_pushed st + 1\<rparr>
                 | Inr SymAlreadyPresent \<Rightarrow> kept\<lparr>ps_skipped := ps_skipped st + 1\<rparr>
                 | Inl error \<Rightarrow>
                     st1\<lparr>ps_errors := ps_errors st @ [''failed to push symlink '' @
                            py_remote_path s @ '': '' @ error_text error],
                         ps_failed := ps_failed st + 1\<rparr>))"

text \<open>The metadata of the symlinks is collected where the file updates were: that list is empty
  when the symlinks start, since it was flushed just before.\<close>

definition push_pending_symlinks ::
  "('w, 'e) push_ctx \<Rightarrow> ('w, 'e) push_state \<Rightarrow> ('w, 'e) push_state \<times> unit res" where
  "push_pending_symlinks x st =
     flush_pending_metadata_updates x
       (fold (push_symlink_step x) (pe_link_order (px_env x) (ps_symlinks st)) st)"

section \<open>The end of a push\<close>

definition cleanup_unseen_migration_metadata ::
  "('w, 'e) push_ctx \<Rightarrow> sync_path_migration \<Rightarrow> ('w, 'e) push_state \<Rightarrow>
     ('w, 'e) push_state \<times> unit res" where
  "cleanup_unseen_migration_metadata x m st =
     for_each (\<lambda>old_path st.
         case delete_file_meta (px_engine x) (pe_hash (px_env x)) (px_id x) old_path (ps_store st) of
           (e1, Inl error) \<Rightarrow> (st\<lparr>ps_store := e1\<rparr>, Inl error)
         | (e1, Inr _) \<Rightarrow>
             (st\<lparr>ps_store := e1, ps_metas := hremove old_path (ps_metas st)\<rparr>, Inr ()))
       (filter (\<lambda>p. is_under_remote_base p (pm_old_remote_path m) \<and> p \<notin> set (ps_seen st))
          (hkeys (ps_metas st))) st"

text \<open>Whether a known file that was not seen is deleted on the server.\<close>

definition deletes_remote ::
  "('w, 'e) push_ctx \<Rightarrow> string list \<Rightarrow> string list \<Rightarrow> file_sync_meta \<Rightarrow> bool" where
  "deletes_remote x remote_exclusions seen m \<longleftrightarrow>
     fm_path m \<notin> set seen \<and>
     \<not> (case px_migration x of
          Some g \<Rightarrow> is_under_remote_base (fm_path m) (pm_old_remote_path g) | None \<Rightarrow> False) \<and>
     \<not> is_excluded_by_child (fm_path m) remote_exclusions"

definition propagate_deletion ::
  "('w, 'e) push_ctx \<Rightarrow> string list \<Rightarrow> file_sync_meta \<Rightarrow> ('w, 'e) push_state \<Rightarrow>
     ('w, 'e) push_state \<times> unit res" where
  "propagate_deletion x remote_exclusions m st =
     (if \<not> deletes_remote x remote_exclusions (ps_seen st) m then (st, Inr ())
      else case ro_delete_file (pe_remote (px_env x)) (fm_path m) (ps_world st) of
             (w, Inr _) \<Rightarrow>
               (case delete_file_meta (px_engine x) (pe_hash (px_env x)) (px_id x) (fm_path m)
                       (ps_store st) of
                  (e1, Inl error) \<Rightarrow> (st\<lparr>ps_world := w, ps_store := e1\<rparr>, Inl error)
                | (e1, Inr _) \<Rightarrow>
                    (st\<lparr>ps_world := w, ps_store := e1, ps_deleted := ps_deleted st + 1\<rparr>, Inr ()))
           | (w, Inl error) \<Rightarrow>
               (st\<lparr>ps_world := w,
                   ps_errors := ps_errors st @ [''failed to delete remote '' @ fm_path m @ '': '' @
                     error_text error],
                   ps_failed := ps_failed st + 1\<rparr>, Inr ()))"

definition propagate_deletions ::
  "('w, 'e) push_ctx \<Rightarrow> sync_relationship list \<Rightarrow> ('w, 'e) push_state \<Rightarrow>
     ('w, 'e) push_state \<times> unit res" where
  "propagate_deletions x all_rels st =
     (if \<not> dp_local_to_remote (sr_delete_propagation (px_rel x)) then (st, Inr ())
      else for_each (propagate_deletion x (child_exclusions (px_rel x) all_rels))
             (hvalues (ps_metas st)) st)"

definition finish_migration ::
  "('w, 'e) push_ctx \<Rightarrow> ('w, 'e) push_state \<Rightarrow> ('w, 'e) push_state \<times> unit res" where
  "finish_migration x st =
     (if px_migration x \<noteq> None \<and> ps_errors st = [] then
        (case clear_path_migration (px_engine x) (px_id x) (ps_store st) of
           (e1, r) \<Rightarrow> (st\<lparr>ps_store := e1\<rparr>, r))
      else (st, Inr ()))"

section \<open>The whole push\<close>

record push_result =
  pu_files_pushed :: nat
  pu_files_skipped :: nat
  pu_files_failed :: nat
  pu_files_deleted :: nat
  pu_total_bytes :: nat
  pu_errors :: "string list"

definition result_of :: "('w, 'e) push_state \<Rightarrow> push_result" where
  "result_of st =
     \<lparr>pu_files_pushed = ps_pushed st, pu_files_skipped = ps_skipped st,
      pu_files_failed = ps_failed st, pu_files_deleted = ps_deleted st,
      pu_total_bytes = ps_bytes st, pu_errors = ps_errors st\<rparr>"

definition initial_state ::
  "'w \<Rightarrow> 'e \<Rightarrow> file_sync_meta list \<Rightarrow> ('w, 'e) push_state" where
  "initial_state w e metas =
     \<lparr>ps_world = w, ps_store = e, ps_pushed = 0, ps_skipped = 0, ps_failed = 0, ps_deleted = 0,
      ps_bytes = 0, ps_errors = [], ps_metas = hcollect (map (\<lambda>m. (fm_path m, m)) metas),
      ps_seen = [], ps_batch = empty_batch, ps_pending = [], ps_preps = [], ps_symlinks = [],
      ps_processed = 0\<rparr>"

text \<open>The phases after the walk.\<close>

definition push_phases ::
  "('w, 'e) push_ctx \<Rightarrow> sync_relationship list \<Rightarrow> string list \<Rightarrow> ('w, 'e) push_state \<Rightarrow>
     ('w, 'e) push_state \<times> unit res" where
  "push_phases x all_rels walker st =
     then_st (for_each (inspect_entry x) walker st) (\<lambda>st _.
     then_st (for_each (process_prepared x) (pe_prep_order (px_env x) (ps_preps st)) st) (\<lambda>st _.
     then_st (flush_push_batch x st) (\<lambda>st _.
     then_st (flush_pending_metadata_updates x st) (\<lambda>st _.
     then_st (push_pending_symlinks x st) (\<lambda>st _.
     then_st (case px_migration x of
                Some m \<Rightarrow>
                  if ps_errors st = [] then cleanup_unseen_migration_metadata x m st else (st, Inr ())
              | None \<Rightarrow> (st, Inr ())) (\<lambda>st _.
     then_st (propagate_deletions x all_rels st) (\<lambda>st _.
     finish_migration x st)))))))"

definition push_sync ::
  "'w push_env \<Rightarrow> 'e engine \<Rightarrow> sync_relationship \<Rightarrow> sync_relationship list \<Rightarrow> push_scan_mode \<Rightarrow>
     'w \<times> 'e \<Rightarrow> ('w \<times> 'e) \<times> push_result res" where
  "push_sync env en rel all_rels mode s =
     (case s of (w, e) \<Rightarrow>
       (case ro_blob_config (pe_remote env) w of
          (w1, Inl error) \<Rightarrow> ((w1, e), Inl error)
        | (w1, Inr config) \<Rightarrow>
            if \<not> sf_exists (pe_scan env w1) (sr_local_path rel) then
              ((w1, e), Inl (Configuration (''local path does not exist: '' @ sr_local_path rel)))
            else case list_file_metas en (sr_id rel) e of
                   Inl error \<Rightarrow> ((w1, e), Inl error)
                 | Inr metas \<Rightarrow>
                     (case walkdir (sr_local_path rel) (child_local_exclusions rel all_rels)
                             (sf_tree (pe_scan env w1) (sr_local_path rel)) of
                        Inl error \<Rightarrow> ((w1, e), Inl error)
                      | Inr walker \<Rightarrow>
                          (case push_phases
                                  \<lparr>px_env = env, px_engine = en, px_rel = rel, px_config = config,
                                   px_mode = mode, px_migration = get_path_migration en (sr_id rel) e\<rparr>
                                  all_rels walker (initial_state w1 e metas) of
                             (st, r) \<Rightarrow>
                               ((ps_world st, ps_store st),
                                and_then r (\<lambda>_. Inr (result_of st)))))))"

end
