(* ===== verification/Pull_Files.thy ===== *)
theory Pull_Files
  imports Remote_Api
begin

text \<open>
  The file side of a pull (\<open>sync/pull.rs\<close>): where a remote path lies locally, the chunks an
  existing local file already holds, and the assembly of a file from local and fetched chunks
  through a temporary file.  The disk is the record \<open>disk\<close> over a world of any type.  A read may
  return fewer bytes than asked for; an open file is a regular file that does not change while
  it is open.
\<close>

section \<open>The disk\<close>

text \<open>An open file: its bytes, the error a read or a seek at a position meets, and how many bytes
  a read at a position returns at most (at least one is returned before the end).\<close>

record file_handle =
  fh_bytes :: string
  fh_error :: "nat \<Rightarrow> string option"
  fh_seek :: "nat \<Rightarrow> string option"
  fh_short :: "nat \<Rightarrow> nat"

datatype open_outcome = OpenMissing | OpenFailed string | Opened file_handle

record 'w disk =
  dk_exists :: "string \<Rightarrow> 'w \<Rightarrow> bool"
  dk_lexists :: "string \<Rightarrow> 'w \<Rightarrow> bool"
  dk_mkdirs :: "string \<Rightarrow> 'w \<Rightarrow> 'w \<times> (string + unit)"
  dk_open :: "string \<Rightarrow> 'w \<Rightarrow> open_outcome"
  dk_create :: "string \<Rightarrow> 'w \<Rightarrow> 'w \<times> (string + unit)"
  dk_write :: "string \<Rightarrow> string \<Rightarrow> 'w \<Rightarrow> 'w \<times> (string + unit)"
  dk_flush :: "string \<Rightarrow> 'w \<Rightarrow> 'w \<times> (string + unit)"
  dk_rename :: "string \<Rightarrow> string \<Rightarrow> 'w \<Rightarrow> 'w \<times> (string + unit)"
  dk_remove :: "string \<Rightarrow> 'w \<Rightarrow> 'w \<times> (string + unit)"
  dk_symlink :: "string \<Rightarrow> string \<Rightarrow> 'w \<Rightarrow> 'w \<times> (string + unit)"
  dk_mtime :: "string \<Rightarrow> 'w \<Rightarrow> string + int"
  dk_debug :: "string \<Rightarrow> string"

definition map_io :: "'w \<times> (string + 'a) \<Rightarrow> 'w \<times> 'a res" where
  "map_io r = (case r of (w, v) \<Rightarrow> (w, map_err Io v))"

section \<open>Local paths\<close>

definition compute_local_path :: "string \<Rightarrow> string \<Rightarrow> string \<Rightarrow> string" where
  "compute_local_path remote_path remote_base local_base =
     (let base = trim_end_matches CHR ''/'' remote_base;
          relative = (if starts_with remote_path base then drop (length base) remote_path
                      else remote_path);
          relative = trim_start_matches CHR ''/'' relative
      in path_join local_base relative)"

section \<open>Reading\<close>

definition read_at :: "file_handle \<Rightarrow> nat \<Rightarrow> nat \<Rightarrow> string + string" where
  "read_at h pos space =
     (case fh_error h pos of
        Some e \<Rightarrow> Inl e
      | None \<Rightarrow> Inr (take (min space (max 1 (fh_short h pos))) (drop pos (fh_bytes h))))"

text \<open>Reading until the buffer is full or the file ends.\<close>

function fill :: "file_handle \<Rightarrow> nat \<Rightarrow> nat \<Rightarrow> string \<Rightarrow> string + string" where
  "fill h pos space buf =
     (if space = 0 then Inr buf
      else case read_at h pos space of
             Inl e \<Rightarrow> Inl e
           | Inr b \<Rightarrow> if b = [] then Inr buf
                      else fill h (pos + length b) (space - length b) (buf @ b))"
  by pat_completeness auto
termination
  by (relation "measure (\<lambda>(h, pos, space, buf). space)") auto

declare fill.simps [simp del]

text \<open>The chunks of a local file: hash to offset and length; a later chunk with the same hash
  replaces an earlier one.\<close>

lemma fill_progress:
  "fill h pos space buf = Inr b \<Longrightarrow> length b \<le> length buf + (length (fh_bytes h) - pos)"
proof (induction h pos space buf rule: fill.induct)
  case (1 h pos space buf)
  show ?case
  proof (cases "space = 0")
    case True
    with 1(2) show ?thesis by (simp add: fill.simps)
  next
    case False
    show ?thesis
    proof (cases "read_at h pos space")
      case (Inl e)
      with 1(2) False show ?thesis by (simp add: fill.simps [of h pos space])
    next
      case (Inr c)
      have len: "length c \<le> length (fh_bytes h) - pos"
        using Inr by (auto simp: read_at_def split: option.splits)
      show ?thesis
      proof (cases "c = []")
        case True
        with 1(2) Inr False show ?thesis by (simp add: fill.simps [of h pos space])
      next
        case cne: False
        with 1(2) Inr False have "fill h (pos + length c) (space - length c) (buf @ c) = Inr b"
          by (simp add: fill.simps [of h pos space])
        from 1(1) [OF False Inr cne this] len show ?thesis by simp
      qed
    qed
  qed
qed

function chunk_scan ::
  "(string \<Rightarrow> string) \<Rightarrow> string \<Rightarrow> nat \<Rightarrow> file_handle \<Rightarrow> nat \<Rightarrow> (string, nat \<times> nat) hmap \<Rightarrow>
     string + (string, nat \<times> nat) hmap" where
  "chunk_scan hash pre chunk_size h offset m =
     (case fill h offset chunk_size [] of
        Inl e \<Rightarrow> Inl e
      | Inr b \<Rightarrow>
          if b = [] then Inr m
          else
            let m' = hinsert (chunk_hash hash pre b) (offset, length b) m
            in if length b < chunk_size then Inr m'
               else chunk_scan hash pre chunk_size h (offset + length b) m')"
  by pat_completeness auto
termination
proof (relation "measure (\<lambda>(hash, pre, chunk_size, h, offset, m). length (fh_bytes h) - offset)")
  fix hash :: "string \<Rightarrow> string" and pre chunk_size h offset b
    and m m' :: "(string, nat \<times> nat) hmap"
  assume "fill h offset chunk_size [] = Inr b" "b \<noteq> []"
  then show "((hash, pre, chunk_size, h, offset + length b, m'), hash, pre, chunk_size, h, offset, m)
      \<in> measure (\<lambda>(hash, pre, chunk_size, h, offset, m). length (fh_bytes h) - offset)"
    using fill_progress [of h offset chunk_size "[]" b] by (cases b) auto
qed simp

declare chunk_scan.simps [simp del]

definition hash_local_file_chunks ::
  "(string \<Rightarrow> string) \<Rightarrow> 'w disk \<Rightarrow> string \<Rightarrow> nat \<Rightarrow> string \<Rightarrow> 'w \<Rightarrow>
     (string, nat \<times> nat) hmap res" where
  "hash_local_file_chunks hash dk path chunk_size pre w =
     (case dk_open dk path w of
        OpenMissing \<Rightarrow> Inr []
      | OpenFailed e \<Rightarrow> Inl (Io e)
      | Opened h \<Rightarrow> map_err Io (chunk_scan hash pre chunk_size h 0 []))"

section \<open>Assembling\<close>

definition tmp_path_of :: "string \<Rightarrow> string" where
  "tmp_path_of p = p @ ''.aeordb-pull.tmp''"

text \<open>\<open>read_exact\<close> after a seek.\<close>

definition read_chunk_at :: "file_handle \<Rightarrow> nat \<times> nat \<Rightarrow> string res" where
  "read_chunk_at h c =
     (case fh_seek h (fst c) of
        Some e \<Rightarrow> Inl (Io e)
      | None \<Rightarrow>
          and_then (map_err Io (fill h (fst c) (snd c) [])) (\<lambda>b.
            if length b < snd c then Inl (Io ''failed to fill whole buffer'') else Inr b))"

text \<open>The bytes of one chunk, from the open local file or from the fetched chunks.  The flag of an
  error tells whether the temporary file is cleaned up.\<close>

definition chunk_source ::
  "file_handle option \<Rightarrow> (string, nat \<times> nat) hmap \<Rightarrow> (string, string) hmap \<Rightarrow> string \<Rightarrow>
     (client_error \<times> bool) + string" where
  "chunk_source reader local_chunks fetched h =
     (case hget local_chunks h of
        Some c \<Rightarrow>
          (case reader of
             None \<Rightarrow>
               Inl (Server ''internal: local_chunks non-empty but local file not open'', False)
           | Some f \<Rightarrow> map_err (\<lambda>e. (e, True)) (read_chunk_at f c))
      | None \<Rightarrow>
          (case hget fetched h of
             Some bytes \<Rightarrow> Inr bytes
           | None \<Rightarrow>
               Inl (Server (''chunk '' @ h @ '' missing from both local and fetched sets''), True)))"

fun assemble_loop ::
  "'w disk \<Rightarrow> string \<Rightarrow> file_handle option \<Rightarrow> (string, nat \<times> nat) hmap \<Rightarrow>
     (string, string) hmap \<Rightarrow> string list \<Rightarrow> nat \<times> string \<Rightarrow> 'w \<Rightarrow>
     'w \<times> ((client_error \<times> bool) + (nat \<times> string))" where
  "assemble_loop dk tmp reader local_chunks fetched [] acc w = (w, Inr acc)"
| "assemble_loop dk tmp reader local_chunks fetched (h # hs) (tot, hasher) w =
     (case chunk_source reader local_chunks fetched h of
        Inl e \<Rightarrow> (w, Inl e)
      | Inr bytes \<Rightarrow>
          (case dk_write dk tmp bytes w of
             (w1, Inl e) \<Rightarrow> (w1, Inl (Io e, True))
           | (w1, Inr _) \<Rightarrow>
               assemble_loop dk tmp reader local_chunks fetched hs
                 (tot + length bytes, hasher @ bytes) w1))"

text \<open>The clean-up of the temporary file runs in a task of its own whose outcome is ignored; here it
  runs at once.\<close>

definition fail_assembly ::
  "'w disk \<Rightarrow> string \<Rightarrow> client_error \<times> bool \<Rightarrow> 'w \<Rightarrow> 'w \<times> 'a res" where
  "fail_assembly dk tmp e w = ((if snd e then fst (dk_remove dk tmp w) else w), Inl (fst e))"

definition assemble_file ::
  "(string \<Rightarrow> string) \<Rightarrow> 'w disk \<Rightarrow> string list \<Rightarrow> string \<Rightarrow> (string, nat \<times> nat) hmap \<Rightarrow>
     (string, string) hmap \<Rightarrow> 'w \<Rightarrow> 'w \<times> (nat \<times> string) res" where
  "assemble_file hash dk chunk_hashes local_path local_chunks fetched w =
     (let tmp = tmp_path_of local_path
      in case (if local_chunks = [] then Inr None
               else case dk_open dk local_path w of
                      Opened h \<Rightarrow> Inr (Some h) | OpenMissing \<Rightarrow> Inr None | OpenFailed e \<Rightarrow> Inl e) of
           Inl e \<Rightarrow> (w, Inl (Io e))
         | Inr reader \<Rightarrow>
             (case dk_create dk tmp w of
                (w1, Inl e) \<Rightarrow> (w1, Inl (Io e))
              | (w1, Inr _) \<Rightarrow>
                  (case assemble_loop dk tmp reader local_chunks fetched chunk_hashes (0, []) w1 of
                     (w2, Inl e) \<Rightarrow> fail_assembly dk tmp e w2
                   | (w2, Inr (tot, hasher)) \<Rightarrow>
                       (case dk_flush dk tmp w2 of
                          (w3, Inl e) \<Rightarrow> fail_assembly dk tmp (Io e, True) w3
                        | (w3, Inr _) \<Rightarrow>
                            (case dk_rename dk tmp local_path w3 of
                               (w4, Inl e) \<Rightarrow> fail_assembly dk tmp (Io e, True) w4
                             | (w4, Inr _) \<Rightarrow> (w4, Inr (tot, hash hasher)))))))"

section \<open>Lemmas: short reads do not show\<close>

definition readable :: "file_handle \<Rightarrow> bool" where
  "readable h \<longleftrightarrow> (\<forall>p. fh_error h p = None \<and> fh_seek h p = None)"

lemma fill_result:
  assumes "fill h pos space buf = Inr b"
  shows "b = buf @ take space (drop pos (fh_bytes h))"
  using assms
proof (induction h pos space buf rule: fill.induct)
  case (1 h pos space buf)
  show ?case
  proof (cases "space = 0")
    case True
    with 1(2) show ?thesis by (simp add: fill.simps)
  next
    case False
    then obtain c where c: "read_at h pos space = Inr c"
      using 1(2) by (cases "read_at h pos space") (simp_all add: fill.simps [of h pos space])
    then have cb: "c = take (min space (max 1 (fh_short h pos))) (drop pos (fh_bytes h))"
      by (auto simp: read_at_def split: option.splits)
    show ?thesis
    proof (cases "c = []")
      case True
      with cb False have "drop pos (fh_bytes h) = []" by auto
      with 1(2) c False True show ?thesis by (simp add: fill.simps [of h pos space])
    next
      case ne: False
      with 1(2) c False have "fill h (pos + length c) (space - length c) (buf @ c) = Inr b"
        by (simp add: fill.simps [of h pos space])
      from 1(1) [OF False c ne this]
      have b: "b = buf @ c @ take (space - length c) (drop (pos + length c) (fh_bytes h))" by simp
      have "c = take (length c) (drop pos (fh_bytes h))" "length c \<le> space"
        using cb by (auto simp: min_def)
      then have "c @ take (space - length c) (drop (pos + length c) (fh_bytes h)) =
          take (length c + (space - length c)) (drop pos (fh_bytes h))"
        unfolding take_add drop_drop by (simp add: add.commute)
      with b \<open>length c \<le> space\<close> show ?thesis by simp
    qed
  qed
qed

lemma fill_readable: "readable h \<Longrightarrow> \<exists>b. fill h pos space buf = Inr b"
proof (induction h pos space buf rule: fill.induct)
  case (1 h pos space buf)
  show ?case
  proof (cases "space = 0")
    case True
    then show ?thesis by (simp add: fill.simps)
  next
    case False
    obtain c where c: "read_at h pos space = Inr c"
      using 1(2) by (auto simp: readable_def read_at_def)
    with 1(1) [OF False c] 1(2) False show ?thesis
      by (cases "c = []") (simp_all add: fill.simps [of h pos space])
  qed
qed

text \<open>What is known of a chunk of a file: the bytes at its range have its hash.\<close>

definition chunks_hold :: "(string \<Rightarrow> string) \<Rightarrow> string \<Rightarrow> string \<Rightarrow> (string, nat \<times> nat) hmap \<Rightarrow> bool" where
  "chunks_hold hash pre bytes m \<longleftrightarrow>
     (\<forall>h c. hget m h = Some c \<longrightarrow>
        fst c + snd c \<le> length bytes \<and> chunk_hash hash pre (take (snd c) (drop (fst c) bytes)) = h)"

lemma chunk_scan_holds:
  "chunk_scan hash pre cs h offset m = Inr m' \<Longrightarrow> chunks_hold hash pre (fh_bytes h) m \<Longrightarrow>
    chunks_hold hash pre (fh_bytes h) m'"
proof (induction hash pre cs h offset m rule: chunk_scan.induct)
  case (1 hash pre cs h offset m)
  then obtain b where b: "fill h offset cs [] = Inr b"
    by (cases "fill h offset cs []") (simp_all add: chunk_scan.simps [of hash pre cs h offset])
  show ?case
  proof (cases "b = []")
    case True
    with 1(2,3) b show ?thesis by (simp add: chunk_scan.simps [of hash pre cs h offset])
  next
    case False
    let ?m = "hinsert (chunk_hash hash pre b) (offset, length b) m"
    have bb: "b = take cs (drop offset (fh_bytes h))" using fill_result [OF b] by simp
    with False have "offset + length b \<le> length (fh_bytes h)" by auto
    moreover have "take (length b) (drop offset (fh_bytes h)) = b" using bb by (simp add: min_def)
    ultimately have step: "chunks_hold hash pre (fh_bytes h) ?m"
      using 1(3) by (auto simp: chunks_hold_def update_conv)
    show ?thesis
    proof (cases "length b < cs")
      case True
      with 1(2) b False step show ?thesis by (simp add: chunk_scan.simps [of hash pre cs h offset])
    next
      case full: False
      with 1(2) b False have "chunk_scan hash pre cs h (offset + length b) ?m = Inr m'"
        by (simp add: chunk_scan.simps [of hash pre cs h offset])
      from 1(1) [OF b False refl full this step] show ?thesis .
    qed
  qed
qed

lemma local_chunks_hold:
  assumes "dk_open dk p w = Opened h" "hash_local_file_chunks hash dk p cs pre w = Inr m"
  shows "chunks_hold hash pre (fh_bytes h) m"
proof -
  from assms have "chunk_scan hash pre cs h 0 [] = Inr m"
    by (auto simp: hash_local_file_chunks_def map_err_def split: sum.splits)
  then show ?thesis by (rule chunk_scan_holds) (simp add: chunks_hold_def)
qed

lemma read_chunk_holds:
  assumes "chunks_hold hash pre (fh_bytes f) m" "hget m h = Some c" "read_chunk_at f c = Inr b"
  shows "chunk_hash hash pre b = h"
proof -
  from assms(3) obtain d where "fill f (fst c) (snd c) [] = Inr d" "b = d"
    by (cases "fill f (fst c) (snd c) []")
      (auto simp: read_chunk_at_def split: option.splits if_splits)
  with fill_result [of f "fst c" "snd c" "[]"] assms(1,2) show ?thesis
    by (auto simp: chunks_hold_def)
qed

section \<open>What the code relies on\<close>

text \<open>The effect of the file operations that succeed on the contents \<open>view\<close> of the disk.\<close>

definition disk_ok :: "'w disk \<Rightarrow> ('w \<Rightarrow> string \<Rightarrow> string option) \<Rightarrow> bool" where
  "disk_ok dk view \<longleftrightarrow>
     (\<forall>p w h. dk_open dk p w = Opened h \<longrightarrow> view w p = Some (fh_bytes h)) \<and>
     (\<forall>p w w' u. dk_create dk p w = (w', Inr u) \<longrightarrow> view w' = (view w)(p \<mapsto> [])) \<and>
     (\<forall>p b c w w' u. dk_write dk p b w = (w', Inr u) \<longrightarrow> view w p = Some c \<longrightarrow>
        view w' = (view w)(p \<mapsto> c @ b)) \<and>
     (\<forall>p w w' u. dk_flush dk p w = (w', Inr u) \<longrightarrow> view w' = view w) \<and>
     (\<forall>p q w w' u. dk_rename dk p q w = (w', Inr u) \<longrightarrow>
        view w' = (view w)(p := None, q := view w p))"

lemma disk_create: "disk_ok dk view \<Longrightarrow> dk_create dk p w = (w', Inr u) \<Longrightarrow> view w' = (view w)(p \<mapsto> [])"
  by (auto simp: disk_ok_def)

lemma disk_write: "disk_ok dk view \<Longrightarrow> dk_write dk p b w = (w', Inr u) \<Longrightarrow> view w p = Some c \<Longrightarrow>
    view w' = (view w)(p \<mapsto> c @ b)"
  by (auto simp: disk_ok_def)

lemma disk_flush: "disk_ok dk view \<Longrightarrow> dk_flush dk p w = (w', Inr u) \<Longrightarrow> view w' = view w"
  by (auto simp: disk_ok_def)

lemma disk_rename: "disk_ok dk view \<Longrightarrow> dk_rename dk p q w = (w', Inr u) \<Longrightarrow>
    view w' = (view w)(p := None, q := view w p)"
  by (auto simp: disk_ok_def)

section \<open>Lemmas: assembling\<close>

text \<open>The fetched chunks are what the server says they are.\<close>

definition honest :: "(string \<Rightarrow> string) \<Rightarrow> string \<Rightarrow> (string, string) hmap \<Rightarrow> bool" where
  "honest hash pre fetched \<longleftrightarrow> (\<forall>h b. hget fetched h = Some b \<longrightarrow> chunk_hash hash pre b = h)"

lemma chunk_source_hash:
  assumes "case reader of Some f \<Rightarrow> chunks_hold hash pre (fh_bytes f) local_chunks | None \<Rightarrow> True"
    and "honest hash pre fetched" "chunk_source reader local_chunks fetched h = Inr b"
  shows "chunk_hash hash pre b = h"
proof (cases "hget local_chunks h")
  case None
  with assms(2,3) show ?thesis by (auto simp: chunk_source_def honest_def split: option.splits)
next
  case (Some c)
  with assms(3) obtain f where f: "reader = Some f" "read_chunk_at f c = Inr b"
    by (auto simp: chunk_source_def map_err_def split: option.splits sum.splits)
  with assms(1) Some show ?thesis by (auto intro: read_chunk_holds)
qed

lemma assemble_loop_spec:
  assumes disk: "disk_ok dk view"
    and src: "\<And>h b. chunk_source reader local_chunks fetched h = Inr b \<Longrightarrow> chunk_hash hash pre b = h"
  shows "assemble_loop dk tmp reader local_chunks fetched hs (n, hasher) w = (w', Inr (n', hasher')) \<Longrightarrow>
    view w tmp = Some hasher \<Longrightarrow>
    \<exists>bs. map (chunk_hash hash pre) bs = hs \<and> hasher' = hasher @ concat bs \<and>
      n' = n + length (concat bs) \<and> view w' tmp = Some hasher'"
proof (induction hs arbitrary: n hasher w)
  case Nil
  then show ?case by simp
next
  case (Cons h hs)
  from Cons.prems(1) obtain b where b: "chunk_source reader local_chunks fetched h = Inr b"
    by (cases "chunk_source reader local_chunks fetched h") simp_all
  with Cons.prems(1) obtain w1 u where wr: "dk_write dk tmp b w = (w1, Inr u)"
    and rest: "assemble_loop dk tmp reader local_chunks fetched hs (n + length b, hasher @ b) w1 =
      (w', Inr (n', hasher'))"
    by (auto split: prod.splits sum.splits)
  have "view w1 tmp = Some (hasher @ b)"
    using disk_write [OF disk wr Cons.prems(2)] by simp
  from Cons.IH [OF rest this] obtain bs where "map (chunk_hash hash pre) bs = hs"
    "hasher' = (hasher @ b) @ concat bs" "n' = n + length b + length (concat bs)"
    "view w' tmp = Some hasher'" by blast
  with src [OF b] show ?case by (intro exI [of _ "b # bs"]) simp
qed

lemma tmp_other: "tmp_path_of p \<noteq> p"
  by (simp add: tmp_path_of_def)

lemma assemble_file_spec:
  assumes disk: "disk_ok dk view" and honest: "honest hash pre fetched"
    and local_ok: "\<And>f. dk_open dk p w = Opened f \<Longrightarrow> chunks_hold hash pre (fh_bytes f) local_chunks"
    and run: "assemble_file hash dk hs p local_chunks fetched w = (w', Inr (n, ch))"
  shows "\<exists>bs. map (chunk_hash hash pre) bs = hs \<and> n = length (concat bs) \<and>
    ch = hash (concat bs) \<and> view w' p = Some (concat bs) \<and> view w' (tmp_path_of p) = None"
proof -
  let ?tmp = "tmp_path_of p"
  let ?open = "if local_chunks = [] then Inr None
    else case dk_open dk p w of
      Opened h \<Rightarrow> Inr (Some h) | OpenMissing \<Rightarrow> Inr None | OpenFailed e \<Rightarrow> Inl e"
  from run obtain reader where reader: "?open = Inr reader"
    by (cases ?open) (auto simp: assemble_file_def Let_def)
  have rd: "case reader of Some f \<Rightarrow> chunks_hold hash pre (fh_bytes f) local_chunks | None \<Rightarrow> True"
    using reader local_ok by (auto split: if_splits open_outcome.splits)
  from run reader obtain w1 u1 w2 hasher w3 u3 u4 where
    mk: "dk_create dk ?tmp w = (w1, Inr u1)" and
    loop: "assemble_loop dk ?tmp reader local_chunks fetched hs (0, []) w1 = (w2, Inr (n, hasher))" and
    fl: "dk_flush dk ?tmp w2 = (w3, Inr u3)" and
    mv: "dk_rename dk ?tmp p w3 = (w', Inr u4)" and ch: "ch = hash hasher"
    by (auto simp: assemble_file_def Let_def fail_assembly_def split: prod.splits sum.splits)
  have "view w1 ?tmp = Some []" using disk_create [OF disk mk] by simp
  from assemble_loop_spec [OF disk chunk_source_hash [OF rd honest] loop this]
  obtain bs where "map (chunk_hash hash pre) bs = hs" "hasher = concat bs"
    "n = length (concat bs)" "view w2 ?tmp = Some hasher" by auto
  with disk_flush [OF disk fl] disk_rename [OF disk mv] ch tmp_other [of p] show ?thesis
    by (intro exI [of _ bs]) auto
qed

section \<open>A disk in memory\<close>

text \<open>Files as a map; an instance of \<open>disk_ok\<close> for the examples.  A read returns one byte.\<close>

definition mem_disk :: "(string, string) hmap disk" where
  "mem_disk =
     \<lparr>dk_exists = (\<lambda>p w. hget w p \<noteq> None), dk_lexists = (\<lambda>p w. hget w p \<noteq> None),
      dk_mkdirs = (\<lambda>p w. (w, Inr ())),
      dk_open = (\<lambda>p w. case hget w p of None \<Rightarrow> OpenMissing
        | Some b \<Rightarrow> Opened \<lparr>fh_bytes = b, fh_error = (\<lambda>p. None), fh_seek = (\<lambda>p. None), fh_short = (\<lambda>p. 1)\<rparr>),
      dk_create = (\<lambda>p w. (hinsert p [] w, Inr ())),
      dk_write = (\<lambda>p b w. case hget w p of None \<Rightarrow> (w, Inl ''not open'')
        | Some c \<Rightarrow> (hinsert p (c @ b) w, Inr ())),
      dk_flush = (\<lambda>p w. (w, Inr ())),
      dk_rename = (\<lambda>p q w. case hget w p of None \<Rightarrow> (w, Inl ''not found'')
        | Some c \<Rightarrow> (hinsert q c (hremove p w), Inr ())),
      dk_remove = (\<lambda>p w. (hremove p w, Inr ())),
      dk_symlink = (\<lambda>t p w. (w, Inr ())), dk_mtime = (\<lambda>p w. Inr 5), dk_debug = (\<lambda>p. p)\<rparr>"

lemma mem_disk_ok: "disk_ok mem_disk hget"
  by (auto simp: disk_ok_def mem_disk_def update_conv fun_eq_iff split: option.splits)

section \<open>Properties\<close>

text \<open>C19. An assembled file is the file the server described.  When the chunks kept from the old
  local file were found by hashing it and the fetched chunks are what the server says, a
  successful assembly leaves at the path content made of pieces whose chunk hashes are the
  listed ones in order, reports its size and hash, and leaves no temporary file; short reads,
  reused chunks and repeated chunks make no difference.\<close>

theorem assembled_file_is_the_remote_one:
  assumes "disk_ok dk view" "honest hash pre fetched"
    and "hash_local_file_chunks hash dk p cs pre w = Inr local_chunks"
    and "assemble_file hash dk hs p local_chunks fetched w = (w', Inr (n, ch))"
  shows "\<exists>bs. map (chunk_hash hash pre) bs = hs \<and> n = length (concat bs) \<and>
    ch = hash (concat bs) \<and> view w' p = Some (concat bs) \<and> view w' (tmp_path_of p) = None"
  by (rule assemble_file_spec [OF assms(1,2) _ assms(4)]) (rule local_chunks_hold [OF _ assms(3)])

definition plain_hash :: "string \<Rightarrow> string" where
  "plain_hash s = CHR ''h'' # s"

lemma assembled_file_is_the_remote_one_witness:
  "\<exists>bs. map (chunk_hash plain_hash ''c:'') bs = [''hc:ab'', ''hc:cd''] \<and>
     snd (assemble_file plain_hash mem_disk [''hc:ab'', ''hc:cd''] ''/l/a''
       [(''hc:ab'', (0, 2)), (''hc:xy'', (2, 2))] [(''hc:cd'', ''cd'')] [(''/l/a'', ''abxy'')]) =
       Inr (4, plain_hash (concat bs))"
proof -
  let ?lc = "[(''hc:ab'', (0, 2)), (''hc:xy'', (2, 2))]"
  have h: "hash_local_file_chunks plain_hash mem_disk ''/l/a'' 2 ''c:'' [(''/l/a'', ''abxy'')] = Inr ?lc"
    by code_simp
  have a: "assemble_file plain_hash mem_disk [''hc:ab'', ''hc:cd''] ''/l/a'' ?lc
       [(''hc:cd'', ''cd'')] [(''/l/a'', ''abxy'')] = ([(''/l/a'', ''abcd'')], Inr (4, ''habcd''))"
    by code_simp
  have "honest plain_hash ''c:'' [(''hc:cd'', ''cd'')]"
    by (auto simp: honest_def chunk_hash_def plain_hash_def split: if_splits)
  from assembled_file_is_the_remote_one [OF mem_disk_ok this h a] obtain bs
    where "map (chunk_hash plain_hash ''c:'') bs = [''hc:ab'', ''hc:cd'']" "''habcd'' = plain_hash (concat bs)"
    by (elim exE conjE)
  then show ?thesis unfolding a by (intro exI [of _ bs]) simp
qed

text \<open>Hashing a local file does not depend on how the system splits the reads: every range it
  records holds bytes of that hash.\<close>

theorem local_chunks_are_true:
  assumes "dk_open dk p w = Opened h" "hash_local_file_chunks hash dk p cs pre w = Inr m"
    and "hget m k = Some c"
  shows "fst c + snd c \<le> length (fh_bytes h) \<and>
    chunk_hash hash pre (take (snd c) (drop (fst c) (fh_bytes h))) = k"
  using local_chunks_hold [OF assms(1,2)] assms(3) by (simp add: chunks_hold_def)

lemma local_chunks_are_true_witness:
  "chunk_hash plain_hash ''c:'' (take 2 (drop 2 ''abxy'')) = ''hc:xy''"
proof -
  have "hash_local_file_chunks plain_hash mem_disk ''/l/a'' 2 ''c:'' [(''/l/a'', ''abxy'')] =
      Inr [(''hc:ab'', (0, 2)), (''hc:xy'', (2, 2))]" by code_simp
  from local_chunks_are_true [OF _ this, of _ "''hc:xy''" "(2, 2)"] show ?thesis
    by (simp add: mem_disk_def)
qed

end
