(* ===== verification/Pull.thy ===== *)
theory Pull
  imports Pull_Files Relationships File_Filter
begin

text \<open>
  \<open>pull_sync\<close> (\<open>sync/pull.rs\<close>) and the answer of \<open>/sync/diff\<close> (\<open>sync/replication.rs\<close>): the plan
  of every changed file, the fetch of the missing chunks in batches, the assembly, the deletions,
  the symlinks and the new checkpoint.  Server and disk are parts of one world; a step returns
  the state it leaves, and only the question marks of the code end a pull with an error.
\<close>

section \<open>The answer of the server\<close>

record sync_file_entry =
  se_path :: string
  se_hash :: string
  se_size :: nat
  se_content_type :: "string option"
  se_chunk_hashes :: "string list"

record sync_symlink_entry =
  ye_path :: string
  ye_hash :: string
  ye_target :: string

record sync_changes =
  sc_files_added :: "sync_file_entry list"
  sc_files_modified :: "sync_file_entry list"
  sc_files_deleted :: "string list"
  sc_symlinks_added :: "sync_symlink_entry list"
  sc_symlinks_modified :: "sync_symlink_entry list"
  sc_symlinks_deleted :: "string list"

record sync_diff =
  sd_root_hash :: string
  sd_changes :: sync_changes

definition file_entry_of_json :: "json \<Rightarrow> sync_file_entry option" where
  "file_entry_of_json j =
     (case (field as_str j ''path'', field as_str j ''hash'', field as_u64 j ''size'',
            opt_field as_str j ''content_type'', list_field as_str j ''chunk_hashes'') of
        (Some p, Some h, Some n, Some t, Some cs) \<Rightarrow>
          Some \<lparr>se_path = p, se_hash = h, se_size = n, se_content_type = t, se_chunk_hashes = cs\<rparr>
      | _ \<Rightarrow> None)"

definition symlink_entry_of_json :: "json \<Rightarrow> sync_symlink_entry option" where
  "symlink_entry_of_json j =
     (case (field as_str j ''path'', field as_str j ''hash'', field as_str j ''target'') of
        (Some p, Some h, Some t) \<Rightarrow> Some \<lparr>ye_path = p, ye_hash = h, ye_target = t\<rparr>
      | _ \<Rightarrow> None)"

definition deleted_entry_of_json :: "json \<Rightarrow> string option" where
  "deleted_entry_of_json j = field as_str j ''path''"

definition changes_of_json :: "json \<Rightarrow> sync_changes option" where
  "changes_of_json j =
     (case (list_field file_entry_of_json j ''files_added'',
            list_field file_entry_of_json j ''files_modified'',
            list_field deleted_entry_of_json j ''files_deleted'',
            list_field symlink_entry_of_json j ''symlinks_added'',
            list_field symlink_entry_of_json j ''symlinks_modified'',
            list_field deleted_entry_of_json j ''symlinks_deleted'') of
        (Some a, Some m, Some d, Some sa, Some sm, Some sd) \<Rightarrow>
          Some \<lparr>sc_files_added = a, sc_files_modified = m, sc_files_deleted = d,
                sc_symlinks_added = sa, sc_symlinks_modified = sm, sc_symlinks_deleted = sd\<rparr>
      | _ \<Rightarrow> None)"

definition diff_of_json :: "json \<Rightarrow> sync_diff option" where
  "diff_of_json j =
     (case (field as_str j ''root_hash'', Option.bind (jget j ''changes'') changes_of_json) of
        (Some h, Some c) \<Rightarrow> Some \<lparr>sd_root_hash = h, sd_changes = c\<rparr>
      | _ \<Rightarrow> None)"

definition fetch_remote_diff ::
  "'w net \<Rightarrow> remote_connection \<Rightarrow> string option \<Rightarrow> 'w cstate \<Rightarrow> 'w cstate \<times> sync_diff res" where
  "fetch_remote_diff n connection since s =
     (let c = from_connection_cached connection;
          body = JObj [(''since_root_hash'', case since of Some h \<Rightarrow> JStr h | None \<Rightarrow> JNull)]
      in then_st (map_send (\<lambda>e. Server (''sync/diff request failed: '' @ send_error_text e))
           (authed_send n c (mk_request POST (base_url connection @ ''/sync/diff'') (JsonBody body)) s))
         (\<lambda>s1 r. lift_st s1
           (and_then (require_success_server (''sync/diff returned HTTP '' @
                net_status n (rs_status r) @ '': '' @ body_text r) r) (\<lambda>r.
              and_then (map_err (\<lambda>e. Server (''failed to parse sync/diff response: '' @ e))
                          (response_json n r)) (\<lambda>j.
              ok_or (Server ''failed to parse sync/diff response: shape'') (diff_of_json j))))))"

section \<open>The state of a pull\<close>

record 'w pull_env =
  pv_remote :: "'w remote_ops"
  pv_diff :: "string option \<Rightarrow> 'w \<Rightarrow> 'w \<times> sync_diff res"
  pv_disk :: "'w disk"
  pv_now :: "'w \<Rightarrow> int"
  pv_hash :: "string \<Rightarrow> string"
  pv_glob :: "string \<Rightarrow> string \<Rightarrow> bool"
  pv_order :: "string list \<Rightarrow> string list"

record file_plan =
  fp_entry :: sync_file_entry
  fp_local_path :: string
  fp_local_chunks :: "(string, nat \<times> nat) hmap"

record ('w, 'e) pull_state =
  pl_world :: 'w
  pl_store :: 'e
  pl_pulled :: nat
  pl_skipped :: nat
  pl_failed :: nat
  pl_deleted :: nat
  pl_links :: nat
  pl_bytes :: nat
  pl_errors :: "string list"
  pl_plans :: "file_plan list"
  pl_needed :: "(string, unit) hmap"

record ('w, 'e) pull_ctx =
  pc_env :: "'w pull_env"
  pc_engine :: "'e engine"
  pc_rel :: sync_relationship
  pc_config :: blob_config
  pc_exclusions :: "string list"

definition pull_error :: "string \<Rightarrow> ('w, 'e) pull_state \<Rightarrow> ('w, 'e) pull_state" where
  "pull_error m st = st\<lparr>pl_errors := pl_errors st @ [m]\<rparr>"

definition pull_failure :: "string \<Rightarrow> ('w, 'e) pull_state \<Rightarrow> ('w, 'e) pull_state" where
  "pull_failure m st = (pull_error m st)\<lparr>pl_failed := pl_failed st + 1\<rparr>"

definition local_of :: "('w, 'e) pull_ctx \<Rightarrow> string \<Rightarrow> string" where
  "local_of x p = compute_local_path p (sr_remote_path (pc_rel x)) (sr_local_path (pc_rel x))"

text \<open>\<open>create_dir_all\<close> of the parent, when there is one.\<close>

definition make_parent :: "('w, 'e) pull_ctx \<Rightarrow> string \<Rightarrow> 'w \<Rightarrow> 'w \<times> (string + unit)" where
  "make_parent x p w =
     (case path_parent p of
        None \<Rightarrow> (w, Inr ()) | Some parent \<Rightarrow> dk_mkdirs (pv_disk (pc_env x)) parent w)"

section \<open>Planning\<close>

definition plan_entry ::
  "('w, 'e) pull_ctx \<Rightarrow> sync_file_entry \<Rightarrow> ('w, 'e) pull_state \<Rightarrow> ('w, 'e) pull_state" where
  "plan_entry x entry st =
     (if is_excluded_by_child (se_path entry) (pc_exclusions x)
      then st\<lparr>pl_skipped := pl_skipped st + 1\<rparr>
      else
        let env = pc_env x;
            filename = (case path_file_name (se_path entry) of Some n \<Rightarrow> n | None \<Rightarrow> [])
        in if \<not> matches_filter (pv_glob env) filename (sr_filter (pc_rel x))
           then st\<lparr>pl_skipped := pl_skipped st + 1\<rparr>
           else
             let p = local_of x (se_path entry)
             in case make_parent x p (pl_world st) of
                  (w, Inl e) \<Rightarrow>
                    pull_failure (''failed to create parent directory for '' @
                      dk_debug (pv_disk env) p @ '': '' @ e) (st\<lparr>pl_world := w\<rparr>)
                | (w, Inr _) \<Rightarrow>
                    (let chunks = (case hash_local_file_chunks (pv_hash env) (pv_disk env) p
                                     (bc_chunk_size (pc_config x))
                                     (bc_chunk_hash_prefix (pc_config x)) w of
                                     Inr m \<Rightarrow> m | Inl _ \<Rightarrow> [])
                     in st\<lparr>pl_world := w,
                           pl_needed := fold (\<lambda>h m. if hget chunks h = None then hinsert h () m else m)
                             (se_chunk_hashes entry) (pl_needed st),
                           pl_plans := pl_plans st @
                             [\<lparr>fp_entry = entry, fp_local_path = p, fp_local_chunks = chunks\<rparr>]\<rparr>))"

section \<open>Fetching\<close>

definition sync_chunks_batch :: nat where "sync_chunks_batch = 2000"

text \<open>The batches until the first error.\<close>

fun fetch_batches ::
  "'w remote_ops \<Rightarrow> string list list \<Rightarrow> (string, string) hmap \<Rightarrow> 'w \<Rightarrow>
     'w \<times> (string, string) hmap \<times> string option" where
  "fetch_batches ro [] fetched w = (w, fetched, None)"
| "fetch_batches ro (b # bs) fetched w =
     (case ro_sync_chunks ro b w of
        (w1, Inr pairs) \<Rightarrow> fetch_batches ro bs (fold (\<lambda>(h, v). hinsert h v) pairs fetched) w1
      | (w1, Inl e) \<Rightarrow> (w1, fetched, Some (''sync_chunks failed: '' @ error_text e)))"

section \<open>Writing\<close>

definition store_pulled ::
  "('w, 'e) pull_ctx \<Rightarrow> string \<Rightarrow> file_sync_meta \<Rightarrow> ('w, 'e) pull_state \<Rightarrow> ('w, 'e) pull_state" where
  "store_pulled x message m st =
     (case set_file_meta (pc_engine x) (pv_hash (pc_env x)) (sr_id (pc_rel x)) m (pl_store st) of
        (e, Inr _) \<Rightarrow> st\<lparr>pl_store := e\<rparr>
      | (e, Inl error) \<Rightarrow> pull_error (message @ error_text error) (st\<lparr>pl_store := e\<rparr>))"

definition pulled_meta :: "string \<Rightarrow> string \<Rightarrow> nat \<Rightarrow> int \<Rightarrow> int \<Rightarrow> file_sync_meta" where
  "pulled_meta path content_hash size' mtime now =
     \<lparr>fm_path = path, fm_content_hash = content_hash, fm_size = size', fm_modified_at = mtime,
      fm_sync_status = Synced, fm_last_synced_at = now\<rparr>"

definition pull_file ::
  "('w, 'e) pull_ctx \<Rightarrow> (string, string) hmap \<Rightarrow> string option \<Rightarrow> file_plan \<Rightarrow>
     ('w, 'e) pull_state \<Rightarrow> ('w, 'e) pull_state" where
  "pull_file x fetched fetch_error plan st =
     (let env = pc_env x; path = se_path (fp_entry plan)
      in case fetch_error of
           Some err \<Rightarrow> pull_failure (''skipping '' @ path @ '' ('' @ err @ '')'') st
         | None \<Rightarrow>
             (case assemble_file (pv_hash env) (pv_disk env) (se_chunk_hashes (fp_entry plan))
                     (fp_local_path plan) (fp_local_chunks plan) fetched (pl_world st) of
                (w, Inl error) \<Rightarrow>
                  pull_failure (''failed to assemble '' @ path @ '': '' @ error_text error)
                    (st\<lparr>pl_world := w\<rparr>)
              | (w, Inr (file_size, content_hash)) \<Rightarrow>
                  (let now = pv_now env w;
                       mtime = (case dk_mtime (pv_disk env) (fp_local_path plan) w of
                                  Inr t \<Rightarrow> t | Inl _ \<Rightarrow> now);
                       st1 = store_pulled x (''failed to store metadata for '' @ path @ '': '')
                               (pulled_meta path content_hash file_size mtime now)
                               (st\<lparr>pl_world := w\<rparr>)
                   in st1\<lparr>pl_pulled := pl_pulled st1 + 1, pl_bytes := pl_bytes st1 + file_size\<rparr>)))"

text \<open>A deletion the server reports.  The file test of a deleted file follows symlinks, that of a
  deleted symlink does not.\<close>

definition drop_pulled ::
  "('w, 'e) pull_ctx \<Rightarrow> string \<Rightarrow> string \<Rightarrow> ('w, 'e) pull_state \<Rightarrow> ('w, 'e) pull_state" where
  "drop_pulled x message path st =
     (case delete_file_meta (pc_engine x) (pv_hash (pc_env x)) (sr_id (pc_rel x)) path (pl_store st) of
        (e, Inr _) \<Rightarrow> st\<lparr>pl_store := e, pl_deleted := pl_deleted st + 1\<rparr>
      | (e, Inl error) \<Rightarrow>
          (pull_error (message @ path @ '': '' @ error_text error) (st\<lparr>pl_store := e\<rparr>))
            \<lparr>pl_deleted := pl_deleted st + 1\<rparr>)"

definition pull_deleted ::
  "('w, 'e) pull_ctx \<Rightarrow> (string \<Rightarrow> 'w \<Rightarrow> bool) \<Rightarrow> string \<Rightarrow> string \<Rightarrow> string \<Rightarrow>
     ('w, 'e) pull_state \<Rightarrow> ('w, 'e) pull_state" where
  "pull_deleted x present what meta_message path st =
     (if is_excluded_by_child path (pc_exclusions x) then st
      else
        let dk = pv_disk (pc_env x); p = local_of x path
        in if present p (pl_world st) then
             (case dk_remove dk p (pl_world st) of
                (w, Inl e) \<Rightarrow>
                  pull_failure (what @ dk_debug dk p @ '': '' @ e) (st\<lparr>pl_world := w\<rparr>)
              | (w, Inr _) \<Rightarrow> drop_pulled x meta_message path (st\<lparr>pl_world := w\<rparr>))
           else drop_pulled x meta_message path st)"

definition pull_symlink ::
  "('w, 'e) pull_ctx \<Rightarrow> sync_symlink_entry \<Rightarrow> ('w, 'e) pull_state \<Rightarrow> ('w, 'e) pull_state" where
  "pull_symlink x entry st =
     (if is_excluded_by_child (ye_path entry) (pc_exclusions x) then st
      else
        let env = pc_env x; dk = pv_disk env; p = local_of x (ye_path entry)
        in case make_parent x p (pl_world st) of
             (w, Inl e) \<Rightarrow>
               pull_failure (''failed to create parent directory for symlink '' @ dk_debug dk p @
                 '': '' @ e) (st\<lparr>pl_world := w\<rparr>)
           | (w, Inr _) \<Rightarrow>
               (let w1 = (if dk_lexists dk p w then fst (dk_remove dk p w) else w)
                in case dk_symlink dk (ye_target entry) p w1 of
                     (w2, Inl e) \<Rightarrow>
                       pull_failure (''failed to create symlink '' @ dk_debug dk p @ '': '' @ e)
                         (st\<lparr>pl_world := w2\<rparr>)
                   | (w2, Inr _) \<Rightarrow>
                       (let now = pv_now env w2;
                            st1 = store_pulled x
                              (''failed to store symlink metadata for '' @ ye_path entry @ '': '')
                              (pulled_meta (ye_path entry) (ye_hash entry) 0 now now)
                              (st\<lparr>pl_world := w2\<rparr>)
                        in st1\<lparr>pl_links := pl_links st1 + 1\<rparr>)))"

section \<open>The whole pull\<close>

record pull_result =
  pr_files_pulled :: nat
  pr_files_skipped :: nat
  pr_files_failed :: nat
  pr_files_deleted :: nat
  pr_symlinks_pulled :: nat
  pr_total_bytes :: nat
  pr_errors :: "string list"

definition pull_result_of :: "('w, 'e) pull_state \<Rightarrow> pull_result" where
  "pull_result_of st =
     \<lparr>pr_files_pulled = pl_pulled st, pr_files_skipped = pl_skipped st,
      pr_files_failed = pl_failed st, pr_files_deleted = pl_deleted st,
      pr_symlinks_pulled = pl_links st, pr_total_bytes = pl_bytes st, pr_errors = pl_errors st\<rparr>"

definition initial_pull :: "'w \<Rightarrow> 'e \<Rightarrow> ('w, 'e) pull_state" where
  "initial_pull w e =
     \<lparr>pl_world = w, pl_store = e, pl_pulled = 0, pl_skipped = 0, pl_failed = 0, pl_deleted = 0,
      pl_links = 0, pl_bytes = 0, pl_errors = [], pl_plans = [], pl_needed = []\<rparr>"

definition pull_fetch ::
  "('w, 'e) pull_ctx \<Rightarrow> ('w, 'e) pull_state \<Rightarrow>
     ('w, 'e) pull_state \<times> (string, string) hmap \<times> string option" where
  "pull_fetch x st =
     (case fetch_batches (pv_remote (pc_env x))
             (chunks_of sync_chunks_batch (pv_order (pc_env x) (hkeys (pl_needed st)))) []
             (pl_world st) of
        (w, fetched, err) \<Rightarrow> (st\<lparr>pl_world := w\<rparr>, fetched, err))"

definition pull_phases ::
  "('w, 'e) pull_ctx \<Rightarrow> sync_changes \<Rightarrow> ('w, 'e) pull_state \<Rightarrow> ('w, 'e) pull_state" where
  "pull_phases x changes st =
     (let deletes = dp_remote_to_local (sr_delete_propagation (pc_rel x));
          dk = pv_disk (pc_env x);
          st1 = fold (plan_entry x) (sc_files_added changes @ sc_files_modified changes) st;
          (st2, fetched, err) = pull_fetch x st1;
          st3 = fold (pull_file x fetched err) (pl_plans st2) st2;
          st4 = (if deletes then
                   fold (pull_deleted x (dk_exists dk) ''failed to delete ''
                           ''failed to delete metadata for '') (sc_files_deleted changes) st3
                 else st3);
          st5 = fold (pull_symlink x) (sc_symlinks_added changes @ sc_symlinks_modified changes) st4
      in if deletes then
           fold (pull_deleted x (dk_lexists dk) ''failed to delete symlink ''
                   ''failed to delete symlink metadata for '') (sc_symlinks_deleted changes) st5
         else st5)"

definition pull_sync ::
  "'w pull_env \<Rightarrow> 'e engine \<Rightarrow> sync_relationship \<Rightarrow> sync_relationship list \<Rightarrow> 'w \<times> 'e \<Rightarrow>
     ('w \<times> 'e) \<times> pull_result res" where
  "pull_sync env en rel all_rels s =
     (case s of (w, e) \<Rightarrow>
       (case ro_blob_config (pv_remote env) w of
          (w1, Inl error) \<Rightarrow> ((w1, e), Inl error)
        | (w1, Inr config) \<Rightarrow>
            (case (if dk_exists (pv_disk env) (sr_local_path rel) w1 then (w1, Inr ())
                   else map_io (dk_mkdirs (pv_disk env) (sr_local_path rel) w1)) of
               (w2, Inl error) \<Rightarrow> ((w2, e), Inl error)
             | (w2, Inr _) \<Rightarrow>
                 (case pv_diff env (map_option ck_remote_root_hash (get_checkpoint en (sr_id rel) e)) w2 of
                    (w3, Inl error) \<Rightarrow> ((w3, e), Inl error)
                  | (w3, Inr diff) \<Rightarrow>
                      (let x = \<lparr>pc_env = env, pc_engine = en, pc_rel = rel, pc_config = config,
                                pc_exclusions = child_exclusions rel all_rels\<rparr>;
                           st = pull_phases x (sd_changes diff) (initial_pull w3 e)
                       in case set_checkpoint en
                               \<lparr>ck_relationship_id = sr_id rel,
                                ck_remote_root_hash = sd_root_hash diff,
                                ck_last_sync_at = pv_now env (pl_world st)\<rparr> (pl_store st) of
                            (e1, Inl error) \<Rightarrow> ((pl_world st, e1), Inl error)
                          | (e1, Inr _) \<Rightarrow> ((pl_world st, e1), Inr (pull_result_of st)))))))"

end
