(* ===== verification/Replication.thy ===== *)
theory Replication
  imports Push Pull
begin

text \<open>
  \<open>sync_relationship\<close> (\<open>sync/replication.rs\<close>): a cycle pulls first and pushes then, each only when
  the direction of the relationship allows it, on one world (disk and server) and one state
  database.  The first error ends the cycle.  The time a half of the cycle took is read from the
  environment.
\<close>

record 'w sync_env =
  sv_pull :: "'w pull_env"
  sv_push :: "'w push_env"
  sv_elapsed :: "'w \<Rightarrow> 'w \<Rightarrow> nat"

record sync_result =
  sy_push :: "(push_result \<times> nat) option"
  sy_pull :: "(pull_result \<times> nat) option"

definition pulls :: "sync_direction \<Rightarrow> bool" where
  "pulls d \<longleftrightarrow> d = PullOnly \<or> d = Bidirectional"

definition pushes :: "sync_direction \<Rightarrow> bool" where
  "pushes d \<longleftrightarrow> d = PushOnly \<or> d = Bidirectional"

definition pull_half ::
  "'w sync_env \<Rightarrow> 'e engine \<Rightarrow> sync_relationship \<Rightarrow> sync_relationship list \<Rightarrow> 'w \<times> 'e \<Rightarrow>
     ('w \<times> 'e) \<times> (pull_result \<times> nat) option res" where
  "pull_half env en rel all_rels s =
     (if pulls (sr_direction rel) then
        (case pull_sync (sv_pull env) en rel all_rels s of
           (s1, Inl error) \<Rightarrow> (s1, Inl error)
         | (s1, Inr r) \<Rightarrow> (s1, Inr (Some (r, sv_elapsed env (fst s) (fst s1)))))
      else (s, Inr None))"

definition push_half ::
  "'w sync_env \<Rightarrow> 'e engine \<Rightarrow> sync_relationship \<Rightarrow> sync_relationship list \<Rightarrow> push_scan_mode \<Rightarrow>
     'w \<times> 'e \<Rightarrow> ('w \<times> 'e) \<times> (push_result \<times> nat) option res" where
  "push_half env en rel all_rels mode s =
     (if pushes (sr_direction rel) then
        (case push_sync (sv_push env) en rel all_rels mode s of
           (s1, Inl error) \<Rightarrow> (s1, Inl error)
         | (s1, Inr r) \<Rightarrow> (s1, Inr (Some (r, sv_elapsed env (fst s) (fst s1)))))
      else (s, Inr None))"

definition sync_relationship_cycle ::
  "'w sync_env \<Rightarrow> 'e engine \<Rightarrow> sync_relationship \<Rightarrow> sync_relationship list \<Rightarrow> push_scan_mode \<Rightarrow>
     'w \<times> 'e \<Rightarrow> ('w \<times> 'e) \<times> sync_result res" where
  "sync_relationship_cycle env en rel all_rels mode s =
     then_st (pull_half env en rel all_rels s) (\<lambda>s1 pulled.
     then_st (push_half env en rel all_rels mode s1) (\<lambda>s2 pushed.
       (s2, Inr \<lparr>sy_push = pushed, sy_pull = pulled\<rparr>)))"

end
