(* ===== verification/Activity.thy ===== *)
theory Activity
  imports Activity_Log Format Replication
begin

text \<open>
  The summaries and the events \<open>sync/activity.rs\<close> makes of results, and the progress texts of
  \<open>sync/push.rs\<close>.  A result comes with its duration in milliseconds.
\<close>

section \<open>Summaries\<close>

text \<open>The separator: a middle dot (two bytes of UTF-8) between blanks.\<close>

definition mid_dot :: string where
  "mid_dot = '' '' @ [CHR 0xC2, CHR 0xB7] @ '' ''"

definition push_parts :: "push_result \<Rightarrow> nat \<Rightarrow> string list" where
  "push_parts r ms =
     (if 0 < pu_files_pushed r then
        [if 0 < pu_total_bytes r
         then ''Uploaded '' @ pluralize (pu_files_pushed r) ''file'' @ '' ('' @
                format_bytes (pu_total_bytes r) @ '')''
         else ''Committed '' @ pluralize (pu_files_pushed r) ''remote update'' @ '' (0 B sent)'']
      else []) @
     (if 0 < pu_files_deleted r then [''Deleted '' @ pluralize (pu_files_deleted r) ''remote file'']
      else []) @
     (if 0 < pu_files_skipped r then [format_count (pu_files_skipped r) @ '' unchanged''] else []) @
     (if 0 < pu_files_failed r then [format_count (pu_files_failed r) @ '' failed''] else []) @
     [format_duration ms] @
     (case format_rate (pu_total_bytes r) ms of Some rate \<Rightarrow> [rate] | None \<Rightarrow> [])"

definition summarize_push_result :: "push_result \<Rightarrow> nat \<Rightarrow> string" where
  "summarize_push_result r ms =
     (if pu_files_pushed r + pu_files_deleted r = 0 \<and> pu_files_failed r = 0
      then ''No upload needed'' @ mid_dot @ pluralize (pu_files_skipped r) ''file'' @
             '' already current'' @ mid_dot @ format_duration ms
      else join_with mid_dot (push_parts r ms))"

definition pull_parts :: "pull_result \<Rightarrow> nat \<Rightarrow> string list" where
  "pull_parts r ms =
     (if 0 < pr_files_pulled r
      then [''Received '' @ pluralize (pr_files_pulled r) ''file'' @ '' ('' @
             format_bytes (pr_total_bytes r) @ '')''] else []) @
     (if 0 < pr_files_deleted r then [''Deleted '' @ pluralize (pr_files_deleted r) ''local file'']
      else []) @
     (if 0 < pr_symlinks_pulled r then [''Updated '' @ pluralize (pr_symlinks_pulled r) ''symlink'']
      else []) @
     (if 0 < pr_files_skipped r then [format_count (pr_files_skipped r) @ '' unchanged''] else []) @
     (if 0 < pr_files_failed r then [format_count (pr_files_failed r) @ '' failed''] else []) @
     [format_duration ms] @
     (case format_rate (pr_total_bytes r) ms of Some rate \<Rightarrow> [rate] | None \<Rightarrow> [])"

definition summarize_pull_result :: "pull_result \<Rightarrow> nat \<Rightarrow> string" where
  "summarize_pull_result r ms =
     (if pr_files_pulled r + pr_files_deleted r + pr_symlinks_pulled r = 0 \<and> pr_files_failed r = 0
      then ''No receive needed'' @ mid_dot @ pluralize (pr_files_skipped r) ''file'' @
             '' already current'' @ mid_dot @ format_duration ms
      else join_with mid_dot (pull_parts r ms))"

definition summarize_full_sync_result :: "sync_result \<Rightarrow> string" where
  "summarize_full_sync_result r =
     (let parts = (case sy_pull r of Some (p, ms) \<Rightarrow> [summarize_pull_result p ms] | None \<Rightarrow> []) @
                  (case sy_push r of Some (p, ms) \<Rightarrow> [summarize_push_result p ms] | None \<Rightarrow> []);
          ms = (case sy_pull r of Some (_, t) \<Rightarrow> t | None \<Rightarrow> 0) +
               (case sy_push r of Some (_, t) \<Rightarrow> t | None \<Rightarrow> 0);
          completion = ''Sync completed in '' @ format_duration_minutes ms
      in if parts = [] then completion @ mid_dot @ ''No sync work needed''
         else completion @ mid_dot @ join_with '' / '' parts)"

section \<open>Progress texts of a push\<close>

fun scan_mode_label :: "push_scan_mode \<Rightarrow> string" where
  "scan_mode_label Lite = ''Lite''"
| "scan_mode_label Full = ''Full''"

text \<open>\<open>done / total * 100\<close>, at most 100.\<close>

definition percent_of :: "nat \<Rightarrow> nat \<Rightarrow> f64" where
  "percent_of n k =
     (let p = f64_times (f64_quot (f64_of n) (f64_of k)) 100
      in if f64_ge p 100 then f64_of 100 else p)"

definition format_progress_percent :: "nat \<Rightarrow> nat \<Rightarrow> string" where
  "format_progress_percent n k =
     (if k = 0 then ''100%''
      else if 0 < n \<and> \<not> f64_ge (percent_of n k) 1 then ''<1%''
      else fixed 0 (percent_of n k) @ ''%'')"

definition push_scan_discovery_summary :: "string \<Rightarrow> nat \<Rightarrow> string \<Rightarrow> nat \<Rightarrow> string" where
  "push_scan_discovery_summary label discovered local_path ms =
     label @ '' scan phase 1/3: discovering local entries in '' @ local_path @ mid_dot @ ''found '' @
     format_count discovered @ '' so far'' @ mid_dot @ format_duration ms @ '' elapsed''"

definition push_scan_inspection_summary ::
  "string \<Rightarrow> nat \<Rightarrow> nat \<Rightarrow> nat \<Rightarrow> nat \<Rightarrow> string" where
  "push_scan_inspection_summary label inspected entries queued ms =
     label @ '' scan phase 1/3: inspecting filesystem entries'' @ mid_dot @ ''entry scan '' @
     format_count inspected @ '' of '' @ format_count entries @ '' ('' @
     format_progress_percent inspected entries @ '')'' @ mid_dot @ format_count queued @
     '' queued for hashing/checking'' @ mid_dot @ format_duration ms @ '' elapsed''"

definition push_scan_preparation_summary ::
  "string \<Rightarrow> nat \<Rightarrow> nat \<Rightarrow> nat \<Rightarrow> nat \<Rightarrow> string" where
  "push_scan_preparation_summary label prepared files entries ms =
     label @ '' scan phase 2/3: processing queued files'' @ mid_dot @ ''queued-file work '' @
     format_count prepared @ '' of '' @ format_count files @ '' ('' @
     format_progress_percent prepared files @ '')'' @ mid_dot @ ''from '' @ format_count entries @
     '' inspected entries'' @ mid_dot @ ''hashing, uploading, and committing as needed'' @ mid_dot @
     format_duration ms @ '' elapsed''"

definition push_scan_symlink_summary ::
  "string \<Rightarrow> nat \<Rightarrow> nat \<Rightarrow> nat \<Rightarrow> nat \<Rightarrow> string" where
  "push_scan_symlink_summary label processed symlinks queued ms =
     label @ '' scan phase 3/3: syncing symlinks'' @ mid_dot @ ''symlink work '' @
     format_count processed @ '' of '' @ format_count symlinks @ '' ('' @
     format_progress_percent processed symlinks @ '')'' @ mid_dot @ format_count queued @
     '' files queued for hashing/checking'' @ mid_dot @ format_duration ms @ '' elapsed''"

definition estimate_remaining :: "nat \<Rightarrow> nat \<Rightarrow> nat \<Rightarrow> string option" where
  "estimate_remaining processed entries ms =
     (if processed = 0 \<or> entries \<le> processed \<or> ms = 0 then None
      else
        let rate = f64_quot (f64_of ms) (f64_of processed);
            rest = f64_of (entries - processed)
        in Some (format_duration (f64_trunc
             (f64_times (fst rate, snd rate + snd rest) (fst rest)))))"

definition push_scan_progress_summary ::
  "nat \<Rightarrow> nat \<Rightarrow> push_result \<Rightarrow> nat \<Rightarrow> string" where
  "push_scan_progress_summary processed entries r ms =
     (let percent = (if entries = 0 then f64_of 100 else percent_of processed entries)
      in join_with mid_dot
        ([''Uploading '' @ format_count processed @ '' of '' @ format_count entries @
            '' entries ('' @ fixed 0 percent @ ''%)''] @
         (if 0 < pu_files_pushed r
          then [format_count (pu_files_pushed r) @ '' committed'',
                ''totaling '' @ format_bytes (pu_total_bytes r)] else []) @
         (if 0 < pu_files_skipped r then [format_count (pu_files_skipped r) @ '' unchanged''] else []) @
         (if 0 < pu_files_deleted r then [format_count (pu_files_deleted r) @ '' deleted''] else []) @
         (if 0 < pu_files_failed r then [format_count (pu_files_failed r) @ '' failed''] else []) @
         (case estimate_remaining processed entries ms of
            Some eta \<Rightarrow> [''~'' @ eta @ '' remaining''] | None \<Rightarrow> [])))"

section \<open>Events of results\<close>

text \<open>The fresh identifier and the clock of an event.\<close>

record stamp =
  st_uuid :: string
  st_now :: int

definition make_event ::
  "stamp \<Rightarrow> string \<Rightarrow> string \<Rightarrow> string \<Rightarrow> string \<Rightarrow> nat \<Rightarrow> nat \<Rightarrow> nat \<Rightarrow> string list \<Rightarrow> sync_event" where
  "make_event k rel rel_name type summary files bytes ms errors =
     \<lparr>ev_id = st_uuid k, ev_relationship_id = rel, ev_relationship_name = rel_name,
      ev_event_type = type, ev_summary = summary, ev_files_affected = files,
      ev_bytes_transferred = bytes, ev_duration_ms = ms, ev_errors = errors,
      ev_progress_percent = None, ev_timestamp = st_now k\<rparr>"

definition pull_event :: "stamp \<Rightarrow> string \<Rightarrow> string \<Rightarrow> pull_result \<Rightarrow> nat \<Rightarrow> sync_event" where
  "pull_event k rel rel_name r ms =
     make_event k rel rel_name ''pull'' (summarize_pull_result r ms)
       (pr_files_pulled r + pr_files_deleted r + pr_symlinks_pulled r) (pr_total_bytes r) ms
       (pr_errors r)"

definition push_event :: "stamp \<Rightarrow> string \<Rightarrow> string \<Rightarrow> push_result \<Rightarrow> nat \<Rightarrow> sync_event" where
  "push_event k rel rel_name r ms =
     make_event k rel rel_name ''push'' (summarize_push_result r ms)
       (pu_files_pushed r + pu_files_deleted r) (pu_total_bytes r) ms (pu_errors r)"

definition full_sync_event :: "stamp \<Rightarrow> string \<Rightarrow> string \<Rightarrow> sync_result \<Rightarrow> sync_event" where
  "full_sync_event k rel rel_name r =
     (let (f1, b1, t1, e1) = (case sy_pull r of
            Some (p, ms) \<Rightarrow> (pr_files_pulled p + pr_files_deleted p + pr_symlinks_pulled p,
                             pr_total_bytes p, ms, pr_errors p)
          | None \<Rightarrow> (0, 0, 0, []));
          (f2, b2, t2, e2) = (case sy_push r of
            Some (p, ms) \<Rightarrow> (pu_files_pushed p + pu_files_deleted p, pu_total_bytes p, ms, pu_errors p)
          | None \<Rightarrow> (0, 0, 0, []))
      in make_event k rel rel_name ''full_sync'' (summarize_full_sync_result r)
           (f1 + f2) (b1 + b2) (t1 + t2) (e1 @ e2))"

definition error_event :: "stamp \<Rightarrow> string \<Rightarrow> string \<Rightarrow> string \<Rightarrow> sync_event" where
  "error_event k rel rel_name message =
     make_event k rel rel_name ''error'' message 0 0 0 [message]"

definition log_pull ::
  "'e engine \<Rightarrow> stamp \<Rightarrow> string \<Rightarrow> string \<Rightarrow> pull_result \<Rightarrow> nat \<Rightarrow> 'e \<times> progress_map \<Rightarrow>
     ('e \<times> progress_map) \<times> unit res" where
  "log_pull en k rel rel_name r ms = log_event en (pull_event k rel rel_name r ms)"

definition log_push ::
  "'e engine \<Rightarrow> stamp \<Rightarrow> string \<Rightarrow> string \<Rightarrow> push_result \<Rightarrow> nat \<Rightarrow> 'e \<times> progress_map \<Rightarrow>
     ('e \<times> progress_map) \<times> unit res" where
  "log_push en k rel rel_name r ms = log_event en (push_event k rel rel_name r ms)"

definition log_full_sync ::
  "'e engine \<Rightarrow> stamp \<Rightarrow> string \<Rightarrow> string \<Rightarrow> sync_result \<Rightarrow> 'e \<times> progress_map \<Rightarrow>
     ('e \<times> progress_map) \<times> unit res" where
  "log_full_sync en k rel rel_name r = log_event en (full_sync_event k rel rel_name r)"

definition log_error ::
  "'e engine \<Rightarrow> stamp \<Rightarrow> string \<Rightarrow> string \<Rightarrow> string \<Rightarrow> 'e \<times> progress_map \<Rightarrow>
     ('e \<times> progress_map) \<times> unit res" where
  "log_error en k rel rel_name message = log_event en (error_event k rel rel_name message)"

lemma result_events_durable [simp]:
  "is_durable_activity_event (pull_event k rel rel_name r ms)"
  "is_durable_activity_event (push_event k rel rel_name p ms)"
  "is_durable_activity_event (full_sync_event k rel rel_name f)"
  "is_durable_activity_event (error_event k rel rel_name message)"
  by (simp_all add: is_durable_activity_event_def pull_event_def push_event_def full_sync_event_def
      error_event_def make_event_def split: prod.splits)

end
