(* ===== verification/Fs_Watcher.thy ===== *)
theory Fs_Watcher
  imports Prelude
begin

text \<open>
  \<open>sync/fs_watcher.rs\<close>: the task that merges the raw events of the operating system.  A change
  waits in \<open>pending\<close>, under its path with the time it was noted, until no change came for the
  debounce window or the oldest pending one is older than the maximal wait.  Times are
  milliseconds.  An input is a raw event, the end of a timeout, or the end of the channel.
\<close>

section \<open>The task\<close>

datatype fs_change_type = FsCreated | FsModified | FsDeleted

datatype event_kind = KindCreate | KindModify | KindRemove | KindOther

record fs_event =
  fe_kind :: event_kind
  fe_paths :: "string list"

record fs_change =
  fc_path :: string
  fc_change_type :: fs_change_type

record fs_watcher_config =
  fw_debounce_ms :: nat
  fw_max_wait_ms :: nat

definition default_watcher_config :: fs_watcher_config where
  "default_watcher_config = \<lparr>fw_debounce_ms = 100, fw_max_wait_ms = 500\<rparr>"

type_synonym pending_changes = "(string, fs_change_type \<times> nat) hmap"

definition wait_ms :: "fs_watcher_config \<Rightarrow> pending_changes \<Rightarrow> nat" where
  "wait_ms config pending = (if pending = [] then 60000 else fw_debounce_ms config)"

fun change_of_kind :: "event_kind \<Rightarrow> fs_change_type option" where
  "change_of_kind KindCreate = Some FsCreated"
| "change_of_kind KindModify = Some FsModified"
| "change_of_kind KindRemove = Some FsDeleted"
| "change_of_kind KindOther = None"

text \<open>One raw event, read at time \<open>now\<close>; directories are left out.\<close>

definition note_event ::
  "(string \<Rightarrow> bool) \<Rightarrow> nat \<Rightarrow> fs_event \<Rightarrow> pending_changes \<Rightarrow> pending_changes" where
  "note_event is_dir now ev pending =
     fold (\<lambda>p m. case change_of_kind (fe_kind ev) of
                   None \<Rightarrow> m
                 | Some t \<Rightarrow> if is_dir p then m else hinsert p (t, now) m) (fe_paths ev) pending"

text \<open>The times of a non-empty map; the code measures them with a clock that never goes back.\<close>

definition oldest :: "pending_changes \<Rightarrow> nat" where
  "oldest pending = Min (snd ` set (hvalues pending))"

definition newest :: "pending_changes \<Rightarrow> nat" where
  "newest pending = Max (snd ` set (hvalues pending))"

definition flush_due :: "fs_watcher_config \<Rightarrow> nat \<Rightarrow> pending_changes \<Rightarrow> bool" where
  "flush_due config now pending \<longleftrightarrow>
     pending \<noteq> [] \<and>
     (fw_debounce_ms config \<le> now - newest pending \<or> fw_max_wait_ms config \<le> now - oldest pending)"

definition flushed :: "pending_changes \<Rightarrow> fs_change list" where
  "flushed pending = map (\<lambda>(p, t, _). \<lparr>fc_path = p, fc_change_type = t\<rparr>) pending"

text \<open>One round of the loop: what the wait gave (an event or the timeout), the time after it, and the
  time the flush test reads, which is not earlier.\<close>

record watch_round =
  wr_event :: "fs_event option"
  wr_noted :: nat
  wr_now :: nat

definition watch_step ::
  "fs_watcher_config \<Rightarrow> (string \<Rightarrow> bool) \<Rightarrow> watch_round \<Rightarrow> pending_changes \<Rightarrow>
     pending_changes \<times> fs_change list" where
  "watch_step config is_dir r pending =
     (let pending = (case wr_event r of
                       Some ev \<Rightarrow> note_event is_dir (wr_noted r) ev pending | None \<Rightarrow> pending)
      in if flush_due config (wr_now r) pending then ([], flushed pending) else (pending, []))"

fun watch_run ::
  "fs_watcher_config \<Rightarrow> (string \<Rightarrow> bool) \<Rightarrow> watch_round list \<Rightarrow> pending_changes \<Rightarrow>
     pending_changes \<times> fs_change list" where
  "watch_run config is_dir [] pending = (pending, [])"
| "watch_run config is_dir (r # rs) pending =
     (case watch_step config is_dir r pending of
        (pending, out) \<Rightarrow>
          (case watch_run config is_dir rs pending of (pending', out') \<Rightarrow> (pending', out @ out')))"

section \<open>No change is lost\<close>

text \<open>Every path a raw event names is pending or has been reported.\<close>

definition raw_paths :: "(string \<Rightarrow> bool) \<Rightarrow> watch_round list \<Rightarrow> string set" where
  "raw_paths is_dir rs =
     {p. \<exists>r\<in>set rs. \<exists>ev. wr_event r = Some ev \<and> change_of_kind (fe_kind ev) \<noteq> None \<and>
       p \<in> set (fe_paths ev) \<and> \<not> is_dir p}"

lemma hkeys_hinsert [simp]: "set (hkeys (hinsert k v m)) = insert k (set (hkeys m))"
  by (auto simp: hkeys_def dom_map_of_conv_image_fst [symmetric] dom_def split: if_splits)

lemma note_keys:
  "set (hkeys (note_event is_dir now ev pending)) =
     set (hkeys pending) \<union>
     (if change_of_kind (fe_kind ev) = None then {} else {p \<in> set (fe_paths ev). \<not> is_dir p})"
proof -
  have "set (hkeys (fold (\<lambda>p m. case change_of_kind k of None \<Rightarrow> m
                   | Some t \<Rightarrow> if is_dir p then m else hinsert p (t, now) m) ps pending)) =
     set (hkeys pending) \<union> (if change_of_kind k = None then {} else {p \<in> set ps. \<not> is_dir p})" for k ps
    by (induction ps arbitrary: pending) (auto split: option.split)
  then show ?thesis by (simp add: note_event_def)
qed

lemma flushed_paths: "fc_path ` set (flushed pending) = set (hkeys pending)"
  by (force simp: flushed_def hkeys_def)

lemma hkeys_Nil [simp]: "hkeys [] = []"
  by (simp add: hkeys_def)

lemma raw_paths_Nil [simp]: "raw_paths is_dir [] = {}"
  by (simp add: raw_paths_def)

lemma raw_paths_Cons: "raw_paths is_dir (r # rs) = raw_paths is_dir [r] \<union> raw_paths is_dir rs"
  by (auto simp: raw_paths_def)

lemma step_paths:
  assumes "watch_step config is_dir r pending = (pending', out)"
  shows "set (hkeys pending') \<union> fc_path ` set out = set (hkeys pending) \<union> raw_paths is_dir [r]"
proof -
  define noted where "noted = (case wr_event r of
    Some ev \<Rightarrow> note_event is_dir (wr_noted r) ev pending | None \<Rightarrow> pending)"
  have "set (hkeys pending') \<union> fc_path ` set out = set (hkeys noted)"
    using assms flushed_paths [of noted]
    by (auto simp: watch_step_def Let_def noted_def [symmetric] split: if_splits)
  also have "\<dots> = set (hkeys pending) \<union> raw_paths is_dir [r]"
    by (auto simp: noted_def raw_paths_def note_keys split: option.splits)
  finally show ?thesis .
qed

lemma run_paths:
  "watch_run config is_dir rs pending = (pending', out) \<Longrightarrow>
    set (hkeys pending') \<union> fc_path ` set out = set (hkeys pending) \<union> raw_paths is_dir rs"
proof (induction rs arbitrary: pending out)
  case (Cons r rs)
  obtain p1 o1 where 1: "watch_step config is_dir r pending = (p1, o1)" by force
  obtain o2 where 2: "watch_run config is_dir rs p1 = (pending', o2)" "out = o1 @ o2"
    using Cons.prems 1 by (auto split: prod.splits)
  from Cons.IH [OF 2(1)] step_paths [OF 1] 2(2) show ?case
    by (subst raw_paths_Cons) auto
qed simp

lemma times_hvalues: "snd ` set (hvalues pending) = (\<lambda>x. snd (snd x)) ` set pending"
  by (auto simp: hvalues_def image_image)

lemma newest_le:
  "pending \<noteq> [] \<Longrightarrow> list_all (\<lambda>(_, _, t). t \<le> now) pending \<Longrightarrow> newest pending \<le> now"
  by (auto simp: newest_def times_hvalues list_all_iff)

section \<open>Properties\<close>


text \<open>Quiet brings the changes out: when the wait ends without an event and every pending change was
  noted a debounce window ago, all of them are reported and none is left.\<close>

theorem quiet_window_reports:
  assumes "wr_event r = None" "list_all (\<lambda>(_, _, t). t + fw_debounce_ms config \<le> wr_now r) pending"
  shows "watch_step config is_dir r pending = ([], flushed pending)"
proof (cases "pending = []")
  case True
  with assms show ?thesis by (simp add: watch_step_def flush_due_def flushed_def)
next
  case False
  have "list_all (\<lambda>(_, _, t). t \<le> wr_now r - fw_debounce_ms config) pending"
    using assms(2) by (auto simp: list_all_iff)
  from newest_le [OF False this] False assms(2)
  have "fw_debounce_ms config \<le> wr_now r - newest pending"
    by (cases pending) auto
  with False assms(1) show ?thesis by (simp add: watch_step_def flush_due_def)
qed

lemma quiet_window_reports_witness:
  "watch_step default_watcher_config (\<lambda>p. False) \<lparr>wr_event = None, wr_noted = 200, wr_now = 200\<rparr>
     [(''/a'', FsModified, 90)] = ([], [\<lparr>fc_path = ''/a'', fc_change_type = FsModified\<rparr>])"
proof -
  have "watch_step default_watcher_config (\<lambda>p. False) \<lparr>wr_event = None, wr_noted = 200, wr_now = 200\<rparr>
     [(''/a'', FsModified, 90)] = ([], flushed [(''/a'', FsModified, 90)])"
    by (rule quiet_window_reports) (simp_all add: default_watcher_config_def)
  then show ?thesis by (simp add: flushed_def)
qed

text \<open>The maximal wait does not bound the wait: noting a path again replaces the time it was first
  noted, so a file written more often than the debounce window is not reported, however long
  that goes on.\<close>

theorem steady_writes_are_not_reported:
  assumes "\<forall>r\<in>set rs. wr_event r = Some \<lparr>fe_kind = KindModify, fe_paths = [p]\<rparr> \<and>
    wr_noted r \<le> wr_now r \<and> wr_now r < wr_noted r + fw_debounce_ms config \<and> wr_now r < wr_noted r + fw_max_wait_ms config"
  shows "snd (watch_run config is_dir rs []) = []"
proof -
  have "snd (watch_run config is_dir rs pending) = []"
    if "pending = [] \<or> \<not> is_dir p \<and> (\<exists>t. pending = [(p, FsModified, t)])" for pending
    using assms that
  proof (induction rs arbitrary: pending)
    case (Cons r rs)
    let ?next = "if is_dir p then [] else [(p, FsModified, wr_noted r)]"
    have "note_event is_dir (wr_noted r) \<lparr>fe_kind = KindModify, fe_paths = [p]\<rparr> pending = ?next"
      using Cons.prems(2) by (auto simp: note_event_def)
    then have "watch_step config is_dir r pending = (?next, [])"
      using Cons.prems(1)
      by (auto simp: watch_step_def flush_due_def oldest_def newest_def hvalues_def Let_def)
    moreover have "snd (watch_run config is_dir rs ?next) = []"
      using Cons.prems(1) by (intro Cons.IH) auto
    ultimately show ?case by (simp split: prod.splits)
  qed simp
  then show ?thesis by simp
qed

text \<open>A file written every 50 ms for twenty minutes.\<close>

lemma steady_writes_are_not_reported_witness:
  "snd (watch_run default_watcher_config (\<lambda>p. False)
     (map (\<lambda>i. \<lparr>wr_event = Some \<lparr>fe_kind = KindModify, fe_paths = [''/l/log'']\<rparr>,
                wr_noted = 50 * i, wr_now = 50 * i\<rparr>) [0..<24000]) []) = []"
  by (rule steady_writes_are_not_reported [where p = "''/l/log''"])
    (auto simp: default_watcher_config_def)

end
