(* ===== verification/Runner.thy ===== *)
theory Runner
  imports Activity Fs_Watcher
begin

text \<open>
  The loop of one relationship (\<open>run_sync_loop\<close> of \<open>sync/runner.rs\<close>): the first sync, the retry
  after a transient error with its growing delay, and one function per branch of the \<open>select\<close>.
  Which branch runs, and when, is the sequence of events given to the loop.  Server, disk and
  clock are one world; configuration, state database and activity are shared with other tasks.
\<close>

section \<open>Retry\<close>

text \<open>Delays in seconds, instants in milliseconds.\<close>

definition watched_safety_net_min_seconds :: nat where "watched_safety_net_min_seconds = 3600"
definition startup_sync_delay :: nat where "startup_sync_delay = 60"
definition retry_initial_delay :: nat where "retry_initial_delay = 60"
definition retry_max_delay :: nat where "retry_max_delay = 900"

record retry_state =
  rt_armed :: bool
  rt_delay :: nat
  rt_deadline :: nat

definition transient_sync_retry_delay :: "client_error \<Rightarrow> nat \<Rightarrow> nat option" where
  "transient_sync_retry_delay error current =
     (if is_transient_upstream error then Some (min current retry_max_delay) else None)"

definition next_transient_sync_retry_delay :: "nat \<Rightarrow> nat" where
  "next_transient_sync_retry_delay current = min (current * 2) retry_max_delay"

definition arm_transient_retry ::
  "client_error \<Rightarrow> nat \<Rightarrow> retry_state \<Rightarrow> retry_state \<times> nat option" where
  "arm_transient_retry error now rt =
     (case transient_sync_retry_delay error (rt_delay rt) of
        None \<Rightarrow> (rt, None)
      | Some delay \<Rightarrow>
          (\<lparr>rt_armed = True, rt_delay = next_transient_sync_retry_delay delay,
            rt_deadline = now + delay * 1000\<rparr>, Some delay))"

definition initial_retry :: "nat \<Rightarrow> retry_state" where
  "initial_retry now =
     \<lparr>rt_armed = False, rt_delay = retry_initial_delay,
      rt_deadline = now + retry_initial_delay * 1000\<rparr>"

definition reset_retry :: "retry_state \<Rightarrow> retry_state" where
  "reset_retry rt = rt\<lparr>rt_delay := retry_initial_delay, rt_armed := False\<rparr>"

definition format_retry_delay :: "nat \<Rightarrow> string" where
  "format_retry_delay s =
     (if s < 60 then show_nat s @ ''s''
      else if s mod 60 = 0 then show_nat (s div 60) @ ''m''
      else show_nat (s div 60) @ ''m '' @ pad0 2 (show_nat (s mod 60)) @ ''s'')"

definition sync_error_activity_message :: "client_error \<Rightarrow> nat option \<Rightarrow> string" where
  "sync_error_activity_message error delay =
     (case delay of
        Some d \<Rightarrow> ''Temporary remote issue; retrying sync in '' @ format_retry_delay d @ '': '' @
                    error_text error
      | None \<Rightarrow> error_text error)"

definition startup_push_scan_mode :: push_scan_mode where "startup_push_scan_mode = Lite"

definition periodic_safety_net_interval_seconds :: "nat \<Rightarrow> bool \<Rightarrow> bool \<Rightarrow> nat" where
  "periodic_safety_net_interval_seconds configured fs_active sse_active =
     (if fs_active \<or> sse_active then max configured watched_safety_net_min_seconds else configured)"

text \<open>Which event sources a loop has (file watcher, event stream of the server), by its direction and
  whether the watcher could be started, and the interval of the safety net that follows.\<close>

definition event_sources :: "sync_direction \<Rightarrow> bool \<Rightarrow> bool \<times> bool" where
  "event_sources direction watcher_starts = (pushes direction \<and> watcher_starts, pulls direction)"

definition safety_net_interval :: "nat \<Rightarrow> sync_direction \<Rightarrow> bool \<Rightarrow> nat" where
  "safety_net_interval configured direction watcher_starts =
     (case event_sources direction watcher_starts of
        (fs_active, sse_active) \<Rightarrow>
          periodic_safety_net_interval_seconds configured fs_active sse_active)"

section \<open>State\<close>

text \<open>What the tasks share.  \<open>sh_events\<close> is the broadcast channel.\<close>

record ('w, 'e) shared =
  sh_world :: 'w
  sh_store :: 'e
  sh_progress :: progress_map
  sh_config :: config_store
  sh_events :: "sync_event list"

record loop_state =
  ls_rel :: sync_relationship
  ls_conn :: remote_connection
  ls_retry :: retry_state

record ('w, 'e) runner_env =
  rn_engine :: "'e engine"
  rn_sync :: "remote_connection \<Rightarrow> 'w sync_env"
  rn_now :: "'w \<Rightarrow> nat"
  rn_log_stamp :: "'w \<Rightarrow> stamp"
  rn_send_stamp :: "'w \<Rightarrow> stamp"
  rn_glob :: "string \<Rightarrow> string \<Rightarrow> bool"

definition broadcast_event :: "sync_event \<Rightarrow> ('w, 'e) shared \<Rightarrow> ('w, 'e) shared" where
  "broadcast_event v sh = sh\<lparr>sh_events := sh_events sh @ [v]\<rparr>"

text \<open>An event that cannot be logged is only a warning.\<close>

definition log_and_broadcast ::
  "('w, 'e) runner_env \<Rightarrow> (stamp \<Rightarrow> sync_event) \<Rightarrow> ('w, 'e) shared \<Rightarrow> ('w, 'e) shared" where
  "log_and_broadcast env mk sh =
     (case log_event (rn_engine env) (mk (rn_log_stamp env (sh_world sh)))
             (sh_store sh, sh_progress sh) of
        ((e, progress), _) \<Rightarrow>
          broadcast_event (mk (rn_send_stamp env (sh_world sh)))
            (sh\<lparr>sh_store := e, sh_progress := progress\<rparr>))"

text \<open>The end of a sync: success resets the retry, a transient error arms it.\<close>

definition settle ::
  "('w, 'e) runner_env \<Rightarrow> (stamp \<Rightarrow> string \<Rightarrow> string \<Rightarrow> 'r \<Rightarrow> sync_event) \<Rightarrow> 'r res \<Rightarrow>
     ('w, 'e) shared \<times> loop_state \<Rightarrow> ('w, 'e) shared \<times> loop_state" where
  "settle env mk r s =
     (case s of (sh, ls) \<Rightarrow>
        let rel = sr_id (ls_rel ls); rel_name = sr_name (ls_rel ls)
        in case r of
             Inr v \<Rightarrow>
               (log_and_broadcast env (\<lambda>k. mk k rel rel_name v) sh,
                ls\<lparr>ls_retry := reset_retry (ls_retry ls)\<rparr>)
           | Inl error \<Rightarrow>
               (case arm_transient_retry error (rn_now env (sh_world sh)) (ls_retry ls) of
                  (rt, delay) \<Rightarrow>
                    (log_and_broadcast env (\<lambda>k. error_event k rel rel_name
                        (sync_error_activity_message error delay)) sh,
                     ls\<lparr>ls_retry := rt\<rparr>)))"

definition with_world :: "('w \<times> 'e) \<Rightarrow> ('w, 'e) shared \<Rightarrow> ('w, 'e) shared" where
  "with_world p sh = sh\<lparr>sh_world := fst p, sh_store := snd p\<rparr>"

text \<open>A full cycle with the given relationship and connection, and its end.\<close>

definition full_cycle ::
  "('w, 'e) runner_env \<Rightarrow> remote_connection \<Rightarrow> sync_relationship \<Rightarrow> push_scan_mode \<Rightarrow>
     ('w, 'e) shared \<times> loop_state \<Rightarrow> ('w, 'e) shared \<times> loop_state" where
  "full_cycle env conn rel mode s =
     (case s of (sh, ls) \<Rightarrow>
        case sync_relationship_cycle (rn_sync env conn) (rn_engine env) rel
               (relationship_list (sh_config sh)) mode (sh_world sh, sh_store sh) of
          (p, r) \<Rightarrow> settle env full_sync_event r (with_world p sh, ls))"

section \<open>The branches\<close>

definition start_loop ::
  "('w, 'e) runner_env \<Rightarrow> sync_relationship \<Rightarrow> remote_connection \<Rightarrow> ('w, 'e) shared \<Rightarrow>
     ('w, 'e) shared \<times> loop_state" where
  "start_loop env rel conn sh =
     full_cycle env conn rel startup_push_scan_mode
       (sh, \<lparr>ls_rel = rel, ls_conn = conn, ls_retry = initial_retry (rn_now env (sh_world sh))\<rparr>)"

definition on_fs_change ::
  "('w, 'e) runner_env \<Rightarrow> fs_change \<Rightarrow> ('w, 'e) shared \<times> loop_state \<Rightarrow> ('w, 'e) shared \<times> loop_state" where
  "on_fs_change env change s =
     (case s of (sh, ls) \<Rightarrow>
        let rel = ls_rel ls;
            filename = (case path_file_name (fc_path change) of Some n \<Rightarrow> n | None \<Rightarrow> [])
        in if \<not> matches_filter (rn_glob env) filename (sr_filter rel) then s
           else if fc_change_type change = FsDeleted \<and>
                   \<not> dp_local_to_remote (sr_delete_propagation rel) then s
           else
             let sync = rn_sync env (ls_conn ls)
             in case push_sync (sv_push sync) (rn_engine env) rel
                       (relationship_list (sh_config sh)) Lite (sh_world sh, sh_store sh) of
                  (p, r) \<Rightarrow>
                    settle env (\<lambda>k i n (v, ms). push_event k i n v ms)
                      (and_then r (\<lambda>v. Inr (v, sv_elapsed sync (sh_world sh) (fst p))))
                      (with_world p sh, ls))"

definition on_remote_change ::
  "('w, 'e) runner_env \<Rightarrow> ('w, 'e) shared \<times> loop_state \<Rightarrow> ('w, 'e) shared \<times> loop_state" where
  "on_remote_change env s =
     (case s of (sh, ls) \<Rightarrow>
        let sync = rn_sync env (ls_conn ls)
        in case pull_sync (sv_pull sync) (rn_engine env) (ls_rel ls)
                  (relationship_list (sh_config sh)) (sh_world sh, sh_store sh) of
             (p, r) \<Rightarrow>
               settle env (\<lambda>k i n (v, ms). pull_event k i n v ms)
                 (and_then r (\<lambda>v. Inr (v, sv_elapsed sync (sh_world sh) (fst p))))
                 (with_world p sh, ls))"

text \<open>The two timers read the configuration again.  None is the end of the loop.\<close>

definition on_timer ::
  "('w, 'e) runner_env \<Rightarrow> ('w, 'e) shared \<times> loop_state \<Rightarrow> (('w, 'e) shared \<times> loop_state) option" where
  "on_timer env s =
     (case s of (sh, ls) \<Rightarrow>
        case relationship_get (sr_id (ls_rel ls)) (sh_config sh) of
          None \<Rightarrow> None
        | Some rel \<Rightarrow>
            if \<not> sr_enabled rel then None
            else case connection_get (sr_remote_connection_id rel) (sh_config sh) of
                   None \<Rightarrow> Some s
                 | Some conn \<Rightarrow> Some (full_cycle env conn rel Lite s))"

definition on_retry ::
  "('w, 'e) runner_env \<Rightarrow> ('w, 'e) shared \<times> loop_state \<Rightarrow> (('w, 'e) shared \<times> loop_state) option" where
  "on_retry env s =
     (case s of (sh, ls) \<Rightarrow>
        on_timer env (sh, ls\<lparr>ls_retry := (ls_retry ls)\<lparr>rt_armed := False\<rparr>\<rparr>))"

section \<open>The loop\<close>

datatype loop_event = FsChanged fs_change | RemoteChanged | RetryFired | SafetyNet

fun on_event ::
  "('w, 'e) runner_env \<Rightarrow> loop_event \<Rightarrow> ('w, 'e) shared \<times> loop_state \<Rightarrow>
     (('w, 'e) shared \<times> loop_state) option" where
  "on_event env (FsChanged change) s = Some (on_fs_change env change s)"
| "on_event env RemoteChanged s = Some (on_remote_change env s)"
| "on_event env RetryFired s = on_retry env s"
| "on_event env SafetyNet s = on_timer env s"

text \<open>The loop as a step relation with time.  Each round starts the safety net anew (\<open>started\<close>), a
  branch with a guard or a timer runs only when it is open, and between two rounds other tasks
  may change everything shared.\<close>

datatype ('w, 'e) loop_phase =
    Selecting (sel_started: nat) (sel_shared: "('w, 'e) shared") (sel_state: loop_state)
  | Ended "('w, 'e) shared"

definition branch_open :: "nat \<Rightarrow> nat \<Rightarrow> nat \<Rightarrow> retry_state \<Rightarrow> loop_event \<Rightarrow> bool" where
  "branch_open interval started now rt ev =
     (case ev of
        FsChanged _ \<Rightarrow> True
      | RemoteChanged \<Rightarrow> True
      | RetryFired \<Rightarrow> rt_armed rt \<and> rt_deadline rt \<le> now
      | SafetyNet \<Rightarrow> started + interval * 1000 \<le> now)"

inductive loop_step ::
  "('w, 'e) runner_env \<Rightarrow> nat \<Rightarrow> ('w, 'e) loop_phase \<Rightarrow> ('w, 'e) loop_phase \<Rightarrow> bool"
  for env interval where
  round: "started \<le> rn_now env (sh_world sh) \<Longrightarrow>
    branch_open interval started (rn_now env (sh_world sh)) (ls_retry ls) ev \<Longrightarrow>
    on_event env ev (sh, ls) = Some (sh', ls') \<Longrightarrow>
    loop_step env interval (Selecting started sh ls) (Selecting (rn_now env (sh_world sh')) sh' ls')"
| ended: "branch_open interval started (rn_now env (sh_world sh)) (ls_retry ls) ev \<Longrightarrow>
    on_event env ev (sh, ls) = None \<Longrightarrow>
    loop_step env interval (Selecting started sh ls) (Ended sh)"
| other: "loop_step env interval (Selecting started sh ls) (Selecting started sh' ls)"

inductive_cases loop_stepE: "loop_step env interval p q"
inductive_simps loop_step_Ended: "loop_step env interval (Ended sh) q"

inductive loop_run ::
  "('w, 'e) runner_env \<Rightarrow> nat \<Rightarrow> ('w, 'e) loop_phase \<Rightarrow> ('w, 'e) loop_phase \<Rightarrow> bool"
  for env interval where
  start: "loop_run env interval p p"
| more: "loop_run env interval p q \<Longrightarrow> loop_step env interval q r \<Longrightarrow> loop_run env interval p r"

end
