(* ===== verification/Health.thy ===== *)
theory Health
  imports Connections
begin

text \<open>
  \<open>health.rs\<close>: the pinger's map of connection states.  One tick tests every configured
  connection, forgets the ones that are gone, and reports those whose state changed.
\<close>

datatype health_status = StatusUnknown | StatusUp | StatusDown

record health_snapshot =
  hs_connection_id :: string
  hs_status :: health_status
  hs_latency_ms :: "nat option"
  hs_message :: "string option"
  hs_checked_at :: int

type_synonym health_map = "(string, health_snapshot) hmap"

definition new_health_map :: health_map where "new_health_map = []"

definition snapshot_of :: "int \<Rightarrow> string \<Rightarrow> connection_test_result res \<Rightarrow> health_snapshot" where
  "snapshot_of now i r =
     (let (status, latency, message) =
        (case r of
           Inr t \<Rightarrow> if ct_success t then (StatusUp, ct_latency_ms t, None)
                    else (StatusDown, ct_latency_ms t, Some (ct_message t))
         | Inl error \<Rightarrow> (StatusDown, None, Some (error_text error)))
      in \<lparr>hs_connection_id = i, hs_status = status, hs_latency_ms = latency, hs_message = message,
          hs_checked_at = now\<rparr>)"

text \<open>The state of the snapshot is not the one the map has.\<close>

definition changed :: "health_map \<Rightarrow> health_snapshot \<Rightarrow> bool" where
  "changed m s \<longleftrightarrow> map_option hs_status (hget m (hs_connection_id s)) \<noteq> Some (hs_status s)"

definition record_snapshot ::
  "health_snapshot \<Rightarrow> health_map \<times> health_snapshot list \<Rightarrow> health_map \<times> health_snapshot list" where
  "record_snapshot s st =
     (case st of (m, events) \<Rightarrow>
        (hinsert (hs_connection_id s) s m,
         if changed m s then events @ [s] else events))"

text \<open>The tests run without a lock: they see the configuration of their own time.  The result is the new
  map and the reports in order.\<close>

definition health_tick ::
  "(string \<Rightarrow> string option \<Rightarrow> health_outcome) \<Rightarrow> int \<Rightarrow> config_store \<Rightarrow> (string \<Rightarrow> config_store) \<Rightarrow>
     health_map \<Rightarrow> health_map \<times> health_snapshot list" where
  "health_tick send now s later m =
     (let ids = map rc_id (connection_list s);
          kept = filter (\<lambda>(i, _). i \<in> set ids) m
      in fold (\<lambda>i. record_snapshot (snapshot_of now i (test_connection send i (later i)))) ids
           (kept, []))"

section \<open>Properties\<close>

lemma snapshot_id [simp]: "hs_connection_id (snapshot_of now i r) = i"
  by (simp add: snapshot_of_def split: sum.split)

lemma changed_cong: "hget m (hs_connection_id s) = hget m' (hs_connection_id s) \<Longrightarrow> changed m s = changed m' s"
  by (simp add: changed_def)

lemma fold_record:
  assumes "distinct ids"
  shows "fold (\<lambda>i. record_snapshot (snapshot_of now i (f i))) ids (m, events) = (m', events') \<Longrightarrow>
    (\<forall>i. hget m' i = (if i \<in> set ids then Some (snapshot_of now i (f i)) else hget m i)) \<and>
    events' = events @ filter (changed m)
      (map (\<lambda>i. snapshot_of now i (f i)) ids)"
  using assms
proof (induction ids arbitrary: m events)
  case (Cons i ids)
  let ?s = "snapshot_of now i (f i)"
  let ?e = "if changed m ?s then events @ [?s] else events"
  have "record_snapshot ?s (m, events) = (hinsert i ?s m, ?e)"
    by (simp add: record_snapshot_def)
  with Cons.prems(1) have f: "fold (\<lambda>i. record_snapshot (snapshot_of now i (f i))) ids (hinsert i ?s m, ?e) = (m', events')"
    by simp
  from Cons.prems(2) have d: "distinct ids" and i: "i \<notin> set ids" by auto
  have "filter (changed (hinsert i ?s m)) (map (\<lambda>i. snapshot_of now i (f i)) ids) =
    filter (changed m) (map (\<lambda>i. snapshot_of now i (f i)) ids)"
    using i by (intro filter_cong changed_cong) auto
  with Cons.IH [OF f d] i show ?case by auto
qed simp

lemma hget_kept: "hget (filter (\<lambda>(i, _). i \<in> S) m) k = (if k \<in> S then hget m k else None)"
  by (induction m) auto

text \<open>C29. After a tick the map holds exactly the configured connections, each with the outcome of its own
  test, and what was reported are exactly the connections whose state is not the one the map had,
  a connection without an entry included; nothing is reported twice.\<close>

theorem health_tick_reports_transitions:
  assumes "distinct (map rc_id (connection_list s))" "health_tick send now s later m = (m', events)"
  shows "hget m' i = (if i \<in> set (map rc_id (connection_list s))
      then Some (snapshot_of now i (test_connection send i (later i))) else None) \<and>
    events = filter (changed m)
      (map (\<lambda>i. snapshot_of now i (test_connection send i (later i))) (map rc_id (connection_list s)))"
proof -
  let ?ids = "map rc_id (connection_list s)"
  let ?kept = "filter (\<lambda>(i, _). i \<in> set ?ids) m"
  let ?new = "map (\<lambda>i. snapshot_of now i (test_connection send i (later i))) ?ids"
  have "filter (changed ?kept) ?new = filter (changed m) ?new"
    by (intro filter_cong changed_cong) (auto simp: hget_kept)
  moreover from fold_record [OF assms(1), of now "\<lambda>i. test_connection send i (later i)" ?kept "[]" m' events] assms(2)
  have "hget m' i = (if i \<in> set ?ids then Some (snapshot_of now i (test_connection send i (later i)))
      else hget ?kept i) \<and> events = [] @ filter (changed ?kept) ?new"
    unfolding health_tick_def Let_def by blast
  ultimately show ?thesis by (simp only: hget_kept append_Nil if_False simp_thms split: if_split) simp
qed

definition two_connections :: config_store where
  "two_connections =
     \<lparr>cs_config = default_config\<lparr>cc_connections :=
        [\<lparr>rc_id = ''c1'', rc_name = ''a'', rc_url = ''http://a'', rc_auth_type = AuthNone, rc_api_key = None,
          rc_share_base_url = None, rc_created_at = 1, rc_updated_at = 1\<rparr>,
         \<lparr>rc_id = ''c2'', rc_name = ''b'', rc_url = ''http://b'', rc_auth_type = AuthNone, rc_api_key = None,
          rc_share_base_url = None, rc_created_at = 1, rc_updated_at = 1\<rparr>]\<rparr>, cs_file = None\<rparr>"

definition first_answers :: "string \<Rightarrow> string option \<Rightarrow> health_outcome" where
  "first_answers url h = (if url = ''http://a/system/health'' then HealthResponse 200 4 else HealthTimeout)"

lemma health_tick_reports_transitions_witness:
  "map hs_connection_id (snd (health_tick first_answers 7 two_connections (\<lambda>i. two_connections)
     [(''c2'', snapshot_of 1 ''c2'' (Inl (Server ''down''))), (''gone'', snapshot_of 1 ''gone'' (Inl (Server ''x'')))])) = [''c1''] \<and>
   hget (fst (health_tick first_answers 7 two_connections (\<lambda>i. two_connections)
     [(''c2'', snapshot_of 1 ''c2'' (Inl (Server ''down''))), (''gone'', snapshot_of 1 ''gone'' (Inl (Server ''x'')))])) ''gone'' = None"
proof -
  let ?m = "[(''c2'', snapshot_of 1 ''c2'' (Inl (Server ''down''))), (''gone'', snapshot_of 1 ''gone'' (Inl (Server ''x'')))]"
  have d: "distinct (map rc_id (connection_list two_connections))" by code_simp
  obtain m' events where t: "health_tick first_answers 7 two_connections (\<lambda>i. two_connections) ?m = (m', events)"
    by (rule prod.exhaust)
  have "\<not> ''gone'' \<in> set (map rc_id (connection_list two_connections))" by code_simp
  then have "hget m' ''gone'' = None"
    using health_tick_reports_transitions [OF d t, THEN conjunct1, of "''gone''"] by (simp only: if_False)
  moreover have "map hs_connection_id (snd (health_tick first_answers 7 two_connections (\<lambda>i. two_connections) ?m)) = [''c1'']"
    by code_simp
  ultimately show ?thesis unfolding t fst_conv snd_conv by (rule conjI [rotated])
qed

end
