(* ===== verification/Runner_Control.thy ===== *)
theory Runner_Control
  imports Runner Health
begin

text \<open>
  \<open>SyncRunner\<close> (\<open>sync/runner.rs\<close>): the map of started loops.  An entry holds what its task was
  started with, and whether the loop has ended by itself; only a stop removes it.  The
  configuration is read, never written, here.
\<close>

record running_sync =
  ru_name :: string
  ru_rel :: sync_relationship
  ru_conn :: remote_connection
  ru_interval :: nat
  ru_ended :: bool

type_synonym running_map = "(string, running_sync) hmap"

definition runner_start :: "string \<Rightarrow> config_store \<Rightarrow> running_map \<Rightarrow> running_map \<times> unit res" where
  "runner_start i s running =
     (if hget running i \<noteq> None then
        (running, Inl (Configuration (''sync already running for relationship '' @ i)))
      else case relationship_get i s of
             None \<Rightarrow> (running, Inl (Configuration (''sync relationship not found: '' @ i)))
           | Some rel \<Rightarrow>
               if \<not> sr_enabled rel then
                 (running, Inl (Configuration (''sync relationship '' @ quoted (sr_name rel) @ '' is disabled'')))
               else case connection_get (sr_remote_connection_id rel) s of
                      None \<Rightarrow>
                        (running, Inl (Configuration (''connection not found: '' @ sr_remote_connection_id rel)))
                    | Some conn \<Rightarrow>
                        (hinsert i
                           \<lparr>ru_name = sr_name rel, ru_rel = rel, ru_conn = conn,
                            ru_interval = set_sync_interval_seconds (cc_settings (config_get s)),
                            ru_ended = False\<rparr> running, Inr ()))"

definition runner_stop :: "string \<Rightarrow> running_map \<Rightarrow> running_map \<times> unit res" where
  "runner_stop i running =
     (case hget running i of
        Some _ \<Rightarrow> (hremove i running, Inr ())
      | None \<Rightarrow> (running, Inl (Configuration (''sync not running for relationship '' @ i))))"

definition is_running :: "string \<Rightarrow> running_map \<Rightarrow> bool" where
  "is_running i running \<longleftrightarrow> hget running i \<noteq> None"

definition stop_all :: "running_map \<Rightarrow> running_map" where
  "stop_all running = []"

definition start_all_enabled :: "config_store \<Rightarrow> running_map \<Rightarrow> running_map" where
  "start_all_enabled s running =
     fold (\<lambda>rel m. if sr_enabled rel then fst (runner_start (sr_id rel) s m) else m)
       (relationship_list s) running"

text \<open>The setting is read before and after the delay; \<open>later\<close> is the configuration then.\<close>

definition start_all_enabled_if_configured ::
  "config_store \<Rightarrow> config_store \<Rightarrow> running_map \<Rightarrow> running_map" where
  "start_all_enabled_if_configured s later running =
     (if \<not> set_auto_start_sync (cc_settings (config_get s)) then running
      else if set_auto_start_sync (cc_settings (config_get later)) then start_all_enabled later running
      else running)"

text \<open>The task leaves its loop (\<open>break\<close>): nothing tells the map.\<close>

definition loop_ended :: "string \<Rightarrow> running_map \<Rightarrow> running_map" where
  "loop_ended i running =
     (case hget running i of
        Some u \<Rightarrow> hinsert i (u\<lparr>ru_ended := True\<rparr>) running | None \<Rightarrow> running)"

section \<open>Status\<close>

record runner_status =
  us_relationship_id :: string
  us_relationship_name :: string
  us_remote_connection_id :: string
  us_running :: bool
  us_executing :: bool
  us_syncing :: bool
  us_connection_health :: health_status
  us_connection_healthy :: bool
  us_connection_checked_at :: "int option"
  us_connection_message :: "string option"

text \<open>\<open>locked\<close>: whether the guard of the relationship is taken.\<close>

definition runner_status_of ::
  "running_map \<Rightarrow> (string \<Rightarrow> bool) \<Rightarrow> health_map \<Rightarrow> sync_relationship \<Rightarrow> runner_status" where
  "runner_status_of running locked health rel =
     (let snapshot = hget health (sr_remote_connection_id rel);
          state = (case snapshot of Some s \<Rightarrow> hs_status s | None \<Rightarrow> StatusUnknown);
          healthy = (state = StatusUp);
          executing = locked (sr_id rel)
      in \<lparr>us_relationship_id = sr_id rel, us_relationship_name = sr_name rel,
          us_remote_connection_id = sr_remote_connection_id rel,
          us_running = (hget running (sr_id rel) \<noteq> None), us_executing = executing,
          us_syncing = (executing \<and> healthy), us_connection_health = state,
          us_connection_healthy = healthy,
          us_connection_checked_at = map_option hs_checked_at snapshot,
          us_connection_message = Option.bind snapshot hs_message\<rparr>)"

definition runner_statuses ::
  "config_store \<Rightarrow> running_map \<Rightarrow> (string \<Rightarrow> bool) \<Rightarrow> health_map \<Rightarrow> runner_status list" where
  "runner_statuses s running locked health =
     map (runner_status_of running locked health) (relationship_list s)"

section \<open>Lemmas\<close>

lemma start_keeps: "hget running i = Some u \<Longrightarrow> hget (fst (runner_start j s running)) i = Some u"
  by (auto simp: runner_start_def split: option.splits)

lemma start_spawns:
  "hget (fst (runner_start j s running)) i = Some u \<Longrightarrow> hget running i = None \<Longrightarrow>
    i = j \<and> (\<exists>rel conn. relationship_get i s = Some rel \<and> sr_enabled rel \<and> ru_rel u = rel \<and>
      connection_get (sr_remote_connection_id rel) s = Some conn \<and> ru_conn u = conn \<and> \<not> ru_ended u)"
  by (auto simp: runner_start_def split: option.splits if_splits)

end
