(* ===== verification/Sync_Routes.thy ===== *)
theory Sync_Routes
  imports Runner_Control
begin

text \<open>
  The handlers of \<open>api/routes/sync.rs\<close>: relationships with their loops and their sync state, the
  syncs a user asks for, and the control of the runner.  An answer is the value the handler
  turns into JSON, or the error.  A handler runs as one step; the environment tells whether the
  guard of the relationship is taken.
\<close>

section \<open>State\<close>

record ('w, 'e) app =
  ap_shared :: "('w, 'e) shared"
  ap_running :: running_map

record ('w, 'e) app_env =
  av_runner :: "('w, 'e) runner_env"
  av_config :: config_env
  av_paths :: local_path_env
  av_now :: timestamp
  av_uuid :: string
  av_locked :: "string \<Rightarrow> bool"

abbreviation ap_config :: "('w, 'e) app \<Rightarrow> config_store" where
  "ap_config a \<equiv> sh_config (ap_shared a)"

definition put_config :: "config_store \<Rightarrow> ('w, 'e) app \<Rightarrow> ('w, 'e) app" where
  "put_config s a = a\<lparr>ap_shared := (ap_shared a)\<lparr>sh_config := s\<rparr>\<rparr>"

definition put_store :: "'e \<Rightarrow> ('w, 'e) app \<Rightarrow> ('w, 'e) app" where
  "put_store e a = a\<lparr>ap_shared := (ap_shared a)\<lparr>sh_store := e\<rparr>\<rparr>"

text \<open>Starting a loop from a handler: an error is only a warning.\<close>

definition try_start :: "string \<Rightarrow> ('w, 'e) app \<Rightarrow> ('w, 'e) app" where
  "try_start i a = a\<lparr>ap_running := fst (runner_start i (ap_config a) (ap_running a))\<rparr>"

definition try_stop :: "string \<Rightarrow> ('w, 'e) app \<Rightarrow> ('w, 'e) app" where
  "try_stop i a = a\<lparr>ap_running := fst (runner_stop i (ap_running a))\<rparr>"

section \<open>Relationships\<close>

definition list_relationships :: "('w, 'e) app \<Rightarrow> sync_relationship list" where
  "list_relationships a = relationship_list (ap_config a)"

definition create_relationship ::
  "('w, 'e) app_env \<Rightarrow> create_relationship_request \<Rightarrow> ('w, 'e) app \<Rightarrow>
     ('w, 'e) app \<times> sync_relationship res" where
  "create_relationship env q a =
     (case relationship_create (av_config env) (av_paths env) (av_now env) (av_uuid env) q (ap_config a) of
        (s, Inl error) \<Rightarrow> (put_config s a, Inl error)
      | (s, Inr rel) \<Rightarrow>
          (let a1 = put_config s a
           in (if sr_enabled rel then try_start (sr_id rel) a1 else a1, Inr rel)))"

definition get_relationship :: "string \<Rightarrow> ('w, 'e) app \<Rightarrow> sync_relationship res" where
  "get_relationship i a =
     ok_or (NotFound (''sync relationship not found: '' @ i)) (relationship_get i (ap_config a))"

definition validate_local_sync_path :: "local_path_env \<Rightarrow> string \<Rightarrow> unit res" where
  "validate_local_sync_path le p =
     (case (if lp_exists le p then None else lp_mkdirs le p) of
        Some error \<Rightarrow>
          Inl (Configuration (''cannot create local path '' @ quoted p @ '': '' @ error))
      | None \<Rightarrow>
          if \<not> lp_is_dir le p then Inl (Configuration (''local path is not a directory: '' @ p))
          else Inr ())"

text \<open>What is done with the sync state when a root changed.\<close>

definition root_changed ::
  "'e engine \<Rightarrow> timestamp \<Rightarrow> sync_relationship \<Rightarrow> sync_relationship \<Rightarrow> 'e \<Rightarrow> 'e \<times> unit res" where
  "root_changed en now existing updated e =
     (case sr_direction updated of
        PullOnly \<Rightarrow> clear_relationship_state en (sr_id updated) e
      | _ \<Rightarrow> begin_path_migration en now (sr_id updated) (sr_remote_path existing)
               (sr_remote_path updated) (sr_local_path existing) (sr_local_path updated) e)"

definition paths_change :: "update_relationship_request \<Rightarrow> sync_relationship \<Rightarrow> bool" where
  "paths_change q existing \<longleftrightarrow>
     (case ux_local_path q of Some p \<Rightarrow> p | None \<Rightarrow> sr_local_path existing) \<noteq> sr_local_path existing \<or>
     (case ux_remote_path q of Some p \<Rightarrow> normalize_remote_path p | None \<Rightarrow> sr_remote_path existing) \<noteq>
       sr_remote_path existing"

definition update_relationship ::
  "('w, 'e) app_env \<Rightarrow> string \<Rightarrow> update_relationship_request \<Rightarrow> ('w, 'e) app \<Rightarrow>
     ('w, 'e) app \<times> sync_relationship res" where
  "update_relationship env i q a =
     (case relationship_get i (ap_config a) of
        None \<Rightarrow> (a, Inl (NotFound (''sync relationship not found: '' @ i)))
      | Some existing \<Rightarrow>
          (case (case ux_local_path q of Some p \<Rightarrow> validate_local_sync_path (av_paths env) p
                                       | None \<Rightarrow> Inr ()) of
             Inl error \<Rightarrow> (a, Inl error)
           | Inr _ \<Rightarrow>
               (let changed = paths_change q existing;
                    was_running = (changed \<and> is_running i (ap_running a));
                    a1 = (if was_running then try_stop i a else a)
                in case relationship_update (av_config env) (av_now env) i q (ap_config a1) of
                     (s, Inl error) \<Rightarrow>
                       (let a2 = put_config s a1
                        in (if was_running \<and> sr_enabled existing then try_start i a2 else a2, Inl error))
                   | (s, Inr updated) \<Rightarrow>
                       (let a2 = put_config s a1
                        in if \<not> changed then (a2, Inr updated)
                           else case root_changed (rn_engine (av_runner env)) (av_now env) existing
                                       updated (sh_store (ap_shared a2)) of
                                  (e, Inl error) \<Rightarrow> (put_store e a2, Inl error)
                                | (e, Inr _) \<Rightarrow>
                                    (let a3 = put_store e a2
                                     in (if sr_enabled updated then try_start i a3 else a3,
                                         Inr updated))))))"

definition delete_relationship ::
  "('w, 'e) app_env \<Rightarrow> string \<Rightarrow> ('w, 'e) app \<Rightarrow> ('w, 'e) app \<times> unit res" where
  "delete_relationship env i a =
     (case relationship_delete (av_config env) i (ap_config a) of (s, r) \<Rightarrow> (put_config s a, r))"

definition enable_relationship ::
  "('w, 'e) app_env \<Rightarrow> string \<Rightarrow> ('w, 'e) app \<Rightarrow> ('w, 'e) app \<times> sync_relationship res" where
  "enable_relationship env i a =
     (case relationship_enable (av_config env) (av_now env) i (ap_config a) of
        (s, Inl error) \<Rightarrow> (put_config s a, Inl error)
      | (s, Inr rel) \<Rightarrow> (try_start i (put_config s a), Inr rel))"

definition disable_relationship ::
  "('w, 'e) app_env \<Rightarrow> string \<Rightarrow> ('w, 'e) app \<Rightarrow> ('w, 'e) app \<times> sync_relationship res" where
  "disable_relationship env i a =
     (case relationship_disable (av_config env) (av_now env) i (ap_config a) of
        (s, Inl error) \<Rightarrow> (put_config s a, Inl error)
      | (s, Inr rel) \<Rightarrow> (try_stop i (put_config s a), Inr rel))"

section \<open>Syncs on request\<close>

definition push_summary_json :: "push_result \<times> nat \<Rightarrow> json" where
  "push_summary_json p =
     (case p of (r, ms) \<Rightarrow>
        JObj [(''files_pushed'', JInt (int (pu_files_pushed r))),
              (''files_skipped'', JInt (int (pu_files_skipped r))),
              (''files_failed'', JInt (int (pu_files_failed r))),
              (''files_deleted'', JInt (int (pu_files_deleted r))),
              (''total_bytes'', JInt (int (pu_total_bytes r))),
              (''duration_ms'', JInt (int ms)), (''errors'', JArr (map JStr (pu_errors r)))])"

definition pull_summary_json :: "pull_result \<times> nat \<Rightarrow> json" where
  "pull_summary_json p =
     (case p of (r, ms) \<Rightarrow>
        JObj [(''files_pulled'', JInt (int (pr_files_pulled r))),
              (''files_skipped'', JInt (int (pr_files_skipped r))),
              (''files_failed'', JInt (int (pr_files_failed r))),
              (''files_deleted'', JInt (int (pr_files_deleted r))),
              (''symlinks_pulled'', JInt (int (pr_symlinks_pulled r))),
              (''total_bytes'', JInt (int (pr_total_bytes r))),
              (''duration_ms'', JInt (int ms)), (''errors'', JArr (map JStr (pr_errors r)))])"

definition opt_json :: "('a \<Rightarrow> json) \<Rightarrow> 'a option \<Rightarrow> json" where
  "opt_json f x = (case x of Some v \<Rightarrow> f v | None \<Rightarrow> JNull)"

definition sync_response :: "sync_result \<Rightarrow> json" where
  "sync_response r =
     JObj [(''push'', opt_json push_summary_json (sy_push r)),
           (''pull'', opt_json pull_summary_json (sy_pull r))]"

definition already_running_response :: "sync_relationship \<Rightarrow> json" where
  "already_running_response rel =
     JObj [(''already_running'', JBool True),
           (''message'', JStr (''sync already in progress for '' @ quoted (sr_name rel))),
           (''push'', JNull), (''pull'', JNull)]"

definition run_sync ::
  "('w, 'e) app_env \<Rightarrow> string \<Rightarrow> bool \<Rightarrow> ('w, 'e) app \<Rightarrow> ('w, 'e) app \<times> json res" where
  "run_sync env i force a =
     (case relationship_get i (ap_config a) of
        None \<Rightarrow> (a, Inl (NotFound (''sync relationship not found: '' @ i)))
      | Some rel \<Rightarrow>
          if \<not> sr_enabled rel then
            (a, Inl (BadRequest (''sync relationship '' @ quoted (sr_name rel) @ '' is disabled'')))
          else if av_locked env i then
            (a, if \<not> force then Inr (already_running_response rel)
                else Inl (BadRequest (''sync already in progress for relationship '' @
                            quoted (sr_name rel))))
          else case connection_get (sr_remote_connection_id rel) (ap_config a) of
                 None \<Rightarrow> (a, Inl (NotFound ''connection not found''))
               | Some conn \<Rightarrow>
                   (let en = rn_engine (av_runner env); sh = ap_shared a
                    in case (if force then clear_checkpoint en i (sh_store sh) else (sh_store sh, Inr ())) of
                         (e, Inl error) \<Rightarrow>
                           (put_store e a,
                            Inl (Server (''failed to clear sync checkpoint: '' @ error_text error)))
                       | (e, Inr _) \<Rightarrow>
                           (case sync_relationship_cycle (rn_sync (av_runner env) conn) en rel
                                   (relationship_list (sh_config sh)) (if force then Full else Lite)
                                   (sh_world sh, e) of
                              (p, Inl error) \<Rightarrow>
                                (a\<lparr>ap_shared := with_world p sh\<rparr>, Inl (Server (error_text error)))
                            | (p, Inr r) \<Rightarrow>
                                (a\<lparr>ap_shared := log_and_broadcast (av_runner env)
                                     (\<lambda>k. full_sync_event k i (sr_name rel) r) (with_world p sh)\<rparr>,
                                 Inr (sync_response r)))))"

definition trigger_sync :: "('w, 'e) app_env \<Rightarrow> string \<Rightarrow> ('w, 'e) app \<Rightarrow> ('w, 'e) app \<times> json res" where
  "trigger_sync env i = run_sync env i False"

definition force_resync :: "('w, 'e) app_env \<Rightarrow> string \<Rightarrow> ('w, 'e) app \<Rightarrow> ('w, 'e) app \<times> json res" where
  "force_resync env i = run_sync env i True"

section \<open>Control\<close>

definition message_json :: "string \<Rightarrow> json" where
  "message_json m = JObj [(''message'', JStr m)]"

definition start_sync :: "string \<Rightarrow> ('w, 'e) app \<Rightarrow> ('w, 'e) app \<times> json res" where
  "start_sync i a =
     (case runner_start i (ap_config a) (ap_running a) of
        (running, Inr _) \<Rightarrow> (a\<lparr>ap_running := running\<rparr>, Inr (message_json (''sync started for '' @ i)))
      | (running, Inl error) \<Rightarrow>
          (a\<lparr>ap_running := running\<rparr>,
           Inl (let m = error_text error
                in if contains m ''already running'' then BadRequest m
                   else if contains m ''not found'' \<or> contains m ''disabled'' then BadRequest m
                   else Server m)))"

definition stop_sync :: "string \<Rightarrow> ('w, 'e) app \<Rightarrow> ('w, 'e) app \<times> json res" where
  "stop_sync i a =
     (case runner_stop i (ap_running a) of
        (running, Inr _) \<Rightarrow> (a\<lparr>ap_running := running\<rparr>, Inr (message_json (''sync stopped for '' @ i)))
      | (running, Inl error) \<Rightarrow>
          (a\<lparr>ap_running := running\<rparr>,
           Inl (let m = error_text error
                in if contains m ''not running'' then BadRequest m else Server m)))"

definition pause_all_sync :: "('w, 'e) app \<Rightarrow> ('w, 'e) app \<times> json" where
  "pause_all_sync a =
     (a\<lparr>ap_running := stop_all (ap_running a)\<rparr>, message_json ''all sync runners paused'')"

definition resume_all_sync :: "('w, 'e) app \<Rightarrow> ('w, 'e) app \<times> json" where
  "resume_all_sync a =
     (a\<lparr>ap_running := start_all_enabled (ap_config a) (ap_running a)\<rparr>,
      message_json ''all enabled sync runners resumed'')"

definition sync_runner_status :: "('w, 'e) app_env \<Rightarrow> health_map \<Rightarrow> ('w, 'e) app \<Rightarrow> runner_status list" where
  "sync_runner_status env health a =
     runner_statuses (ap_config a) (ap_running a) (av_locked env) health"

definition get_sync_activity ::
  "('w, 'e) app_env \<Rightarrow> string \<Rightarrow> ('w, 'e) app \<Rightarrow> ('w, 'e) app \<times> sync_event list res" where
  "get_sync_activity env i a =
     (let sh = ap_shared a
      in case get_events (rn_engine (av_runner env)) i 50 (sh_store sh, sh_progress sh) of
           ((e, progress), r) \<Rightarrow>
             (a\<lparr>ap_shared := sh\<lparr>sh_store := e, sh_progress := progress\<rparr>\<rparr>,
              map_err (\<lambda>error. Server (error_text error)) r))"

end
