(* ===== verification/Machines.thy ===== *)
theory Machines
  imports Main
begin

text \<open>
  The contracts that the concurrent parts of the client share: a machine whose steps keep an
  invariant, and the special case of a state that only handlers change, one request after the
  other.
\<close>

section \<open>Steps that keep an invariant\<close>

locale step_machine =
  fixes step :: "'s \<Rightarrow> 's \<Rightarrow> bool"
    and inv :: "'s \<Rightarrow> bool"
  assumes inv_step: "step s s' \<Longrightarrow> inv s \<Longrightarrow> inv s'"
begin

text \<open>What holds at the start of a run holds after it.\<close>

lemma inv_run: "step\<^sup>*\<^sup>* s s' \<Longrightarrow> inv s \<Longrightarrow> inv s'"
  by (induction rule: rtranclp_induct) (auto intro: inv_step)

text \<open>A state that shows a violation is not reachable from one that keeps the invariant.\<close>

lemma unreachable: "inv s \<Longrightarrow> \<not> inv s' \<Longrightarrow> \<not> step\<^sup>*\<^sup>* s s'"
  using inv_run by blast

end

section \<open>Handlers\<close>

text \<open>Each request runs a handler on the shared state; what it answers is left out.\<close>

locale handler_machine =
  fixes handle :: "'q \<Rightarrow> 's \<Rightarrow> 's"
    and inv :: "'s \<Rightarrow> bool"
  assumes inv_handle: "inv s \<Longrightarrow> inv (handle q s)"
begin

lemma fold_steps: "(\<lambda>s s'. \<exists>q. s' = handle q s)\<^sup>*\<^sup>* s (fold handle qs s)"
proof (induction qs arbitrary: s)
  case (Cons q qs)
  then show ?case by (auto intro: converse_rtranclp_into_rtranclp)
qed simp

end

sublocale handler_machine \<subseteq> steps: step_machine "\<lambda>s s'. \<exists>q. s' = handle q s" inv
  by unfold_locales (auto simp: inv_handle)

context handler_machine
begin

lemma inv_fold: "inv s \<Longrightarrow> inv (fold handle qs s)"
  by (rule steps.inv_run [OF fold_steps])

end

end
