(* ===== verification/Config_Steps.thy ===== *)
theory Config_Steps
  imports Relationships Machines
begin

text \<open>
  The configuration as a state machine.  The API calls \<open>ConnectionManager\<close> and
  \<open>RelationshipManager\<close> from concurrent requests; each access to the configuration is one step
  under its lock.  \<open>config_step\<close> takes the creation of a relationship as one step;
  \<open>fine_step\<close> takes it as the code does, as a check that releases the lock and a later commit,
  with any other request in between.
\<close>

datatype config_action =
    CreateConnection timestamp string create_connection_request
  | UpdateConnection timestamp string update_connection_request
  | DeleteConnection string
  | UpdateRelationship timestamp string update_relationship_request
  | DeleteRelationship string

fun run_action :: "config_env \<Rightarrow> config_action \<Rightarrow> config_store \<Rightarrow> config_store" where
  "run_action e (CreateConnection now uuid q) s = fst (connection_create e now uuid q s)"
| "run_action e (UpdateConnection now i q) s = fst (connection_update e now i q s)"
| "run_action e (DeleteConnection i) s = fst (connection_delete e i s)"
| "run_action e (UpdateRelationship now i q) s = fst (relationship_update e now i q s)"
| "run_action e (DeleteRelationship i) s = fst (relationship_delete e i s)"

inductive config_step :: "config_env \<Rightarrow> local_path_env \<Rightarrow> config_store \<Rightarrow> config_store \<Rightarrow> bool"
  for e le where
  act: "config_step e le s (run_action e a s)"
| create: "config_step e le s (fst (relationship_create e le now uuid q s))"

inductive_cases config_stepE: "config_step e le s s'"

abbreviation config_run ::
  "config_env \<Rightarrow> local_path_env \<Rightarrow> config_store \<Rightarrow> config_store \<Rightarrow> bool" where
  "config_run e le \<equiv> (config_step e le)\<^sup>*\<^sup>*"

text \<open>The finer machine: the requests checked and not yet committed are part of the state.\<close>

inductive fine_step ::
  "config_env \<Rightarrow> local_path_env \<Rightarrow> config_store \<times> create_relationship_request set \<Rightarrow>
     config_store \<times> create_relationship_request set \<Rightarrow> bool"
  for e le where
  act: "fine_step e le (s, qs) (run_action e a s, qs)"
| check: "relationship_create_check le q s = Inr u \<Longrightarrow> fine_step e le (s, qs) (s, insert q qs)"
| commit: "q \<in> qs \<Longrightarrow>
    fine_step e le (s, qs) (fst (relationship_create_commit e now uuid q s), qs - {q})"

section \<open>Invariants\<close>

text \<open>A relationship's remote path starts and ends with a slash and has no backslash.\<close>

definition remote_path_normal :: "string \<Rightarrow> bool" where
  "remote_path_normal p \<longleftrightarrow>
     starts_with p ''/'' \<and> ends_with p ''/'' \<and> CHR 0x5C \<notin> set p"

definition config_inv :: "client_config \<Rightarrow> bool" where
  "config_inv c \<longleftrightarrow>
     references_ok c \<and> (\<forall>r\<in>set (cc_relationships c). remote_path_normal (sr_remote_path r))"

lemma normal_new: "remote_path_normal (normalize_remote_path p)"
  using normalize_remote_path_form [of p] by (simp add: remote_path_normal_def)

lemma normal_update:
  "remote_path_normal (sr_remote_path r) \<Longrightarrow>
    remote_path_normal (sr_remote_path (apply_relationship_update now q r))"
  by (simp add: apply_relationship_update_def Let_def normal_new split: option.split)

lemma inv_default: "config_inv default_config"
  by (simp add: config_inv_def references_ok_def default_config_def)

lemma inv_update_relationship:
  assumes "config_inv c"
  shows "config_inv (fst (relationship_update_closure now i q c))"
proof -
  let ?u = "update_first (\<lambda>x. sr_id x = i) (apply_relationship_update now q) (cc_relationships c)"
  have "remote_path_normal (sr_remote_path r)" if "r \<in> set (fst ?u)" for r
    using update_first_in [OF that] assms by (auto simp: config_inv_def normal_update)
  moreover have "cc_relationships (fst (relationship_update_closure now i q c)) = fst ?u"
    by (simp add: relationship_update_closure_def split: prod.split)
  ultimately show ?thesis
    using assms relationship_closure_references by (auto simp: config_inv_def)
qed

lemma inv_delete_relationship:
  "config_inv c \<Longrightarrow> config_inv (fst (relationship_delete_closure i c))"
  using relationship_delete_references [of c i]
  by (auto simp: config_inv_def relationship_delete_closure_def Let_def)

lemma inv_update_connection:
  "config_inv c \<Longrightarrow> config_inv (fst (connection_update_closure now i q c))"
  using update_closure_references [of c now i q] by (simp add: config_inv_def update_closure_keeps)

lemma inv_delete_connection: "config_inv c \<Longrightarrow> config_inv (fst (connection_delete_closure i c))"
  using delete_closure_references [of c i]
  by (auto simp: config_inv_def connection_delete_closure_def Let_def split: if_splits)

lemma inv_create_connection:
  assumes "config_inv (cs_config s)"
  shows "config_inv (cs_config (fst (connection_create e now uuid q s)))"
proof -
  obtain x where x: "cs_config (fst (connection_create e now uuid q s)) =
      (cs_config s)\<lparr>cc_connections := cc_connections (cs_config s) @ [x]\<rparr>"
    using connection_create_store by blast
  show ?thesis unfolding x using assms by (auto simp: config_inv_def references_ok_def)
qed

lemma inv_run_action: "config_inv (cs_config s) \<Longrightarrow> config_inv (cs_config (run_action e a s))"
  by (cases a) (simp_all add: inv_create_connection connection_update_store connection_delete_store
      relationship_update_store relationship_delete_store inv_update_connection
      inv_delete_connection inv_update_relationship inv_delete_relationship)

lemma inv_create_relationship:
  assumes "config_inv (cs_config s)"
  shows "config_inv (cs_config (fst (relationship_create e le now uuid q s)))"
proof -
  have "references_ok (cs_config (fst (relationship_create e le now uuid q s)))"
    using assms by (intro relationship_create_references) (simp add: config_inv_def)
  moreover have "r \<in> set (cc_relationships (cs_config (fst (relationship_create e le now uuid q s)))) \<Longrightarrow>
      remote_path_normal (sr_remote_path r)" for r
    using assms by (auto simp: relationship_create_def relationship_commit_store config_inv_def
        new_relationship_def normal_new split: sum.splits)
  ultimately show ?thesis by (simp add: config_inv_def)
qed

lemma inv_step: "config_step e le s s' \<Longrightarrow> config_inv (cs_config s) \<Longrightarrow> config_inv (cs_config s')"
  by (elim config_stepE) (auto intro: inv_run_action inv_create_relationship)

interpretation config: step_machine "config_step e le" "\<lambda>s. config_inv (cs_config s)" for e le
  by unfold_locales (rule inv_step)

section \<open>Properties\<close>

text \<open>C7. From a consistent configuration, no sequence of API calls, failed saves included, leads to
  a relationship whose connection does not exist or whose remote path is not of the form
  slash, path, slash: the delete guard of a connection and the check of a new relationship are
  enough.\<close>

theorem config_stays_consistent:
  assumes "config_run e le s s'" "config_inv (cs_config s)"
  shows "references_ok (cs_config s') \<and>
    (\<forall>r\<in>set (cc_relationships (cs_config s')). remote_path_normal (sr_remote_path r))"
  using config.inv_run [OF assms] by (simp add: config_inv_def)

definition sample_connection_request :: create_connection_request where
  "sample_connection_request =
     \<lparr>cr_name = ''home'', cr_url = ''host:3000/'', cr_auth_type = AuthNone, cr_api_key = None,
      cr_share_base_url = None\<rparr>"

definition sample_relationship_request :: create_relationship_request where
  "sample_relationship_request =
     \<lparr>qr_name = ''docs'', qr_remote_connection_id = ''c1'', qr_remote_path = ''docs'',
      qr_local_path = ''/home/u/docs'', qr_direction = Bidirectional, qr_filter = None,
      qr_delete_propagation = None\<rparr>"

definition sample_paths :: local_path_env where
  "sample_paths = \<lparr>lp_exists = (\<lambda>p. True), lp_mkdirs = (\<lambda>p. None), lp_is_dir = (\<lambda>p. True)\<rparr>"

definition start_store :: config_store where
  "start_store = \<lparr>cs_config = default_config, cs_file = None\<rparr>"

lemma config_stays_consistent_witness:
  "references_ok (cs_config (fst (relationship_create sample_config_env sample_paths 2 ''r1''
     sample_relationship_request
     (run_action sample_config_env (CreateConnection 1 ''c1'' sample_connection_request) start_store))))"
proof -
  have "config_run sample_config_env sample_paths start_store
     (fst (relationship_create sample_config_env sample_paths 2 ''r1'' sample_relationship_request
        (run_action sample_config_env (CreateConnection 1 ''c1'' sample_connection_request) start_store)))"
    by (rule rtranclp.rtrancl_into_rtrancl [OF r_into_rtranclp [of "config_step _ _", OF config_step.act]
          config_step.create])
  moreover have "config_inv (cs_config start_store)"
    by (simp add: start_store_def inv_default)
  ultimately show ?thesis by (rule config_stays_consistent [THEN conjunct1])
qed

text \<open>The check and the commit of a new relationship take the lock separately.  Deleting the
  connection in between leaves a relationship that refers to no connection.\<close>

theorem relationship_create_races_with_delete:
  "\<exists>s1 s2 s3 s4 q.
     fine_step sample_config_env sample_paths (start_store, {}) (s1, {}) \<and>
     fine_step sample_config_env sample_paths (s1, {}) (s2, {q}) \<and>
     fine_step sample_config_env sample_paths (s2, {q}) (s3, {q}) \<and>
     fine_step sample_config_env sample_paths (s3, {q}) (s4, {}) \<and>
     references_ok (cs_config s3) \<and> \<not> references_ok (cs_config s4)"
proof -
  let ?e = sample_config_env and ?q = sample_relationship_request
  let ?s1 = "run_action ?e (CreateConnection 1 ''c1'' sample_connection_request) start_store"
  let ?s3 = "run_action ?e (DeleteConnection ''c1'') ?s1"
  let ?s4 = "fst (relationship_create_commit ?e 2 ''r1'' ?q ?s3)"
  have s1: "fine_step ?e sample_paths (start_store, {}) (?s1, {})" by (rule fine_step.act)
  have ok: "is_ok (relationship_create_check sample_paths ?q ?s1)" by code_simp
  then have s2: "fine_step ?e sample_paths (?s1, {}) (?s1, {?q})"
    by (cases "relationship_create_check sample_paths ?q ?s1") (auto intro: fine_step.check)
  have s3: "fine_step ?e sample_paths (?s1, {?q}) (?s3, {?q})" by (rule fine_step.act)
  have s4: "fine_step ?e sample_paths (?s3, {?q}) (?s4, {})"
    using fine_step.commit [of ?q "{?q}" ?e sample_paths ?s3 2 "''r1''"] by simp
  have "references_ok (cs_config ?s3)" "\<not> references_ok (cs_config ?s4)" by code_simp+
  with s1 s2 s3 s4 show ?thesis by blast
qed

end
