(* ===== verification/Registry.thy ===== *)
theory Registry
  imports Config_Steps
begin

text \<open>
  The contract the two managers share (\<open>connections.rs\<close>, \<open>sync/relationships.rs\<close>): records under
  identifiers that are created, read, updated and deleted one at a time.  The handlers of the API
  rely on it, so that an answer is what the next request reads and a request for one object leaves
  the others alone.
\<close>

section \<open>The contract\<close>

text \<open>\<open>look\<close> is the record stored under an identifier, \<open>shown\<close> what a read makes of it.  An update that
  cannot be saved has changed the memory all the same, so its law does not ask for success.\<close>

locale registry =
  fixes look :: "string \<Rightarrow> 's \<Rightarrow> 'r option"
    and shown :: "'r \<Rightarrow> 'r"
    and get :: "string \<Rightarrow> 's \<Rightarrow> 'r option"
    and create :: "'q \<Rightarrow> 's \<Rightarrow> 's \<times> 'r res"
    and fresh :: "'q \<Rightarrow> string"
    and update :: "string \<Rightarrow> 'u \<Rightarrow> 's \<Rightarrow> 's \<times> 'r res"
    and change :: "'u \<Rightarrow> 'r \<Rightarrow> 'r"
    and delete :: "string \<Rightarrow> 's \<Rightarrow> 's \<times> unit res"
  assumes get_look: "get i s = map_option shown (look i s)"
    and create_look: "create q s = (s', Inr r) \<Longrightarrow>
      look i s' = (case look i s of Some x \<Rightarrow> Some x | None \<Rightarrow> if i = fresh q then Some r else None)"
    and create_other: "i \<noteq> fresh q \<Longrightarrow> look i (fst (create q s)) = look i s"
    and update_look: "look j (fst (update i u s)) =
      (if j = i then map_option (change u) (look i s) else look j s)"
    and update_answer: "snd (update i u s) = Inr r \<Longrightarrow> look i s \<noteq> None \<and> r = change u (the (look i s))"
    and delete_look: "delete i s = (s', Inr d) \<Longrightarrow>
      look i s \<noteq> None \<and> look j s' = (if j = i then None else look j s)"
    and delete_refused: "delete i s = (s', x) \<Longrightarrow> j \<noteq> i \<Longrightarrow> look j s' = look j s"
begin

text \<open>An answer is what the next read shows.\<close>

lemma read_created:
  assumes "create q s = (s', Inr r)" "get (fresh q) s = None"
  shows "get (fresh q) s' = Some (shown r)"
  using create_look [OF assms(1), of "fresh q"] assms(2) by (simp add: get_look)

lemma read_updated:
  assumes "update i u s = (s', Inr r)"
  shows "get i s' = Some (shown r)"
  using update_look [of i i u s] update_answer [of i u s r] assms by (auto simp: get_look)

lemma read_deleted: "delete i s = (s', Inr d) \<Longrightarrow> get i s' = None"
  using delete_look [of i s s' d i] by (simp add: get_look)

text \<open>What is gone cannot be deleted or updated.\<close>

lemma deleted_twice:
  assumes "delete i s = (s', Inr d)" shows "\<not> is_ok (snd (delete i s'))" "\<not> is_ok (snd (update i u s'))"
proof -
  have none: "look i s' = None" using delete_look [OF assms, of i] by simp
  show "\<not> is_ok (snd (delete i s'))"
  proof (cases "delete i s'")
    case (Pair t x)
    then show ?thesis using delete_look [of i s' t] none by (cases x) auto
  qed
  show "\<not> is_ok (snd (update i u s'))"
    using update_answer [of i u s'] none by (cases "snd (update i u s')") auto
qed

text \<open>Other records keep what a read shows, whether or not the request succeeds.\<close>

lemma others_kept:
  shows "j \<noteq> fresh q \<Longrightarrow> get j (fst (create q s)) = get j s"
    and "j \<noteq> i \<Longrightarrow> get j (fst (update i u s)) = get j s"
    and "j \<noteq> i \<Longrightarrow> get j (fst (delete i s)) = get j s"
  using delete_refused [of i s "fst (delete i s)" "snd (delete i s)" j]
  by (simp_all add: get_look create_other update_look)

text \<open>Updates of different records can be exchanged.\<close>

lemma updates_commute:
  assumes "i \<noteq> j"
  shows "get k (fst (update i u (fst (update j v s)))) = get k (fst (update j v (fst (update i u s))))"
  using assms by (simp add: get_look update_look)

end

section \<open>Records in a list\<close>

lemma find_update_first:
  "(\<And>x. p x \<Longrightarrow> p (f x)) \<Longrightarrow> find p (fst (update_first p f xs)) = map_option f (find p xs)"
  by (induction xs) (auto split: prod.splits)

lemma find_update_first_other:
  "(\<And>x. p x \<Longrightarrow> \<not> q x) \<Longrightarrow> (\<And>x. p x \<Longrightarrow> \<not> q (f x)) \<Longrightarrow> find q (fst (update_first p f xs)) = find q xs"
  by (induction xs) (auto split: prod.splits)

lemma find_filter_id:
  "find (\<lambda>x. k x = j) (filter (\<lambda>x. k x \<noteq> i) xs) = (if j = i then None else find (\<lambda>x. k x = j) xs)"
  by (induction xs) auto

lemma length_filter_id: "length (filter (\<lambda>x. k x \<noteq> i) xs) < length xs \<longleftrightarrow> find (\<lambda>x. k x = i) xs \<noteq> None"
  using length_filter_le [of "\<lambda>x. k x \<noteq> i"] by (induction xs) (auto simp: less_Suc_eq_le)

section \<open>The managers\<close>

definition stored_connection :: "string \<Rightarrow> config_store \<Rightarrow> remote_connection option" where
  "stored_connection i s = find (\<lambda>c. rc_id c = i) (cc_connections (cs_config s))"

definition stored_relationship :: "string \<Rightarrow> config_store \<Rightarrow> sync_relationship option" where
  "stored_relationship i s = find (\<lambda>r. sr_id r = i) (cc_relationships (cs_config s))"

text \<open>An update is a success only when its closure found the record.\<close>

lemma update_first_found:
  "Some r = snd (update_first p f xs) \<Longrightarrow> find p xs \<noteq> None \<and> r = f (the (find p xs))"
  by (cases "find p xs") (auto simp: update_first_snd)

lemma connection_update_found:
  assumes "snd (connection_update e now i q s) = Inr r"
  shows "stored_connection i s \<noteq> None \<and> r = apply_connection_update now q (the (stored_connection i s))"
proof -
  have u: "config_update e (connection_update_closure now i q) s =
      (fst (connection_update e now i q s), Inr (Some r))"
    using assms by (auto simp: connection_update_def split: prod.splits sum.splits option.splits)
  have "snd (connection_update_closure now i q c) =
      snd (update_first (\<lambda>x. rc_id x = i) (apply_connection_update now q) (cc_connections c))" for c
    by (simp add: connection_update_closure_def split: prod.split)
  with cfg.upd_result [OF u] show ?thesis
    unfolding stored_connection_def by (intro update_first_found) simp
qed

lemma relationship_update_found:
  assumes "snd (relationship_update e now i q s) = Inr r"
  shows "stored_relationship i s \<noteq> None \<and>
    r = apply_relationship_update now q (the (stored_relationship i s))"
proof -
  have u: "config_update e (relationship_update_closure now i q) s =
      (fst (relationship_update e now i q s), Inr (Some r))"
    using assms by (auto simp: relationship_update_def split: prod.splits sum.splits option.splits)
  have "snd (relationship_update_closure now i q c) =
      snd (update_first (\<lambda>x. sr_id x = i) (apply_relationship_update now q) (cc_relationships c))" for c
    by (simp add: relationship_update_closure_def split: prod.split)
  with cfg.upd_result [OF u] show ?thesis
    unfolding stored_relationship_def by (intro update_first_found) simp
qed

lemma connection_update_look:
  "stored_connection j (fst (connection_update e now i q s)) =
     (if j = i then map_option (apply_connection_update now q) (stored_connection i s)
      else stored_connection j s)"
proof -
  have "cs_config (fst (connection_update e now i q s)) = (cs_config s)
      \<lparr>cc_connections := fst (update_first (\<lambda>x. rc_id x = i) (apply_connection_update now q)
         (cc_connections (cs_config s)))\<rparr>"
    by (simp add: connection_update_store connection_update_closure_def split: prod.split)
  then show ?thesis
    by (simp add: stored_connection_def find_update_first find_update_first_other)
qed

lemma relationship_update_look:
  "stored_relationship j (fst (relationship_update e now i q s)) =
     (if j = i then map_option (apply_relationship_update now q) (stored_relationship i s)
      else stored_relationship j s)"
proof -
  have "cs_config (fst (relationship_update e now i q s)) = (cs_config s)
      \<lparr>cc_relationships := fst (update_first (\<lambda>x. sr_id x = i) (apply_relationship_update now q)
         (cc_relationships (cs_config s)))\<rparr>"
    by (simp add: relationship_update_store relationship_update_closure_def split: prod.split)
  then show ?thesis
    by (simp add: stored_relationship_def find_update_first find_update_first_other)
qed

lemma connection_delete_look:
  assumes "connection_delete e i s = (s', Inr d)"
  shows "stored_connection i s \<noteq> None \<and>
    stored_connection j s' = (if j = i then None else stored_connection j s)"
proof -
  obtain m where u: "config_update e (connection_delete_closure i) s = (s', Inr (m, True))" and m: "m = 0"
    using assms by (auto simp: connection_delete_def split: prod.splits sum.splits if_splits)
  from cfg.upd_result [OF u] m show ?thesis
    by (auto simp: connection_delete_closure_def stored_connection_def Let_def find_filter_id
        length_filter_id split: if_splits)
qed

lemma relationship_delete_look:
  assumes "relationship_delete e i s = (s', Inr d)"
  shows "stored_relationship i s \<noteq> None \<and>
    stored_relationship j s' = (if j = i then None else stored_relationship j s)"
proof -
  have u: "config_update e (relationship_delete_closure i) s = (s', Inr True)"
    using assms by (auto simp: relationship_delete_def split: prod.splits sum.splits if_splits)
  from cfg.upd_result [OF u] show ?thesis
    by (auto simp: relationship_delete_closure_def stored_relationship_def Let_def find_filter_id
        length_filter_id)
qed

lemma delete_other:
  assumes "j \<noteq> i"
  shows "stored_connection j (fst (connection_delete e i s)) = stored_connection j s"
    and "stored_relationship j (fst (relationship_delete e i s)) = stored_relationship j s"
  using assms
  by (simp_all add: stored_connection_def stored_relationship_def connection_delete_store
      relationship_delete_store connection_delete_closure_def relationship_delete_closure_def Let_def
      find_filter_id)

text \<open>A creation appends its record, saved or not.\<close>

lemma connection_create_look:
  "\<exists>x. rc_id x = uuid \<and> snd (connection_create e now uuid q s) \<in> {Inr x} \<union> range Inl \<and>
     stored_connection j (fst (connection_create e now uuid q s)) =
       (case stored_connection j s of Some y \<Rightarrow> Some y | None \<Rightarrow> if j = uuid then Some x else None)"
proof -
  define x where "x = \<lparr>rc_id = uuid, rc_name = cr_name q, rc_url = normalize_url (cr_url q),
      rc_auth_type = cr_auth_type q, rc_api_key = cr_api_key q,
      rc_share_base_url = cr_share_base_url q, rc_created_at = now, rc_updated_at = now\<rparr>"
  have c: "connection_create e now uuid q s =
      config_update e (\<lambda>c. (c\<lparr>cc_connections := cc_connections c @ [x]\<rparr>, x)) s"
    by (simp add: connection_create_def x_def Let_def)
  have "snd (connection_create e now uuid q s) \<in> {Inr x} \<union> range Inl"
    using cfg.upd_captured [of e "\<lambda>c. (c\<lparr>cc_connections := cc_connections c @ [x]\<rparr>, x)" s]
    by (cases "snd (connection_create e now uuid q s)") (auto simp: c)
  moreover have "stored_connection j (fst (connection_create e now uuid q s)) =
       (case stored_connection j s of Some y \<Rightarrow> Some y | None \<Rightarrow> if rc_id x = j then Some x else None)"
    by (simp add: c stored_connection_def cfg.view_upd find_append split: option.split)
  ultimately show ?thesis by (intro exI [of _ x]) (auto simp: x_def)
qed

lemma relationship_create_look:
  "\<exists>x. sr_id x = uuid \<and> snd (relationship_create e le now uuid q s) \<in> {Inr x} \<union> range Inl \<and>
     (relationship_create e le now uuid q s = (s', Inr x) \<longrightarrow>
       stored_relationship j s' =
         (case stored_relationship j s of Some y \<Rightarrow> Some y | None \<Rightarrow> if j = uuid then Some x else None)) \<and>
     (j \<noteq> uuid \<longrightarrow>
       stored_relationship j (fst (relationship_create e le now uuid q s)) = stored_relationship j s)"
proof -
  define x where "x = new_relationship now uuid q"
  have i: "sr_id x = uuid" by (simp add: x_def new_relationship_def)
  have c: "relationship_create_commit e now uuid q s =
      config_update e (\<lambda>c. (c\<lparr>cc_relationships := cc_relationships c @ [x]\<rparr>, x)) s"
    by (simp add: relationship_create_commit_def x_def Let_def)
  have r: "snd (relationship_create_commit e now uuid q s) \<in> {Inr x} \<union> range Inl"
    using cfg.upd_captured [of e "\<lambda>c. (c\<lparr>cc_relationships := cc_relationships c @ [x]\<rparr>, x)" s]
    by (cases "snd (relationship_create_commit e now uuid q s)") (auto simp: c)
  have look: "stored_relationship j (fst (relationship_create_commit e now uuid q s)) =
       (case stored_relationship j s of Some y \<Rightarrow> Some y | None \<Rightarrow> if j = uuid then Some x else None)"
    by (simp add: c stored_relationship_def cfg.view_upd find_append i split: option.split)
  have "j \<noteq> uuid \<longrightarrow> stored_relationship j (fst (relationship_create_commit e now uuid q s)) =
      stored_relationship j s"
    by (auto simp: look split: option.split)
  with i r look show ?thesis
    by (intro exI [of _ x]) (cases "relationship_create_check le q s",
        auto simp: relationship_create_def split: option.splits)
qed

section \<open>The managers keep the contract\<close>

interpretation connections: registry stored_connection with_normal_url connection_get
  "\<lambda>(now, uuid, q). connection_create e now uuid q" "\<lambda>(now, uuid, q). uuid"
  "\<lambda>i (now, q). connection_update e now i q" "\<lambda>(now, q). apply_connection_update now q"
  "connection_delete e" for e
proof (unfold_locales, goal_cases)
  case (1 i s)
  then show ?case by (simp add: connection_get_def stored_connection_def config_get_def)
next
  case (2 q s s' r i)
  obtain now uuid r0 where q: "q = (now, uuid, r0)" by (rule prod_cases3)
  show ?case using connection_create_look [of uuid e now r0 s i] 2 by (auto simp: q split: option.splits)
next
  case (3 i q s)
  obtain now uuid r0 where q: "q = (now, uuid, r0)" by (rule prod_cases3)
  show ?case using connection_create_look [of uuid e now r0 s i] 3 by (auto simp: q split: option.splits)
next
  case (4 j i u s)
  then show ?case by (cases u) (simp add: connection_update_look)
next
  case (5 i u s r)
  then show ?case by (cases u) (simp add: connection_update_found)
next
  case (6 i s s' d j)
  then show ?case by (rule connection_delete_look)
next
  case (7 i s s' x j)
  then show ?case using delete_other(1) [of j i e s] by simp
qed

interpretation relationships: registry stored_relationship "\<lambda>r. r" relationship_get
  "\<lambda>(now, uuid, q). relationship_create e le now uuid q" "\<lambda>(now, uuid, q). uuid"
  "\<lambda>i (now, q). relationship_update e now i q" "\<lambda>(now, q). apply_relationship_update now q"
  "relationship_delete e" for e le
proof (unfold_locales, goal_cases)
  case (1 i s)
  then show ?case by (simp add: relationship_get_def stored_relationship_def config_get_def option.map_ident)
next
  case (2 q s s' r i)
  obtain now uuid r0 where q: "q = (now, uuid, r0)" by (rule prod_cases3)
  show ?case using relationship_create_look [of uuid e le now r0 s s' i] 2
    by (auto simp: q split: option.splits)
next
  case (3 i q s)
  obtain now uuid r0 where q: "q = (now, uuid, r0)" by (rule prod_cases3)
  show ?case using relationship_create_look [of uuid e le now r0 s _ i] 3 by (auto simp: q)
next
  case (4 j i u s)
  then show ?case by (cases u) (simp add: relationship_update_look)
next
  case (5 i u s r)
  then show ?case by (cases u) (simp add: relationship_update_found)
next
  case (6 i s s' d j)
  then show ?case by (rule relationship_delete_look)
next
  case (7 i s s' x j)
  then show ?case using delete_other(2) [of j i e s] by simp
qed

section \<open>Requests do not reach other objects\<close>

fun action_connection :: "config_action \<Rightarrow> string option" where
  "action_connection (CreateConnection now uuid q) = Some uuid"
| "action_connection (UpdateConnection now i q) = Some i"
| "action_connection (DeleteConnection i) = Some i"
| "action_connection (UpdateRelationship now i q) = None"
| "action_connection (DeleteRelationship i) = None"

fun action_relationship :: "config_action \<Rightarrow> string option" where
  "action_relationship (UpdateRelationship now i q) = Some i"
| "action_relationship (DeleteRelationship i) = Some i"
| "action_relationship (CreateConnection now uuid q) = None"
| "action_relationship (UpdateConnection now i q) = None"
| "action_relationship (DeleteConnection i) = None"

text \<open>The managers work on different lists.\<close>

lemma connection_requests_keep_relationships:
  "relationship_get j (fst (connection_create e now uuid q s)) = relationship_get j s"
  "relationship_get j (fst (connection_update e now i u s)) = relationship_get j s"
  "relationship_get j (fst (connection_delete e i s)) = relationship_get j s"
  using connection_create_store [of uuid e now q s]
  by (auto simp: relationship_get_def config_get_def connection_update_store update_closure_keeps
      connection_delete_store connection_delete_closure_def Let_def)

lemma relationship_requests_keep_connections:
  "connection_get j (fst (relationship_create e le now uuid q s)) = connection_get j s"
  "connection_get j (fst (relationship_update e now i u s)) = connection_get j s"
  "connection_get j (fst (relationship_delete e i s)) = connection_get j s"
  by (auto simp: connection_get_def config_get_def relationship_create_def relationship_commit_store
      relationship_update_store relationship_update_closure_def relationship_delete_store
      relationship_delete_closure_def Let_def split: sum.split prod.split)

text \<open>An answer is what the next request reads: the record answered by a successful update, and none
  after a successful deletion, which also cannot be repeated.\<close>

lemma answers_are_read:
  shows "connection_update e now i q s = (s', Inr c) \<Longrightarrow> connection_get i s' = Some (with_normal_url c)"
    and "relationship_update e now i u s = (s', Inr r) \<Longrightarrow> relationship_get i s' = Some r"
    and "connection_delete e i s = (s', Inr d) \<Longrightarrow>
      connection_get i s' = None \<and> \<not> is_ok (snd (connection_delete e i s'))"
    and "relationship_delete e i s = (s', Inr d) \<Longrightarrow>
      relationship_get i s' = None \<and> \<not> is_ok (snd (relationship_delete e i s'))"
  using connections.read_updated [where u = "(now, q)"] relationships.read_updated [where u = "(now, u)"]
  by (auto dest: connections.read_deleted connections.deleted_twice(1) relationships.read_deleted
      relationships.deleted_twice(1))

text \<open>C33. A request for one connection or relationship leaves what reads of all others show as it was,
  whether or not it succeeds and whether or not the file could be written.\<close>

theorem requests_are_isolated:
  "(connection_get j (run_action e a s) = connection_get j s \<or> action_connection a = Some j) \<and>
   (relationship_get j (run_action e a s) = relationship_get j s \<or> action_relationship a = Some j) \<and>
   connection_get j (fst (relationship_create e le now uuid q s)) = connection_get j s \<and>
   (relationship_get j (fst (relationship_create e le now uuid q s)) = relationship_get j s \<or> j = uuid)"
  using connections.others_kept(1) [of j "(_, _, _)"] connections.others_kept(2) [where u = "(_, _)"]
    connections.others_kept(3) relationships.others_kept(1) [of j "(_, _, _)"]
    relationships.others_kept(2) [where u = "(_, _)"] relationships.others_kept(3)
  by (cases a) (auto simp: connection_requests_keep_relationships relationship_requests_keep_connections)

end
