(* ===== verification/Push_Spec.thy ===== *)
theory Push_Spec
  imports Push
begin

text \<open>
  What a push (theory Push) promises about the server.  Every operation a push runs is one of
  its \<open>remote_ops\<close>, so a property of the world that those operations keep is kept by the whole
  push; the deletion operation has to keep it only for the paths that a push may delete.
\<close>

section \<open>Properties of the world kept by a push\<close>

text \<open>Every operation a push uses keeps \<open>P\<close>; a deletion does for the paths of \<open>D\<close>.\<close>

definition ops_keep :: "'w remote_ops \<Rightarrow> (string \<Rightarrow> bool) \<Rightarrow> ('w \<Rightarrow> bool) \<Rightarrow> bool" where
  "ops_keep ro D P \<longleftrightarrow>
     (\<forall>w. P w \<longrightarrow>
        P (fst (ro_blob_config ro w)) \<and>
        (\<forall>hs. P (fst (ro_blob_check ro hs w))) \<and>
        (\<forall>h b. P (fst (ro_upload_chunk ro h b w))) \<and>
        (\<forall>fs. P (fst (ro_blob_commit ro fs w))) \<and>
        (\<forall>p b t. P (fst (ro_upload_file ro p b t w))) \<and>
        (\<forall>p t. P (fst (ro_create_symlink ro p t w))) \<and>
        (\<forall>p. P (fst (ro_symlink_target ro p w))) \<and>
        (\<forall>p q. P (fst (ro_rename_file ro p q w))) \<and>
        (\<forall>b p h. P (fst (ro_has_content_hash ro b p h w)))) \<and>
     (\<forall>w p. P w \<longrightarrow> D p \<longrightarrow> P (fst (ro_delete_file ro p w)))"

lemma ops_keepD:
  assumes "ops_keep ro D P" "P w"
  shows "P (fst (ro_blob_config ro w))" "P (fst (ro_blob_check ro hs w))"
    "P (fst (ro_upload_chunk ro h b w))" "P (fst (ro_blob_commit ro fs w))"
    "P (fst (ro_upload_file ro p body t w))" "D p \<Longrightarrow> P (fst (ro_delete_file ro p w))"
    "P (fst (ro_create_symlink ro p t' w))" "P (fst (ro_symlink_target ro p w))"
    "P (fst (ro_rename_file ro p q w))" "P (fst (ro_has_content_hash ro c p h w))"
proof -
  note both = assms(1) [unfolded ops_keep_def]
  note all = conjunct1 [OF both, rule_format, OF assms(2)]
  show "P (fst (ro_blob_config ro w))" "P (fst (ro_blob_check ro hs w))"
    "P (fst (ro_upload_chunk ro h b w))" "P (fst (ro_blob_commit ro fs w))"
    "P (fst (ro_upload_file ro p body t w))"
    "P (fst (ro_create_symlink ro p t' w))" "P (fst (ro_symlink_target ro p w))"
    "P (fst (ro_rename_file ro p q w))" "P (fst (ro_has_content_hash ro c p h w))"
    using all by simp_all
  show "D p \<Longrightarrow> P (fst (ro_delete_file ro p w))"
    using conjunct2 [OF both, rule_format, OF assms(2)] .
qed

lemma ops_keep_mono: "ops_keep ro D P \<Longrightarrow> (\<And>p. D' p \<Longrightarrow> D p) \<Longrightarrow> ops_keep ro D' P"
  unfolding ops_keep_def by (elim conjE, intro conjI, assumption) simp

text \<open>A state whose world has \<open>P\<close> and whose seen paths are \<open>S\<close>.\<close>

definition at :: "('w \<Rightarrow> bool) \<Rightarrow> string list \<Rightarrow> ('w, 'e) push_state \<Rightarrow> bool" where
  "at P S st \<longleftrightarrow> P (ps_world st) \<and> ps_seen st = S"

named_theorems at_simps

lemma at_updates [at_simps]:
  "at P S (st\<lparr>ps_store := e\<rparr>) = at P S st" "at P S (st\<lparr>ps_pushed := n\<rparr>) = at P S st"
  "at P S (st\<lparr>ps_skipped := n\<rparr>) = at P S st" "at P S (st\<lparr>ps_failed := n\<rparr>) = at P S st"
  "at P S (st\<lparr>ps_deleted := n\<rparr>) = at P S st" "at P S (st\<lparr>ps_bytes := n\<rparr>) = at P S st"
  "at P S (st\<lparr>ps_errors := es\<rparr>) = at P S st" "at P S (st\<lparr>ps_metas := ms\<rparr>) = at P S st"
  "at P S (st\<lparr>ps_batch := b\<rparr>) = at P S st" "at P S (st\<lparr>ps_pending := us\<rparr>) = at P S st"
  "at P S (st\<lparr>ps_preps := rs\<rparr>) = at P S st" "at P S (st\<lparr>ps_symlinks := ls\<rparr>) = at P S st"
  "at P S (st\<lparr>ps_processed := n\<rparr>) = at P S st"
  by (simp_all add: at_def)

lemma at_world [at_simps]: "at P S (st\<lparr>ps_world := w\<rparr>) \<longleftrightarrow> P w \<and> ps_seen st = S"
  by (simp add: at_def)

lemma at_see [at_simps]: "at P S (see_path p st) \<longleftrightarrow> P (ps_world st) \<and> ps_seen st @ [p] = S"
  by (simp add: at_def see_path_def)

lemma atD: "at P S st \<Longrightarrow> P (ps_world st)" "at P S st \<Longrightarrow> ps_seen st = S"
  by (simp_all add: at_def)

text \<open>Running a step and going on only on success.\<close>

lemma at_then:
  "at P S (fst r) \<Longrightarrow> (\<And>s v. at P S s \<Longrightarrow> at P S (fst (f s v))) \<Longrightarrow> at P S (fst (then_st r f))"
  by (rule then_st_inv) auto

lemma keep_then:
  "P (fst r) \<Longrightarrow> (\<And>s v. P s \<Longrightarrow> P (fst (f s v))) \<Longrightarrow> P (fst (then_st r f))"
  by (rule then_st_inv) auto

section \<open>Sending files\<close>

lemma direct_put_one_keep:
  assumes "ops_keep (pe_remote env) D P" "P w"
  shows "P (fst (direct_put_one env f w))"
  using assms ops_keepD(5) [OF assms] by (simp add: direct_put_one_def split: sum.split)

lemma direct_keep:
  assumes "ops_keep (pe_remote env) D P" "P w"
  shows "P (fst (push_batch_via_direct_file_put env files w))"
  unfolding push_batch_via_direct_file_put_def
  by (rule keep_then [where P = P], rule for_each_inv [where P = P], rule assms(2),
      erule direct_put_one_keep [OF assms(1)], simp)

lemma upload_one_keep:
  assumes "ops_keep (pe_remote env) D P" "P w"
  shows "P (fst (upload_one env config c w))"
  using assms ops_keepD(3) [OF assms] by (simp add: upload_one_def split: sum.split)

lemma check_needed_keep:
  assumes "ops_keep (pe_remote env) D P" "P w"
  shows "P (fst (check_needed env us w))"
proof (cases "us = []")
  case True
  with assms(2) show ?thesis by (simp add: check_needed_def)
next
  case False
  then show ?thesis unfolding check_needed_def
    by (simp only: if_False, intro keep_then [where P = P] ops_keepD(2) [OF assms]) simp
qed

lemma send_plan_keep:
  assumes "ops_keep (pe_remote env) D P" "P w"
  shows "P (fst (send_plan env config files plan w))"
  unfolding send_plan_def Let_def
  by (rule keep_then [where P = P], rule check_needed_keep [OF assms],
      rule keep_then [where P = P], rule for_each_inv [where P = P], assumption,
      erule upload_one_keep [OF assms(1)], rule keep_then [where P = P],
      erule ops_keepD(4) [OF assms(1)], simp)

lemma via_chunks_keep:
  assumes "ops_keep (pe_remote env) D P" "P w"
  shows "P (fst (push_batch_via_chunks env config files w))"
  using assms direct_keep [OF assms] send_plan_keep [OF assms]
  by (auto simp: push_batch_via_chunks_def split: sum.split)

lemma flush_meta_at [intro]: "at P S st \<Longrightarrow> at P S (fst (flush_pending_metadata_updates x st))"
  by (auto simp: flush_pending_metadata_updates_def at_simps split: prod.split)

lemma record_failure_at: "at P S st \<Longrightarrow> at P S (fst (record_push_failure x f e st))"
  by (auto simp: record_push_failure_def Let_def at_simps)

lemma isolated_at:
  assumes keep: "ops_keep (pe_remote (px_env x)) D P"
  shows "at P S st \<Longrightarrow> at P S (fst (push_isolated x files acc st))"
proof (induction files arbitrary: acc st)
  case Nil
  then show ?case by (cases acc) simp
next
  case (Cons f fs)
  obtain sent metas where acc: "acc = (sent, metas)" by (cases acc)
  obtain w r where run: "push_batch_via_chunks (px_env x) (px_config x) [f] (ps_world st) = (w, r)"
    by force
  have "P w" using via_chunks_keep [OF keep atD(1) [OF Cons.prems], of "px_config x" "[f]"] run by simp
  then have at_w: "at P S (st\<lparr>ps_world := w\<rparr>)" using Cons.prems by (simp add: at_def)
  show ?case
  proof (cases r)
    case (Inl e)
    with run acc Cons.IH show ?thesis
      by (auto intro!: at_then record_failure_at [OF at_w])
  next
    case (Inr u)
    with run acc Cons.IH [OF at_w] show ?thesis by simp
  qed
qed

lemma note_pushed_at [at_simps]: "at P S (note_pushed ms fs st) = at P S st"
  by (simp add: note_pushed_def at_def)

lemma flush_batch_at:
  assumes keep: "ops_keep (pe_remote (px_env x)) D P" and st: "at P S st"
  shows "at P S (fst (flush_push_batch x st))"
proof (cases "pb_files (ps_batch st) = []")
  case True
  with st show ?thesis by (simp add: flush_push_batch_def)
next
  case False
  let ?files = "pb_files (ps_batch st)" and ?st0 = "st\<lparr>ps_batch := empty_batch\<rparr>"
  obtain w r where run: "push_batch_via_chunks (px_env x) (px_config x) ?files (ps_world ?st0) = (w, r)"
    by force
  have "P w" using via_chunks_keep [OF keep atD(1) [OF st], of "px_config x" ?files] run by simp
  then have at_w: "at P S (?st0\<lparr>ps_world := w\<rparr>)" using st by (simp add: at_def)
  show ?thesis
  proof (cases r)
    case (Inr u)
    with False run at_w show ?thesis
      by (auto simp: flush_push_batch_def Let_def at_simps simp del: at_world intro!: flush_meta_at)
  next
    case (Inl e)
    with False run at_w show ?thesis
      by (auto simp: flush_push_batch_def Let_def note_pushed_at intro!: at_then isolated_at [OF keep])
  qed
qed

lemma complete_at:
  "ops_keep (pe_remote (px_env x)) D P \<Longrightarrow> at P S st \<Longrightarrow> at P S (fst (complete_entry x st))"
  by (auto simp: complete_entry_def Let_def at_simps intro!: flush_batch_at)

section \<open>Inspection\<close>

text \<open>What the inspection of an entry records as seen, from what the file system answers.\<close>

definition entry_seen :: "(string \<Rightarrow> string \<Rightarrow> bool) \<Rightarrow> sync_relationship \<Rightarrow> scan_fs \<Rightarrow> string \<Rightarrow> string list" where
  "entry_seen glob rel fs entry =
     (case (sf_lstat fs entry, path_strip_prefix entry (sr_local_path rel)) of
        (Inr stat, Some relative) \<Rightarrow>
          (case es_kind stat of
             StatSymlink \<Rightarrow> [compute_remote_path relative (sr_remote_path rel)]
           | StatFile \<Rightarrow>
               (case path_file_name entry of
                  Some name \<Rightarrow>
                    if matches_filter glob name (sr_filter rel)
                    then [compute_remote_path relative (sr_remote_path rel)] else []
                | None \<Rightarrow> [])
           | StatOther \<Rightarrow> [])
      | _ \<Rightarrow> [])"

lemma fail_at:
  "ops_keep (pe_remote (px_env x)) D P \<Longrightarrow> at P S st \<Longrightarrow> at P S (fst (fail_entry x m st))"
  unfolding fail_entry_def by (erule complete_at) (simp add: at_simps)

lemma skip_at:
  "ops_keep (pe_remote (px_env x)) D P \<Longrightarrow> at P S st \<Longrightarrow> at P S (fst (skip_entry x st))"
  unfolding skip_entry_def by (erule complete_at) (simp add: at_simps)

lemma inspect_symlink_at:
  assumes keep: "ops_keep (pe_remote (px_env x)) D P" and st: "at P S st"
  shows "at P (S @ [rp]) (fst (inspect_symlink x entry rp stat st))"
proof -
  from st have "at P (S @ [rp]) (see_path rp st)" by (simp add: at_def see_path_def)
  with fail_at [OF keep this] skip_at [OF keep this] show ?thesis
    by (simp add: inspect_symlink_def Let_def at_updates split: sum.split)
qed

lemma inspect_file_at:
  assumes keep: "ops_keep (pe_remote (px_env x)) D P" and st: "at P S st"
  shows "at P (S @ (case path_file_name entry of
      Some name \<Rightarrow> if matches_filter (pe_glob (px_env x)) name (sr_filter (px_rel x)) then [rp] else []
    | None \<Rightarrow> [])) (fst (inspect_file x entry relative rp stat st))"
proof -
  from st have seen: "at P (S @ [rp]) (see_path rp st)" by (simp add: at_def see_path_def)
  show ?thesis
    using fail_at [OF keep seen] skip_at [OF keep seen] skip_at [OF keep st]
      complete_at [OF keep st] seen
    by (simp add: inspect_file_def Let_def at_updates split: sum.split option.split)
qed

lemma inspect_at:
  assumes keep: "ops_keep (pe_remote (px_env x)) D P" and st: "at P S st"
    and fixed: "pe_scan (px_env x) (ps_world st) = fs"
  shows "at P (S @ entry_seen (pe_glob (px_env x)) (px_rel x) fs entry) (fst (inspect_entry x entry st))"
proof (cases "sf_lstat fs entry")
  case (Inl e)
  with fail_at [OF keep st] show ?thesis
    by (simp add: inspect_entry_def entry_seen_def Let_def fixed)
next
  case (Inr stat)
  show ?thesis
  proof (cases "path_strip_prefix entry (sr_local_path (px_rel x))")
    case None
    with Inr complete_at [OF keep st] show ?thesis
      by (simp add: inspect_entry_def entry_seen_def Let_def fixed)
  next
    case (Some relative)
    with Inr inspect_file_at [OF keep st] inspect_symlink_at [OF keep st] complete_at [OF keep st]
    show ?thesis
      by (simp add: inspect_entry_def entry_seen_def Let_def fixed split: entry_kind.split)
  qed
qed

text \<open>The inspection of a whole walk, when the file system does not change meanwhile: on success
  the seen paths are those of the entries.\<close>

lemma inspect_all_at:
  assumes keep: "ops_keep (pe_remote (px_env x)) D P"
    and fixed: "\<And>w. pe_scan (px_env x) w = fs"
  shows "at P S st \<Longrightarrow> for_each (inspect_entry x) walker st = (st', r) \<Longrightarrow>
    P (ps_world st') \<and> (\<forall>u. r = Inr u \<longrightarrow>
      at P (S @ concat (map (entry_seen (pe_glob (px_env x)) (px_rel x) fs) walker)) st')"
proof (induction walker arbitrary: S st)
  case Nil
  then show ?case by (auto simp: at_def)
next
  case (Cons e es)
  obtain s1 r1 where one: "inspect_entry x e st = (s1, r1)" by force
  have s1: "at P (S @ entry_seen (pe_glob (px_env x)) (px_rel x) fs e) s1"
    using inspect_at [OF keep Cons.prems(1) fixed, of e] one by simp
  show ?case
  proof (cases r1)
    case (Inl m)
    with Cons.prems(2) one s1 show ?thesis by (auto simp: at_def)
  next
    case (Inr u)
    with Cons.prems(2) one have "for_each (inspect_entry x) es s1 = (st', r)" by simp
    from Cons.IH [OF s1 this] show ?thesis by simp
  qed
qed

section \<open>Prepared files, symlinks and the end of a push\<close>

lemma finish_at:
  assumes keep: "ops_keep (pe_remote (px_env x)) D P" and st: "at P S st"
  shows "at P S (fst (finish x st))"
  unfolding finish_def by (rule at_then [OF complete_at [OF keep st]]) simp

lemma or_stage_at:
  "(\<And>s. at P S s \<Longrightarrow> at P S (fst (a s))) \<Longrightarrow> (\<And>s. at P S s \<Longrightarrow> at P S (fst (b s))) \<Longrightarrow>
    at P S st \<Longrightarrow> at P S (fst (or_stage a b st))"
  unfolding or_stage_def by (rule at_then) auto

lemma hash_skip_at:
  "ops_keep (pe_remote (px_env x)) D P \<Longrightarrow> at P S st \<Longrightarrow> at P S (fst (hash_skip_stage x p st))"
  by (auto simp: hash_skip_stage_def Let_def at_updates intro!: finish_at split: option.split)

lemma move_metadata_at: "at P S st \<Longrightarrow> at P S (fst (move_metadata x old f st))"
  by (simp add: move_metadata_def Let_def at_updates split: prod.split sum.split)

lemma drop_old_at: "at P S st \<Longrightarrow> at P S (fst (drop_old_metadata x old st))"
  by (simp add: drop_old_metadata_def at_updates split: prod.split sum.split)

lemma moved_at:
  assumes keep: "ops_keep (pe_remote (px_env x)) D P" and st: "at P S st"
  shows "at P S (fst (then_st (move_metadata x old f st) (\<lambda>st1 _. finish x st1)))"
  by (rule at_then [OF move_metadata_at [OF st]]) (erule finish_at [OF keep])

lemma at_step: "at P S st \<Longrightarrow> P w \<Longrightarrow> at P S (st\<lparr>ps_world := w\<rparr>)"
  by (simp add: at_def)

text \<open>Asking the server whether it has a content, and moving a path, in a stage.\<close>

lemma asked_at:
  assumes keep: "ops_keep (pe_remote (px_env x)) D P" and st: "at P S st"
    and go: "\<And>w. at P S (st\<lparr>ps_world := w\<rparr>) \<Longrightarrow> P w \<Longrightarrow> at P S (fst (g w))"
  shows "at P S (fst (case ro_has_content_hash (pe_remote (px_env x)) b p h (ps_world st) of
      (w, Inr True) \<Rightarrow> g w | (w, _) \<Rightarrow> (st\<lparr>ps_world := w\<rparr>, Inr False)))"
proof -
  obtain w r where run: "ro_has_content_hash (pe_remote (px_env x)) b p h (ps_world st) = (w, r)" by force
  have "P w" using ops_keepD(10) [OF keep atD(1) [OF st], of b p h] run by simp
  from go [OF at_step [OF st this] this] at_step [OF st this] show ?thesis
    by (simp add: run split: sum.split bool.split)
qed

lemma renamed_at:
  assumes keep: "ops_keep (pe_remote (px_env x)) D P" and st: "at P S st" and w: "P w"
    and bad: "\<And>w1 e. at P S (st\<lparr>ps_world := w1\<rparr>) \<Longrightarrow> at P S (fst (g w1 e))"
  shows "at P S (fst (case ro_rename_file (pe_remote (px_env x)) old new w of
      (w1, Inr _) \<Rightarrow> then_st (move_metadata x old f (st\<lparr>ps_world := w1\<rparr>)) (\<lambda>st1 _. finish x st1)
    | (w1, Inl e) \<Rightarrow> g w1 e))"
proof -
  obtain w1 r where run: "ro_rename_file (pe_remote (px_env x)) old new w = (w1, r)" by force
  have "P w1" using ops_keepD(9) [OF keep w, of old new] run by simp
  from bad [OF at_step [OF st this]] moved_at [OF keep at_step [OF st this]] show ?thesis
    by (simp add: run split: sum.split)
qed

lemma legacy_at:
  assumes keep: "ops_keep (pe_remote (px_env x)) D P" and st: "at P S st"
  shows "at P S (fst (legacy_move_stage x p st))"
proof (cases "movable st (pr_legacy (pp_request p)) (pp_file p)")
  case None
  with st show ?thesis by (simp add: legacy_move_stage_def Let_def)
next
  case (Some old)
  show ?thesis
    unfolding legacy_move_stage_def Let_def Some option.case
    by (rule asked_at [OF keep st], rule renamed_at [OF keep st], assumption) simp
qed

lemma migration_move_at:
  assumes keep: "ops_keep (pe_remote (px_env x)) D P" and st: "at P S st"
  shows "at P S (fst (migration_move_stage x p st))"
proof (cases "movable st (pr_migration_old (pp_request p)) (pp_file p)")
  case None
  with st show ?thesis by (simp add: migration_move_stage_def Let_def)
next
  case (Some old)
  show ?thesis
    unfolding migration_move_stage_def Let_def Some option.case
    by (rule asked_at [OF keep st], rule renamed_at [OF keep st], assumption,
        rule finish_at [OF keep], simp add: at_def)
qed

lemma migration_target_at:
  assumes keep: "ops_keep (pe_remote (px_env x)) D P" and st: "at P S st"
  shows "at P S (fst (migration_target_stage x p st))"
proof (cases "px_migration x = None \<or> pr_migration_old (pp_request p) = None")
  case True
  with st show ?thesis by (auto simp: migration_target_stage_def Let_def split: option.split)
next
  case False
  then obtain m old where m: "px_migration x = Some m" "pr_migration_old (pp_request p) = Some old"
    by auto
  show ?thesis
    unfolding migration_target_stage_def Let_def m option.case prod.case
    by (rule asked_at [OF keep st], rule at_then [OF drop_old_at], assumption)
      (simp add: at_updates finish_at [OF keep] split: prod.split sum.split)
qed

lemma batch_stage_at:
  assumes keep: "ops_keep (pe_remote (px_env x)) D P" and st: "at P S st"
  shows "at P S (fst (batch_stage x f st))"
proof -
  have "at P S (fst (if should_flush_before (ps_batch st) f (px_config x)
      then flush_push_batch x st else (st, Inr ())))"
    using st flush_batch_at [OF keep st] by simp
  then show ?thesis
    unfolding batch_stage_def Let_def
    by (rule at_then, intro at_then finish_at [OF keep])
      (simp_all add: flush_batch_at [OF keep] at_updates)
qed

lemma process_at:
  assumes keep: "ops_keep (pe_remote (px_env x)) D P" and st: "at P S st"
  shows "at P S (fst (process_prepared x req st))"
proof (cases "prepare_push_file (pe_hash (px_env x)) (pe_fs (px_env x) (ps_world st)) req")
  case (Inl m)
  with fail_at [OF keep st] show ?thesis by (simp add: process_prepared_def)
next
  case (Inr p)
  define moves where "moves = (if pr_stored_meta req = None
      then or_stage (legacy_move_stage x p) (or_stage (migration_move_stage x p) (migration_target_stage x p))
      else (\<lambda>st. (st, Inr False)))"
  have moves: "at P S (fst (moves s))" if "at P S s" for s
  proof (cases "pr_stored_meta req = None")
    case True
    show ?thesis unfolding moves_def if_P [OF True]
      by (rule or_stage_at, erule legacy_at [OF keep], rule or_stage_at,
          erule migration_move_at [OF keep], erule migration_target_at [OF keep],
          assumption, rule that)
  next
    case False
    show ?thesis unfolding moves_def if_not_P [OF False] using that by simp
  qed
  have "at P S (fst (or_stage (hash_skip_stage x p) (or_stage moves (batch_stage x (pp_file p))) st))"
    by (rule or_stage_at, erule hash_skip_at [OF keep], rule or_stage_at, erule moves,
        erule batch_stage_at [OF keep], assumption, rule st)
  then show ?thesis
    unfolding process_prepared_def Inr sum.case moves_def [symmetric]
    by (rule at_then) simp
qed

lemma symlink_step_at:
  assumes keep: "ops_keep (pe_remote (px_env x)) D P" and st: "at P S st"
  shows "at P S (push_symlink_step x l st)"
proof -
  let ?ro = "pe_remote (px_env x)" and ?p = "py_remote_path l"
  have create: "P w \<Longrightarrow> P (fst (then_st (ro_create_symlink ?ro ?p (py_target l) w)
      (\<lambda>w1 _. (w1, Inr SymPushed))))" for w
    by (rule keep_then [where P = P], erule ops_keepD(7) [OF keep]) simp
  obtain w r where run: "push_symlink (px_env x) (px_mode x) l (ps_world st) = (w, r)" by force
  obtain w1 t where target: "ro_symlink_target ?ro ?p (ps_world st) = (w1, t)" by force
  have "P w1" using ops_keepD(8) [OF keep atD(1) [OF st], of ?p] target by simp
  then have created: "P (fst (then_st (ro_create_symlink ?ro ?p (py_target l) w1) (\<lambda>w1 _. (w1, Inr SymPushed))))"
    by (rule create)
  have "P (fst (push_symlink (px_env x) (px_mode x) l (ps_world st)))"
  proof (cases "px_mode x = Lite")
    case True
    consider e where "t = Inl e" | "t = Inr None" | y where "t = Inr (Some y)"
      by (metis sum.exhaust option.exhaust)
    then show ?thesis using True target created \<open>P w1\<close> by cases (simp_all add: push_symlink_def Let_def)
  next
    case False
    then show ?thesis using create [OF atD(1) [OF st]] by (simp add: push_symlink_def Let_def)
  qed
  then have "P w" using run by simp
  with run st show ?thesis
    by (auto simp: push_symlink_step_def Let_def at_def split: sum.split symlink_outcome.split)
qed

lemma symlinks_at:
  assumes keep: "ops_keep (pe_remote (px_env x)) D P" and st: "at P S st"
  shows "at P S (fst (push_pending_symlinks x st))"
proof -
  have "at P S (fold (push_symlink_step x) ls st)" for ls
    using st by (induction ls arbitrary: st) (auto intro: symlink_step_at [OF keep])
  then show ?thesis unfolding push_pending_symlinks_def by (rule flush_meta_at)
qed

lemma cleanup_at: "at P S st \<Longrightarrow> at P S (fst (cleanup_unseen_migration_metadata x m st))"
  unfolding cleanup_unseen_migration_metadata_def
  by (rule for_each_inv [where P = "at P S"]) (auto simp: at_updates split: prod.split sum.split)

lemma finish_migration_at: "at P S st \<Longrightarrow> at P S (fst (finish_migration x st))"
  by (simp add: finish_migration_def at_updates split: prod.split)

lemma propagate_deletion_at:
  assumes keep: "ops_keep (pe_remote (px_env x)) (\<lambda>p. p = fm_path m \<and> deletes_remote x ex S m) P"
    and st: "at P S st"
  shows "at P S (fst (propagate_deletion x ex m st))"
proof (cases "deletes_remote x ex S m")
  case False
  with st show ?thesis by (simp add: propagate_deletion_def at_def)
next
  case True
  obtain w r where run: "ro_delete_file (pe_remote (px_env x)) (fm_path m) (ps_world st) = (w, r)"
    by force
  have "P w" using ops_keepD(6) [OF keep atD(1) [OF st], of "fm_path m"] True run by simp
  with st run show ?thesis
    by (auto simp: propagate_deletion_def at_def split: prod.split sum.split)
qed

lemma propagate_deletions_at:
  assumes keep: "ops_keep (pe_remote (px_env x))
      (\<lambda>p. \<exists>m. p = fm_path m \<and> deletes_remote x (child_exclusions (px_rel x) rels) S m) P"
    and st: "at P S st"
  shows "at P S (fst (propagate_deletions x rels st))"
proof -
  have one: "ops_keep (pe_remote (px_env x))
      (\<lambda>p. p = fm_path m \<and> deletes_remote x (child_exclusions (px_rel x) rels) S m) P" for m
    by (rule ops_keep_mono [OF keep]) blast
  have "at P S (fst (for_each (propagate_deletion x (child_exclusions (px_rel x) rels))
      (hvalues (ps_metas st)) st))"
    by (rule for_each_inv [of "at P S", OF st]) (erule propagate_deletion_at [OF one])
  with st show ?thesis by (simp add: propagate_deletions_def)
qed

text \<open>The deletions a push may send: paths of known files that the walk did not see, that no child
  relationship owns and that are not under the old base of a migration.\<close>

definition may_delete :: "('w, 'e) push_ctx \<Rightarrow> sync_relationship list \<Rightarrow> string list \<Rightarrow> string \<Rightarrow> bool" where
  "may_delete x rels seen p \<longleftrightarrow>
     dp_local_to_remote (sr_delete_propagation (px_rel x)) \<and> p \<notin> set seen \<and>
     \<not> is_excluded_by_child p (child_exclusions (px_rel x) rels) \<and>
     \<not> (case px_migration x of
          Some g \<Rightarrow> is_under_remote_base p (pm_old_remote_path g) | None \<Rightarrow> False)"

lemma phases_keep:
  assumes keep: "ops_keep (pe_remote (px_env x)) (may_delete x rels S) P"
    and fixed: "\<And>w. pe_scan (px_env x) w = fs"
    and S: "S = concat (map (entry_seen (pe_glob (px_env x)) (px_rel x) fs) walker)"
    and st: "P (ps_world st)" "ps_seen st = []"
  shows "P (ps_world (fst (push_phases x rels walker st)))"
proof -
  obtain st1 r1 where insp: "for_each (inspect_entry x) walker st = (st1, r1)" by force
  from inspect_all_at [OF keep fixed, of "[]", OF _ insp] st
  have 1: "P (ps_world st1)" "\<And>u. r1 = Inr u \<Longrightarrow> at P S st1" by (auto simp: at_def S)
  have prep: "at P S (fst (for_each (process_prepared x) qs s))" if "at P S s" for qs s
    by (rule for_each_inv [of "at P S", OF that]) (erule process_at [OF keep])
  have clean: "at P S (fst (case px_migration x of
      Some m \<Rightarrow> if ps_errors s = [] then cleanup_unseen_migration_metadata x m s else (s, Inr ())
    | None \<Rightarrow> (s, Inr ())))" if "at P S s" for s
    using that by (simp add: cleanup_at split: option.split)
  have del: "at P S (fst (propagate_deletions x rels s))" if "at P S s" for s
  proof (cases "dp_local_to_remote (sr_delete_propagation (px_rel x))")
    case True
    have "ops_keep (pe_remote (px_env x))
        (\<lambda>p. \<exists>m. p = fm_path m \<and> deletes_remote x (child_exclusions (px_rel x) rels) S m) P"
      by (rule ops_keep_mono [OF keep]) (use True in \<open>auto simp: may_delete_def deletes_remote_def\<close>)
    from this that show ?thesis by (rule propagate_deletions_at)
  qed (use that in \<open>simp add: propagate_deletions_def\<close>)
  show ?thesis
  proof (cases r1)
    case (Inl e)
    with insp 1 show ?thesis by (simp add: push_phases_def)
  next
    case (Inr u)
    have "at P S (fst (push_phases x rels walker st))"
      unfolding push_phases_def insp Inr then_st_simps
      by (rule at_then, rule prep, rule 1(2) [OF Inr], rule at_then, erule flush_batch_at [OF keep],
          rule at_then, erule flush_meta_at, rule at_then, erule symlinks_at [OF keep],
          rule at_then, erule clean, rule at_then, erule del, erule finish_migration_at)
    then show ?thesis by (rule atD)
  qed
qed

text \<open>The paths a push sees locally, when the file system does not change meanwhile.\<close>

definition seen_paths ::
  "(string \<Rightarrow> string \<Rightarrow> bool) \<Rightarrow> sync_relationship \<Rightarrow> sync_relationship list \<Rightarrow> scan_fs \<Rightarrow> string list" where
  "seen_paths glob rel rels fs =
     (case walkdir (sr_local_path rel) (child_local_exclusions rel rels)
             (sf_tree fs (sr_local_path rel)) of
        Inl e \<Rightarrow> [] | Inr walker \<Rightarrow> concat (map (entry_seen glob rel fs) walker))"

lemma push_sync_keep:
  assumes fixed: "\<And>w. pe_scan env w = fs"
    and keep: "ops_keep (pe_remote env)
      (\<lambda>p. dp_local_to_remote (sr_delete_propagation rel) \<and>
           p \<notin> set (seen_paths (pe_glob env) rel rels fs) \<and>
           \<not> is_excluded_by_child p (child_exclusions rel rels)) P"
    and P: "P w"
  shows "P (fst (fst (push_sync env en rel rels mode (w, e))))"
proof -
  let ?seen = "seen_paths (pe_glob env) rel rels fs"
  have phases: "P (ps_world (fst (push_phases x rels walker (initial_state w1 e metas))))"
    if x: "px_env x = env" "px_rel x = rel" and "P w1"
      and walk: "walkdir (sr_local_path rel) (child_local_exclusions rel rels)
          (sf_tree fs (sr_local_path rel)) = Inr walker"
    for x w1 walker metas
  proof (rule phases_keep [where S = ?seen and fs = fs])
    show "ops_keep (pe_remote (px_env x)) (may_delete x rels ?seen) P"
      unfolding x by (rule ops_keep_mono [OF keep]) (simp add: may_delete_def x)
    show "?seen = concat (map (entry_seen (pe_glob (px_env x)) (px_rel x) fs) walker)"
      by (simp add: seen_paths_def walk x)
  qed (use that in \<open>simp_all add: fixed initial_state_def\<close>)
  have "P (fst (ro_blob_config (pe_remote env) w))" by (rule ops_keepD(1) [OF keep P])
  then show ?thesis
    by (auto simp: push_sync_def fixed split_beta phases split: sum.split)
qed

section \<open>Batches within the limits\<close>

text \<open>A step either keeps the pending batch or has sent it.\<close>

definition batch_kept :: "('w, 'e) push_state \<Rightarrow> ('w, 'e) push_state \<Rightarrow> bool" where
  "batch_kept st st' \<longleftrightarrow> ps_batch st' = ps_batch st \<or> ps_batch st' = empty_batch"

lemma batch_kept_refl [simp]: "batch_kept st st"
  by (simp add: batch_kept_def)

lemma batch_kept_trans: "batch_kept a b \<Longrightarrow> batch_kept b c \<Longrightarrow> batch_kept a c"
  by (auto simp: batch_kept_def)

lemma batch_kept_same: "ps_batch st = ps_batch st0 \<Longrightarrow> batch_kept st st' = batch_kept st0 st'"
  by (simp add: batch_kept_def)

lemma flush_meta_batch [simp]: "ps_batch (fst (flush_pending_metadata_updates x st)) = ps_batch st"
  by (simp add: flush_pending_metadata_updates_def split: prod.split)

lemma record_failure_batch [simp]: "ps_batch (fst (record_push_failure x f e st)) = ps_batch st"
  by (simp add: record_push_failure_def Let_def)

lemma isolated_batch: "ps_batch (fst (push_isolated x files acc st)) = ps_batch st"
proof (induction x files acc st rule: push_isolated.induct)
  case (2 x f fs sent metas st)
  obtain w r where run: "push_batch_via_chunks (px_env x) (px_config x) [f] (ps_world st) = (w, r)"
    by force
  show ?case
  proof (cases r)
    case (Inr u)
    with 2(2) [OF run [symmetric] Inr] run show ?thesis by simp
  next
    case (Inl e)
    obtain s1 v where rec: "record_push_failure x f e (st\<lparr>ps_world := w\<rparr>) = (s1, v)" by force
    have "ps_batch s1 = ps_batch st"
      using record_failure_batch [of x f e "st\<lparr>ps_world := w\<rparr>"] rec by simp
    with run Inl rec 2(1) [OF run [symmetric] Inl, of s1] show ?thesis
      by (cases v) auto
  qed
qed simp

lemma flush_batch_empty:
  "ps_batch (fst (flush_push_batch x st)) =
     (if pb_files (ps_batch st) = [] then ps_batch st else empty_batch)"
proof (cases "pb_files (ps_batch st) = []")
  case True
  then show ?thesis by (simp add: flush_push_batch_def)
next
  case False
  let ?st0 = "st\<lparr>ps_batch := empty_batch\<rparr>"
  obtain w r where run: "push_batch_via_chunks (px_env x) (px_config x) (pb_files (ps_batch st))
      (ps_world st) = (w, r)" by force
  have noted: "ps_batch (note_pushed ms fs s) = ps_batch s" for ms fs and s :: "('a, 'b) push_state"
    by (simp add: note_pushed_def)
  show ?thesis
  proof (cases r)
    case (Inr u)
    with False run show ?thesis by (simp add: flush_push_batch_def Let_def noted)
  next
    case (Inl e)
    obtain s1 v where iso: "push_isolated x (pb_files (ps_batch st)) ([], []) (?st0\<lparr>ps_world := w\<rparr>) = (s1, v)"
      by force
    have "ps_batch s1 = empty_batch"
      using isolated_batch [of x "pb_files (ps_batch st)" "([], [])" "?st0\<lparr>ps_world := w\<rparr>"] iso by simp
    with False run Inl iso show ?thesis
      by (cases v) (auto simp: flush_push_batch_def Let_def noted split: prod.split)
  qed
qed

lemma flush_batch_kept [simp]: "batch_kept st (fst (flush_push_batch x st))"
  by (simp add: batch_kept_def flush_batch_empty)

lemma complete_kept: "ps_batch st = ps_batch st0 \<Longrightarrow> batch_kept st0 (fst (complete_entry x st))"
  by (auto simp: complete_entry_def Let_def batch_kept_def flush_batch_empty)

lemma then_kept:
  "batch_kept st0 (fst r) \<Longrightarrow> (\<And>s v. batch_kept st0 s \<Longrightarrow> batch_kept st0 (fst (f s v))) \<Longrightarrow>
    batch_kept st0 (fst (then_st r f))"
  by (rule then_st_inv [where P = "batch_kept st0"])

lemma finish_kept: "batch_kept st0 st \<Longrightarrow> batch_kept st0 (fst (finish x st))"
  unfolding finish_def
  by (rule then_kept) (auto intro: batch_kept_trans complete_kept)

lemma or_kept:
  "(\<And>s. batch_kept st0 s \<Longrightarrow> batch_kept st0 (fst (a s))) \<Longrightarrow>
   (\<And>s. batch_kept st0 s \<Longrightarrow> batch_kept st0 (fst (b s))) \<Longrightarrow>
   batch_kept st0 st \<Longrightarrow> batch_kept st0 (fst (or_stage a b st))"
  unfolding or_stage_def by (rule then_kept) auto

lemma batch_kept_updates [simp]:
  "batch_kept st0 (st\<lparr>ps_store := e\<rparr>) = batch_kept st0 st"
  "batch_kept st0 (st\<lparr>ps_pushed := n\<rparr>) = batch_kept st0 st"
  "batch_kept st0 (st\<lparr>ps_skipped := n\<rparr>) = batch_kept st0 st"
  "batch_kept st0 (st\<lparr>ps_failed := n\<rparr>) = batch_kept st0 st"
  "batch_kept st0 (st\<lparr>ps_errors := es\<rparr>) = batch_kept st0 st"
  "batch_kept st0 (st\<lparr>ps_metas := ms\<rparr>) = batch_kept st0 st"
  "batch_kept st0 (st\<lparr>ps_pending := us\<rparr>) = batch_kept st0 st"
  "batch_kept st0 (st\<lparr>ps_world := w\<rparr>) = batch_kept st0 st"
  by (simp_all add: batch_kept_def)

lemma hash_skip_kept: "batch_kept st0 st \<Longrightarrow> batch_kept st0 (fst (hash_skip_stage x p st))"
  by (simp add: hash_skip_stage_def Let_def finish_kept split: option.split)

lemma move_metadata_kept: "batch_kept st0 st \<Longrightarrow> batch_kept st0 (fst (move_metadata x old f st))"
  by (simp add: move_metadata_def Let_def split: prod.split sum.split)

lemma moved_kept:
  "batch_kept st0 st \<Longrightarrow> batch_kept st0 (fst (then_st (move_metadata x old f st) (\<lambda>s _. finish x s)))"
  by (rule then_kept, erule move_metadata_kept, erule finish_kept)

lemma legacy_kept: "batch_kept st0 st \<Longrightarrow> batch_kept st0 (fst (legacy_move_stage x p st))"
  by (simp add: legacy_move_stage_def Let_def moved_kept
      split: option.split prod.split sum.split bool.split)

lemma migration_move_kept: "batch_kept st0 st \<Longrightarrow> batch_kept st0 (fst (migration_move_stage x p st))"
  by (simp add: migration_move_stage_def Let_def moved_kept finish_kept
      split: option.split prod.split sum.split bool.split)

lemma drop_old_kept: "batch_kept st0 st \<Longrightarrow> batch_kept st0 (fst (drop_old_metadata x old st))"
  by (simp add: drop_old_metadata_def split: prod.split sum.split)

lemma migration_target_kept:
  assumes "batch_kept st0 st"
  shows "batch_kept st0 (fst (migration_target_stage x p st))"
proof -
  have "batch_kept st0 (fst (then_st (drop_old_metadata x old (st\<lparr>ps_world := w\<rparr>)) (\<lambda>st1 _.
      case set_file_meta en h i u (ps_store st1) of
        (e2, Inl error) \<Rightarrow> (st1\<lparr>ps_store := e2\<rparr>, Inl error)
      | (e2, Inr _) \<Rightarrow> finish x (st1\<lparr>ps_store := e2, ps_metas := hinsert q u (ps_metas st1),
          ps_skipped := Suc (ps_skipped st1)\<rparr>))))" for old w en h i u q
    by (rule then_kept, rule drop_old_kept)
      (use assms in \<open>simp_all add: finish_kept split: prod.split sum.split\<close>)
  with assms show ?thesis
    by (simp add: migration_target_stage_def Let_def
        split: option.split prod.split sum.split bool.split)
qed

text \<open>The only step that adds to the batch checks the limits first.\<close>

lemma batch_ok_kept: "batch_kept st st' \<Longrightarrow> batch_ok c (ps_batch st) \<Longrightarrow> batch_ok c (ps_batch st')"
  by (auto simp: batch_kept_def)

lemma batch_ok_then:
  "batch_ok c (ps_batch (fst r)) \<Longrightarrow>
   (\<And>s v. r = (s, Inr v) \<Longrightarrow> batch_ok c (ps_batch s) \<Longrightarrow> batch_ok c (ps_batch (fst (f s v)))) \<Longrightarrow>
   batch_ok c (ps_batch (fst (then_st r f)))"
  by (rule then_st_inv [where P = "\<lambda>s. batch_ok c (ps_batch s)"])

lemma flush_batch_ok: "batch_ok c (ps_batch st) \<Longrightarrow> batch_ok c (ps_batch (fst (flush_push_batch x st)))"
  by (simp add: flush_batch_empty)

lemma batch_stage_ok:
  assumes "batch_ok (px_config x) (ps_batch st)"
  shows "batch_ok (px_config x) (ps_batch (fst (batch_stage x f st)))"
  unfolding batch_stage_def
proof (rule batch_ok_then)
  let ?r = "if should_flush_before (ps_batch st) f (px_config x) then flush_push_batch x st else (st, Inr ())"
  show "batch_ok (px_config x) (ps_batch (fst ?r))" using assms by (simp add: flush_batch_ok)
  fix s v
  assume r: "?r = (s, Inr v)" and s: "batch_ok (px_config x) (ps_batch s)"
  have "\<not> should_flush_before (ps_batch s) f (px_config x)"
  proof (cases "should_flush_before (ps_batch st) f (px_config x)")
    case True
    with r have "ps_batch s = empty_batch"
      using flush_batch_empty [of x st] by (auto simp: should_flush_before_def split: if_splits)
    then show ?thesis by (simp add: should_flush_before_def empty_batch_def)
  next
    case False
    with r show ?thesis by simp
  qed
  with s have pushed: "batch_ok (px_config x) (ps_batch (s\<lparr>ps_batch := batch_push (ps_batch s) f (px_config x)\<rparr>))"
    by (simp add: batch_ok_push)
  show "batch_ok (px_config x) (ps_batch (fst (then_st
      (let st2 = s\<lparr>ps_batch := batch_push (ps_batch s) f (px_config x)\<rparr>
       in if should_flush_now (ps_batch st2) then flush_push_batch x st2 else (st2, Inr ()))
      (\<lambda>st3 _. finish x st3))))"
    unfolding Let_def
    by (rule batch_ok_then)
      (use pushed in \<open>auto simp: flush_batch_ok simp del: select_convs update_convs
        intro: batch_ok_kept [OF finish_kept [OF batch_kept_refl]] split: if_splits\<close>)
qed

lemma process_ok:
  assumes ok: "batch_ok (px_config x) (ps_batch st)"
  shows "batch_ok (px_config x) (ps_batch (fst (process_prepared x req st)))"
proof (cases "prepare_push_file (pe_hash (px_env x)) (pe_fs (px_env x) (ps_world st)) req")
  case (Inl m)
  have "batch_kept st (fst (fail_entry x m st))"
    unfolding fail_entry_def by (rule complete_kept) simp
  with Inl ok show ?thesis by (simp add: process_prepared_def batch_ok_kept)
next
  case (Inr p)
  define moves where "moves = (if pr_stored_meta req = None
      then or_stage (legacy_move_stage x p) (or_stage (migration_move_stage x p) (migration_target_stage x p))
      else (\<lambda>st. (st, Inr False)))"
  have moves: "batch_kept s (fst (moves s))" for s
  proof (cases "pr_stored_meta req = None")
    case True
    show ?thesis unfolding moves_def if_P [OF True]
      by (rule or_kept, erule legacy_kept, rule or_kept, erule migration_move_kept,
          erule migration_target_kept, assumption, rule batch_kept_refl)
  next
    case False
    show ?thesis unfolding moves_def if_not_P [OF False] by simp
  qed
  show ?thesis
    unfolding process_prepared_def Inr sum.case moves_def [symmetric] or_stage_def
    by (rule batch_ok_then, rule batch_ok_then, rule batch_ok_kept [OF hash_skip_kept [OF batch_kept_refl]],
        rule ok, simp, intro impI batch_ok_then, erule batch_ok_kept [OF moves])
      (simp_all add: batch_stage_ok)
qed

section \<open>Properties\<close>


text \<open>A server that only remembers what was deleted on it, and two local files.\<close>

definition sample_remote :: "string list remote_ops" where
  "sample_remote =
     \<lparr>ro_blob_config = (\<lambda>w. (w, Inr sample_config)),
      ro_blob_check = (\<lambda>hs w. (w, Inr \<lparr>bcr_have = [], bcr_needed = hs\<rparr>)),
      ro_upload_chunk = (\<lambda>h b w. (w, Inr ())),
      ro_blob_commit = (\<lambda>fs w. (w, Inr JNull)),
      ro_upload_file = (\<lambda>p b t w. (w, Inr ())),
      ro_delete_file = (\<lambda>p w. (w @ [p], Inr ())),
      ro_create_symlink = (\<lambda>p t w. (w, Inr ())),
      ro_symlink_target = (\<lambda>p w. (w, Inr None)),
      ro_rename_file = (\<lambda>p q w. (w, Inr ())),
      ro_has_content_hash = (\<lambda>b p h w. (w, Inr False)),
      ro_sync_chunks = (\<lambda>hs w. (w, Inr []))\<rparr>"

definition sample_scan :: scan_fs where
  "sample_scan =
     \<lparr>sf_exists = (\<lambda>p. True), sf_tree = (\<lambda>p. WDir [Entry ''a'' WFile, Entry ''b'' WFile]),
      sf_lstat = (\<lambda>p. Inr \<lparr>es_kind = StatFile, es_len = 3, es_mtime = Some 5\<rparr>),
      sf_readlink = (\<lambda>p. Inl ''not a link''), sf_mtime = (\<lambda>p. Inr 5),
      sf_stream = (\<lambda>p. Inl ''not open'')\<rparr>"

definition sample_env :: "string list push_env" where
  "sample_env =
     \<lparr>pe_remote = sample_remote, pe_fs = (\<lambda>w. sample_fs), pe_scan = (\<lambda>w. sample_scan),
      pe_now = (\<lambda>w. 9), pe_hash = sample_hash, pe_glob = (\<lambda>p n. p = n), pe_json_len = length,
      pe_commit_len = (\<lambda>fs. 0), pe_available = Some 1, pe_order = (\<lambda>cs. cs),
      pe_prep_order = (\<lambda>rs. rs), pe_link_order = (\<lambda>ls. ls)\<rparr>"

definition sample_rel :: sync_relationship where
  "sample_rel =
     \<lparr>sr_id = ''s1'', sr_name = ''docs'', sr_remote_connection_id = ''c1'',
      sr_remote_path = ''/docs/'', sr_local_path = ''/l'', sr_direction = PushOnly,
      sr_filter = None,
      sr_delete_propagation = \<lparr>dp_local_to_remote = True, dp_remote_to_local = False\<rparr>,
      sr_enabled = True, sr_created_at = 1, sr_updated_at = 1\<rparr>"

lemma sample_seen: "''/docs/a'' \<in> set (seen_paths (pe_glob sample_env) sample_rel [sample_rel] sample_scan)"
  by code_simp



definition sample_ctx :: "(string list, (string, json) hmap) push_ctx" where
  "sample_ctx =
     \<lparr>px_env = sample_env, px_engine = mem_engine, px_rel = sample_rel, px_config = sample_config,
      px_mode = Full, px_migration = None\<rparr>"

definition sample_request :: "string \<Rightarrow> push_prep_request" where
  "sample_request n =
     \<lparr>pr_entry_path = ''/l/'' @ n, pr_remote_path = ''/docs/'' @ n, pr_modified_at = 5,
      pr_content_type = None, pr_stored_meta = None, pr_migration_old = None, pr_legacy = None\<rparr>"

text \<open>Two files are prepared and wait in one batch.\<close>

definition two_prepared :: "(string list, (string, json) hmap) push_state" where
  "two_prepared =
     fst (for_each (process_prepared sample_ctx) [sample_request ''a'', sample_request ''b'']
       (initial_state [] [] []))"


end
