(* ===== verification/Pull_Spec.thy ===== *)
theory Pull_Spec
  imports Pull
begin

text \<open>
  What a pull (theory Pull) promises: every change is counted once, only the files of the changes
  are touched, and the checkpoint of a pull that succeeds is the root the server named, also
  when files failed.
\<close>

section \<open>Accounting\<close>

definition accounted :: "('w, 'e) pull_state \<Rightarrow> nat" where
  "accounted st = pl_pulled st + pl_skipped st + pl_failed st + pl_deleted st + pl_links st"

lemma accounted_updates [simp]:
  "accounted (st\<lparr>pl_world := w\<rparr>) = accounted st"
  "accounted (st\<lparr>pl_store := e\<rparr>) = accounted st"
  "accounted (st\<lparr>pl_needed := hs\<rparr>) = accounted st"
  "accounted (st\<lparr>pl_plans := ps\<rparr>) = accounted st"
  "accounted (st\<lparr>pl_bytes := n\<rparr>) = accounted st"
  "accounted (pull_error m st) = accounted st"
  "accounted (pull_failure m st) = Suc (accounted st)"
  "accounted (st\<lparr>pl_pulled := Suc (pl_pulled st)\<rparr>) = Suc (accounted st)"
  "accounted (st\<lparr>pl_skipped := Suc (pl_skipped st)\<rparr>) = Suc (accounted st)"
  "accounted (st\<lparr>pl_deleted := Suc (pl_deleted st)\<rparr>) = Suc (accounted st)"
  "accounted (st\<lparr>pl_links := Suc (pl_links st)\<rparr>) = Suc (accounted st)"
  by (simp_all add: accounted_def pull_error_def pull_failure_def)

lemma pull_error_sels [simp]:
  "pl_pulled (pull_error m st) = pl_pulled st" "pl_bytes (pull_error m st) = pl_bytes st"
  "pl_deleted (pull_error m st) = pl_deleted st" "pl_links (pull_error m st) = pl_links st"
  "pl_skipped (pull_error m st) = pl_skipped st" "pl_failed (pull_error m st) = pl_failed st"
  "pl_plans (pull_error m st) = pl_plans st" "pl_plans (pull_failure m st) = pl_plans st"
  by (simp_all add: pull_error_def pull_failure_def)

lemma store_pulled_counts [simp]:
  "accounted (store_pulled x msg m st) = accounted st"
  "pl_pulled (store_pulled x msg m st) = pl_pulled st"
  "pl_bytes (store_pulled x msg m st) = pl_bytes st"
  "pl_links (store_pulled x msg m st) = pl_links st"
  "pl_skipped (store_pulled x msg m st) = pl_skipped st"
  "pl_failed (store_pulled x msg m st) = pl_failed st"
  "pl_deleted (store_pulled x msg m st) = pl_deleted st"
  by (simp_all add: store_pulled_def split: prod.split sum.split)

lemma plan_entry_counts:
  "accounted (plan_entry x entry st) + length (pl_plans (plan_entry x entry st)) =
     Suc (accounted st + length (pl_plans st))"
  by (simp add: plan_entry_def Let_def split: prod.split sum.split)

lemma plan_all_counts:
  "accounted (fold (plan_entry x) es st) + length (pl_plans (fold (plan_entry x) es st)) =
     accounted st + length (pl_plans st) + length es"
proof (induction es arbitrary: st)
  case (Cons e es)
  from Cons.IH [of "plan_entry x e st"] plan_entry_counts [of x e st] show ?case by simp
qed simp

lemma pull_file_counts: "accounted (pull_file x fetched err plan st) = Suc (accounted st)"
  by (simp add: pull_file_def Let_def split: prod.split sum.split option.split)
    (simp add: accounted_def)

lemma pull_files_counts:
  "accounted (fold (pull_file x fetched err) plans st) = accounted st + length plans"
  by (induction plans arbitrary: st) (simp_all add: pull_file_counts)

lemma drop_pulled_counts: "accounted (drop_pulled x m p st) = Suc (accounted st)"
  by (simp add: drop_pulled_def accounted_def pull_error_def split: prod.split sum.split)

lemma pull_deleted_counts:
  "accounted (pull_deleted x present what mm p st) =
     accounted st + (if is_excluded_by_child p (pc_exclusions x) then 0 else 1)"
  by (simp add: pull_deleted_def Let_def drop_pulled_counts split: prod.split sum.split)

lemma pull_deletions_count:
  "accounted (fold (pull_deleted x present what mm) ps st) =
     accounted st + length (filter (\<lambda>p. \<not> is_excluded_by_child p (pc_exclusions x)) ps)"
  by (induction ps arbitrary: st) (simp_all add: pull_deleted_counts)

lemma pull_symlink_counts:
  "accounted (pull_symlink x l st) =
     accounted st + (if is_excluded_by_child (ye_path l) (pc_exclusions x) then 0 else 1)"
  by (simp add: pull_symlink_def Let_def split: prod.split sum.split) (simp add: accounted_def)

lemma pull_symlinks_count:
  "accounted (fold (pull_symlink x) ls st) =
     accounted st + length (filter (\<lambda>l. \<not> is_excluded_by_child (ye_path l) (pc_exclusions x)) ls)"
  by (induction ls arbitrary: st) (simp_all add: pull_symlink_counts)

text \<open>How many changes a pull has to deal with.\<close>

definition owned_count :: "('w, 'e) pull_ctx \<Rightarrow> sync_changes \<Rightarrow> nat" where
  "owned_count x c =
     (let owned = (\<lambda>p. \<not> is_excluded_by_child p (pc_exclusions x));
          deletes = dp_remote_to_local (sr_delete_propagation (pc_rel x))
      in length (sc_files_added c) + length (sc_files_modified c) +
         length (filter (owned \<circ> ye_path) (sc_symlinks_added c @ sc_symlinks_modified c)) +
         (if deletes then length (filter owned (sc_files_deleted c)) +
                          length (filter owned (sc_symlinks_deleted c)) else 0))"

lemma fetch_state:
  "pl_plans (fst (pull_fetch x st)) = pl_plans st" "accounted (fst (pull_fetch x st)) = accounted st"
  by (simp_all add: pull_fetch_def split: prod.split)

lemma phases_count:
  assumes "pl_plans st = []"
  shows "accounted (pull_phases x c st) = accounted st + owned_count x c"
proof -
  let ?st1 = "fold (plan_entry x) (sc_files_added c @ sc_files_modified c) st"
  obtain st2 fetched err where f: "pull_fetch x ?st1 = (st2, fetched, err)"
    by (cases "pull_fetch x ?st1") auto
  have plans: "pl_plans st2 = pl_plans ?st1" "accounted st2 = accounted ?st1"
    using fetch_state [of x ?st1] f by simp_all
  have "accounted ?st1 + length (pl_plans ?st1) =
      accounted st + length (sc_files_added c) + length (sc_files_modified c)"
    using plan_all_counts [of x "sc_files_added c @ sc_files_modified c" st] assms by simp
  then show ?thesis
    using plans unfolding pull_phases_def Let_def f prod.case
    by (simp add: pull_files_counts pull_deletions_count pull_symlinks_count owned_count_def Let_def comp_def)
qed

section \<open>Which paths a pull touches\<close>

text \<open>Every operation a pull uses keeps \<open>P\<close>; those that change the disk do for the paths of \<open>D\<close>.\<close>

definition pull_keeps :: "'w pull_env \<Rightarrow> (string \<Rightarrow> bool) \<Rightarrow> ('w \<Rightarrow> bool) \<Rightarrow> bool" where
  "pull_keeps env D P \<longleftrightarrow>
     (\<forall>w. P w \<longrightarrow>
        P (fst (ro_blob_config (pv_remote env) w)) \<and> (\<forall>s. P (fst (pv_diff env s w))) \<and>
        (\<forall>hs. P (fst (ro_sync_chunks (pv_remote env) hs w)))) \<and>
     (\<forall>w p. P w \<longrightarrow> D p \<longrightarrow>
        P (fst (dk_mkdirs (pv_disk env) p w)) \<and> P (fst (dk_create (pv_disk env) p w)) \<and>
        (\<forall>b. P (fst (dk_write (pv_disk env) p b w))) \<and> P (fst (dk_flush (pv_disk env) p w)) \<and>
        (\<forall>q. D q \<longrightarrow> P (fst (dk_rename (pv_disk env) p q w))) \<and>
        P (fst (dk_remove (pv_disk env) p w)) \<and> (\<forall>t. P (fst (dk_symlink (pv_disk env) t p w))))"

lemma pull_keeps_remote:
  assumes "pull_keeps env D P" "P w"
  shows "P (fst (ro_blob_config (pv_remote env) w))" "P (fst (pv_diff env s w))"
    "P (fst (ro_sync_chunks (pv_remote env) hs w))"
  using conjunct1 [OF assms(1) [unfolded pull_keeps_def], rule_format, OF assms(2)] by simp_all

lemma pull_keeps_disk:
  assumes "pull_keeps env D P" "P w" "D p"
  shows "P (fst (dk_mkdirs (pv_disk env) p w))" "P (fst (dk_create (pv_disk env) p w))"
    "P (fst (dk_write (pv_disk env) p b w))" "P (fst (dk_flush (pv_disk env) p w))"
    "D q \<Longrightarrow> P (fst (dk_rename (pv_disk env) p q w))"
    "P (fst (dk_remove (pv_disk env) p w))" "P (fst (dk_symlink (pv_disk env) t p w))"
  using conjunct2 [OF assms(1) [unfolded pull_keeps_def], rule_format, OF assms(2,3)] by simp_all

text \<open>The paths of one remote path: the file, its temporary file and its directory.\<close>

definition pull_target :: "sync_relationship \<Rightarrow> string \<Rightarrow> string \<Rightarrow> bool" where
  "pull_target rel q p \<longleftrightarrow>
     (let f = compute_local_path q (sr_remote_path rel) (sr_local_path rel)
      in p = f \<or> p = tmp_path_of f \<or> path_parent f = Some p)"

definition pull_owns :: "('w, 'e) pull_ctx \<Rightarrow> string \<Rightarrow> bool" where
  "pull_owns x p \<longleftrightarrow>
     (\<exists>q. \<not> is_excluded_by_child q (pc_exclusions x) \<and> pull_target (pc_rel x) q p)"

lemma owns_file:
  assumes "\<not> is_excluded_by_child q (pc_exclusions x)"
  shows "pull_owns x (local_of x q)" "pull_owns x (tmp_path_of (local_of x q))"
    "path_parent (local_of x q) = Some d \<Longrightarrow> pull_owns x d"
  using assms unfolding pull_owns_def pull_target_def Let_def local_of_def by blast+

lemma fail_keep:
  "pull_keeps env D P \<Longrightarrow> P w \<Longrightarrow> D p \<Longrightarrow> P (fst (fail_assembly (pv_disk env) p e w))"
  using pull_keeps_disk(6) [of env D P w p] by (simp add: fail_assembly_def)

lemma assemble_loop_keep:
  assumes keep: "pull_keeps env D P" and tmp: "D (tmp_path_of p)"
  shows "P w \<Longrightarrow> P (fst (assemble_loop (pv_disk env) (tmp_path_of p) rd lc fetched hs acc w))"
proof (induction hs arbitrary: acc w)
  case (Cons h hs)
  obtain n hasher where acc: "acc = (n, hasher)" by (cases acc)
  show ?case
  proof (cases "chunk_source rd lc fetched h")
    case (Inl e)
    with Cons.prems acc show ?thesis by simp
  next
    case (Inr b)
    obtain w1 r where wr: "dk_write (pv_disk env) (tmp_path_of p) b w = (w1, r)" by force
    have "P w1" using pull_keeps_disk(3) [OF keep Cons.prems tmp, of b] wr by simp
    with Cons.IH Inr acc wr show ?thesis by (simp split: sum.split)
  qed
qed simp

lemma assemble_keep:
  assumes keep: "pull_keeps env D P" and w: "P w" and p: "D p" "D (tmp_path_of p)"
  shows "P (fst (assemble_file hash (pv_disk env) hs p lc fetched w))"
proof -
  let ?dk = "pv_disk env" and ?tmp = "tmp_path_of p"
  note disk = pull_keeps_disk [OF keep _ p(2)]
  note loop = assemble_loop_keep [OF keep p(2)]
  note fail = fail_keep [OF keep _ p(2)]
  have flush: "P (fst (case dk_flush ?dk ?tmp w2 of
      (w3, Inl e) \<Rightarrow> fail_assembly ?dk ?tmp (Io e, True) w3
    | (w3, Inr _) \<Rightarrow>
        (case dk_rename ?dk ?tmp p w3 of
           (w4, Inl e) \<Rightarrow> fail_assembly ?dk ?tmp (Io e, True) w4
         | (w4, Inr _) \<Rightarrow> (w4, Inr (tot, hash hasher)))))" if "P w2" for w2 tot hasher
  proof -
    obtain w3 r3 where f: "dk_flush ?dk ?tmp w2 = (w3, r3)" by force
    have "P w3" using disk(4) [OF that] f by simp
    moreover obtain w4 r4 where m: "dk_rename ?dk ?tmp p w3 = (w4, r4)" by force
    ultimately have "P w4" using disk(5) [of w3 p] p(1) by simp
    with \<open>P w3\<close> f m show ?thesis by (simp add: fail split: sum.split)
  qed
  obtain w1 r1 where mk: "dk_create ?dk ?tmp w = (w1, r1)" by force
  have w1: "P w1" using disk(2) [OF w] mk by simp
  have tail: "P (fst (case assemble_loop ?dk ?tmp rd lc fetched hs (0, []) w1 of
      (w2, Inl e) \<Rightarrow> fail_assembly ?dk ?tmp e w2
    | (w2, Inr (tot, hasher)) \<Rightarrow>
       (case dk_flush ?dk ?tmp w2 of
          (w3, Inl e) \<Rightarrow> fail_assembly ?dk ?tmp (Io e, True) w3
        | (w3, Inr _) \<Rightarrow>
            (case dk_rename ?dk ?tmp p w3 of
               (w4, Inl e) \<Rightarrow> fail_assembly ?dk ?tmp (Io e, True) w4
             | (w4, Inr _) \<Rightarrow> (w4, Inr (tot, hash hasher))))))" for rd
  proof -
    obtain w2 r2 where l: "assemble_loop ?dk ?tmp rd lc fetched hs (0, []) w1 = (w2, r2)" by force
    have "P w2" using loop [OF w1, where hs = hs] l by (metis fst_conv)
    with l show ?thesis by (cases r2) (auto simp only: prod.case sum.case fail flush split: prod.split)
  qed
  show ?thesis
    unfolding assemble_file_def Let_def mk
    by (cases "if lc = [] then Inr None
        else case dk_open ?dk p w of
          Opened h \<Rightarrow> Inr (Some h) | OpenMissing \<Rightarrow> Inr None | OpenFailed e \<Rightarrow> Inl e"; cases r1)
      (simp_all only: sum.case prod.case fst_conv w w1 tail)
qed


text \<open>A state whose world has \<open>P\<close> and whose plans are for files the pull owns.\<close>

definition pulling :: "('w, 'e) pull_ctx \<Rightarrow> ('w \<Rightarrow> bool) \<Rightarrow> ('w, 'e) pull_state \<Rightarrow> bool" where
  "pulling x P st \<longleftrightarrow> P (pl_world st) \<and>
     (\<forall>p\<in>set (pl_plans st). \<exists>q. \<not> is_excluded_by_child q (pc_exclusions x) \<and> fp_local_path p = local_of x q)"

lemma pulling_updates [simp]:
  "pulling x P (st\<lparr>pl_store := e\<rparr>) = pulling x P st"
  "pulling x P (st\<lparr>pl_pulled := n\<rparr>) = pulling x P st"
  "pulling x P (st\<lparr>pl_skipped := n\<rparr>) = pulling x P st"
  "pulling x P (st\<lparr>pl_deleted := n\<rparr>) = pulling x P st"
  "pulling x P (st\<lparr>pl_links := n\<rparr>) = pulling x P st"
  "pulling x P (st\<lparr>pl_bytes := n\<rparr>) = pulling x P st"
  "pulling x P (pull_error m st) = pulling x P st"
  "pulling x P (pull_failure m st) = pulling x P st"
  by (simp_all add: pulling_def pull_error_def pull_failure_def)

lemma pulling_world: "pulling x P st \<Longrightarrow> P w \<Longrightarrow> pulling x P (st\<lparr>pl_world := w\<rparr>)"
  by (simp add: pulling_def)

lemma pullingD: "pulling x P st \<Longrightarrow> P (pl_world st)"
  by (simp add: pulling_def)

lemma store_pulled_pulling [simp]: "pulling x P (store_pulled y msg m st) = pulling x P st"
  by (simp add: store_pulled_def split: prod.split sum.split)

lemma drop_pulled_pulling [simp]: "pulling x P (drop_pulled y msg p st) = pulling x P st"
  by (simp add: drop_pulled_def split: prod.split sum.split)

lemma make_parent_keep:
  assumes "pull_keeps (pc_env x) (pull_owns x) P" "P w" "\<not> is_excluded_by_child q (pc_exclusions x)"
  shows "P (fst (make_parent x (local_of x q) w))"
  using assms(2) pull_keeps_disk(1) [OF assms(1,2) owns_file(3) [OF assms(3)]]
  by (simp add: make_parent_def split: option.split)

lemma plan_entry_pulling:
  assumes keep: "pull_keeps (pc_env x) (pull_owns x) P" and st: "pulling x P st"
  shows "pulling x P (plan_entry x entry st)"
proof (cases "is_excluded_by_child (se_path entry) (pc_exclusions x)")
  case True
  with st show ?thesis by (simp add: plan_entry_def)
next
  case False
  obtain w r where mk: "make_parent x (local_of x (se_path entry)) (pl_world st) = (w, r)" by force
  have "P w" using make_parent_keep [OF keep pullingD [OF st] False] mk by simp
  then have w: "pulling x P (st\<lparr>pl_world := w\<rparr>)" by (rule pulling_world [OF st])
  then have "pulling x P (st\<lparr>pl_world := w, pl_needed := hs, pl_plans := pl_plans st @
      [\<lparr>fp_entry = entry, fp_local_path = local_of x (se_path entry), fp_local_chunks = c\<rparr>]\<rparr>)" for hs c
    using False by (auto simp: pulling_def)
  with False mk w st show ?thesis by (simp add: plan_entry_def Let_def split: sum.split)
qed

lemma fetch_keep:
  assumes keep: "pull_keeps env D P"
  shows "P w \<Longrightarrow> P (fst (fetch_batches (pv_remote env) bs fetched w))"
proof (induction bs arbitrary: fetched w)
  case (Cons b bs)
  obtain w1 r where run: "ro_sync_chunks (pv_remote env) b w = (w1, r)" by force
  have "P w1" using pull_keeps_remote(3) [OF keep Cons.prems, of b] run by simp
  with Cons.IH run show ?case by (simp split: sum.split)
qed simp

lemma pull_fetch_pulling:
  assumes keep: "pull_keeps (pc_env x) D P" and st: "pulling x P st"
  shows "pulling x P (fst (pull_fetch x st))"
proof -
  let ?bs = "chunks_of sync_chunks_batch (pv_order (pc_env x) (hkeys (pl_needed st)))"
  obtain w f err where run: "fetch_batches (pv_remote (pc_env x)) ?bs [] (pl_world st) = (w, f, err)"
    by (cases "fetch_batches (pv_remote (pc_env x)) ?bs [] (pl_world st)") auto
  have "P w" using fetch_keep [OF keep pullingD [OF st], of ?bs "[]"] run by simp
  with pulling_world [OF st] run show ?thesis by (simp add: pull_fetch_def)
qed

lemma pull_file_pulling:
  assumes keep: "pull_keeps (pc_env x) (pull_owns x) P" and st: "pulling x P st"
    and plan: "\<not> is_excluded_by_child q (pc_exclusions x)" "fp_local_path plan = local_of x q"
  shows "pulling x P (pull_file x fetched err plan st)"
proof (cases err)
  case (Some m)
  with st show ?thesis by (simp add: pull_file_def Let_def)
next
  case None
  let ?run = "assemble_file (pv_hash (pc_env x)) (pv_disk (pc_env x)) (se_chunk_hashes (fp_entry plan))
    (local_of x q) (fp_local_chunks plan) fetched (pl_world st)"
  obtain w r where run: "?run = (w, r)" by force
  have "P w"
    using assemble_keep [OF keep pullingD [OF st] owns_file(1,2) [OF plan(1)]] run by (metis fst_conv)
  with pulling_world [OF st] None run plan(2) show ?thesis
    by (simp add: pull_file_def Let_def split: sum.split prod.split)
qed

lemma pull_deleted_pulling:
  assumes keep: "pull_keeps (pc_env x) (pull_owns x) P" and st: "pulling x P st"
  shows "pulling x P (pull_deleted x present what mm q st)"
proof (cases "is_excluded_by_child q (pc_exclusions x)")
  case True
  with st show ?thesis by (simp add: pull_deleted_def)
next
  case False
  obtain w r where run: "dk_remove (pv_disk (pc_env x)) (local_of x q) (pl_world st) = (w, r)" by force
  have "P w" using pull_keeps_disk(6) [OF keep pullingD [OF st] owns_file(1) [OF False]] run by simp
  with pulling_world [OF st] False run st show ?thesis
    by (simp add: pull_deleted_def Let_def split: sum.split)
qed

lemma pull_symlink_pulling:
  assumes keep: "pull_keeps (pc_env x) (pull_owns x) P" and st: "pulling x P st"
  shows "pulling x P (pull_symlink x l st)"
proof (cases "is_excluded_by_child (ye_path l) (pc_exclusions x)")
  case True
  with st show ?thesis by (simp add: pull_symlink_def)
next
  case False
  let ?p = "local_of x (ye_path l)" and ?dk = "pv_disk (pc_env x)"
  note own = owns_file(1) [OF False]
  obtain w r where mk: "make_parent x ?p (pl_world st) = (w, r)" by force
  have w: "P w" using make_parent_keep [OF keep pullingD [OF st] False] mk by simp
  let ?w1 = "if dk_lexists ?dk ?p w then fst (dk_remove ?dk ?p w) else w"
  have w1: "P ?w1" using w pull_keeps_disk(6) [OF keep w own] by simp
  obtain w2 r2 where ln: "dk_symlink ?dk (ye_target l) ?p ?w1 = (w2, r2)" by force
  have "P w2" using pull_keeps_disk(7) [OF keep w1 own, of "ye_target l"] ln by simp
  with w mk ln False pulling_world [OF st] show ?thesis
    unfolding pull_symlink_def Let_def by (simp split: sum.split)
qed

lemma fold_pulling:
  "pulling x P st \<Longrightarrow> (\<And>a s. a \<in> set xs \<Longrightarrow> pulling x P s \<Longrightarrow> pulling x P (f a s)) \<Longrightarrow>
    pulling x P (fold f xs st)"
  by (induction xs arbitrary: st) auto

lemma phases_pulling:
  assumes keep: "pull_keeps (pc_env x) (pull_owns x) P" and st: "pulling x P st"
  shows "pulling x P (pull_phases x c st)"
proof -
  let ?st1 = "fold (plan_entry x) (sc_files_added c @ sc_files_modified c) st"
  have 1: "pulling x P ?st1" by (rule fold_pulling [OF st]) (rule plan_entry_pulling [OF keep])
  obtain st2 fetched err where f: "pull_fetch x ?st1 = (st2, fetched, err)"
    by (cases "pull_fetch x ?st1") auto
  have 2: "pulling x P st2" using pull_fetch_pulling [OF keep 1] f by simp
  have "\<forall>p\<in>set (pl_plans st2). \<exists>q. \<not> is_excluded_by_child q (pc_exclusions x) \<and>
      fp_local_path p = local_of x q" using 2 by (simp add: pulling_def)
  then have 3: "pulling x P (fold (pull_file x fetched err) (pl_plans st2) st2)"
    by (intro fold_pulling [OF 2]) (metis pull_file_pulling [OF keep])
  have del: "pulling x P s \<Longrightarrow> pulling x P (fold (pull_deleted x present what mm) ps s)"
    for present what mm ps s
    by (erule fold_pulling) (rule pull_deleted_pulling [OF keep])
  have links: "pulling x P s \<Longrightarrow> pulling x P (fold (pull_symlink x) ls s)" for ls s
    by (erule fold_pulling) (rule pull_symlink_pulling [OF keep])
  show ?thesis
    unfolding pull_phases_def Let_def f prod.case
    by (cases "dp_remote_to_local (sr_delete_propagation (pc_rel x))")
      (simp_all only: if_True if_False 3 del links)
qed

section \<open>A sample pull\<close>

text \<open>A server whose chunks hold what their hash says, the disk in memory, and a server state with
  one file under the remote path of the relationship and one elsewhere.\<close>

definition sample_pull_remote :: "(string, string) hmap remote_ops" where
  "sample_pull_remote =
     \<lparr>ro_blob_config = (\<lambda>w. (w, Inr \<lparr>bc_hash_algorithm = ''blake3'', bc_chunk_size = 2,
        bc_chunk_hash_prefix = ''c:''\<rparr>)),
      ro_blob_check = (\<lambda>hs w. (w, Inr \<lparr>bcr_have = hs, bcr_needed = []\<rparr>)),
      ro_upload_chunk = (\<lambda>h b w. (w, Inr ())), ro_blob_commit = (\<lambda>fs w. (w, Inr JNull)),
      ro_upload_file = (\<lambda>p b t w. (w, Inr ())), ro_delete_file = (\<lambda>p w. (w, Inr ())),
      ro_create_symlink = (\<lambda>p t w. (w, Inr ())), ro_symlink_target = (\<lambda>p w. (w, Inr None)),
      ro_rename_file = (\<lambda>p q w. (w, Inr ())), ro_has_content_hash = (\<lambda>b p h w. (w, Inr False)),
      ro_sync_chunks = (\<lambda>hs w. (w, Inr (map (\<lambda>h. (h, drop 3 h)) hs)))\<rparr>"

definition sample_entry :: "string \<Rightarrow> string list \<Rightarrow> sync_file_entry" where
  "sample_entry p hs =
     \<lparr>se_path = p, se_hash = ''x'', se_size = 4, se_content_type = None, se_chunk_hashes = hs\<rparr>"

definition sample_changes :: sync_changes where
  "sample_changes =
     \<lparr>sc_files_added = [sample_entry ''/docs/a'' [''hc:ab'', ''hc:cd''],
                        sample_entry ''/music/x'' [''hc:zz'']],
      sc_files_modified = [], sc_files_deleted = [''/docs/gone''], sc_symlinks_added = [],
      sc_symlinks_modified = [], sc_symlinks_deleted = []\<rparr>"

definition sample_pull_env :: "(string, string) hmap pull_env" where
  "sample_pull_env =
     \<lparr>pv_remote = sample_pull_remote,
      pv_diff = (\<lambda>s w. (w, Inr \<lparr>sd_root_hash = ''r2'', sd_changes = sample_changes\<rparr>)),
      pv_disk = mem_disk, pv_now = (\<lambda>w. 9), pv_hash = plain_hash, pv_glob = (\<lambda>p n. p = n),
      pv_order = (\<lambda>hs. hs)\<rparr>"

text \<open>The same server when it cannot deliver chunks.\<close>

definition failing_pull_env :: "(string, string) hmap pull_env" where
  "failing_pull_env = sample_pull_env\<lparr>pv_remote := sample_pull_remote
     \<lparr>ro_sync_chunks := (\<lambda>hs w. (w, Inl (UpstreamUnreachable ''down'')))\<rparr>\<rparr>"

definition sample_pull_rel :: sync_relationship where
  "sample_pull_rel =
     \<lparr>sr_id = ''s1'', sr_name = ''docs'', sr_remote_connection_id = ''c1'',
      sr_remote_path = ''/docs/'', sr_local_path = ''/l'', sr_direction = PullOnly,
      sr_filter = None,
      sr_delete_propagation = \<lparr>dp_local_to_remote = False, dp_remote_to_local = True\<rparr>,
      sr_enabled = True, sr_created_at = 1, sr_updated_at = 1\<rparr>"

definition sample_pull_ctx :: "((string, string) hmap, (string, json) hmap) pull_ctx" where
  "sample_pull_ctx =
     \<lparr>pc_env = sample_pull_env, pc_engine = mem_engine, pc_rel = sample_pull_rel,
      pc_config = \<lparr>bc_hash_algorithm = ''blake3'', bc_chunk_size = 2, bc_chunk_hash_prefix = ''c:''\<rparr>,
      pc_exclusions = []\<rparr>"

section \<open>Properties\<close>


text \<open>C20. A pull that succeeds has counted every change the server reported exactly once, as pulled,
  skipped, failed, deleted or linked; only symlinks and deletions in a child's territory, and
  deletions that do not propagate, are left out.\<close>

theorem pull_counts_every_change:
  assumes "pl_plans st = []"
  shows "accounted (pull_phases x c st) = accounted st + owned_count x c"
  using assms by (rule phases_count)

lemma pull_counts_every_change_witness:
  "accounted (pull_phases sample_pull_ctx sample_changes (initial_pull [] [])) = 3"
proof -
  have "accounted (pull_phases sample_pull_ctx sample_changes (initial_pull [] [])) =
      accounted (initial_pull [] [] :: ((string, string) hmap, (string, json) hmap) pull_state) +
      owned_count sample_pull_ctx sample_changes"
    by (rule pull_counts_every_change) (simp add: initial_pull_def)
  also have "\<dots> = 3"
    by (simp add: accounted_def initial_pull_def owned_count_def sample_pull_ctx_def
        sample_changes_def sample_pull_rel_def is_excluded_by_child_def)
  finally show ?thesis .
qed

lemma absolute_parent:
  assumes "prefix ''/'' f" "path_parent f = Some p"
  shows "prefix ''/'' p"
proof -
  obtain cs where c: "path_components f = RootDir # cs"
    using assms(1) by (auto simp: path_components_def)
  with assms(2) have "cs \<noteq> []" by (auto simp: path_parent_def)
  then obtain ds d where "cs = ds @ [d]" by (metis rev_exhaust)
  with assms(2) c have "p = path_text (RootDir # ds)"
    by (cases d) (auto simp: path_parent_def)
  then show ?thesis by simp
qed

lemma sample_targets: "pull_target sample_pull_rel q p \<Longrightarrow> prefix ''/'' p"
proof -
  assume t: "pull_target sample_pull_rel q p"
  define f where "f = compute_local_path q (sr_remote_path sample_pull_rel) (sr_local_path sample_pull_rel)"
  have "prefix ''/'' f"
    by (simp add: f_def compute_local_path_def sample_pull_rel_def path_join_def Let_def)
  with t absolute_parent [of f p] show ?thesis
    by (auto simp: pull_target_def f_def [symmetric] Let_def tmp_path_of_def)
qed


text \<open>After a pull that succeeds the checkpoint names the root of the diff it applied, so the
  next pull asks only for later changes.  Nothing in the statement depends on the counters:
  it holds as well when files failed.\<close>

theorem pull_moves_checkpoint:
  assumes "engine_ok en files" "rel_ok (sr_id rel)" "\<forall>w. i64_ok (pv_now env w)"
    and "pull_sync env en rel rels (w, e) = ((w', e'), Inr r)"
  shows "\<exists>since w2 w3 diff. pv_diff env since w2 = (w3, Inr diff) \<and>
    map_option ck_remote_root_hash (get_checkpoint en (sr_id rel) e') = Some (sd_root_hash diff)"
proof -
  obtain w1 config where 1: "ro_blob_config (pv_remote env) w = (w1, Inr config)"
    using assms(4) by (auto simp: pull_sync_def split: prod.splits sum.splits)
  let ?mk = "if dk_exists (pv_disk env) (sr_local_path rel) w1 then (w1, Inr ())
    else map_io (dk_mkdirs (pv_disk env) (sr_local_path rel) w1)"
  obtain w2 u where 2: "?mk = (w2, Inr u)"
    using assms(4) 1 by (cases ?mk; cases "snd ?mk") (auto simp: pull_sync_def)
  let ?since = "map_option ck_remote_root_hash (get_checkpoint en (sr_id rel) e)"
  obtain w3 diff where 3: "pv_diff env ?since w2 = (w3, Inr diff)"
    using assms(4) 1 2 by (cases "pv_diff env ?since w2"; cases "snd (pv_diff env ?since w2)")
      (auto simp: pull_sync_def)
  define st where "st = pull_phases \<lparr>pc_env = env, pc_engine = en, pc_rel = rel, pc_config = config,
    pc_exclusions = child_exclusions rel rels\<rparr> (sd_changes diff) (initial_pull w3 e)"
  define c where "c = \<lparr>ck_relationship_id = sr_id rel, ck_remote_root_hash = sd_root_hash diff,
    ck_last_sync_at = pv_now env (pl_world st)\<rparr>"
  obtain v where "set_checkpoint en c (pl_store st) = (e', Inr v)"
    using assms(4) 1 2 3
    by (auto simp: pull_sync_def Let_def st_def [symmetric] c_def [symmetric] split: prod.splits sum.splits)
  then have store: "store_json en (checkpoint_key (sr_id rel)) (checkpoint_to_json c) (pl_store st) = (e', Inr v)"
    by (simp add: set_checkpoint_def c_def)
  have plain: "plain (checkpoint_key (sr_id rel))"
    using assms(2) plain_file(3) [of "sr_id rel @ ''.json''"] by (simp add: rel_ok_def checkpoint_key_def)
  have "i64_ok (ck_last_sync_at c)" using assms(3) by (simp add: c_def)
  from checkpoint.stored_is_read [OF assms(1) plain key_not_dir(4) store this]
  have "get_checkpoint en (sr_id rel) e' = Some c" by (simp add: get_checkpoint_def)
  with 3 show ?thesis by (auto simp: c_def)
qed

text \<open>The example is a pull in which both files failed.\<close>

lemma pull_moves_checkpoint_witness:
  "\<exists>w' e' r. pull_sync failing_pull_env mem_engine sample_pull_rel [] ([], []) = ((w', e'), Inr r) \<and>
     pr_files_failed r = 2 \<and> pr_files_pulled r = 0 \<and>
     map_option ck_remote_root_hash (get_checkpoint mem_engine ''s1'' e') = Some ''r2''"
proof -
  let ?run = "pull_sync failing_pull_env mem_engine sample_pull_rel [] ([], [])"
  have ok: "case snd ?run of Inl e \<Rightarrow> False | Inr r \<Rightarrow> pr_files_failed r = 2 \<and> pr_files_pulled r = 0"
    by code_simp
  then obtain w' e' r where run: "?run = ((w', e'), Inr r)"
    by (cases ?run; cases "fst ?run"; cases "snd ?run") auto
  have rel: "rel_ok (sr_id sample_pull_rel)" by (simp add: rel_ok_def sample_pull_rel_def)
  have now: "\<forall>w. i64_ok (pv_now failing_pull_env w)"
    by (simp add: failing_pull_env_def sample_pull_env_def i64_ok_def)
  from pull_moves_checkpoint [OF mem_engine_ok rel now run] obtain since w2 w3 diff
    where d: "pv_diff failing_pull_env since w2 = (w3, Inr diff)"
      "map_option ck_remote_root_hash (get_checkpoint mem_engine (sr_id sample_pull_rel) e') =
         Some (sd_root_hash diff)" by (elim exE conjE)
  then have "sd_root_hash diff = ''r2''" by (auto simp: failing_pull_env_def sample_pull_env_def)
  with d(2) ok run show ?thesis by (simp add: sample_pull_rel_def)
qed

text \<open>The diff of the server covers its whole tree, and nothing in a pull compares a path with
  the remote path of the relationship: a file outside it is written below the local root too.\<close>

text \<open>The relationships matter only by the children they exclude.\<close>

lemma pull_sync_exclusions:
  "child_exclusions rel rels = child_exclusions rel rels' \<Longrightarrow>
    pull_sync env en rel rels s = pull_sync env en rel rels' s"
  by (simp only: pull_sync_def)

lemma sample_pull_world:
  "map (hget (fst (fst (pull_sync sample_pull_env mem_engine sample_pull_rel [] ([], []))))) [''/l/a'', ''/l/music/x''] =
     [Some ''abcd'', Some ''zz'']"
  by code_simp

lemma sample_pull_alone:
  "pull_sync env en sample_pull_rel [sample_pull_rel] s = pull_sync env en sample_pull_rel [] s"
  by (rule pull_sync_exclusions) code_simp

theorem pull_writes_files_outside_base:
  "\<not> starts_with ''/music/x'' (sr_remote_path sample_pull_rel) \<and>
   hget (fst (fst (pull_sync sample_pull_env mem_engine sample_pull_rel [sample_pull_rel] ([], []))))
     ''/l/music/x'' = Some ''zz''"
proof
  show "\<not> starts_with ''/music/x'' (sr_remote_path sample_pull_rel)" by code_simp
qed (use sample_pull_world in \<open>simp add: sample_pull_alone\<close>)

end
