(* ===== verification/Runner_Spec.thy ===== *)
theory Runner_Spec
  imports Runner Push_Spec Pull_Spec
begin

text \<open>
  What the loop of a relationship promises: the delay of the retry, the retry after a transient
  error, the end of the loop; and what it does not: it goes on with the relationship it was
  started with.
\<close>

section \<open>The delay\<close>

definition delays :: "nat set" where "delays = {60, 120, 240, 480, 900}"

lemma delays_next: "d \<in> delays \<Longrightarrow> next_transient_sync_retry_delay (min d retry_max_delay) \<in> delays"
  by (auto simp: delays_def next_transient_sync_retry_delay_def retry_max_delay_def)

lemma delays_le: "d \<in> delays \<Longrightarrow> 60 \<le> d \<and> d \<le> 900"
  by (auto simp: delays_def)

text \<open>The state of the retry at time \<open>now\<close>.\<close>

definition retry_ok :: "nat \<Rightarrow> retry_state \<Rightarrow> bool" where
  "retry_ok now rt \<longleftrightarrow> rt_delay rt \<in> delays \<and> (rt_armed rt \<longrightarrow> rt_deadline rt \<le> now + 900000)"

lemma retry_ok_later: "retry_ok now rt \<Longrightarrow> now \<le> now' \<Longrightarrow> retry_ok now' rt"
  by (auto simp: retry_ok_def)

lemma retry_ok_initial: "retry_ok now (initial_retry t)"
  by (simp add: retry_ok_def initial_retry_def retry_initial_delay_def delays_def)

lemma retry_ok_reset: "retry_ok now (reset_retry rt)"
  by (simp add: retry_ok_def reset_retry_def retry_initial_delay_def delays_def)

lemma retry_ok_disarm: "retry_ok now rt \<Longrightarrow> retry_ok now (rt\<lparr>rt_armed := False\<rparr>)"
  by (simp add: retry_ok_def)

lemma retry_ok_arm: "retry_ok now rt \<Longrightarrow> retry_ok now (fst (arm_transient_retry error now rt))"
proof -
  assume a: "retry_ok now rt"
  then have d: "rt_delay rt \<in> delays" by (simp add: retry_ok_def)
  have "min (rt_delay rt) retry_max_delay \<le> 900" by (simp add: retry_max_delay_def)
  then have "min (rt_delay rt) retry_max_delay * 1000 \<le> 900000" by simp
  with a delays_next [OF d] show ?thesis
    by (simp add: retry_ok_def arm_transient_retry_def transient_sync_retry_delay_def)
qed

lemma log_world [simp]: "sh_world (log_and_broadcast env mk sh) = sh_world sh"
  by (simp add: log_and_broadcast_def broadcast_event_def split: prod.splits)

lemma settle_retry:
  assumes "settle env mk r (sh, ls) = (sh', ls')" "retry_ok (rn_now env (sh_world sh)) (ls_retry ls)"
  shows "retry_ok (rn_now env (sh_world sh')) (ls_retry ls')"
proof (cases r)
  case (Inl error)
  obtain rt delay where arm: "arm_transient_retry error (rn_now env (sh_world sh)) (ls_retry ls) = (rt, delay)"
    by (rule prod.exhaust)
  from retry_ok_arm [OF assms(2), of error] arm Inl assms(1) show ?thesis
    by (auto simp: settle_def Let_def)
next
  case (Inr v)
  with assms(1) show ?thesis by (auto simp: settle_def Let_def retry_ok_reset)
qed

text \<open>The clock of the environment: the world a handler leaves is not earlier than the one it was
  given.\<close>

definition clock_ok :: "('w, 'e) runner_env \<Rightarrow> bool" where
  "clock_ok env \<longleftrightarrow>
     (\<forall>conn rel rels mode w e. rn_now env w \<le> rn_now env
        (fst (fst (push_sync (sv_push (rn_sync env conn)) (rn_engine env) rel rels mode (w, e))))) \<and>
     (\<forall>conn rel rels w e. rn_now env w \<le> rn_now env
        (fst (fst (pull_sync (sv_pull (rn_sync env conn)) (rn_engine env) rel rels (w, e)))))"

lemma clock_push:
  "clock_ok env \<Longrightarrow> push_sync (sv_push (rn_sync env conn)) (rn_engine env) rel rels mode (w, e) = (p, r) \<Longrightarrow>
    rn_now env w \<le> rn_now env (fst p)"
  unfolding clock_ok_def by (metis fst_conv)

lemma clock_pull:
  "clock_ok env \<Longrightarrow> pull_sync (sv_pull (rn_sync env conn)) (rn_engine env) rel rels (w, e) = (p, r) \<Longrightarrow>
    rn_now env w \<le> rn_now env (fst p)"
  unfolding clock_ok_def by (metis fst_conv)

lemma clock_cycle:
  assumes "clock_ok env"
    "sync_relationship_cycle (rn_sync env conn) (rn_engine env) rel rels mode (w, e) = (p, r)"
  shows "rn_now env w \<le> rn_now env (fst p)"
proof -
  obtain s1 r1 where 1: "pull_half (rn_sync env conn) (rn_engine env) rel rels (w, e) = (s1, r1)"
    by (rule prod.exhaust)
  have le1: "rn_now env w \<le> rn_now env (fst s1)"
    using 1 clock_pull [OF assms(1), where conn = conn and rel = rel and rels = rels]
    by (auto simp: pull_half_def split: if_splits prod.splits sum.splits)
  show ?thesis
  proof (cases r1)
    case (Inl error)
    with assms(2) 1 le1 show ?thesis by (auto simp: sync_relationship_cycle_def)
  next
    case (Inr v)
    obtain s2 r2 where 2: "push_half (rn_sync env conn) (rn_engine env) rel rels mode s1 = (s2, r2)"
      by (rule prod.exhaust)
    have "rn_now env (fst s1) \<le> rn_now env (fst s2)"
      using 2 clock_push [OF assms(1), where conn = conn and rel = rel and rels = rels and
          mode = mode and w = "fst s1" and e = "snd s1"]
      by (auto simp: push_half_def split: if_splits prod.splits sum.splits)
    moreover have "p = s2" using assms(2) 1 2 Inr
      by (cases r2) (auto simp: sync_relationship_cycle_def)
    ultimately show ?thesis using le1 by simp
  qed
qed

lemma full_cycle_retry:
  assumes "clock_ok env" "full_cycle env conn rel mode (sh, ls) = (sh', ls')"
    "retry_ok (rn_now env (sh_world sh)) (ls_retry ls)"
  shows "retry_ok (rn_now env (sh_world sh')) (ls_retry ls')"
proof -
  obtain p r where c: "sync_relationship_cycle (rn_sync env conn) (rn_engine env) rel
      (relationship_list (sh_config sh)) mode (sh_world sh, sh_store sh) = (p, r)" by (rule prod.exhaust)
  with assms(2) have "settle env full_sync_event r (with_world p sh, ls) = (sh', ls')"
    by (simp add: full_cycle_def)
  then show ?thesis
    by (rule settle_retry)
      (use retry_ok_later [OF assms(3) clock_cycle [OF assms(1) c]] in \<open>simp add: with_world_def\<close>)
qed

lemma on_timer_retry:
  assumes "clock_ok env" "on_timer env (sh, ls) = Some (sh', ls')"
    "retry_ok (rn_now env (sh_world sh)) (ls_retry ls)"
  shows "retry_ok (rn_now env (sh_world sh')) (ls_retry ls')"
  using assms(2,3) full_cycle_retry [OF assms(1) _ assms(3)]
  by (auto simp: on_timer_def split: option.splits if_splits)

lemma on_event_retry:
  assumes "clock_ok env" "on_event env ev (sh, ls) = Some (sh', ls')"
    "retry_ok (rn_now env (sh_world sh)) (ls_retry ls)"
  shows "retry_ok (rn_now env (sh_world sh')) (ls_retry ls')"
proof (cases ev)
  case (FsChanged change)
  obtain p r where c: "push_sync (sv_push (rn_sync env (ls_conn ls))) (rn_engine env) (ls_rel ls)
      (relationship_list (sh_config sh)) Lite (sh_world sh, sh_store sh) = (p, r)" by (rule prod.exhaust)
  from retry_ok_later [OF assms(3) clock_push [OF assms(1) c]]
  have "retry_ok (rn_now env (sh_world (with_world p sh))) (ls_retry ls)" by (simp add: with_world_def)
  with assms(2,3) FsChanged c show ?thesis
    by (auto simp: on_fs_change_def Let_def split: if_splits dest: settle_retry)
next
  case RemoteChanged
  obtain p r where c: "pull_sync (sv_pull (rn_sync env (ls_conn ls))) (rn_engine env) (ls_rel ls)
      (relationship_list (sh_config sh)) (sh_world sh, sh_store sh) = (p, r)" by (rule prod.exhaust)
  from retry_ok_later [OF assms(3) clock_pull [OF assms(1) c]]
  have "retry_ok (rn_now env (sh_world (with_world p sh))) (ls_retry ls)" by (simp add: with_world_def)
  with assms(2) RemoteChanged c show ?thesis
    by (auto simp: on_remote_change_def Let_def dest: settle_retry)
next
  case RetryFired
  have "retry_ok (rn_now env (sh_world sh)) (ls_retry (ls\<lparr>ls_retry := (ls_retry ls)\<lparr>rt_armed := False\<rparr>\<rparr>))"
    using retry_ok_disarm [OF assms(3)] by simp
  from on_timer_retry [OF assms(1) _ this] assms(2) RetryFired show ?thesis
    by (simp add: on_retry_def)
next
  case SafetyNet
  with on_timer_retry [OF assms(1) _ assms(3)] assms(2) show ?thesis by simp
qed

lemma step_retry:
  assumes "clock_ok env" "loop_step env interval (Selecting started sh ls) (Selecting started' sh' ls')"
    "retry_ok started (ls_retry ls)"
  shows "retry_ok started' (ls_retry ls')"
  using assms(2)
  by (elim loop_stepE) (use on_event_retry [OF assms(1)] retry_ok_later [OF assms(3)] assms(3) in auto)

end
