(* ===== verification/Runner_Props.thy ===== *)
theory Runner_Props
  imports Runner_Spec
begin

text \<open>The properties of the loop of a relationship.\<close>

lemma run_retry:
  assumes "loop_run env interval p q" "clock_ok env"
    "p = Selecting started sh ls" "retry_ok started (ls_retry ls)" "q = Selecting started' sh' ls'"
  shows "retry_ok started' (ls_retry ls')"
  using assms
proof (induction arbitrary: started' sh' ls' rule: loop_run.induct)
  case (more p q r)
  show ?case
  proof (cases q)
    case (Selecting t1 sh1 ls1)
    with more show ?thesis by (blast intro: step_retry)
  next
    case (Ended sh1)
    with more.hyps(2) show ?thesis by (simp add: loop_step_Ended)
  qed
qed simp

lemma start_loop_retry:
  assumes "clock_ok env" "start_loop env rel conn sh = (sh', ls')"
  shows "retry_ok (rn_now env (sh_world sh')) (ls_retry ls')"
  using full_cycle_retry [OF assms(1)] assms(2)
  by (simp add: start_loop_def retry_ok_initial)

text \<open>C23. A transient error is retried soon: in every run of the loop from its first sync, whatever else
  changes in between, the delay is 1, 2, 4, 8 or 15 minutes, and when a retry is armed its branch
  is open at the latest fifteen minutes after the current round began, though the safety net may
  be an hour or more away.\<close>

theorem armed_retry_opens:
  assumes "clock_ok env" "start_loop env rel conn sh0 = (sh1, ls1)"
    and "loop_run env interval (Selecting (rn_now env (sh_world sh1)) sh1 ls1) (Selecting started sh ls)"
  shows "rt_delay (ls_retry ls) \<in> {60, 120, 240, 480, 900} \<and>
    (rt_armed (ls_retry ls) \<and> started + 900000 \<le> now \<longrightarrow>
       branch_open interval started now (ls_retry ls) RetryFired)"
  using run_retry [OF assms(3,1) refl start_loop_retry [OF assms(1,2)] refl]
  by (auto simp: retry_ok_def branch_open_def delays_def)

definition no_push_env :: "(string, string) hmap push_env" where
  "no_push_env =
     \<lparr>pe_remote = sample_pull_remote, pe_fs = (\<lambda>w. sample_fs), pe_scan = (\<lambda>w. sample_scan),
      pe_now = (\<lambda>w. 9), pe_hash = sample_hash, pe_glob = (\<lambda>p n. p = n), pe_json_len = length,
      pe_commit_len = (\<lambda>fs. 0), pe_available = Some 1, pe_order = (\<lambda>cs. cs),
      pe_prep_order = (\<lambda>rs. rs), pe_link_order = (\<lambda>ls. ls)\<rparr>"

definition runner_on :: "(string, string) hmap pull_env \<Rightarrow> ((string, string) hmap, (string, json) hmap) runner_env" where
  "runner_on pull =
     \<lparr>rn_engine = mem_engine,
      rn_sync = (\<lambda>c. \<lparr>sv_pull = pull, sv_push = no_push_env, sv_elapsed = (\<lambda>a b. 0)\<rparr>),
      rn_now = (\<lambda>w. 7000), rn_log_stamp = (\<lambda>w. \<lparr>st_uuid = ''u1'', st_now = 7000\<rparr>),
      rn_send_stamp = (\<lambda>w. \<lparr>st_uuid = ''u2'', st_now = 7001\<rparr>), rn_glob = (\<lambda>p n. p = n)\<rparr>"

definition down_pull_env :: "(string, string) hmap pull_env" where
  "down_pull_env = sample_pull_env\<lparr>pv_remote := sample_pull_remote
     \<lparr>ro_blob_config := (\<lambda>w. (w, Inl (UpstreamUnreachable ''down'')))\<rparr>\<rparr>"

definition sample_conn :: remote_connection where
  "sample_conn =
     \<lparr>rc_id = ''c1'', rc_name = ''home'', rc_url = ''http://host'', rc_auth_type = AuthNone,
      rc_api_key = None, rc_share_base_url = None, rc_created_at = 1, rc_updated_at = 1\<rparr>"

definition empty_shared :: "((string, string) hmap, (string, json) hmap) shared" where
  "empty_shared =
     \<lparr>sh_world = [], sh_store = [], sh_progress = [],
      sh_config = \<lparr>cs_config = default_config, cs_file = None\<rparr>, sh_events = []\<rparr>"

lemma clock_runner_on: "clock_ok (runner_on pull)"
  by (simp add: clock_ok_def runner_on_def)

lemma armed_retry_opens_witness:
  "\<exists>sh ls. start_loop (runner_on down_pull_env) sample_pull_rel sample_conn empty_shared = (sh, ls) \<and>
     rt_armed (ls_retry ls) \<and> branch_open 3600 7000 907000 (ls_retry ls) RetryFired"
proof -
  let ?env = "runner_on down_pull_env"
  obtain sh ls where s: "start_loop ?env sample_pull_rel sample_conn empty_shared = (sh, ls)"
    by (rule prod.exhaust)
  have "rt_armed (ls_retry (snd (start_loop ?env sample_pull_rel sample_conn empty_shared)))"
    by code_simp
  with s have armed: "rt_armed (ls_retry ls)" by simp
  have "rn_now ?env (sh_world sh) = 7000" by (simp add: runner_on_def)
  with armed_retry_opens [OF clock_runner_on s loop_run.start, of 907000] s armed
  show ?thesis by auto
qed

text \<open>The delays announced for errors in a row.\<close>

fun announced :: "(client_error \<times> nat) list \<Rightarrow> retry_state \<Rightarrow> nat option list" where
  "announced [] rt = []"
| "announced ((error, now) # es) rt =
     (case arm_transient_retry error now rt of (rt', d) \<Rightarrow> d # announced es rt')"

lemma announced_doubling:
  "\<forall>e\<in>fst ` set es. is_transient_upstream e \<Longrightarrow>
    announced es rt = map (\<lambda>k. Some (min (rt_delay rt * 2 ^ k) 900)) [0..<length es]"
proof (induction es arbitrary: rt)
  case (Cons e es)
  obtain error now where e: "e = (error, now)" by (cases e)
  let ?d = "min (rt_delay rt) 900"
  define rt' where "rt' = \<lparr>rt_armed = True, rt_delay = min (?d * 2) 900, rt_deadline = now + ?d * 1000\<rparr>"
  have "arm_transient_retry error now rt = (rt', Some ?d)"
    using Cons.prems e by (simp add: arm_transient_retry_def transient_sync_retry_delay_def rt'_def
        next_transient_sync_retry_delay_def retry_max_delay_def)
  then have "announced (e # es) rt = Some ?d # announced es rt'" by (simp add: e)
  also have "announced es rt' = map (\<lambda>k. Some (min (rt_delay rt' * 2 ^ k) 900)) [0..<length es]"
    using Cons.prems by (intro Cons.IH) simp
  also have "\<dots> = map (\<lambda>k. Some (min (rt_delay rt * 2 ^ Suc k) 900)) [0..<length es]"
  proof -
    have "min (?d * 2) 900 = min (rt_delay rt * 2) (900 :: nat)" by simp
    then show ?thesis by (simp add: rt'_def capped_double del: power_Suc)
  qed
  finally show ?case
    by (simp add: upt_conv_Cons map_Suc_upt [symmetric] o_def del: upt_Suc power_Suc)
qed simp

text \<open>The delays announced for transient errors in a row double from one minute up to fifteen.\<close>

theorem retry_backoff:
  assumes "\<forall>e\<in>fst ` set es. is_transient_upstream e"
  shows "announced es (initial_retry t) = map (\<lambda>k. Some (min (60 * 2 ^ k) 900)) [0..<length es]"
  using announced_doubling [OF assms] by (simp add: initial_retry_def retry_initial_delay_def)

lemma retry_backoff_witness:
  "announced (replicate 6 (UpstreamUnreachable ''down'', 5)) (initial_retry 0) =
     [Some 60, Some 120, Some 240, Some 480, Some 900, Some 900]"
proof -
  have "announced (replicate 6 (UpstreamUnreachable ''down'', 5)) (initial_retry 0) =
      map (\<lambda>k. Some (min (60 * 2 ^ k) 900)) [0..<length (replicate 6 (UpstreamUnreachable ''down'', 5 :: nat))]"
    by (rule retry_backoff) simp
  then show ?thesis by (simp add: upt_conv_Cons)
qed

text \<open>The loop ends only when a timer finds its relationship deleted or disabled: a change of files,
  a remote change, an error of a sync or a missing connection never end it.\<close>

theorem loop_ends_only_without_relationship:
  "on_event env ev (sh, ls) = None \<longleftrightarrow>
     ev \<in> {RetryFired, SafetyNet} \<and>
     (case relationship_get (sr_id (ls_rel ls)) (sh_config sh) of
        None \<Rightarrow> True | Some rel \<Rightarrow> \<not> sr_enabled rel)"
  by (cases ev) (auto simp: on_retry_def on_timer_def split: option.splits)

lemma settle_world: "sh_world (fst (settle env mk r (sh, ls))) = sh_world sh"
  by (cases r) (auto simp: settle_def Let_def split: prod.splits)

lemma remote_change_world:
  "sh_world (fst (on_remote_change env (sh, ls))) =
     fst (fst (pull_sync (sv_pull (rn_sync env (ls_conn ls))) (rn_engine env) (ls_rel ls)
       (relationship_list (sh_config sh)) (sh_world sh, sh_store sh)))"
  by (simp add: on_remote_change_def Let_def settle_world with_world_def split: prod.splits)

text \<open>The loop keeps the relationship it was started with: after its relationship and its connection
  are deleted from the configuration, a change on the server is still pulled, and files are
  written below the old local path, until a timer looks at the configuration.\<close>

theorem deleted_relationship_still_pulls:
  "relationship_get ''s1'' (sh_config empty_shared) = None \<and>
   connection_get ''c1'' (sh_config empty_shared) = None \<and>
   (case on_event (runner_on sample_pull_env) RemoteChanged
           (empty_shared, \<lparr>ls_rel = sample_pull_rel, ls_conn = sample_conn, ls_retry = initial_retry 0\<rparr>) of
      Some (sh, _) \<Rightarrow> hget (sh_world sh) ''/l/a'' = Some ''abcd''
    | None \<Rightarrow> False)"
proof -
  let ?ls = "\<lparr>ls_rel = sample_pull_rel, ls_conn = sample_conn, ls_retry = initial_retry 0\<rparr>"
  have "hget (fst (fst (pull_sync sample_pull_env mem_engine sample_pull_rel [] ([], [])))) ''/l/a'' = Some ''abcd''"
    using sample_pull_world by simp
  moreover have "relationship_list (sh_config empty_shared) = []" by code_simp
  ultimately have "hget (sh_world (fst (on_remote_change (runner_on sample_pull_env) (empty_shared, ?ls)))) ''/l/a'' =
      Some ''abcd''"
    by (simp add: remote_change_world runner_on_def empty_shared_def)
  moreover have "relationship_get ''s1'' (sh_config empty_shared) = None"
    "connection_get ''c1'' (sh_config empty_shared) = None" by code_simp+
  ultimately show ?thesis by (simp add: case_prod_unfold)
qed

end
