(* ===== verification/Sync_Routes_Spec.thy ===== *)
theory Sync_Routes_Spec
  imports Sync_Routes Registry Runner_Props
begin

text \<open>
  What the handlers of \<open>api/routes/sync.rs\<close> promise when the root of a relationship changes, and
  what they leave running.
\<close>

section \<open>Lemmas\<close>

lemma relationship_update_get:
  assumes "relationship_update e now i q s = (s', Inr r)"
  shows "relationship_get i s' = Some r" and "connection_get j s' = connection_get j s"
    and "\<exists>old. relationship_get i s = Some old \<and> r = apply_relationship_update now q old"
    and "config_get s' = (config_get s)\<lparr>cc_relationships := cc_relationships (config_get s')\<rparr>"
proof -
  have s': "s' = fst (relationship_update e now i q s)" using assms by simp
  show "relationship_get i s' = Some r" using assms by (rule answers_are_read(2))
  show "connection_get j s' = connection_get j s"
    unfolding s' by (rule relationship_requests_keep_connections)
  show "\<exists>old. relationship_get i s = Some old \<and> r = apply_relationship_update now q old"
    using relationship_update_found [of e now i q s r] assms relationships.get_look [of i s]
    by auto
  show "config_get s' = (config_get s)\<lparr>cc_relationships := cc_relationships (config_get s')\<rparr>"
    by (simp add: s' config_get_def relationship_update_store relationship_update_closure_def
        split: prod.split)
qed

lemma delete_if_exists_files:
  assumes "engine_ok en files" "plain p" "\<not> ends_with p ''/''" "delete_if_exists en p e = (e', Inr u)"
  shows "files e' = (files e)(p := None)"
proof (cases "files e p")
  case None
  then have "(files e)(p := None) = files e" by auto
  with None assms state_exists_files [OF assms(1-3), of e] show ?thesis
    by (simp add: delete_if_exists_def)
next
  case (Some j)
  with assms(4) state_exists_files [OF assms(1-3), of e]
  have "state_delete en p e = (e', Inr u)" by (simp add: delete_if_exists_def)
  then show ?thesis by (rule state_delete_files [OF assms(1,2)])
qed

lemma relationship_keys_plain:
  assumes "rel_ok rel"
  shows "plain (checkpoint_key rel)" "plain (path_migration_key rel)"
    and "checkpoint_key rel \<noteq> path_migration_key rel"
  using assms plain_file [of "rel @ ''.json''"]
  by (auto simp: rel_ok_def checkpoint_key_def path_migration_key_def)

lemma begin_path_migration_files:
  assumes "engine_ok en files" "rel_ok rel" "i64_ok now"
    and "begin_path_migration en now rel a b c d e = (e', Inr u)"
  shows "get_path_migration en rel e' =
      Some \<lparr>pm_relationship_id = rel, pm_old_remote_path = a, pm_new_remote_path = b,
            pm_old_local_path = c, pm_new_local_path = d, pm_created_at = now\<rparr>"
    and "get_checkpoint en rel e' = None"
proof -
  note keys = relationship_keys_plain [OF assms(2)]
  obtain e1 u1 where 1: "clear_checkpoint en rel e = (e1, Inr u1)"
    and 2: "store_json en (path_migration_key rel) (migration_to_json
       \<lparr>pm_relationship_id = rel, pm_old_remote_path = a, pm_new_remote_path = b,
        pm_old_local_path = c, pm_new_local_path = d, pm_created_at = now\<rparr>) e1 = (e', Inr u)"
    using assms(4) by (auto simp: begin_path_migration_def then_st_Inr)
  show "get_path_migration en rel e' = Some \<lparr>pm_relationship_id = rel, pm_old_remote_path = a,
      pm_new_remote_path = b, pm_old_local_path = c, pm_new_local_path = d, pm_created_at = now\<rparr>"
    unfolding get_path_migration_def
    by (rule migration.stored_is_read [OF assms(1) keys(2) key_not_dir(5) 2]) (simp add: assms(3))
  have "files e1 = (files e)(checkpoint_key rel := None)"
    using delete_if_exists_files [OF assms(1) keys(1) key_not_dir(4)] 1
    by (simp add: clear_checkpoint_def)
  with store_json_files [OF assms(1) keys(2) 2] keys(3)
  show "get_checkpoint en rel e' = None"
    by (simp add: get_checkpoint_def read_json_files [OF assms(1) keys(1) key_not_dir(4)])
qed

section \<open>Properties\<close>

lemma app_sels [simp]:
  "ap_config (put_config s a) = s" "ap_running (put_config s a) = ap_running a"
  "ap_running (put_store e a) = ap_running a" "ap_config (put_store e a) = ap_config a"
  "sh_store (ap_shared (put_store e a)) = e" "sh_store (ap_shared (put_config s a)) = sh_store (ap_shared a)"
  "ap_shared (try_start i a) = ap_shared a" "ap_shared (try_stop i a) = ap_shared a"
  by (simp_all add: put_config_def put_store_def try_start_def try_stop_def)

lemma stopped: "hget (ap_running (try_stop i a)) i = None"
  by (auto simp: try_stop_def runner_stop_def split: option.splits)

lemma started:
  assumes "hget (ap_running a) i = None" "relationship_get i (ap_config a) = Some rel" "sr_enabled rel"
    and "connection_get (sr_remote_connection_id rel) (ap_config a) = Some conn"
  shows "hget (ap_running (try_start i a)) i =
    Some \<lparr>ru_name = sr_name rel, ru_rel = rel, ru_conn = conn,
          ru_interval = set_sync_interval_seconds (cc_settings (config_get (ap_config a))),
          ru_ended = False\<rparr>"
  using assms by (simp add: try_start_def runner_start_def)

text \<open>C25. Moving a root: when an update changes the local or the remote root of an enabled relationship
  that can push, its loop is started again with the updated relationship, the next pull asks for
  the whole tree, and the next push finds the move from the old root to the new one.\<close>

theorem root_change_queues_migration:
  assumes "engine_ok (rn_engine (av_runner env)) files" "rel_ok i" "i64_ok (av_now env)"
    and "relationship_get i (ap_config a) = Some existing" "paths_change q existing"
    and "update_relationship env i q a = (a', Inr updated)"
    and "sr_direction updated \<noteq> PullOnly" "sr_enabled updated" "sr_id existing = i"
    and "connection_get (sr_remote_connection_id existing) (ap_config a) = Some conn"
  shows "relationship_get i (ap_config a') = Some updated \<and>
    map_option ru_rel (hget (ap_running a') i) = Some updated \<and>
    get_checkpoint (rn_engine (av_runner env)) i (sh_store (ap_shared a')) = None \<and>
    get_path_migration (rn_engine (av_runner env)) i (sh_store (ap_shared a')) =
      Some \<lparr>pm_relationship_id = i, pm_old_remote_path = sr_remote_path existing,
            pm_new_remote_path = sr_remote_path updated, pm_old_local_path = sr_local_path existing,
            pm_new_local_path = sr_local_path updated, pm_created_at = av_now env\<rparr>"
proof -
  define a1 where "a1 = (if is_running i (ap_running a) then try_stop i a else a)"
  have a1: "ap_shared a1 = ap_shared a" "hget (ap_running a1) i = None"
    using stopped [of i a] by (auto simp: a1_def is_running_def)
  obtain v where "(case ux_local_path q of Some p \<Rightarrow> validate_local_sync_path (av_paths env) p
      | None \<Rightarrow> Inr ()) = Inr v"
    using assms(4,6) by (auto simp: update_relationship_def split: sum.splits)
  note run = assms(6)[unfolded update_relationship_def Let_def assms(4) option.case this sum.case]
  obtain s where s: "relationship_update (av_config env) (av_now env) i q (ap_config a1) = (s, Inr updated)"
    using run assms(5) by (auto simp: a1_def [symmetric] split: prod.splits sum.splits if_splits)
  note get = relationship_update_get [OF s]
  have id: "sr_id updated = i" "sr_remote_connection_id updated = sr_remote_connection_id existing"
    using get(3) assms(4,9) by (auto simp: a1 apply_relationship_update_keeps)
  define a2 where "a2 = put_config s a1"
  obtain e u where e: "root_changed (rn_engine (av_runner env)) (av_now env) existing updated
      (sh_store (ap_shared a2)) = (e, Inr u)" and a': "a' = try_start i (put_store e a2)"
    using run assms(5,8) s by (auto simp: a1_def [symmetric] a2_def split: prod.splits sum.splits)
  from e assms(7) id have "begin_path_migration (rn_engine (av_runner env)) (av_now env) i
      (sr_remote_path existing) (sr_remote_path updated) (sr_local_path existing)
      (sr_local_path updated) (sh_store (ap_shared a2)) = (e, Inr u)"
    by (cases "sr_direction updated") (simp_all add: root_changed_def)
  note migration = begin_path_migration_files [OF assms(1-3) this]
  have "hget (ap_running a') i = Some \<lparr>ru_name = sr_name updated, ru_rel = updated, ru_conn = conn,
      ru_interval = set_sync_interval_seconds (cc_settings (config_get s)), ru_ended = False\<rparr>"
    unfolding a' using started [of "put_store e a2" i updated conn] a1 get(1,2) assms(8,10) id
    by (simp add: a2_def)
  then show ?thesis using migration get(1) a1 by (simp add: a' a2_def)
qed

definition docs_rel :: sync_relationship where
  "docs_rel = sample_pull_rel\<lparr>sr_direction := Bidirectional\<rparr>"

definition docs_app :: "((string, string) hmap, (string, json) hmap) app" where
  "docs_app =
     \<lparr>ap_shared = empty_shared\<lparr>sh_config :=
        \<lparr>cs_config = \<lparr>cc_connections = [sample_conn], cc_relationships = [docs_rel],
                      cc_settings = default_settings\<rparr>, cs_file = None\<rparr>\<rparr>,
      ap_running = [(''s1'', \<lparr>ru_name = ''docs'', ru_rel = docs_rel, ru_conn = sample_conn,
                              ru_interval = 60, ru_ended = False\<rparr>)]\<rparr>"

definition docs_env :: "((string, string) hmap, (string, json) hmap) app_env" where
  "docs_env =
     \<lparr>av_runner = runner_on sample_pull_env, av_config = sample_config_env\<lparr>ce_serialize := (\<lambda>c. Inr ''yaml'')\<rparr>, av_paths = sample_paths,
      av_now = 50, av_uuid = ''u9'', av_locked = (\<lambda>i. False)\<rparr>"

definition move_request :: update_relationship_request where
  "move_request =
     \<lparr>ux_name = None, ux_remote_path = Some ''new'', ux_local_path = None, ux_direction = None,
      ux_filter = None, ux_delete_propagation = None, ux_enabled = None\<rparr>"

lemma root_change_queues_migration_witness:
  "map_option pm_new_remote_path (get_path_migration mem_engine ''s1''
     (sh_store (ap_shared (fst (update_relationship docs_env ''s1'' move_request docs_app))))) = Some ''/new/''"
proof -
  let ?run = "update_relationship docs_env ''s1'' move_request docs_app"
  have ok: "case snd ?run of Inl _ \<Rightarrow> False
      | Inr r \<Rightarrow> sr_direction r \<noteq> PullOnly \<and> sr_enabled r \<and> sr_remote_path r = ''/new/''"
    by code_simp
  obtain a' r where p: "?run = (a', r)" by (rule prod.exhaust)
  with ok obtain updated where "r = Inr updated" by (cases r) simp_all
  with p have run: "?run = (a', Inr updated)" by simp
  have en: "rn_engine (av_runner docs_env) = mem_engine" by (simp add: docs_env_def runner_on_def)
  have rel: "relationship_get ''s1'' (ap_config docs_app) = Some docs_rel" by code_simp
  have conn: "connection_get (sr_remote_connection_id docs_rel) (ap_config docs_app) = Some sample_conn"
    by code_simp
  have change: "paths_change move_request docs_rel" by code_simp
  have id: "rel_ok ''s1''" "i64_ok (av_now docs_env)" "sr_id docs_rel = ''s1''"
    by (simp_all add: rel_ok_def i64_ok_def docs_env_def docs_rel_def sample_pull_rel_def)
  from ok run have upd: "sr_direction updated \<noteq> PullOnly" "sr_enabled updated" "sr_remote_path updated = ''/new/''"
    by simp_all
  from root_change_queues_migration [where env = docs_env and files = hget, unfolded en,
      OF mem_engine_ok id(1,2) rel change run upd(1,2) id(3) conn]
  show ?thesis using run upd(3) by simp
qed

text \<open>A start the runner refuses is the client's mistake (HTTP 400), whatever the reason; it is never
  reported as an error of the server.\<close>

theorem refused_start_is_bad_request:
  "case snd (start_sync i a) of Inr _ \<Rightarrow> True | Inl error \<Rightarrow> (\<exists>m. error = BadRequest m)"
proof -
  have c: "contains (x @ p @ y) p" for x p y
    by (rule contains_append) (simp add: contains_iff)
  have "contains (''configuration error: sync '' @ ''already running'' @ '' for relationship '' @ i) ''already running''"
    "contains (''configuration error: sync relationship '' @ ''not found'' @ '': '' @ i) ''not found''"
    by (rule c)+
  moreover have "contains ((''configuration error: sync relationship '' @ quoted n @ '' is '') @ ''disabled'' @ []) ''disabled''" for n
    by (rule c)
  moreover have "contains (''configuration error: connection '' @ ''not found'' @ '': '' @ j) ''not found''" for j
    by (rule c)
  ultimately show ?thesis
    by (auto simp: start_sync_def runner_start_def Let_def split: option.split)
qed

section \<open>What is left running\<close>

text \<open>Neither a deletion nor a change that keeps both roots touches the loops: a deleted relationship, and
  one that an update disables, keep theirs until a timer notices.\<close>

lemma delete_keeps_loops: "ap_running (fst (delete_relationship env i a)) = ap_running a"
  by (simp add: delete_relationship_def split: prod.split)

lemma update_keeps_loops:
  "relationship_get i (ap_config a) = Some existing \<Longrightarrow> \<not> paths_change q existing \<Longrightarrow>
    ap_running (fst (update_relationship env i q a)) = ap_running a"
  by (auto simp: update_relationship_def Let_def split: prod.split sum.split option.split)

text \<open>A loop that ended by itself stays in the map, and blocks the next start.\<close>

lemma ended_loop_blocks_start:
  "is_running i running \<Longrightarrow>
    runner_start i s (loop_ended i running) =
      (loop_ended i running, Inl (Configuration (''sync already running for relationship '' @ i)))"
  by (auto simp: is_running_def loop_ended_def runner_start_def)

text \<open>A loop that noticed its relationship was disabled and ended is not started again: enabling the
  relationship answers success, but leaves the ended entry, and no loop runs until it is stopped
  by hand.\<close>

theorem enabling_does_not_restart_ended_loop:
  "let a1 = fst (update_relationship docs_env ''s1'' (enabled_request False) docs_app);
       a2 = a1\<lparr>ap_running := loop_ended ''s1'' (ap_running a1)\<rparr>;
       (a3, r) = enable_relationship docs_env ''s1'' a2
   in on_event (av_runner docs_env) SafetyNet
        (ap_shared a1, \<lparr>ls_rel = docs_rel, ls_conn = sample_conn, ls_retry = initial_retry 0\<rparr>) = None \<and>
      is_ok r \<and> map_option sr_enabled (relationship_get ''s1'' (ap_config a3)) = Some True \<and>
      map_option ru_ended (hget (ap_running a3) ''s1'') = Some True"
  by code_simp

end
