(* ===== verification/Sync_Guards.thy ===== *)
theory Sync_Guards
  imports Prelude Machines
begin

text \<open>
  The execution guards of \<open>sync/runner.rs\<close>: one mutex per relationship, made on first use and kept.
  Every sync of a relationship, of its loop or of a request, holds its guard while it runs.  A
  loop waits for the guard, a request gives up when it is taken (\<open>try_lock\<close>), and a task that is
  stopped drops what it holds.  The tasks interleave in any order.
\<close>

section \<open>The machine\<close>

datatype task_pc = Out | Waiting string nat | Executing string nat

record guard_state =
  gu_guards :: "(string, nat) hmap"
  gu_next :: nat
  gu_owner :: "nat \<Rightarrow> nat option"
  gu_pc :: "nat \<Rightarrow> task_pc"

definition get_execution_guard :: "string \<Rightarrow> guard_state \<Rightarrow> guard_state \<times> nat" where
  "get_execution_guard rel g =
     (case hget (gu_guards g) rel of
        Some m \<Rightarrow> (g, m)
      | None \<Rightarrow>
          (g\<lparr>gu_guards := hinsert rel (gu_next g) (gu_guards g), gu_next := gu_next g + 1\<rparr>, gu_next g))"

definition set_pc :: "nat \<Rightarrow> task_pc \<Rightarrow> guard_state \<Rightarrow> guard_state" where
  "set_pc t pc g = g\<lparr>gu_pc := (gu_pc g)(t := pc)\<rparr>"

definition set_owner :: "nat \<Rightarrow> nat option \<Rightarrow> guard_state \<Rightarrow> guard_state" where
  "set_owner m t g = g\<lparr>gu_owner := (gu_owner g)(m := t)\<rparr>"

definition start_guards :: guard_state where
  "start_guards = \<lparr>gu_guards = [], gu_next = 0, gu_owner = (\<lambda>m. None), gu_pc = (\<lambda>t. Out)\<rparr>"

inductive guard_step :: "guard_state \<Rightarrow> guard_state \<Rightarrow> bool" where
  fetch: "gu_pc g t = Out \<Longrightarrow> get_execution_guard rel g = (g', m) \<Longrightarrow>
    guard_step g (set_pc t (Waiting rel m) g')"
| acquire: "gu_pc g t = Waiting rel m \<Longrightarrow> gu_owner g m = None \<Longrightarrow>
    guard_step g (set_pc t (Executing rel m) (set_owner m (Some t) g))"
| refuse: "gu_pc g t = Waiting rel m \<Longrightarrow> gu_owner g m \<noteq> None \<Longrightarrow> guard_step g (set_pc t Out g)"
| stop_waiting: "gu_pc g t = Waiting rel m \<Longrightarrow> guard_step g (set_pc t Out g)"
| release: "gu_pc g t = Executing rel m \<Longrightarrow> guard_step g (set_pc t Out (set_owner m None g))"

inductive_cases guard_stepE: "guard_step g g'"

abbreviation guard_run :: "guard_state \<Rightarrow> guard_state \<Rightarrow> bool" where
  "guard_run \<equiv> guard_step\<^sup>*\<^sup>*"

section \<open>The invariant\<close>

text \<open>A task waits for, or holds, the mutex of its relationship; the owner of a mutex is the task that
  executes under it; mutexes are not shared.\<close>

fun pc_mutex :: "task_pc \<Rightarrow> (string \<times> nat) option" where
  "pc_mutex Out = None"
| "pc_mutex (Waiting rel m) = Some (rel, m)"
| "pc_mutex (Executing rel m) = Some (rel, m)"

definition guards_inv :: "guard_state \<Rightarrow> bool" where
  "guards_inv g \<longleftrightarrow>
     (\<forall>r m. hget (gu_guards g) r = Some m \<longrightarrow> m < gu_next g) \<and>
     (\<forall>r r' m. hget (gu_guards g) r = Some m \<longrightarrow> hget (gu_guards g) r' = Some m \<longrightarrow> r = r') \<and>
     (\<forall>t r m. pc_mutex (gu_pc g t) = Some (r, m) \<longrightarrow> hget (gu_guards g) r = Some m) \<and>
     (\<forall>t m. gu_owner g m = Some t \<longleftrightarrow> (\<exists>r. gu_pc g t = Executing r m))"

lemma guards_invD:
  assumes "guards_inv g"
  shows "hget (gu_guards g) r = Some m \<Longrightarrow> m < gu_next g"
    and "hget (gu_guards g) r = Some m \<Longrightarrow> hget (gu_guards g) r' = Some m \<Longrightarrow> r = r'"
    and "gu_pc g t = Waiting r m \<Longrightarrow> hget (gu_guards g) r = Some m"
    and "gu_pc g t = Executing r m \<Longrightarrow> hget (gu_guards g) r = Some m"
    and "gu_owner g m = Some t \<longleftrightarrow> (\<exists>r. gu_pc g t = Executing r m)"
  using assms unfolding guards_inv_def by (metis pc_mutex.simps)+

lemma inv_get:
  assumes "guards_inv g" "get_execution_guard rel g = (g', m)"
  shows "guards_inv g'" and "hget (gu_guards g') rel = Some m" and "gu_pc g' = gu_pc g"
    and "gu_owner g' = gu_owner g"
proof -
  have fresh: "hget (gu_guards g) r \<noteq> Some (gu_next g)" for r
    using guards_invD(1) [OF assms(1), of r "gu_next g"] by auto
  show "guards_inv g'"
    using assms fresh
    by (auto simp: get_execution_guard_def guards_inv_def less_Suc_eq split: option.splits if_splits)
  show "hget (gu_guards g') rel = Some m" "gu_pc g' = gu_pc g" "gu_owner g' = gu_owner g"
    using assms(2) by (auto simp: get_execution_guard_def split: option.splits)
qed

lemma inv_pc:
  assumes "guards_inv g" "\<And>r m. gu_pc g t \<noteq> Executing r m" "\<And>r m. pc \<noteq> Executing r m"
    and "\<And>r m. pc_mutex pc = Some (r, m) \<Longrightarrow> hget (gu_guards g) r = Some m"
  shows "guards_inv (set_pc t pc g)"
  using assms unfolding guards_inv_def set_pc_def by (simp split: if_split)

lemma inv_acquire:
  assumes "guards_inv g" "gu_pc g t = Waiting rel m" "gu_owner g m = None"
  shows "guards_inv (set_pc t (Executing rel m) (set_owner m (Some t) g))"
proof -
  have none: "gu_pc g u \<noteq> Executing r m" for u r
    using guards_invD(5) [OF assms(1), of m u] assms(3) by auto
  show ?thesis
    using assms(1,2) none guards_invD(3) [OF assms(1,2)]
    unfolding guards_inv_def set_pc_def set_owner_def by auto
qed

lemma inv_release:
  assumes "guards_inv g" "gu_pc g t = Executing rel m"
  shows "guards_inv (set_pc t Out (set_owner m None g))"
proof -
  have only: "gu_pc g u = Executing r m \<Longrightarrow> u = t" for u r
    using guards_invD(5) [OF assms(1), of m] assms(2) by (metis option.inject)
  have owner: "((gu_owner g)(m := None)) k = Some u \<longleftrightarrow> (\<exists>r. ((gu_pc g)(t := Out)) u = Executing r k)" for k u
  proof (cases "k = m")
    case True
    then show ?thesis using only by auto
  next
    case False
    then show ?thesis
      by (cases "u = t") (simp_all add: guards_invD(5) [OF assms(1)] assms(2))
  qed
  have "pc_mutex (((gu_pc g)(t := Out)) u) = Some (r, k) \<Longrightarrow> hget (gu_guards g) r = Some k" for u r k
    using assms(1) by (simp add: guards_inv_def split: if_splits)
  with owner assms(1) show ?thesis
    unfolding guards_inv_def set_pc_def set_owner_def by simp
qed

lemma guard_inv_step: "guard_step g g' \<Longrightarrow> guards_inv g \<Longrightarrow> guards_inv g'"
proof (elim guard_stepE)
  fix t rel h m
  assume i: "guards_inv g" and g': "g' = set_pc t (Waiting rel m) h" and "gu_pc g t = Out"
    and get: "get_execution_guard rel g = (h, m)"
  then show "guards_inv g'"
    unfolding g' using inv_get [OF i get] by (intro inv_pc) auto
qed (auto intro: inv_acquire inv_release inv_pc)

lemma guard_inv_start: "guards_inv start_guards"
  by (simp add: guards_inv_def start_guards_def)

interpretation guards: step_machine guard_step guards_inv
  by unfold_locales (rule guard_inv_step)

section \<open>Properties\<close>

text \<open>C22. However loops, requests and stops interleave, two tasks never sync one relationship at the same
  time.\<close>

theorem one_sync_per_relationship:
  assumes "guard_run start_guards g" "gu_pc g t = Executing rel m" "gu_pc g u = Executing rel m'"
  shows "t = u"
proof -
  have i: "guards_inv g" by (rule guards.inv_run [OF assms(1) guard_inv_start])
  have "m = m'" using guards_invD(4) [OF i assms(2)] guards_invD(4) [OF i assms(3)] by simp
  with guards_invD(5) [OF i, of m] assms(2,3) show ?thesis by (metis option.inject)
qed

text \<open>Task 0 syncs, task 1 waits for the same relationship.\<close>

definition busy :: guard_state where
  "busy = set_pc 1 (Waiting ''r'' 0) (set_pc 0 (Executing ''r'' 0) (set_owner 0 (Some 0)
     (set_pc 0 (Waiting ''r'' 0) (fst (get_execution_guard ''r'' start_guards)))))"

lemma busy_run: "guard_run start_guards busy"
proof -
  let ?g1 = "set_pc 0 (Waiting ''r'' 0) (fst (get_execution_guard ''r'' start_guards))"
  let ?g2 = "set_pc 0 (Executing ''r'' 0) (set_owner 0 (Some 0) ?g1)"
  have 1: "guard_step start_guards ?g1"
    by (rule guard_step.fetch) (simp_all add: start_guards_def get_execution_guard_def)
  have 2: "guard_step ?g1 ?g2"
    by (rule guard_step.acquire) (simp_all add: set_pc_def start_guards_def get_execution_guard_def)
  have 3: "guard_step ?g2 busy"
    unfolding busy_def by (rule guard_step.fetch)
      (simp_all add: set_pc_def set_owner_def start_guards_def get_execution_guard_def)
  from 1 2 3 show ?thesis by (meson rtranclp.rtrancl_into_rtrancl r_into_rtranclp)
qed

lemma busy_executing: "gu_pc busy 0 = Executing ''r'' 0"
  by (simp add: busy_def set_pc_def)

lemma one_sync_per_relationship_witness: "{u. \<exists>m. gu_pc busy u = Executing ''r'' m} = {0}"
  using one_sync_per_relationship [OF busy_run _ busy_executing] busy_executing by auto

text \<open>The guards never block for nothing: a task that waits for a relationship no task is syncing can
  go on, whatever the syncs of other relationships do.\<close>

theorem waiting_task_can_go_on:
  assumes "guard_run start_guards g" "gu_pc g t = Waiting rel m"
    and "\<forall>u m'. gu_pc g u \<noteq> Executing rel m'"
  shows "guard_step g (set_pc t (Executing rel m) (set_owner m (Some t) g))"
proof (rule guard_step.acquire [OF assms(2)])
  have i: "guards_inv g" by (rule guards.inv_run [OF assms(1) guard_inv_start])
  show "gu_owner g m = None"
  proof (rule ccontr)
    assume "gu_owner g m \<noteq> None"
    then obtain u r where u: "gu_pc g u = Executing r m"
      using guards_invD(5) [OF i] by blast
    have "r = rel"
      by (rule guards_invD(2) [OF i guards_invD(4) [OF i u] guards_invD(3) [OF i assms(2)]])
    with u assms(3) show False by blast
  qed
qed

text \<open>The first task has finished, the other still waits.\<close>

definition freed :: guard_state where
  "freed = set_pc 0 Out (set_owner 0 None busy)"

lemma freed_run: "guard_run start_guards freed"
  unfolding freed_def by (rule rtranclp.rtrancl_into_rtrancl [OF busy_run guard_step.release [OF busy_executing]])

lemma waiting_task_can_go_on_witness:
  "guard_step freed (set_pc 1 (Executing ''r'' 0) (set_owner 0 (Some 1) freed))"
proof (rule waiting_task_can_go_on [OF freed_run])
  show "gu_pc freed 1 = Waiting ''r'' 0"
    by (simp add: freed_def busy_def set_pc_def set_owner_def)
  show "\<forall>u m'. gu_pc freed u \<noteq> Executing ''r'' m'"
    by (simp add: freed_def busy_def set_pc_def set_owner_def start_guards_def get_execution_guard_def)
qed

end
