(* ===== verification/Sse.thy ===== *)
theory Sse
  imports Connections Json
begin

text \<open>
  \<open>sync/sse_listener.rs\<close>: the event stream of a server, cut into messages, and the reconnection
  loop.  A chunk of the stream is decoded on its own (\<open>from_utf8_lossy\<close>).  \<open>parse\<close> is
  \<open>serde_json::from_str\<close>.
\<close>

section \<open>Decoding\<close>

definition cont :: "char \<Rightarrow> bool" where
  "cont c \<longleftrightarrow> 128 \<le> byte c \<and> byte c < 192"

text \<open>The range of the second byte after a lead byte of a three- or four-byte sequence.\<close>

definition second_ok :: "nat \<Rightarrow> char \<Rightarrow> bool" where
  "second_ok lead c \<longleftrightarrow> cont c \<and>
     (lead = 0xE0 \<longrightarrow> 0xA0 \<le> byte c) \<and> (lead = 0xED \<longrightarrow> byte c < 0xA0) \<and>
     (lead = 0xF0 \<longrightarrow> 0x90 \<le> byte c) \<and> (lead = 0xF4 \<longrightarrow> byte c < 0x90)"

text \<open>The length of the longest prefix that is, or could start, a sequence, and whether it is a whole
  one.\<close>

fun utf8_head :: "string \<Rightarrow> nat \<times> bool" where
  "utf8_head [] = (0, False)"
| "utf8_head (a # s) =
     (if byte a < 128 then (1, True)
      else if 0xC2 \<le> byte a \<and> byte a \<le> 0xDF then
        (case s of b # _ \<Rightarrow> if cont b then (2, True) else (1, False) | [] \<Rightarrow> (1, False))
      else if 0xE0 \<le> byte a \<and> byte a \<le> 0xEF then
        (case s of
           b # c # _ \<Rightarrow> if second_ok (byte a) b then (if cont c then (3, True) else (2, False)) else (1, False)
         | [b] \<Rightarrow> if second_ok (byte a) b then (2, False) else (1, False)
         | [] \<Rightarrow> (1, False))
      else if 0xF0 \<le> byte a \<and> byte a \<le> 0xF4 then
        (case s of
           b # c # d # _ \<Rightarrow>
             if second_ok (byte a) b then
               (if cont c then (if cont d then (4, True) else (3, False)) else (2, False))
             else (1, False)
         | [b, c] \<Rightarrow>
             if second_ok (byte a) b then (if cont c then (3, False) else (2, False)) else (1, False)
         | [b] \<Rightarrow> if second_ok (byte a) b then (2, False) else (1, False)
         | [] \<Rightarrow> (1, False))
      else (1, False))"

lemma utf8_head_pos: "0 < fst (utf8_head (a # s))"
  by (auto split: list.splits)

declare utf8_head.simps [simp del]

lemma utf8_drop: "fst (utf8_head (a # s)) = n \<Longrightarrow> length (drop n (a # s)) < length (a # s)"
  using utf8_head_pos [of a s] by auto

definition replacement_char :: string where
  "replacement_char = [CHR 0xEF, CHR 0xBF, CHR 0xBD]"

function utf8_lossy :: "string \<Rightarrow> string" where
  "utf8_lossy [] = []"
| "utf8_lossy (a # s) =
     (case utf8_head (a # s) of
        (n, whole) \<Rightarrow>
          (if whole then take n (a # s) else replacement_char) @ utf8_lossy (drop n (a # s)))"
  by pat_completeness auto
termination
proof (relation "measure length", goal_cases)
  case (2 a s n whole)
  from utf8_drop [of a s n] 2 show ?case by (simp add: prod_eq_iff)
qed simp

declare utf8_lossy.simps(2) [simp del]

section \<open>Messages\<close>

text \<open>\<open>str::lines\<close>: a carriage return is dropped only together with its newline.\<close>

definition drop_cr :: "string \<Rightarrow> string" where
  "drop_cr l = (if ends_with l [CHR 0x0D] then butlast l else l)"

definition str_lines :: "string \<Rightarrow> string list" where
  "str_lines s =
     (let parts = split_on (CHR 0x0A) s
      in map drop_cr (butlast parts) @ (if last parts = [] then [] else [last parts]))"

record remote_change =
  rch_event_type :: string
  rch_path :: string

text \<open>The fields of \<open>RemoteEvent\<close>; its payload is all that is used.\<close>

definition payload_of_event :: "json \<Rightarrow> json option" where
  "payload_of_event j =
     (case (field as_str j ''event_id'', field as_str j ''event_type'', field as_i64 j ''timestamp'') of
        (Some _, Some _, Some _) \<Rightarrow> jget j ''payload''
      | _ \<Rightarrow> None)"

definition last_field :: "string \<Rightarrow> string list \<Rightarrow> string option" where
  "last_field name ls = fold (\<lambda>l v. case strip_prefix l name of Some x \<Rightarrow> Some (trim x) | None \<Rightarrow> v) ls None"

definition path_matches :: "string list \<Rightarrow> string \<Rightarrow> bool" where
  "path_matches bases path \<longleftrightarrow> bases = [] \<or> list_ex (\<lambda>p. starts_with path p) bases"

definition entry_paths :: "json \<Rightarrow> string list" where
  "entry_paths payload =
     (case Option.bind (jget payload ''entries'') as_array of
        Some entries \<Rightarrow> List.map_filter (\<lambda>entry. field as_str entry ''path'') entries
      | None \<Rightarrow> [])"

definition parse_sse_message ::
  "(string \<Rightarrow> json option) \<Rightarrow> string list \<Rightarrow> string \<Rightarrow> remote_change list option" where
  "parse_sse_message parse bases message =
     (let ls = str_lines message
      in case (last_field ''event: '' ls, last_field ''data: '' ls) of
           (Some ty, Some data) \<Rightarrow>
             (case Option.bind (parse data) payload_of_event of
                None \<Rightarrow> None
              | Some payload \<Rightarrow>
                  (let changes = map (\<lambda>p. \<lparr>rch_event_type = ty, rch_path = p\<rparr>)
                         (filter (path_matches bases) (entry_paths payload))
                   in if changes = [] then None else Some changes))
         | _ \<Rightarrow> None)"

text \<open>The buffer: messages end at the first two newlines.\<close>

fun split_boundary :: "string \<Rightarrow> (string \<times> string) option" where
  "split_boundary (a # b # s) =
     (if a = CHR 0x0A \<and> b = CHR 0x0A then Some ([], s)
      else map_option (\<lambda>(m, r). (a # m, r)) (split_boundary (b # s)))"
| "split_boundary s = None"

lemma split_boundary_shorter: "split_boundary s = Some (m, r) \<Longrightarrow> length r < length s"
  by (induction s arbitrary: m rule: split_boundary.induct) (auto split: if_splits)

function drain :: "string \<Rightarrow> string list \<times> string" where
  "drain buffer =
     (case split_boundary buffer of
        None \<Rightarrow> ([], buffer)
      | Some (m, rest) \<Rightarrow> (case drain rest of (ms, left) \<Rightarrow> (m # ms, left)))"
  by pat_completeness auto
termination
  by (relation "measure length") (auto dest: split_boundary_shorter)

declare drain.simps [simp del]

definition feed :: "string \<Rightarrow> string \<Rightarrow> string list \<times> string" where
  "feed buffer chunk = drain (buffer @ utf8_lossy chunk)"

fun feed_all :: "string \<Rightarrow> string list \<Rightarrow> string list \<times> string" where
  "feed_all buffer [] = ([], buffer)"
| "feed_all buffer (c # cs) =
     (case feed buffer c of (ms, rest) \<Rightarrow>
       (case feed_all rest cs of (ms', rest') \<Rightarrow> (ms @ ms', rest')))"

section \<open>The connection\<close>

definition sse_url :: "remote_connection \<Rightarrow> string list \<Rightarrow> string" where
  "sse_url connection bases =
     (let url = base_url connection @ ''/system/events?events=entries_created,entries_deleted''
      in case bases of [p] \<Rightarrow> url @ ''&path_prefix='' @ p | _ \<Rightarrow> url)"

definition sse_authorization :: "remote_connection \<Rightarrow> string option" where
  "sse_authorization connection =
     (if rc_auth_type connection = ApiKey
      then map_option (\<lambda>key. ''Bearer '' @ key) (rc_api_key connection) else None)"

text \<open>What the server answers to the request: a transport error, or the status (as its text and as a
  number) and the stream, whose chunks may end with an error.\<close>

datatype sse_answer = Sse_Failed string | Sse_Status nat string "string list" "string option"

text \<open>\<open>room\<close>: how many changes the receiver takes before it is dropped, None for any number.  The
  result is what was sent and how the function returned.\<close>

definition send_changes :: "nat option \<Rightarrow> remote_change list \<Rightarrow> remote_change list \<times> bool" where
  "send_changes room changes =
     (case room of
        None \<Rightarrow> (changes, True)
      | Some n \<Rightarrow> (take n changes, length changes \<le> n))"

definition connect_and_listen ::
  "(string \<Rightarrow> json option) \<Rightarrow> (string \<Rightarrow> string option \<Rightarrow> sse_answer) \<Rightarrow> remote_connection \<Rightarrow>
     string list \<Rightarrow> nat option \<Rightarrow> remote_change list \<times> unit res" where
  "connect_and_listen parse answer connection bases room =
     (case answer (sse_url connection bases) (sse_authorization connection) of
        Sse_Failed error \<Rightarrow> ([], Inl (Server (''SSE connect failed: '' @ error)))
      | Sse_Status code text chunks fault \<Rightarrow>
          if \<not> (200 \<le> code \<and> code < 300) then ([], Inl (Server (''SSE returned HTTP '' @ text)))
          else
            let changes = concat (map (\<lambda>m. case parse_sse_message parse bases m of
                                            Some cs \<Rightarrow> cs | None \<Rightarrow> [])
                            (fst (feed_all [] chunks)))
            in case send_changes room changes of
                 (sent, False) \<Rightarrow> (sent, Inr ())
               | (sent, True) \<Rightarrow>
                   (sent, case fault of None \<Rightarrow> Inr () | Some e \<Rightarrow> Inl (Server (''SSE read error: '' @ e))))"

text \<open>The reconnection loop never ends; its state after an attempt is the next pause in seconds and the
  number of failures in a row, and the pause taken is the first component.\<close>

definition listener_step :: "bool \<Rightarrow> nat \<times> nat \<Rightarrow> nat \<times> (nat \<times> nat)" where
  "listener_step ok s =
     (case s of (backoff, failures) \<Rightarrow>
        let (backoff, failures) = (if ok then (1, 0) else (backoff, failures + 1))
        in (backoff, (min (backoff * 2) 60, failures)))"

fun listener_pauses :: "bool list \<Rightarrow> nat \<times> nat \<Rightarrow> nat list" where
  "listener_pauses [] s = []"
| "listener_pauses (ok # oks) s =
     (case listener_step ok s of (pause, s') \<Rightarrow> pause # listener_pauses oks s')"

section \<open>Lemmas\<close>

lemma utf8_lossy_ascii: "\<forall>c\<in>set s. byte c < 128 \<Longrightarrow> utf8_lossy s = s"
  by (induction s) (simp_all add: utf8_lossy.simps(2) utf8_head.simps)

lemma split_boundary_append:
  "split_boundary s = Some (m, r) \<Longrightarrow> split_boundary (s @ t) = Some (m, r @ t)"
  by (induction s arbitrary: m rule: split_boundary.induct) (auto split: if_splits)

lemma drain_append:
  "drain (s @ t) = (case drain s of (ms, r) \<Rightarrow> (case drain (r @ t) of (ms', r') \<Rightarrow> (ms @ ms', r')))"
proof (induction s rule: drain.induct)
  case (1 s)
  show ?case
  proof (cases "split_boundary s")
    case None
    then show ?thesis by (simp add: drain.simps [of s] split: prod.splits)
  next
    case (Some p)
    then obtain m r where p: "split_boundary s = Some (m, r)" by (cases p) auto
    show ?thesis
      using 1 [OF p refl] split_boundary_append [OF p, of t] p
      by (subst drain.simps) (simp add: drain.simps [of s] split: prod.splits)
  qed
qed

lemma drain_rest: "drain s = (ms, r) \<Longrightarrow> split_boundary r = None"
proof (induction s arbitrary: ms rule: drain.induct)
  case (1 s)
  then show ?case
    by (cases "split_boundary s") (auto simp: drain.simps [of s] split: prod.splits)
qed

lemma feed_all_ascii:
  "\<forall>c\<in>set cs. \<forall>x\<in>set c. byte x < 128 \<Longrightarrow> split_boundary buffer = None \<Longrightarrow>
    feed_all buffer cs = drain (buffer @ concat cs)"
proof (induction cs arbitrary: buffer)
  case Nil
  then show ?case by (simp add: drain.simps)
next
  case (Cons c cs)
  obtain ms rest where d: "drain (buffer @ c) = (ms, rest)" by force
  from Cons d drain_rest [OF d] show ?case
    using drain_append [of "buffer @ c" "concat cs"]
    by (auto simp: feed_def utf8_lossy_ascii split: prod.splits)
qed

text \<open>The pause before a reconnection: after the \<open>k\<close>-th failure in a row it is \<open>2 ^ k\<close> seconds, up to a
  minute.\<close>

lemma pauses_failing:
  "1 \<le> b \<Longrightarrow> b \<le> 60 \<Longrightarrow> k < n \<Longrightarrow>
    listener_pauses (replicate n False) (b, f) ! k = min (b * 2 ^ k) 60"
proof (induction n arbitrary: b f k)
  case (Suc n)
  show ?case
  proof (cases k)
    case 0
    with Suc.prems show ?thesis by (simp add: listener_step_def)
  next
    case (Suc j)
    have "listener_pauses (replicate n False) (min (b * 2) 60, f + 1) ! j = min (min (b * 2) 60 * 2 ^ j) 60"
      using Suc.prems Suc by (intro Suc.IH) auto
    also have "\<dots> = min (b * 2 ^ k) 60"
      using Suc by (simp only: capped_double)
    finally show ?thesis using Suc by (simp add: listener_step_def)
  qed
qed simp

lemma pauses_bounded:
  "1 \<le> fst s \<Longrightarrow> fst s \<le> 60 \<Longrightarrow> list_all (\<lambda>p. 1 \<le> p \<and> p \<le> 60) (listener_pauses oks s)"
  by (induction oks arbitrary: s) (auto simp: listener_step_def split: prod.splits)

section \<open>Properties\<close>

text \<open>C28. How the network cuts an ASCII stream into chunks does not matter: the messages found, and what
  is left in the buffer, are those of the whole stream.\<close>

theorem sse_messages_any_chunks:
  assumes "\<forall>c\<in>set cs. \<forall>x\<in>set c. byte x < 128"
  shows "feed_all [] cs = drain (concat cs)"
  using feed_all_ascii [OF assms, of "[]"] by simp

lemma sse_messages_any_chunks_witness:
  "feed_all [] [''event: a'' @ [CHR 0x0A], CHR 0x0A # ''dat'', ''a: b''] = ([''event: a''], ''data: b'')"
proof -
  have "feed_all [] [''event: a'' @ [CHR 0x0A], CHR 0x0A # ''dat'', ''a: b''] =
      drain (concat [''event: a'' @ [CHR 0x0A], CHR 0x0A # ''dat'', ''a: b''])"
    by (rule sse_messages_any_chunks) simp
  also have "\<dots> = ([''event: a''], ''data: b'')" by code_simp
  finally show ?thesis .
qed

text \<open>It does matter for other text: each chunk is decoded on its own, so a letter that lies across a
  cut arrives as two replacement characters.\<close>

theorem sse_cut_letter_is_lost:
  "utf8_lossy [CHR 0xC3, CHR 0xA9] = [CHR 0xC3, CHR 0xA9] \<and>
   feed_all [] [''/caf'' @ [CHR 0xC3], CHR 0xA9 # [CHR 0x0A, CHR 0x0A]] =
     ([''/caf'' @ replacement_char @ replacement_char], [])"
  by code_simp

end
