(* ===== verification/Http.thy ===== *)
theory Http
  imports Prelude
begin

text \<open>
  What the handlers of the local API see of a request and give as an answer that is not plain
  JSON: the text of a header, and a response of status, headers and body.
\<close>

text \<open>\<open>HeaderValue::to_str\<close> accepts visible ASCII and the tab.\<close>

definition header_to_str :: "string \<Rightarrow> string option" where
  "header_to_str h =
     (if list_all (\<lambda>c. (32 \<le> byte c \<and> byte c < 127) \<or> byte c = 9) h then Some h else None)"

record web_response =
  wr_status :: nat
  wr_headers :: "(string \<times> string) list"
  wr_body :: string

end
