(* ===== verification/Preferences.thy ===== *)
theory Preferences
  imports Json Paths Client_Error Http
begin

text \<open>
  \<open>preferences.rs\<close> and \<open>api/routes/preferences.rs\<close>: what the interface remembers on the user's
  behalf, kept in memory and in a YAML file, and changed by merge patches.  The file system and
  \<open>serde_yaml\<close> are the fields of \<open>prefs_env\<close>; the merge patch itself is in Json.
\<close>

record file_browser_tab =
  tb_id :: string
  tb_name :: "string option"
  tb_path :: "string option"
  tb_view_mode :: "string option"
  tb_page_size :: "int option"
  tb_preview_height :: "int option"
  tb_relationship_id :: "string option"
  tb_relationship_name :: "string option"

record file_browser_prefs =
  fb_open_default :: "string option"
  fb_show_hidden :: bool
  fb_tabs :: "file_browser_tab list"
  fb_active_tab_id :: "string option"
  fb_tab_counter :: int

record user_preferences =
  up_file_browser :: file_browser_prefs

definition default_file_browser :: file_browser_prefs where
  "default_file_browser =
     \<lparr>fb_open_default = None, fb_show_hidden = False, fb_tabs = [], fb_active_tab_id = None,
      fb_tab_counter = 0\<rparr>"

definition default_preferences :: user_preferences where
  "default_preferences = \<lparr>up_file_browser = default_file_browser\<rparr>"

section \<open>JSON\<close>

text \<open>The derived \<open>Serialize\<close>.\<close>

definition opt_str_json :: "string option \<Rightarrow> json" where
  "opt_str_json x = (case x of None \<Rightarrow> JNull | Some s \<Rightarrow> JStr s)"

definition opt_int_json :: "int option \<Rightarrow> json" where
  "opt_int_json x = (case x of None \<Rightarrow> JNull | Some i \<Rightarrow> JInt i)"

definition tab_to_json :: "file_browser_tab \<Rightarrow> json" where
  "tab_to_json t = JObj
     [(''id'', JStr (tb_id t)), (''name'', opt_str_json (tb_name t)),
      (''path'', opt_str_json (tb_path t)), (''view_mode'', opt_str_json (tb_view_mode t)),
      (''page_size'', opt_int_json (tb_page_size t)),
      (''preview_height'', opt_int_json (tb_preview_height t)),
      (''relationship_id'', opt_str_json (tb_relationship_id t)),
      (''relationship_name'', opt_str_json (tb_relationship_name t))]"

definition file_browser_to_json :: "file_browser_prefs \<Rightarrow> json" where
  "file_browser_to_json f = JObj
     [(''open_default'', opt_str_json (fb_open_default f)),
      (''show_hidden'', JBool (fb_show_hidden f)), (''tabs'', JArr (map tab_to_json (fb_tabs f))),
      (''active_tab_id'', opt_str_json (fb_active_tab_id f)),
      (''tab_counter'', JInt (fb_tab_counter f))]"

definition prefs_to_json :: "user_preferences \<Rightarrow> json" where
  "prefs_to_json p = JObj [(''file_browser'', file_browser_to_json (up_file_browser p))]"

definition tab_of_json :: "json \<Rightarrow> file_browser_tab option" where
  "tab_of_json v =
     (case struct_of_json [''id'', ''name'', ''path'', ''view_mode'', ''page_size'', ''preview_height'',
         ''relationship_id'', ''relationship_name''] v of
        None \<Rightarrow> None
      | Some j \<Rightarrow>
          (case (field as_str j ''id'', opt_field as_str j ''name'', opt_field as_str j ''path'',
                 opt_field as_str j ''view_mode'', opt_field as_i64 j ''page_size'',
                 opt_field as_i64 j ''preview_height'', opt_field as_str j ''relationship_id'',
                 opt_field as_str j ''relationship_name'') of
             (Some i, Some n, Some p, Some w, Some s, Some h, Some r, Some rn) \<Rightarrow>
               Some \<lparr>tb_id = i, tb_name = n, tb_path = p, tb_view_mode = w, tb_page_size = s,
                 tb_preview_height = h, tb_relationship_id = r, tb_relationship_name = rn\<rparr>
           | _ \<Rightarrow> None))"

definition tabs_of_json :: "json \<Rightarrow> file_browser_tab list option" where
  "tabs_of_json j = Option.bind (as_array j) (list_of_json tab_of_json)"

definition file_browser_of_json :: "json \<Rightarrow> file_browser_prefs option" where
  "file_browser_of_json v =
     (case struct_of_json [''open_default'', ''show_hidden'', ''tabs'', ''active_tab_id'',
         ''tab_counter''] v of
        None \<Rightarrow> None
      | Some j \<Rightarrow>
          (case (opt_field as_str j ''open_default'', default_field False as_bool j ''show_hidden'',
                 default_field [] tabs_of_json j ''tabs'', opt_field as_str j ''active_tab_id'',
                 default_field 0 as_i64 j ''tab_counter'') of
             (Some d, Some s, Some t, Some a, Some c) \<Rightarrow>
               Some \<lparr>fb_open_default = d, fb_show_hidden = s, fb_tabs = t, fb_active_tab_id = a,
                 fb_tab_counter = c\<rparr>
           | _ \<Rightarrow> None))"

definition prefs_of_json :: "json \<Rightarrow> user_preferences option" where
  "prefs_of_json v =
     (case struct_of_json [''file_browser''] v of
        None \<Rightarrow> None
      | Some j \<Rightarrow>
          map_option (\<lambda>f. \<lparr>up_file_browser = f\<rparr>)
            (default_field default_file_browser file_browser_of_json j ''file_browser''))"

section \<open>The store\<close>

text \<open>What the store asks of the system: the debug form of a path or text, the outcome of
  \<open>create_dir_all\<close>, of reading the file, of the YAML conversions and of the write (on failure, the
  message and what is left in the file), and the message of a failed \<open>serde_json::from_value\<close>.\<close>

record prefs_env =
  pe_dir :: string
  pe_debug :: "string \<Rightarrow> string"
  pe_mkdirs :: "string \<Rightarrow> string option"
  pe_read_error :: "string option"
  pe_parse :: "string \<Rightarrow> string + user_preferences"
  pe_serialize :: "user_preferences \<Rightarrow> string + string"
  pe_write_fails :: "string \<Rightarrow> (string \<times> string option) option"
  pe_value_error :: "json \<Rightarrow> string"
  pe_json :: "string \<Rightarrow> string + json"

record prefs_store =
  ps_prefs :: user_preferences
  ps_file :: "string option"

definition prefs_path :: "prefs_env \<Rightarrow> string" where
  "prefs_path e = path_join (pe_dir e) ''preferences.yaml''"

definition prefs_load :: "prefs_env \<Rightarrow> string option \<Rightarrow> prefs_store res" where
  "prefs_load e file =
     (case file of
        None \<Rightarrow> Inr \<lparr>ps_prefs = default_preferences, ps_file = file\<rparr>
      | Some contents \<Rightarrow>
          (case pe_read_error e of
             Some error \<Rightarrow>
               Inl (Configuration (''failed to read preferences at '' @ pe_debug e (prefs_path e) @
                 '': '' @ error))
           | None \<Rightarrow>
               if trim contents = [] then
                 Inr \<lparr>ps_prefs = default_preferences, ps_file = file\<rparr>
               else
                 (case pe_parse e contents of
                    Inl error \<Rightarrow>
                      Inl (Configuration (''failed to parse preferences at '' @
                        pe_debug e (prefs_path e) @ '': '' @ error))
                  | Inr p \<Rightarrow> Inr \<lparr>ps_prefs = p, ps_file = file\<rparr>)))"

definition prefs_get :: "prefs_store \<Rightarrow> user_preferences" where
  "prefs_get s = ps_prefs s"

definition prefs_save_inner ::
  "prefs_env \<Rightarrow> user_preferences \<Rightarrow> string option \<Rightarrow> string option \<times> unit res" where
  "prefs_save_inner e p file =
     (case (case path_parent (prefs_path e) of
              Some parent \<Rightarrow>
                map_option (\<lambda>error. ''failed to create preferences directory '' @
                    pe_debug e parent @ '': '' @ error) (pe_mkdirs e parent)
            | None \<Rightarrow> None) of
        Some message \<Rightarrow> (file, Inl (Configuration message))
      | None \<Rightarrow>
          (case pe_serialize e p of
             Inl error \<Rightarrow> (file, Inl (Configuration (''failed to serialize preferences: '' @ error)))
           | Inr yaml \<Rightarrow>
               (case pe_write_fails e yaml of
                  Some (error, left) \<Rightarrow>
                    (left, Inl (Configuration (''failed to write preferences to '' @
                       pe_debug e (prefs_path e) @ '': '' @ error)))
                | None \<Rightarrow> (Some yaml, Inr ()))))"

definition prefs_merge_patch ::
  "prefs_env \<Rightarrow> json \<Rightarrow> prefs_store \<Rightarrow> prefs_store \<times> user_preferences res" where
  "prefs_merge_patch e patch s =
     (let current = apply_merge_patch (prefs_to_json (ps_prefs s)) patch
      in case prefs_of_json current of
           None \<Rightarrow>
             (s, Inl (BadRequest (''preferences patch produced invalid state: '' @
                pe_value_error e current)))
         | Some merged \<Rightarrow>
             (case prefs_save_inner e merged (ps_file s) of
                (file, Inl error) \<Rightarrow> (s\<lparr>ps_file := file\<rparr>, Inl error)
              | (file, Inr _) \<Rightarrow> (\<lparr>ps_prefs = merged, ps_file = file\<rparr>, Inr merged)))"

section \<open>Routes\<close>

definition get_preferences :: "prefs_store \<Rightarrow> json" where
  "get_preferences s = prefs_to_json (prefs_get s)"

definition patch_preferences ::
  "prefs_env \<Rightarrow> string option \<Rightarrow> string \<Rightarrow> prefs_store \<Rightarrow> prefs_store \<times> user_preferences res" where
  "patch_preferences e header body s =
     (let content_type =
            (case Option.bind header header_to_str of Some t \<Rightarrow> t | None \<Rightarrow> [])
      in if \<not> starts_with content_type ''application/merge-patch+json'' then
           (s, Inl (BadRequest (''PATCH /preferences requires Content-Type: application/merge-patch+json (got ''
                @ pe_debug e content_type @ '')'')))
         else if body = [] then (s, Inr (prefs_get s))
         else
           (case pe_json e body of
              Inl error \<Rightarrow> (s, Inl (BadRequest (''preferences patch is not valid JSON: '' @ error)))
            | Inr patch \<Rightarrow> prefs_merge_patch e patch s))"

section \<open>Lemmas\<close>

definition opt_ok :: "int option \<Rightarrow> bool" where
  "opt_ok x = (case x of None \<Rightarrow> True | Some i \<Rightarrow> i64_ok i)"

definition tab_ok :: "file_browser_tab \<Rightarrow> bool" where
  "tab_ok t \<longleftrightarrow> opt_ok (tb_page_size t) \<and> opt_ok (tb_preview_height t)"

text \<open>The numbers of a preferences value are \<open>i64\<close>s.\<close>

definition prefs_ok :: "user_preferences \<Rightarrow> bool" where
  "prefs_ok p \<longleftrightarrow>
     i64_ok (fb_tab_counter (up_file_browser p)) \<and> list_all tab_ok (fb_tabs (up_file_browser p))"

lemma opt_str_field: "hget m k = Some (opt_str_json x) \<Longrightarrow> opt_field as_str (JObj m) k = Some x"
  by (cases x) (simp_all add: opt_field_def opt_str_json_def as_str_def)

lemma opt_int_field:
  "hget m k = Some (opt_int_json x) \<Longrightarrow> opt_ok x \<Longrightarrow> opt_field as_i64 (JObj m) k = Some x"
  by (cases x) (simp_all add: opt_field_def opt_int_json_def opt_ok_def as_i64_int)

interpretation tab: json_codec tab_to_json tab_of_json tab_ok
  by unfold_locales (simp add: tab_of_json_def tab_to_json_def struct_of_json_def tab_ok_def opt_str_field
      opt_int_field field_simps)

lemma tabs_round_trip: "list_all tab_ok ts \<Longrightarrow> list_of_json tab_of_json (map tab_to_json ts) = Some ts"
  by (rule tab.dec_list) (simp add: list_all_iff)

lemma file_browser_round_trip:
  "i64_ok (fb_tab_counter f) \<Longrightarrow> list_all tab_ok (fb_tabs f) \<Longrightarrow>
    file_browser_of_json (file_browser_to_json f) = Some f"
  by (simp add: file_browser_of_json_def file_browser_to_json_def struct_of_json_def opt_str_field
      default_field_def as_bool_def as_i64_int tabs_of_json_def as_array_def tabs_round_trip)

lemma prefs_round_trip: "prefs_ok p \<Longrightarrow> prefs_of_json (prefs_to_json p) = Some p"
  by (simp add: prefs_ok_def prefs_of_json_def prefs_to_json_def struct_of_json_def default_field_def
      file_browser_round_trip)

text \<open>What a patch makes of one field: a key the patch does not name keeps its value, null removes
  it, so that the default is taken, and another value replaces it.\<close>

definition patched_field :: "'a \<Rightarrow> 'a \<Rightarrow> (json \<Rightarrow> 'a option) \<Rightarrow> (string \<times> json) list \<Rightarrow> string \<Rightarrow> 'a option" where
  "patched_field old d conv ps k =
     (case hget ps k of None \<Rightarrow> Some old | Some v \<Rightarrow> if v = JNull then Some d else conv v)"

text \<open>No field of the preferences but the outer one is an object, so no patch value is an object
  here.\<close>

definition flat_patch :: "(string \<times> json) list \<Rightarrow> bool" where
  "flat_patch ps \<longleftrightarrow> distinct (map fst ps) \<and> list_all (\<lambda>p. as_object (snd p) = None) ps"

lemma rfc_merge_flat: "as_object v = None \<Longrightarrow> rfc_merge t v = v"
  by (cases v) (auto simp: as_object_def)

lemma merged_field:
  assumes "flat_patch ps"
  shows "hget (rfc_entries m ps) k =
    (case hget ps k of None \<Rightarrow> hget m k | Some v \<Rightarrow> if v = JNull then None else Some v)"
proof -
  have "as_object v = None" if "hget ps k = Some v" for v
    using assms that by (auto simp: flat_patch_def list_all_iff dest: map_of_SomeD)
  then show ?thesis
    using assms by (auto simp: flat_patch_def rfc_entries_get patched_def rfc_merge_flat split: option.splits)
qed

lemma merged_opt_field:
  assumes "flat_patch ps" "opt_field conv (JObj m) k = Some old"
  shows "opt_field conv (JObj (rfc_entries m ps)) k =
    patched_field old None (\<lambda>v. map_option Some (conv v)) ps k"
  using assms(2) by (auto simp: opt_field_def patched_field_def merged_field [OF assms(1)] split: option.splits)

lemma merged_default_field:
  assumes "flat_patch ps" "default_field d conv (JObj m) k = Some old"
  shows "default_field d conv (JObj (rfc_entries m ps)) k = patched_field old d conv ps k"
  using assms(2)
  by (auto simp: default_field_def patched_field_def merged_field [OF assms(1)] split: option.splits)

definition patched_file_browser ::
  "(string \<times> json) list \<Rightarrow> file_browser_prefs \<Rightarrow> file_browser_prefs option" where
  "patched_file_browser ps f =
     (case (patched_field (fb_open_default f) None (\<lambda>v. map_option Some (as_str v)) ps ''open_default'',
            patched_field (fb_show_hidden f) False as_bool ps ''show_hidden'',
            patched_field (fb_tabs f) [] tabs_of_json ps ''tabs'',
            patched_field (fb_active_tab_id f) None (\<lambda>v. map_option Some (as_str v)) ps ''active_tab_id'',
            patched_field (fb_tab_counter f) 0 as_i64 ps ''tab_counter'') of
        (Some d, Some s, Some t, Some a, Some c) \<Rightarrow>
          Some \<lparr>fb_open_default = d, fb_show_hidden = s, fb_tabs = t, fb_active_tab_id = a,
            fb_tab_counter = c\<rparr>
      | _ \<Rightarrow> None)"

lemma merged_file_browser:
  assumes "flat_patch ps" "i64_ok (fb_tab_counter f)" "list_all tab_ok (fb_tabs f)"
  shows "file_browser_of_json (apply_merge_patch (file_browser_to_json f) (JObj ps)) =
    patched_file_browser ps f"
proof -
  let ?m = "[(''open_default'', opt_str_json (fb_open_default f)),
      (''show_hidden'', JBool (fb_show_hidden f)), (''tabs'', JArr (map tab_to_json (fb_tabs f))),
      (''active_tab_id'', opt_str_json (fb_active_tab_id f)),
      (''tab_counter'', JInt (fb_tab_counter f))]"
  have "opt_field as_str (JObj ?m) ''open_default'' = Some (fb_open_default f)"
    "opt_field as_str (JObj ?m) ''active_tab_id'' = Some (fb_active_tab_id f)"
    by (simp_all add: opt_str_field)
  moreover have "default_field False as_bool (JObj ?m) ''show_hidden'' = Some (fb_show_hidden f)"
    "default_field [] tabs_of_json (JObj ?m) ''tabs'' = Some (fb_tabs f)"
    "default_field 0 as_i64 (JObj ?m) ''tab_counter'' = Some (fb_tab_counter f)"
    using assms by (simp_all add: default_field_def as_bool_def tabs_of_json_def as_array_def
        tabs_round_trip as_i64_int)
  ultimately show ?thesis
    by (simp only: file_browser_of_json_def file_browser_to_json_def apply_merge_patch_rfc
        rfc_merge.simps option.case json.case struct_of_json_def patched_file_browser_def
        merged_opt_field [OF assms(1)] merged_default_field [OF assms(1)])
qed

lemma merged_prefs:
  assumes "flat_patch ps" "prefs_ok p"
  shows "prefs_of_json (apply_merge_patch (prefs_to_json p) (JObj [(''file_browser'', JObj ps)])) =
    map_option (\<lambda>f. \<lparr>up_file_browser = f\<rparr>) (patched_file_browser ps (up_file_browser p))"
  using assms merged_file_browser [OF assms(1), of "up_file_browser p"]
  by (simp add: prefs_of_json_def prefs_to_json_def struct_of_json_def default_field_def prefs_ok_def)

text \<open>A patch that is answered with an error leaves the preferences in memory alone, and one that is
  answered with \<open>BadRequest\<close> leaves the file alone.\<close>

lemma prefs_save_not_bad_request:
  "prefs_save_inner e p file = (file', Inl error) \<Longrightarrow> \<exists>m. error = Configuration m"
  by (auto simp: prefs_save_inner_def split: option.splits sum.splits prod.splits)

lemma prefs_error_keeps_memory:
  assumes "prefs_merge_patch e patch s = (s', Inl error)"
  shows "ps_prefs s' = ps_prefs s \<and> ((\<exists>m. error = BadRequest m) \<longrightarrow> s' = s)"
  using assms
  by (auto simp: prefs_merge_patch_def Let_def dest!: prefs_save_not_bad_request
      split: option.splits sum.splits prod.splits)

lemma prefs_success_is_saved:
  assumes "prefs_merge_patch e patch s = (s', Inr p)"
  shows "ps_prefs s' = p \<and> (\<exists>yaml. pe_serialize e p = Inr yaml \<and> ps_file s' = Some yaml)"
  using assms
  by (auto simp: prefs_merge_patch_def prefs_save_inner_def Let_def split: option.splits sum.splits prod.splits)

section \<open>Properties\<close>


definition sample_prefs_env :: prefs_env where
  "sample_prefs_env =
     \<lparr>pe_dir = ''/home/u/.config/aeordb-client'', pe_debug = (\<lambda>p. p), pe_mkdirs = (\<lambda>d. None),
      pe_read_error = None, pe_parse = (\<lambda>t. Inr default_preferences),
      pe_serialize = (\<lambda>p. Inr ''yaml''), pe_write_fails = (\<lambda>t. None),
      pe_value_error = (\<lambda>j. ''invalid type''), pe_json = (\<lambda>t. Inl ''not JSON'')\<rparr>"

definition sample_prefs :: user_preferences where
  "sample_prefs = \<lparr>up_file_browser =
     \<lparr>fb_open_default = Some ''local'', fb_show_hidden = True, fb_tabs = [],
      fb_active_tab_id = Some ''tab-1'', fb_tab_counter = 7\<rparr>\<rparr>"


text \<open>The body \<open>[]\<close> is accepted as a patch and resets every preference: an array replaces the
  document, and a derived \<open>Deserialize\<close> reads the empty array as a struct of defaults.\<close>

lemma empty_array_resets_preferences:
  assumes "\<And>d. pe_mkdirs e d = None" "pe_serialize e default_preferences = Inr yaml"
    "pe_write_fails e yaml = None"
  shows "prefs_merge_patch e (JArr []) s =
    (\<lparr>ps_prefs = default_preferences, ps_file = Some yaml\<rparr>, Inr default_preferences)"
proof -
  have "prefs_of_json (JArr []) = Some default_preferences" by code_simp
  with assms show ?thesis
    by (simp add: prefs_merge_patch_def prefs_save_inner_def split: option.split)
qed

end
