(* ===== verification/Trust_Store.thy ===== *)
theory Trust_Store
  imports Prelude
begin

text \<open>
  \<open>security/sig.rs\<close>: the public keys that may sign an update.  The state is the registry of test
  keys, absent until the first one is registered; a key is its 32 bytes.
\<close>

definition aeor_public_key :: string where
  "aeor_public_key = map char_of
     [61::nat, 204, 211, 40, 2, 7, 235, 139, 202, 62, 67, 119, 108, 109, 239, 38,
      43, 81, 95, 99, 201, 122, 124, 104, 245, 126, 220, 91, 145, 54, 216, 28]"

definition aeor_public_keys :: "(string \<times> string) list" where
  "aeor_public_keys = [(''aeor-202605132323'', aeor_public_key)]"

type_synonym test_keys = "(string \<times> string) list option"

text \<open>A test key overwrites the one registered under its id.\<close>

fun set_test_key :: "string \<Rightarrow> string \<Rightarrow> (string \<times> string) list \<Rightarrow> (string \<times> string) list" where
  "set_test_key key_id key [] = [(key_id, key)]"
| "set_test_key key_id key (k # ks) =
     (if fst k = key_id then (fst k, key) # ks else k # set_test_key key_id key ks)"

definition register_test_key :: "string \<Rightarrow> string \<Rightarrow> test_keys \<Rightarrow> test_keys" where
  "register_test_key key_id key ts =
     Some (set_test_key key_id key (case ts of Some ks \<Rightarrow> ks | None \<Rightarrow> []))"

definition effective_trust_store :: "test_keys \<Rightarrow> (string \<times> string) list" where
  "effective_trust_store ts =
     filter (\<lambda>k. length (snd k) = 32) aeor_public_keys @
     (case ts of Some ks \<Rightarrow> ks | None \<Rightarrow> [])"

definition trusted_key :: "test_keys \<Rightarrow> string \<Rightarrow> string option" where
  "trusted_key ts key_id = map_option snd (find (\<lambda>k. fst k = key_id) (effective_trust_store ts))"

section \<open>Lemmas\<close>

lemma trusted_key_bundled: "trusted_key ts ''aeor-202605132323'' = Some aeor_public_key"
  by (simp add: trusted_key_def effective_trust_store_def aeor_public_keys_def aeor_public_key_def)

lemma trusted_key_production:
  "trusted_key None key_id = (if key_id = ''aeor-202605132323'' then Some aeor_public_key else None)"
  by (simp add: trusted_key_def effective_trust_store_def aeor_public_keys_def aeor_public_key_def)

lemma find_set_test_key:
  "find (\<lambda>k. fst k = i) (set_test_key key_id key ks) =
    (if i = key_id then Some (key_id, key) else find (\<lambda>k. fst k = i) ks)"
  by (induction ks) auto

text \<open>A registered key is trusted under its id, unless a bundled key has that id, and no other id
  is affected.\<close>

lemma trusted_key_registered:
  "trusted_key (register_test_key key_id key ts) i =
     (if i = key_id \<and> i \<noteq> ''aeor-202605132323'' then Some key else trusted_key ts i)"
  by (auto simp: trusted_key_def effective_trust_store_def register_test_key_def aeor_public_keys_def
      aeor_public_key_def find_set_test_key split: option.splits)

end
