(* ===== verification/Update.thy ===== *)
theory Update
  imports Connections Json Trust_Store
begin

text \<open>
  The self-update of \<open>update.rs\<close> and \<open>api/routes/update.rs\<close>: polling the version endpoint,
  authenticating the signed manifest, and applying an update.  Errors are the text an
  \<open>anyhow::Error\<close> displays (its outermost context).  The network, the file system, the process
  and the cryptography are the fields of \<open>update_env\<close>; the target operating system is the
  value of \<open>std::env::consts::OS\<close>, which the code's \<open>cfg!\<close> tests compare.
\<close>

section \<open>Environment and state\<close>

record version_response =
  vr_status :: nat
  vr_body :: "string + json"

text \<open>A download: the status with its display text, the announced length, the chunks received and
  the error that ends the body early, if any.\<close>

record download_response =
  dl_status :: nat
  dl_status_text :: string
  dl_content_length :: "nat option"
  dl_chunks :: "string list"
  dl_broken :: "string option"

datatype fs_op = CreateDirs string | CreateFile string | OpenFile string | ReadFile string |
  FlushFile string | StatFile string | ChmodFile string | RemoveFile string | SpawnShell

record update_env =
  uv_endpoint :: "string option"
  uv_os :: string
  uv_arch :: string
  uv_now :: timestamp
  uv_datetime :: "string \<Rightarrow> bool"
  uv_get :: "string \<Rightarrow> string + version_response"
  uv_download :: "string \<Rightarrow> string + download_response"
  uv_client_error :: "string option"
  uv_serde_error :: "json \<Rightarrow> string"
  uv_canonical :: "json \<Rightarrow> string + string"
  uv_base64 :: "string \<Rightarrow> string + string"
  uv_key_error :: "string \<Rightarrow> string option"
  uv_verify :: "string \<Rightarrow> string \<Rightarrow> string \<Rightarrow> bool"
  uv_sha256 :: "string \<Rightarrow> string"
  uv_exe :: "string + string"
  uv_temp_dir :: string
  uv_pid :: nat
  uv_fails :: "fs_op \<Rightarrow> string option"
  uv_write_fails :: "nat \<Rightarrow> (string \<times> nat) option"
  uv_due :: "nat \<Rightarrow> bool"

text \<open>\<open>ProgressEvent\<close>, and what a run changes: the files, their executable bit, the
  commands handed to a detached interpreter, the events sent and whether the process ended.\<close>

datatype progress_event =
    Downloading (pe_bytes: nat) (pe_total: nat)
  | Verifying
  | Staging
  | Complete
  | UpdateError string

record machine =
  mc_files :: "string \<Rightarrow> string option"
  mc_executable :: "string set"
  mc_spawned :: "(string list) list"
  mc_events :: "progress_event list"
  mc_exited :: bool

definition emit :: "bool \<Rightarrow> progress_event \<Rightarrow> machine \<Rightarrow> machine" where
  "emit progress ev m = (if progress then m\<lparr>mc_events := mc_events m @ [ev]\<rparr> else m)"

definition cargo_pkg_version :: string where
  "cargo_pkg_version = ''0.1.3''"

definition version_endpoint :: "update_env \<Rightarrow> string" where
  "version_endpoint e =
     (case uv_endpoint e of
        Some base \<Rightarrow> if base \<noteq> [] then trim_end_matches CHR ''/'' base @ ''/api/version''
                    else ''https://aeordb.com/api/version''
      | None \<Rightarrow> ''https://aeordb.com/api/version'')"

definition download_base :: "update_env \<Rightarrow> string" where
  "download_base e =
     (case uv_endpoint e of
        Some base \<Rightarrow> if base \<noteq> [] then trim_end_matches CHR ''/'' base @ ''/downloads/''
                    else ''https://aeordb.com/downloads/''
      | None \<Rightarrow> ''https://aeordb.com/downloads/'')"

section \<open>The snapshot of a poll\<close>

record update_info =
  ui_available :: bool
  ui_current_version :: string
  ui_latest_version :: "string option"
  ui_release_notes_url :: "string option"
  ui_download_url :: "string option"
  ui_size :: "int option"
  ui_sha256 :: "string option"
  ui_platform :: string
  ui_last_checked :: "timestamp option"
  ui_error :: "string option"
  ui_signed_manifest :: "json option"
  ui_key_id :: "string option"
  ui_signature :: "string option"

definition default_update_info :: update_info where
  "default_update_info =
     \<lparr>ui_available = False, ui_current_version = [], ui_latest_version = None,
      ui_release_notes_url = None, ui_download_url = None, ui_size = None, ui_sha256 = None,
      ui_platform = [], ui_last_checked = None, ui_error = None, ui_signed_manifest = None,
      ui_key_id = None, ui_signature = None\<rparr>"

definition current_platform_key :: "update_env \<Rightarrow> string" where
  "current_platform_key e = uv_os e @ ''-'' @ uv_arch e"

definition new_update_state :: "update_env \<Rightarrow> update_info" where
  "new_update_state e =
     default_update_info\<lparr>ui_current_version := cargo_pkg_version, ui_platform := current_platform_key e\<rparr>"

section \<open>The signed manifest\<close>

record signed_platform_entry =
  pl_file :: string
  pl_size :: "int option"
  pl_sha256 :: string

record signed_manifest =
  sm_version :: "string option"
  sm_platforms :: "(string \<times> signed_platform_entry) list"

definition platform_of_json :: "json \<Rightarrow> signed_platform_entry option" where
  "platform_of_json v =
     (case struct_of_json [''file'', ''size'', ''sha256''] v of
        None \<Rightarrow> None
      | Some j \<Rightarrow>
          (case (field as_str j ''file'', opt_field as_i64 j ''size'', field as_str j ''sha256'') of
             (Some f, Some s, Some h) \<Rightarrow> Some \<lparr>pl_file = f, pl_size = s, pl_sha256 = h\<rparr>
           | _ \<Rightarrow> None))"

fun platform_entries :: "(string \<times> json) list \<Rightarrow> (string \<times> signed_platform_entry) list option" where
  "platform_entries [] = Some []"
| "platform_entries ((k, v) # ps) =
     (case (platform_of_json v, platform_entries ps) of
        (Some p, Some rest) \<Rightarrow> Some ((k, p) # rest)
      | _ \<Rightarrow> None)"

definition manifest_of_json :: "json \<Rightarrow> signed_manifest option" where
  "manifest_of_json v =
     (case struct_of_json [''version'', ''platforms''] v of
        None \<Rightarrow> None
      | Some j \<Rightarrow>
          (case (opt_field as_str j ''version'',
                 default_field [] (\<lambda>p. Option.bind (as_object p) platform_entries) j ''platforms'') of
             (Some w, Some ps) \<Rightarrow> Some \<lparr>sm_version = w, sm_platforms = ps\<rparr>
           | _ \<Rightarrow> None))"

definition verify_manifest_signature ::
  "update_env \<Rightarrow> test_keys \<Rightarrow> json option \<Rightarrow> string option \<Rightarrow> string option \<Rightarrow> string \<Rightarrow> string + unit" where
  "verify_manifest_signature e ts manifest key_id sig announced_version =
     and_then (ok_or ''response lacks signed_manifest'' manifest) (\<lambda>mf.
     and_then (ok_or ''response lacks key_id'' key_id) (\<lambda>k.
     and_then (ok_or ''response lacks signature'' sig) (\<lambda>signature_b64.
     and_then (ok_or (''unknown key_id: '' @ k) (trusted_key ts k)) (\<lambda>key_bytes.
       case uv_key_error e key_bytes of
         Some error \<Rightarrow> Inl (''malformed trusted public key: '' @ error)
       | None \<Rightarrow>
           and_then (map_err (\<lambda>error. ''canonicalize envelope: '' @ error) (uv_canonical e mf)) (\<lambda>canonical.
           and_then (map_err (\<lambda>error. ''decode signature: '' @ error) (uv_base64 e signature_b64)) (\<lambda>sig_bytes.
             if length sig_bytes \<noteq> 64 then
               Inl (''signature wrong length: expected 64, got '' @ show_nat (length sig_bytes))
             else if \<not> uv_verify e key_bytes canonical sig_bytes then
               Inl ''ed25519 verification failed''
             else
               (case manifest_of_json mf of
                  None \<Rightarrow> Inl (''parse signed envelope: '' @ uv_serde_error e mf)
                | Some envelope \<Rightarrow>
                    (case sm_version envelope of
                       Some v \<Rightarrow>
                         if v = announced_version then Inr ()
                         else Inl (''envelope version '' @ v @ '' != announced '' @ announced_version)
                     | None \<Rightarrow> Inl ''envelope lacks version field''))))))))"

section \<open>Versions\<close>

definition parse_version :: "string \<Rightarrow> (nat \<times> nat \<times> nat) option" where
  "parse_version s =
     (case take 3 (split_on CHR ''.'' s) of
        [a, b, c] \<Rightarrow>
          (case (parse_uint u32_max a, parse_uint u32_max b, parse_uint u32_max c) of
             (Some major, Some minor, Some patch) \<Rightarrow> Some (major, minor, patch)
           | _ \<Rightarrow> None)
      | _ \<Rightarrow> None)"

text \<open>The order of triples is the lexicographic one.\<close>

definition triple_greater :: "nat \<times> nat \<times> nat \<Rightarrow> nat \<times> nat \<times> nat \<Rightarrow> bool" where
  "triple_greater r c =
     (case (r, c) of
        ((a, b, d), (a', b', d')) \<Rightarrow> a > a' \<or> (a = a' \<and> (b > b' \<or> (b = b' \<and> d > d'))))"

definition is_newer :: "string \<Rightarrow> string \<Rightarrow> bool" where
  "is_newer remote current =
     (case (parse_version remote, parse_version current) of
        (Some r, Some c) \<Rightarrow> triple_greater r c
      | _ \<Rightarrow> remote > current)"

section \<open>Polling\<close>

record version_body =
  vb_version :: string
  vb_release_notes_url :: "string option"
  vb_platform :: "string option"
  vb_download_url :: "string option"
  vb_size :: "int option"
  vb_sha256 :: "string option"
  vb_signed_manifest :: "json option"
  vb_key_id :: "string option"
  vb_signature :: "string option"

definition as_datetime :: "update_env \<Rightarrow> json \<Rightarrow> string option" where
  "as_datetime e j = (case as_str j of Some t \<Rightarrow> if uv_datetime e t then Some t else None | None \<Rightarrow> None)"

definition version_body_of_json :: "update_env \<Rightarrow> json \<Rightarrow> version_body option" where
  "version_body_of_json e v =
     (case struct_of_json [''version'', ''released_at'', ''release_notes_url'', ''platform'',
         ''download_url'', ''size'', ''sha256'', ''signed_manifest'', ''key_id'', ''signature''] v of
        None \<Rightarrow> None
      | Some j \<Rightarrow>
          (case (field as_str j ''version'', opt_field (as_datetime e) j ''released_at'',
                 opt_field as_str j ''release_notes_url'', opt_field as_str j ''platform'',
                 opt_field as_str j ''download_url'', opt_field as_i64 j ''size'',
                 opt_field as_str j ''sha256'', opt_field Some j ''signed_manifest'',
                 opt_field as_str j ''key_id'', opt_field as_str j ''signature'') of
             (Some w, Some _, Some n, Some p, Some d, Some s, Some h, Some mf, Some k, Some sg) \<Rightarrow>
               Some \<lparr>vb_version = w, vb_release_notes_url = n, vb_platform = p, vb_download_url = d,
                 vb_size = s, vb_sha256 = h, vb_signed_manifest = mf, vb_key_id = k,
                 vb_signature = sg\<rparr>
           | _ \<Rightarrow> None))"

definition check_inner :: "update_env \<Rightarrow> test_keys \<Rightarrow> update_info" where
  "check_inner e ts =
     (let platform = uv_os e @ ''-'' @ uv_arch e;
          url = version_endpoint e @ ''?os='' @ uv_os e @ ''&arch='' @ uv_arch e;
          base = default_update_info\<lparr>ui_current_version := cargo_pkg_version, ui_platform := platform\<rparr>
      in case uv_get e url of
           Inl error \<Rightarrow> base\<lparr>ui_error := Some (''network: '' @ error)\<rparr>
         | Inr resp \<Rightarrow>
             if vr_status resp = 404 \<or> vr_status resp = 503 then
               base\<lparr>ui_last_checked := Some (uv_now e)\<rparr>
             else if vr_status resp \<noteq> 200 then
               base\<lparr>ui_error := Some (''server returned '' @ show_nat (vr_status resp))\<rparr>
             else
               (case and_then (vr_body resp)
                       (\<lambda>j. ok_or (uv_serde_error e j) (version_body_of_json e j)) of
                  Inl error \<Rightarrow> base\<lparr>ui_error := Some (''parse: '' @ error)\<rparr>
                | Inr body \<Rightarrow>
                    (let (available, error) =
                           (case verify_manifest_signature e ts (vb_signed_manifest body)
                                   (vb_key_id body) (vb_signature body) (vb_version body) of
                              Inr _ \<Rightarrow> (is_newer (vb_version body) cargo_pkg_version, None)
                            | Inl error \<Rightarrow> (False, Some (''signature: '' @ error)))
                     in \<lparr>ui_available = available, ui_current_version = cargo_pkg_version,
                         ui_latest_version = Some (vb_version body),
                         ui_release_notes_url = vb_release_notes_url body,
                         ui_download_url = vb_download_url body, ui_size = vb_size body,
                         ui_sha256 = vb_sha256 body,
                         ui_platform = (case vb_platform body of Some p \<Rightarrow> p | None \<Rightarrow> platform),
                         ui_last_checked = Some (uv_now e), ui_error = error,
                         ui_signed_manifest = vb_signed_manifest body, ui_key_id = vb_key_id body,
                         ui_signature = vb_signature body\<rparr>)))"

definition check_once :: "update_env \<Rightarrow> test_keys \<Rightarrow> update_info \<Rightarrow> update_info" where
  "check_once e ts guard =
     (let info = check_inner e ts;
          i1 = (if ui_current_version info = []
                then info\<lparr>ui_current_version := ui_current_version guard\<rparr> else info)
      in if ui_platform i1 = [] then i1\<lparr>ui_platform := ui_platform guard\<rparr> else i1)"

section \<open>Applying\<close>

text \<open>The body of a download, chunk by chunk: \<open>n\<close> is the number of the chunk and \<open>written\<close> the
  bytes so far.\<close>

fun download_chunks ::
  "update_env \<Rightarrow> bool \<Rightarrow> string \<Rightarrow> nat \<Rightarrow> nat \<Rightarrow> nat \<Rightarrow> string list \<Rightarrow> machine \<Rightarrow> machine \<times> (string + nat)" where
  "download_chunks e progress dest total_bytes n written [] m = (m, Inr written)"
| "download_chunks e progress dest total_bytes n written (chunk # chunks) m =
     (let old = (case mc_files m dest of Some t \<Rightarrow> t | None \<Rightarrow> [])
      in case uv_write_fails e n of
           Some (error, k) \<Rightarrow>
             (m\<lparr>mc_files := (mc_files m)(dest \<mapsto> old @ take k chunk)\<rparr>, Inl error)
         | None \<Rightarrow>
             (let m1 = m\<lparr>mc_files := (mc_files m)(dest \<mapsto> old @ chunk)\<rparr>;
                  downloaded = written + length chunk
              in download_chunks e progress dest total_bytes (n + 1) downloaded chunks
                   (if uv_due e n then emit progress (Downloading downloaded total_bytes) m1 else m1)))"

definition fs_step :: "update_env \<Rightarrow> fs_op \<Rightarrow> machine \<Rightarrow> machine \<Rightarrow> machine \<times> (string + unit)" where
  "fs_step e op m m' = (case uv_fails e op of Some error \<Rightarrow> (m, Inl error) | None \<Rightarrow> (m', Inr ()))"

definition download_to ::
  "update_env \<Rightarrow> bool \<Rightarrow> string \<Rightarrow> string \<Rightarrow> machine \<Rightarrow> machine \<times> (string + unit)" where
  "download_to e progress url dest m =
     (case uv_client_error e of
        Some error \<Rightarrow> (m, Inl error)
      | None \<Rightarrow>
          (case uv_download e url of
             Inl error \<Rightarrow> (m, Inl error)
           | Inr resp \<Rightarrow>
               if \<not> is_success (dl_status resp) then
                 (m, Inl (''download returned '' @ dl_status_text resp))
               else
                 (let total_bytes = (case dl_content_length resp of Some n \<Rightarrow> n | None \<Rightarrow> 0)
                  in then_st (case path_parent dest of
                                Some parent \<Rightarrow> fs_step e (CreateDirs parent) m m
                              | None \<Rightarrow> (m, Inr ())) (\<lambda>m _.
                     then_st (fs_step e (CreateFile dest) m (m\<lparr>mc_files := (mc_files m)(dest \<mapsto> [])\<rparr>)) (\<lambda>m _.
                     then_st (download_chunks e progress dest total_bytes 0 0 (dl_chunks resp)
                                (emit progress (Downloading 0 total_bytes) m)) (\<lambda>m downloaded.
                       case dl_broken resp of
                         Some error \<Rightarrow> (m, Inl error)
                       | None \<Rightarrow>
                           fs_step e (FlushFile dest) m
                             (emit progress (Downloading downloaded total_bytes) m)))))))"

definition hex_lower :: "nat \<Rightarrow> char" where
  "hex_lower d = (if d < 10 then char_of (48 + d) else char_of (87 + d))"

definition hex_encode :: "string \<Rightarrow> string" where
  "hex_encode s = concat (map (\<lambda>c. [hex_lower (byte c div 16), hex_lower (byte c mod 16)]) s)"

definition verify_sha256 :: "update_env \<Rightarrow> string \<Rightarrow> string \<Rightarrow> machine \<Rightarrow> string + unit" where
  "verify_sha256 e p expected_hex m =
     (case (case uv_fails e (OpenFile p) of Some error \<Rightarrow> Some error | None \<Rightarrow> uv_fails e (ReadFile p)) of
        Some error \<Rightarrow> Inl error
      | None \<Rightarrow>
          (case mc_files m p of
             None \<Rightarrow> Inl ''No such file or directory (os error 2)''
           | Some bytes \<Rightarrow>
               (let got = hex_encode (uv_sha256 e bytes)
                in if \<not> eq_ignore_ascii_case got expected_hex then
                     Inl (''sha256 mismatch: expected '' @ expected_hex @ '', got '' @ got)
                   else Inr ())))"

definition quote :: char where "quote = CHR 0x27"

text \<open>\<open>s.replace(c, w)\<close> for a character.\<close>

definition replace_with :: "char \<Rightarrow> string \<Rightarrow> string \<Rightarrow> string" where
  "replace_with c w s = concat (map (\<lambda>x. if x = c then w else [x]) s)"

definition shell_quote :: "string \<Rightarrow> string" where
  "shell_quote s = [quote] @ replace_with quote [quote, CHR 0x5C, quote, quote] s @ [quote]"

text \<open>\<open>find_macos_app_root\<close>: the nearest directory above the executable with the extension \<open>app\<close>,
  the root itself excluded.  The fuel is the number of components of the path.\<close>

fun app_root_above :: "nat \<Rightarrow> string \<Rightarrow> string option" where
  "app_root_above 0 p = None"
| "app_root_above (Suc n) p =
     (case path_parent p of
        None \<Rightarrow> None
      | Some up \<Rightarrow> if path_extension p = Some ''app'' then Some p else app_root_above n up)"

definition find_macos_app_root :: "string \<Rightarrow> string option" where
  "find_macos_app_root exe =
     (case path_parent exe of
        None \<Rightarrow> None
      | Some p \<Rightarrow> app_root_above (length (path_components exe)) p)"

section \<open>The relauncher\<close>

definition sh_script :: "update_env \<Rightarrow> string \<Rightarrow> string \<Rightarrow> string" where
  "sh_script e current_exe staged =
     (let current = shell_quote current_exe
      in ''while kill -0 '' @ show_nat (uv_pid e) @ '' 2>/dev/null; do sleep 0.2; done; mv '' @
         shell_quote staged @ '' '' @ current @ ''; chmod +x '' @ current @ ''; '' @ current @ '' &'')"

definition macos_script :: "update_env \<Rightarrow> string \<Rightarrow> string \<Rightarrow> string" where
  "macos_script e app_dir staged =
     (let extract_dir = shell_quote (path_join (uv_temp_dir e) ''aeordb-client-update-extract'');
          app_root = shell_quote app_dir;
          dq = [CHR 0x22];
          new_app = dq @ ''$NEW_APP'' @ dq
      in ''while kill -0 '' @ show_nat (uv_pid e) @ '' 2>/dev/null; do sleep 0.2; done; rm -rf '' @
         extract_dir @ ''; mkdir -p '' @ extract_dir @ ''; /usr/bin/ditto -x -k '' @
         shell_quote staged @ '' '' @ extract_dir @ ''; NEW_APP=$(find '' @ extract_dir @
         '' -maxdepth 2 -name '' @ [quote] @ ''*.app'' @ [quote] @ '' -type d | head -n1); if [ -z '' @
         new_app @ '' ]; then exit 1; fi; /bin/rm -rf '' @ app_root @ ''.old; /bin/mv '' @ app_root @
         '' '' @ app_root @ ''.old; /bin/mv '' @ new_app @ '' '' @ app_root @ ''; /bin/rm -rf '' @
         app_root @ ''.old; /usr/bin/open '' @ app_root)"

definition powershell_quote :: "string \<Rightarrow> string" where
  "powershell_quote s = replace_with quote [quote, quote] s"

definition windows_script :: "update_env \<Rightarrow> string \<Rightarrow> string \<Rightarrow> string" where
  "windows_script e current_exe staged =
     ''$pid_ = '' @ show_nat (uv_pid e) @
     ''; while (Get-Process -Id $pid_ -ErrorAction SilentlyContinue) { Start-Sleep -Milliseconds 200 }; $old = '' @
     [quote] @ powershell_quote current_exe @ [quote] @ ''; $stg = '' @ [quote] @ powershell_quote staged @
     [quote] @ ''; $bak = $old + '' @ [quote] @ ''.old'' @ [quote] @
     ''; if (Test-Path $bak) { Remove-Item -Force $bak }; if (Test-Path $old) { Move-Item -Force $old $bak }; Move-Item -Force $stg $old; Start-Process -FilePath $old; Start-Sleep -Seconds 3; if (Test-Path $bak) { Remove-Item -Force $bak }''"

definition spawn :: "update_env \<Rightarrow> string list \<Rightarrow> machine \<Rightarrow> machine \<times> (string + unit)" where
  "spawn e argv m =
     (case uv_fails e SpawnShell of
        Some error \<Rightarrow> (m, Inl ''failed to spawn relauncher'')
      | None \<Rightarrow> (m\<lparr>mc_spawned := mc_spawned m @ [argv]\<rparr>, Inr ()))"

definition spawn_relauncher :: "update_env \<Rightarrow> string \<Rightarrow> string \<Rightarrow> machine \<Rightarrow> machine \<times> (string + unit)" where
  "spawn_relauncher e current_exe staged m =
     (if uv_os e = ''linux'' then spawn e [''sh'', ''-c'', sh_script e current_exe staged] m
      else if uv_os e = ''macos'' then
        (case find_macos_app_root current_exe of
           None \<Rightarrow> (m, Inl (''could not locate .app bundle from '' @ current_exe))
         | Some app_root \<Rightarrow> spawn e [''sh'', ''-c'', macos_script e app_root staged] m)
      else if uv_os e = ''windows'' then
        spawn e [''powershell'', ''-NoProfile'', ''-WindowStyle'', ''Hidden'', ''-Command'',
          windows_script e current_exe staged] m
      else (m, Inl ''self-update not supported on this platform''))"

section \<open>Apply\<close>

definition with_context :: "string \<Rightarrow> 's \<times> (string + 'a) \<Rightarrow> 's \<times> (string + 'a)" where
  "with_context c r = (fst r, map_err (\<lambda>_. c) (snd r))"

definition staged_name :: "update_env \<Rightarrow> string" where
  "staged_name e =
     (if uv_os e = ''macos'' then ''aeordb-client-update.app.zip''
      else if uv_os e = ''windows'' then ''aeordb-client.new.exe''
      else ''aeordb-client.new'')"

definition stage_dir :: "update_env \<Rightarrow> string \<Rightarrow> string + string" where
  "stage_dir e current_exe =
     (if uv_os e = ''macos'' then Inr (uv_temp_dir e)
      else ok_or ''current_exe has no parent'' (path_parent current_exe))"

text \<open>The trusted entry: what the signed envelope says of this platform.\<close>

definition trusted_entry :: "update_env \<Rightarrow> test_keys \<Rightarrow> update_info \<Rightarrow> string + signed_platform_entry" where
  "trusted_entry e ts info =
     and_then (ok_or ''no latest_version in update info'' (ui_latest_version info)) (\<lambda>announced_version.
     and_then (map_err (\<lambda>_. ''manifest signature verify failed at apply time'')
                 (verify_manifest_signature e ts (ui_signed_manifest info) (ui_key_id info)
                    (ui_signature info) announced_version)) (\<lambda>_.
     and_then (ok_or ''apply requires signed_manifest'' (ui_signed_manifest info)) (\<lambda>manifest.
     and_then (ok_or ''parse signed envelope'' (manifest_of_json manifest)) (\<lambda>envelope.
       ok_or (''signed envelope has no entry for platform '' @ current_platform_key e)
         (hget (rev (sm_platforms envelope)) (current_platform_key e))))))"

definition make_executable :: "update_env \<Rightarrow> string \<Rightarrow> machine \<Rightarrow> machine \<times> (string + unit)" where
  "make_executable e staged m =
     (if uv_os e = ''windows'' then (m, Inr ())
      else then_st (fs_step e (StatFile staged) m m) (\<lambda>m _.
             fs_step e (ChmodFile staged) m (m\<lparr>mc_executable := insert staged (mc_executable m)\<rparr>)))"

definition apply_update ::
  "update_env \<Rightarrow> test_keys \<Rightarrow> update_info \<Rightarrow> bool \<Rightarrow> machine \<Rightarrow> machine \<times> (string + unit)" where
  "apply_update e ts info progress m =
     then_st (m, trusted_entry e ts info) (\<lambda>m entry.
     then_st (m, map_err (\<lambda>_. ''failed to determine current exe path'') (uv_exe e)) (\<lambda>m current_exe.
     then_st (m, stage_dir e current_exe) (\<lambda>m dir.
       let url = download_base e @ pl_file entry;
           staged = path_join dir (staged_name e)
       in then_st (with_context (''download '' @ url @ '' -> '' @ staged)
                     (download_to e progress url staged m)) (\<lambda>m _.
          then_st (emit progress Verifying m,
                   map_err (\<lambda>_. ''sha256 verify failed for '' @ staged)
                     (verify_sha256 e staged (pl_sha256 entry) (emit progress Verifying m))) (\<lambda>m _.
          then_st (make_executable e staged m) (\<lambda>m _.
          then_st (spawn_relauncher e current_exe staged (emit progress Staging m)) (\<lambda>m _.
            (emit progress Complete m, Inr ()))))))))"

section \<open>Routes\<close>

definition update_check :: "update_env \<Rightarrow> test_keys \<Rightarrow> update_info \<Rightarrow> update_info" where
  "update_check e ts state = check_once e ts state"

text \<open>\<open>update_apply\<close>: the task it starts runs to its end, the events it sends are the lines of the
  answer, and the process then exits.\<close>

definition update_apply ::
  "update_env \<Rightarrow> test_keys \<Rightarrow> update_info \<Rightarrow> machine \<Rightarrow> machine \<times> ((nat \<times> string) + unit)" where
  "update_apply e ts info m =
     (if \<not> ui_available info then (m, Inl (409, ''no update available''))
      else case apply_update e ts info True m of
             (m1, r) \<Rightarrow>
               (let m2 = (case r of Inl error \<Rightarrow> emit True (UpdateError error) m1 | Inr _ \<Rightarrow> m1)
                in (m2\<lparr>mc_exited := True\<rparr>, Inr ())))"

text \<open>The hook of the loopback tests: \<open>key-id:hex\<close> registers a key.\<close>

definition hex_digit_value :: "char \<Rightarrow> nat option" where
  "hex_digit_value c =
     (if 48 \<le> byte c \<and> byte c \<le> 57 then Some (byte c - 48)
      else if 97 \<le> byte c \<and> byte c \<le> 102 then Some (byte c - 87)
      else if 65 \<le> byte c \<and> byte c \<le> 70 then Some (byte c - 55)
      else None)"

fun hex_decode :: "string \<Rightarrow> string option" where
  "hex_decode [] = Some []"
| "hex_decode [c] = None"
| "hex_decode (a # b # s) =
     (case (hex_digit_value a, hex_digit_value b, hex_decode s) of
        (Some h, Some l, Some t) \<Rightarrow> Some (char_of (16 * h + l) # t)
      | _ \<Rightarrow> None)"

definition ingest_test_public_key :: "string option \<Rightarrow> test_keys \<Rightarrow> test_keys" where
  "ingest_test_public_key raw ts =
     (case raw of
        None \<Rightarrow> ts
      | Some s \<Rightarrow>
          if s = [] then ts
          else (case split_once CHR '':'' s of
                  None \<Rightarrow> ts
                | Some (key_id, hex_part) \<Rightarrow>
                    (case hex_decode hex_part of
                       None \<Rightarrow> ts
                     | Some bytes \<Rightarrow>
                         if length bytes \<noteq> 32 then ts else register_test_key key_id bytes ts)))"

text \<open>On Windows the previous executable is removed at startup.\<close>

definition cleanup_after_relaunch :: "update_env \<Rightarrow> machine \<Rightarrow> machine" where
  "cleanup_after_relaunch e m =
     (if uv_os e \<noteq> ''windows'' then m
      else case uv_exe e of
             Inl error \<Rightarrow> m
           | Inr exe \<Rightarrow>
               (if mc_files m (exe @ ''.old'') = None \<or> uv_fails e (RemoveFile (exe @ ''.old'')) \<noteq> None
                then m
                else m\<lparr>mc_files := (mc_files m)(exe @ ''.old'' := None)\<rparr>))"

end
