(* ===== verification/Update_Spec.thy ===== *)
theory Update_Spec
  imports Update
begin

text \<open>
  What the self-update promises: nothing is launched that the trust store does not vouch for, the
  order of versions, and the quoting of the relauncher's command line.
\<close>

section \<open>Authenticated manifests\<close>

text \<open>A snapshot vouches for an envelope: a trusted key signed the canonical text of the manifest,
  which parses to the envelope, whose version is the announced one.\<close>

definition vouched :: "update_env \<Rightarrow> test_keys \<Rightarrow> update_info \<Rightarrow> signed_manifest \<Rightarrow> bool" where
  "vouched e ts info envelope \<longleftrightarrow>
     (\<exists>mf k key b64 sig canonical.
        ui_signed_manifest info = Some mf \<and> ui_key_id info = Some k \<and> trusted_key ts k = Some key \<and>
        ui_signature info = Some b64 \<and> uv_base64 e b64 = Inr sig \<and> length sig = 64 \<and>
        uv_canonical e mf = Inr canonical \<and> uv_verify e key canonical sig \<and>
        manifest_of_json mf = Some envelope \<and> sm_version envelope = ui_latest_version info \<and>
        ui_latest_version info \<noteq> None)"

lemma map_err_Inr [simp]: "map_err f r = Inr v \<longleftrightarrow> r = Inr v"
  by (cases r) simp_all

lemma ok_or_Inr [simp]: "ok_or e x = Inr v \<longleftrightarrow> x = Some v"
  by (cases x) simp_all

lemma verified_manifest:
  assumes "verify_manifest_signature e ts mf k sg v = Inr ()"
  shows "\<exists>m i key b sig canonical envelope. mf = Some m \<and> k = Some i \<and> sg = Some b \<and>
    trusted_key ts i = Some key \<and> uv_base64 e b = Inr sig \<and> length sig = 64 \<and>
    uv_canonical e m = Inr canonical \<and> uv_verify e key canonical sig \<and>
    manifest_of_json m = Some envelope \<and> sm_version envelope = Some v"
proof -
  note d = verify_manifest_signature_def
  from assms obtain m where m: "mf = Some m" by (cases mf) (simp_all add: d)
  from assms m obtain i where i: "k = Some i" by (cases k) (simp_all add: d)
  from assms m i obtain b where b: "sg = Some b" by (cases sg) (simp_all add: d)
  from assms m i b obtain key where key: "trusted_key ts i = Some key"
    by (cases "trusted_key ts i") (simp_all add: d)
  from assms m i b key have ok: "uv_key_error e key = None"
    by (cases "uv_key_error e key") (simp_all add: d)
  from assms m i b key ok obtain can where can: "uv_canonical e m = Inr can"
    by (cases "uv_canonical e m") (simp_all add: d)
  from assms m i b key ok can obtain sig where sig: "uv_base64 e b = Inr sig"
    by (cases "uv_base64 e b") (simp_all add: d)
  from assms m i b key ok can sig have v: "length sig = 64" "uv_verify e key can sig"
    by (simp_all add: d split: if_splits)
  from assms m i b key ok can sig v obtain envelope where env: "manifest_of_json m = Some envelope"
    by (cases "manifest_of_json m") (simp_all add: d)
  from assms m i b key ok can sig v env have "sm_version envelope = Some v"
    by (cases "sm_version envelope") (simp_all add: d split: if_splits)
  with m i b key can sig v env show ?thesis by blast
qed

lemma trusted_entry_vouched:
  assumes "trusted_entry e ts info = Inr entry"
  shows "\<exists>envelope. vouched e ts info envelope \<and>
    hget (rev (sm_platforms envelope)) (current_platform_key e) = Some entry"
  using assms
  by (auto simp: trusted_entry_def and_then_Inr vouched_def dest!: verified_manifest)

section \<open>Nothing is launched by the earlier steps\<close>

lemma emit_simps [simp]:
  "mc_spawned (emit p ev m) = mc_spawned m" "mc_files (emit p ev m) = mc_files m"
  "mc_executable (emit p ev m) = mc_executable m" "mc_exited (emit p ev m) = mc_exited m"
  by (simp_all add: emit_def)

lemma fs_step_ok: "fs_step e op m m' = (m'', Inr u) \<Longrightarrow> m'' = m'"
  by (auto simp: fs_step_def split: option.splits)

lemma fs_step_spawned: "mc_spawned m' = mc_spawned m \<Longrightarrow> mc_spawned (fst (fs_step e op m m')) = mc_spawned m"
  by (auto simp: fs_step_def split: option.splits)

lemma download_chunks_spawned:
  "mc_spawned (fst (download_chunks e p d t n w cs m)) = mc_spawned m"
  by (induction e p d t n w cs m rule: download_chunks.induct) (auto simp: Let_def split: option.splits)

lemma download_chunks_file:
  assumes "download_chunks e p d t n w cs m = (m', Inr k)" "mc_files m d = Some old"
  shows "mc_files m' d = Some (old @ concat cs) \<and> k = w + length (concat cs)"
  using assms
proof (induction e p d t n w cs m arbitrary: old rule: download_chunks.induct)
  case (2 e p d t n w c cs m)
  then show ?case by (auto simp: Let_def split: option.splits if_splits)
qed simp

lemma then_st_spawned:
  assumes "mc_spawned (fst r) = mc_spawned m"
    "\<And>m1 v. r = (m1, Inr v) \<Longrightarrow> mc_spawned (fst (f m1 v)) = mc_spawned m1"
  shows "mc_spawned (fst (then_st r f)) = mc_spawned m"
  using assms by (cases r; cases "snd r") auto

lemma download_to_spawned: "mc_spawned (fst (download_to e p url d m)) = mc_spawned m"
  unfolding download_to_def Let_def
  by (auto split: option.split sum.split
      intro!: then_st_spawned fs_step_spawned download_chunks_spawned [THEN trans])

lemma make_executable_spawned: "mc_spawned (fst (make_executable e s m)) = mc_spawned m"
  by (auto simp: make_executable_def intro!: then_st_spawned fs_step_spawned)

lemma make_executable_files: "make_executable e s m = (m', Inr u) \<Longrightarrow> mc_files m' = mc_files m"
  by (auto simp: make_executable_def then_st_Inr dest!: fs_step_ok split: if_splits)

lemma spawn_files: "mc_files (fst (spawn_relauncher e x s m)) = mc_files m"
  by (auto simp: spawn_relauncher_def spawn_def split: option.splits)

text \<open>A download that succeeds leaves in the file the bytes the server sent.\<close>

lemma download_to_file:
  assumes "download_to e p url d m = (m', Inr u)"
  shows "\<exists>resp. uv_download e url = Inr resp \<and> is_success (dl_status resp) \<and> dl_broken resp = None \<and>
    mc_files m' d = Some (concat (dl_chunks resp))"
  using assms
  by (auto simp: download_to_def Let_def then_st_Inr dest!: fs_step_ok download_chunks_file
      split: option.splits sum.splits if_splits)

text \<open>The staged file is the one the entry describes.\<close>

definition staged_as ::
  "update_env \<Rightarrow> signed_platform_entry \<Rightarrow> string \<Rightarrow> machine \<Rightarrow> bool" where
  "staged_as e entry staged m \<longleftrightarrow>
     (\<exists>resp bytes. uv_download e (download_base e @ pl_file entry) = Inr resp \<and>
        bytes = concat (dl_chunks resp) \<and> mc_files m staged = Some bytes \<and>
        eq_ignore_ascii_case (hex_encode (uv_sha256 e bytes)) (pl_sha256 entry))"

lemma verify_sha256_ok:
  "verify_sha256 e p h m = Inr u \<Longrightarrow>
    \<exists>bytes. mc_files m p = Some bytes \<and> eq_ignore_ascii_case (hex_encode (uv_sha256 e bytes)) h"
  by (auto simp: verify_sha256_def Let_def split: option.splits if_splits)

lemma with_context_simps [simp]:
  "fst (with_context c r) = fst r" "with_context c r = (m, Inr v) \<longleftrightarrow> r = (m, Inr v)"
  by (cases r; simp add: with_context_def)+

text \<open>The last step of \<open>apply_update\<close> is reached only with a vouched, verified file.\<close>

lemma apply_update_spawns:
  assumes "mc_spawned (fst (apply_update e ts info p m)) \<noteq> mc_spawned m"
  shows "\<exists>envelope entry exe dir. vouched e ts info envelope \<and>
    hget (rev (sm_platforms envelope)) (current_platform_key e) = Some entry \<and>
    uv_exe e = Inr exe \<and> stage_dir e exe = Inr dir \<and>
    staged_as e entry (path_join dir (staged_name e)) (fst (apply_update e ts info p m))"
proof -
  let ?run = "apply_update e ts info p m"
  obtain entry where entry: "trusted_entry e ts info = Inr entry"
    using assms by (cases "trusted_entry e ts info") (auto simp: apply_update_def)
  obtain exe where exe: "uv_exe e = Inr exe"
    using assms entry by (cases "uv_exe e") (auto simp: apply_update_def)
  obtain dir where dir: "stage_dir e exe = Inr dir"
    using assms entry exe by (cases "stage_dir e exe") (auto simp: apply_update_def)
  let ?url = "download_base e @ pl_file entry" and ?staged = "path_join dir (staged_name e)"
  obtain m1 r1 where d: "download_to e p ?url ?staged m = (m1, r1)" by (rule prod.exhaust)
  have s1: "mc_spawned m1 = mc_spawned m"
    using download_to_spawned [of e p ?url ?staged m] by (simp add: d)
  obtain u1 where r1: "r1 = Inr u1"
    using assms entry exe dir d s1 by (cases r1) (auto simp: apply_update_def Let_def with_context_def)
  let ?m2 = "emit p Verifying m1"
  obtain u2 where v: "verify_sha256 e ?staged (pl_sha256 entry) ?m2 = Inr u2"
    using assms entry exe dir d r1 s1
    by (cases "verify_sha256 e ?staged (pl_sha256 entry) ?m2")
      (auto simp: apply_update_def Let_def with_context_def)
  obtain m3 r3 where x: "make_executable e ?staged ?m2 = (m3, r3)" by (rule prod.exhaust)
  have s3: "mc_spawned m3 = mc_spawned m"
    using make_executable_spawned [of e ?staged ?m2] by (simp add: x s1)
  obtain u3 where r3: "r3 = Inr u3"
    using assms entry exe dir d r1 v x s3
    by (cases r3) (auto simp: apply_update_def Let_def with_context_def)
  have f3: "mc_files m3 = mc_files m1"
    using make_executable_files [of e ?staged ?m2 m3 u3] by (simp add: x r3)
  obtain m4 r4 where sp: "spawn_relauncher e exe ?staged (emit p Staging m3) = (m4, r4)"
    by (rule prod.exhaust)
  have f4: "mc_files m4 = mc_files m1"
    using spawn_files [of e exe ?staged "emit p Staging m3"] by (simp add: sp f3)
  have "fst ?run = m4 \<or> fst ?run = emit p Complete m4"
    using entry exe dir d r1 v x r3 sp
    by (cases r4) (auto simp: apply_update_def Let_def with_context_def)
  then have "mc_files (fst ?run) = mc_files m1" using f4 by auto
  moreover have "\<exists>resp. uv_download e ?url = Inr resp \<and> mc_files m1 ?staged = Some (concat (dl_chunks resp))"
    using download_to_file [of e p ?url ?staged m m1 u1] d r1 by auto
  ultimately have "staged_as e entry ?staged (fst ?run)"
    using verify_sha256_ok [OF v] by (auto simp: staged_as_def)
  with trusted_entry_vouched [OF entry] exe dir show ?thesis by blast
qed

section \<open>Versions\<close>

lemma triple_greater_asym: "triple_greater r c \<Longrightarrow> \<not> triple_greater c r"
  by (auto simp: triple_greater_def split: prod.splits)

lemma is_newer_asym: "is_newer a b \<Longrightarrow> \<not> is_newer b a"
  by (auto simp: is_newer_def dest: triple_greater_asym split: option.splits)

lemma is_newer_irrefl: "\<not> is_newer a a"
  using is_newer_asym by blast

text \<open>A poll that offers an update has verified it.\<close>

lemma default_not_available [simp]: "\<not> ui_available default_update_info"
  by (simp add: default_update_info_def)

lemma check_inner_available:
  assumes "ui_available (check_inner e ts)"
  shows "\<exists>v. ui_latest_version (check_inner e ts) = Some v \<and> is_newer v cargo_pkg_version \<and>
    verify_manifest_signature e ts (ui_signed_manifest (check_inner e ts))
      (ui_key_id (check_inner e ts)) (ui_signature (check_inner e ts)) v = Inr ()"
proof -
  let ?url = "version_endpoint e @ ''?os='' @ uv_os e @ ''&arch='' @ uv_arch e"
  note d = check_inner_def
  obtain resp where get: "uv_get e ?url = Inr resp"
    using assms by (cases "uv_get e ?url") (simp_all add: d)
  have status: "\<not> (vr_status resp = 404 \<or> vr_status resp = 503)"
    using assms get by (auto simp: d)
  have ok: "vr_status resp = 200"
    using assms get status by (cases "vr_status resp = 200") (simp_all add: d)
  let ?body = "and_then (vr_body resp) (\<lambda>j. ok_or (uv_serde_error e j) (version_body_of_json e j))"
  obtain body where body: "?body = Inr body"
    using assms get ok by (cases ?body) (simp_all add: d)
  let ?v = "verify_manifest_signature e ts (vb_signed_manifest body) (vb_key_id body) (vb_signature body)
    (vb_version body)"
  obtain u where v: "?v = Inr u"
    using assms get ok body by (cases ?v) (simp_all add: d)
  with assms get ok body show ?thesis by (simp add: d)
qed

lemma check_once_fields:
  "ui_available (check_once e ts g) = ui_available (check_inner e ts)"
  "ui_latest_version (check_once e ts g) = ui_latest_version (check_inner e ts)"
  "ui_signed_manifest (check_once e ts g) = ui_signed_manifest (check_inner e ts)"
  "ui_key_id (check_once e ts g) = ui_key_id (check_inner e ts)"
  "ui_signature (check_once e ts g) = ui_signature (check_inner e ts)"
  by (simp_all add: check_once_def Let_def)

lemma verified_vouched:
  assumes "verify_manifest_signature e ts (ui_signed_manifest info) (ui_key_id info) (ui_signature info) v = Inr ()"
    "ui_latest_version info = Some v"
  shows "\<exists>envelope. vouched e ts info envelope \<and> sm_version envelope = Some v"
  using verified_manifest [OF assms(1)] assms(2) unfolding vouched_def by auto

section \<open>Quoting\<close>

text \<open>How a POSIX shell reads one word: outside quotes a backslash keeps the next character, a quote
  opens a quoted part, which ends at the next quote and in which every character stands for
  itself, and a blank or an operator character ends the word.\<close>

definition word_end :: "char \<Rightarrow> bool" where
  "word_end c \<longleftrightarrow> c \<in> set '' ;&|<>()'' \<or> byte c = 9 \<or> byte c = 10"

fun sh_word :: "bool \<Rightarrow> string \<Rightarrow> (string \<times> string) option" where
  "sh_word True [] = None"
| "sh_word True (c # s) =
     (if c = CHR 0x27 then sh_word False s
      else map_option (\<lambda>(w, rest). (c # w, rest)) (sh_word True s))"
| "sh_word False [] = Some ([], [])"
| "sh_word False (c # s) =
     (if c = CHR 0x27 then sh_word True s
      else if c = CHR 0x5C then
        (case s of [] \<Rightarrow> None | d # s' \<Rightarrow> map_option (\<lambda>(w, rest). (d # w, rest)) (sh_word False s'))
      else if word_end c then Some ([], c # s)
      else map_option (\<lambda>(w, rest). (c # w, rest)) (sh_word False s))"

lemma sh_word_escaped:
  assumes "rest = [] \<or> word_end (hd rest)"
  shows "sh_word True (replace_with quote [quote, CHR 0x5C, quote, quote] s @ quote # rest) = Some (s, rest)"
proof (induction s)
  case Nil
  have "word_end c \<Longrightarrow> c \<noteq> CHR 0x27 \<and> c \<noteq> CHR 0x5C" for c
    by (auto simp: word_end_def)
  with assms show ?case by (cases rest) (auto simp: replace_with_def quote_def)
next
  case (Cons c s)
  then show ?case by (simp add: replace_with_def quote_def)
qed

lemma sh_word_quote:
  "rest = [] \<or> word_end (hd rest) \<Longrightarrow> sh_word False (shell_quote s @ rest) = Some (s, rest)"
  using sh_word_escaped [of rest s] by (simp add: shell_quote_def quote_def)

section \<open>Properties\<close>

text \<open>C6. Nothing is launched that was not signed.  When \<open>apply_update\<close> hands a command to a
  relauncher, the snapshot carried a manifest whose canonical text a trusted key signed and whose
  version is the announced one, and the staged file holds exactly the bytes downloaded from the
  place the manifest names for this platform, with the SHA-256 it names.\<close>

theorem launched_update_is_signed:
  assumes "mc_spawned (fst (apply_update e ts info p m)) \<noteq> mc_spawned m"
  shows "\<exists>envelope entry exe dir. vouched e ts info envelope \<and>
    hget (rev (sm_platforms envelope)) (current_platform_key e) = Some entry \<and>
    uv_exe e = Inr exe \<and> stage_dir e exe = Inr dir \<and>
    staged_as e entry (path_join dir (staged_name e)) (fst (apply_update e ts info p m))"
  using assms by (rule apply_update_spawns)

definition sample_manifest :: json where
  "sample_manifest = JObj
     [(''version'', JStr ''0.1.2''),
      (''platforms'', JObj [(''linux-x86_64'', JObj [(''file'', JStr ''client''), (''sha256'', JStr ''6162'')])])]"

definition sample_update_env :: update_env where
  "sample_update_env =
     \<lparr>uv_endpoint = None, uv_os = ''linux'', uv_arch = ''x86_64'', uv_now = 0,
      uv_datetime = (\<lambda>t. True), uv_get = (\<lambda>u. Inl ''offline''),
      uv_download = (\<lambda>u. if u = ''https://aeordb.com/downloads/client''
         then Inr \<lparr>dl_status = 200, dl_status_text = ''200 OK'', dl_content_length = Some 2,
                   dl_chunks = [''a'', ''b''], dl_broken = None\<rparr>
         else Inl ''unknown''),
      uv_client_error = None, uv_serde_error = (\<lambda>j. ''invalid''),
      uv_canonical = (\<lambda>j. if j = sample_manifest then Inr ''canonical'' else Inl ''unsupported''),
      uv_base64 = (\<lambda>t. if t = ''sig'' then Inr (replicate 64 (CHR ''s'')) else Inl ''invalid''),
      uv_key_error = (\<lambda>k. None),
      uv_verify = (\<lambda>k t s. k = aeor_public_key \<and> t = ''canonical'' \<and> s = replicate 64 (CHR ''s'')),
      uv_sha256 = (\<lambda>b. b), uv_exe = Inr ''/opt/aeordb-client'', uv_temp_dir = ''/tmp'', uv_pid = 42,
      uv_fails = (\<lambda>f. None), uv_write_fails = (\<lambda>n. None), uv_due = (\<lambda>n. False)\<rparr>"

definition sample_update :: update_info where
  "sample_update = default_update_info\<lparr>ui_latest_version := Some ''0.1.2'',
     ui_signed_manifest := Some sample_manifest, ui_key_id := Some ''aeor-202605132323'',
     ui_signature := Some ''sig''\<rparr>"

definition idle_machine :: machine where
  "idle_machine = \<lparr>mc_files = (\<lambda>p. None), mc_executable = {}, mc_spawned = [], mc_events = [],
     mc_exited = False\<rparr>"

lemma sample_apply:
  "mc_spawned (fst (apply_update sample_update_env None sample_update False idle_machine)) =
     [[''sh'', ''-c'', sh_script sample_update_env ''/opt/aeordb-client'' ''/opt/aeordb-client.new'']]"
  by code_simp

lemma launched_update_is_signed_witness:
  "\<exists>envelope. vouched sample_update_env None sample_update envelope"
proof -
  have "mc_spawned (fst (apply_update sample_update_env None sample_update False idle_machine)) \<noteq>
      mc_spawned idle_machine"
    by (simp only: sample_apply) (simp add: idle_machine_def)
  from launched_update_is_signed [OF this] show ?thesis by blast
qed

text \<open>C24. An update is offered only when it is signed by a trusted key and its version is greater than
  the running one; and of two versions at most one is newer than the other.\<close>

theorem offered_update_is_signed_and_newer:
  "(ui_available (check_once e ts guard) \<longrightarrow>
     (\<exists>envelope v. vouched e ts (check_once e ts guard) envelope \<and> sm_version envelope = Some v \<and>
        is_newer v cargo_pkg_version)) \<and>
   \<not> (is_newer a b \<and> is_newer b a)"
proof (intro conjI impI)
  assume "ui_available (check_once e ts guard)"
  then obtain v where "ui_latest_version (check_inner e ts) = Some v" "is_newer v cargo_pkg_version"
    "verify_manifest_signature e ts (ui_signed_manifest (check_inner e ts))
      (ui_key_id (check_inner e ts)) (ui_signature (check_inner e ts)) v = Inr ()"
    using check_inner_available [of e ts] by (auto simp: check_once_fields)
  then show "\<exists>envelope v. vouched e ts (check_once e ts guard) envelope \<and>
      sm_version envelope = Some v \<and> is_newer v cargo_pkg_version"
    using verified_vouched [of e ts "check_once e ts guard" v] by (auto simp: check_once_fields)
next
  show "\<not> (is_newer a b \<and> is_newer b a)" using is_newer_asym by blast
qed

definition newer_manifest :: json where
  "newer_manifest = JObj [(''version'', JStr ''0.2.0''), (''platforms'', JObj [])]"

definition newer_env :: update_env where
  "newer_env = sample_update_env
     \<lparr>uv_get := (\<lambda>u. Inr \<lparr>vr_status = 200, vr_body = Inr (JObj
        [(''version'', JStr ''0.2.0''), (''signed_manifest'', newer_manifest),
         (''key_id'', JStr ''aeor-202605132323''), (''signature'', JStr ''sig'')])\<rparr>),
      uv_canonical := (\<lambda>j. if j = newer_manifest then Inr ''canonical'' else Inl ''unsupported'')\<rparr>"

lemma offered_update_is_signed_and_newer_witness:
  "\<exists>envelope v. vouched newer_env None (check_once newer_env None (new_update_state newer_env)) envelope \<and>
     sm_version envelope = Some v \<and> is_newer v cargo_pkg_version"
proof -
  have "ui_available (check_once newer_env None (new_update_state newer_env))" by code_simp
  with offered_update_is_signed_and_newer [of newer_env None "new_update_state newer_env"]
  show ?thesis by blast
qed

text \<open>C13. The shell reads a quoted path as one word that is the path, whatever characters the path
  holds, so a path cannot inject a command into the relauncher's script.\<close>

theorem quoted_path_is_one_word:
  assumes "rest = [] \<or> word_end (hd rest)"
  shows "sh_word False (shell_quote s @ rest) = Some (s, rest)"
  using assms by (rule sh_word_quote)

lemma quoted_path_is_one_word_witness:
  "sh_word False (shell_quote ''/tmp/a b; rm -rf ~'' @ '' x'') = Some (''/tmp/a b; rm -rf ~'', '' x'')"
  by (rule quoted_path_is_one_word) (simp add: word_end_def)

text \<open>Applying does not compare versions: a snapshot with an older manifest, validly signed, is
  applied.\<close>

lemma older_manifest_is_applied:
  "\<not> is_newer ''0.1.2'' cargo_pkg_version \<and> ui_latest_version sample_update = Some ''0.1.2'' \<and>
   mc_spawned (fst (apply_update sample_update_env None sample_update False idle_machine)) \<noteq> []"
proof -
  have "\<not> is_newer ''0.1.2'' cargo_pkg_version" by code_simp
  then show ?thesis
    by (simp only: sample_apply) (simp add: sample_update_def)
qed

text \<open>The process exits after an update that failed as after one that was applied.\<close>

lemma update_apply_exits:
  "ui_available info \<Longrightarrow> mc_exited (fst (update_apply e ts info m))"
  by (simp add: update_apply_def Let_def split: prod.split sum.split)

end
