(* ===== verification/File_Paths.thy ===== *)
theory File_Paths
  imports Config Json Http Metadata
begin

text \<open>
  The helpers of \<open>api/routes/files.rs\<close>: local paths that stay inside the relationship, the
  translation between the paths of the interface and those of the engine, byte ranges, the
  answer for a local file, and the rollup of a directory's state.
\<close>

section \<open>Local paths\<close>

text \<open>The local file system as the handlers use it: \<open>canonicalize\<close>, \<open>exists\<close>, opening a file
  (its length by the metadata, its bytes, the modification time in milliseconds and the errors of
  \<open>metadata\<close> and \<open>seek\<close>), and \<open>open::that\<close>.\<close>

record local_file =
  lf_len :: nat
  lf_bytes :: string
  lf_modified :: "int option"
  lf_meta_error :: "string option"
  lf_seek_error :: "string option"

record local_view =
  lv_canonicalize :: "string \<Rightarrow> string option"
  lv_exists :: "string \<Rightarrow> bool"
  lv_open :: "string \<Rightarrow> string + local_file"
  lv_launch :: "string \<Rightarrow> string option"

definition safe_local_path :: "local_view \<Rightarrow> sync_relationship \<Rightarrow> string \<Rightarrow> string res" where
  "safe_local_path v rel relative_path =
     (let local_base = sr_local_path rel;
          cleaned = raw_parts relative_path;
          requested = path_join local_base (join_with ''/'' cleaned)
      in if ''..'' \<in> set cleaned then Inl (Forbidden ''path traversal denied'')
         else (case lv_canonicalize v local_base of
                 None \<Rightarrow> Inr requested
               | Some canonical_base \<Rightarrow>
                   (case lv_canonicalize v requested of
                      None \<Rightarrow> Inr requested
                    | Some canonical \<Rightarrow>
                        if \<not> path_starts_with canonical canonical_base
                        then Inl (Forbidden ''path traversal denied'') else Inr canonical)))"

definition content_type_table :: "(string \<times> string) list" where
  "content_type_table =
     [(''html'', ''text/html''), (''htm'', ''text/html''), (''css'', ''text/css''),
      (''js'', ''application/javascript''), (''json'', ''application/json''),
      (''xml'', ''application/xml''), (''txt'', ''text/plain''), (''md'', ''text/markdown''),
      (''csv'', ''text/csv''), (''pdf'', ''application/pdf''), (''png'', ''image/png''),
      (''jpg'', ''image/jpeg''), (''jpeg'', ''image/jpeg''), (''gif'', ''image/gif''),
      (''svg'', ''image/svg+xml''), (''webp'', ''image/webp''), (''mp4'', ''video/mp4''),
      (''m4v'', ''video/mp4''), (''webm'', ''video/webm''), (''ogv'', ''video/ogg''),
      (''ogg'', ''video/ogg''), (''mov'', ''video/quicktime''), (''avi'', ''video/x-msvideo''),
      (''mkv'', ''video/x-matroska''), (''mp3'', ''audio/mpeg''), (''wav'', ''audio/wav''),
      (''flac'', ''audio/flac''), (''aac'', ''audio/aac''), (''m4a'', ''audio/mp4''),
      (''zip'', ''application/zip''), (''gz'', ''application/gzip''), (''gzip'', ''application/gzip''),
      (''tar'', ''application/x-tar''), (''yaml'', ''application/yaml''), (''yml'', ''application/yaml''),
      (''toml'', ''application/toml''), (''wasm'', ''application/wasm'')]"

definition guess_content_type :: "string \<Rightarrow> string" where
  "guess_content_type p =
     (case hget content_type_table (to_ascii_lowercase (last (split_on CHR ''.'' p))) of
        Some t \<Rightarrow> t | None \<Rightarrow> ''application/octet-stream'')"

section \<open>Byte ranges\<close>

record byte_range =
  br_start :: nat
  br_end :: nat

definition byte_range_len :: "byte_range \<Rightarrow> nat" where
  "byte_range_len r = (br_end r - br_start r) + 1"

text \<open>None is the error, \<open>Some None\<close> the whole file.\<close>

definition parse_byte_range :: "string option \<Rightarrow> nat \<Rightarrow> byte_range option option" where
  "parse_byte_range range_header file_len =
     (case range_header of
        None \<Rightarrow> Some None
      | Some h \<Rightarrow>
          (case header_to_str h of
             None \<Rightarrow> None
           | Some range_value \<Rightarrow>
               (case strip_prefix (trim range_value) ''bytes='' of
                  None \<Rightarrow> Some None
                | Some spec \<Rightarrow>
                    if file_len = 0 \<or> CHR '','' \<in> set spec then None
                    else (case split_once CHR ''-'' spec of
                            None \<Rightarrow> None
                          | Some (start_raw, end_raw) \<Rightarrow>
                              if start_raw = [] then
                                (case parse_uint u64_max end_raw of
                                   None \<Rightarrow> None
                                 | Some suffix_len \<Rightarrow>
                                     if suffix_len = 0 then None
                                     else Some (Some \<lparr>br_start = file_len - suffix_len,
                                                      br_end = file_len - 1\<rparr>))
                              else
                                (case parse_uint u64_max start_raw of
                                   None \<Rightarrow> None
                                 | Some start \<Rightarrow>
                                     if start \<ge> file_len then None
                                     else
                                       (case (if end_raw = [] then Some (file_len - 1)
                                              else map_option (\<lambda>n. min n (file_len - 1))
                                                     (parse_uint u64_max end_raw)) of
                                          None \<Rightarrow> None
                                        | Some stop \<Rightarrow>
                                            if stop < start then None
                                            else Some (Some \<lparr>br_start = start, br_end = stop\<rparr>)))))))"

definition last_modified_millis :: "int option \<Rightarrow> string option" where
  "last_modified_millis modified =
     (case modified of Some ms \<Rightarrow> if 0 \<le> ms then Some (show_nat (nat ms)) else None | None \<Rightarrow> None)"

definition updated_header :: "int option \<Rightarrow> (string \<times> string) list" where
  "updated_header modified =
     (case last_modified_millis modified of Some ms \<Rightarrow> [(''x-aeordb-updated'', ms)] | None \<Rightarrow> [])"

definition serve_local_file ::
  "local_view \<Rightarrow> string \<Rightarrow> string \<Rightarrow> string option \<Rightarrow> web_response res" where
  "serve_local_file v local_path relative_path range_header =
     (case lv_open v local_path of
        Inl error \<Rightarrow> Inl (Server error)
      | Inr f \<Rightarrow>
          (case lf_meta_error f of
             Some error \<Rightarrow> Inl (Server error)
           | None \<Rightarrow>
               (let file_len = lf_len f;
                    base = [(''content-type'', guess_content_type relative_path),
                            (''accept-ranges'', ''bytes''), (''x-aeordb-size'', show_nat file_len)] @
                           updated_header (lf_modified f)
                in case parse_byte_range range_header file_len of
                     None \<Rightarrow>
                       Inr \<lparr>wr_status = 416,
                            wr_headers = [(''accept-ranges'', ''bytes''),
                              (''content-range'', ''bytes */'' @ show_nat file_len),
                              (''content-length'', ''0'')] @ updated_header (lf_modified f),
                            wr_body = []\<rparr>
                   | Some (Some rng) \<Rightarrow>
                       (case lf_seek_error f of
                          Some error \<Rightarrow> Inl (Server error)
                        | None \<Rightarrow>
                            Inr \<lparr>wr_status = 206,
                              wr_headers = base @
                                [(''content-range'', ''bytes '' @ show_nat (br_start rng) @ ''-'' @
                                    show_nat (br_end rng) @ ''/'' @ show_nat file_len),
                                 (''content-length'', show_nat (byte_range_len rng))],
                              wr_body = take (byte_range_len rng) (drop (br_start rng) (lf_bytes f))\<rparr>)
                   | Some None \<Rightarrow>
                       Inr \<lparr>wr_status = 200,
                         wr_headers = base @ [(''content-length'', show_nat file_len)],
                         wr_body = lf_bytes f\<rparr>)))"

section \<open>Path translation\<close>

definition route_remote_path :: "sync_relationship \<Rightarrow> string \<Rightarrow> string" where
  "route_remote_path rel relative_path =
     (let base = trim_end_matches CHR ''/'' (sr_remote_path rel);
          normalized_relative = replace_char (CHR 0x5C) CHR ''/'' relative_path;
          relative = trim_start_matches CHR ''/'' normalized_relative
      in if relative = [] then base @ ''/'' else base @ ''/'' @ relative)"

definition route_remote_paths :: "sync_relationship \<Rightarrow> string list \<Rightarrow> string list" where
  "route_remote_paths rel relative_paths = map (route_remote_path rel) relative_paths"

definition strip_remote_prefix :: "sync_relationship \<Rightarrow> string \<Rightarrow> string" where
  "strip_remote_prefix rel abs_path =
     (let base = trim_end_matches CHR ''/'' (sr_remote_path rel)
      in if base = [] then abs_path
         else (case strip_prefix abs_path base of
                 Some rest \<Rightarrow> if rest = [] then ''/'' else rest
               | None \<Rightarrow> abs_path))"

definition path_is_under_remote_root :: "sync_relationship \<Rightarrow> string \<Rightarrow> bool" where
  "path_is_under_remote_root rel abs_path \<longleftrightarrow>
     (let base = trim_end_matches CHR ''/'' (sr_remote_path rel)
      in base = [] \<or> abs_path = base \<or> starts_with abs_path (base @ ''/''))"

text \<open>The walk of \<open>strip_paths_in_json\<close>, with the translation of one path as an argument.\<close>

definition translate_str :: "(string \<Rightarrow> string) \<Rightarrow> json \<Rightarrow> json" where
  "translate_str f j = (case j of JStr s \<Rightarrow> JStr (f s) | _ \<Rightarrow> j)"

fun translate_paths :: "(string \<Rightarrow> string) \<Rightarrow> json \<Rightarrow> json"
  and translate_entry :: "(string \<Rightarrow> string) \<Rightarrow> string \<Rightarrow> json \<Rightarrow> json"
where
  "translate_paths f (JObj m) = JObj (map (\<lambda>(k, v). (k, translate_entry f k v)) m)"
| "translate_paths f (JArr xs) = JArr (map (translate_paths f) xs)"
| "translate_paths f JNull = JNull"
| "translate_paths f (JBool b) = JBool b"
| "translate_paths f (JInt i) = JInt i"
| "translate_paths f (JFloat x) = JFloat x"
| "translate_paths f (JStr s) = JStr s"
| "translate_entry f k (JStr s) = (if k = ''path'' then JStr (f s) else JStr s)"
| "translate_entry f k (JArr xs) =
     (if k = ''paths'' then JArr (map (translate_str f) xs) else JArr (map (translate_paths f) xs))"
| "translate_entry f k (JObj m) = JObj (map (\<lambda>(k, v). (k, translate_entry f k v)) m)"
| "translate_entry f k JNull = JNull"
| "translate_entry f k (JBool b) = JBool b"
| "translate_entry f k (JInt i) = JInt i"
| "translate_entry f k (JFloat x) = JFloat x"

definition strip_paths_in_json :: "sync_relationship \<Rightarrow> json \<Rightarrow> json" where
  "strip_paths_in_json rel v = translate_paths (strip_remote_prefix rel) v"

definition compute_local_subpath :: "sync_relationship \<Rightarrow> string \<Rightarrow> string" where
  "compute_local_subpath rel relative_path =
     (let base = trim_end_matches CHR ''/'' (sr_local_path rel);
          relative = trim_start_matches CHR ''/'' relative_path
      in if relative = [] then base @ ''/'' else base @ ''/'' @ relative)"

definition path_name :: "string \<Rightarrow> string" where
  "path_name p =
     (let name = last (split_on CHR ''/'' (trim_end_matches CHR ''/'' p))
      in if name = [] then ''/'' else name)"

definition parent_display_path :: "string \<Rightarrow> string" where
  "parent_display_path p =
     (case rsplit_once CHR ''/'' (trim_end_matches CHR ''/'' p) of
        None \<Rightarrow> ''/''
      | Some (parent, _) \<Rightarrow> if parent = [] then ''/'' else parent @ ''/'')"

definition json_i64 :: "json \<Rightarrow> string \<Rightarrow> int" where
  "json_i64 j key = (case Option.bind (jget j key) as_i64 of Some i \<Rightarrow> i | None \<Rightarrow> 0)"

definition json_u64 :: "json \<Rightarrow> string \<Rightarrow> nat" where
  "json_u64 j key = (case Option.bind (jget j key) as_u64 of Some n \<Rightarrow> n | None \<Rightarrow> 0)"

definition json_string :: "json \<Rightarrow> string \<Rightarrow> string option" where
  "json_string j key = Option.bind (jget j key) as_str"

section \<open>States of files and folders\<close>

text \<open>\<open>folder_rollup_status\<close>: the loop with its flags.\<close>

record rollup =
  rl_saw_any :: bool
  rl_any_error :: bool
  rl_any_push :: bool
  rl_any_pull :: bool
  rl_all_synced :: bool

definition rollup_step :: "string \<Rightarrow> file_sync_meta \<Rightarrow> rollup \<Rightarrow> rollup" where
  "rollup_step beneath meta r =
     (if \<not> starts_with (fm_path meta) beneath then r
      else let r = r\<lparr>rl_saw_any := True\<rparr>
           in case fm_sync_status meta of
                Synced \<Rightarrow> r
              | PendingPush \<Rightarrow> r\<lparr>rl_any_push := True, rl_all_synced := False\<rparr>
              | PendingPull \<Rightarrow> r\<lparr>rl_any_pull := True, rl_all_synced := False\<rparr>
              | StatusError \<Rightarrow> r\<lparr>rl_any_error := True, rl_all_synced := False\<rparr>)"

definition folder_rollup_status :: "file_sync_meta list \<Rightarrow> string \<Rightarrow> bool \<Rightarrow> string" where
  "folder_rollup_status all_metas dir_remote_path dir_has_local =
     (let beneath = trim_end_matches CHR ''/'' dir_remote_path @ ''/'';
          r = fold (rollup_step beneath) all_metas
                \<lparr>rl_saw_any = False, rl_any_error = False, rl_any_push = False, rl_any_pull = False,
                 rl_all_synced = True\<rparr>
      in if rl_any_error r then ''error''
         else if rl_any_push r then ''pending_push''
         else if rl_any_pull r then ''pending_pull''
         else if rl_saw_any r \<and> rl_all_synced r then ''synced''
         else if dir_has_local then ''synced'' else ''not_synced'')"

definition file_status :: "file_sync_meta option res \<Rightarrow> bool \<Rightarrow> string" where
  "file_status found has_local =
     (case found of
        Inr (Some meta) \<Rightarrow>
          (case fm_sync_status meta of
             Synced \<Rightarrow> ''synced'' | PendingPush \<Rightarrow> ''pending_push''
           | PendingPull \<Rightarrow> ''pending_pull'' | StatusError \<Rightarrow> ''error'')
      | _ \<Rightarrow> if has_local then ''synced'' else ''not_synced'')"

end
