(* ===== verification/File_Routes.thy ===== *)
theory File_Routes
  imports File_Paths Remote_Api Relationships Jwt_Cache
begin

text \<open>
  The handlers of \<open>api/routes/files.rs\<close>: browsing and searching a relationship's remote tree with
  the sync state of each entry, serving a file from the local copy or through the engine, and the
  proxies of the engine's portal.  A handler passes the world of the network with the token slot
  of the connection, and reads the configuration and the state store.
\<close>

record ('w, 'e) web =
  wb_world :: 'w
  wb_tokens :: jwt_cache
  wb_config :: config_store
  wb_store :: 'e

record ('w, 'e) web_env =
  we_net :: "'w net"
  we_engine :: "'e engine"
  we_hash :: "string \<Rightarrow> string"
  we_local :: local_view

definition load_relationship_client ::
  "string \<Rightarrow> ('w, 'e) web \<Rightarrow> ('w, 'e) web \<times> (sync_relationship \<times> remote_client) res" where
  "load_relationship_client i s =
     (case relationship_get i (wb_config s) of
        None \<Rightarrow> (s, Inl (NotFound (''relationship not found: '' @ i)))
      | Some rel \<Rightarrow>
          (case connection_get (sr_remote_connection_id rel) (wb_config s) of
             None \<Rightarrow> (s, Inl (NotFound (''connection not found: '' @ sr_remote_connection_id rel)))
           | Some conn \<Rightarrow>
               (s\<lparr>wb_tokens := slot_for (sr_remote_connection_id rel) (wb_tokens s)\<rparr>,
                Inr (rel, from_connection_cached conn))))"

text \<open>A call of the client of a relationship, on the slot of its connection.\<close>

definition client_call ::
  "sync_relationship \<Rightarrow> ('w cstate \<Rightarrow> 'w cstate \<times> 'a res) \<Rightarrow> ('w, 'e) web \<Rightarrow> ('w, 'e) web \<times> 'a res" where
  "client_call rel f s =
     (case f (wb_world s, slot_read (sr_remote_connection_id rel) (wb_tokens s)) of
        ((w, token), r) \<Rightarrow>
          (s\<lparr>wb_world := w, wb_tokens := slot_write (sr_remote_connection_id rel) token (wb_tokens s)\<rparr>, r))"

definition bad_gateway :: "'s \<times> 'a res \<Rightarrow> 's \<times> 'a res" where
  "bad_gateway r = (case r of (s, a) \<Rightarrow> (s, map_err (\<lambda>error. BadGateway (error_text error)) a))"

section \<open>Browsing\<close>

record browse_entry =
  be_name :: string
  be_path :: "string option"
  be_display_path :: "string option"
  be_entry_type :: nat
  be_size :: nat
  be_content_type :: "string option"
  be_created_at :: int
  be_updated_at :: int
  be_sync_status :: string
  be_has_local :: bool
  be_effective_permissions :: "string option"

record browse_response =
  bw_relationship_id :: string
  bw_relationship_name :: string
  bw_remote_path :: string
  bw_local_path :: string
  bw_entries :: "browse_entry list"
  bw_total :: "nat option"
  bw_limit :: "nat option"
  bw_offset :: "nat option"

definition browse_item ::
  "('w, 'e) web_env \<Rightarrow> 'e \<Rightarrow> sync_relationship \<Rightarrow> string \<Rightarrow> string \<Rightarrow> string \<Rightarrow> file_sync_meta list \<Rightarrow>
     remote_entry \<Rightarrow> browse_entry" where
  "browse_item env e rel i relative_path remote_path all_metas entry =
     (let entry_remote_path = trim_end_matches CHR ''/'' remote_path @ ''/'' @ re_name entry;
          local_file_path = path_join (path_join (sr_local_path rel) relative_path) (re_name entry);
          has_local = lv_exists (we_local env) local_file_path
      in \<lparr>be_name = re_name entry, be_path = None, be_display_path = None,
          be_entry_type = re_entry_type entry, be_size = re_size entry,
          be_content_type = re_content_type entry, be_created_at = re_created_at entry,
          be_updated_at = re_updated_at entry,
          be_sync_status =
            (if re_entry_type entry = 3 then folder_rollup_status all_metas entry_remote_path has_local
             else file_status (get_file_meta (we_engine env) (we_hash env) i entry_remote_path e) has_local),
          be_has_local = has_local, be_effective_permissions = re_effective_permissions entry\<rparr>)"

definition browse ::
  "('w, 'e) web_env \<Rightarrow> string \<Rightarrow> string option \<Rightarrow> nat option \<Rightarrow> nat option \<Rightarrow> ('w, 'e) web \<Rightarrow>
     ('w, 'e) web \<times> browse_response res" where
  "browse env i path limit offset s =
     then_st (load_relationship_client i s) (\<lambda>s (rel, client).
       let relative_path = (case path of Some p \<Rightarrow> p | None \<Rightarrow> []);
           remote_path = route_remote_path rel relative_path
       in then_st (client_call rel
                     (list_directory_paginated (we_net env) client remote_path limit offset) s)
            (\<lambda>s listing.
              let all_metas = (case list_file_metas (we_engine env) i (wb_store s) of
                                 Inr ms \<Rightarrow> ms | Inl _ \<Rightarrow> [])
              in (s, Inr \<lparr>bw_relationship_id = i, bw_relationship_name = sr_name rel,
                    bw_remote_path = remote_path,
                    bw_local_path = compute_local_subpath rel relative_path,
                    bw_entries = map (browse_item env (wb_store s) rel i relative_path remote_path all_metas)
                                   (dl_items listing),
                    bw_total = dl_total listing, bw_limit = dl_limit listing,
                    bw_offset = dl_offset listing\<rparr>)))"

section \<open>Search\<close>

definition search_hit ::
  "('w, 'e) web_env \<Rightarrow> 'e \<Rightarrow> sync_relationship \<Rightarrow> string \<Rightarrow> json \<Rightarrow> string \<Rightarrow> browse_entry" where
  "search_hit env e rel i item abs_path =
     (let relative_path = strip_remote_prefix rel abs_path;
          has_local = (case safe_local_path (we_local env) rel relative_path of
                         Inr p \<Rightarrow> lv_exists (we_local env) p | Inl _ \<Rightarrow> False)
      in \<lparr>be_name = path_name relative_path, be_path = Some relative_path,
          be_display_path = Some (parent_display_path relative_path),
          be_entry_type = (case Option.bind (jget item ''entry_type'') as_u64 of
                             Some n \<Rightarrow> n mod 256 | None \<Rightarrow> 2),
          be_size = json_u64 item ''size'', be_content_type = json_string item ''content_type'',
          be_created_at = json_i64 item ''created_at'', be_updated_at = json_i64 item ''updated_at'',
          be_sync_status = file_status (get_file_meta (we_engine env) (we_hash env) i abs_path e) has_local,
          be_has_local = has_local,
          be_effective_permissions = json_string item ''effective_permissions''\<rparr>)"

text \<open>The loop over the hits: the entries, and whether a hit outside the relationship was dropped.\<close>

fun search_hits ::
  "('w, 'e) web_env \<Rightarrow> 'e \<Rightarrow> sync_relationship \<Rightarrow> string \<Rightarrow> json list \<Rightarrow> browse_entry list \<times> bool" where
  "search_hits env e rel i [] = ([], False)"
| "search_hits env e rel i (item # items) =
     (case search_hits env e rel i items of
        (entries, filtered) \<Rightarrow>
          (case json_string item ''path'' of
             None \<Rightarrow> (entries, filtered)
           | Some abs_path \<Rightarrow>
               if \<not> path_is_under_remote_root rel abs_path then (entries, True)
               else (search_hit env e rel i item abs_path # entries, filtered)))"

definition search ::
  "('w, 'e) web_env \<Rightarrow> string \<Rightarrow> string \<Rightarrow> nat option \<Rightarrow> nat option \<Rightarrow> ('w, 'e) web \<Rightarrow>
     ('w, 'e) web \<times> browse_response res" where
  "search env i query_text limit offset s =
     then_st (load_relationship_client i s) (\<lambda>s (rel, client).
       let query = trim query_text;
           remote_root = route_remote_path rel ''/'';
           answer = (\<lambda>entries total_count.
             \<lparr>bw_relationship_id = i, bw_relationship_name = sr_name rel, bw_remote_path = remote_root,
              bw_local_path = sr_local_path rel, bw_entries = entries, bw_total = total_count,
              bw_limit = limit, bw_offset = offset\<rparr>)
       in if query = [] then (s, Inr (answer [] (Some 0)))
          else then_st (client_call rel (search_files (we_net env) client remote_root query limit offset) s)
                 (\<lambda>s value.
                   let items = (case Option.bind (or_else (jget value ''items'') (jget value ''results''))
                                       as_array of Some xs \<Rightarrow> xs | None \<Rightarrow> [])
                   in case search_hits env (wb_store s) rel i items of
                        (entries, filtered_out_of_scope) \<Rightarrow>
                          (s, Inr (answer entries
                             (if filtered_out_of_scope then Some (length entries)
                              else or_else (Option.bind
                                     (or_else (jget value ''total_count'') (jget value ''total'')) as_u64)
                                   (Some (length entries)))))))"

section \<open>Files\<close>

definition copy_header :: "http_response \<Rightarrow> string \<Rightarrow> (string \<times> string) list" where
  "copy_header r k = (case hget (rs_headers r) k of Some t \<Rightarrow> [(k, t)] | None \<Rightarrow> [])"

definition serve_file ::
  "('w, 'e) web_env \<Rightarrow> string \<Rightarrow> string \<Rightarrow> string option \<Rightarrow> string option \<Rightarrow> ('w, 'e) web \<Rightarrow>
     ('w, 'e) web \<times> web_response res" where
  "serve_file env i relative_path source range_header s =
     then_st (load_relationship_client i s) (\<lambda>s (rel, client).
       let force_remote = (source = Some ''remote''); force_local = (source = Some ''local'')
       in then_st (s, safe_local_path (we_local env) rel relative_path) (\<lambda>s local_path.
            let local_exists = lv_exists (we_local env) local_path
            in if force_local \<and> \<not> local_exists then (s, Inl (NotFound ''file not found locally''))
               else if \<not> force_remote \<and> local_exists then
                 (s, serve_local_file (we_local env) local_path relative_path range_header)
               else
                 then_st (bad_gateway (client_call rel
                     (download_file_with_range (we_net env) client (route_remote_path rel relative_path)
                        (Option.bind range_header header_to_str)) s))
                   (\<lambda>s (resp, metadata).
                     (s, Inr \<lparr>wr_status = rs_status resp,
                           wr_headers =
                             [(''content-type'', case rfm_content_type metadata of
                                  Some t \<Rightarrow> t | None \<Rightarrow> guess_content_type relative_path),
                              (''accept-ranges'', ''bytes''),
                              (''x-aeordb-size'', show_nat (rfm_size metadata))] @
                             copy_header resp ''content-length'' @ copy_header resp ''content-range'',
                           wr_body = body_text resp\<rparr>))))"

definition done_message :: "string \<Rightarrow> json" where
  "done_message text = JObj [(''message'', JStr text)]"

definition upload_file_route ::
  "('w, 'e) web_env \<Rightarrow> string \<Rightarrow> string \<Rightarrow> string option \<Rightarrow> string \<Rightarrow> ('w, 'e) web \<Rightarrow>
     ('w, 'e) web \<times> json res" where
  "upload_file_route env i relative_path content_type body s =
     then_st (load_relationship_client i s) (\<lambda>s (rel, client).
       let remote_path = route_remote_path rel relative_path
       in then_st (bad_gateway (client_call rel (upload_file (we_net env) client remote_path
                     (BytesBody body) (Option.bind content_type header_to_str)) s))
            (\<lambda>s _. (s, Inr (done_message (''uploaded '' @ remote_path)))))"

definition delete_file_route ::
  "('w, 'e) web_env \<Rightarrow> string \<Rightarrow> string \<Rightarrow> ('w, 'e) web \<Rightarrow> ('w, 'e) web \<times> json res" where
  "delete_file_route env i relative_path s =
     then_st (load_relationship_client i s) (\<lambda>s (rel, client).
       let remote_path = route_remote_path rel relative_path
       in then_st (bad_gateway (client_call rel (delete_file (we_net env) client remote_path) s))
            (\<lambda>s _. (s, Inr (done_message (''deleted '' @ remote_path)))))"

definition open_locally ::
  "('w, 'e) web_env \<Rightarrow> string \<Rightarrow> string \<Rightarrow> ('w, 'e) web \<Rightarrow> json res" where
  "open_locally env i path s =
     (case relationship_get i (wb_config s) of
        None \<Rightarrow> Inl (NotFound (''relationship not found: '' @ i))
      | Some rel \<Rightarrow>
          and_then (safe_local_path (we_local env) rel path) (\<lambda>local_path.
            if \<not> lv_exists (we_local env) local_path then
              Inl (NotFound (''file not found locally: '' @ path))
            else (case lv_launch (we_local env) local_path of
                    Some error \<Rightarrow> Inl (Server (''failed to open: '' @ error))
                  | None \<Rightarrow> Inr (done_message (''opened '' @ local_path)))))"

definition rename_file_route ::
  "('w, 'e) web_env \<Rightarrow> string \<Rightarrow> string \<Rightarrow> string \<Rightarrow> ('w, 'e) web \<Rightarrow> ('w, 'e) web \<times> json res" where
  "rename_file_route env i from_path to_path s =
     then_st (load_relationship_client i s) (\<lambda>s (rel, client).
       then_st (bad_gateway (client_call rel (rename_file (we_net env) client from_path to_path) s))
         (\<lambda>s _. (s, Inr (JObj [(''renamed'', JBool True), (''from'', JStr from_path),
                              (''to'', JStr to_path)]))))"

section \<open>The portal\<close>

definition list_deleted ::
  "('w, 'e) web_env \<Rightarrow> string \<Rightarrow> string option \<Rightarrow> ('w, 'e) web \<Rightarrow> ('w, 'e) web \<times> json res" where
  "list_deleted env i path s =
     then_st (load_relationship_client i s) (\<lambda>s (rel, client).
       let dir_relative = (case path of Some p \<Rightarrow> p | None \<Rightarrow> ''/'')
       in then_st (client_call rel (fetch_deleted (we_net env) client (route_remote_path rel dir_relative)) s)
            (\<lambda>s value. (s, Inr (strip_paths_in_json rel value))))"

definition restore_deleted ::
  "('w, 'e) web_env \<Rightarrow> string \<Rightarrow> string \<Rightarrow> ('w, 'e) web \<Rightarrow> ('w, 'e) web \<times> json res" where
  "restore_deleted env i path s =
     then_st (load_relationship_client i s) (\<lambda>s (rel, client).
       client_call rel (restore_file (we_net env) client (route_remote_path rel path)) s)"

definition version_history ::
  "('w, 'e) web_env \<Rightarrow> string \<Rightarrow> string \<Rightarrow> ('w, 'e) web \<Rightarrow> ('w, 'e) web \<times> json res" where
  "version_history env i file_path s =
     then_st (load_relationship_client i s) (\<lambda>s (rel, client).
       then_st (client_call rel (fetch_version_history (we_net env) client (route_remote_path rel file_path)) s)
         (\<lambda>s value. (s, Inr (strip_paths_in_json rel value))))"

definition list_snapshots ::
  "('w, 'e) web_env \<Rightarrow> string \<Rightarrow> ('w, 'e) web \<Rightarrow> ('w, 'e) web \<times> json res" where
  "list_snapshots env i s =
     then_st (load_relationship_client i s) (\<lambda>s (rel, client).
       client_call rel (fetch_snapshots (we_net env) client) s)"

definition create_snapshot_route ::
  "('w, 'e) web_env \<Rightarrow> string \<Rightarrow> string \<Rightarrow> ('w, 'e) web \<Rightarrow> ('w, 'e) web \<times> json res" where
  "create_snapshot_route env i name s =
     then_st (load_relationship_client i s) (\<lambda>s (rel, client).
       client_call rel (create_snapshot (we_net env) client name) s)"

definition restore_from_snapshot_route ::
  "('w, 'e) web_env \<Rightarrow> string \<Rightarrow> string \<Rightarrow> string \<Rightarrow> ('w, 'e) web \<Rightarrow> ('w, 'e) web \<times> json res" where
  "restore_from_snapshot_route env i snapshot_id path s =
     then_st (load_relationship_client i s) (\<lambda>s (rel, client).
       client_call rel (restore_from_snapshot (we_net env) client snapshot_id (route_remote_path rel path)) s)"

definition copy_files_route ::
  "('w, 'e) web_env \<Rightarrow> string \<Rightarrow> string list \<Rightarrow> string \<Rightarrow> ('w, 'e) web \<Rightarrow> ('w, 'e) web \<times> json res" where
  "copy_files_route env i paths destination s =
     then_st (load_relationship_client i s) (\<lambda>s (rel, client).
       client_call rel (copy_files (we_net env) client (route_remote_paths rel paths)
         (route_remote_path rel destination)) s)"

definition create_symlink_route ::
  "('w, 'e) web_env \<Rightarrow> string \<Rightarrow> string \<Rightarrow> string \<Rightarrow> ('w, 'e) web \<Rightarrow> ('w, 'e) web \<times> json res" where
  "create_symlink_route env i path target s =
     then_st (load_relationship_client i s) (\<lambda>s (rel, client).
       then_st (client_call rel (create_symlink_via_header (we_net env) client
                   (route_remote_path rel path) target) s)
         (\<lambda>s _. (s, Inr ok_json)))"

end
