(* ===== verification/File_Spec.thy ===== *)
theory File_Spec
  imports File_Routes
begin

text \<open>
  What the file handlers promise: paths translate back and forth, a local file that is served lies
  inside the relationship's directory, and a partial answer is exactly the slice it announces.
\<close>

section \<open>Path translation\<close>

abbreviation clean_relative :: "string \<Rightarrow> string" where
  "clean_relative p \<equiv> trim_start_matches CHR ''/'' (replace_char (CHR 0x5C) CHR ''/'' p)"

abbreviation root_of :: "sync_relationship \<Rightarrow> string" where
  "root_of rel \<equiv> trim_end_matches CHR ''/'' (sr_remote_path rel)"

lemma route_remote_path_eq: "route_remote_path rel p = root_of rel @ ''/'' @ clean_relative p"
  by (simp add: route_remote_path_def Let_def)

lemma strip_below: "strip_remote_prefix rel (root_of rel @ ''/'' @ r) = ''/'' @ r"
  by (simp add: strip_remote_prefix_def Let_def strip_prefix_def)

lemma strip_route: "strip_remote_prefix rel (route_remote_path rel p) = ''/'' @ clean_relative p"
  unfolding route_remote_path_eq by (rule strip_below)

lemma under_below: "path_is_under_remote_root rel (root_of rel @ ''/'' @ r)"
  by (simp add: path_is_under_remote_root_def Let_def)

lemma replace_char_notin_id: "a \<noteq> b \<Longrightarrow> replace_char a b (replace_char a b s) = replace_char a b s"
  by (simp add: replace_char_id replace_char_notin)

lemma clean_relative_no_backslash: "CHR 0x5C \<notin> set (clean_relative p)"
  using set_trim_start_matches replace_char_notin [of "CHR 0x5C" "CHR ''/''" p] by fastforce

lemma clean_relative_slash: "CHR 0x5C \<notin> set r \<Longrightarrow> r = [] \<or> hd r \<noteq> CHR ''/'' \<Longrightarrow> clean_relative (''/'' @ r) = r"
proof -
  assume r: "CHR 0x5C \<notin> set r" "r = [] \<or> hd r \<noteq> CHR ''/''"
  have "replace_char (CHR 0x5C) CHR ''/'' (''/'' @ r) = ''/'' @ r"
    using r(1) by (intro replace_char_id) simp
  then show ?thesis using r(2) by (simp add: trim_start_matches_prefix trim_start_matches_id)
qed

lemma clean_relative_again: "clean_relative (''/'' @ clean_relative p) = clean_relative p"
  by (rule clean_relative_slash [OF clean_relative_no_backslash trim_start_matches_hd])

lemma route_below:
  "CHR 0x5C \<notin> set r \<Longrightarrow> r = [] \<or> hd r \<noteq> CHR ''/'' \<Longrightarrow>
    route_remote_path rel (strip_remote_prefix rel (root_of rel @ ''/'' @ r)) = root_of rel @ ''/'' @ r"
  unfolding strip_below route_remote_path_eq by (subst clean_relative_slash) auto

section \<open>Translating answers\<close>

lemma translate_str_twice: "translate_str f (translate_str g j) = translate_str (\<lambda>p. f (g p)) j"
  by (cases j) (simp_all add: translate_str_def)

lemma translate_twice:
  "translate_paths f (translate_paths g v) = translate_paths (\<lambda>p. f (g p)) v"
  "translate_entry f k (translate_entry g k v) = translate_entry (\<lambda>p. f (g p)) k v"
proof (induction g v and g k v rule: translate_paths_translate_entry.induct)
  case (9 g k xs)
  then show ?case by (simp add: translate_str_twice)
qed (auto simp: translate_str_twice)

section \<open>Local paths\<close>

lemma safe_path_inside:
  assumes "safe_local_path v rel p = Inr q" "lv_exists v q"
    and "\<And>x. lv_exists v x \<Longrightarrow> lv_canonicalize v x \<noteq> None"
    and "lv_canonicalize v (sr_local_path rel) = Some b"
  shows "path_starts_with q b"
  using assms(1,2,4) assms(3) [of q]
  by (auto simp: safe_local_path_def Let_def split: if_splits option.splits)

section \<open>Byte ranges\<close>

definition range_ok :: "byte_range \<Rightarrow> nat \<Rightarrow> bool" where
  "range_ok r n \<longleftrightarrow> br_start r \<le> br_end r \<and> br_end r < n"

lemma parse_byte_range_ok:
  assumes "parse_byte_range h n = Some (Some r)"
  shows "range_ok r n"
  using assms
  by (auto simp: parse_byte_range_def range_ok_def split: option.splits if_splits prod.splits)

lemma range_slice_length:
  "range_ok r (length bytes) \<Longrightarrow> length (take (byte_range_len r) (drop (br_start r) bytes)) = byte_range_len r"
  by (auto simp: range_ok_def byte_range_len_def)

lemma hget_append_other: "hget m k = None \<Longrightarrow> hget (m @ n) k = hget n k"
  by (simp add: map_of_append map_add_def split: option.split)

lemma updated_header_other: "k \<noteq> ''x-aeordb-updated'' \<Longrightarrow> hget (updated_header t) k = None"
  by (simp add: updated_header_def split: option.split)

lemma served_headers:
  assumes "serve_local_file v lp p h = Inr r" "lv_open v lp = Inr f" "lf_len f = length (lf_bytes f)"
  shows "hget (wr_headers r) ''content-length'' = Some (show_nat (length (wr_body r))) \<and>
    (wr_status r = 206 \<longrightarrow>
       (\<exists>g. range_ok g (length (lf_bytes f)) \<and>
          wr_body r = take (byte_range_len g) (drop (br_start g) (lf_bytes f)) \<and>
          hget (wr_headers r) ''content-range'' =
            Some (''bytes '' @ show_nat (br_start g) @ ''-'' @ show_nat (br_end g) @ ''/'' @
                  show_nat (length (lf_bytes f))))) \<and>
    (wr_status r = 200 \<longrightarrow> wr_body r = lf_bytes f) \<and> wr_status r \<in> {200, 206, 416}"
proof -
  let ?n = "length (lf_bytes f)"
  note d = serve_local_file_def Let_def hget_append_other [OF updated_header_other]
  from assms have meta: "lf_meta_error f = None" by (cases "lf_meta_error f") (simp_all add: d)
  show ?thesis
  proof (cases "parse_byte_range h ?n")
    case None
    with assms meta have r: "wr_body r = []" "wr_status r = 416"
      "hget (wr_headers r) ''content-length'' = Some ''0''"
      by (auto simp: d simp del: map_of_append)
    have "show_nat 0 = ''0''" by code_simp
    with r show ?thesis by simp
  next
    case (Some rng)
    show ?thesis
    proof (cases rng)
      case None
      with Some assms meta show ?thesis by (auto simp: d simp del: map_of_append)
    next
      case (Some g)
      with \<open>parse_byte_range h ?n = Some rng\<close> have p: "parse_byte_range h ?n = Some (Some g)" by simp
      note g = parse_byte_range_ok [OF p]
      have seek: "lf_seek_error f = None"
        using assms meta p by (cases "lf_seek_error f") (simp_all add: d)
      let ?body = "take (byte_range_len g) (drop (br_start g) (lf_bytes f))"
      have "wr_body r = ?body" "wr_status r = 206"
        "hget (wr_headers r) ''content-length'' = Some (show_nat (byte_range_len g))"
        "hget (wr_headers r) ''content-range'' = Some (''bytes '' @ show_nat (br_start g) @ ''-'' @
           show_nat (br_end g) @ ''/'' @ show_nat ?n)"
        using assms meta p seek by (auto simp: d simp del: map_of_append)
      with g range_slice_length [OF g] show ?thesis by auto
    qed
  qed
qed

text \<open>Trimming leaves a text alone whose first and last characters are printable ASCII.\<close>

definition printable :: "char \<Rightarrow> bool" where
  "printable c \<longleftrightarrow> 33 \<le> byte c \<and> byte c < 127"

lemma ws_len_printable: "printable c \<Longrightarrow> ws_len (c # s) = 0"
  by (auto simp: ws_len_def printable_def ascii_ws_def ws2_def ws3_def split: list.split)

lemma ws_len_rev_printable: "printable c \<Longrightarrow> ws_len_rev (c # s) = 0"
  by (auto simp: ws_len_rev_def printable_def ascii_ws_def ws2_def ws3_def split: list.split)

lemma trim_printable:
  assumes "s \<noteq> []" "printable (hd s)" "printable (last s)"
  shows "trim s = s"
proof -
  from assms obtain c t where s: "s = c # t" by (cases s) auto
  obtain d u where r: "rev s = d # u" using assms(1) by (cases "rev s") auto
  with assms(3) have d: "printable d" by (metis hd_rev list.sel(1))
  have "strip_ws ws_len s = s"
    using assms(2) by (subst strip_ws.simps) (simp add: s ws_len_printable)
  moreover have "strip_ws ws_len_rev (rev s) = rev s"
    by (subst strip_ws.simps) (simp add: r ws_len_rev_printable d)
  ultimately show ?thesis by (simp add: trim_def)
qed

definition bytes_header :: "nat \<Rightarrow> nat \<Rightarrow> string" where
  "bytes_header a b = ''bytes='' @ show_nat a @ ''-'' @ show_nat b"

lemma split_once_app: "c \<notin> set x \<Longrightarrow> split_once c (x @ c # y) = Some (x, y)"
  by (induction x) auto

lemma show_nat_no_char: "byte c < 48 \<or> byte c > 57 \<Longrightarrow> c \<notin> set (show_nat n)"
  using show_nat_chars [of c n] by auto

lemma requested_range:
  assumes "a \<le> b" "a < n" "a \<le> u64_max" "b \<le> u64_max"
  shows "parse_byte_range (Some (bytes_header a b)) n =
    Some (Some \<lparr>br_start = a, br_end = min b (n - 1)\<rparr>)"
proof -
  have vis: "32 \<le> byte c \<and> byte c < 127" if "c \<in> set (bytes_header a b)" for c
    using that show_nat_chars [of c a] show_nat_chars [of c b] by (auto simp: bytes_header_def)
  then have str: "header_to_str (bytes_header a b) = Some (bytes_header a b)"
    by (simp add: header_to_str_def list_all_iff)
  have last: "last (bytes_header a b) = last (show_nat b)"
    by (simp add: bytes_header_def)
  have "printable (last (show_nat b))"
    using show_nat_chars [of "last (show_nat b)" b] by (simp add: printable_def)
  then have "printable (last (bytes_header a b))" by (simp only: last)
  moreover have "printable (hd (bytes_header a b))" by (simp add: bytes_header_def printable_def)
  ultimately have t: "trim (bytes_header a b) = bytes_header a b"
    by (intro trim_printable) (simp_all add: bytes_header_def)
  have strip: "strip_prefix (bytes_header a b) ''bytes='' = Some (show_nat a @ CHR ''-'' # show_nat b)"
    by (simp add: bytes_header_def strip_prefix_def)
  have "CHR '','' \<notin> set (show_nat a @ CHR ''-'' # show_nat b)"
    by (simp add: show_nat_no_char)
  moreover have "split_once CHR ''-'' (show_nat a @ CHR ''-'' # show_nat b) = Some (show_nat a, show_nat b)"
    by (rule split_once_app) (simp add: show_nat_no_char)
  ultimately show ?thesis
    using assms by (simp add: parse_byte_range_def str t strip parse_uint_show) 
qed

section \<open>Properties\<close>


text \<open>C8. A relationship's files can be read through the local API, and no others: for a path that
  exists, the answer of \<open>serve_file\<close> does not depend on what any file outside the canonical local
  directory of the relationship holds.\<close>

theorem served_files_are_inside:
  assumes "relationship_get i (wb_config s) = Some rel"
    and "lv_canonicalize v (sr_local_path rel) = Some b"
    and "\<And>x. lv_exists v x \<Longrightarrow> lv_canonicalize v x \<noteq> None"
    and "\<And>x. path_starts_with x b \<Longrightarrow> files x = lv_open v x"
  shows "serve_file (env\<lparr>we_local := v\<lparr>lv_open := files\<rparr>\<rparr>) i p source h s =
    serve_file (env\<lparr>we_local := v\<rparr>) i p source h s"
proof -
  let ?v = "v\<lparr>lv_open := files\<rparr>"
  have path: "safe_local_path ?v rel p = safe_local_path v rel p"
    by (simp add: safe_local_path_def Let_def cong: option.case_cong)
  have opened: "serve_local_file ?v q p h = serve_local_file v q p h"
    if "safe_local_path v rel p = Inr q" "lv_exists v q" for q
    using assms(4) [OF safe_path_inside [OF that assms(3,2)]]
    by (simp add: serve_local_file_def)
  have "load_relationship_client i s = (s1, Inr (rel', client)) \<Longrightarrow> rel' = rel" for s1 rel' client
    using assms(1) by (auto simp: load_relationship_client_def split: option.splits)
  then show ?thesis
    unfolding serve_file_def
    by (cases "load_relationship_client i s"; cases "snd (load_relationship_client i s)")
      (auto simp: path opened Let_def then_st_def split: sum.split)
qed

definition sample_view :: local_view where
  "sample_view =
     \<lparr>lv_canonicalize = (\<lambda>p. Some p), lv_exists = (\<lambda>p. True),
      lv_open = (\<lambda>p. Inr \<lparr>lf_len = 3, lf_bytes = ''abc'', lf_modified = None, lf_meta_error = None,
                        lf_seek_error = None\<rparr>),
      lv_launch = (\<lambda>p. None)\<rparr>"

definition offline_net :: "nat net" where
  "offline_net =
     \<lparr>net_send = (\<lambda>k q w. (w + 1, Inl (ConnectError ''offline''))),
      net_plain = (\<lambda>q w. (w + 1, Inl (ConnectError ''offline''))),
      net_join = (\<lambda>a b. Inr (a @ b)), net_parse = (\<lambda>t. Inl ''not JSON''), net_status = show_nat,
      net_base64 = (\<lambda>t. Inl ''invalid'')\<rparr>"

definition sample_web_env :: "(nat, (string, json) hmap) web_env" where
  "sample_web_env =
     \<lparr>we_net = offline_net, we_engine = mem_engine, we_hash = sample_digest, we_local = sample_view\<rparr>"

definition sample_file_rel :: sync_relationship where
  "sample_file_rel =
     \<lparr>sr_id = ''r'', sr_name = ''docs'', sr_remote_connection_id = ''c'', sr_remote_path = ''/docs/'',
      sr_local_path = ''/d'', sr_direction = Bidirectional, sr_filter = None,
      sr_delete_propagation = default_delete_propagation, sr_enabled = True, sr_created_at = 1,
      sr_updated_at = 1\<rparr>"

definition sample_file_conn :: remote_connection where
  "sample_file_conn =
     \<lparr>rc_id = ''c'', rc_name = ''home'', rc_url = ''http://host'', rc_auth_type = AuthNone,
      rc_api_key = None, rc_share_base_url = None, rc_created_at = 1, rc_updated_at = 1\<rparr>"

definition sample_web :: "(nat, (string, json) hmap) web" where
  "sample_web =
     \<lparr>wb_world = 0, wb_tokens = [],
      wb_config = \<lparr>cs_config = default_config\<lparr>cc_connections := [sample_file_conn],
         cc_relationships := [sample_file_rel]\<rparr>, cs_file = None\<rparr>,
      wb_store = []\<rparr>"

lemma served_files_are_inside_witness:
  "serve_file (sample_web_env\<lparr>we_local := sample_view\<lparr>lv_open :=
        (\<lambda>x. if path_starts_with x ''/d'' then lv_open sample_view x else Inl ''denied'')\<rparr>\<rparr>)
      ''r'' ''a.txt'' None None sample_web =
    serve_file (sample_web_env\<lparr>we_local := sample_view\<rparr>) ''r'' ''a.txt'' None None sample_web"
proof (rule served_files_are_inside)
  show "relationship_get ''r'' (wb_config sample_web) = Some sample_file_rel"
    by (simp add: relationship_get_def config_get_def sample_web_def sample_file_rel_def)
  show "lv_canonicalize sample_view (sr_local_path sample_file_rel) = Some ''/d''"
    by (simp add: sample_view_def sample_file_rel_def)
qed (simp_all add: sample_view_def)

text \<open>The prefix is stripped without looking at the end of a segment: a sibling's path loses its
  directory.\<close>

lemma strip_ignores_segments:
  "strip_remote_prefix sample_file_rel ''/docs2/x'' = ''2/x'' \<and>
   \<not> path_is_under_remote_root sample_file_rel ''/docs2/x''"
  by code_simp

text \<open>Browsing probes for local files without the check of the other handlers.\<close>

lemma browse_probes_outside:
  "lv_exists (we_local env) ''/d/../etc/passwd'' \<Longrightarrow>
    be_has_local (browse_item env e sample_file_rel ''r'' ''../etc'' p ms (entry\<lparr>re_name := ''passwd''\<rparr>))"
  by (simp add: browse_item_def Let_def path_join_def sample_file_rel_def)

text \<open>C17. A request for the bytes from \<open>a\<close> to \<open>b\<close> of a file is answered with exactly these bytes, as far as
  the file has them; and every answer for a local file announces the length of its body and, when it
  is partial, the slice it holds.\<close>

theorem ranges_are_answered_exactly:
  assumes "lv_open v lp = Inr f" "lf_len f = length (lf_bytes f)" "serve_local_file v lp p h = Inr r"
  shows "hget (wr_headers r) ''content-length'' = Some (show_nat (length (wr_body r))) \<and>
    wr_status r \<in> {200, 206, 416} \<and> (wr_status r = 200 \<longrightarrow> wr_body r = lf_bytes f) \<and>
    (\<forall>a b. h = Some (bytes_header a b) \<and> a \<le> b \<and> a < length (lf_bytes f) \<and> b \<le> u64_max \<longrightarrow>
       wr_status r = 206 \<and> wr_body r = drop a (take (b + 1) (lf_bytes f)))"
proof -
  have slice: "wr_status r = 206 \<and> wr_body r = drop a (take (b + 1) (lf_bytes f))"
    if "h = Some (bytes_header a b)" "a \<le> b" "a < length (lf_bytes f)" "b \<le> u64_max" for a b
  proof -
    let ?n = "length (lf_bytes f)"
    have rng: "parse_byte_range h ?n = Some (Some \<lparr>br_start = a, br_end = min b (?n - 1)\<rparr>)"
      using that by (simp add: requested_range)
    have "lf_meta_error f = None \<and> lf_seek_error f = None"
      using assms rng by (auto simp: serve_local_file_def Let_def split: option.splits)
    then have r: "wr_status r = 206 \<and> wr_body r = take (min b (?n - 1) - a + 1) (drop a (lf_bytes f))"
      using assms rng by (auto simp: serve_local_file_def Let_def byte_range_len_def)
    have "take (min b (?n - 1) - a + 1) (drop a (lf_bytes f)) = drop a (take (b + 1) (lf_bytes f))"
    proof (cases "b < ?n")
      case True
      with that(2) show ?thesis by (simp add: drop_take min_def Suc_diff_le)
    next
      case False
      with that(3) show ?thesis by (simp add: min_def) arith
    qed
    with r show ?thesis by simp
  qed
  from served_headers [OF assms(3,1,2)] slice show ?thesis by blast
qed

lemma ranges_are_answered_exactly_witness:
  "wr_body (case serve_local_file sample_view ''/d/a.txt'' ''a.txt'' (Some (bytes_header 1 9)) of
      Inr r \<Rightarrow> r | Inl _ \<Rightarrow> \<lparr>wr_status = 0, wr_headers = [], wr_body = []\<rparr>) = ''bc''"
proof -
  let ?f = "\<lparr>lf_len = 3, lf_bytes = ''abc'', lf_modified = None, lf_meta_error = None,
    lf_seek_error = None\<rparr> :: local_file"
  have o: "lv_open sample_view ''/d/a.txt'' = Inr ?f" by (simp add: sample_view_def)
  have "\<exists>r. serve_local_file sample_view ''/d/a.txt'' ''a.txt'' (Some (bytes_header 1 9)) = Inr r"
    by (simp add: serve_local_file_def o Let_def split: option.split)
  then obtain r where r:
    "serve_local_file sample_view ''/d/a.txt'' ''a.txt'' (Some (bytes_header 1 9)) = Inr r" by blast
  note answer = ranges_are_answered_exactly [OF o _ r, THEN conjunct2, THEN conjunct2, THEN conjunct2]
  have "wr_body r = drop 1 (take (9 + 1) (lf_bytes ?f))"
    using answer [rule_format, of 1 9] by (simp add: u64_max_def)
  with r show ?thesis by simp
qed

end
