(* ===== verification/Push_Refinement.thy ===== *)
theory Push_Refinement
  imports Push_Spec "HOL-Library.Multiset"
begin

text \<open>
  What a push delivers.  The server is seen as a tree from remote paths to the contents of files;
  this theory states what the push relies on (\<open>push_setting\<close>) and follows the sending of a batch,
  by either protocol, and the processing of the prepared files: whichever of them were skipped,
  moved, batched, sent in chunks or whole, and in whatever order the workers finished, each is on
  the server when nothing failed.  Theory Push_Tree goes on to the whole push.
\<close>

section \<open>Local contents\<close>

definition file_content :: "local_fs \<Rightarrow> string \<Rightarrow> string option" where
  "file_content fs path =
     (case lf_open fs path push_file_read_buffer of
        Inl e \<Rightarrow> None | Inr reads \<Rightarrow> map_option concat (blocks_of reads))"

text \<open>The hash recorded for a file that waits to be sent is that of its content.\<close>

definition file_true :: "(string \<Rightarrow> string) \<Rightarrow> local_fs \<Rightarrow> pending_push_file \<Rightarrow> bool" where
  "file_true hash fs f \<longleftrightarrow>
     (\<exists>c. file_content fs (pf_local_path f) = Some c \<and> hash c = pf_content_hash f)"

lemma prepare_true:
  assumes "prepare_push_file hash fs r = Inr p"
  shows "file_true hash fs (pp_file p)" and "pf_remote_path (pp_file p) = pr_remote_path r"
    and "pf_local_path (pp_file p) = pr_entry_path r" and "pp_request p = r"
proof -
  obtain reads fed n where "lf_open fs (pr_entry_path r) push_file_read_buffer = Inr reads"
    "read_all reads [] 0 = Inr (fed, n)" "pf_content_hash (pp_file p) = hash fed"
    and paths: "pf_local_path (pp_file p) = pr_entry_path r"
    using assms
    by (cases "lf_open fs (pr_entry_path r) push_file_read_buffer")
      (auto simp: prepare_push_file_def hash_file_content_def and_then_Inr map_err_def split: sum.splits)
  with read_all_blocks [of reads "[]" 0 fed n]
  show "file_true hash fs (pp_file p)"
    by (auto simp: file_true_def file_content_def)
  show "pf_remote_path (pp_file p) = pr_remote_path r" "pp_request p = r"
    "pf_local_path (pp_file p) = pr_entry_path r"
    using assms paths by (auto simp: prepare_push_file_def and_then_Inr)
qed

section \<open>What the push relies on\<close>

text \<open>
  The server, seen through the contents of its files (\<open>tree\<close>) and its chunks (\<open>store\<close>): requests
  that only ask change neither; chunks are kept, and only under their hash; a commit gives each file the
  concatenation of its chunks; and a request that fails has changed nothing but the paths it names.
\<close>

type_synonym 'w server_view = "'w \<Rightarrow> string \<Rightarrow> string option"

definition asks_only :: "'w server_view \<Rightarrow> 'w server_view \<Rightarrow> ('w \<Rightarrow> 'w) \<Rightarrow> bool" where
  "asks_only tree store f \<longleftrightarrow> (\<forall>w. tree (f w) = tree w \<and> store (f w) = store w)"

definition changes_only :: "'w server_view \<Rightarrow> string set \<Rightarrow> 'w \<Rightarrow> 'w \<Rightarrow> bool" where
  "changes_only tree ps w w' \<longleftrightarrow> (\<forall>p. p \<notin> ps \<longrightarrow> tree w' p = tree w p)"

definition law_questions :: "'w remote_ops \<Rightarrow> 'w server_view \<Rightarrow> 'w server_view \<Rightarrow> bool" where
  "law_questions ro tree store \<longleftrightarrow>
     asks_only tree store (\<lambda>w. fst (ro_blob_config ro w)) \<and>
     (\<forall>hs. asks_only tree store (\<lambda>w. fst (ro_blob_check ro hs w))) \<and>
     (\<forall>p. asks_only tree store (\<lambda>w. fst (ro_symlink_target ro p w))) \<and>
     (\<forall>b p h. asks_only tree store (\<lambda>w. fst (ro_has_content_hash ro b p h w)))"

definition law_chunks ::
  "'w remote_ops \<Rightarrow> (string \<Rightarrow> string) \<Rightarrow> string \<Rightarrow> 'w server_view \<Rightarrow> 'w server_view \<Rightarrow> bool" where
  "law_chunks ro hash pre tree store \<longleftrightarrow>
     (\<forall>w h b. store w h = Some b \<longrightarrow> chunk_hash hash pre b = h) \<and>
     (\<forall>hs w w' r. ro_blob_check ro hs w = (w', Inr r) \<longrightarrow>
        (\<forall>h\<in>set hs. h \<in> set (bcr_needed r) \<or> store w h \<noteq> None)) \<and>
     (\<forall>h b w. tree (fst (ro_upload_chunk ro h b w)) = tree w \<and>
        store w \<subseteq>\<^sub>m store (fst (ro_upload_chunk ro h b w))) \<and>
     (\<forall>h b w w' u. ro_upload_chunk ro h b w = (w', Inr u) \<longrightarrow> store w' h \<noteq> None)"

definition committed :: "(string \<Rightarrow> string option) \<Rightarrow> commit_file list \<Rightarrow>
    (string \<Rightarrow> string option) \<Rightarrow> string \<Rightarrow> string option" where
  "committed chunks files =
     fold (\<lambda>f t. t(cf_path f \<mapsto> concat (map (the \<circ> chunks) (cf_chunks f)))) files"

definition law_files ::
  "'w remote_ops \<Rightarrow> 'w server_view \<Rightarrow> 'w server_view \<Rightarrow> bool" where
  "law_files ro tree store \<longleftrightarrow>
     (\<forall>fs w w' v. ro_blob_commit ro fs w = (w', Inr v) \<longrightarrow> tree w' = committed (store w) fs (tree w)) \<and>
     (\<forall>fs w. changes_only tree (cf_path ` set fs) w (fst (ro_blob_commit ro fs w))) \<and>
     (\<forall>p c t w w' u. ro_upload_file ro p (StreamBody c) t w = (w', Inr u) \<longrightarrow> tree w' = (tree w)(p \<mapsto> c)) \<and>
     (\<forall>p b t w. changes_only tree {p} w (fst (ro_upload_file ro p b t w))) \<and>
     (\<forall>p w w' u. ro_delete_file ro p w = (w', Inr u) \<longrightarrow> tree w' = (tree w)(p := None)) \<and>
     (\<forall>p w. changes_only tree {p} w (fst (ro_delete_file ro p w))) \<and>
     (\<forall>p t w. changes_only tree {p} w (fst (ro_create_symlink ro p t w)))"

definition law_moves ::
  "'w remote_ops \<Rightarrow> (string \<Rightarrow> string) \<Rightarrow> 'w server_view \<Rightarrow> bool" where
  "law_moves ro hash tree \<longleftrightarrow>
     (\<forall>b p h w w'. ro_has_content_hash ro b p h w = (w', Inr True) \<longrightarrow>
        (\<exists>c. tree w p = Some c \<and> hash c = h)) \<and>
     (\<forall>p q w w' u. ro_rename_file ro p q w = (w', Inr u) \<longrightarrow>
        tree w' = (tree w)(p := None, q := tree w p)) \<and>
     (\<forall>p q w. changes_only tree {p, q} w (fst (ro_rename_file ro p q w)))"

text \<open>
  Where the push runs: the local files do not change meanwhile, a whole file is streamed as it is
  read, the hash has no collisions, and the orders of the workers are permutations.
\<close>

definition push_setting ::
  "'w push_env \<Rightarrow> string \<Rightarrow> local_fs \<Rightarrow> scan_fs \<Rightarrow> 'w server_view \<Rightarrow> 'w server_view \<Rightarrow> bool" where
  "push_setting env pre fs sfs tree store \<longleftrightarrow>
     (\<forall>w. pe_fs env w = fs \<and> pe_scan env w = sfs) \<and>
     (\<forall>p c. sf_stream sfs p = Inr c \<longrightarrow> file_content fs p = Some c) \<and>
     inj (pe_hash env) \<and>
     (\<forall>w w' c. ro_blob_config (pe_remote env) w = (w', Inr c) \<longrightarrow> bc_chunk_hash_prefix c = pre) \<and>
     (\<forall>cs. set (pe_order env cs) = set cs) \<and> (\<forall>rs. mset (pe_prep_order env rs) = mset rs) \<and>
     (\<forall>ls. set (pe_link_order env ls) = set ls) \<and>
     law_questions (pe_remote env) tree store \<and> law_chunks (pe_remote env) (pe_hash env) pre tree store \<and>
     law_files (pe_remote env) tree store \<and> law_moves (pe_remote env) (pe_hash env) tree"

lemma setting_fs:
  assumes "push_setting env pre fs sfs tree store"
  shows "pe_fs env w = fs" "pe_scan env w = sfs" "sf_stream sfs p = Inr c \<Longrightarrow> file_content fs p = Some c"
    "inj (pe_hash env)" "set (pe_order env cs) = set cs" "mset (pe_prep_order env rs) = mset rs"
    "set (pe_link_order env ls) = set ls"
    "ro_blob_config (pe_remote env) w = (w', Inr config) \<Longrightarrow> bc_chunk_hash_prefix config = pre"
  using assms unfolding push_setting_def by blast+

lemma setting_questions:
  assumes "push_setting env pre fs sfs tree store"
  shows "tree (fst (ro_blob_config (pe_remote env) w)) = tree w"
    "tree (fst (ro_blob_check (pe_remote env) hs w)) = tree w"
    "store (fst (ro_blob_check (pe_remote env) hs w)) = store w"
    "tree (fst (ro_symlink_target (pe_remote env) p w)) = tree w"
    "tree (fst (ro_has_content_hash (pe_remote env) b p h w)) = tree w"
  using assms unfolding push_setting_def law_questions_def asks_only_def by blast+

lemma setting_chunks:
  assumes "push_setting env pre fs sfs tree store"
  shows "store w h = Some b \<Longrightarrow> chunk_hash (pe_hash env) pre b = h"
    "ro_blob_check (pe_remote env) hs w = (w', Inr r) \<Longrightarrow> g \<in> set hs \<Longrightarrow>
       g \<in> set (bcr_needed r) \<or> store w g \<noteq> None"
    "tree (fst (ro_upload_chunk (pe_remote env) h b w)) = tree w"
    "store w \<subseteq>\<^sub>m store (fst (ro_upload_chunk (pe_remote env) h b w))"
    "ro_upload_chunk (pe_remote env) h b w = (w', Inr u) \<Longrightarrow> store w' h \<noteq> None"
  using assms unfolding push_setting_def law_chunks_def by blast+

lemma setting_files:
  assumes "push_setting env pre fs sfs tree store"
  shows "ro_blob_commit (pe_remote env) cfs w = (w', Inr v) \<Longrightarrow> tree w' = committed (store w) cfs (tree w)"
    "p \<notin> cf_path ` set cfs \<Longrightarrow> tree (fst (ro_blob_commit (pe_remote env) cfs w)) p = tree w p"
    "ro_upload_file (pe_remote env) q (StreamBody c) t w = (w', Inr u) \<Longrightarrow> tree w' = (tree w)(q \<mapsto> c)"
    "p \<noteq> q \<Longrightarrow> tree (fst (ro_upload_file (pe_remote env) q body t w)) p = tree w p"
    "ro_delete_file (pe_remote env) q w = (w', Inr d) \<Longrightarrow> tree w' = (tree w)(q := None)"
    "p \<noteq> q \<Longrightarrow> tree (fst (ro_delete_file (pe_remote env) q w)) p = tree w p"
    "p \<noteq> q \<Longrightarrow> tree (fst (ro_create_symlink (pe_remote env) q target w)) p = tree w p"
proof -
  have laws: "law_files (pe_remote env) tree store" using assms by (simp add: push_setting_def)
  show "ro_blob_commit (pe_remote env) cfs w = (w', Inr v) \<Longrightarrow> tree w' = committed (store w) cfs (tree w)"
    using laws unfolding law_files_def by (elim conjE) (erule allE, erule allE, erule allE, erule allE, erule mp)
  show "ro_upload_file (pe_remote env) q (StreamBody c) t w = (w', Inr u) \<Longrightarrow> tree w' = (tree w)(q \<mapsto> c)"
    using laws unfolding law_files_def by metis
  show "ro_delete_file (pe_remote env) q w = (w', Inr d) \<Longrightarrow> tree w' = (tree w)(q := None)"
    using laws unfolding law_files_def by metis
qed (use assms in \<open>simp_all add: push_setting_def law_files_def changes_only_def\<close>)

lemma setting_moves:
  assumes "push_setting env pre fs sfs tree store"
  shows "ro_has_content_hash (pe_remote env) b p h w = (w', Inr True) \<Longrightarrow> \<exists>c. tree w p = Some c \<and> pe_hash env c = h"
    "ro_rename_file (pe_remote env) p q w = (w', Inr u) \<Longrightarrow> tree w' = (tree w)(p := None, q := tree w p)"
    "r \<noteq> p \<Longrightarrow> r \<noteq> q \<Longrightarrow> tree (fst (ro_rename_file (pe_remote env) p q w)) r = tree w r"
  using assms unfolding push_setting_def law_moves_def changes_only_def by blast+

section \<open>Sending a batch\<close>

definition delivered :: "(string \<Rightarrow> string) \<Rightarrow> (string \<Rightarrow> string option) \<Rightarrow> pending_push_file \<Rightarrow> bool" where
  "delivered hash T f \<longleftrightarrow> (\<exists>c. T (pf_remote_path f) = Some c \<and> hash c = pf_content_hash f)"

abbreviation paths_of :: "pending_push_file list \<Rightarrow> string set" where
  "paths_of files \<equiv> pf_remote_path ` set files"

text \<open>Whole files.\<close>

lemma direct_put_one_sends:
  assumes set: "push_setting env pre fs sfs tree store" and true: "file_true (pe_hash env) fs f"
    and run: "direct_put_one env f w = (w', r)"
  shows "p \<noteq> pf_remote_path f \<Longrightarrow> tree w' p = tree w p"
    and "r = Inr u \<Longrightarrow> delivered (pe_hash env) (tree w') f"
proof -
  let ?up = "ro_upload_file (pe_remote env) (pf_remote_path f)"
  have "w' = fst (direct_put_one env f w)" using run by simp
  then show "p \<noteq> pf_remote_path f \<Longrightarrow> tree w' p = tree w p"
    by (simp add: direct_put_one_def setting_files(4) [OF set] split: sum.split)
  assume "r = Inr u"
  with run obtain c where c: "sf_stream sfs (pf_local_path f) = Inr c"
    and up: "?up (StreamBody c) (pf_content_type f) w = (w', Inr u)"
    by (auto simp: direct_put_one_def setting_fs(2) [OF set] split: sum.splits)
  from setting_files(3) [OF set up] setting_fs(3) [OF set c] true
  show "delivered (pe_hash env) (tree w') f" by (auto simp: delivered_def file_true_def)
qed

lemma direct_puts_keep:
  assumes set: "push_setting env pre fs sfs tree store"
  shows "p \<notin> paths_of files \<Longrightarrow> \<forall>f\<in>set files. file_true (pe_hash env) fs f \<Longrightarrow>
    tree (fst (for_each (direct_put_one env) files w)) p = tree w p"
proof (induction files arbitrary: w)
  case (Cons f files)
  obtain w1 r1 where one: "direct_put_one env f w = (w1, r1)" by force
  have "tree w1 p = tree w p" using direct_put_one_sends(1) [OF set _ one] Cons.prems by simp
  with Cons one show ?case by (cases r1) simp_all
qed simp

lemma direct_puts_send:
  assumes set: "push_setting env pre fs sfs tree store"
  shows "for_each (direct_put_one env) files w = (w', Inr u) \<Longrightarrow> distinct (map pf_remote_path files) \<Longrightarrow>
    \<forall>f\<in>set files. file_true (pe_hash env) fs f \<Longrightarrow> \<forall>f\<in>set files. delivered (pe_hash env) (tree w') f"
proof (induction files arbitrary: w)
  case (Cons f files)
  obtain w1 r1 where one: "direct_put_one env f w = (w1, r1)" by force
  with Cons.prems(1) obtain u1 where r1: "r1 = Inr u1" and rest: "for_each (direct_put_one env) files w1 = (w', Inr u)"
    by (cases r1) auto
  have "delivered (pe_hash env) (tree w1) f"
    using direct_put_one_sends(2) [OF set _ one r1] Cons.prems(3) by simp
  moreover have "tree w' (pf_remote_path f) = tree w1 (pf_remote_path f)"
    using direct_puts_keep [OF set, of "pf_remote_path f" files w1] rest Cons.prems(2,3) by simp
  ultimately have "delivered (pe_hash env) (tree w') f" by (simp add: delivered_def)
  with Cons.IH [OF rest] Cons.prems(2,3) show ?case by simp
qed simp

text \<open>Chunks.\<close>

lemma upload_one_keeps:
  assumes "push_setting env pre fs sfs tree store" "upload_one env config c w = (w', r)"
  shows "tree w' = tree w" "store w \<subseteq>\<^sub>m store w'" "r = Inr u \<Longrightarrow> store w' (pc_hash c) \<noteq> None"
proof -
  have w': "w' = fst (upload_one env config c w)" using assms(2) by simp
  show "tree w' = tree w" "store w \<subseteq>\<^sub>m store w'"
    unfolding w' by (simp_all add: upload_one_def setting_chunks(3,4) [OF assms(1)] split: sum.split)
  assume "r = Inr u"
  with assms(2) obtain bytes where "ro_upload_chunk (pe_remote env) (pc_hash c) bytes w = (w', Inr u)"
    by (auto simp: upload_one_def split: sum.splits)
  then show "store w' (pc_hash c) \<noteq> None" by (rule setting_chunks(5) [OF assms(1)])
qed

lemma uploads_store:
  assumes set: "push_setting env pre fs sfs tree store"
  shows "for_each (upload_one env config) cs w = (w', r) \<Longrightarrow> tree w' = tree w \<and> store w \<subseteq>\<^sub>m store w' \<and>
    (r = Inr () \<longrightarrow> (\<forall>c\<in>set cs. store w' (pc_hash c) \<noteq> None))"
proof (induction cs arbitrary: w)
  case (Cons c cs)
  obtain w1 r1 where one: "upload_one env config c w = (w1, r1)" by force
  note keep = upload_one_keeps [OF set one]
  show ?case
  proof (cases r1)
    case (Inl e)
    with Cons.prems one keep show ?thesis by auto
  next
    case (Inr u1)
    with Cons.prems one have "for_each (upload_one env config) cs w1 = (w', r)" by simp
    note rest = Cons.IH [OF this]
    have mono: "store w \<subseteq>\<^sub>m store w'" using keep(2) rest map_le_trans by blast
    have "store w' (pc_hash c) \<noteq> None" using keep(3) [OF Inr] rest by (metis domIff map_le_def)
    with rest keep(1) mono show ?thesis by simp
  qed
qed simp

lemma committed_other: "p \<notin> cf_path ` set files \<Longrightarrow> committed ch files T p = T p"
  unfolding committed_def by (induction files arbitrary: T) auto

lemma committed_path:
  "distinct (map cf_path files) \<Longrightarrow> f \<in> set files \<Longrightarrow>
    committed ch files T (cf_path f) = Some (concat (map (the \<circ> ch) (cf_chunks f)))"
proof (induction files arbitrary: T)
  case (Cons g files)
  show ?case
  proof (cases "f = g")
    case True
    with Cons.prems committed_other [of "cf_path g" files ch] show ?thesis by (auto simp: committed_def comp_def)
  next
    case False
    with Cons show ?thesis by (simp add: committed_def)
  qed
qed simp

lemma check_needed_keeps:
  assumes set: "push_setting env pre fs sfs tree store" and run: "check_needed env hs w = (w', r)"
  shows "tree w' = tree w" and "store w' = store w"
    and "r = Inr needed \<Longrightarrow> h \<in> set hs \<Longrightarrow> h \<in> set needed \<or> store w h \<noteq> None"
proof -
  have w': "w' = fst (check_needed env hs w)" using run by simp
  obtain w1 a where ask: "ro_blob_check (pe_remote env) hs w = (w1, a)" by force
  show "tree w' = tree w" "store w' = store w"
    unfolding w' using setting_questions(2,3) [OF set, of hs w] ask
    by (cases a; simp add: check_needed_def)+
  assume r: "r = Inr needed" and h: "h \<in> set hs"
  with run ask obtain c where "a = Inr c" "needed = bcr_needed c"
    by (cases a) (auto simp: check_needed_def split: if_splits)
  with setting_chunks(2) [OF set _ h] ask show "h \<in> set needed \<or> store w h \<noteq> None" by simp
qed

text \<open>The commit of a planned batch gives every file its content.\<close>

lemma commit_delivers:
  assumes set: "push_setting env (bc_chunk_hash_prefix config) fs sfs tree store"
    and plan: "plan_push_batch (pe_hash env) fs available config files = Inr plan"
    and there: "\<forall>h\<in>set (bp_unique_hashes plan). store w h \<noteq> None"
    and distinct: "distinct (map pf_remote_path files)" and f: "f \<in> set files"
  shows "delivered (pe_hash env) (committed (store w) (bp_commit_files plan) T) f"
proof -
  let ?pre = "bc_chunk_hash_prefix config"
  from plan_commit_files [OF plan] obtain fps
    where fps: "plan_files (pe_hash env) fs config files = Inr fps"
    and commit: "bp_commit_files plan = map (\<lambda>(f, p). commit_file_of f (pl_chunk_hashes p)) fps" .
  from plan_files_each [OF fps] f obtain p where p: "(f, p) \<in> set fps"
    "plan_file_chunks (pe_hash env) fs config f = Inr p"
    by (auto simp: list_all2_conv_all_nth in_set_conv_nth) (metis prod.collapse)
  let ?cf = "commit_file_of f (pl_chunk_hashes p)"
  have cf: "?cf \<in> set (bp_commit_files plan)" using p(1) by (force simp: commit)
  note covers = plan_covers [OF plan]
  from p(2) obtain bs where hashes: "pl_chunk_hashes p = map (chunk_hash (pe_hash env) ?pre) bs"
    and content: "pe_hash env (concat bs) = pf_content_hash f"
    by (rule plan_file_spec)
  have "the (store w (chunk_hash (pe_hash env) ?pre b)) = b" if "b \<in> set bs" for b
  proof -
    have "chunk_hash (pe_hash env) ?pre b \<in> set (bp_unique_hashes plan)"
      using covers cf that by (auto simp: commit_file_of_def hashes intro!: bexI [of _ ?cf])
    with there obtain b' where b': "store w (chunk_hash (pe_hash env) ?pre b) = Some b'" by auto
    have "pe_hash env (?pre @ b') = pe_hash env (?pre @ b)"
      using setting_chunks(1) [OF set b'] by (simp add: chunk_hash_def)
    then have "b' = b" using injD [OF setting_fs(4) [OF set]] by blast
    with b' show ?thesis by simp
  qed
  then have "map (the \<circ> store w) (cf_chunks ?cf) = bs"
    by (simp add: commit_file_of_def hashes map_idI)
  moreover have "distinct (map cf_path (bp_commit_files plan))" using covers distinct by simp
  ultimately have "committed (store w) (bp_commit_files plan) T (cf_path ?cf) = Some (concat bs)"
    using committed_path [OF _ cf, of "store w" T] by simp
  with content show ?thesis by (simp add: delivered_def commit_file_of_def)
qed

text \<open>After the check and the uploads the server has every chunk of the plan.\<close>

lemma chunks_there:
  assumes set: "push_setting env pre fs sfs tree store"
    and plan: "plan_push_batch (pe_hash env) fs available config files = Inr plan"
    and check: "check_needed env (bp_unique_hashes plan) w = (w1, Inr needed)"
    and up: "for_each (upload_one env config) (pe_order env (chunks_to_send plan needed)) w1 = (w2, Inr u)"
    and h: "h \<in> set (bp_unique_hashes plan)"
  shows "store w2 h \<noteq> None"
proof (cases "h \<in> set needed")
  case False
  with check_needed_keeps(2,3) [OF set check] h have "store w1 h \<noteq> None" by auto
  with uploads_store [OF set up] show ?thesis by (metis domIff map_le_def)
next
  case True
  from h plan_covers [OF plan] obtain ref where ref: "(h, ref) \<in> set (bp_upload_chunks plan)" "pc_hash ref = h"
    by (smt (verit) case_prodD imageE list.set_map prod.collapse)
  with True have "ref \<in> set (pe_order env (chunks_to_send plan needed))"
    by (force simp: setting_fs(5) [OF set] chunks_to_send_def)
  with uploads_store [OF set up] ref(2) show ?thesis by auto
qed

lemma send_plan_keeps:
  assumes set: "push_setting env pre fs sfs tree store"
    and plan: "plan_push_batch (pe_hash env) fs available config files = Inr plan"
    and run: "send_plan env config files plan w = (w', r)" and p: "p \<notin> paths_of files"
  shows "tree w' p = tree w p"
proof -
  have paths: "cf_path ` set (bp_commit_files plan) = paths_of files"
    using plan_covers [OF plan] by (metis list.set_map)
  have "tree (fst (send_plan env config files plan w)) p = tree w p"
    unfolding send_plan_def Let_def
  proof (rule then_st_inv [where P = "\<lambda>v. tree v p = tree w p"])
    show "tree (fst (check_needed env (bp_unique_hashes plan) w)) p = tree w p"
      using check_needed_keeps(1) [OF set, of "bp_unique_hashes plan" w] by (metis prod.collapse)
  next
    fix w1 needed
    assume w1: "tree w1 p = tree w p"
    let ?ups = "for_each (upload_one env config) (pe_order env (chunks_to_send plan needed)) w1"
    have "tree (fst ?ups) = tree w1" using uploads_store [OF set] by (metis prod.collapse)
    with w1 show "tree (fst (then_st ?ups (\<lambda>w2 _. then_st (ro_blob_commit (pe_remote env) (bp_commit_files plan) w2)
        (\<lambda>w3 _. (w3, Inr \<lparr>us_strategy = ChunkedBlob, us_files = length files,
          us_total_file_bytes = sum_list (map pf_file_size files), us_checked_chunks = length (bp_unique_hashes plan),
          us_uploaded_chunks = length (pe_order env (chunks_to_send plan needed)),
          us_uploaded_bytes = sum_list (map pc_len (pe_order env (chunks_to_send plan needed)))\<rparr>))))) p = tree w p"
      by (intro then_st_inv [where P = "\<lambda>v. tree v p = tree w p"])
        (simp_all add: setting_files(2) [OF set] paths p)
  qed
  with run show ?thesis by simp
qed

lemma send_plan_sends:
  assumes set: "push_setting env (bc_chunk_hash_prefix config) fs sfs tree store"
    and plan: "plan_push_batch (pe_hash env) fs available config files = Inr plan"
    and distinct: "distinct (map pf_remote_path files)"
    and run: "send_plan env config files plan w = (w', Inr u)" and f: "f \<in> set files"
  shows "delivered (pe_hash env) (tree w') f"
proof -
  from run obtain w1 needed w2 u2 v where check: "check_needed env (bp_unique_hashes plan) w = (w1, Inr needed)"
    and up: "for_each (upload_one env config) (pe_order env (chunks_to_send plan needed)) w1 = (w2, Inr u2)"
    and commit: "ro_blob_commit (pe_remote env) (bp_commit_files plan) w2 = (w', Inr v)"
    by (auto simp: send_plan_def Let_def then_st_Inr)
  from setting_files(1) [OF set commit] have "tree w' = committed (store w2) (bp_commit_files plan) (tree w2)" .
  with commit_delivers [OF set plan _ distinct f, of w2 "tree w2"] chunks_there [OF set plan check up]
  show ?thesis by simp
qed

text \<open>A batch, by either protocol.\<close>

lemma batch_sends:
  assumes set: "push_setting env (bc_chunk_hash_prefix config) fs sfs tree store"
    and true: "\<forall>f\<in>set files. file_true (pe_hash env) fs f" and distinct: "distinct (map pf_remote_path files)"
    and run: "push_batch_via_chunks env config files w = (w', r)"
  shows "p \<notin> paths_of files \<Longrightarrow> tree w' p = tree w p"
    and "r = Inr u \<Longrightarrow> f \<in> set files \<Longrightarrow> delivered (pe_hash env) (tree w') f"
proof -
  have direct: "(p \<notin> paths_of files \<longrightarrow> tree w' p = tree w p) \<and>
      (r = Inr u \<longrightarrow> f \<in> set files \<longrightarrow> delivered (pe_hash env) (tree w') f)"
    if "push_batch_via_direct_file_put env files w = (w', r)"
  proof -
    obtain w1 a where puts: "for_each (direct_put_one env) files w = (w1, a)" by force
    with that have "w' = w1" "r = Inr u \<Longrightarrow> a = Inr ()"
      by (cases a; simp add: push_batch_via_direct_file_put_def)+
    with direct_puts_keep [OF set _ true, of p w] direct_puts_send [OF set, of files w w1] puts true distinct
    show ?thesis by auto
  qed
  have "(p \<notin> paths_of files \<longrightarrow> tree w' p = tree w p) \<and>
      (r = Inr u \<longrightarrow> f \<in> set files \<longrightarrow> delivered (pe_hash env) (tree w') f)"
  proof (cases "plan_push_batch (pe_hash env) fs (pe_available env) config files")
    case (Inl e)
    with run direct show ?thesis
      by (auto simp: push_batch_via_chunks_def setting_fs(1) [OF set] split: if_splits)
  next
    case (Inr plan)
    with run direct send_plan_keeps [OF set Inr, of w w' r p] send_plan_sends [OF set Inr distinct, of w w' u f] show ?thesis
      by (auto simp: push_batch_via_chunks_def setting_fs(1) [OF set] split: if_splits)
  qed
  then show "p \<notin> paths_of files \<Longrightarrow> tree w' p = tree w p"
    "r = Inr u \<Longrightarrow> f \<in> set files \<Longrightarrow> delivered (pe_hash env) (tree w') f" by blast+
qed

section \<open>The invariant of the processing\<close>

text \<open>A request is settled when the server has its file, and waits when the pending batch has it.\<close>

definition settled :: "local_fs \<Rightarrow> (string \<Rightarrow> string option) \<Rightarrow> push_prep_request \<Rightarrow> bool" where
  "settled fs T r \<longleftrightarrow>
     (\<exists>c. file_content fs (pr_entry_path r) = Some c \<and> T (pr_remote_path r) = Some c)"

definition waiting :: "push_batch \<Rightarrow> push_prep_request \<Rightarrow> bool" where
  "waiting b r \<longleftrightarrow>
     (\<exists>f\<in>set (pb_files b). pf_remote_path f = pr_remote_path r \<and> pf_local_path f = pr_entry_path r)"

text \<open>The files of the batch are those of requests of \<open>D\<close>, with their recorded hashes.\<close>

definition batch_true ::
  "(string \<Rightarrow> string) \<Rightarrow> local_fs \<Rightarrow> push_prep_request set \<Rightarrow> push_batch \<Rightarrow> bool" where
  "batch_true hash fs D b \<longleftrightarrow>
     (\<forall>f\<in>set (pb_files b). file_true hash fs f \<and>
        (\<exists>r\<in>D. pf_remote_path f = pr_remote_path r \<and> pf_local_path f = pr_entry_path r)) \<and>
     distinct (map pf_remote_path (pb_files b))"

text \<open>After the requests \<open>D\<close>, when only paths of \<open>U\<close> have been touched.\<close>

definition progress ::
  "'w push_env \<Rightarrow> local_fs \<Rightarrow> 'w server_view \<Rightarrow> (string \<Rightarrow> string option) \<Rightarrow> push_prep_request set \<Rightarrow>
     string set \<Rightarrow> ('w, 'e) push_state \<Rightarrow> bool" where
  "progress env fs tree T0 D U st \<longleftrightarrow>
     pr_remote_path ` D \<subseteq> U \<and> inj_on pr_remote_path D \<and> batch_true (pe_hash env) fs D (ps_batch st) \<and>
     (\<forall>r\<in>D. settled fs (tree (ps_world st)) r \<or> waiting (ps_batch st) r) \<and>
     (\<forall>p. p \<notin> U \<longrightarrow> tree (ps_world st) p = T0 p)"

definition on_track ::
  "'w push_env \<Rightarrow> local_fs \<Rightarrow> 'w server_view \<Rightarrow> (string \<Rightarrow> string option) \<Rightarrow> push_prep_request set \<Rightarrow>
     string set \<Rightarrow> ('w, 'e) push_state \<Rightarrow> bool" where
  "on_track env fs tree T0 D U st \<longleftrightarrow> 0 < ps_failed st \<or> progress env fs tree T0 D U st"

lemma on_track_fields:
  assumes "on_track env fs tree T0 D U st" "ps_failed st' = ps_failed st"
    "tree (ps_world st') = tree (ps_world st)" "ps_batch st' = ps_batch st"
  shows "on_track env fs tree T0 D U st'"
  using assms by (simp add: on_track_def progress_def)

lemma on_track_failed: "0 < ps_failed st \<Longrightarrow> on_track env fs tree T0 D U st"
  by (simp add: on_track_def)

text \<open>A delivered file with its recorded hash is the local one.\<close>

lemma delivered_settled:
  assumes inj: "inj (pe_hash env)" and true: "file_true (pe_hash env) fs f"
    and del: "delivered (pe_hash env) T f"
    and paths: "pf_remote_path f = pr_remote_path r" "pf_local_path f = pr_entry_path r"
  shows "settled fs T r"
proof -
  from true obtain c where c: "file_content fs (pf_local_path f) = Some c" "pe_hash env c = pf_content_hash f"
    by (auto simp: file_true_def)
  from del obtain d where d: "T (pf_remote_path f) = Some d" "pe_hash env d = pf_content_hash f"
    by (auto simp: delivered_def)
  from c(2) d(2) inj have "d = c" by (metis injD)
  with c d paths show ?thesis by (simp add: settled_def)
qed

text \<open>When the files of the batch are delivered, their requests are settled.\<close>

lemma progress_sent:
  assumes inj: "inj (pe_hash env)" and prog: "progress env fs tree T0 D U st"
    and sent: "\<forall>f\<in>set (pb_files (ps_batch st)). delivered (pe_hash env) (tree (ps_world st')) f"
    and frame: "\<forall>p. p \<notin> paths_of (pb_files (ps_batch st)) \<longrightarrow> tree (ps_world st') p = tree (ps_world st) p"
    and empty: "pb_files (ps_batch st') = []"
  shows "progress env fs tree T0 D U st'"
proof -
  let ?files = "pb_files (ps_batch st)"
  have true: "file_true (pe_hash env) fs f"
    and owner: "\<exists>r\<in>D. pf_remote_path f = pr_remote_path r \<and> pf_local_path f = pr_entry_path r"
    if "f \<in> set ?files" for f using prog that by (auto simp: progress_def batch_true_def)
  have "settled fs (tree (ps_world st')) r" if r: "r \<in> D" for r
  proof (cases "pr_remote_path r \<in> paths_of ?files")
    case False
    with prog r have "settled fs (tree (ps_world st)) r"
      unfolding progress_def waiting_def by (metis image_eqI)
    with frame False show ?thesis by (simp add: settled_def)
  next
    case True
    then obtain f where f: "f \<in> set ?files" "pf_remote_path f = pr_remote_path r" by auto
    from owner [OF f(1)] f(2) r prog have "pf_local_path f = pr_entry_path r"
      by (auto simp: progress_def inj_on_def)
    with delivered_settled [OF inj true [OF f(1)] _ f(2)] sent f(1) show ?thesis by simp
  qed
  moreover have "tree (ps_world st') p = T0 p" if "p \<notin> U" for p
  proof -
    have "p \<notin> paths_of ?files"
    proof
      assume "p \<in> paths_of ?files"
      then obtain f where "f \<in> set ?files" "p = pf_remote_path f" by auto
      with owner [of f] prog that show False by (auto simp: progress_def)
    qed
    with frame prog that show ?thesis by (simp add: progress_def)
  qed
  ultimately show ?thesis using prog empty by (simp add: progress_def batch_true_def)
qed

section \<open>Flushing\<close>

lemma flush_meta_fields [simp]:
  "ps_world (fst (flush_pending_metadata_updates x st)) = ps_world st"
  "ps_failed (fst (flush_pending_metadata_updates x st)) = ps_failed st"
  by (simp_all add: flush_pending_metadata_updates_def split: prod.split)

lemma flush_meta_run:
  "flush_pending_metadata_updates x st = (st', r) \<Longrightarrow>
    ps_world st' = ps_world st \<and> ps_failed st' = ps_failed st"
  by (metis flush_meta_fields fst_conv)

lemma note_pushed_fields [simp]:
  "ps_world (note_pushed ms fs st) = ps_world st" "ps_failed (note_pushed ms fs st) = ps_failed st"
  "ps_batch (note_pushed ms fs st) = ps_batch st"
  by (simp_all add: note_pushed_def)

lemma record_failure_counts:
  "record_push_failure x f e st = (st', Inr u) \<Longrightarrow> ps_failed st' = ps_failed st + 1"
  by (auto simp: record_push_failure_def Let_def split: if_splits)

text \<open>The fallback, when none of its files fails.\<close>

lemma isolated_counts: "push_isolated x files acc st = (st', Inr res) \<Longrightarrow> ps_failed st \<le> ps_failed st'"
proof (induction files arbitrary: acc st)
  case (Cons f files)
  obtain w r where one: "push_batch_via_chunks (px_env x) (px_config x) [f] (ps_world st) = (w, r)" by force
  show ?case
  proof (cases r)
    case (Inl e)
    with Cons.prems one obtain st1 u where fail: "record_push_failure x f e (st\<lparr>ps_world := w\<rparr>) = (st1, Inr u)"
      and rest: "push_isolated x files acc st1 = (st', Inr res)"
      by (cases acc) (auto simp: then_st_Inr)
    from Cons.IH [OF rest] record_failure_counts [OF fail] show ?thesis by simp
  next
    case (Inr s)
    with Cons.prems one Cons.IH show ?thesis by (cases acc) fastforce
  qed
qed simp

lemma isolated_sends:
  assumes set: "push_setting (px_env x) (bc_chunk_hash_prefix (px_config x)) fs sfs tree store"
  shows "push_isolated x files acc st = (st', Inr res) \<Longrightarrow> ps_failed st' = ps_failed st \<Longrightarrow>
    \<forall>f\<in>set files. file_true (pe_hash (px_env x)) fs f \<Longrightarrow> distinct (map pf_remote_path files) \<Longrightarrow>
    (\<forall>f\<in>set files. delivered (pe_hash (px_env x)) (tree (ps_world st')) f) \<and>
    (\<forall>p. p \<notin> paths_of files \<longrightarrow> tree (ps_world st') p = tree (ps_world st) p)"
proof (induction files arbitrary: acc st)
  case (Cons f files)
  obtain w r where one: "push_batch_via_chunks (px_env x) (px_config x) [f] (ps_world st) = (w, r)" by force
  show ?case
  proof (cases r)
    case (Inl e)
    with Cons.prems(1) one obtain st1 u where fail: "record_push_failure x f e (st\<lparr>ps_world := w\<rparr>) = (st1, Inr u)"
      and rest: "push_isolated x files acc st1 = (st', Inr res)"
      by (cases acc) (auto simp: then_st_Inr)
    from isolated_counts [OF rest] record_failure_counts [OF fail] Cons.prems(2) show ?thesis by simp
  next
    case (Inr s)
    have true: "\<forall>g\<in>set [f]. file_true (pe_hash (px_env x)) fs g" "distinct (map pf_remote_path [f])"
      using Cons.prems(3) by simp_all
    note sent = batch_sends [OF set true one]
    from Cons.prems(1) one Inr obtain acc' where
      rest: "push_isolated x files acc' (st\<lparr>ps_world := w\<rparr>) = (st', Inr res)" by (cases acc) auto
    from Cons.IH [OF rest] Cons.prems(2-4)
    have tail: "\<forall>g\<in>set files. delivered (pe_hash (px_env x)) (tree (ps_world st')) g"
      "\<forall>p. p \<notin> paths_of files \<longrightarrow> tree (ps_world st') p = tree w p" by simp_all
    have "delivered (pe_hash (px_env x)) (tree (ps_world st')) f"
      using sent(2) [OF Inr, of f] tail(2) Cons.prems(4) by (simp add: delivered_def)
    with tail sent(1) show ?thesis by simp
  qed
qed simp

text \<open>Flushing the batch: nothing failed, and the server has the files.\<close>

lemma isolated_mono: "n \<le> ps_failed st \<Longrightarrow> n \<le> ps_failed (fst (push_isolated x files acc st))"
proof (induction files arbitrary: acc st)
  case (Cons f files)
  obtain w r where one: "push_batch_via_chunks (px_env x) (px_config x) [f] (ps_world st) = (w, r)" by force
  have "n \<le> ps_failed (fst (record_push_failure x f e (st\<lparr>ps_world := w\<rparr>)))" for e
    using Cons.prems by (auto simp: record_push_failure_def Let_def)
  with one Cons show ?case
    by (cases acc; cases r) (auto intro!: then_st_inv [where P = "\<lambda>s. n \<le> ps_failed s"])
qed (simp add: prod.split)

lemma flush_mono [intro]: "n \<le> ps_failed st \<Longrightarrow> n \<le> ps_failed (fst (flush_push_batch x st))"
  by (auto simp: flush_push_batch_def Let_def isolated_mono split: prod.split sum.split
      intro!: then_st_inv [where P = "\<lambda>s. n \<le> ps_failed s"])

lemma flush_tracks:
  assumes set: "push_setting (px_env x) (bc_chunk_hash_prefix (px_config x)) fs sfs tree store"
    and track: "on_track (px_env x) fs tree T0 D U st" and run: "flush_push_batch x st = (st', Inr u)"
  shows "on_track (px_env x) fs tree T0 D U st'"
proof (cases "0 < ps_failed st' \<or> pb_files (ps_batch st) = []")
  case True
  with track run show ?thesis by (auto simp: on_track_def flush_push_batch_def)
next
  case False
  let ?files = "pb_files (ps_batch st)" and ?st0 = "st\<lparr>ps_batch := empty_batch\<rparr>"
  from flush_mono [of 1 st x] run False have none: "ps_failed st = 0" by fastforce
  with track have prog: "progress (px_env x) fs tree T0 D U st" by (simp add: on_track_def)
  then have files: "\<forall>f\<in>set ?files. file_true (pe_hash (px_env x)) fs f" "distinct (map pf_remote_path ?files)"
    by (auto simp: progress_def batch_true_def)
  have empty: "pb_files (ps_batch st') = []"
    using flush_batch_empty [of x st] run False by (simp add: empty_batch_def)
  obtain w r where send: "push_batch_via_chunks (px_env x) (px_config x) ?files (ps_world st) = (w, r)" by force
  note sends = batch_sends [OF set files send]
  have "(\<forall>f\<in>set ?files. delivered (pe_hash (px_env x)) (tree (ps_world st')) f) \<and>
    (\<forall>p. p \<notin> paths_of ?files \<longrightarrow> tree (ps_world st') p = tree (ps_world st) p)"
  proof (cases r)
    case (Inr v)
    with run False send have "ps_world st' = w"
      by (auto simp: flush_push_batch_def Let_def dest!: flush_meta_run)
    with sends(1) sends(2) [OF Inr] show ?thesis by simp
  next
    case (Inl e)
    with run False send obtain st1 acc where
      iso: "push_isolated x ?files ([], []) (?st0\<lparr>ps_world := w\<rparr>) = (st1, Inr acc)"
      and same: "ps_world st' = ps_world st1" "ps_failed st' = ps_failed st1"
      by (auto simp: flush_push_batch_def Let_def then_st_Inr split: if_splits
          dest!: flush_meta_run)
    from isolated_sends [OF set iso _ files] none False same sends(1) show ?thesis by simp
  qed
  with progress_sent [OF setting_fs(4) [OF set] prog _ _ empty] show ?thesis by (simp add: on_track_def)
qed

section \<open>Failures are never taken back\<close>

lemma then_mono:
  "n \<le> ps_failed (fst r) \<Longrightarrow> (\<And>s v. n \<le> ps_failed s \<Longrightarrow> n \<le> ps_failed (fst (f s v))) \<Longrightarrow>
    n \<le> ps_failed (fst (then_st r f))"
  by (rule then_st_inv [where P = "\<lambda>s. n \<le> ps_failed s"])

lemma complete_mono [intro]: "n \<le> ps_failed st \<Longrightarrow> n \<le> ps_failed (fst (complete_entry x st))"
  by (auto simp: complete_entry_def Let_def)

lemma finish_mono [intro]: "n \<le> ps_failed st \<Longrightarrow> n \<le> ps_failed (fst (finish x st))"
  unfolding finish_def by (rule then_mono) auto

lemma fail_mono [intro]: "n \<le> ps_failed st + 1 \<Longrightarrow> n \<le> ps_failed (fst (fail_entry x m st))"
  by (auto simp: fail_entry_def)

lemma hash_skip_mono: "n \<le> ps_failed st \<Longrightarrow> n \<le> ps_failed (fst (hash_skip_stage x p st))"
  by (auto simp: hash_skip_stage_def Let_def split: option.split)

lemma move_metadata_mono: "n \<le> ps_failed st \<Longrightarrow> n \<le> ps_failed (fst (move_metadata x old f st))"
  by (simp add: move_metadata_def Let_def split: prod.split sum.split)

lemma moved_mono:
  "n \<le> ps_failed st \<Longrightarrow> n \<le> ps_failed (fst (then_st (move_metadata x old f st) (\<lambda>s _. finish x s)))"
  by (rule then_mono, erule move_metadata_mono) auto

lemma legacy_mono: "n \<le> ps_failed st \<Longrightarrow> n \<le> ps_failed (fst (legacy_move_stage x p st))"
  by (simp add: legacy_move_stage_def Let_def moved_mono
      split: option.split prod.split sum.split bool.split)

lemma migration_move_mono: "n \<le> ps_failed st \<Longrightarrow> n \<le> ps_failed (fst (migration_move_stage x p st))"
  by (simp add: migration_move_stage_def Let_def moved_mono finish_mono
      split: option.split prod.split sum.split bool.split)

lemma drop_old_mono: "n \<le> ps_failed st \<Longrightarrow> n \<le> ps_failed (fst (drop_old_metadata x old st))"
  by (simp add: drop_old_metadata_def split: prod.split sum.split)

lemma migration_target_mono: "n \<le> ps_failed st \<Longrightarrow> n \<le> ps_failed (fst (migration_target_stage x p st))"
  by (auto simp: migration_target_stage_def Let_def drop_old_mono finish_mono
      split: option.split prod.split sum.split bool.split intro!: then_mono)

lemma batch_stage_mono: "n \<le> ps_failed st \<Longrightarrow> n \<le> ps_failed (fst (batch_stage x f st))"
  unfolding batch_stage_def Let_def by (rule then_mono, force, rule then_mono) (auto split: if_splits)

text \<open>So a step that started with a failure ends on track.\<close>

lemma track_from_mono:
  assumes "\<And>n. n \<le> ps_failed st \<Longrightarrow> n \<le> ps_failed (fst res)" "0 < ps_failed st" "res = (st', v)"
  shows "on_track env fs tree T0 D U st'"
  using assms(1) [of 1] assms(2,3) by (simp add: on_track_def)

section \<open>Settling a request\<close>

lemma batch_true_mono: "batch_true hash fs D b \<Longrightarrow> D \<subseteq> E \<Longrightarrow> batch_true hash fs E b"
  unfolding batch_true_def by blast

lemma progress_insert:
  assumes "progress env fs tree T0 D U st" "pr_remote_path r \<in> U" "pr_remote_path r \<notin> pr_remote_path ` D"
    "settled fs (tree (ps_world st)) r \<or> waiting (ps_batch st) r"
  shows "progress env fs tree T0 (insert r D) U st"
  using assms by (auto simp: progress_def intro: batch_true_mono)

text \<open>A change of the world at paths that no request has, and a larger set of touched paths.\<close>

lemma progress_frame:
  assumes "progress env fs tree T0 D U st" "ps_batch st' = ps_batch st"
    "\<forall>p. p \<notin> V \<longrightarrow> tree (ps_world st') p = tree (ps_world st) p"
    "V \<subseteq> U" "V \<inter> pr_remote_path ` D = {}"
  shows "progress env fs tree T0 D U st'"
  using assms unfolding progress_def settled_def by (metis disjoint_iff image_eqI subsetD)

lemma progress_more: "progress env fs tree T0 D U st \<Longrightarrow> U \<subseteq> U' \<Longrightarrow> progress env fs tree T0 D U' st"
  unfolding progress_def by blast

lemma on_track_more: "on_track env fs tree T0 D U st \<Longrightarrow> U \<subseteq> U' \<Longrightarrow> on_track env fs tree T0 D U' st"
  unfolding on_track_def using progress_more by blast

lemma complete_tracks:
  assumes "push_setting (px_env x) (bc_chunk_hash_prefix (px_config x)) fs sfs tree store"
    "on_track (px_env x) fs tree T0 D U st" "complete_entry x st = (st', Inr u)"
  shows "on_track (px_env x) fs tree T0 D U st'"
proof -
  have "on_track (px_env x) fs tree T0 D U (st\<lparr>ps_processed := ps_processed st + 1\<rparr>)"
    by (rule on_track_fields [OF assms(2)]) simp_all
  with assms(3) flush_tracks [OF assms(1) this] show ?thesis
    by (auto simp: complete_entry_def Let_def split: if_splits)
qed

lemma finish_tracks:
  assumes "push_setting (px_env x) (bc_chunk_hash_prefix (px_config x)) fs sfs tree store"
    "on_track (px_env x) fs tree T0 D U st" "finish x st = (st', Inr b)"
  shows "on_track (px_env x) fs tree T0 D U st' \<and> b"
  using assms complete_tracks [OF assms(1,2)] by (auto simp: finish_def then_st_Inr)

section \<open>The stages\<close>

text \<open>What the metadata remembers of a request as sent is on the server.\<close>

definition recorded :: "(string \<Rightarrow> string) \<Rightarrow> (string \<Rightarrow> string option) \<Rightarrow> push_prep_request \<Rightarrow> bool" where
  "recorded hash T r \<longleftrightarrow>
     (case pr_stored_meta r of
        None \<Rightarrow> True
      | Some m \<Rightarrow> (\<exists>c. T (pr_remote_path r) = Some c \<and> hash c = fm_content_hash m))"

definition old_paths :: "push_prep_request \<Rightarrow> string set" where
  "old_paths r = set_option (pr_legacy r) \<union> set_option (pr_migration_old r)"

text \<open>The content of the request is on the server under its path.\<close>

lemma settled_by_hash:
  assumes inj: "inj (pe_hash env)" and prep: "prepare_push_file (pe_hash env) fs r = Inr p"
    and there: "T (pr_remote_path r) = Some c" "pe_hash env c = pf_content_hash (pp_file p)"
  shows "settled fs T r"
proof (rule delivered_settled [OF inj prepare_true(1) [OF prep]])
  show "delivered (pe_hash env) T (pp_file p)"
    using there prepare_true(2) [OF prep] by (simp add: delivered_def)
qed (use prepare_true [OF prep] in simp_all)

text \<open>An entry that ends with its request settled.\<close>

lemma end_tracks:
  assumes set: "push_setting (px_env x) (bc_chunk_hash_prefix (px_config x)) fs sfs tree store"
    and prog: "progress (px_env x) fs tree T0 D U st" and r: "pr_remote_path r \<in> U" "pr_remote_path r \<notin> pr_remote_path ` D"
    and st1: "ps_world st1 = ps_world st" "ps_batch st1 = ps_batch st"
    and ok: "settled fs (tree (ps_world st)) r \<or> waiting (ps_batch st) r"
    and run: "finish x st1 = (st', Inr b)"
  shows "on_track (px_env x) fs tree T0 (if b then insert r D else D) U st'"
proof -
  have "on_track (px_env x) fs tree T0 (insert r D) U st1"
    using progress_insert [OF prog r ok] st1 by (simp add: on_track_def progress_def)
  from finish_tracks [OF set this run] show ?thesis by simp
qed

lemma hash_skip_tracks:
  assumes set: "push_setting (px_env x) (bc_chunk_hash_prefix (px_config x)) fs sfs tree store"
    and track: "on_track (px_env x) fs tree T0 D U st"
    and prep: "prepare_push_file (pe_hash (px_env x)) fs r = Inr p"
    and fresh: "pr_remote_path r \<notin> U" and rec: "recorded (pe_hash (px_env x)) T0 r"
    and run: "hash_skip_stage x p st = (st', Inr b)"
  shows "on_track (px_env x) fs tree T0 (if b then insert r D else D) (insert (pr_remote_path r) U) st'"
proof (cases "0 < ps_failed st")
  case True
  from track_from_mono [OF hash_skip_mono True run] show ?thesis .
next
  case False
  with track have prog: "progress (px_env x) fs tree T0 D U st" by (simp add: on_track_def)
  then have prog': "progress (px_env x) fs tree T0 D (insert (pr_remote_path r) U) st"
    by (rule progress_more) auto
  have req: "pp_request p = r" by (rule prepare_true(4) [OF prep])
  show ?thesis
  proof (cases "\<exists>m. pr_stored_meta r = Some m \<and> fm_content_hash m = pf_content_hash (pp_file p)")
    case False
    then have "st' = st \<and> \<not> b" using run req by (auto simp: hash_skip_stage_def Let_def split: option.splits)
    with prog' show ?thesis by (simp add: on_track_def)
  next
    case True
    with rec obtain c where c: "T0 (pr_remote_path r) = Some c"
      "pe_hash (px_env x) c = pf_content_hash (pp_file p)" by (auto simp: recorded_def)
    have same: "tree (ps_world st) (pr_remote_path r) = Some c" using prog fresh c by (simp add: progress_def)
    have new: "pr_remote_path r \<notin> pr_remote_path ` D" using prog fresh by (auto simp: progress_def)
    from True obtain m where "pr_stored_meta r = Some m" "fm_content_hash m = pf_content_hash (pp_file p)" by auto
    with run req have "\<exists>st1. finish x st1 = (st', Inr b) \<and> ps_world st1 = ps_world st \<and> ps_batch st1 = ps_batch st"
      by (simp add: hash_skip_stage_def Let_def split: if_splits) (rule exI, erule conjI, simp)+
    then obtain st1 where "ps_world st1 = ps_world st" "ps_batch st1 = ps_batch st"
      and fin: "finish x st1 = (st', Inr b)" by blast
    from end_tracks [OF set prog' _ new this(1,2) _ fin] settled_by_hash [OF setting_fs(4) [OF set] prep _ c(2), of "tree (ps_world st)"] same
    show ?thesis by simp
  qed
qed

text \<open>A question of the server, or a move that was refused, leaves the processing on track.\<close>

lemma world_tracks:
  assumes prog: "progress env fs tree T0 D U st"
    and same: "\<forall>q. q \<notin> V \<longrightarrow> tree w q = tree (ps_world st) q" "V \<subseteq> U" "V \<inter> pr_remote_path ` D = {}"
  shows "progress env fs tree T0 D U (st\<lparr>ps_world := w\<rparr>)"
  by (rule progress_frame [OF prog, where V = V]) (use same in simp_all)

lemma move_metadata_fields:
  "move_metadata x old f st = (st', r) \<Longrightarrow> ps_world st' = ps_world st \<and> ps_batch st' = ps_batch st"
  by (auto simp: move_metadata_def Let_def split: prod.splits sum.splits)

text \<open>A move: the old path has the content, and after it the new one has.\<close>

lemma moved_tracks:
  assumes set: "push_setting (px_env x) (bc_chunk_hash_prefix (px_config x)) fs sfs tree store"
    and prog: "progress (px_env x) fs tree T0 D U st"
    and prep: "prepare_push_file (pe_hash (px_env x)) fs r = Inr p"
    and r: "pr_remote_path r \<notin> pr_remote_path ` D" "old \<notin> pr_remote_path ` D" "{old, pr_remote_path r} \<subseteq> U"
    and there: "ro_has_content_hash (pe_remote (px_env x)) base old (pf_content_hash (pp_file p)) (ps_world st) = (w, Inr True)"
    and move: "ro_rename_file (pe_remote (px_env x)) old (pr_remote_path r) w = (w1, Inr u)"
    and run: "then_st (move_metadata x old (pp_file p) (st\<lparr>ps_world := w1\<rparr>)) (\<lambda>s _. finish x s) = (st', Inr b)"
  shows "on_track (px_env x) fs tree T0 (if b then insert r D else D) U st'"
proof -
  from setting_moves(1) [OF set there] obtain c where
    c: "tree (ps_world st) old = Some c" "pe_hash (px_env x) c = pf_content_hash (pp_file p)" by auto
  have w: "tree w = tree (ps_world st)"
    using setting_questions(5) [OF set, of base old _ "ps_world st"] there by (metis fst_conv)
  note w1 = setting_moves(2) [OF set move, unfolded w]
  have prog1: "progress (px_env x) fs tree T0 D U (st\<lparr>ps_world := w1\<rparr>)"
    by (rule world_tracks [OF prog, where V = "{old, pr_remote_path r}"]) (use r in \<open>auto simp: w1\<close>)
  have "tree w1 (pr_remote_path r) = Some c" by (simp add: w1 c(1))
  then have ok: "settled fs (tree (ps_world (st\<lparr>ps_world := w1\<rparr>))) r"
    using settled_by_hash [OF setting_fs(4) [OF set] prep _ c(2), of "tree w1"] by simp
  from run obtain s v where meta: "move_metadata x old (pp_file p) (st\<lparr>ps_world := w1\<rparr>) = (s, Inr v)"
    and fin: "finish x s = (st', Inr b)" by (auto simp: then_st_Inr)
  from end_tracks [OF set prog1 _ r(1) _ _ _ fin] move_metadata_fields [OF meta] r(3) ok
  show ?thesis by simp
qed

lemma asked_tracks:
  assumes set: "push_setting (px_env x) pre fs sfs tree store"
    and prog: "progress (px_env x) fs tree T0 D U st"
    and ask: "ro_has_content_hash (pe_remote (px_env x)) base q h (ps_world st) = (w, a)"
  shows "tree w = tree (ps_world st)" "progress (px_env x) fs tree T0 D U (st\<lparr>ps_world := w\<rparr>)"
proof -
  show same: "tree w = tree (ps_world st)"
    using setting_questions(5) [OF set, of base q h "ps_world st"] ask by simp
  show "progress (px_env x) fs tree T0 D U (st\<lparr>ps_world := w\<rparr>)"
    by (rule world_tracks [OF prog, where V = "{}"]) (simp_all add: same)
qed

text \<open>What the stages of one request start from, once its paths count as touched.\<close>

definition fresh_request ::
  "'w push_env \<Rightarrow> local_fs \<Rightarrow> push_prep_request \<Rightarrow> prepared_push_file \<Rightarrow> push_prep_request set \<Rightarrow>
     string set \<Rightarrow> bool" where
  "fresh_request env fs r p D U \<longleftrightarrow>
     prepare_push_file (pe_hash env) fs r = Inr p \<and> pr_remote_path r \<notin> pr_remote_path ` D \<and>
     old_paths r \<inter> pr_remote_path ` D = {} \<and> insert (pr_remote_path r) (old_paths r) \<subseteq> U"

text \<open>Asking for the old path and moving it, with what is done when the move is refused.\<close>

lemma move_tracks:
  assumes set: "push_setting (px_env x) (bc_chunk_hash_prefix (px_config x)) fs sfs tree store"
    and prog: "progress (px_env x) fs tree T0 D U st" and fresh: "fresh_request (px_env x) fs r p D U"
    and old: "old \<in> old_paths r"
    and refused: "\<And>w1 e. progress (px_env x) fs tree T0 D U (st\<lparr>ps_world := w1\<rparr>) \<Longrightarrow>
      refused w1 e = (st', Inr b) \<Longrightarrow> on_track (px_env x) fs tree T0 (if b then insert r D else D) U st'"
    and run: "(case ro_has_content_hash (pe_remote (px_env x)) base old (pf_content_hash (pp_file p)) (ps_world st) of
        (w, Inr True) \<Rightarrow>
          (case ro_rename_file (pe_remote (px_env x)) old (pr_remote_path r) w of
             (w1, Inr _) \<Rightarrow> then_st (move_metadata x old (pp_file p) (st\<lparr>ps_world := w1\<rparr>)) (\<lambda>s _. finish x s)
           | (w1, Inl e) \<Rightarrow> refused w1 e)
      | (w, _) \<Rightarrow> (st\<lparr>ps_world := w\<rparr>, Inr False)) = (st', Inr b)"
  shows "on_track (px_env x) fs tree T0 (if b then insert r D else D) U st'"
proof -
  from fresh have prep: "prepare_push_file (pe_hash (px_env x)) fs r = Inr p"
    and new: "pr_remote_path r \<notin> pr_remote_path ` D" by (simp_all add: fresh_request_def)
  from fresh old have old': "old \<notin> pr_remote_path ` D" "{old, pr_remote_path r} \<subseteq> U"
    by (auto simp: fresh_request_def)
  obtain w a where ask: "ro_has_content_hash (pe_remote (px_env x)) base old
    (pf_content_hash (pp_file p)) (ps_world st) = (w, a)" by force
  note asked = asked_tracks [OF set prog ask]
  show ?thesis
  proof (cases "a = Inr True")
    case False
    with run ask have "st' = st\<lparr>ps_world := w\<rparr> \<and> \<not> b" by (cases a) (auto split: bool.splits)
    with asked show ?thesis by (simp add: on_track_def)
  next
    case True
    obtain w1 m where move: "ro_rename_file (pe_remote (px_env x)) old (pr_remote_path r) w = (w1, m)" by force
    show ?thesis
    proof (cases m)
      case (Inr u)
      with run ask True move
      have "then_st (move_metadata x old (pp_file p) (st\<lparr>ps_world := w1\<rparr>)) (\<lambda>s _. finish x s) = (st', Inr b)"
        by simp
      from moved_tracks [OF set prog prep new old' ask [unfolded True] move [unfolded Inr] this] show ?thesis .
    next
      case (Inl e)
      have "progress (px_env x) fs tree T0 D U (st\<lparr>ps_world := w1\<rparr>)"
        by (rule world_tracks [OF prog, where V = "{old, pr_remote_path r}"])
          (use setting_moves(3) [OF set, of _ old "pr_remote_path r" w] move asked(1) old' new in auto)
      from refused [OF this, of e] run ask True move Inl show ?thesis by simp
    qed
  qed
qed

lemma movable_old:
  "movable st (pr_legacy r) f = Some old \<Longrightarrow> old \<in> old_paths r"
  "movable st (pr_migration_old r) f = Some old \<Longrightarrow> old \<in> old_paths r"
  by (auto simp: movable_def old_paths_def split: option.splits if_splits)

lemma fresh_prepared:
  assumes "fresh_request env fs r p D U"
  shows "pp_request p = r" "pf_remote_path (pp_file p) = pr_remote_path r"
  using assms prepare_true(2,4) [of "pe_hash env" fs r p] by (simp_all add: fresh_request_def)

lemma legacy_tracks:
  assumes set: "push_setting (px_env x) (bc_chunk_hash_prefix (px_config x)) fs sfs tree store"
    and track: "on_track (px_env x) fs tree T0 D U st" and fresh: "fresh_request (px_env x) fs r p D U"
    and run: "legacy_move_stage x p st = (st', Inr b)"
  shows "on_track (px_env x) fs tree T0 (if b then insert r D else D) U st'"
proof (cases "0 < ps_failed st")
  case True
  from track_from_mono [OF legacy_mono True run] show ?thesis .
next
  case False
  with track have prog: "progress (px_env x) fs tree T0 D U st" by (simp add: on_track_def)
  note r = fresh_prepared [OF fresh]
  show ?thesis
  proof (cases "movable st (pr_legacy r) (pp_file p)")
    case None
    with run prog show ?thesis by (auto simp: legacy_move_stage_def Let_def on_track_def r)
  next
    case (Some old)
    show ?thesis
      by (rule move_tracks [OF set prog fresh movable_old(1) [OF Some] _
            run [unfolded legacy_move_stage_def Let_def r Some option.case]])
        (auto simp: on_track_def)
  qed
qed

lemma migration_move_tracks:
  assumes set: "push_setting (px_env x) (bc_chunk_hash_prefix (px_config x)) fs sfs tree store"
    and track: "on_track (px_env x) fs tree T0 D U st" and fresh: "fresh_request (px_env x) fs r p D U"
    and run: "migration_move_stage x p st = (st', Inr b)"
  shows "on_track (px_env x) fs tree T0 (if b then insert r D else D) U st'"
proof (cases "0 < ps_failed st")
  case True
  from track_from_mono [OF migration_move_mono True run] show ?thesis .
next
  case False
  with track have prog: "progress (px_env x) fs tree T0 D U st" by (simp add: on_track_def)
  note r = fresh_prepared [OF fresh]
  show ?thesis
  proof (cases "movable st (pr_migration_old r) (pp_file p)")
    case None
    with run prog show ?thesis by (auto simp: migration_move_stage_def Let_def on_track_def r)
  next
    case (Some old)
    show ?thesis
      by (rule move_tracks [OF set prog fresh movable_old(2) [OF Some] _
            run [unfolded migration_move_stage_def Let_def r Some option.case]])
        (erule track_from_mono [OF finish_mono, rotated -1], assumption, simp)
  qed
qed

lemma drop_old_fields:
  "drop_old_metadata x old st = (st', r) \<Longrightarrow> ps_world st' = ps_world st \<and> ps_batch st' = ps_batch st"
  by (auto simp: drop_old_metadata_def split: prod.splits sum.splits if_splits)

lemma stored_then:
  "(case r of (e, Inl err) \<Rightarrow> (failed e err, Inl err) | (e, Inr _) \<Rightarrow> f e) = (st', Inr b) \<Longrightarrow>
    \<exists>e u. r = (e, Inr u) \<and> f e = (st', Inr b)"
  by (auto split: prod.splits sum.splits)

lemma migration_target_tracks:
  assumes set: "push_setting (px_env x) (bc_chunk_hash_prefix (px_config x)) fs sfs tree store"
    and track: "on_track (px_env x) fs tree T0 D U st" and fresh: "fresh_request (px_env x) fs r p D U"
    and run: "migration_target_stage x p st = (st', Inr b)"
  shows "on_track (px_env x) fs tree T0 (if b then insert r D else D) U st'"
proof (cases "0 < ps_failed st")
  case True
  from track_from_mono [OF migration_target_mono True run] show ?thesis .
next
  case False
  with track have prog: "progress (px_env x) fs tree T0 D U st" by (simp add: on_track_def)
  note r = fresh_prepared [OF fresh]
  show ?thesis
  proof (cases "px_migration x = None \<or> pr_migration_old r = None")
    case True
    with run prog show ?thesis
      by (auto simp: migration_target_stage_def Let_def on_track_def r split: option.splits)
  next
    case False
    then obtain g old where some: "px_migration x = Some g" "pr_migration_old r = Some old" by auto
    obtain w a where ask: "ro_has_content_hash (pe_remote (px_env x)) (pm_new_remote_path g) (pr_remote_path r)
      (pf_content_hash (pp_file p)) (ps_world st) = (w, a)" by force
    note asked = asked_tracks [OF set prog ask]
    show ?thesis
    proof (cases "a = Inr True")
      case False
      with run some ask r have "st' = st\<lparr>ps_world := w\<rparr> \<and> \<not> b"
        by (cases a) (auto simp: migration_target_stage_def Let_def split: bool.splits)
      with asked show ?thesis by (simp add: on_track_def)
    next
      case True
      with setting_moves(1) [OF set] ask obtain c where c: "tree (ps_world st) (pr_remote_path r) = Some c"
        "pe_hash (px_env x) c = pf_content_hash (pp_file p)" by blast
      from run some ask True r obtain s v e2 u ms n where
        drop: "drop_old_metadata x old (st\<lparr>ps_world := w\<rparr>) = (s, Inr v)"
        and fin: "finish x (s\<lparr>ps_store := e2, ps_metas := ms, ps_skipped := n\<rparr>) = (st', Inr b)"
        by (auto simp: migration_target_stage_def Let_def then_st_Inr
            dest!: stored_then)
      from c asked(1) fresh settled_by_hash [OF setting_fs(4) [OF set] _ _ c(2), of fs r "tree w"]
      have "settled fs (tree w) r" by (simp add: fresh_request_def)
      with end_tracks [OF set asked(2) _ _ _ _ _ fin] drop_old_fields [OF drop] fresh
      show ?thesis by (simp add: fresh_request_def)
    qed
  qed
qed

lemma batch_stage_tracks:
  assumes set: "push_setting (px_env x) (bc_chunk_hash_prefix (px_config x)) fs sfs tree store"
    and track: "on_track (px_env x) fs tree T0 D U st" and fresh: "fresh_request (px_env x) fs r p D U"
    and run: "batch_stage x (pp_file p) st = (st', Inr b)"
  shows "on_track (px_env x) fs tree T0 (if b then insert r D else D) U st'"
proof -
  let ?f = "pp_file p"
  from fresh have prep: "prepare_push_file (pe_hash (px_env x)) fs r = Inr p"
    and new: "pr_remote_path r \<notin> pr_remote_path ` D" "pr_remote_path r \<in> U" by (simp_all add: fresh_request_def)
  note prepared = prepare_true [OF prep]
  from run obtain st1 st3 v v3 where
    before: "(if should_flush_before (ps_batch st) ?f (px_config x) then flush_push_batch x st else (st, Inr ())) = (st1, Inr v)"
    and now: "(let st2 = st1\<lparr>ps_batch := batch_push (ps_batch st1) ?f (px_config x)\<rparr>
       in if should_flush_now (ps_batch st2) then flush_push_batch x st2 else (st2, Inr ())) = (st3, Inr v3)"
    and fin: "finish x st3 = (st', Inr b)"
    unfolding batch_stage_def then_st_Inr by blast
  let ?st2 = "st1\<lparr>ps_batch := batch_push (ps_batch st1) ?f (px_config x)\<rparr>"
  have "on_track (px_env x) fs tree T0 D U st1"
    using before flush_tracks [OF set track] track by (auto split: if_splits)
  then have "on_track (px_env x) fs tree T0 (insert r D) U ?st2"
  proof (unfold on_track_def, elim disjE)
    assume prog: "progress (px_env x) fs tree T0 D U st1"
    then have "pr_remote_path r \<notin> paths_of (pb_files (ps_batch st1))"
      using new(1) by (fastforce simp: progress_def batch_true_def image_iff)
    with prog have "batch_true (pe_hash (px_env x)) fs (insert r D) (batch_push (ps_batch st1) ?f (px_config x))"
      using prepared new by (auto simp: progress_def batch_true_def batch_push_def image_iff)
    moreover have "waiting (batch_push (ps_batch st1) ?f (px_config x)) r"
      and "waiting (ps_batch st1) q \<Longrightarrow> waiting (batch_push (ps_batch st1) ?f (px_config x)) q" for q
      using prepared by (auto simp: waiting_def batch_push_def)
    ultimately have "progress (px_env x) fs tree T0 (insert r D) U ?st2"
      using prog new by (auto simp: progress_def)
    then show "0 < ps_failed ?st2 \<or> progress (px_env x) fs tree T0 (insert r D) U ?st2" ..
  qed simp
  then have "on_track (px_env x) fs tree T0 (insert r D) U st3"
    using now flush_tracks [OF set, where st = ?st2 and D = "insert r D"] by (auto simp: Let_def split: if_splits)
  from finish_tracks [OF set this fin] show ?thesis by simp
qed

section \<open>Processing the prepared files\<close>

text \<open>A stage that keeps the processing of request \<open>r\<close> on track.\<close>

definition stage_tracks ::
  "('w, 'e) push_ctx \<Rightarrow> local_fs \<Rightarrow> 'w server_view \<Rightarrow> (string \<Rightarrow> string option) \<Rightarrow> push_prep_request set \<Rightarrow>
     string set \<Rightarrow> push_prep_request \<Rightarrow> ('w, 'e) stage \<Rightarrow> bool" where
  "stage_tracks x fs tree T0 D U r stage \<longleftrightarrow>
     (\<forall>st st' b. on_track (px_env x) fs tree T0 D U st \<longrightarrow> stage st = (st', Inr b) \<longrightarrow>
        on_track (px_env x) fs tree T0 (if b then insert r D else D) U st')"

lemma or_stage_tracks:
  "stage_tracks x fs tree T0 D U r a \<Longrightarrow> stage_tracks x fs tree T0 D U r b \<Longrightarrow>
    stage_tracks x fs tree T0 D U r (or_stage a b)"
  unfolding stage_tracks_def or_stage_def then_st_Inr by (fastforce split: if_splits)

lemma no_stage_tracks: "stage_tracks x fs tree T0 D U r (\<lambda>st. (st, Inr False))"
  by (simp add: stage_tracks_def)

text \<open>The stages after the hash skip.\<close>

definition later_stages ::
  "('w, 'e) push_ctx \<Rightarrow> push_prep_request \<Rightarrow> prepared_push_file \<Rightarrow> ('w, 'e) stage" where
  "later_stages x r p =
     or_stage
       (if pr_stored_meta r = None
        then or_stage (legacy_move_stage x p) (or_stage (migration_move_stage x p) (migration_target_stage x p))
        else (\<lambda>st. (st, Inr False)))
       (batch_stage x (pp_file p))"

lemma later_stages_track:
  assumes set: "push_setting (px_env x) (bc_chunk_hash_prefix (px_config x)) fs sfs tree store"
    and fresh: "fresh_request (px_env x) fs r p D U"
  shows "stage_tracks x fs tree T0 D U r (later_stages x r p)"
proof -
  have stages: "stage_tracks x fs tree T0 D U r (legacy_move_stage x p)"
    "stage_tracks x fs tree T0 D U r (migration_move_stage x p)"
    "stage_tracks x fs tree T0 D U r (migration_target_stage x p)"
    "stage_tracks x fs tree T0 D U r (batch_stage x (pp_file p))"
    unfolding stage_tracks_def
    using legacy_tracks [OF set _ fresh] migration_move_tracks [OF set _ fresh]
      migration_target_tracks [OF set _ fresh] batch_stage_tracks [OF set _ fresh] by blast+
  then show ?thesis unfolding later_stages_def by (auto intro!: or_stage_tracks no_stage_tracks)
qed

lemma later_stages_end: "later_stages x r p st = (st', Inr b) \<Longrightarrow> b"
  by (auto simp: later_stages_def or_stage_def batch_stage_def finish_def then_st_Inr split: if_splits)

lemma process_stages:
  assumes "prepare_push_file (pe_hash (px_env x)) (pe_fs (px_env x) (ps_world st)) r = Inr p"
  shows "process_prepared x r st = then_st (or_stage (hash_skip_stage x p) (later_stages x r p) st) (\<lambda>s _. (s, Inr ()))"
  using assms by (simp add: process_prepared_def later_stages_def)

definition touched :: "push_prep_request list \<Rightarrow> string set" where
  "touched rs = (\<Union>r\<in>set rs. insert (pr_remote_path r) (old_paths r))"

lemma touched_snoc: "touched (ds @ [r]) = insert (pr_remote_path r) (old_paths r) \<union> touched ds"
  by (auto simp: touched_def)

text \<open>No two requests have the same path, and none has an old path of another.\<close>

definition requests_apart :: "push_prep_request list \<Rightarrow> bool" where
  "requests_apart rs \<longleftrightarrow> distinct (map pr_remote_path rs) \<and>
     (\<forall>r\<in>set rs. \<forall>q\<in>set rs. q \<noteq> r \<longrightarrow> pr_remote_path q \<notin> old_paths r)"

lemma or_mono:
  "(\<And>s. n \<le> ps_failed s \<Longrightarrow> n \<le> ps_failed (fst (a s))) \<Longrightarrow>
   (\<And>s. n \<le> ps_failed s \<Longrightarrow> n \<le> ps_failed (fst (b s))) \<Longrightarrow>
   n \<le> ps_failed st \<Longrightarrow> n \<le> ps_failed (fst (or_stage a b st))"
  unfolding or_stage_def by (rule then_mono) auto

lemma later_mono: "n \<le> ps_failed st \<Longrightarrow> n \<le> ps_failed (fst (later_stages x r p st))"
  unfolding later_stages_def
  by (cases "pr_stored_meta r = None")
    (simp_all add: or_mono legacy_mono migration_move_mono migration_target_mono batch_stage_mono)

lemma process_mono: "n \<le> ps_failed st \<Longrightarrow> n \<le> ps_failed (fst (process_prepared x r st))"
proof (cases "prepare_push_file (pe_hash (px_env x)) (pe_fs (px_env x) (ps_world st)) r")
  case (Inl m)
  assume "n \<le> ps_failed st"
  with Inl fail_mono [of n st x m] show ?thesis by (simp add: process_prepared_def)
next
  case (Inr p)
  assume "n \<le> ps_failed st"
  then have "n \<le> ps_failed (fst (or_stage (hash_skip_stage x p) (later_stages x r p) st))"
    by (intro or_mono hash_skip_mono later_mono)
  then show ?thesis unfolding process_stages [OF Inr] by (rule then_mono) simp
qed

lemma process_tracks:
  assumes set: "push_setting (px_env x) (bc_chunk_hash_prefix (px_config x)) fs sfs tree store"
    and track: "on_track (px_env x) fs tree T0 D U st"
    and apart: "pr_remote_path r \<notin> U" "pr_remote_path ` D \<subseteq> U" "old_paths r \<inter> pr_remote_path ` D = {}"
    and rec: "recorded (pe_hash (px_env x)) T0 r"
    and run: "process_prepared x r st = (st', Inr u)"
  shows "on_track (px_env x) fs tree T0 (insert r D) (insert (pr_remote_path r) (old_paths r) \<union> U) st'"
proof (cases "prepare_push_file (pe_hash (px_env x)) (pe_fs (px_env x) (ps_world st)) r")
  case (Inl m)
  with run fail_mono [of 1 st x m] show ?thesis by (simp add: process_prepared_def on_track_def)
next
  case (Inr p)
  let ?U = "insert (pr_remote_path r) (old_paths r) \<union> U"
  have prep: "prepare_push_file (pe_hash (px_env x)) fs r = Inr p" using Inr by (simp add: setting_fs(1) [OF set])
  have fresh: "fresh_request (px_env x) fs r p D ?U" using prep apart by (auto simp: fresh_request_def)
  from run process_stages [OF Inr] obtain t where
    both: "or_stage (hash_skip_stage x p) (later_stages x r p) st = (st', Inr t)" by (auto simp: then_st_Inr)
  then obtain s b where skip: "hash_skip_stage x p st = (s, Inr b)"
    and rest: "(if b then (s, Inr True) else later_stages x r p s) = (st', Inr t)"
    unfolding or_stage_def then_st_Inr by blast
  from hash_skip_tracks [OF set track prep apart(1) rec skip]
  have "on_track (px_env x) fs tree T0 (if b then insert r D else D) ?U s" by (rule on_track_more) auto
  moreover have "b \<or> t" using rest later_stages_end by (auto split: if_splits)
  ultimately show ?thesis
    using rest later_stages_track [OF set fresh, of T0] by (cases b) (force simp: stage_tracks_def)+
qed

lemma processed_tracks:
  assumes set: "push_setting (px_env x) (bc_chunk_hash_prefix (px_config x)) fs sfs tree store"
  shows "requests_apart (ds @ rs) \<Longrightarrow> on_track (px_env x) fs tree T0 (set ds) (touched ds) st \<Longrightarrow>
    \<forall>r\<in>set rs. recorded (pe_hash (px_env x)) T0 r \<Longrightarrow> for_each (process_prepared x) rs st = (st', Inr u) \<Longrightarrow>
    on_track (px_env x) fs tree T0 (set (ds @ rs)) (touched (ds @ rs)) st'"
proof (induction rs arbitrary: ds st)
  case (Cons r rs)
  obtain s v where one: "process_prepared x r st = (s, v)" by force
  with Cons.prems(4) obtain u1 where v: "v = Inr u1" and rest: "for_each (process_prepared x) rs s = (st', Inr u)"
    by (cases v) auto
  from Cons.prems(1) have "pr_remote_path r \<notin> touched ds" "old_paths r \<inter> pr_remote_path ` set ds = {}"
    by (auto simp: requests_apart_def touched_def)
  from process_tracks [OF set Cons.prems(2) this(1) _ this(2) _ one [unfolded v]] Cons.prems(3)
  have "on_track (px_env x) fs tree T0 (insert r (set ds)) (insert (pr_remote_path r) (old_paths r) \<union> touched ds) s"
    by (auto simp: touched_def)
  then have "on_track (px_env x) fs tree T0 (set (ds @ [r])) (touched (ds @ [r])) s"
    by (simp add: touched_snoc)
  from Cons.IH [of "ds @ [r]" s] this Cons.prems(1,3) rest show ?case by simp
qed simp

text \<open>From the prepared requests to the flushed batch.\<close>

lemma processing_settles:
  assumes set: "push_setting (px_env x) (bc_chunk_hash_prefix (px_config x)) fs sfs tree store"
    and apart: "requests_apart rs" and rec: "\<forall>r\<in>set rs. recorded (pe_hash (px_env x)) (tree (ps_world st)) r"
    and empty: "pb_files (ps_batch st) = []"
    and run: "for_each (process_prepared x) rs st = (st1, Inr u)" "flush_push_batch x st1 = (st2, Inr v)"
    and none: "ps_failed st2 = 0"
  shows "\<forall>r\<in>set rs. settled fs (tree (ps_world st2)) r"
    and "\<forall>p. p \<notin> touched rs \<longrightarrow> tree (ps_world st2) p = tree (ps_world st) p"
proof -
  let ?T0 = "tree (ps_world st)"
  have "on_track (px_env x) fs tree ?T0 (set []) (touched []) st"
    using empty by (simp add: on_track_def progress_def batch_true_def touched_def)
  with processed_tracks [OF set, of "[]" rs] apart rec run(1)
  have "on_track (px_env x) fs tree ?T0 (set rs) (touched rs) st1" by simp
  from flush_tracks [OF set this run(2)] none
  have "progress (px_env x) fs tree ?T0 (set rs) (touched rs) st2" by (simp add: on_track_def)
  moreover have "pb_files (ps_batch st2) = []"
    using flush_batch_empty [of x st1] run(2) by (auto simp: empty_batch_def split: if_splits)
  ultimately show "\<forall>r\<in>set rs. settled fs (tree (ps_world st2)) r"
    "\<forall>p. p \<notin> touched rs \<longrightarrow> tree (ps_world st2) p = ?T0 p"
    by (auto simp: progress_def waiting_def)
qed

end
