(* ===== verification/Push_Tree.thy ===== *)
theory Push_Tree
  imports Push_Refinement
begin

text \<open>
  The whole push as an update of the server's tree (theory Push_Refinement has the processing of
  the prepared files): what the inspection hands over, which metadata the push keeps, the
  symlinks and the deletions, and the refinement of \<open>push_sync\<close>.
\<close>

section \<open>The metadata a push knows\<close>

text \<open>Every entry is under its own path; outside the paths \<open>S\<close> only those of \<open>G\<close> may have gone.\<close>

definition known_metas ::
  "string set \<Rightarrow> string set \<Rightarrow> (string, file_sync_meta) hmap \<Rightarrow> (string, file_sync_meta) hmap \<Rightarrow> bool" where
  "known_metas S G ms0 ms \<longleftrightarrow> hwf ms \<and> (\<forall>k m. hget ms k = Some m \<longrightarrow> fm_path m = k) \<and>
     (\<forall>k. k \<notin> S \<longrightarrow> hget ms k = hget ms0 k \<or> k \<in> G \<and> hget ms k = None)"

lemma known_insert [intro]:
  "known_metas S G ms0 ms \<Longrightarrow> fm_path m = k \<Longrightarrow> k \<in> S \<Longrightarrow> known_metas S G ms0 (hinsert k m ms)"
  by (auto simp: known_metas_def)

lemma known_remove [intro]: "known_metas S G ms0 ms \<Longrightarrow> k \<in> G \<Longrightarrow> known_metas S G ms0 (hremove k ms)"
  by (auto simp: known_metas_def)

lemma known_inserts:
  "known_metas S G ms0 ms \<Longrightarrow> fm_path ` set us \<subseteq> S \<Longrightarrow>
    known_metas S G ms0 (fold (\<lambda>m. hinsert (fm_path m) m) us ms)"
  by (induction us arbitrary: ms) auto

lemma make_file_meta_path [simp]: "fm_path (make_file_meta now f) = pf_remote_path f"
  by (simp add: make_file_meta_def synced_meta_def)

definition metas_ok ::
  "string set \<Rightarrow> string set \<Rightarrow> string set \<Rightarrow> (string, file_sync_meta) hmap \<Rightarrow> ('w, 'e) push_state \<Rightarrow> bool" where
  "metas_ok S G L ms0 st \<longleftrightarrow> known_metas S G ms0 (ps_metas st) \<and> paths_of (pb_files (ps_batch st)) \<subseteq> S \<and>
     py_remote_path ` set (ps_symlinks st) \<subseteq> L"

lemma metas_ok_same:
  "metas_ok S G L ms0 st \<Longrightarrow> ps_metas st' = ps_metas st \<Longrightarrow> ps_batch st' = ps_batch st \<Longrightarrow>
    ps_symlinks st' = ps_symlinks st \<Longrightarrow> metas_ok S G L ms0 st'"
  by (simp add: metas_ok_def)

lemma then_metas:
  "metas_ok S G L ms0 (fst r) \<Longrightarrow> (\<And>s v. r = (s, Inr v) \<Longrightarrow> metas_ok S G L ms0 s \<Longrightarrow> metas_ok S G L ms0 (fst (f s v))) \<Longrightarrow>
    metas_ok S G L ms0 (fst (then_st r f))"
  by (rule then_st_inv [where P = "metas_ok S G L ms0"])

lemma flush_meta_metas [simp]:
  "ps_metas (fst (flush_pending_metadata_updates x st)) = ps_metas st"
  "ps_symlinks (fst (flush_pending_metadata_updates x st)) = ps_symlinks st"
  by (simp_all add: flush_pending_metadata_updates_def split: prod.split)

lemma record_failure_metas [simp]:
  "ps_metas (fst (record_push_failure x f e st)) = ps_metas st"
  "ps_symlinks (fst (record_push_failure x f e st)) = ps_symlinks st"
  by (simp_all add: record_push_failure_def Let_def)

lemma isolated_metas:
  "ps_metas (fst (push_isolated x files acc st)) = ps_metas st \<and>
   ps_symlinks (fst (push_isolated x files acc st)) = ps_symlinks st"
proof (induction files arbitrary: acc st)
  case (Cons f files)
  obtain w r where one: "push_batch_via_chunks (px_env x) (px_config x) [f] (ps_world st) = (w, r)" by force
  let ?same = "\<lambda>s. ps_metas s = ps_metas st \<and> ps_symlinks s = ps_symlinks st"
  have "?same (fst (then_st (record_push_failure x f e (st\<lparr>ps_world := w\<rparr>)) (\<lambda>s _. push_isolated x files a s)))"
    for e a by (rule then_st_inv [where P = ?same]) (simp_all add: Cons.IH)
  with one Cons.IH show ?case by (cases acc; cases r) simp_all
qed (simp add: prod.split)

lemma isolated_paths:
  "push_isolated x files (sent, metas) st = (st', Inr (sent', metas')) \<Longrightarrow>
    fm_path ` set metas' \<subseteq> fm_path ` set metas \<union> paths_of files"
proof (induction files arbitrary: sent metas st)
  case (Cons f files)
  obtain w r where one: "push_batch_via_chunks (px_env x) (px_config x) [f] (ps_world st) = (w, r)" by force
  show ?case
  proof (cases r)
    case (Inl e)
    with Cons.prems one obtain s where "push_isolated x files (sent, metas) s = (st', Inr (sent', metas'))"
      by (auto simp: then_st_Inr)
    from Cons.IH [OF this] show ?thesis by auto
  next
    case (Inr u)
    with Cons.prems one have "push_isolated x files (sent @ [f], metas @ [make_file_meta (pe_now (px_env x) w) f])
      (st\<lparr>ps_world := w\<rparr>) = (st', Inr (sent', metas'))" by simp
    from Cons.IH [OF this] show ?thesis by auto
  qed
qed simp

lemma noted_links [simp]: "ps_symlinks (note_pushed us fs st) = ps_symlinks st"
  by (simp add: note_pushed_def)

lemma noted_metas:
  "known_metas S G ms0 (ps_metas st) \<Longrightarrow> fm_path ` set us \<subseteq> S \<Longrightarrow>
    known_metas S G ms0 (ps_metas (note_pushed us fs st))"
  using known_inserts by (simp add: note_pushed_def)

lemma flush_metas [intro]:
  assumes ok: "metas_ok S G L ms0 st"
  shows "metas_ok S G L ms0 (fst (flush_push_batch x st))"
proof (cases "pb_files (ps_batch st) = []")
  case True
  with ok show ?thesis by (simp add: flush_push_batch_def)
next
  case False
  let ?files = "pb_files (ps_batch st)" and ?st0 = "st\<lparr>ps_batch := empty_batch\<rparr>"
  from ok have known: "known_metas S G ms0 (ps_metas st)" and paths: "paths_of ?files \<subseteq> S"
    and links: "py_remote_path ` set (ps_symlinks st) \<subseteq> L" by (simp_all add: metas_ok_def)
  obtain w r where run: "push_batch_via_chunks (px_env x) (px_config x) ?files (ps_world st) = (w, r)" by force
  have "known_metas S G ms0 (ps_metas (fst (flush_push_batch x st))) \<and>
    ps_symlinks (fst (flush_push_batch x st)) = ps_symlinks st"
  proof (cases r)
    case (Inr u)
    have "fm_path ` set (map (make_file_meta n) ?files) \<subseteq> S" for n using paths by (auto simp: image_iff)
    from noted_metas [OF _ this, where st = "?st0\<lparr>ps_world := w\<rparr>"] known False run Inr show ?thesis by (simp add: flush_push_batch_def Let_def del: set_map)
  next
    case (Inl e)
    obtain s1 v where iso: "push_isolated x ?files ([], []) (?st0\<lparr>ps_world := w\<rparr>) = (s1, v)" by force
    have s1: "ps_metas s1 = ps_metas st" "ps_symlinks s1 = ps_symlinks st"
      using isolated_metas [of x ?files "([], [])" "?st0\<lparr>ps_world := w\<rparr>"] iso by simp_all
    show ?thesis
    proof (cases v)
      case (Inr acc)
      obtain sent metas where acc: "acc = (sent, metas)" by force
      with isolated_paths [of x ?files "[]" "[]" "?st0\<lparr>ps_world := w\<rparr>"] iso Inr paths
      have "fm_path ` set metas \<subseteq> S" by fastforce
      with noted_metas [where st = s1] known s1 False run Inl iso Inr acc show ?thesis
        by (simp add: flush_push_batch_def Let_def)
    qed (use known s1 False run Inl iso in \<open>simp add: flush_push_batch_def Let_def\<close>)
  qed
  with paths links flush_batch_empty [of x st] False show ?thesis by (simp add: metas_ok_def empty_batch_def)
qed

lemma complete_metas [intro]: "metas_ok S G L ms0 st \<Longrightarrow> metas_ok S G L ms0 (fst (complete_entry x st))"
  by (auto simp: complete_entry_def Let_def intro: metas_ok_same intro!: flush_metas)

lemma finish_metas [intro]: "metas_ok S G L ms0 st \<Longrightarrow> metas_ok S G L ms0 (fst (finish x st))"
  unfolding finish_def by (rule then_metas) auto

text \<open>The stages, for a file under a path of \<open>S\<close> and old paths of \<open>G\<close>.\<close>

lemma or_metas:
  "(\<And>s. metas_ok S G L ms0 s \<Longrightarrow> metas_ok S G L ms0 (fst (a s))) \<Longrightarrow>
   (\<And>s. metas_ok S G L ms0 s \<Longrightarrow> metas_ok S G L ms0 (fst (b s))) \<Longrightarrow>
   metas_ok S G L ms0 st \<Longrightarrow> metas_ok S G L ms0 (fst (or_stage a b st))"
  unfolding or_stage_def by (rule then_metas) auto

lemma metas_updates [simp]:
  "metas_ok S G L ms0 (st\<lparr>ps_store := e\<rparr>) = metas_ok S G L ms0 st"
  "metas_ok S G L ms0 (st\<lparr>ps_pushed := n\<rparr>) = metas_ok S G L ms0 st"
  "metas_ok S G L ms0 (st\<lparr>ps_skipped := n\<rparr>) = metas_ok S G L ms0 st"
  "metas_ok S G L ms0 (st\<lparr>ps_deleted := n\<rparr>) = metas_ok S G L ms0 st"
  "metas_ok S G L ms0 (st\<lparr>ps_failed := n\<rparr>) = metas_ok S G L ms0 st"
  "metas_ok S G L ms0 (st\<lparr>ps_processed := n\<rparr>) = metas_ok S G L ms0 st"
  "metas_ok S G L ms0 (st\<lparr>ps_errors := es\<rparr>) = metas_ok S G L ms0 st"
  "metas_ok S G L ms0 (st\<lparr>ps_pending := us\<rparr>) = metas_ok S G L ms0 st"
  "metas_ok S G L ms0 (st\<lparr>ps_world := w\<rparr>) = metas_ok S G L ms0 st"
  by (simp_all add: metas_ok_def)

lemma metas_update [simp]:
  "metas_ok S G L ms0 (st\<lparr>ps_metas := ms\<rparr>) \<longleftrightarrow> known_metas S G ms0 ms \<and>
     paths_of (pb_files (ps_batch st)) \<subseteq> S \<and> py_remote_path ` set (ps_symlinks st) \<subseteq> L"
  "metas_ok S G L ms0 (st\<lparr>ps_batch := b\<rparr>) \<longleftrightarrow> known_metas S G ms0 (ps_metas st) \<and>
     paths_of (pb_files b) \<subseteq> S \<and> py_remote_path ` set (ps_symlinks st) \<subseteq> L"
  by (simp_all add: metas_ok_def)

lemma metas_okD:
  "metas_ok S G L ms0 st \<Longrightarrow> known_metas S G ms0 (ps_metas st)"
  "metas_ok S G L ms0 st \<Longrightarrow> f \<in> set (pb_files (ps_batch st)) \<Longrightarrow> pf_remote_path f \<in> S"
  "metas_ok S G L ms0 st \<Longrightarrow> l \<in> set (ps_symlinks st) \<Longrightarrow> py_remote_path l \<in> L"
  by (auto simp: metas_ok_def)

lemma hash_skip_metas:
  "metas_ok S G L ms0 st \<Longrightarrow> pf_remote_path (pp_file p) \<in> S \<Longrightarrow> metas_ok S G L ms0 (fst (hash_skip_stage x p st))"
  by (auto simp: hash_skip_stage_def Let_def split: option.split intro!: finish_metas known_insert intro: metas_okD)

lemma move_metadata_metas:
  "metas_ok S G L ms0 st \<Longrightarrow> pf_remote_path f \<in> S \<Longrightarrow> old \<in> G \<Longrightarrow> metas_ok S G L ms0 (fst (move_metadata x old f st))"
  by (auto simp: move_metadata_def Let_def split: prod.split sum.split
      intro!: known_insert known_remove intro: metas_okD)

lemma moved_metas:
  "metas_ok S G L ms0 st \<Longrightarrow> pf_remote_path f \<in> S \<Longrightarrow> old \<in> G \<Longrightarrow>
    metas_ok S G L ms0 (fst (then_st (move_metadata x old f st) (\<lambda>s _. finish x s)))"
  by (rule then_metas, erule (2) move_metadata_metas) auto

lemma legacy_metas:
  assumes "metas_ok S G L ms0 st" "pf_remote_path (pp_file p) \<in> S" "old_paths (pp_request p) \<subseteq> G"
  shows "metas_ok S G L ms0 (fst (legacy_move_stage x p st))"
  using assms movable_old(1) [of st "pp_request p" "pp_file p"]
  by (auto simp: legacy_move_stage_def Let_def split: option.split prod.split sum.split bool.split
      intro!: moved_metas)

lemma migration_move_metas:
  assumes "metas_ok S G L ms0 st" "pf_remote_path (pp_file p) \<in> S" "old_paths (pp_request p) \<subseteq> G"
  shows "metas_ok S G L ms0 (fst (migration_move_stage x p st))"
  using assms movable_old(2) [of st "pp_request p" "pp_file p"]
  by (auto simp: migration_move_stage_def Let_def split: option.split prod.split sum.split bool.split
      intro!: moved_metas finish_metas)

lemma drop_old_metas:
  "metas_ok S G L ms0 st \<Longrightarrow> old \<in> G \<Longrightarrow> metas_ok S G L ms0 (fst (drop_old_metadata x old st))"
  by (auto simp: drop_old_metadata_def split: prod.split sum.split
      intro!: known_insert known_remove intro: metas_okD)

lemma migration_target_metas:
  assumes "metas_ok S G L ms0 st" "pf_remote_path (pp_file p) \<in> S" "old_paths (pp_request p) \<subseteq> G"
  shows "metas_ok S G L ms0 (fst (migration_target_stage x p st))"
  using assms
  by (auto simp: migration_target_stage_def Let_def old_paths_def
      split: option.split prod.split sum.split bool.split
      intro!: then_metas finish_metas drop_old_metas known_insert) (auto intro: metas_okD)

lemma batch_stage_metas:
  assumes "metas_ok S G L ms0 st" "pf_remote_path f \<in> S"
  shows "metas_ok S G L ms0 (fst (batch_stage x f st))"
  unfolding batch_stage_def Let_def
  by (rule then_metas, use assms(1) in force, rule then_metas)
    (use assms(2) in \<open>auto simp: batch_push_def intro!: flush_metas intro: metas_okD\<close>)

lemma process_metas:
  assumes ok: "metas_ok S G L ms0 st" and r: "pr_remote_path r \<in> S" "old_paths r \<subseteq> G"
  shows "metas_ok S G L ms0 (fst (process_prepared x r st))"
proof (cases "prepare_push_file (pe_hash (px_env x)) (pe_fs (px_env x) (ps_world st)) r")
  case (Inl m)
  with ok show ?thesis by (auto simp: process_prepared_def fail_entry_def)
next
  case (Inr p)
  have p: "pf_remote_path (pp_file p) \<in> S" "old_paths (pp_request p) \<subseteq> G"
    using r prepare_true(2,4) [OF Inr] by simp_all
  have later: "metas_ok S G L ms0 (fst (later_stages x r p s))" if "metas_ok S G L ms0 s" for s
    unfolding later_stages_def
    by (rule or_metas, cases "pr_stored_meta r = None")
      (simp_all add: that or_metas legacy_metas migration_move_metas migration_target_metas batch_stage_metas p)
  have "metas_ok S G L ms0 (fst (or_stage (hash_skip_stage x p) (later_stages x r p) st))"
    by (rule or_metas [OF _ _ ok]) (auto intro: hash_skip_metas later p)
  then show ?thesis unfolding process_stages [OF Inr] by (rule then_metas) simp
qed

section \<open>The symlinks\<close>

text \<open>A push of symlinks changes the tree at their paths only.\<close>

lemma push_symlink_keeps:
  assumes set: "push_setting env pre fs sfs tree store" and p: "p \<noteq> py_remote_path l"
  shows "tree (fst (push_symlink env mode l w)) p = tree w p"
proof -
  have create: "tree (fst (then_st (ro_create_symlink (pe_remote env) (py_remote_path l) (py_target l) w)
      (\<lambda>w1 _. (w1, Inr SymPushed)))) p = tree w p" for w
    by (rule then_st_inv [where P = "\<lambda>v. tree v p = tree w p"]) (simp_all add: setting_files(7) [OF set p])
  obtain w1 t where ask: "ro_symlink_target (pe_remote env) (py_remote_path l) w = (w1, t)" by force
  have w1: "tree w1 = tree w" using setting_questions(4) [OF set, of "py_remote_path l" w] ask by simp
  consider e where "t = Inl e" | "t = Inr None" | y where "t = Inr (Some y)"
    by (metis sum.exhaust option.exhaust)
  then show ?thesis by cases (simp_all add: push_symlink_def Let_def ask create w1)
qed

lemma symlink_step_keeps:
  assumes set: "push_setting (px_env x) pre fs sfs tree store"
  shows "p \<noteq> py_remote_path l \<Longrightarrow> tree (ps_world (push_symlink_step x l st)) p = tree (ps_world st) p"
    and "n \<le> ps_failed st \<Longrightarrow> n \<le> ps_failed (push_symlink_step x l st)"
    and "metas_ok S G L ms0 st \<Longrightarrow> py_remote_path l \<in> S \<Longrightarrow> metas_ok S G L ms0 (push_symlink_step x l st)"
    and "ps_seen (push_symlink_step x l st) = ps_seen st"
proof -
  obtain w r where run: "push_symlink (px_env x) (px_mode x) l (ps_world st) = (w, r)" by force
  have meta: "fm_path (synced_symlink_meta n l) = py_remote_path l" for n
    by (simp add: synced_symlink_meta_def synced_meta_def)
  show "p \<noteq> py_remote_path l \<Longrightarrow> tree (ps_world (push_symlink_step x l st)) p = tree (ps_world st) p"
    using push_symlink_keeps [OF set, of p l "px_mode x" "ps_world st"] run
    by (auto simp: push_symlink_step_def Let_def split: sum.split symlink_outcome.split)
  show "n \<le> ps_failed st \<Longrightarrow> n \<le> ps_failed (push_symlink_step x l st)"
    "ps_seen (push_symlink_step x l st) = ps_seen st"
    using run by (auto simp: push_symlink_step_def Let_def split: sum.split symlink_outcome.split)
  assume "metas_ok S G L ms0 st" "py_remote_path l \<in> S"
  with run show "metas_ok S G L ms0 (push_symlink_step x l st)"
    by (auto simp: push_symlink_step_def Let_def meta split: sum.split symlink_outcome.split
        intro!: known_insert) (auto intro: metas_okD)
qed

lemma symlinks_keep:
  assumes set: "push_setting (px_env x) pre fs sfs tree store"
    and S: "L \<subseteq> S" and ok: "metas_ok S G L ms0 st"
  shows "p \<notin> L \<Longrightarrow> tree (ps_world (fst (push_pending_symlinks x st))) p = tree (ps_world st) p"
    and "ps_failed st \<le> ps_failed (fst (push_pending_symlinks x st))"
    and "metas_ok S G L ms0 (fst (push_pending_symlinks x st))"
proof -
  let ?after = "\<lambda>s. (p \<notin> L \<longrightarrow> tree (ps_world s) p = tree (ps_world st) p) \<and> ps_failed st \<le> ps_failed s \<and> metas_ok S G L ms0 s"
  have "?after (fold (push_symlink_step x) ls s)"
    if "?after s" "py_remote_path ` set ls \<subseteq> L" for ls s
    using that
  proof (induction ls arbitrary: s)
    case (Cons l ls)
    note keep = symlink_step_keeps [OF set, where st = s and l = l]
    have "p \<notin> L \<Longrightarrow> p \<noteq> py_remote_path l" using Cons.prems(2) by auto
    then have "?after (push_symlink_step x l s)"
      using Cons.prems keep(1) [of p] keep(2) [of "ps_failed st"] keep(3) [of S G L ms0] S by auto
    with Cons.IH Cons.prems(2) show ?case by simp
  qed simp
  moreover have "py_remote_path ` set (ps_symlinks st) \<subseteq> L" using ok by (simp add: metas_ok_def)
  ultimately have "?after (fold (push_symlink_step x) (pe_link_order (px_env x) (ps_symlinks st)) st)"
    using ok setting_fs(7) [OF set] by simp
  then show "p \<notin> L \<Longrightarrow> tree (ps_world (fst (push_pending_symlinks x st))) p = tree (ps_world st) p"
    "ps_failed st \<le> ps_failed (fst (push_pending_symlinks x st))"
    "metas_ok S G L ms0 (fst (push_pending_symlinks x st))"
    unfolding push_pending_symlinks_def by (auto intro: metas_ok_same)
qed

section \<open>The deletions\<close>

lemma propagate_deletion_tree:
  assumes set: "push_setting (px_env x) pre fs sfs tree store"
    and run: "propagate_deletion x ex m st = (st', Inr u)"
  shows "ps_failed st \<le> ps_failed st'" and "ps_seen st' = ps_seen st"
    and "ps_failed st' = ps_failed st \<Longrightarrow>
      tree (ps_world st') p =
        (if deletes_remote x ex (ps_seen st) m \<and> p = fm_path m then None else tree (ps_world st) p)"
proof -
  obtain w r where del: "ro_delete_file (pe_remote (px_env x)) (fm_path m) (ps_world st) = (w, r)" by force
  have "(ps_failed st \<le> ps_failed st' \<and> ps_seen st' = ps_seen st) \<and> (ps_failed st' = ps_failed st \<longrightarrow>
      tree (ps_world st') p =
        (if deletes_remote x ex (ps_seen st) m \<and> p = fm_path m then None else tree (ps_world st) p))"
  proof (cases "deletes_remote x ex (ps_seen st) m")
    case False
    with run show ?thesis by (simp add: propagate_deletion_def)
  next
    case True
    show ?thesis
    proof (cases r)
      case (Inl e)
      with True run del show ?thesis by (auto simp: propagate_deletion_def)
    next
      case (Inr v)
      with True run del have "ps_world st' = w" "ps_failed st' = ps_failed st" "ps_seen st' = ps_seen st"
        by (auto simp: propagate_deletion_def split: prod.splits sum.splits)
      with True setting_files(5) [OF set del [unfolded Inr]] show ?thesis by simp
    qed
  qed
  then show "ps_failed st \<le> ps_failed st'" "ps_seen st' = ps_seen st"
    "ps_failed st' = ps_failed st \<Longrightarrow>
      tree (ps_world st') p =
        (if deletes_remote x ex (ps_seen st) m \<and> p = fm_path m then None else tree (ps_world st) p)" by blast+
qed

lemma deletions_tree:
  assumes set: "push_setting (px_env x) pre fs sfs tree store"
  shows "for_each (propagate_deletion x ex) ms st = (st', Inr u) \<Longrightarrow>
    ps_failed st \<le> ps_failed st' \<and> (ps_failed st' = ps_failed st \<longrightarrow>
      tree (ps_world st') p =
        (if \<exists>m\<in>set ms. deletes_remote x ex (ps_seen st) m \<and> p = fm_path m then None
         else tree (ps_world st) p))"
proof (induction ms arbitrary: st)
  case (Cons m ms)
  obtain s r where one: "propagate_deletion x ex m st = (s, r)" by force
  with Cons.prems obtain v where r: "r = Inr v" and rest: "for_each (propagate_deletion x ex) ms s = (st', Inr u)"
    by (cases r) auto
  note first = propagate_deletion_tree [OF set one [unfolded r]]
  from Cons.IH [OF rest] first show ?case by auto
qed simp

text \<open>What the push deletes: known paths that it may delete.\<close>

lemma propagation_tree:
  assumes set: "push_setting (px_env x) pre fs sfs tree store"
    and run: "propagate_deletions x rels st = (st', Inr u)" and same: "ps_failed st' = ps_failed st"
    and known: "hwf (ps_metas st)" "\<And>k m. hget (ps_metas st) k = Some m \<Longrightarrow> fm_path m = k"
  shows "tree (ps_world st') p =
    (if may_delete x rels (ps_seen st) p \<and> hget (ps_metas st) p \<noteq> None then None else tree (ps_world st) p)"
proof (cases "dp_local_to_remote (sr_delete_propagation (px_rel x))")
  case False
  with run show ?thesis by (simp add: propagate_deletions_def may_delete_def)
next
  case True
  have "hget (ps_metas st) p \<noteq> None \<longleftrightarrow> (\<exists>m\<in>set (hvalues (ps_metas st)). fm_path m = p)"
    unfolding Bex_def set_hvalues [OF known(1)] using known(2) by blast
  moreover have one: "deletes_remote x (child_exclusions (px_rel x) rels) (ps_seen st) m \<longleftrightarrow>
      may_delete x rels (ps_seen st) (fm_path m)" for m
    using True by (auto simp: may_delete_def deletes_remote_def)
  ultimately have "(\<exists>m\<in>set (hvalues (ps_metas st)). deletes_remote x (child_exclusions (px_rel x) rels) (ps_seen st) m \<and>
      p = fm_path m) \<longleftrightarrow> may_delete x rels (ps_seen st) p \<and> hget (ps_metas st) p \<noteq> None"
    using one by metis
  with True run same deletions_tree [OF set, of "child_exclusions (px_rel x) rels" "hvalues (ps_metas st)" st st' u p]
  show ?thesis by (simp add: propagate_deletions_def)
qed

section \<open>The clean-up\<close>

lemma cleanup_keeps:
  assumes "metas_ok S G L ms0 st" "\<And>p. is_under_remote_base p (pm_old_remote_path g) \<Longrightarrow> p \<in> G"
  shows "metas_ok S G L ms0 (fst (cleanup_unseen_migration_metadata x g st))"
    and "ps_world (fst (cleanup_unseen_migration_metadata x g st)) = ps_world st"
    and "ps_failed (fst (cleanup_unseen_migration_metadata x g st)) = ps_failed st"
  unfolding cleanup_unseen_migration_metadata_def
  by (rule for_each_inv [where P = "metas_ok S G L ms0"],
      use assms in \<open>auto split: prod.split sum.split intro!: known_remove intro: metas_okD\<close>)
    (rule for_each_inv [where P = "\<lambda>s. ps_world s = ps_world st"]
        for_each_inv [where P = "\<lambda>s. ps_failed s = ps_failed st"];
      auto split: prod.split sum.split)+

section \<open>The inspection\<close>

text \<open>The relative path of an entry that is a file of the relationship, and its remote path.\<close>

definition owned_file :: "(string \<Rightarrow> string \<Rightarrow> bool) \<Rightarrow> sync_relationship \<Rightarrow> scan_fs \<Rightarrow> string \<Rightarrow> string option" where
  "owned_file glob rel sfs entry =
     (case (sf_lstat sfs entry, path_strip_prefix entry (sr_local_path rel), path_file_name entry) of
        (Inr stat, Some relative, Some name) \<Rightarrow>
          if es_kind stat = StatFile \<and> matches_filter glob name (sr_filter rel) then Some relative else None
      | _ \<Rightarrow> None)"

definition remote_of :: "sync_relationship \<Rightarrow> string \<Rightarrow> string" where
  "remote_of rel relative = compute_remote_path relative (sr_remote_path rel)"

text \<open>The paths under which a push looks for an older copy of an entry.\<close>

definition entry_olds :: "sync_relationship \<Rightarrow> sync_path_migration option \<Rightarrow> string \<Rightarrow> string \<Rightarrow> string set" where
  "entry_olds rel migration entry relative =
     set_option (compute_legacy_separator_remote_path relative (sr_remote_path rel)) \<union>
     set_option (Option.bind migration (migration_old_remote_path_for_entry entry))"

text \<open>The file that Lite mode skips on its size and time, and the request for any other.\<close>

definition fast_skipped ::
  "('w, 'e) push_ctx \<Rightarrow> scan_fs \<Rightarrow> (string, file_sync_meta) hmap \<Rightarrow> string \<Rightarrow> string \<Rightarrow> bool" where
  "fast_skipped x sfs ms entry relative =
     (case (sf_lstat sfs entry, sf_mtime sfs entry) of
        (Inr stat, Inr mtime) \<Rightarrow>
          can_lite_fast_skip (px_mode x) (hget ms (remote_of (px_rel x) relative)) (es_len stat) mtime
      | _ \<Rightarrow> False)"

definition request_of ::
  "('w, 'e) push_ctx \<Rightarrow> (string, file_sync_meta) hmap \<Rightarrow> string \<Rightarrow> string \<Rightarrow> int \<Rightarrow> push_prep_request" where
  "request_of x ms entry relative mtime =
     \<lparr>pr_entry_path = entry, pr_remote_path = remote_of (px_rel x) relative, pr_modified_at = mtime,
      pr_content_type = mime_from_extension entry,
      pr_stored_meta = hget ms (remote_of (px_rel x) relative),
      pr_migration_old = Option.bind (px_migration x) (migration_old_remote_path_for_entry entry),
      pr_legacy = compute_legacy_separator_remote_path relative (sr_remote_path (px_rel x))\<rparr>"

lemma request_olds: "old_paths (request_of x ms entry relative mtime) =
    entry_olds (px_rel x) (px_migration x) entry relative"
  by (simp add: request_of_def old_paths_def entry_olds_def)

definition entry_requests ::
  "('w, 'e) push_ctx \<Rightarrow> scan_fs \<Rightarrow> (string, file_sync_meta) hmap \<Rightarrow> string \<Rightarrow> push_prep_request list" where
  "entry_requests x sfs ms entry =
     (case (owned_file (pe_glob (px_env x)) (px_rel x) sfs entry, sf_mtime sfs entry) of
        (Some relative, Inr mtime) \<Rightarrow>
          if fast_skipped x sfs ms entry relative then [] else [request_of x ms entry relative mtime]
      | _ \<Rightarrow> [])"

definition entry_links :: "sync_relationship \<Rightarrow> scan_fs \<Rightarrow> string \<Rightarrow> string set" where
  "entry_links rel sfs entry =
     (case (sf_lstat sfs entry, path_strip_prefix entry (sr_local_path rel)) of
        (Inr stat, Some relative) \<Rightarrow> if es_kind stat = StatSymlink then {remote_of rel relative} else {}
      | _ \<Rightarrow> {})"

text \<open>What the inspection changes, when nothing fails: the two lists, and counters.\<close>

definition inspected ::
  "('w, 'e) push_ctx \<Rightarrow> scan_fs \<Rightarrow> string list \<Rightarrow> ('w, 'e) push_state \<Rightarrow> ('w, 'e) push_state \<Rightarrow> bool" where
  "inspected x sfs es st st' \<longleftrightarrow>
     ps_world st' = ps_world st \<and> ps_batch st' = ps_batch st \<and> ps_metas st' = ps_metas st \<and>
     ps_preps st' = ps_preps st @ concat (map (entry_requests x sfs (ps_metas st)) es) \<and>
     py_remote_path ` set (ps_symlinks st') \<subseteq>
       py_remote_path ` set (ps_symlinks st) \<union> (\<Union>e\<in>set es. entry_links (px_rel x) sfs e) \<and>
     (\<forall>e\<in>set es. owned_file (pe_glob (px_env x)) (px_rel x) sfs e \<noteq> None \<longrightarrow>
        (\<exists>mtime. sf_mtime sfs e = Inr mtime))"

lemma complete_idle [simp]:
  "pb_files (ps_batch st) = [] \<Longrightarrow> complete_entry x st = (st\<lparr>ps_processed := ps_processed st + 1\<rparr>, Inr ())"
  by (simp add: complete_entry_def flush_push_batch_def Let_def)

lemma inspect_one:
  assumes fixed: "pe_scan (px_env x) (ps_world st) = sfs" and empty: "pb_files (ps_batch st) = []"
    and run: "inspect_entry x entry st = (st', Inr u)" and same: "ps_failed st' = ps_failed st"
  shows "inspected x sfs [entry] st st'"
proof (cases "sf_lstat sfs entry")
  case (Inl e)
  with run same show ?thesis by (auto simp: inspect_entry_def fixed fail_entry_def empty)
next
  case (Inr stat)
  show ?thesis
  proof (cases "path_strip_prefix entry (sr_local_path (px_rel x))")
    case None
    with Inr run show ?thesis
      by (auto simp: inspect_entry_def fixed empty inspected_def entry_requests_def owned_file_def Let_def)
  next
    case (Some relative)
    note here = run [unfolded inspect_entry_def Let_def fixed Inr Some sum.case option.case]
    show ?thesis
    proof (cases "es_kind stat")
      case StatSymlink
      then have "owned_file (pe_glob (px_env x)) (px_rel x) sfs entry = None"
        by (simp add: owned_file_def Inr Some split: option.split)
      with StatSymlink here same empty show ?thesis
        by (auto simp: inspect_symlink_def fixed Let_def fail_entry_def skip_entry_def see_path_def
            inspected_def entry_requests_def entry_links_def remote_of_def Inr Some
            split: sum.splits if_splits)
    next
      case StatFile
      with here same empty show ?thesis
        by (auto simp: inspect_file_def fixed Let_def fail_entry_def skip_entry_def see_path_def map_err_def
            inspected_def entry_requests_def owned_file_def entry_links_def remote_of_def fast_skipped_def
            request_of_def Inr Some split: sum.splits if_splits option.splits)
    next
      case StatOther
      then have "owned_file (pe_glob (px_env x)) (px_rel x) sfs entry = None"
        by (simp add: owned_file_def Inr Some split: option.split)
      with StatOther here empty show ?thesis
        by (auto simp: inspected_def entry_requests_def entry_links_def Inr Some)
    qed
  qed
qed

lemma inspected_trans:
  assumes "inspected x sfs [e] st s" "inspected x sfs es s st'"
  shows "inspected x sfs (e # es) st st'"
proof -
  let ?links = "\<lambda>st. py_remote_path ` set (ps_symlinks st)" and ?rest = "\<Union>e\<in>set es. entry_links (px_rel x) sfs e"
  have "?links st' \<subseteq> ?links s \<union> ?rest" using assms(2) unfolding inspected_def by (elim conjE)
  also have "?links s \<subseteq> ?links st \<union> entry_links (px_rel x) sfs e" using assms(1) by (simp add: inspected_def)
  finally have "?links st' \<subseteq> ?links st \<union> (\<Union>e\<in>set (e # es). entry_links (px_rel x) sfs e)" by auto
  with assms show ?thesis by (simp add: inspected_def)
qed

lemma inspect_mono: "n \<le> ps_failed st \<Longrightarrow> n \<le> ps_failed (fst (inspect_entry x e st))"
  by (auto simp: inspect_entry_def inspect_symlink_def inspect_file_def Let_def skip_entry_def see_path_def
      split: sum.split option.split entry_kind.split)

lemma inspect_each_mono: "n \<le> ps_failed st \<Longrightarrow> n \<le> ps_failed (fst (for_each (inspect_entry x) es st))"
  by (rule for_each_inv [where P = "\<lambda>s. n \<le> ps_failed s"]) (auto intro: inspect_mono)

lemma inspect_all:
  assumes fixed: "\<And>w. pe_scan (px_env x) w = sfs"
  shows "pb_files (ps_batch st) = [] \<Longrightarrow> for_each (inspect_entry x) es st = (st', Inr u) \<Longrightarrow>
    ps_failed st' = ps_failed st \<Longrightarrow> inspected x sfs es st st'"
proof (induction es arbitrary: st)
  case (Cons e es)
  obtain s r where one: "inspect_entry x e st = (s, r)" by force
  with Cons.prems(2) obtain v where r: "r = Inr v" and rest: "for_each (inspect_entry x) es s = (st', Inr u)"
    by (cases r) auto
  from inspect_mono [of _ st x e] one inspect_each_mono [of _ s x es] rest Cons.prems(3)
  have same: "ps_failed s = ps_failed st" "ps_failed st' = ps_failed s" by (metis fst_conv le_antisym order_refl)+
  note first = inspect_one [OF fixed Cons.prems(1) one [unfolded r] same(1)]
  then have "pb_files (ps_batch s) = []" using Cons.prems(1) by (simp add: inspected_def)
  from inspected_trans [OF first Cons.IH [OF this rest same(2)]] show ?case .
qed (auto simp: inspected_def)

section \<open>The local files\<close>

text \<open>The files of a walk that the relationship owns: entry, relative path.\<close>

definition owned_files ::
  "(string \<Rightarrow> string \<Rightarrow> bool) \<Rightarrow> sync_relationship \<Rightarrow> scan_fs \<Rightarrow> string list \<Rightarrow> (string \<times> string) list" where
  "owned_files glob rel sfs walker =
     concat (map (\<lambda>e. case owned_file glob rel sfs e of Some r \<Rightarrow> [(e, r)] | None \<Rightarrow> []) walker)"

lemma owned_files_iff:
  "(e, r) \<in> set (owned_files glob rel sfs walker) \<longleftrightarrow> e \<in> set walker \<and> owned_file glob rel sfs e = Some r"
  by (auto simp: owned_files_def split: option.splits)

text \<open>Every remote path is that of one entry, and no old path of a file is the path of another.\<close>

definition paths_apart ::
  "(string \<Rightarrow> string \<Rightarrow> bool) \<Rightarrow> sync_relationship \<Rightarrow> sync_path_migration option \<Rightarrow> scan_fs \<Rightarrow> string list \<Rightarrow> bool" where
  "paths_apart glob rel migration sfs walker \<longleftrightarrow>
     distinct (concat (map (entry_seen glob rel sfs) walker)) \<and>
     (\<forall>(e, r)\<in>set (owned_files glob rel sfs walker). \<forall>(e', r')\<in>set (owned_files glob rel sfs walker).
        e = e' \<or> remote_of rel r' \<notin> entry_olds rel migration e r)"

text \<open>What the metadata records of a file is on the server, and Lite mode skips only files with
  the recorded content.\<close>

definition records_right ::
  "('w, 'e) push_ctx \<Rightarrow> local_fs \<Rightarrow> scan_fs \<Rightarrow> string list \<Rightarrow> (string, file_sync_meta) hmap \<Rightarrow>
     (string \<Rightarrow> string option) \<Rightarrow> bool" where
  "records_right x fs sfs walker ms T \<longleftrightarrow>
     (\<forall>(e, r)\<in>set (owned_files (pe_glob (px_env x)) (px_rel x) sfs walker).
        (case hget ms (remote_of (px_rel x) r) of
           None \<Rightarrow> True
         | Some m \<Rightarrow>
             (case T (remote_of (px_rel x) r) of None \<Rightarrow> False | Some c \<Rightarrow> pe_hash (px_env x) c = fm_content_hash m)) \<and>
        (fast_skipped x sfs ms e r \<longrightarrow> file_content fs e \<noteq> None \<and> file_content fs e = T (remote_of (px_rel x) r)))"

lemma owned_seen:
  "owned_file glob rel sfs e = Some r \<Longrightarrow> entry_seen glob rel sfs e = [remote_of rel r]"
  by (auto simp: owned_file_def entry_seen_def remote_of_def split: sum.splits option.splits if_splits)

lemma link_seen: "p \<in> entry_links rel sfs e \<Longrightarrow> p \<in> set (entry_seen glob rel sfs e) \<and> owned_file glob rel sfs e = None"
  by (auto simp: entry_links_def entry_seen_def remote_of_def owned_file_def split: sum.splits option.splits if_splits)

lemma seen_once:
  "distinct (concat (map f es)) \<Longrightarrow> e \<in> set es \<Longrightarrow> e' \<in> set es \<Longrightarrow> p \<in> set (f e) \<Longrightarrow> p \<in> set (f e') \<Longrightarrow> e = e'"
proof (induction es)
  case (Cons a es)
  have "b \<in> set es \<Longrightarrow> p \<in> set (f b) \<Longrightarrow> p \<notin> set (f a)" for b using Cons.prems(1) by auto
  with Cons show ?case by auto
qed simp

lemma distinct_parts:
  "(\<And>e. map g (f e) = [] \<or> map g (f e) = h e) \<Longrightarrow> distinct (concat (map h es)) \<Longrightarrow>
    distinct (map g (concat (map f es)))"
proof (induction es)
  case (Cons e es)
  have part: "set (map g (f b)) \<subseteq> set (h b)" for b using Cons.prems(1) [of b] by (elim disjE) simp_all
  have "set (map g (concat (map f es))) = (\<Union>b\<in>set es. set (map g (f b)))" by auto
  also have "\<dots> \<subseteq> (\<Union>b\<in>set es. set (h b))" by (rule UN_mono [OF order_refl part])
  finally have sub: "set (map g (concat (map f es))) \<subseteq> set (concat (map h es))" by simp
  have "set (h e) \<inter> set (concat (map h es)) = {}" "distinct (h e)" "distinct (concat (map h es))"
    using Cons.prems(2) by simp_all
  moreover have "distinct (map g (f e))" using Cons.prems(1) [of e] calculation(2) by (elim disjE) simp_all
  ultimately have "distinct (map g (f e) @ map g (concat (map f es)))"
    using part [of e] sub Cons.IH [OF Cons.prems(1)] by (simp only: distinct_append) blast
  then show ?case by simp
qed simp

section \<open>The requests\<close>

definition walk_requests ::
  "('w, 'e) push_ctx \<Rightarrow> scan_fs \<Rightarrow> (string, file_sync_meta) hmap \<Rightarrow> string list \<Rightarrow> push_prep_request list" where
  "walk_requests x sfs ms walker = concat (map (entry_requests x sfs ms) walker)"

lemma walk_requests_in:
  assumes "q \<in> set (walk_requests x sfs ms walker)"
  obtains e r mtime where "(e, r) \<in> set (owned_files (pe_glob (px_env x)) (px_rel x) sfs walker)"
    "sf_mtime sfs e = Inr mtime" "\<not> fast_skipped x sfs ms e r" "q = request_of x ms e r mtime"
proof -
  from assms obtain e where e: "e \<in> set walker" "q \<in> set (entry_requests x sfs ms e)"
    by (auto simp: walk_requests_def)
  with that show ?thesis
    by (cases "owned_file (pe_glob (px_env x)) (px_rel x) sfs e"; cases "sf_mtime sfs e")
      (auto simp: entry_requests_def owned_files_iff split: if_splits)
qed

lemma request_of_fields [simp]:
  "pr_remote_path (request_of x ms e r mtime) = remote_of (px_rel x) r"
  "pr_entry_path (request_of x ms e r mtime) = e"
  "pr_stored_meta (request_of x ms e r mtime) = hget ms (remote_of (px_rel x) r)"
  by (simp_all add: request_of_def)

lemma apart_olds:
  assumes "paths_apart glob rel migration sfs walker" "(e, r) \<in> set (owned_files glob rel sfs walker)"
    "(e', r') \<in> set (owned_files glob rel sfs walker)" "e \<noteq> e'"
  shows "remote_of rel r' \<notin> entry_olds rel migration e r"
  using assms(1) [unfolded paths_apart_def, THEN conjunct2, THEN bspec, OF assms(2)] assms(3,4) by auto

lemma requests_distinct:
  assumes "paths_apart (pe_glob (px_env x)) (px_rel x) (px_migration x) sfs walker"
  shows "requests_apart (walk_requests x sfs ms walker)"
proof -
  have "distinct (map pr_remote_path (walk_requests x sfs ms walker))"
    unfolding walk_requests_def
  proof (rule distinct_parts)
    show "map pr_remote_path (entry_requests x sfs ms e) = [] \<or>
        map pr_remote_path (entry_requests x sfs ms e) = entry_seen (pe_glob (px_env x)) (px_rel x) sfs e" for e
      by (auto simp: entry_requests_def owned_seen split: option.split sum.split)
  qed (use assms in \<open>simp add: paths_apart_def\<close>)
  moreover have "pr_remote_path q \<notin> old_paths p"
    if "p \<in> set (walk_requests x sfs ms walker)" "q \<in> set (walk_requests x sfs ms walker)" "q \<noteq> p" for p q
  proof -
    from that(1) obtain e r t where p: "(e, r) \<in> set (owned_files (pe_glob (px_env x)) (px_rel x) sfs walker)"
      "sf_mtime sfs e = Inr t" "p = request_of x ms e r t" by (elim walk_requests_in)
    from that(2) obtain e' r' t' where q: "(e', r') \<in> set (owned_files (pe_glob (px_env x)) (px_rel x) sfs walker)"
      "sf_mtime sfs e' = Inr t'" "q = request_of x ms e' r' t'" by (elim walk_requests_in)
    from p q that(3) have "e \<noteq> e'" by (auto simp: owned_files_iff)
    with apart_olds [OF assms p(1) q(1)] p(3) q(3) show ?thesis by (simp add: request_olds)
  qed
  ultimately show ?thesis by (simp add: requests_apart_def)
qed

lemma requests_recorded:
  assumes "records_right x fs sfs walker ms T"
  shows "\<forall>q\<in>set (walk_requests x sfs ms walker). recorded (pe_hash (px_env x)) T q"
proof
  fix q
  assume "q \<in> set (walk_requests x sfs ms walker)"
  then obtain e r t where "(e, r) \<in> set (owned_files (pe_glob (px_env x)) (px_rel x) sfs walker)"
    "q = request_of x ms e r t" by (elim walk_requests_in)
  with assms show "recorded (pe_hash (px_env x)) T q"
    by (fastforce simp: records_right_def recorded_def split: option.splits)
qed

lemma requests_apart_mset: "mset qs = mset rs \<Longrightarrow> requests_apart rs \<Longrightarrow> requests_apart qs"
proof -
  assume same: "mset qs = mset rs" and rs: "requests_apart rs"
  from same have "set qs = set rs" by (rule mset_eq_setD)
  moreover have "distinct (map pr_remote_path qs) = distinct (map pr_remote_path rs)"
    by (rule mset_eq_imp_distinct_iff) (simp add: same)
  ultimately show ?thesis using rs by (simp add: requests_apart_def)
qed

lemma touched_set: "set qs = set rs \<Longrightarrow> touched qs = touched rs"
  by (simp add: touched_def)

definition all_olds ::
  "(string \<Rightarrow> string \<Rightarrow> bool) \<Rightarrow> sync_relationship \<Rightarrow> sync_path_migration option \<Rightarrow> scan_fs \<Rightarrow> string list \<Rightarrow> string set" where
  "all_olds glob rel migration sfs walker =
     (\<Union>(e, r)\<in>set (owned_files glob rel sfs walker). entry_olds rel migration e r)"

definition owned_paths ::
  "(string \<Rightarrow> string \<Rightarrow> bool) \<Rightarrow> sync_relationship \<Rightarrow> scan_fs \<Rightarrow> string list \<Rightarrow> string set" where
  "owned_paths glob rel sfs walker = (\<lambda>(e, r). remote_of rel r) ` set (owned_files glob rel sfs walker)"

lemma touched_owned:
  "touched (walk_requests x sfs ms walker) \<subseteq>
     owned_paths (pe_glob (px_env x)) (px_rel x) sfs walker \<union>
     all_olds (pe_glob (px_env x)) (px_rel x) (px_migration x) sfs walker"
proof
  fix p
  assume "p \<in> touched (walk_requests x sfs ms walker)"
  then obtain q where q: "q \<in> set (walk_requests x sfs ms walker)" "p = pr_remote_path q \<or> p \<in> old_paths q"
    by (auto simp: touched_def)
  from q(1) obtain e r t where "(e, r) \<in> set (owned_files (pe_glob (px_env x)) (px_rel x) sfs walker)"
    "q = request_of x ms e r t" by (elim walk_requests_in)
  with q(2) show "p \<in> owned_paths (pe_glob (px_env x)) (px_rel x) sfs walker \<union>
      all_olds (pe_glob (px_env x)) (px_rel x) (px_migration x) sfs walker"
    by (force simp: owned_paths_def all_olds_def request_olds)
qed

text \<open>A file that was skipped on its time is no request's, so its path was not touched.\<close>

lemma skipped_untouched:
  assumes apart: "paths_apart (pe_glob (px_env x)) (px_rel x) (px_migration x) sfs walker"
    and e: "(e, r) \<in> set (owned_files (pe_glob (px_env x)) (px_rel x) sfs walker)" and skip: "fast_skipped x sfs ms e r"
  shows "remote_of (px_rel x) r \<notin> touched (walk_requests x sfs ms walker)"
proof
  assume "remote_of (px_rel x) r \<in> touched (walk_requests x sfs ms walker)"
  then obtain q where q: "q \<in> set (walk_requests x sfs ms walker)"
    "remote_of (px_rel x) r = pr_remote_path q \<or> remote_of (px_rel x) r \<in> old_paths q" by (auto simp: touched_def)
  from q(1) obtain e' r' t where e': "(e', r') \<in> set (owned_files (pe_glob (px_env x)) (px_rel x) sfs walker)"
    "\<not> fast_skipped x sfs ms e' r'" "q = request_of x ms e' r' t" by (elim walk_requests_in)
  from e e' skip have differ: "e \<noteq> e'" by (auto simp: owned_files_iff)
  from q(2) show False
  proof
    assume "remote_of (px_rel x) r = pr_remote_path q"
    with seen_once [of "entry_seen (pe_glob (px_env x)) (px_rel x) sfs" walker e e' "remote_of (px_rel x) r"] apart e e' differ
    show False by (simp add: paths_apart_def owned_files_iff owned_seen)
  next
    assume "remote_of (px_rel x) r \<in> old_paths q"
    with apart_olds [OF apart e'(1) e] differ e'(3) show False by (simp add: request_olds)
  qed
qed

lemma owned_settled:
  assumes apart: "paths_apart (pe_glob (px_env x)) (px_rel x) (px_migration x) sfs walker"
    and right: "records_right x fs sfs walker ms T0"
    and times: "\<forall>e\<in>set walker. owned_file (pe_glob (px_env x)) (px_rel x) sfs e \<noteq> None \<longrightarrow> (\<exists>t. sf_mtime sfs e = Inr t)"
    and sent: "\<forall>q\<in>set (walk_requests x sfs ms walker). settled fs T q"
    and frame: "\<forall>p. p \<notin> touched (walk_requests x sfs ms walker) \<longrightarrow> T p = T0 p"
    and e: "(e, r) \<in> set (owned_files (pe_glob (px_env x)) (px_rel x) sfs walker)"
  shows "\<exists>c. file_content fs e = Some c \<and> T (remote_of (px_rel x) r) = Some c"
proof (cases "fast_skipped x sfs ms e r")
  case True
  with right e have "file_content fs e \<noteq> None" "file_content fs e = T0 (remote_of (px_rel x) r)"
    by (auto simp: records_right_def)
  with frame skipped_untouched [OF apart e True] show ?thesis by auto
next
  case False
  from e times obtain t where "sf_mtime sfs e = Inr t" by (auto simp: owned_files_iff)
  with e False have "entry_requests x sfs ms e = [request_of x ms e r t]" "e \<in> set walker"
    by (simp_all add: owned_files_iff entry_requests_def)
  then have "request_of x ms e r t \<in> set (walk_requests x sfs ms walker)"
    by (force simp: walk_requests_def)
  with sent show ?thesis by (auto simp: settled_def)
qed

section \<open>The phases\<close>

text \<open>A state in which a push starts.\<close>

definition fresh_state :: "('w, 'e) push_state \<Rightarrow> bool" where
  "fresh_state st \<longleftrightarrow> pb_files (ps_batch st) = [] \<and> ps_failed st = 0 \<and> ps_preps st = [] \<and>
     ps_symlinks st = [] \<and> ps_seen st = [] \<and> hwf (ps_metas st) \<and>
     (\<forall>k m. hget (ps_metas st) k = Some m \<longrightarrow> fm_path m = k)"

lemma everything_kept: "ops_keep ro D (\<lambda>_. True)"
  by (simp add: ops_keep_def)

text \<open>The first half: inspection, processing and the last batch.\<close>

definition seen_by :: "('w, 'e) push_ctx \<Rightarrow> scan_fs \<Rightarrow> string list \<Rightarrow> string list" where
  "seen_by x sfs walker = concat (map (entry_seen (pe_glob (px_env x)) (px_rel x) sfs) walker)"

definition gone_metas :: "('w, 'e) push_ctx \<Rightarrow> scan_fs \<Rightarrow> string list \<Rightarrow> string set" where
  "gone_metas x sfs walker = all_olds (pe_glob (px_env x)) (px_rel x) (px_migration x) sfs walker \<union>
     {p. case px_migration x of Some g \<Rightarrow> is_under_remote_base p (pm_old_remote_path g) | None \<Rightarrow> False}"

lemma process_all_mono: "n \<le> ps_failed st \<Longrightarrow> n \<le> ps_failed (fst (for_each (process_prepared x) qs st))"
  by (rule for_each_inv [where P = "\<lambda>s. n \<le> ps_failed s"]) (auto intro: process_mono)

definition link_paths :: "('w, 'e) push_ctx \<Rightarrow> scan_fs \<Rightarrow> string list \<Rightarrow> string set" where
  "link_paths x sfs walker = (\<Union>e\<in>set walker. entry_links (px_rel x) sfs e)"

lemma request_paths:
  assumes "q \<in> set (walk_requests x sfs ms walker)"
  shows "pr_remote_path q \<in> set (seen_by x sfs walker)" and "old_paths q \<subseteq> gone_metas x sfs walker"
proof -
  from assms obtain e r t where q: "(e, r) \<in> set (owned_files (pe_glob (px_env x)) (px_rel x) sfs walker)"
    "q = request_of x ms e r t" by (elim walk_requests_in)
  then show "pr_remote_path q \<in> set (seen_by x sfs walker)"
    by (auto simp: seen_by_def owned_files_iff owned_seen intro!: bexI [of _ e])
  show "old_paths q \<subseteq> gone_metas x sfs walker"
    unfolding q(2) request_olds gone_metas_def all_olds_def using q(1) by blast
qed

lemma inspected_walk:
  assumes set: "push_setting (px_env x) pre fs sfs tree store" and fresh: "fresh_state st"
    and insp: "for_each (inspect_entry x) walker st = (st1, Inr u)" and none: "ps_failed st1 = 0"
  shows "inspected x sfs walker st st1" and "ps_preps st1 = walk_requests x sfs (ps_metas st) walker"
    and "ps_seen st1 = seen_by x sfs walker"
    and "metas_ok S G (link_paths x sfs walker) (ps_metas st) st1"
proof -
  from inspect_all [OF setting_fs(2) [OF set] _ insp] fresh none
  show ins: "inspected x sfs walker st st1" by (simp add: fresh_state_def)
  then show "ps_preps st1 = walk_requests x sfs (ps_metas st) walker"
    using fresh by (simp add: inspected_def walk_requests_def fresh_state_def)
  from ins fresh show "metas_ok S G (link_paths x sfs walker) (ps_metas st) st1"
    by (auto simp: inspected_def fresh_state_def metas_ok_def known_metas_def link_paths_def)
  from inspect_all_at [OF everything_kept setting_fs(2) [OF set], of "[]" st walker st1] insp fresh
  show "ps_seen st1 = seen_by x sfs walker" by (simp add: at_def seen_by_def fresh_state_def)
qed

lemma files_phase_kept:
  assumes set: "push_setting (px_env x) pre fs sfs tree store" and fresh: "fresh_state st"
    and insp: "for_each (inspect_entry x) walker st = (st1, Inr u1)"
    and proc: "for_each (process_prepared x) (pe_prep_order (px_env x) (ps_preps st1)) st1 = (st2, Inr u2)"
    and flush: "flush_push_batch x st2 = (st3, Inr u3)" and none: "ps_failed st3 = 0"
  shows "ps_failed st1 = 0" and "ps_seen st3 = seen_by x sfs walker"
    and "metas_ok (set (seen_by x sfs walker)) (gone_metas x sfs walker) (link_paths x sfs walker) (ps_metas st) st3"
proof -
  let ?qs = "pe_prep_order (px_env x) (ps_preps st1)"
  have "ps_failed st1 \<le> ps_failed st2" using process_all_mono [of "ps_failed st1" st1 x ?qs] proc by simp
  also have "\<dots> \<le> ps_failed st3" using flush_mono [of "ps_failed st2" st2 x] flush by simp
  finally show failed: "ps_failed st1 = 0" using none by simp
  note walk = inspected_walk [OF set fresh insp failed]
  have qs: "set ?qs = set (walk_requests x sfs (ps_metas st) walker)"
    using mset_eq_setD [OF setting_fs(6) [OF set]] walk(2) by simp
  let ?ok = "metas_ok (set (seen_by x sfs walker)) (gone_metas x sfs walker) (link_paths x sfs walker) (ps_metas st)"
  have "?ok (fst (for_each (process_prepared x) ?qs st1))"
    by (rule for_each_inv, rule walk(4)) (use qs in \<open>auto intro!: process_metas dest: request_paths\<close>)
  with flush_metas [of _ _ _ _ st2 x] proc flush show "?ok st3" by simp
  have "at (\<lambda>_. True) (seen_by x sfs walker) st1" using walk(3) by (simp add: at_def)
  then have "at (\<lambda>_. True) (seen_by x sfs walker) (fst (for_each (process_prepared x) ?qs st1))"
    by (rule for_each_inv) (rule process_at [OF everything_kept])
  then have "at (\<lambda>_. True) (seen_by x sfs walker) (fst (flush_push_batch x st2))"
    unfolding proc fst_conv by (rule flush_batch_at [OF everything_kept])
  with flush show "ps_seen st3 = seen_by x sfs walker" by (simp add: at_def)
qed

lemma files_phase:
  assumes set: "push_setting (px_env x) (bc_chunk_hash_prefix (px_config x)) fs sfs tree store"
    and apart: "paths_apart (pe_glob (px_env x)) (px_rel x) (px_migration x) sfs walker"
    and right: "records_right x fs sfs walker (ps_metas st) (tree (ps_world st))" and fresh: "fresh_state st"
    and insp: "for_each (inspect_entry x) walker st = (st1, Inr u1)"
    and proc: "for_each (process_prepared x) (pe_prep_order (px_env x) (ps_preps st1)) st1 = (st2, Inr u2)"
    and flush: "flush_push_batch x st2 = (st3, Inr u3)" and none: "ps_failed st3 = 0"
  shows "(e, r) \<in> set (owned_files (pe_glob (px_env x)) (px_rel x) sfs walker) \<Longrightarrow>
      \<exists>c. file_content fs e = Some c \<and> tree (ps_world st3) (remote_of (px_rel x) r) = Some c"
    and "p \<notin> touched (walk_requests x sfs (ps_metas st) walker) \<Longrightarrow> tree (ps_world st3) p = tree (ps_world st) p"
proof -
  let ?rs = "walk_requests x sfs (ps_metas st) walker" and ?qs = "pe_prep_order (px_env x) (ps_preps st1)"
  note walk = inspected_walk [OF set fresh insp files_phase_kept(1) [OF set fresh insp proc flush none]]
  from walk(1) have same: "ps_world st1 = ps_world st" "ps_batch st1 = ps_batch st"
    and times: "\<forall>e\<in>set walker. owned_file (pe_glob (px_env x)) (px_rel x) sfs e \<noteq> None \<longrightarrow> (\<exists>t. sf_mtime sfs e = Inr t)"
    by (simp_all add: inspected_def)
  have mset: "mset ?qs = mset ?rs" using setting_fs(6) [OF set] walk(2) by simp
  then have qs: "set ?qs = set ?rs" by (rule mset_eq_setD)
  have settles: "\<forall>q\<in>set ?rs. settled fs (tree (ps_world st3)) q"
    "\<forall>p. p \<notin> touched ?rs \<longrightarrow> tree (ps_world st3) p = tree (ps_world st) p"
    using processing_settles [OF set requests_apart_mset [OF mset requests_distinct [OF apart]] _ _ proc flush none]
      requests_recorded [OF right] fresh touched_set [OF qs] by (simp_all add: qs same fresh_state_def)
  then show "p \<notin> touched ?rs \<Longrightarrow> tree (ps_world st3) p = tree (ps_world st) p" by blast
  show "(e, r) \<in> set (owned_files (pe_glob (px_env x)) (px_rel x) sfs walker) \<Longrightarrow>
      \<exists>c. file_content fs e = Some c \<and> tree (ps_world st3) (remote_of (px_rel x) r) = Some c"
    by (rule owned_settled [OF apart right times settles])
qed

text \<open>The second half: symlinks, clean-up, deletions.\<close>

definition clean_up :: "('w, 'e) push_ctx \<Rightarrow> ('w, 'e) push_state \<Rightarrow> ('w, 'e) push_state \<times> unit res" where
  "clean_up x st =
     (case px_migration x of
        Some m \<Rightarrow> if ps_errors st = [] then cleanup_unseen_migration_metadata x m st else (st, Inr ())
      | None \<Rightarrow> (st, Inr ()))"

lemma clean_up_keeps:
  assumes "metas_ok S (gone_metas x sfs walker) L ms0 st"
  shows "metas_ok S (gone_metas x sfs walker) L ms0 (fst (clean_up x st))"
    and "ps_world (fst (clean_up x st)) = ps_world st" and "ps_failed (fst (clean_up x st)) = ps_failed st"
    and "ps_seen (fst (clean_up x st)) = ps_seen st"
proof -
  have base: "px_migration x = Some g \<Longrightarrow> is_under_remote_base p (pm_old_remote_path g) \<Longrightarrow>
    p \<in> gone_metas x sfs walker" for g p by (simp add: gone_metas_def)
  show "metas_ok S (gone_metas x sfs walker) L ms0 (fst (clean_up x st))"
    "ps_world (fst (clean_up x st)) = ps_world st" "ps_failed (fst (clean_up x st)) = ps_failed st"
    using assms cleanup_keeps [OF assms base] by (simp_all add: clean_up_def split: option.split)
  have "at (\<lambda>_. True) (ps_seen st) (fst (cleanup_unseen_migration_metadata x m st))" for m
    by (rule cleanup_at) (simp add: at_def)
  then show "ps_seen (fst (clean_up x st)) = ps_seen st" by (simp add: clean_up_def at_def split: option.split)
qed

lemma deletions_mono:
  assumes set: "push_setting (px_env x) pre fs sfs tree store" and run: "propagate_deletions x rels st = (st', Inr u)"
  shows "ps_failed st \<le> ps_failed st'"
  using run deletions_tree [OF set] by (auto simp: propagate_deletions_def split: if_splits)

lemma end_phase:
  assumes set: "push_setting (px_env x) pre fs sfs tree store"
    and ok: "metas_ok S (gone_metas x sfs walker) L ms0 st3" "L \<subseteq> S"
    and meta: "flush_pending_metadata_updates x st3 = (st4, Inr u4)"
    and links: "push_pending_symlinks x st4 = (st5, Inr u5)" and clean: "clean_up x st5 = (st6, Inr u6)"
    and del: "propagate_deletions x rels st6 = (st7, Inr u7)" and none: "ps_failed st7 = 0"
  shows "ps_failed st3 = 0" and "known_metas S (gone_metas x sfs walker) ms0 (ps_metas st6)"
    and "p \<notin> L \<Longrightarrow> tree (ps_world st7) p =
      (if may_delete x rels (ps_seen st3) p \<and> hget (ps_metas st6) p \<noteq> None then None else tree (ps_world st3) p)"
proof -
  have "ps_metas st4 = ps_metas st3" "ps_batch st4 = ps_batch st3" "ps_symlinks st4 = ps_symlinks st3"
    using flush_meta_metas [of x st3] flush_meta_batch [of x st3] meta by simp_all
  note ok4 = metas_ok_same [OF ok(1) this]
  have st4: "ps_world st4 = ps_world st3" "ps_failed st4 = ps_failed st3" "ps_seen st4 = ps_seen st3"
    using flush_meta_run [OF meta] flush_meta_at [of "\<lambda>_. True" "ps_seen st3" st3 x] meta by (simp_all add: at_def)
  note sent = symlinks_keep [OF set ok(2) ok4]
  have st5: "ps_seen st5 = ps_seen st4"
    using symlinks_at [OF everything_kept, of "ps_seen st4" st4 x] links by (simp add: at_def)
  have ok5: "metas_ok S (gone_metas x sfs walker) L ms0 st5" using sent(3) links by simp
  note cleaned = clean_up_keeps [OF ok5, unfolded clean fst_conv]
  have "ps_failed st6 \<le> ps_failed st7" by (rule deletions_mono [OF set del])
  with none have failed: "ps_failed st7 = ps_failed st6" by simp
  show "ps_failed st3 = 0" using failed none cleaned(3) sent(2) links st4(2) by simp
  show known: "known_metas S (gone_metas x sfs walker) ms0 (ps_metas st6)"
    using cleaned(1) by (simp add: metas_ok_def)
  then have keys: "hwf (ps_metas st6)" "\<And>k m. hget (ps_metas st6) k = Some m \<Longrightarrow> fm_path m = k"
    by (auto simp: known_metas_def)
  assume "p \<notin> L"
  then have "tree (ps_world st6) p = tree (ps_world st3) p" using sent(1) [of p] links cleaned(2) st4(1) by simp
  with propagation_tree [OF set del failed keys, of p] cleaned(4) st5 st4(3)
  show "tree (ps_world st7) p =
      (if may_delete x rels (ps_seen st3) p \<and> hget (ps_metas st6) p \<noteq> None then None else tree (ps_world st3) p)"
    by auto
qed

section \<open>The update of the tree\<close>

text \<open>The specification: the local files with their contents, what is gone away, the rest as it was.\<close>

definition tree_update ::
  "(string \<times> string option) list \<Rightarrow> (string \<Rightarrow> bool) \<Rightarrow> (string \<Rightarrow> string option) \<Rightarrow> string \<Rightarrow> string option" where
  "tree_update files gone T p =
     (case map_of files p of Some content \<Rightarrow> content | None \<Rightarrow> if gone p then None else T p)"

definition local_files ::
  "(string \<Rightarrow> string \<Rightarrow> bool) \<Rightarrow> sync_relationship \<Rightarrow> local_fs \<Rightarrow> scan_fs \<Rightarrow> string list \<Rightarrow> (string \<times> string option) list" where
  "local_files glob rel fs sfs walker =
     map (\<lambda>(e, r). (remote_of rel r, file_content fs e)) (owned_files glob rel sfs walker)"

text \<open>The paths the specification leaves open: symlinks, and old paths that no file has.\<close>

definition open_paths :: "('w, 'e) push_ctx \<Rightarrow> scan_fs \<Rightarrow> string list \<Rightarrow> string set" where
  "open_paths x sfs walker =
     (link_paths x sfs walker \<union> all_olds (pe_glob (px_env x)) (px_rel x) (px_migration x) sfs walker) -
     owned_paths (pe_glob (px_env x)) (px_rel x) sfs walker"

lemma links_seen: "link_paths x sfs walker \<subseteq> set (seen_by x sfs walker)"
  by (fastforce simp: link_paths_def seen_by_def dest: link_seen)

lemma owned_path_facts:
  assumes apart: "paths_apart (pe_glob (px_env x)) (px_rel x) (px_migration x) sfs walker"
    and p: "p \<in> owned_paths (pe_glob (px_env x)) (px_rel x) sfs walker"
  shows "p \<in> set (seen_by x sfs walker)" and "p \<notin> link_paths x sfs walker"
proof -
  from p obtain e r where e: "e \<in> set walker" "owned_file (pe_glob (px_env x)) (px_rel x) sfs e = Some r"
    "p = remote_of (px_rel x) r" by (auto simp: owned_paths_def owned_files_iff)
  then have seen: "p \<in> set (entry_seen (pe_glob (px_env x)) (px_rel x) sfs e)" by (simp add: owned_seen)
  with e(1) show "p \<in> set (seen_by x sfs walker)" by (auto simp: seen_by_def)
  show "p \<notin> link_paths x sfs walker"
  proof
    assume "p \<in> link_paths x sfs walker"
    then obtain e' where e': "e' \<in> set walker" "p \<in> entry_links (px_rel x) sfs e'" by (auto simp: link_paths_def)
    note link = link_seen [OF e'(2), of "pe_glob (px_env x)"]
    have "e = e'"
      by (rule seen_once [where f = "entry_seen (pe_glob (px_env x)) (px_rel x) sfs", OF _ e(1) e'(1) seen]) (use apart link in \<open>simp_all add: paths_apart_def\<close>)
    with e(2) link show False by simp
  qed
qed

lemma end_mono:
  assumes set: "push_setting (px_env x) pre fs sfs tree store"
    and meta: "flush_pending_metadata_updates x st3 = (st4, Inr u4)"
    and links: "push_pending_symlinks x st4 = (st5, Inr u5)" and clean: "clean_up x st5 = (st6, Inr u6)"
    and del: "propagate_deletions x rels st6 = (st7, Inr u7)"
  shows "ps_failed st3 \<le> ps_failed st7"
proof -
  have each: "n \<le> ps_failed s \<Longrightarrow> n \<le> ps_failed (fold (push_symlink_step x) ls s)" for n ls s
    by (induction ls arbitrary: s) (auto intro: symlink_step_keeps(2) [OF set])
  have "ps_failed st4 \<le> ps_failed st5"
    using links each [of "ps_failed st4" st4] by (auto simp: push_pending_symlinks_def dest!: flush_meta_run)
  moreover have "ps_failed (fst (cleanup_unseen_migration_metadata x m st5)) = ps_failed st5" for m
    unfolding cleanup_unseen_migration_metadata_def
    by (rule for_each_inv [where P = "\<lambda>s. ps_failed s = ps_failed st5"]) (auto split: prod.split sum.split)
  then have "ps_failed st6 = ps_failed st5"
    using clean by (auto simp: clean_up_def dest!: arg_cong [where f = "\<lambda>r. ps_failed (fst r)"]
        split: option.splits if_splits)
  ultimately show ?thesis using flush_meta_run [OF meta] deletions_mono [OF set del] by simp
qed

text \<open>The whole run, in its phases.\<close>

lemma phases_split:
  assumes "push_phases x rels walker st = (st', Inr u)"
  obtains st1 st2 st3 st4 st5 st6 st7 u1 u2 u3 u4 u5 u6 u7 where
    "for_each (inspect_entry x) walker st = (st1, Inr u1)"
    "for_each (process_prepared x) (pe_prep_order (px_env x) (ps_preps st1)) st1 = (st2, Inr u2)"
    "flush_push_batch x st2 = (st3, Inr u3)" "flush_pending_metadata_updates x st3 = (st4, Inr u4)"
    "push_pending_symlinks x st4 = (st5, Inr u5)" "clean_up x st5 = (st6, Inr u6)"
    "propagate_deletions x rels st6 = (st7, Inr u7)" "ps_world st' = ps_world st7" "ps_failed st' = ps_failed st7"
proof -
  from assms obtain st1 st2 st3 st4 st5 st6 st7 u1 u2 u3 u4 u5 u6 u7 where
    phases: "for_each (inspect_entry x) walker st = (st1, Inr u1)"
    "for_each (process_prepared x) (pe_prep_order (px_env x) (ps_preps st1)) st1 = (st2, Inr u2)"
    "flush_push_batch x st2 = (st3, Inr u3)" "flush_pending_metadata_updates x st3 = (st4, Inr u4)"
    "push_pending_symlinks x st4 = (st5, Inr u5)" "clean_up x st5 = (st6, Inr u6)"
    "propagate_deletions x rels st6 = (st7, Inr u7)" and last: "finish_migration x st7 = (st', Inr u)"
    unfolding push_phases_def then_st_Inr clean_up_def by blast
  have "ps_world st' = ps_world st7 \<and> ps_failed st' = ps_failed st7"
    using last by (auto simp: finish_migration_def split: prod.splits if_splits)
  with that phases show ?thesis by blast
qed

lemma phases_update:
  assumes set: "push_setting (px_env x) (bc_chunk_hash_prefix (px_config x)) fs sfs tree store"
    and apart: "paths_apart (pe_glob (px_env x)) (px_rel x) (px_migration x) sfs walker"
    and right: "records_right x fs sfs walker (ps_metas st) (tree (ps_world st))" and fresh: "fresh_state st"
    and run: "push_phases x rels walker st = (st', Inr u)" and none: "ps_failed st' = 0"
  shows "\<forall>f\<in>set (local_files (pe_glob (px_env x)) (px_rel x) fs sfs walker). snd f \<noteq> None"
    and "p \<notin> open_paths x sfs walker \<Longrightarrow> tree (ps_world st') p =
      tree_update (local_files (pe_glob (px_env x)) (px_rel x) fs sfs walker)
        (\<lambda>p. may_delete x rels (seen_by x sfs walker) p \<and> hget (ps_metas st) p \<noteq> None) (tree (ps_world st)) p"
proof -
  let ?files = "local_files (pe_glob (px_env x)) (px_rel x) fs sfs walker"
    and ?owned = "owned_paths (pe_glob (px_env x)) (px_rel x) sfs walker" and ?seen = "seen_by x sfs walker"
  from run obtain st1 st2 st3 st4 st5 st6 st7 u1 u2 u3 u4 u5 u6 u7 where
    half: "for_each (inspect_entry x) walker st = (st1, Inr u1)"
      "for_each (process_prepared x) (pe_prep_order (px_env x) (ps_preps st1)) st1 = (st2, Inr u2)"
      "flush_push_batch x st2 = (st3, Inr u3)"
    and rest: "flush_pending_metadata_updates x st3 = (st4, Inr u4)" "push_pending_symlinks x st4 = (st5, Inr u5)"
      "clean_up x st5 = (st6, Inr u6)" "propagate_deletions x rels st6 = (st7, Inr u7)"
    and same: "ps_world st' = ps_world st7" "ps_failed st' = ps_failed st7"
    by (rule phases_split)
  have none3: "ps_failed st3 = 0" using end_mono [OF set rest] none same(2) by simp
  note kept = files_phase_kept [OF set fresh half none3]
  note sent = files_phase [OF set apart right fresh half none3]
  note ended = end_phase [OF set kept(3) links_seen rest, unfolded kept(2)]
  have content: "v = tree (ps_world st3) q \<and> v \<noteq> None" if f: "(q, v) \<in> set ?files" for q v
    using f sent(1) by (fastforce simp: local_files_def)
  then show "\<forall>f\<in>set ?files. snd f \<noteq> None" by auto
  assume p: "p \<notin> open_paths x sfs walker"
  show "tree (ps_world st') p = tree_update ?files
      (\<lambda>p. may_delete x rels ?seen p \<and> hget (ps_metas st) p \<noteq> None) (tree (ps_world st)) p"
  proof (cases "p \<in> ?owned")
    case True
    then obtain v where v: "map_of ?files p = Some v"
      by (cases "map_of ?files p") (force simp: map_of_eq_None_iff local_files_def owned_paths_def)+
    with content [OF map_of_SomeD [OF v]] owned_path_facts [OF apart True] ended(3) [of p] none same
    show ?thesis by (simp add: tree_update_def may_delete_def)
  next
    case False
    then have files: "map_of ?files p = None"
      by (force simp: map_of_eq_None_iff local_files_def owned_paths_def)
    from False p have away: "p \<notin> link_paths x sfs walker"
      "p \<notin> all_olds (pe_glob (px_env x)) (px_rel x) (px_migration x) sfs walker" by (auto simp: open_paths_def)
    with False touched_owned have "tree (ps_world st3) p = tree (ps_world st) p" by (intro sent(2)) blast
    moreover have "hget (ps_metas st6) p = hget (ps_metas st) p" if "may_delete x rels ?seen p"
      using ended(2) none same that away(2)
      by (auto simp: known_metas_def gone_metas_def may_delete_def)
    ultimately show ?thesis using ended(3) [of p] away(1) none same files by (auto simp: tree_update_def)
  qed
qed

section \<open>The push refines the update\<close>

text \<open>The walk of a push, the metadata it knows, and its fixed context.\<close>

definition push_walk :: "'w push_env \<Rightarrow> sync_relationship \<Rightarrow> sync_relationship list \<Rightarrow> scan_fs \<Rightarrow> string list" where
  "push_walk env rel rels sfs =
     (case walkdir (sr_local_path rel) (child_local_exclusions rel rels) (sf_tree sfs (sr_local_path rel)) of
        Inl e \<Rightarrow> [] | Inr walker \<Rightarrow> walker)"

definition push_known :: "'e engine \<Rightarrow> sync_relationship \<Rightarrow> 'e \<Rightarrow> (string, file_sync_meta) hmap" where
  "push_known en rel e =
     (case list_file_metas en (sr_id rel) e of
        Inl err \<Rightarrow> [] | Inr metas \<Rightarrow> hcollect (map (\<lambda>m. (fm_path m, m)) metas))"

definition push_context ::
  "'w push_env \<Rightarrow> 'e engine \<Rightarrow> sync_relationship \<Rightarrow> push_scan_mode \<Rightarrow> blob_config \<Rightarrow> 'e \<Rightarrow> ('w, 'e) push_ctx" where
  "push_context env en rel mode config e =
     \<lparr>px_env = env, px_engine = en, px_rel = rel, px_config = config, px_mode = mode,
      px_migration = get_path_migration en (sr_id rel) e\<rparr>"

lemma initial_fresh: "fresh_state (initial_state w e metas)"
proof -
  have "fm_path m = k" if "hget (hcollect (map (\<lambda>m. (fm_path m, m)) metas)) k = Some m" for k m
    using map_of_SomeD [OF that [unfolded hget_hcollect]] by auto
  then have keys: "\<forall>k m. hget (ps_metas (initial_state w e metas)) k = Some m \<longrightarrow> fm_path m = k"
    unfolding initial_state_def push_state.select_convs by blast
  show ?thesis unfolding fresh_state_def
    by (intro conjI, rule_tac [7] keys) (simp_all add: initial_state_def empty_batch_def)
qed

lemma push_sync_phases:
  assumes run: "push_sync env en rel rels mode (w, e) = ((w', e'), Inr res)"
    and fixed: "\<And>w. pe_scan env w = sfs"
  obtains config w1 metas st where "ro_blob_config (pe_remote env) w = (w1, Inr config)"
    "list_file_metas en (sr_id rel) e = Inr metas"
    "push_phases (push_context env en rel mode config e) rels (push_walk env rel rels sfs)
       (initial_state w1 e metas) = (st, Inr ())"
    "w' = ps_world st" "pu_files_failed res = ps_failed st"
proof -
  obtain w1 a where config: "ro_blob_config (pe_remote env) w = (w1, a)" by force
  with run obtain config where a: "a = Inr config" by (cases a) (auto simp: push_sync_def)
  from run config a have there: "sf_exists sfs (sr_local_path rel)"
    by (auto simp: push_sync_def fixed split: if_splits)
  from run config a there obtain metas where metas: "list_file_metas en (sr_id rel) e = Inr metas"
    by (cases "list_file_metas en (sr_id rel) e") (auto simp: push_sync_def fixed)
  from run config a there metas obtain walker where
    walk: "walkdir (sr_local_path rel) (child_local_exclusions rel rels) (sf_tree sfs (sr_local_path rel)) = Inr walker"
    by (cases "walkdir (sr_local_path rel) (child_local_exclusions rel rels) (sf_tree sfs (sr_local_path rel))")
      (auto simp: push_sync_def fixed)
  obtain st r where phases: "push_phases (push_context env en rel mode config e) rels (push_walk env rel rels sfs)
    (initial_state w1 e metas) = (st, r)" by force
  with run config a there metas walk have "w' = ps_world st" "r = Inr ()" "res = result_of st"
    by (cases r; simp add: push_sync_def fixed push_context_def push_walk_def)+
  with that config a metas phases show ?thesis by (simp add: result_of_def)
qed

text \<open>C2. A push refines an update of the server's tree.  Let the local files stay as they are, the
  server keep the laws of \<open>push_setting\<close> (in particular: a commit assembles a file from its
  chunks), every remote path be that of one local entry, and what the metadata remembers as sent be
  on the server.  Then a push that returns Ok with no failed file has read every local file of the relationship,
  and leaves the server's tree as the update of the tree before with the local files: under the
  remote path of each, exactly its content, whether the file was skipped, moved, sent whole, in chunks
  or batched with others, and in whatever order; nothing under a known path that is gone and may be
  deleted; and everything else as it was, but for the paths of symlinks and old paths of moves.\<close>

theorem push_refines_tree_update:
  assumes "push_sync env en rel rels mode (w, e) = ((w', e'), Inr res)" "pu_files_failed res = 0"
    and "ro_blob_config (pe_remote env) w = (w1, Inr config)"
    and "push_setting env (bc_chunk_hash_prefix config) fs sfs tree store"
    and "x = push_context env en rel mode config e" "walker = push_walk env rel rels sfs"
    and "paths_apart (pe_glob env) rel (px_migration x) sfs walker"
    and "records_right x fs sfs walker (push_known en rel e) (tree w)"
  shows "(\<forall>f\<in>set (local_files (pe_glob env) rel fs sfs walker). snd f \<noteq> None) \<and>
    (\<forall>p. p \<notin> open_paths x sfs walker \<longrightarrow>
       tree w' p = tree_update (local_files (pe_glob env) rel fs sfs walker)
         (\<lambda>p. may_delete x rels (seen_by x sfs walker) p \<and> hget (push_known en rel e) p \<noteq> None) (tree w) p)"
proof -
  note set = assms(4)
  from push_sync_phases [OF assms(1) setting_fs(2) [OF set]] assms(3) obtain metas st where
    metas: "list_file_metas en (sr_id rel) e = Inr metas"
    and phases: "push_phases x rels walker (initial_state w1 e metas) = (st, Inr ())"
    and st: "w' = ps_world st" "pu_files_failed res = ps_failed st"
    by (metis Pair_inject assms(5,6) sum.inject(2))
  have known: "ps_metas (initial_state w1 e metas) = push_known en rel e"
    by (simp add: initial_state_def push_known_def metas)
  have tree: "tree (ps_world (initial_state w1 e metas)) = tree w"
    using setting_questions(1) [OF set, of w] assms(3) by (simp add: initial_state_def)
  have x: "px_env x = env" "px_rel x = rel" "px_config x = config" by (simp_all add: assms(5) push_context_def)
  from phases_update [of x fs sfs tree store walker "initial_state w1 e metas" rels st "()"]
    assms(2,4,7,8) phases st initial_fresh [of w1 e metas]
  show ?thesis unfolding x known tree by simp
qed

section \<open>A server in memory\<close>

definition mem_hash :: "string \<Rightarrow> string" where
  "mem_hash s = ''abc'' @ s"

text \<open>Files and chunks.  It takes a chunk only under its hash, and commits only chunks it has.\<close>

type_synonym mem_server = "(string, string) hmap \<times> (string, string) hmap"

definition mem_tree :: "mem_server server_view" where
  "mem_tree w = hget (fst w)"

definition mem_chunks :: "mem_server server_view" where
  "mem_chunks w h =
     (case hget (snd w) h of
        Some b \<Rightarrow> if chunk_hash mem_hash ''c:'' b = h then Some b else None | None \<Rightarrow> None)"

definition mem_commit :: "commit_file list \<Rightarrow> mem_server \<Rightarrow> mem_server \<times> json res" where
  "mem_commit files w =
     (if \<forall>f\<in>set files. \<forall>h\<in>set (cf_chunks f). mem_chunks w h \<noteq> None
      then ((fold (\<lambda>f. hinsert (cf_path f) (concat (map (the \<circ> mem_chunks w) (cf_chunks f)))) files (fst w), snd w),
            Inr JNull)
      else (w, Inl (Server ''missing chunk'')))"

definition mem_remote :: "mem_server remote_ops" where
  "mem_remote =
     \<lparr>ro_blob_config = (\<lambda>w. (w, Inr sample_config)),
      ro_blob_check = (\<lambda>hs w. (w, Inr \<lparr>bcr_have = filter (\<lambda>h. mem_chunks w h \<noteq> None) hs,
        bcr_needed = filter (\<lambda>h. mem_chunks w h = None) hs\<rparr>)),
      ro_upload_chunk = (\<lambda>h b w.
        if chunk_hash mem_hash ''c:'' b = h then ((fst w, hinsert h b (snd w)), Inr ())
        else (w, Inl (Server ''wrong hash''))),
      ro_blob_commit = mem_commit,
      ro_upload_file = (\<lambda>p b t w.
        case b of StreamBody c \<Rightarrow> ((hinsert p c (fst w), snd w), Inr ()) | _ \<Rightarrow> (w, Inl (Server ''no body''))),
      ro_delete_file = (\<lambda>p w. ((hremove p (fst w), snd w), Inr ())),
      ro_create_symlink = (\<lambda>p t w. (w, Inr ())),
      ro_symlink_target = (\<lambda>p w. (w, Inr None)),
      ro_rename_file = (\<lambda>p q w.
        case hget (fst w) p of
          None \<Rightarrow> (w, Inl (Server ''not found''))
        | Some c \<Rightarrow> ((hinsert q c (hremove p (fst w)), snd w), Inr ())),
      ro_has_content_hash = (\<lambda>b p h w.
        (w, Inr (case hget (fst w) p of Some c \<Rightarrow> mem_hash c = h | None \<Rightarrow> False))),
      ro_sync_chunks = (\<lambda>hs w. (w, Inr []))\<rparr>"

definition mem_scan :: scan_fs where
  "mem_scan = sample_scan\<lparr>sf_stream := (\<lambda>p.
     case file_content sample_fs p of Some c \<Rightarrow> Inr c | None \<Rightarrow> Inl ''not found'')\<rparr>"

definition mem_env :: "mem_server push_env" where
  "mem_env =
     \<lparr>pe_remote = mem_remote, pe_fs = (\<lambda>w. sample_fs), pe_scan = (\<lambda>w. mem_scan),
      pe_now = (\<lambda>w. 9), pe_hash = mem_hash, pe_glob = (\<lambda>p n. p = n), pe_json_len = length,
      pe_commit_len = (\<lambda>fs. 0), pe_available = Some 1, pe_order = (\<lambda>cs. cs),
      pe_prep_order = (\<lambda>rs. rs), pe_link_order = (\<lambda>ls. ls)\<rparr>"

lemma hget_fold_insert:
  "hget (fold (\<lambda>f. hinsert (k f) (g f)) fs T) = fold (\<lambda>f t. t(k f \<mapsto> g f)) fs (hget T)"
  by (induction fs arbitrary: T) simp_all

lemma mem_committed: "mem_tree (fst (mem_commit files w)) =
    (if snd (mem_commit files w) = Inr JNull then committed (mem_chunks w) files (mem_tree w) else mem_tree w)"
  by (simp add: mem_commit_def mem_tree_def committed_def hget_fold_insert)

lemma mem_questions: "law_questions mem_remote mem_tree mem_chunks"
  by (simp add: law_questions_def asks_only_def mem_remote_def)

lemma mem_hash_inj: "mem_hash a = mem_hash b \<longleftrightarrow> a = b"
  by (simp add: mem_hash_def)

lemma mem_store: "law_chunks mem_remote mem_hash ''c:'' mem_tree mem_chunks"
  by (auto simp: law_chunks_def mem_remote_def mem_chunks_def mem_tree_def map_le_def chunk_hash_def
      mem_hash_inj split: option.splits if_splits)

lemma mem_files: "law_files mem_remote mem_tree mem_chunks"
  unfolding law_files_def changes_only_def
proof (intro conjI allI impI)
  fix fs :: "commit_file list" and w w' :: mem_server and v
  assume "ro_blob_commit mem_remote fs w = (w', Inr v)"
  then have "mem_commit fs w = (w', Inr v)" by (simp add: mem_remote_def)
  with mem_committed [of fs w] show "mem_tree w' = committed (mem_chunks w) fs (mem_tree w)"
    by (auto simp: mem_commit_def split: if_splits)
next
  fix fs :: "commit_file list" and w :: mem_server and p
  assume "p \<notin> cf_path ` set fs"
  then show "mem_tree (fst (ro_blob_commit mem_remote fs w)) p = mem_tree w p"
    using mem_committed [of fs w] committed_other [of p fs] by (simp add: mem_remote_def)
qed (auto simp: mem_remote_def mem_tree_def split: http_body.splits)

lemma mem_moves: "law_moves mem_remote mem_hash mem_tree"
  by (auto simp: law_moves_def changes_only_def mem_remote_def mem_tree_def split: option.splits)

lemma mem_setting: "push_setting mem_env ''c:'' sample_fs mem_scan mem_tree mem_chunks"
  using mem_questions mem_store mem_files mem_moves
  by (auto simp: push_setting_def mem_env_def mem_scan_def inj_def mem_hash_inj mem_remote_def
      sample_config_def split: option.splits)

text \<open>Two local files, a known one that is gone, and a file of somebody else.\<close>

definition mem_start :: mem_server where
  "mem_start = ([(''/docs/old'', ''x''), (''/docs/other'', ''y'')], [])"

definition mem_known :: "(string \<times> json) list" where
  "mem_known = fst (set_file_metas_batch mem_engine mem_hash ''s1''
     [synced_meta ''/docs/old'' (mem_hash ''x'') 1 5 9] sample_store)"

definition mem_run :: "(mem_server \<times> (string \<times> json) list) \<times> push_result res" where
  "mem_run = push_sync mem_env mem_engine sample_rel [sample_rel] Full (mem_start, mem_known)"

definition mem_context :: "(mem_server, (string, json) hmap) push_ctx" where
  "mem_context = push_context mem_env mem_engine sample_rel Full sample_config mem_known"

definition mem_walk :: "string list" where
  "mem_walk = push_walk mem_env sample_rel [sample_rel] mem_scan"

lemma mem_run_ok: "case snd mem_run of Inl e \<Rightarrow> False | Inr res \<Rightarrow> pu_files_failed res = 0"
  by code_simp

lemma mem_apart: "paths_apart (pe_glob mem_env) sample_rel (px_migration mem_context) mem_scan mem_walk"
  by code_simp

lemma mem_records:
  "records_right mem_context sample_fs mem_scan mem_walk (push_known mem_engine sample_rel mem_known) (mem_tree mem_start)"
  by code_simp

definition mem_spec :: "string \<Rightarrow> string option" where
  "mem_spec = tree_update (local_files (pe_glob mem_env) sample_rel sample_fs mem_scan mem_walk)
     (\<lambda>p. may_delete mem_context [sample_rel] (seen_by mem_context mem_scan mem_walk) p \<and>
        hget (push_known mem_engine sample_rel mem_known) p \<noteq> None) (mem_tree mem_start)"

lemma mem_spec_values:
  "map mem_spec [''/docs/a'', ''/docs/b'', ''/docs/old'', ''/docs/other''] = [Some ''abcd'', Some ''cde'', None, Some ''y'']"
  by code_simp

lemma mem_open: "open_paths mem_context mem_scan mem_walk = {}"
  by code_simp

lemma push_refines_tree_update_witness:
  "map (mem_tree (fst (fst mem_run))) [''/docs/a'', ''/docs/b'', ''/docs/old'', ''/docs/other''] =
     [Some ''abcd'', Some ''cde'', None, Some ''y'']"
proof -
  obtain w' e' a where run: "mem_run = ((w', e'), a)" by (metis prod.exhaust)
  obtain res where res: "a = Inr res" "pu_files_failed res = 0"
    using mem_run_ok [unfolded run snd_conv] that by (cases a) simp_all
  have config: "ro_blob_config (pe_remote mem_env) mem_start = (mem_start, Inr sample_config)"
    by (simp add: mem_env_def mem_remote_def)
  have setting: "push_setting mem_env (bc_chunk_hash_prefix sample_config) sample_fs mem_scan mem_tree mem_chunks"
    using mem_setting by (simp add: sample_config_def)
  have same: "mem_tree w' p = mem_spec p" for p
    using push_refines_tree_update [OF run [unfolded mem_run_def res(1)] res(2) config setting mem_context_def
        mem_walk_def mem_apart mem_records]
    by (simp add: mem_open mem_spec_def)
  show ?thesis unfolding run fst_conv using mem_spec_values by (simp add: same)
qed

end
