(* ===== verification/Pull_Refinement.thy ===== *)
theory Pull_Refinement
  imports Pull_Spec
begin

text \<open>
  A pull refines an abstract update of the local tree.  The tree maps local paths to contents; a
  diff of the server says which paths get contents made of which chunks and which paths go.  A
  pull in which nothing failed leaves exactly that tree, whatever the old files were, whichever
  chunks were reused, and however reads and batches were cut.
\<close>

section \<open>The abstract update\<close>

definition selected :: "('w, 'e) pull_ctx \<Rightarrow> sync_file_entry \<Rightarrow> bool" where
  "selected x entry \<longleftrightarrow>
     \<not> is_excluded_by_child (se_path entry) (pc_exclusions x) \<and>
     matches_filter (pv_glob (pc_env x))
       (case path_file_name (se_path entry) of Some n \<Rightarrow> n | None \<Rightarrow> []) (sr_filter (pc_rel x))"

definition put_entries :: "('w, 'e) pull_ctx \<Rightarrow> sync_changes \<Rightarrow> sync_file_entry list" where
  "put_entries x c = filter (selected x) (sc_files_added c @ sc_files_modified c)"

definition entry_target :: "('w, 'e) pull_ctx \<Rightarrow> sync_file_entry \<Rightarrow> string" where
  "entry_target x entry = local_of x (se_path entry)"

definition owned_targets :: "('w, 'e) pull_ctx \<Rightarrow> string list \<Rightarrow> string list" where
  "owned_targets x ps = map (local_of x) (filter (\<lambda>p. \<not> is_excluded_by_child p (pc_exclusions x)) ps)"

definition drop_targets :: "('w, 'e) pull_ctx \<Rightarrow> sync_changes \<Rightarrow> string list" where
  "drop_targets x c =
     (if dp_remote_to_local (sr_delete_propagation (pc_rel x))
      then owned_targets x (sc_files_deleted c @ sc_symlinks_deleted c) else [])"

definition link_targets :: "('w, 'e) pull_ctx \<Rightarrow> sync_changes \<Rightarrow> string list" where
  "link_targets x c = owned_targets x (map ye_path (sc_symlinks_added c @ sc_symlinks_modified c))"

definition put_paths :: "('w, 'e) pull_ctx \<Rightarrow> sync_changes \<Rightarrow> string list" where
  "put_paths x c = map (entry_target x) (put_entries x c)"

text \<open>The content an entry describes: pieces with the chunk hashes it lists.\<close>

definition content_of_entry :: "('w, 'e) pull_ctx \<Rightarrow> sync_file_entry \<Rightarrow> string \<Rightarrow> bool" where
  "content_of_entry x entry bytes \<longleftrightarrow>
     (\<exists>bs. map (chunk_hash (pv_hash (pc_env x)) (bc_chunk_hash_prefix (pc_config x))) bs =
        se_chunk_hashes entry \<and> bytes = concat bs)"

definition tree_updated ::
  "('w, 'e) pull_ctx \<Rightarrow> sync_changes \<Rightarrow> (string \<Rightarrow> string option) \<Rightarrow> (string \<Rightarrow> string option) \<Rightarrow> bool" where
  "tree_updated x c T T' \<longleftrightarrow>
     (\<forall>entry\<in>set (put_entries x c).
        \<exists>bytes. content_of_entry x entry bytes \<and> T' (entry_target x entry) = Some bytes) \<and>
     (\<forall>p\<in>set (drop_targets x c). T' p = None) \<and>
     (\<forall>p. p \<notin> set (put_paths x c) \<union> tmp_path_of ` set (put_paths x c) \<union> set (drop_targets x c) \<union>
           set (link_targets x c) \<longrightarrow> T' p = T p)"

text \<open>The paths of a diff do not collide on the local disk.\<close>

definition separated :: "('w, 'e) pull_ctx \<Rightarrow> sync_changes \<Rightarrow> bool" where
  "separated x c \<longleftrightarrow>
     (let ps = put_paths x c; ts = map tmp_path_of ps; ds = drop_targets x c; ls = link_targets x c
      in distinct ps \<and> set ps \<inter> set ts = {} \<and> set (ps @ ts) \<inter> set (ds @ ls) = {} \<and>
         set ds \<inter> set ls = {})"

section \<open>What the pull relies on\<close>

text \<open>Beyond \<open>disk_ok\<close>: creating directories changes no content, removing and linking change one
  path, and a path that is reported absent has no content.\<close>

definition disk_laws :: "'w disk \<Rightarrow> ('w \<Rightarrow> string \<Rightarrow> string option) \<Rightarrow> bool" where
  "disk_laws dk view \<longleftrightarrow> disk_ok dk view \<and>
     (\<forall>p w. view (fst (dk_mkdirs dk p w)) = view w) \<and>
     (\<forall>p w w' u. dk_remove dk p w = (w', Inr u) \<longrightarrow> view w' = (view w)(p := None)) \<and>
     (\<forall>p w q. q \<noteq> p \<longrightarrow> view (fst (dk_remove dk p w)) q = view w q) \<and>
     (\<forall>t p w q. q \<noteq> p \<longrightarrow> view (fst (dk_symlink dk t p w)) q = view w q) \<and>
     (\<forall>p w. \<not> dk_exists dk p w \<longrightarrow> view w p = None) \<and>
     (\<forall>p w. \<not> dk_lexists dk p w \<longrightarrow> view w p = None)"

text \<open>The server answers a request for chunks with chunks that have the hash asked for, and a request
  does not change the disk.\<close>

definition honest_server :: "('w, 'e) pull_ctx \<Rightarrow> ('w \<Rightarrow> string \<Rightarrow> string option) \<Rightarrow> bool" where
  "honest_server x view \<longleftrightarrow>
     (\<forall>hs w. view (fst (ro_sync_chunks (pv_remote (pc_env x)) hs w)) = view w \<and>
        (\<forall>pairs. snd (ro_sync_chunks (pv_remote (pc_env x)) hs w) = Inr pairs \<longrightarrow>
           (\<forall>(h, b)\<in>set pairs.
              chunk_hash (pv_hash (pc_env x)) (bc_chunk_hash_prefix (pc_config x)) b = h)))"

lemma disk_laws_ok: "disk_laws dk view \<Longrightarrow> disk_ok dk view"
  by (simp add: disk_laws_def)

lemma law_mkdirs: "disk_laws dk view \<Longrightarrow> view (fst (dk_mkdirs dk p w)) = view w"
  by (simp add: disk_laws_def)

lemma law_remove: "disk_laws dk view \<Longrightarrow> dk_remove dk p w = (w', Inr u) \<Longrightarrow> view w' = (view w)(p := None)"
  unfolding disk_laws_def by blast

lemma law_remove_other: "disk_laws dk view \<Longrightarrow> q \<noteq> p \<Longrightarrow> view (fst (dk_remove dk p w)) q = view w q"
  unfolding disk_laws_def by blast

lemma law_symlink_other: "disk_laws dk view \<Longrightarrow> q \<noteq> p \<Longrightarrow> view (fst (dk_symlink dk t p w)) q = view w q"
  unfolding disk_laws_def by blast

lemma law_absent: "disk_laws dk view \<Longrightarrow> \<not> dk_exists dk p w \<Longrightarrow> view w p = None"
  "disk_laws dk view \<Longrightarrow> \<not> dk_lexists dk p w \<Longrightarrow> view w p = None"
  unfolding disk_laws_def by blast+

section \<open>Failures are counted\<close>

lemma failed_mono:
  "pl_failed st \<le> pl_failed (plan_entry x entry st)"
  "pl_failed st \<le> pl_failed (pull_file x fetched err plan st)"
  "pl_failed st \<le> pl_failed (pull_deleted x present what mm p st)"
  "pl_failed st \<le> pl_failed (pull_symlink x l st)"
  by (simp_all add: plan_entry_def pull_file_def pull_deleted_def pull_symlink_def drop_pulled_def
      pull_failure_def pull_error_def store_pulled_def Let_def split: prod.split sum.split option.split)

lemma fold_mono:
  assumes "\<And>a s. pl_failed s \<le> pl_failed (f a s)"
  shows "pl_failed s \<le> pl_failed (fold f xs s)"
proof (induction xs arbitrary: s)
  case (Cons a xs)
  from order_trans [OF assms Cons.IH [of "f a s"]] show ?case by simp
qed simp

text \<open>A loop in which nothing failed keeps an invariant that its steps keep when they do not fail.\<close>

lemma fold_clean:
  assumes mono: "\<And>a s. pl_failed s \<le> pl_failed (f a s)"
    and step: "\<And>a s. a \<in> set xs \<Longrightarrow> I s \<Longrightarrow> pl_failed (f a s) = pl_failed s \<Longrightarrow> I (f a s)"
  shows "pl_failed (fold f xs s) = pl_failed s \<Longrightarrow> I s \<Longrightarrow> I (fold f xs s)"
  using step
proof (induction xs arbitrary: s)
  case (Cons a xs)
  have "pl_failed (f a s) = pl_failed s" "pl_failed (fold f xs (f a s)) = pl_failed (f a s)"
    using mono [of s a] fold_mono [of f "f a s" xs, OF mono] Cons.prems(1) by auto
  with Cons show ?case by simp
qed simp

section \<open>Assembling changes two paths\<close>

lemma assemble_loop_other:
  assumes disk: "disk_ok dk view"
  shows "assemble_loop dk tmp reader lc fetched hs (n, hasher) w = (w', Inr r) \<Longrightarrow>
    view w tmp = Some hasher \<Longrightarrow> q \<noteq> tmp \<Longrightarrow> view w' q = view w q"
proof (induction hs arbitrary: n hasher w)
  case (Cons h hs)
  from Cons.prems(1) obtain b where b: "chunk_source reader lc fetched h = Inr b"
    by (cases "chunk_source reader lc fetched h") simp_all
  with Cons.prems(1) obtain w1 u where wr: "dk_write dk tmp b w = (w1, Inr u)"
    and rest: "assemble_loop dk tmp reader lc fetched hs (n + length b, hasher @ b) w1 = (w', Inr r)"
    by (auto split: prod.splits sum.splits)
  note v = disk_write [OF disk wr Cons.prems(2)]
  from Cons.IH [OF rest _ Cons.prems(3)] v Cons.prems(3) show ?case by simp
qed simp

lemma assemble_file_other:
  assumes disk: "disk_ok dk view"
    and run: "assemble_file hash dk hs p lc fetched w = (w', Inr r)" and q: "q \<noteq> p" "q \<noteq> tmp_path_of p"
  shows "view w' q = view w q"
proof -
  let ?tmp = "tmp_path_of p"
  let ?open = "if lc = [] then Inr None
    else case dk_open dk p w of
      Opened h \<Rightarrow> Inr (Some h) | OpenMissing \<Rightarrow> Inr None | OpenFailed e \<Rightarrow> Inl e"
  from run obtain reader where reader: "?open = Inr reader"
    by (cases ?open) (auto simp: assemble_file_def Let_def)
  from run reader obtain w1 u1 w2 n hasher w3 u3 u4 where
    mk: "dk_create dk ?tmp w = (w1, Inr u1)" and
    loop: "assemble_loop dk ?tmp reader lc fetched hs (0, []) w1 = (w2, Inr (n, hasher))" and
    fl: "dk_flush dk ?tmp w2 = (w3, Inr u3)" and mv: "dk_rename dk ?tmp p w3 = (w', Inr u4)"
    by (auto simp: assemble_file_def Let_def fail_assembly_def split: prod.splits sum.splits)
  have "view w1 ?tmp = Some []" using disk_create [OF disk mk] by simp
  from assemble_loop_other [OF disk loop this q(2)]
  have "view w2 q = view w1 q" .
  with disk_create [OF disk mk] disk_flush [OF disk fl] disk_rename [OF disk mv] q show ?thesis
    by simp
qed

section \<open>Planning\<close>

text \<open>A plan is sound for a tree: the chunks it would reuse are chunks of the file as it is.\<close>

definition sound_plan :: "('w, 'e) pull_ctx \<Rightarrow> (string \<Rightarrow> string option) \<Rightarrow> file_plan \<Rightarrow> bool" where
  "sound_plan x T plan \<longleftrightarrow>
     fp_local_path plan = entry_target x (fp_entry plan) \<and>
     (\<forall>bytes. T (fp_local_path plan) = Some bytes \<longrightarrow>
        chunks_hold (pv_hash (pc_env x)) (bc_chunk_hash_prefix (pc_config x)) bytes (fp_local_chunks plan))"

lemma chunks_hold_Nil [simp]: "chunks_hold hash pre bytes []"
  by (simp add: chunks_hold_def)

lemma make_parent_view: "disk_laws (pv_disk (pc_env x)) view \<Longrightarrow> view (fst (make_parent x p w)) = view w"
  by (simp add: make_parent_def law_mkdirs split: option.split)

lemma indexed_chunks_hold:
  assumes "disk_ok dk view" "view w p = Some bytes" "hash_local_file_chunks hash dk p cs pre w = Inr m"
  shows "chunks_hold hash pre bytes m"
proof (cases "dk_open dk p w")
  case (Opened h)
  with assms(1,2) have "fh_bytes h = bytes" by (auto simp: disk_ok_def)
  with local_chunks_hold [OF Opened assms(3)] show ?thesis by simp
qed (use assms(3) in \<open>auto simp: hash_local_file_chunks_def\<close>)

lemma plan_entry_step:
  assumes disk: "disk_laws (pv_disk (pc_env x)) view"
    and clean: "pl_failed (plan_entry x entry st) = pl_failed st"
  shows "view (pl_world (plan_entry x entry st)) = view (pl_world st) \<and>
    (if selected x entry
     then \<exists>plan. pl_plans (plan_entry x entry st) = pl_plans st @ [plan] \<and> fp_entry plan = entry \<and>
       sound_plan x (view (pl_world st)) plan
     else pl_plans (plan_entry x entry st) = pl_plans st)"
proof (cases "selected x entry")
  case False
  then have "plan_entry x entry st = st\<lparr>pl_skipped := pl_skipped st + 1\<rparr>"
    by (auto simp: plan_entry_def selected_def Let_def)
  with False show ?thesis by simp
next
  case True
  let ?p = "local_of x (se_path entry)"
  obtain w r where mk: "make_parent x ?p (pl_world st) = (w, r)" by force
  have w: "view w = view (pl_world st)" using make_parent_view [OF disk, of ?p "pl_world st"] mk by simp
  obtain u where r: "r = Inr u"
    using True clean mk
    by (cases r) (auto simp: plan_entry_def selected_def Let_def pull_failure_def pull_error_def)
  let ?chunks = "case hash_local_file_chunks (pv_hash (pc_env x)) (pv_disk (pc_env x)) ?p
    (bc_chunk_size (pc_config x)) (bc_chunk_hash_prefix (pc_config x)) w of Inr m \<Rightarrow> m | Inl _ \<Rightarrow> []"
  have "chunks_hold (pv_hash (pc_env x)) (bc_chunk_hash_prefix (pc_config x)) bytes ?chunks"
    if "view w ?p = Some bytes" for bytes
    using indexed_chunks_hold [OF disk_laws_ok [OF disk] that] by (auto split: sum.split)
  then have "sound_plan x (view (pl_world st))
      \<lparr>fp_entry = entry, fp_local_path = ?p, fp_local_chunks = ?chunks\<rparr>"
    using w by (simp add: sound_plan_def entry_target_def)
  with True mk r w show ?thesis by (simp add: plan_entry_def selected_def Let_def)
qed

lemma plan_all:
  assumes disk: "disk_laws (pv_disk (pc_env x)) view"
  shows "pl_failed (fold (plan_entry x) es st) = pl_failed st \<Longrightarrow>
    view (pl_world (fold (plan_entry x) es st)) = view (pl_world st) \<and>
    (\<exists>plans. pl_plans (fold (plan_entry x) es st) = pl_plans st @ plans \<and>
       map fp_entry plans = filter (selected x) es \<and>
       list_all (sound_plan x (view (pl_world st))) plans)"
proof (induction es arbitrary: st)
  case (Cons e es)
  have clean: "pl_failed (plan_entry x e st) = pl_failed st"
    "pl_failed (fold (plan_entry x) es (plan_entry x e st)) = pl_failed (plan_entry x e st)"
    using Cons.prems failed_mono(1) [where st = st and x = x and entry = e]
      fold_mono [where f = "plan_entry x" and s = "plan_entry x e st" and xs = es, OF failed_mono(1)]
    by auto
  note step = plan_entry_step [OF disk clean(1)]
  from Cons.IH [OF clean(2)] obtain plans where rest:
    "pl_plans (fold (plan_entry x) es (plan_entry x e st)) = pl_plans (plan_entry x e st) @ plans"
    "map fp_entry plans = filter (selected x) es"
    "list_all (sound_plan x (view (pl_world (plan_entry x e st)))) plans"
    "view (pl_world (fold (plan_entry x) es (plan_entry x e st))) = view (pl_world (plan_entry x e st))"
    by blast
  show ?case
  proof (cases "selected x e")
    case True
    with step obtain plan where plan: "pl_plans (plan_entry x e st) = pl_plans st @ [plan]"
      "fp_entry plan = e" "sound_plan x (view (pl_world st)) plan" by auto
    with True rest step show ?thesis by (intro conjI exI [of _ "plan # plans"]) auto
  next
    case False
    with rest step show ?thesis by (intro conjI exI [of _ plans]) auto
  qed
qed simp

section \<open>Fetching and writing\<close>

lemma honest_insert:
  "honest hash pre fetched \<Longrightarrow> \<forall>(h, b)\<in>set pairs. chunk_hash hash pre b = h \<Longrightarrow>
    honest hash pre (fold (\<lambda>(h, v). hinsert h v) pairs fetched)"
proof (induction pairs arbitrary: fetched)
  case (Cons p ps)
  obtain h b where p: "p = (h, b)" by (cases p)
  with Cons.prems have "honest hash pre (hinsert h b fetched)"
    by (auto simp: honest_def update_conv)
  with Cons p show ?case by simp
qed simp

lemma fetch_honest:
  assumes server: "honest_server x view"
  shows "fetch_batches (pv_remote (pc_env x)) bs fetched w = (w', fetched', err) \<Longrightarrow>
    honest (pv_hash (pc_env x)) (bc_chunk_hash_prefix (pc_config x)) fetched \<Longrightarrow>
    view w' = view w \<and> honest (pv_hash (pc_env x)) (bc_chunk_hash_prefix (pc_config x)) fetched'"
proof (induction bs arbitrary: fetched w)
  case (Cons b bs)
  obtain w1 r where run: "ro_sync_chunks (pv_remote (pc_env x)) b w = (w1, r)" by force
  have v: "view w1 = view w" using server run unfolding honest_server_def by (metis fst_conv)
  show ?case
  proof (cases r)
    case (Inl e)
    with Cons.prems run v show ?thesis by auto
  next
    case (Inr pairs)
    have "\<forall>(h, b)\<in>set pairs. chunk_hash (pv_hash (pc_env x)) (bc_chunk_hash_prefix (pc_config x)) b = h"
      using server run Inr unfolding honest_server_def by (metis snd_conv)
    from honest_insert [OF Cons.prems(2) this] Cons.IH Cons.prems(1) run Inr v show ?thesis by simp
  qed
qed auto

lemma pull_file_step:
  assumes disk: "disk_laws (pv_disk (pc_env x)) view"
    and honest: "honest (pv_hash (pc_env x)) (bc_chunk_hash_prefix (pc_config x)) fetched"
    and sound: "sound_plan x (view (pl_world st)) plan"
    and clean: "pl_failed (pull_file x fetched err plan st) = pl_failed st"
  shows "(\<exists>bytes. content_of_entry x (fp_entry plan) bytes \<and>
      view (pl_world (pull_file x fetched err plan st)) (fp_local_path plan) = Some bytes) \<and>
    (\<forall>q. q \<noteq> fp_local_path plan \<longrightarrow> q \<noteq> tmp_path_of (fp_local_path plan) \<longrightarrow>
      view (pl_world (pull_file x fetched err plan st)) q = view (pl_world st) q)"
proof -
  let ?p = "fp_local_path plan" and ?dk = "pv_disk (pc_env x)"
  note ok = disk_laws_ok [OF disk]
  have err: "err = None"
    using clean by (cases err) (simp_all add: pull_file_def pull_failure_def pull_error_def)
  let ?run = "assemble_file (pv_hash (pc_env x)) ?dk (se_chunk_hashes (fp_entry plan)) ?p
    (fp_local_chunks plan) fetched (pl_world st)"
  obtain w r where run: "?run = (w, r)" by force
  obtain v where r: "r = Inr v"
    using clean err run by (cases r) (simp_all add: pull_file_def pull_failure_def pull_error_def)
  obtain n ch where v: "v = (n, ch)" by (cases v)
  have "chunks_hold (pv_hash (pc_env x)) (bc_chunk_hash_prefix (pc_config x)) (fh_bytes f)
      (fp_local_chunks plan)" if "dk_open ?dk ?p (pl_world st) = Opened f" for f
  proof -
    have "view (pl_world st) ?p = Some (fh_bytes f)" using that ok by (simp add: disk_ok_def)
    with sound show ?thesis by (simp add: sound_plan_def)
  qed
  from assemble_file_spec [OF ok honest this run [unfolded r v]]
  have put: "\<exists>bytes. content_of_entry x (fp_entry plan) bytes \<and> view w ?p = Some bytes"
    unfolding content_of_entry_def by blast
  have world: "pl_world (pull_file x fetched err plan st) = w"
    using err run r v by (simp add: pull_file_def Let_def store_pulled_def pull_error_def
        split: prod.split sum.split)
  from put assemble_file_other [OF ok run [unfolded r v]] show ?thesis by (simp add: world)
qed

lemma pull_all:
  assumes disk: "disk_laws (pv_disk (pc_env x)) view"
    and honest: "honest (pv_hash (pc_env x)) (bc_chunk_hash_prefix (pc_config x)) fetched"
  shows "pl_failed (fold (pull_file x fetched err) plans st) = pl_failed st \<Longrightarrow>
    list_all (sound_plan x (view (pl_world st))) plans \<Longrightarrow> distinct (map fp_local_path plans) \<Longrightarrow>
    set (map fp_local_path plans) \<inter> tmp_path_of ` set (map fp_local_path plans) = {} \<Longrightarrow>
    (\<forall>plan\<in>set plans. \<exists>bytes. content_of_entry x (fp_entry plan) bytes \<and>
       view (pl_world (fold (pull_file x fetched err) plans st)) (fp_local_path plan) = Some bytes) \<and>
    (\<forall>q. q \<notin> set (map fp_local_path plans) \<union> tmp_path_of ` set (map fp_local_path plans) \<longrightarrow>
       view (pl_world (fold (pull_file x fetched err) plans st)) q = view (pl_world st) q)"
proof (induction plans arbitrary: st)
  case (Cons a plans)
  let ?st1 = "pull_file x fetched err a st"
  let ?fin = "fold (pull_file x fetched err) plans ?st1"
  have clean: "pl_failed ?st1 = pl_failed st" "pl_failed ?fin = pl_failed ?st1"
    using failed_mono(2) [where st = st and x = x and plan = a]
      fold_mono [where f = "pull_file x fetched err" and s = ?st1 and xs = plans, OF failed_mono(2)]
      Cons.prems(1)
    by (auto dest: order_antisym intro: order_antisym)
  have sa: "sound_plan x (view (pl_world st)) a" using Cons.prems(2) by simp
  note step = pull_file_step [OF disk honest sa clean(1)]
  have keep: "view (pl_world ?st1) (fp_local_path b) = view (pl_world st) (fp_local_path b)"
    if "b \<in> set plans" for b
  proof -
    have "fp_local_path b \<noteq> fp_local_path a" using Cons.prems(3) that by (auto simp: image_iff)
    moreover have "fp_local_path b \<noteq> tmp_path_of (fp_local_path a)" using Cons.prems(4) that by (simp add: disjoint_iff image_iff) metis
    ultimately show ?thesis using step by blast
  qed
  have sound: "list_all (sound_plan x (view (pl_world ?st1))) plans"
    using Cons.prems(2) keep by (auto simp: list_all_iff sound_plan_def)
  have sep: "distinct (map fp_local_path plans)"
    "set (map fp_local_path plans) \<inter> tmp_path_of ` set (map fp_local_path plans) = {}"
    using Cons.prems(3,4) by auto
  note rest = Cons.IH [OF clean(2) sound sep]
  have "fp_local_path a \<notin> set (map fp_local_path plans) \<union> tmp_path_of ` set (map fp_local_path plans)"
    using Cons.prems(3,4) by auto
  with rest have "view (pl_world ?fin) (fp_local_path a) = view (pl_world ?st1) (fp_local_path a)" by blast
  with step have "\<exists>bytes. content_of_entry x (fp_entry a) bytes \<and>
      view (pl_world ?fin) (fp_local_path a) = Some bytes" by simp
  moreover have "view (pl_world ?fin) q = view (pl_world st) q"
    if "q \<notin> set (map fp_local_path (a # plans)) \<union> tmp_path_of ` set (map fp_local_path (a # plans))" for q
    using rest step that by auto
  ultimately show ?case using rest by simp
qed simp

section \<open>Deleting and linking\<close>

lemma drop_pulled_world [simp]: "pl_world (drop_pulled x mm p st) = pl_world st"
  by (simp add: drop_pulled_def pull_error_def split: prod.split sum.split)

lemma pull_deleted_step:
  assumes disk: "disk_laws (pv_disk (pc_env x)) view"
    and absent: "\<And>p w. \<not> present p w \<Longrightarrow> view w p = None"
    and clean: "pl_failed (pull_deleted x present what mm p st) = pl_failed st"
  shows "view (pl_world (pull_deleted x present what mm p st)) =
    (if is_excluded_by_child p (pc_exclusions x) then view (pl_world st)
     else (view (pl_world st))(local_of x p := None))"
proof (cases "is_excluded_by_child p (pc_exclusions x) \<or> \<not> present (local_of x p) (pl_world st)")
  case True
  then show ?thesis using absent [of "local_of x p" "pl_world st"]
    by (auto simp: pull_deleted_def Let_def)
next
  case False
  obtain w r where run: "dk_remove (pv_disk (pc_env x)) (local_of x p) (pl_world st) = (w, r)" by force
  obtain u where r: "r = Inr u"
    using clean False run
    by (cases r) (simp_all add: pull_deleted_def Let_def pull_failure_def pull_error_def)
  from law_remove [OF disk run [unfolded r]] False run r show ?thesis
    by (simp add: pull_deleted_def Let_def)
qed

lemma delete_all:
  assumes disk: "disk_laws (pv_disk (pc_env x)) view"
    and absent: "\<And>p w. \<not> present p w \<Longrightarrow> view w p = None"
  shows "pl_failed (fold (pull_deleted x present what mm) ps st) = pl_failed st \<Longrightarrow>
    view (pl_world (fold (pull_deleted x present what mm) ps st)) =
      (\<lambda>q. if q \<in> set (owned_targets x ps) then None else view (pl_world st) q)"
proof (induction ps arbitrary: st)
  case (Cons p ps)
  let ?st1 = "pull_deleted x present what mm p st"
  let ?fin = "fold (pull_deleted x present what mm) ps ?st1"
  have "pl_failed ?st1 = pl_failed st" "pl_failed ?fin = pl_failed ?st1"
    using failed_mono(3) [where st = st and x = x and p = p and present = present and what = what and mm = mm]
      fold_mono [where f = "pull_deleted x present what mm" and s = ?st1 and xs = ps, OF failed_mono(3)]
      Cons.prems
    by (auto intro: order_antisym)
  note clean = this
  from Cons.IH [OF clean(2)] pull_deleted_step [OF disk absent clean(1)] show ?case
    by (auto simp: owned_targets_def fun_eq_iff)
qed (simp add: owned_targets_def)

lemma store_pulled_world [simp]: "pl_world (store_pulled x msg m st) = pl_world st"
  by (simp add: store_pulled_def pull_error_def split: prod.split sum.split)

lemma pull_symlink_other:
  assumes disk: "disk_laws (pv_disk (pc_env x)) view"
    and q: "is_excluded_by_child (ye_path l) (pc_exclusions x) \<or> q \<noteq> local_of x (ye_path l)"
  shows "view (pl_world (pull_symlink x l st)) q = view (pl_world st) q"
proof (cases "is_excluded_by_child (ye_path l) (pc_exclusions x)")
  case True
  then show ?thesis by (simp add: pull_symlink_def)
next
  case False
  let ?p = "local_of x (ye_path l)" and ?dk = "pv_disk (pc_env x)"
  obtain w r where mk: "make_parent x ?p (pl_world st) = (w, r)" by force
  have w: "view w = view (pl_world st)" using make_parent_view [OF disk, of ?p "pl_world st"] mk by simp
  let ?w1 = "if dk_lexists ?dk ?p w then fst (dk_remove ?dk ?p w) else w"
  have w1: "view ?w1 q = view (pl_world st) q"
    using law_remove_other [OF disk, of q ?p w] q False w by simp
  obtain w2 r2 where ln: "dk_symlink ?dk (ye_target l) ?p ?w1 = (w2, r2)" by force
  have "view w2 q = view (pl_world st) q"
    using law_symlink_other [OF disk, of q ?p "ye_target l" ?w1] q False w1 ln by simp
  with False mk ln w show ?thesis
    unfolding pull_symlink_def Let_def
    by (cases r; cases r2) (simp_all add: pull_failure_def pull_error_def)
qed

lemma link_all:
  assumes disk: "disk_laws (pv_disk (pc_env x)) view"
    and q: "q \<notin> set (owned_targets x (map ye_path ls))"
  shows "view (pl_world (fold (pull_symlink x) ls st)) q = view (pl_world st) q"
  using q
proof (induction ls arbitrary: st)
  case (Cons l ls)
  have "view (pl_world (pull_symlink x l st)) q = view (pl_world st) q"
    using Cons.prems by (intro pull_symlink_other [OF disk]) (auto simp: owned_targets_def)
  with Cons show ?case by (auto simp: owned_targets_def split: if_splits)
qed simp

section \<open>The refinement\<close>

lemma fetch_counts: "pl_failed (fst (pull_fetch x st)) = pl_failed st"
  by (simp add: pull_fetch_def split: prod.split)

lemma fetch_view:
  assumes "honest_server x view" "pull_fetch x st = (st', fetched, err)"
  shows "view (pl_world st') = view (pl_world st)"
    "honest (pv_hash (pc_env x)) (bc_chunk_hash_prefix (pc_config x)) fetched"
    "pl_plans st' = pl_plans st" "pl_failed st' = pl_failed st"
proof -
  let ?bs = "chunks_of sync_chunks_batch (pv_order (pc_env x) (hkeys (pl_needed st)))"
  obtain w f e where run: "fetch_batches (pv_remote (pc_env x)) ?bs [] (pl_world st) = (w, f, e)"
    by (metis prod_cases3)
  from fetch_honest [OF assms(1) run] have "view w = view (pl_world st)"
    "honest (pv_hash (pc_env x)) (bc_chunk_hash_prefix (pc_config x)) f"
    by (simp_all add: honest_def)
  with assms(2) run show "view (pl_world st') = view (pl_world st)"
    "honest (pv_hash (pc_env x)) (bc_chunk_hash_prefix (pc_config x)) fetched"
    "pl_plans st' = pl_plans st" "pl_failed st' = pl_failed st"
    by (auto simp: pull_fetch_def)
qed

text \<open>The files of a pull, from a clean plan to the written tree.\<close>

lemma files_step:
  assumes disk: "disk_laws (pv_disk (pc_env x)) view" and server: "honest_server x view"
    and start: "pl_plans st = []" and sep: "separated x c"
    and fetch: "pull_fetch x (fold (plan_entry x) (sc_files_added c @ sc_files_modified c) st) =
      (st2, fetched, err)"
    and clean: "pl_failed (fold (pull_file x fetched err) (pl_plans st2) st2) = pl_failed st"
  shows "(\<forall>entry\<in>set (put_entries x c). \<exists>bytes. content_of_entry x entry bytes \<and>
      view (pl_world (fold (pull_file x fetched err) (pl_plans st2) st2)) (entry_target x entry) =
        Some bytes) \<and>
    (\<forall>q. q \<notin> set (put_paths x c) \<union> tmp_path_of ` set (put_paths x c) \<longrightarrow>
      view (pl_world (fold (pull_file x fetched err) (pl_plans st2) st2)) q = view (pl_world st) q)"
proof -
  let ?es = "sc_files_added c @ sc_files_modified c"
  let ?st1 = "fold (plan_entry x) ?es st"
  note f = fetch_view [OF server fetch]
  have mono: "pl_failed st \<le> pl_failed ?st1"
    "pl_failed st2 \<le> pl_failed (fold (pull_file x fetched err) (pl_plans st2) st2)"
    by (rule fold_mono, rule failed_mono)+
  have c1: "pl_failed ?st1 = pl_failed st"
    and c2: "pl_failed (fold (pull_file x fetched err) (pl_plans st2) st2) = pl_failed st2"
    using mono clean f(4) by simp_all
  from plan_all [OF disk c1] start obtain plans where plans: "pl_plans ?st1 = plans"
    "map fp_entry plans = put_entries x c" "list_all (sound_plan x (view (pl_world st))) plans"
    and v1: "view (pl_world ?st1) = view (pl_world st)"
    by (auto simp: put_entries_def)
  have pl: "pl_plans st2 = plans" using f(3) plans(1) by simp
  have v2: "view (pl_world st2) = view (pl_world st)" using f(1) v1 by simp
  have paths: "map fp_local_path plans = put_paths x c"
  proof -
    have "map fp_local_path plans = map (entry_target x) (map fp_entry plans)"
      using plans(3) by (simp add: list_all_iff sound_plan_def)
    with plans(2) show ?thesis by (simp add: put_paths_def)
  qed
  have "distinct (map fp_local_path plans)"
    "set (map fp_local_path plans) \<inter> tmp_path_of ` set (map fp_local_path plans) = {}"
    using sep by (simp_all add: paths separated_def Let_def)
  note all = pull_all [OF disk f(2), of err plans st2, OF c2 [unfolded pl] _ this,
      unfolded paths v2, OF plans(3)]
  have "\<exists>bytes. content_of_entry x entry bytes \<and>
      view (pl_world (fold (pull_file x fetched err) plans st2)) (entry_target x entry) = Some bytes"
    if "entry \<in> set (put_entries x c)" for entry
  proof -
    from that plans(2) obtain plan where p: "plan \<in> set plans" "fp_entry plan = entry"
      by (metis imageE set_map)
    with plans(3) have "fp_local_path plan = entry_target x entry"
      by (simp add: list_all_iff sound_plan_def)
    with all p show ?thesis by metis
  qed
  with all show ?thesis unfolding pl by blast
qed

text \<open>The phases after the files: deletions, symlinks, deletions of symlinks.\<close>

definition pull_rest :: "('w, 'e) pull_ctx \<Rightarrow> sync_changes \<Rightarrow> ('w, 'e) pull_state \<Rightarrow> ('w, 'e) pull_state" where
  "pull_rest x c st =
     (let dk = pv_disk (pc_env x); deletes = dp_remote_to_local (sr_delete_propagation (pc_rel x));
          st4 = (if deletes
                 then fold (pull_deleted x (dk_exists dk) ''failed to delete ''
                        ''failed to delete metadata for '') (sc_files_deleted c) st
                 else st);
          st5 = fold (pull_symlink x) (sc_symlinks_added c @ sc_symlinks_modified c) st4
      in if deletes
         then fold (pull_deleted x (dk_lexists dk) ''failed to delete symlink ''
                ''failed to delete symlink metadata for '') (sc_symlinks_deleted c) st5
         else st5)"

lemma phases_rest:
  assumes "pull_fetch x (fold (plan_entry x) (sc_files_added c @ sc_files_modified c) st) = (st2, fetched, err)"
  shows "pull_phases x c st = pull_rest x c (fold (pull_file x fetched err) (pl_plans st2) st2)"
  unfolding pull_phases_def pull_rest_def Let_def assms prod.case ..

text \<open>A phase of deletions that may be switched off.\<close>

lemma deletes_view:
  assumes disk: "disk_laws dk view" "dk = pv_disk (pc_env x)" and absent: "\<And>p w. \<not> there p w \<Longrightarrow> view w p = None"
    and same: "pl_failed (if on then fold (pull_deleted x there m1 m2) es st else st) = pl_failed st"
  shows "view (pl_world (if on then fold (pull_deleted x there m1 m2) es st else st)) q =
    (if on \<and> q \<in> set (owned_targets x es) then None else view (pl_world st) q)"
  using delete_all [OF disk(1) [unfolded disk(2)] absent, of there m1 m2 es st] same by (cases on) simp_all

lemma rest_view:
  assumes disk: "disk_laws (pv_disk (pc_env x)) view" and clean: "pl_failed (pull_rest x c st) = 0"
  shows "pl_failed st = 0" and "q \<notin> set (link_targets x c) \<Longrightarrow>
    view (pl_world (pull_rest x c st)) q = (if q \<in> set (drop_targets x c) then None else view (pl_world st) q)"
proof -
  let ?on = "dp_remote_to_local (sr_delete_propagation (pc_rel x))" and ?dk = "pv_disk (pc_env x)"
  let ?del1 = "\<lambda>st. if ?on then fold (pull_deleted x (dk_exists ?dk) ''failed to delete ''
    ''failed to delete metadata for '') (sc_files_deleted c) st else st"
  let ?links = "fold (pull_symlink x) (sc_symlinks_added c @ sc_symlinks_modified c)"
  let ?del2 = "\<lambda>st. if ?on then fold (pull_deleted x (dk_lexists ?dk) ''failed to delete symlink ''
    ''failed to delete symlink metadata for '') (sc_symlinks_deleted c) st else st"
  have rest: "pull_rest x c st = ?del2 (?links (?del1 st))" by (simp add: pull_rest_def Let_def)
  have mono: "pl_failed s \<le> pl_failed (?del1 s)" "pl_failed s \<le> pl_failed (?links s)" "pl_failed s \<le> pl_failed (?del2 s)" for s
    by (simp_all only: fold_mono [OF failed_mono(3)] fold_mono [OF failed_mono(4)] order_refl split: if_split)
      simp_all
  have zero: "pl_failed (?links (?del1 st)) = 0" "pl_failed (?del1 st) = 0" "pl_failed st = 0"
    using clean [unfolded rest] mono(3) [of "?links (?del1 st)"] mono(2) [of "?del1 st"] mono(1) [of st] by simp_all
  then show "pl_failed st = 0" by simp
  assume q: "q \<notin> set (link_targets x c)"
  have "view (pl_world (?del2 (?links (?del1 st)))) q =
      (if ?on \<and> q \<in> set (owned_targets x (sc_symlinks_deleted c)) then None else view (pl_world (?links (?del1 st))) q)"
    by (rule deletes_view [OF disk refl law_absent(2) [OF disk]]) (use clean [unfolded rest] zero in simp_all)
  also have "view (pl_world (?links (?del1 st))) q = view (pl_world (?del1 st)) q"
    using link_all [OF disk, of q "sc_symlinks_added c @ sc_symlinks_modified c"] q by (simp add: link_targets_def)
  also have "\<dots> = (if ?on \<and> q \<in> set (owned_targets x (sc_files_deleted c)) then None else view (pl_world st) q)"
    by (rule deletes_view [OF disk refl law_absent(1) [OF disk]]) (use zero in simp_all)
  finally show "view (pl_world (pull_rest x c st)) q =
      (if q \<in> set (drop_targets x c) then None else view (pl_world st) q)"
    unfolding rest by (auto simp: drop_targets_def owned_targets_def)
qed

text \<open>C5. A pull of a diff that does not collide, with an honest server and a disk that keeps its laws: if
  nothing failed, the tree afterwards is the update of the tree before that the diff describes.
  Every selected file has the content its entry lists, every deleted path is gone, and every
  other path, links and temporary names apart, is as it was.\<close>

theorem pull_refines_tree_update:
  assumes disk: "disk_laws (pv_disk (pc_env x)) view" and server: "honest_server x view"
    and sep: "separated x c" and clean: "pl_failed (pull_phases x c (initial_pull w e)) = 0"
  shows "tree_updated x c (view w) (view (pl_world (pull_phases x c (initial_pull w e))))"
proof -
  let ?st1 = "fold (plan_entry x) (sc_files_added c @ sc_files_modified c) (initial_pull w e)"
  obtain st2 fetched err where fetch: "pull_fetch x ?st1 = (st2, fetched, err)" by (metis prod_cases3)
  define st3 where "st3 = fold (pull_file x fetched err) (pl_plans st2) st2"
  have run: "pull_phases x c (initial_pull w e) = pull_rest x c st3"
    unfolding st3_def by (rule phases_rest [OF fetch])
  note rest = rest_view [OF disk clean [unfolded run]]
  have files: "(\<forall>entry\<in>set (put_entries x c). \<exists>bytes. content_of_entry x entry bytes \<and>
      view (pl_world st3) (entry_target x entry) = Some bytes) \<and>
    (\<forall>q. q \<notin> set (put_paths x c) \<union> tmp_path_of ` set (put_paths x c) \<longrightarrow>
      view (pl_world st3) q = view w q)"
    using files_step [OF disk server _ sep fetch] rest(1) by (simp add: st3_def initial_pull_def)
  have apart: "set (put_paths x c) \<inter> set (drop_targets x c) = {}"
    "set (put_paths x c) \<inter> set (link_targets x c) = {}"
    "set (drop_targets x c) \<inter> set (link_targets x c) = {}"
    using sep by (auto simp: separated_def Let_def)
  have "\<exists>bytes. content_of_entry x entry bytes \<and>
      view (pl_world (pull_rest x c st3)) (entry_target x entry) = Some bytes"
    if entry: "entry \<in> set (put_entries x c)" for entry
  proof -
    have "entry_target x entry \<in> set (put_paths x c)" using entry by (simp add: put_paths_def)
    then have "entry_target x entry \<notin> set (link_targets x c)" "entry_target x entry \<notin> set (drop_targets x c)"
      using apart by (meson disjoint_iff)+
    with rest(2) [of "entry_target x entry"] files entry show ?thesis by simp
  qed
  moreover have "view (pl_world (pull_rest x c st3)) p = None" if drop: "p \<in> set (drop_targets x c)" for p
    using rest(2) [of p] drop apart(3) by (metis disjoint_iff)
  moreover have "view (pl_world (pull_rest x c st3)) p = view w p"
    if "p \<notin> set (put_paths x c) \<union> tmp_path_of ` set (put_paths x c) \<union> set (drop_targets x c) \<union>
      set (link_targets x c)" for p
    using rest(2) [of p] files that by auto
  ultimately show ?thesis unfolding run tree_updated_def by blast
qed

section \<open>A sample\<close>

lemma mem_disk_laws: "disk_laws mem_disk hget"
  by (auto simp: disk_laws_def mem_disk_ok) (auto simp: mem_disk_def split: option.splits)

text \<open>A server whose every chunk has the hash asked for.\<close>

definition honest_pull_ctx :: "((string, string) hmap, (string, json) hmap) pull_ctx" where
  "honest_pull_ctx = sample_pull_ctx\<lparr>pc_env := sample_pull_env\<lparr>pv_remote := sample_pull_remote
     \<lparr>ro_sync_chunks := (\<lambda>hs w. (w, Inr (map (\<lambda>h. (h, drop 3 h)) (filter (\<lambda>h. take 3 h = ''hc:'') hs))))\<rparr>\<rparr>\<rparr>"

lemma tagged_chunk: "take 3 h = ''hc:'' \<Longrightarrow> chunk_hash plain_hash ''c:'' (drop 3 h) = h"
  using append_take_drop_id [of 3 h] by (simp add: chunk_hash_def plain_hash_def)

lemma honest_pull_laws:
  "disk_laws (pv_disk (pc_env honest_pull_ctx)) hget" "honest_server honest_pull_ctx hget"
proof -
  show "disk_laws (pv_disk (pc_env honest_pull_ctx)) hget"
    using mem_disk_laws by (simp add: honest_pull_ctx_def sample_pull_env_def)
  show "honest_server honest_pull_ctx hget"
    by (auto simp: honest_server_def honest_pull_ctx_def sample_pull_env_def sample_pull_ctx_def tagged_chunk)
qed

lemma pull_refines_tree_update_witness:
  "tree_updated honest_pull_ctx sample_changes (hget [(''/l/gone'', ''x''), (''/l/keep'', ''y'')])
     (hget (pl_world (pull_phases honest_pull_ctx sample_changes
       (initial_pull [(''/l/gone'', ''x''), (''/l/keep'', ''y'')] []))))"
proof (rule pull_refines_tree_update [OF honest_pull_laws])
  show "separated honest_pull_ctx sample_changes" by code_simp
  show "pl_failed (pull_phases honest_pull_ctx sample_changes
      (initial_pull [(''/l/gone'', ''x''), (''/l/keep'', ''y'')] [])) = 0" by code_simp
qed

end
