(* ===== verification/Event_Routes.thy ===== *)
theory Event_Routes
  imports File_Routes Sse
begin

text \<open>
  \<open>api/routes/events.rs\<close>: the broadcast of server events to a subscriber, and the file events of a
  relationship, read from the stream of its server, translated to paths below the relationship.
  \<open>render\<close> is \<open>serde_json::to_string\<close>.
\<close>

record server_event =
  ev_event_name :: string
  ev_data :: string

section \<open>The broadcast\<close>

text \<open>What a receiver takes from the channel: an event, or how many it missed.\<close>

definition event_stream :: "(nat + server_event) list \<Rightarrow> server_event list" where
  "event_stream items = List.map_filter (\<lambda>r. case r of Inr e \<Rightarrow> Some e | Inl _ \<Rightarrow> None) items"

section \<open>File events of a relationship\<close>

definition relationship_relative_path :: "string \<Rightarrow> string \<Rightarrow> string option" where
  "relationship_relative_path relationship_remote_path path =
     (let remote_path = (if starts_with path ''/'' then path else ''/'' @ path);
          base = trim_end_matches CHR ''/'' relationship_remote_path
      in if base = [] \<or> base = ''/'' then Some remote_path
         else if remote_path = base then Some ''/''
         else map_option (\<lambda>relative. ''/'' @ relative) (strip_prefix remote_path (base @ ''/'')))"

definition file_event_json :: "string \<Rightarrow> remote_change \<Rightarrow> string \<Rightarrow> json" where
  "file_event_json i change relative_path =
     JObj [(''relationship_id'', JStr i), (''event_type'', JStr (rch_event_type change)),
           (''remote_path'', JStr (rch_path change)), (''path'', JStr relative_path)]"

definition file_event ::
  "(json \<Rightarrow> string option) \<Rightarrow> sync_relationship \<Rightarrow> remote_change \<Rightarrow> server_event option" where
  "file_event render rel change =
     (case relationship_relative_path (sr_remote_path rel) (rch_path change) of
        None \<Rightarrow> None
      | Some relative_path \<Rightarrow>
          map_option (\<lambda>data. \<lparr>ev_event_name = rch_event_type change, ev_data = data\<rparr>)
            (render (file_event_json (sr_id rel) change relative_path)))"

definition message_events ::
  "(string \<Rightarrow> json option) \<Rightarrow> (json \<Rightarrow> string option) \<Rightarrow> sync_relationship \<Rightarrow> string \<Rightarrow> server_event list" where
  "message_events parse render rel message =
     (case parse_sse_message parse [sr_remote_path rel] message of
        None \<Rightarrow> []
      | Some changes \<Rightarrow> List.map_filter (file_event render rel) changes)"

text \<open>The stream: chunks arrive until the server ends it, or until a read fails, which is the last event
  the subscriber gets.\<close>

fun relay ::
  "(string \<Rightarrow> json option) \<Rightarrow> (json \<Rightarrow> string option) \<Rightarrow> sync_relationship \<Rightarrow> string \<Rightarrow>
     (string + string) list \<Rightarrow> server_event list" where
  "relay parse render rel buffer [] = []"
| "relay parse render rel buffer (Inl error # _) =
     [\<lparr>ev_event_name = ''upstream_error'',
       ev_data = (case render (JObj [(''error'', JStr error)]) of Some d \<Rightarrow> d | None \<Rightarrow> [])\<rparr>]"
| "relay parse render rel buffer (Inr chunk # rest) =
     (case feed buffer chunk of (messages, buffer) \<Rightarrow>
        concat (map (message_events parse render rel) messages) @ relay parse render rel buffer rest)"

text \<open>The handler up to the stream: the request to the server, and the chunks of its answer.\<close>

definition relationship_file_events ::
  "('w, 'e) web_env \<Rightarrow> (http_response \<Rightarrow> (string + string) list) \<Rightarrow> (string \<Rightarrow> json option) \<Rightarrow>
     (json \<Rightarrow> string option) \<Rightarrow> string \<Rightarrow> ('w, 'e) web \<Rightarrow> ('w, 'e) web \<times> server_event list res" where
  "relationship_file_events env chunks parse render i s =
     then_st (load_relationship_client i s) (\<lambda>s (rel, client).
       then_st (client_call rel (file_event_stream (we_net env) client (sr_remote_path rel)) s)
         (\<lambda>s response. (s, Inr (relay parse render rel [] (chunks response)))))"

section \<open>Paths\<close>

lemma trim_slash_base: "base = trim_end_matches CHR ''/'' r \<Longrightarrow> base \<noteq> ''/''"
  using trim_end_matches_last [of "CHR ''/''" r] by auto

text \<open>The relative path is the path below the root of the relationship: a change is passed on exactly if
  it is at or below the root, at a segment boundary, and root and relative path give the path
  back.\<close>

theorem relative_path_is_below_root:
  assumes "starts_with path ''/''"
  shows "relationship_relative_path root path = Some p \<longleftrightarrow>
    (let base = trim_end_matches CHR ''/'' root
     in starts_with p ''/'' \<and>
        (if base = [] then path = p
         else p = ''/'' \<and> path = base \<or> path = base @ p))"
proof -
  let ?base = "trim_end_matches CHR ''/'' root"
  have slash: "?base \<noteq> ''/''" by (rule trim_slash_base [OF refl])
  show ?thesis
  proof (cases "?base = []")
    case True
    with assms show ?thesis by (auto simp: relationship_relative_path_def Let_def)
  next
    case False
    have "strip_prefix path (?base @ ''/'') = Some rel \<longleftrightarrow> path = ?base @ ''/'' @ rel" for rel
      by (auto simp: strip_prefix_def prefix_def)
    then show ?thesis
      using False slash assms by (auto simp: relationship_relative_path_def Let_def prefix_def)
  qed
qed

lemma relative_path_is_below_root_witness:
  "relationship_relative_path ''/docs/'' ''/docs/a/b'' = Some ''/a/b''"
proof -
  have "starts_with ''/docs/a/b'' ''/''" by simp
  from relative_path_is_below_root [OF this, of "''/docs/''" "''/a/b''"] show ?thesis
    by (simp add: trim_end_matches_def)
qed

end
