(* ===== verification/Connection_Routes.thy ===== *)
theory Connection_Routes
  imports File_Spec Health
begin

text \<open>
  The handlers of \<open>api/routes/connections.rs\<close> and \<open>api/routes/shares.rs\<close>: the connections of the
  configuration, the folder picker and the proxy of a connection's server, and the shares of a
  relationship.  The handlers of a connection use its token slot; those of the shares build a
  client of their own for every request, with an empty slot that is dropped afterwards.
\<close>

record ('w, 'e) conn_env =
  ne_web :: "('w, 'e) web_env"
  ne_config :: config_env
  ne_now :: timestamp
  ne_uuid :: string
  ne_health :: "string \<Rightarrow> string option \<Rightarrow> health_outcome"

abbreviation ne_net :: "('w, 'e) conn_env \<Rightarrow> 'w net" where
  "ne_net env \<equiv> we_net (ne_web env)"

section \<open>Connections\<close>

definition list_connections_route :: "('w, 'e) web \<Rightarrow> remote_connection list" where
  "list_connections_route s = connection_list (wb_config s)"

text \<open>\<open>order\<close> is the order the hash map gives its values in.\<close>

definition list_health :: "(health_snapshot list \<Rightarrow> health_snapshot list) \<Rightarrow> health_map \<Rightarrow> health_snapshot list" where
  "list_health order m = order (map snd m)"

definition create_connection_route ::
  "('w, 'e) conn_env \<Rightarrow> create_connection_request \<Rightarrow> ('w, 'e) web \<Rightarrow>
     ('w, 'e) web \<times> (nat \<times> remote_connection) res" where
  "create_connection_route env request s =
     (case connection_create (ne_config env) (ne_now env) (ne_uuid env) request (wb_config s) of
        (c, Inl error) \<Rightarrow> (s\<lparr>wb_config := c\<rparr>, Inl error)
      | (c, Inr connection) \<Rightarrow> (s\<lparr>wb_config := c\<rparr>, Inr (201, connection)))"

definition connection_or_404 :: "string \<Rightarrow> ('w, 'e) web \<Rightarrow> remote_connection res" where
  "connection_or_404 i s =
     ok_or (NotFound (''connection not found: '' @ i)) (connection_get i (wb_config s))"

definition get_connection_route :: "string \<Rightarrow> ('w, 'e) web \<Rightarrow> remote_connection res" where
  "get_connection_route i s = connection_or_404 i s"

definition update_connection_route ::
  "('w, 'e) conn_env \<Rightarrow> string \<Rightarrow> update_connection_request \<Rightarrow> ('w, 'e) web \<Rightarrow>
     ('w, 'e) web \<times> remote_connection res" where
  "update_connection_route env i request s =
     (case connection_update (ne_config env) (ne_now env) i request (wb_config s) of
        (c, r) \<Rightarrow> (s\<lparr>wb_config := c\<rparr>, r))"

text \<open>The answer of a deletion has no body: its status is 204.  The token slot stays.\<close>

definition delete_connection_route ::
  "('w, 'e) conn_env \<Rightarrow> string \<Rightarrow> ('w, 'e) web \<Rightarrow> ('w, 'e) web \<times> nat res" where
  "delete_connection_route env i s =
     (case connection_delete (ne_config env) i (wb_config s) of
        (c, Inl error) \<Rightarrow> (s\<lparr>wb_config := c\<rparr>, Inl error)
      | (c, Inr _) \<Rightarrow> (s\<lparr>wb_config := c\<rparr>, Inr 204))"

definition test_connection_route ::
  "('w, 'e) conn_env \<Rightarrow> string \<Rightarrow> ('w, 'e) web \<Rightarrow> connection_test_result res" where
  "test_connection_route env i s = test_connection (ne_health env) i (wb_config s)"

section \<open>The server of a connection\<close>

text \<open>The client of a connection, with its slot.\<close>

definition connection_client ::
  "string \<Rightarrow> ('w, 'e) web \<Rightarrow> ('w, 'e) web \<times> (remote_connection \<times> remote_client) res" where
  "connection_client i s =
     (case connection_or_404 i s of
        Inl error \<Rightarrow> (s, Inl error)
      | Inr conn \<Rightarrow>
          (s\<lparr>wb_tokens := slot_for i (wb_tokens s)\<rparr>, Inr (conn, from_connection_cached conn)))"

definition slot_call ::
  "string \<Rightarrow> ('w cstate \<Rightarrow> 'w cstate \<times> 'r) \<Rightarrow> ('w, 'e) web \<Rightarrow> ('w, 'e) web \<times> 'r" where
  "slot_call i f s =
     (case f (wb_world s, slot_read i (wb_tokens s)) of
        ((w, token), r) \<Rightarrow> (s\<lparr>wb_world := w, wb_tokens := slot_write i token (wb_tokens s)\<rparr>, r))"

definition rooted :: "string option \<Rightarrow> string" where
  "rooted path =
     (let p = (case path of Some p \<Rightarrow> p | None \<Rightarrow> ''/'')
      in if starts_with p ''/'' then p else ''/'' @ p)"

definition portal_url_route ::
  "('w, 'e) conn_env \<Rightarrow> string \<Rightarrow> string option \<Rightarrow> ('w, 'e) web \<Rightarrow> ('w, 'e) web \<times> string res" where
  "portal_url_route env i path s =
     then_st (connection_client i s) (\<lambda>s (_, client).
       case portal_url (ne_net env) client (rooted path) (wb_world s) of
         (w, r) \<Rightarrow> (s\<lparr>wb_world := w\<rparr>, r))"

record folder_listing =
  fl_path :: string
  fl_entries :: "(string \<times> string) list"

definition browse_remote ::
  "('w, 'e) conn_env \<Rightarrow> string \<Rightarrow> string option \<Rightarrow> ('w, 'e) web \<Rightarrow> ('w, 'e) web \<times> folder_listing res" where
  "browse_remote env i path s =
     then_st (connection_client i s) (\<lambda>s (_, client).
       let trimmed = trim_end_matches CHR ''/'' (rooted path);
           path_for_request = (if trimmed = [] then ''/'' else trimmed @ ''/'')
       in then_st (bad_gateway (slot_call i
                     (list_remote_directory (ne_net env) client path_for_request) s))
            (\<lambda>s items.
              (s, Inr \<lparr>fl_path = (if trimmed = [] then ''/'' else trimmed),
                    fl_entries = map (\<lambda>e. (re_name e, trimmed @ ''/'' @ re_name e))
                                   (filter (\<lambda>e. re_entry_type e = 3) items)\<rparr>)))"

text \<open>The proxy passes status and body on whatever the status is; a body that cannot be read is an
  error of its own.\<close>

definition proxy_url :: "remote_connection \<Rightarrow> string \<Rightarrow> string option \<Rightarrow> string" where
  "proxy_url conn remote_path query =
     base_url conn @ ''/'' @ remote_path @
     (case query of Some q \<Rightarrow> if q \<noteq> [] then ''?'' @ q else [] | None \<Rightarrow> [])"

definition proxy_remote ::
  "('w, 'e) conn_env \<Rightarrow> string \<Rightarrow> string \<Rightarrow> string option \<Rightarrow> ('w, 'e) web \<Rightarrow>
     ('w, 'e) web \<times> web_response res" where
  "proxy_remote env i remote_path query s =
     then_st (connection_client i s) (\<lambda>s (conn, client).
       case slot_call i (authed_send (ne_net env) client
              (mk_request GET (proxy_url conn remote_path query) NoBody)) s of
         (s, Inl error) \<Rightarrow> (s, Inl (BadGateway (''proxy fetch failed: '' @ send_error_text error)))
       | (s, Inr upstream) \<Rightarrow>
           (case rs_body upstream of
              None \<Rightarrow> (s, Inl (BadGateway ''proxy read failed: error decoding response body''))
            | Some body \<Rightarrow>
                (s, Inr \<lparr>wr_status = rs_status upstream,
                      wr_headers = [(''content-type'',
                         case Option.bind (hget (rs_headers upstream) ''content-type'') header_to_str of
                           Some t \<Rightarrow> t | None \<Rightarrow> ''application/octet-stream'')],
                      wr_body = body\<rparr>)))"

section \<open>Shares\<close>

definition load_connection_and_client ::
  "string \<Rightarrow> ('w, 'e) web \<Rightarrow> (remote_client \<times> remote_connection) res" where
  "load_connection_and_client i s =
     (case relationship_get i (wb_config s) of
        None \<Rightarrow> Inl (NotFound (''relationship not found: '' @ i))
      | Some rel \<Rightarrow>
          (case connection_get (sr_remote_connection_id rel) (wb_config s) of
             None \<Rightarrow> Inl (NotFound (''connection not found: '' @ sr_remote_connection_id rel))
           | Some conn \<Rightarrow> Inr (from_connection_cached conn, conn)))"

text \<open>A call of a client with a slot of its own.\<close>

definition own_call ::
  "('w cstate \<Rightarrow> 'w cstate \<times> 'r) \<Rightarrow> ('w, 'e) web \<Rightarrow> ('w, 'e) web \<times> 'r" where
  "own_call f s = (case f (wb_world s, None) of ((w, _), r) \<Rightarrow> (s\<lparr>wb_world := w\<rparr>, r))"

definition share_call ::
  "string \<Rightarrow> (remote_client \<Rightarrow> remote_connection \<Rightarrow> 'w cstate \<Rightarrow> 'w cstate \<times> json res) \<Rightarrow> ('w, 'e) web \<Rightarrow>
     ('w, 'e) web \<times> json res" where
  "share_call i f s =
     (case load_connection_and_client i s of
        Inl error \<Rightarrow> (s, Inl error)
      | Inr (client, conn) \<Rightarrow> own_call (f client conn) s)"

definition path_or_root :: "string option \<Rightarrow> string" where
  "path_or_root path = (case path of Some p \<Rightarrow> p | None \<Rightarrow> ''/'')"

definition get_shares_route where
  "get_shares_route env i path s =
     share_call i (\<lambda>client conn. get_shares (ne_net env) client (path_or_root path)) s"

definition share_route where
  "share_route env i body s = share_call i (\<lambda>client conn. share (ne_net env) client body) s"

definition unshare_route where
  "unshare_route env i body s = share_call i (\<lambda>client conn. unshare (ne_net env) client body) s"

definition get_shareable_users_route where
  "get_shareable_users_route env i s =
     share_call i (\<lambda>client conn. get_shareable_users (ne_net env) client) s"

definition get_shareable_groups_route where
  "get_shareable_groups_route env i s =
     share_call i (\<lambda>client conn. get_shareable_groups (ne_net env) client) s"

text \<open>The base URL of a link is the connection's: it replaces one in the request.  A body that is not
  an object is sent as it is.\<close>

definition with_base_url :: "remote_connection \<Rightarrow> json \<Rightarrow> json" where
  "with_base_url conn body =
     (case body of
        JObj fs \<Rightarrow> JObj (hinsert ''base_url'' (JStr (effective_share_url conn)) fs)
      | _ \<Rightarrow> body)"

definition create_share_link_route where
  "create_share_link_route env i body s =
     share_call i (\<lambda>client conn. create_share_link (ne_net env) client (with_base_url conn body)) s"

definition get_share_links_route where
  "get_share_links_route env i path s =
     share_call i (\<lambda>client conn. get_share_links (ne_net env) client (path_or_root path)) s"

definition revoke_share_link_route where
  "revoke_share_link_route env i key_id s =
     share_call i (\<lambda>client conn. revoke_share_link (ne_net env) client key_id) s"

section \<open>Lemmas\<close>

lemma connection_client_tokens:
  "connection_client i s = (s', r) \<Longrightarrow>
    wb_config s' = wb_config s \<and> slot_read j (wb_tokens s') = slot_read j (wb_tokens s)"
  by (auto simp: connection_client_def split: sum.splits)

lemma slot_call_tokens:
  "slot_call i f s = (s', r) \<Longrightarrow> j \<noteq> i \<Longrightarrow>
    wb_config s' = wb_config s \<and> slot_read j (wb_tokens s') = slot_read j (wb_tokens s)"
  by (auto simp: slot_call_def split: prod.splits)

lemma own_call_tokens [simp]:
  "wb_config (fst (own_call f s)) = wb_config s" "wb_tokens (fst (own_call f s)) = wb_tokens s"
  by (simp_all add: own_call_def split: prod.split)

lemma share_call_tokens:
  "wb_config (fst (share_call i f s)) = wb_config s \<and> wb_tokens (fst (share_call i f s)) = wb_tokens s"
  by (simp add: share_call_def split: sum.split prod.split)

lemma portal_url_tokens:
  "wb_config (fst (portal_url_route env i path s)) = wb_config s \<and>
    slot_read j (wb_tokens (fst (portal_url_route env i path s))) = slot_read j (wb_tokens s)"
proof (cases "connection_client i s")
  case (Pair s1 r)
  with connection_client_tokens [OF Pair] show ?thesis
    by (cases r) (auto simp: portal_url_route_def then_st_def split: prod.splits)
qed

lemma bad_gateway_state [simp]: "fst (bad_gateway r) = fst r"
  by (simp add: bad_gateway_def split: prod.split)

lemma browse_remote_tokens:
  assumes "j \<noteq> i"
  shows "wb_config (fst (browse_remote env i path s)) = wb_config s \<and>
    slot_read j (wb_tokens (fst (browse_remote env i path s))) = slot_read j (wb_tokens s)"
proof (cases "connection_client i s")
  case (Pair s1 r)
  note c = connection_client_tokens [OF Pair]
  show ?thesis
  proof (cases r)
    case (Inl e)
    with Pair c show ?thesis by (simp add: browse_remote_def then_st_def)
  next
    case (Inr p)
    obtain conn client where p: "p = (conn, client)" by (cases p)
    let ?t = "trim_end_matches CHR ''/'' (rooted path)"
    let ?f = "list_remote_directory (ne_net env) client (if ?t = [] then ''/'' else ?t @ ''/'')"
    obtain s2 r2 where 2: "slot_call i ?f s1 = (s2, r2)" by force
    from slot_call_tokens [OF 2 assms] c Pair Inr p 2 show ?thesis
      by (cases r2) (simp_all add: browse_remote_def then_st_def Let_def bad_gateway_def map_err_def)
  qed
qed

lemma proxy_remote_tokens:
  assumes "j \<noteq> i"
  shows "wb_config (fst (proxy_remote env i remote_path query s)) = wb_config s \<and>
    slot_read j (wb_tokens (fst (proxy_remote env i remote_path query s))) = slot_read j (wb_tokens s)"
proof (cases "connection_client i s")
  case (Pair s1 r)
  note c = connection_client_tokens [OF Pair]
  show ?thesis
  proof (cases r)
    case (Inl e)
    with Pair c show ?thesis by (simp add: proxy_remote_def then_st_def)
  next
    case (Inr p)
    obtain conn client where p: "p = (conn, client)" by (cases p)
    obtain s2 r2 where 2: "slot_call i (authed_send (ne_net env) client
        (mk_request GET (proxy_url conn remote_path query) NoBody)) s1 = (s2, r2)" by force
    from slot_call_tokens [OF 2 assms] c Pair Inr p 2 show ?thesis
      by (cases r2) (simp_all add: proxy_remote_def then_st_def split: option.split)
  qed
qed



section \<open>The folder picker\<close>

text \<open>Browsing on: the path a listing gives for a folder is taken as it is by the next listing.\<close>

lemma folder_paths_lead_on:
  assumes "n \<noteq> []" "CHR ''/'' \<notin> set n"
  shows "trim_end_matches CHR ''/''
      (rooted (Some (trim_end_matches CHR ''/'' (rooted path) @ ''/'' @ n))) =
    trim_end_matches CHR ''/'' (rooted path) @ ''/'' @ n"
proof -
  let ?t = "trim_end_matches CHR ''/'' (rooted path)"
  have "?t = [] \<or> hd ?t = CHR ''/''"
  proof (cases "?t")
    case (Cons a as)
    have "prefix ?t (rooted path)" by (rule trim_end_matches_prefix)
    with Cons have "prefix [a] (rooted path)" by (auto simp: prefix_def)
    moreover have "\<exists>x. rooted path = CHR ''/'' # x"
      by (auto simp: rooted_def Let_def prefix_def)
    ultimately show ?thesis using Cons by (auto simp: prefix_def)
  qed simp
  then have "starts_with (?t @ ''/'' @ n) ''/''"
    by (cases ?t) auto
  moreover have "last n \<noteq> CHR ''/''" using assms by (metis last_in_set)
  ultimately show ?thesis
    using assms by (simp add: rooted_def [of "Some _"] trim_end_matches_id)
qed

text \<open>A share request asks for a token whatever the cache has: its outcome does not depend on it.\<close>

lemma share_calls_ignore_the_cache:
  "snd (share_call i f (s\<lparr>wb_tokens := t\<rparr>)) = snd (share_call i f s)"
  by (simp add: share_call_def load_connection_and_client_def own_call_def split: option.split prod.split sum.split)

end
