(* ===== verification/Local_Routes.thy ===== *)
theory Local_Routes
  imports Machines Config State_Store Json Http
begin

text \<open>
  The handlers that concern the client itself: its settings (\<open>api/routes/settings.rs\<close>), its status
  (\<open>api/routes/status.rs\<close>, \<open>models/status.rs\<close>), the system's dialogs (\<open>api/routes/system.rs\<close>) and
  the conflicts of its database (\<open>api/routes/conflicts.rs\<close>).
\<close>

section \<open>Settings\<close>

text \<open>What the handlers share: the configuration, the desired autostart state with the permit of its
  signal, and the name and directories that do not change.\<close>

record settings_state =
  ss_config :: config_store
  ss_autostart :: bool
  ss_permit :: bool

record settings_env =
  sv_config :: config_env
  sv_hostname :: string
  sv_config_dir :: string
  sv_data_dir :: string

record settings_response =
  sp_sync_interval_seconds :: nat
  sp_auto_start_sync :: bool
  sp_auto_start_system :: bool
  sp_client_name :: "string option"
  sp_config_dir :: string
  sp_data_dir :: string

record update_settings_request =
  us_sync_interval_seconds :: "nat option"
  us_auto_start_sync :: "bool option"
  us_auto_start_system :: "bool option"
  us_client_name :: "string option"

definition to_settings_response :: "settings_env \<Rightarrow> client_settings \<Rightarrow> settings_response" where
  "to_settings_response env c =
     \<lparr>sp_sync_interval_seconds = set_sync_interval_seconds c, sp_auto_start_sync = set_auto_start_sync c,
      sp_auto_start_system = set_auto_start_system c,
      sp_client_name = or_else (set_client_name c) (Some (sv_hostname env)),
      sp_config_dir = sv_config_dir env, sp_data_dir = sv_data_dir env\<rparr>"

definition get_settings :: "settings_env \<Rightarrow> settings_state \<Rightarrow> settings_response" where
  "get_settings env s = to_settings_response env (cc_settings (config_get (ss_config s)))"

definition apply_settings :: "update_settings_request \<Rightarrow> client_settings \<Rightarrow> client_settings" where
  "apply_settings q c =
     (let c = (case us_sync_interval_seconds q of Some n \<Rightarrow> c\<lparr>set_sync_interval_seconds := n\<rparr> | None \<Rightarrow> c);
          c = (case us_auto_start_sync q of Some b \<Rightarrow> c\<lparr>set_auto_start_sync := b\<rparr> | None \<Rightarrow> c);
          c = (case us_client_name q of
                 Some n \<Rightarrow> c\<lparr>set_client_name := (if n = [] then None else Some n)\<rparr> | None \<Rightarrow> c)
      in case us_auto_start_system q of Some b \<Rightarrow> c\<lparr>set_auto_start_system := b\<rparr> | None \<Rightarrow> c)"

definition settings_closure :: "update_settings_request \<Rightarrow> client_config \<Rightarrow> client_config \<times> unit" where
  "settings_closure q c = (c\<lparr>cc_settings := apply_settings q (cc_settings c)\<rparr>, ())"

definition interval_ok :: "nat \<Rightarrow> bool" where
  "interval_ok n \<longleftrightarrow> \<not> (n < 10 \<or> n > 3600)"

definition update_settings ::
  "settings_env \<Rightarrow> update_settings_request \<Rightarrow> settings_state \<Rightarrow> settings_state \<times> settings_response res" where
  "update_settings env q s =
     (if (case us_sync_interval_seconds q of Some n \<Rightarrow> \<not> interval_ok n | None \<Rightarrow> False)
      then (s, Inl (BadRequest ''sync_interval_seconds must be between 10 and 3600''))
      else case config_update (sv_config env) (settings_closure q) (ss_config s) of
             (c, Inl error) \<Rightarrow> (s\<lparr>ss_config := c\<rparr>, Inl error)
           | (c, Inr _) \<Rightarrow>
               (let s1 = s\<lparr>ss_config := c\<rparr>;
                    s2 = (case us_auto_start_system q of
                            Some b \<Rightarrow> s1\<lparr>ss_autostart := b, ss_permit := True\<rparr> | None \<Rightarrow> s1)
                in (s2, Inr (get_settings env s2))))"

section \<open>Status\<close>

record status_response =
  st_status :: string
  st_version :: string
  st_uptime :: nat
  st_client_id :: "string option"
  st_client_name :: "string option"
  st_config_dir :: "string option"
  st_data_dir :: "string option"

definition status_new :: "string \<Rightarrow> nat \<Rightarrow> status_response" where
  "status_new version uptime =
     \<lparr>st_status = ''running'', st_version = version, st_uptime = uptime, st_client_id = None,
      st_client_name = None, st_config_dir = None, st_data_dir = None\<rparr>"

definition with_identity :: "string \<Rightarrow> string \<Rightarrow> status_response \<Rightarrow> status_response" where
  "with_identity i name r = r\<lparr>st_client_id := Some i, st_client_name := Some name\<rparr>"

text \<open>\<open>get_or_create_identity\<close> has no error to return: a failed write is only logged.\<close>

definition get_status ::
  "settings_env \<Rightarrow> 'e engine \<Rightarrow> string \<Rightarrow> string \<Rightarrow> nat \<Rightarrow> 'e \<Rightarrow> 'e \<times> nat \<times> status_response" where
  "get_status env en version uuid uptime e =
     (case get_or_create_identity en uuid (sv_hostname env) e of
        (e1, i) \<Rightarrow>
          (e1, 200, with_identity (ci_id i) (ci_name i) (status_new version uptime)
             \<lparr>st_config_dir := Some (sv_config_dir env), st_data_dir := Some (sv_data_dir env)\<rparr>))"

section \<open>The system\<close>

text \<open>The file system's answer for a path (whether it is a directory), and the system's opener.\<close>

record open_env =
  oe_metadata :: "string \<Rightarrow> string + bool"
  oe_open :: "string \<Rightarrow> string option"

definition error_json :: "string \<Rightarrow> json" where
  "error_json m = JObj [(''error'', JStr m)]"

definition open_folder :: "open_env \<Rightarrow> string \<Rightarrow> nat \<times> json" where
  "open_folder env path =
     (if \<not> path_is_absolute path then (400, error_json (''path must be absolute; got: '' @ path))
      else case oe_metadata env path of
             Inl error \<Rightarrow>
               (404, error_json (''cannot access path '' @ quoted path @ '': '' @ error))
           | Inr is_dir \<Rightarrow>
               if \<not> is_dir then (400, error_json (''path is not a directory: '' @ path))
               else case oe_open env path of
                      None \<Rightarrow> (200, JObj [(''message'', JStr (''opened '' @ path))])
                    | Some error \<Rightarrow> (500, error_json (''failed to open folder: '' @ error)))"

text \<open>The dialog: its task failed, or the user chose a directory or none.\<close>

definition pick_directory :: "string + string option \<Rightarrow> nat \<times> json" where
  "pick_directory dialog =
     (case dialog of
        Inr (Some path) \<Rightarrow> (200, JObj [(''path'', JStr path)])
      | Inr None \<Rightarrow> (200, JObj [(''path'', JNull)])
      | Inl error \<Rightarrow> (500, error_json (''dialog failed: '' @ error)))"

text \<open>Everyone who waits on the signal at this moment is woken; nothing is kept for later.  The first
  component says who was.\<close>

definition shutdown_route :: "'t list option \<Rightarrow> 't list \<times> nat \<times> json" where
  "shutdown_route signal =
     (case signal of Some waiters \<Rightarrow> waiters | None \<Rightarrow> [], 200,
      JObj [(''message'', JStr ''shutdown initiated'')])"

section \<open>Conflicts\<close>

text \<open>A conflict as the database lists it: its path, and what is only passed on.\<close>

record conflict_version =
  cv_hash :: json
  cv_virtual_time :: json
  cv_node_id :: json
  cv_size :: json
  cv_content_type :: json

record conflict =
  co_path :: string
  co_type :: json
  co_auto_winner :: json
  co_created_at :: json
  co_winner :: conflict_version
  co_loser :: conflict_version

record 'e conflict_store =
  cn_list :: "'e \<Rightarrow> string + conflict list"
  cn_resolve :: "string \<Rightarrow> string \<Rightarrow> 'e \<Rightarrow> 'e \<times> (string + unit)"
  cn_dismiss :: "string \<Rightarrow> 'e \<Rightarrow> 'e \<times> (string + unit)"

definition conflict_version_json :: "conflict_version \<Rightarrow> json" where
  "conflict_version_json v =
     JObj [(''hash'', cv_hash v), (''virtual_time'', cv_virtual_time v), (''node_id'', cv_node_id v),
           (''size'', cv_size v), (''content_type'', cv_content_type v)]"

definition conflict_json :: "conflict \<Rightarrow> json" where
  "conflict_json c =
     JObj [(''path'', JStr (co_path c)), (''conflict_type'', co_type c),
           (''auto_winner'', co_auto_winner c), (''created_at'', co_created_at c),
           (''winner'', conflict_version_json (co_winner c)),
           (''loser'', conflict_version_json (co_loser c))]"

definition list_conflicts :: "'e conflict_store \<Rightarrow> 'e \<Rightarrow> json res" where
  "list_conflicts cn e =
     (case cn_list cn e of
        Inl error \<Rightarrow> Inl (Server error)
      | Inr cs \<Rightarrow> Inr (JArr (map conflict_json cs)))"

definition conflict_error :: "string \<Rightarrow> client_error" where
  "conflict_error msg =
     (if contains msg ''not found'' \<or> contains msg ''No conflict'' then NotFound msg else Server msg)"

definition resolve_conflict_handler ::
  "'e conflict_store \<Rightarrow> string \<Rightarrow> string \<Rightarrow> 'e \<Rightarrow> 'e \<times> json res" where
  "resolve_conflict_handler cn path pick e =
     (if pick \<noteq> ''winner'' \<and> pick \<noteq> ''loser'' then
        (e, Inl (BadRequest (''invalid pick value '' @ quoted pick @ '': must be '' @ quoted ''winner'' @
               '' or '' @ quoted ''loser'')))
      else case cn_resolve cn path pick e of
             (e1, Inl msg) \<Rightarrow> (e1, Inl (conflict_error msg))
           | (e1, Inr _) \<Rightarrow>
               (e1, Inr (JObj [(''resolved'', JBool True), (''path'', JStr path), (''picked'', JStr pick)])))"

definition dismiss_conflict_handler ::
  "'e conflict_store \<Rightarrow> string \<Rightarrow> 'e \<Rightarrow> 'e \<times> json res" where
  "dismiss_conflict_handler cn path e =
     (case cn_dismiss cn path e of
        (e1, Inl msg) \<Rightarrow> (e1, Inl (conflict_error msg))
      | (e1, Inr _) \<Rightarrow> (e1, Inr (JObj [(''dismissed'', JBool True), (''path'', JStr path)])))"

fun dismiss_each :: "'e conflict_store \<Rightarrow> conflict list \<Rightarrow> 'e \<times> nat \<Rightarrow> 'e \<times> nat" where
  "dismiss_each cn [] s = s"
| "dismiss_each cn (c # cs) (e, n) =
     (case cn_dismiss cn (co_path c) e of
        (e1, r) \<Rightarrow> dismiss_each cn cs (e1, if is_ok r then n + 1 else n))"

definition dismiss_all_conflicts :: "'e conflict_store \<Rightarrow> 'e \<Rightarrow> 'e \<times> json res" where
  "dismiss_all_conflicts cn e =
     (case cn_list cn e of
        Inl error \<Rightarrow> (e, Inl (Server error))
      | Inr cs \<Rightarrow>
          (case dismiss_each cn cs (e, 0) of
             (e1, n) \<Rightarrow> (e1, Inr (JObj [(''dismissed_count'', JInt (int n))]))))"

section \<open>Settings stay valid\<close>

lemma apply_settings_interval:
  "set_sync_interval_seconds (apply_settings q c) =
    (case us_sync_interval_seconds q of Some n \<Rightarrow> n | None \<Rightarrow> set_sync_interval_seconds c)"
  "set_auto_start_system (apply_settings q c) =
    (case us_auto_start_system q of Some b \<Rightarrow> b | None \<Rightarrow> set_auto_start_system c)"
  "set_auto_start_sync (apply_settings q c) =
    (case us_auto_start_sync q of Some b \<Rightarrow> b | None \<Rightarrow> set_auto_start_sync c)"
  "set_client_name (apply_settings q c) =
    (case us_client_name q of Some n \<Rightarrow> (if n = [] then None else Some n) | None \<Rightarrow> set_client_name c)"
  by (simp_all add: apply_settings_def Let_def split: option.split)

lemma config_update_memory: "cs_config (fst (config_update e f s)) = fst (f (cs_config s))"
  by (simp add: config_update_def split: prod.split sum.split)

abbreviation settings_of :: "settings_state \<Rightarrow> client_settings" where
  "settings_of s \<equiv> cc_settings (cs_config (ss_config s))"

text \<open>What an update leaves in memory, whether or not it could be saved.\<close>

lemma update_settings_memory:
  "cs_config (ss_config (fst (update_settings env q s))) =
     (if (case us_sync_interval_seconds q of Some n \<Rightarrow> \<not> interval_ok n | None \<Rightarrow> False)
      then cs_config (ss_config s)
      else (cs_config (ss_config s))\<lparr>cc_settings := apply_settings q (settings_of s)\<rparr>)"
proof -
  obtain c r where u: "config_update (sv_config env) (settings_closure q) (ss_config s) = (c, r)" by force
  then have "cs_config c = (cs_config (ss_config s))\<lparr>cc_settings := apply_settings q (settings_of s)\<rparr>"
    using config_update_memory [of "sv_config env" "settings_closure q" "ss_config s"]
    by (simp add: settings_closure_def)
  with u show ?thesis
    by (cases r; cases "us_auto_start_system q") (simp_all add: update_settings_def Let_def)
qed

definition settings_sane :: "settings_state \<Rightarrow> bool" where
  "settings_sane s \<longleftrightarrow> 10 \<le> set_sync_interval_seconds (settings_of s) \<and>
     set_sync_interval_seconds (settings_of s) \<le> 3600 \<and> set_client_name (settings_of s) \<noteq> Some []"

lemma settings_sane_step: "settings_sane s \<Longrightarrow> settings_sane (fst (update_settings env q s))"
  by (auto simp: settings_sane_def update_settings_memory apply_settings_interval interval_ok_def
      split: option.splits)

interpretation settings: handler_machine "\<lambda>(env, q) s. fst (update_settings env q s)" settings_sane
  by unfold_locales (auto simp: settings_sane_step)

text \<open>C37. No sequence of updates, whatever they ask and however often the file cannot be written, takes a
  valid interval out of 10..3600 seconds or stores an empty client name.\<close>

theorem settings_stay_sane:
  assumes "settings_sane s"
  shows "settings_sane (fold (\<lambda>(env, q) s. fst (update_settings env q s)) qs s)"
  using assms by (rule settings.inv_fold)

lemma settings_stay_sane_witness:
  "settings_sane (fold (\<lambda>(env, q) s. fst (update_settings env q s))
     [(\<lparr>sv_config = sample_config_env, sv_hostname = ''h'', sv_config_dir = ''/c'', sv_data_dir = ''/d''\<rparr>,
       \<lparr>us_sync_interval_seconds = Some 5, us_auto_start_sync = None, us_auto_start_system = Some True,
        us_client_name = Some []\<rparr>)]
     \<lparr>ss_config = \<lparr>cs_config = default_config, cs_file = None\<rparr>, ss_autostart = False, ss_permit = False\<rparr>)"
  by (rule settings_stay_sane) code_simp

text \<open>An update that was saved publishes the autostart choice it made: the configuration, the state
  the listener reads and the answer agree on it, and the listener will wake.\<close>

theorem autostart_is_published:
  assumes "update_settings env q s = (s', Inr r)" "us_auto_start_system q = Some b"
  shows "set_auto_start_system (settings_of s') = b \<and> ss_autostart s' = b \<and> ss_permit s' \<and>
    sp_auto_start_system r = b"
proof -
  have "cs_config (ss_config s') = (cs_config (ss_config s))\<lparr>cc_settings := apply_settings q (settings_of s)\<rparr>"
    using update_settings_memory [of env q s] assms by (auto simp: update_settings_def split: if_splits)
  then have c: "set_auto_start_system (settings_of s') = b"
    using assms(2) by (simp add: apply_settings_interval)
  with assms show ?thesis
    by (auto simp: update_settings_def Let_def get_settings_def to_settings_response_def config_get_def
        split: if_splits prod.splits sum.splits)
qed

section \<open>Folders only\<close>

lemma open_folder_ok:
  "fst (open_folder env path) = 200 \<longleftrightarrow>
     path_is_absolute path \<and> oe_metadata env path = Inr True \<and> oe_open env path = None"
  by (simp add: open_folder_def split: sum.split option.split)

section \<open>Dismissing\<close>

lemma dismiss_each_count:
  "snd (dismiss_each cn cs (e, n)) \<le> n + length cs"
proof (induction cs arbitrary: e n)
  case (Cons c cs)
  obtain e1 r where "cn_dismiss cn (co_path c) e = (e1, r)" by force
  with Cons [of e1 n] Cons [of e1 "n + 1"] show ?case by simp
qed simp

end
