(* ===== verification/Server.thy ===== *)
theory Server
  imports Event_Routes Connection_Routes Local_Routes Preferences Update Runner_Control
begin

text \<open>
  \<open>server.rs\<close>: the table of routes, the state the handlers share as it is built at the start, and
  the start itself.  How a path finds its route is the router library's business: \<open>router_ok\<close>
  states what its documentation promises.
\<close>

section \<open>Events and addresses\<close>

definition server_event_new :: "string \<Rightarrow> string \<Rightarrow> server_event" where
  "server_event_new name data = \<lparr>ev_event_name = name, ev_data = data\<rparr>"

record server_config =
  sc_host :: string
  sc_port :: nat
  sc_config_path :: string
  sc_data_path :: string

text \<open>The arguments are the user's configuration and data directories.\<close>

definition default_server_config :: "string option \<Rightarrow> string option \<Rightarrow> server_config" where
  "default_server_config config_dir data_dir =
     \<lparr>sc_host = ''127.0.0.1'', sc_port = 9400, sc_config_path = default_config_path config_dir,
      sc_data_path = default_data_path data_dir\<rparr>"

section \<open>The routes\<close>

type_synonym route = "string \<times> (http_method \<times> string) list"

definition api_routes :: "route list" where
  "api_routes =
   [(''/status'', [(GET, ''get_status'')]),
    (''/connections'',
      [(GET, ''connections::list_connections''), (POST, ''connections::create_connection'')]),
    (''/connections/{id}'',
      [(GET, ''connections::get_connection''),
       (PATCH, ''connections::update_connection''),
       (DELETE, ''connections::delete_connection'')]),
    (''/connections/{id}/test'', [(POST, ''connections::test_connection'')]),
    (''/connections/{id}/browse'', [(GET, ''connections::browse_remote'')]),
    (''/connections/{id}/portal-url'', [(GET, ''connections::portal_url'')]),
    (''/connections/{id}/proxy/{*path}'', [(GET, ''connections::proxy_remote'')]),
    (''/health/connections'', [(GET, ''connections::list_health'')]),
    (''/sync'', [(GET, ''sync::list_relationships''), (POST, ''sync::create_relationship'')]),
    (''/sync/{id}'',
      [(GET, ''sync::get_relationship''),
       (PATCH, ''sync::update_relationship''),
       (DELETE, ''sync::delete_relationship'')]),
    (''/sync/{id}/enable'', [(POST, ''sync::enable_relationship'')]),
    (''/sync/{id}/disable'', [(POST, ''sync::disable_relationship'')]),
    (''/sync/{id}/activity'', [(GET, ''sync::get_sync_activity'')]),
    (''/sync/{id}/file-events'', [(GET, ''events::relationship_file_events'')]),
    (''/sync/{id}/trigger'', [(POST, ''sync::trigger_sync'')]),
    (''/sync/{id}/force-resync'', [(POST, ''sync::force_resync'')]),
    (''/sync/{id}/start'', [(POST, ''sync::start_sync'')]),
    (''/sync/{id}/stop'', [(POST, ''sync::stop_sync'')]),
    (''/sync/runner/status'', [(GET, ''sync::sync_runner_status'')]),
    (''/sync/pause-all'', [(POST, ''sync::pause_all_sync'')]),
    (''/sync/resume-all'', [(POST, ''sync::resume_all_sync'')]),
    (''/conflicts'', [(GET, ''conflicts::list_conflicts'')]),
    (''/conflicts/resolve'', [(POST, ''conflicts::resolve_conflict_handler'')]),
    (''/conflicts/dismiss'', [(POST, ''conflicts::dismiss_conflict_handler'')]),
    (''/conflicts/dismiss-all'', [(POST, ''conflicts::dismiss_all_conflicts'')]),
    (''/browse/{relationship_id}'', [(GET, ''files::browse'')]),
    (''/browse/{relationship_id}/{*path}'', [(GET, ''files::browse'')]),
    (''/search/{relationship_id}'', [(POST, ''files::search'')]),
    (''/browse/{relationship_id}/deleted'', [(GET, ''files::list_deleted'')]),
    (''/files/{relationship_id}/{*path}'',
      [(GET, ''files::serve_file''),
       (PUT, ''files::upload_file''),
       (DELETE, ''files::delete_file'')]),
    (''/files/{relationship_id}/open'', [(POST, ''files::open_locally'')]),
    (''/files/{relationship_id}/rename'', [(POST, ''files::rename_file'')]),
    (''/files/{relationship_id}/restore'', [(POST, ''files::restore_deleted'')]),
    (''/files/{relationship_id}/copy'', [(POST, ''files::copy_files'')]),
    (''/files/{relationship_id}/symlink'', [(POST, ''files::create_symlink'')]),
    (''/versions/{relationship_id}/history/{*path}'', [(GET, ''files::version_history'')]),
    (''/snapshots/{relationship_id}'',
      [(GET, ''files::list_snapshots''), (POST, ''files::create_snapshot'')]),
    (''/snapshots/{relationship_id}/{snapshot_id}/restore'',
      [(POST, ''files::restore_from_snapshot'')]),
    (''/shares/{relationship_id}'',
      [(GET, ''shares::get_shares''), (POST, ''shares::share''), (DELETE, ''shares::unshare'')]),
    (''/shares/{relationship_id}/users'', [(GET, ''shares::get_shareable_users'')]),
    (''/shares/{relationship_id}/groups'', [(GET, ''shares::get_shareable_groups'')]),
    (''/shares/{relationship_id}/link'', [(POST, ''shares::create_share_link'')]),
    (''/shares/{relationship_id}/links'', [(GET, ''shares::get_share_links'')]),
    (''/shares/{relationship_id}/links/{key_id}'', [(DELETE, ''shares::revoke_share_link'')]),
    (''/settings'', [(GET, ''settings::get_settings''), (PATCH, ''settings::update_settings'')]),
    (''/preferences'',
      [(GET, ''preferences_routes::get_preferences''),
       (PATCH, ''preferences_routes::patch_preferences'')]),
    (''/update/status'', [(GET, ''update_routes::update_status'')]),
    (''/update/check'', [(POST, ''update_routes::update_check'')]),
    (''/update/apply'', [(POST, ''update_routes::update_apply'')]),
    (''/open-folder'', [(POST, ''system::open_folder'')]),
    (''/pick-directory'', [(POST, ''system::pick_directory'')]),
    (''/shutdown'', [(POST, ''system::shutdown'')]),
    (''/events'', [(GET, ''events::event_stream'')])]"

text \<open>A pattern is a list of segments: a name, a parameter, or a parameter for the rest of the path.\<close>

datatype seg = Static string | Param | Catch_All

definition seg_of :: "string \<Rightarrow> seg" where
  "seg_of s = (if prefix ''{*'' s then Catch_All else if prefix ''{'' s then Param else Static s)"

definition pattern_of :: "string \<Rightarrow> seg list" where
  "pattern_of p = map seg_of (tl (split_on CHR ''/'' p))"

fun seg_matches :: "seg list \<Rightarrow> string list \<Rightarrow> bool" where
  "seg_matches [] [] = True"
| "seg_matches (Static a # ps) (x # xs) = (a = x \<and> seg_matches ps xs)"
| "seg_matches (Param # ps) (x # xs) = (x \<noteq> [] \<and> seg_matches ps xs)"
| "seg_matches [Catch_All] (x # xs) = (join_with ''/'' (x # xs) \<noteq> [])"
| "seg_matches _ _ = False"

text \<open>At the first place where two patterns differ, a name is more specific than a parameter, and a
  parameter than the rest of the path.\<close>

fun more_specific :: "seg list \<Rightarrow> seg list \<Rightarrow> bool" where
  "more_specific (Static a # p) (Static b # q) = (a = b \<and> more_specific p q)"
| "more_specific (Param # p) (Param # q) = more_specific p q"
| "more_specific (Static a # p) (Param # q) = True"
| "more_specific (Static a # p) (Catch_All # q) = True"
| "more_specific (Param # p) (Catch_All # q) = True"
| "more_specific _ _ = False"

text \<open>The router: the route it finds matches, and no other that matches is more specific; it finds one
  if there is one.\<close>

type_synonym router = "seg list list \<Rightarrow> string list \<Rightarrow> seg list option"

definition best :: "seg list list \<Rightarrow> string list \<Rightarrow> seg list \<Rightarrow> bool" where
  "best patterns path p \<longleftrightarrow>
     seg_matches p path \<and> \<not> list_ex (\<lambda>q. seg_matches q path \<and> more_specific q p) patterns"

definition router_ok :: "router \<Rightarrow> bool" where
  "router_ok find_route \<longleftrightarrow>
     (\<forall>patterns path.
        case find_route patterns path of
          None \<Rightarrow> \<not> list_ex (\<lambda>p. seg_matches p path) patterns
        | Some p \<Rightarrow> p \<in> set patterns \<and> best patterns path p)"

definition api_patterns :: "seg list list" where
  "api_patterns = map (pattern_of \<circ> fst) api_routes"

datatype routed = Handled string | Status_404 | Status_405

text \<open>A request below \<open>/api/v1\<close>: a path without a route is 404, a method without a handler 405.\<close>

definition dispatch :: "router \<Rightarrow> http_method \<Rightarrow> string list \<Rightarrow> routed" where
  "dispatch find_route m path =
     (case find_route api_patterns path of
        None \<Rightarrow> Status_404
      | Some p \<Rightarrow>
          (case find (\<lambda>r. pattern_of (fst r) = p) api_routes of
             None \<Rightarrow> Status_404
           | Some r \<Rightarrow> (case map_of (snd r) m of Some h \<Rightarrow> Handled h | None \<Rightarrow> Status_405)))"

section \<open>Starting\<close>

text \<open>What the handlers share when the server starts.\<close>

record 'e app_state =
  as_store :: 'e
  as_config :: config_store
  as_running :: running_map
  as_tokens :: jwt_cache
  as_health :: health_map
  as_prefs :: prefs_store
  as_update :: update_info
  as_config_dir :: string
  as_data_dir :: string
  as_shutdown :: bool
  as_autostart :: bool
  as_permit :: bool

record ('d, 'e) start_env =
  bt_db :: "('d, 'e) db_system"
  bt_engine :: "'e engine"
  bt_config :: config_env
  bt_prefs :: "string \<Rightarrow> prefs_env"
  bt_update :: update_env
  bt_uuid :: string
  bt_hostname :: string
  bt_now :: int
  bt_http_client :: "string option"

text \<open>The files of the disk the start reads and writes, beside the database.\<close>

record 'd start_disk =
  sk_db :: 'd
  sk_config_file :: "string option"
  sk_prefs_file :: "string option"

definition parent_or_dot :: "string \<Rightarrow> string" where
  "parent_or_dot p = (case path_parent p of Some d \<Rightarrow> d | None \<Rightarrow> ''.'')"

definition create_app_state ::
  "('d, 'e) start_env \<Rightarrow> server_config \<Rightarrow> 'd start_disk \<Rightarrow> 'd start_disk \<times> 'e app_state res" where
  "create_app_state b config k =
     (case open_or_create (bt_db b) (bt_engine b) (sc_data_path config) (bt_now b) (sk_db k) of
        (d, Inl error) \<Rightarrow> (k\<lparr>sk_db := d\<rparr>, Inl error)
      | (d, Inr e) \<Rightarrow>
          (let k1 = k\<lparr>sk_db := d\<rparr>;
               e1 = fst (get_or_create_identity (bt_engine b) (bt_uuid b) (bt_hostname b) e)
           in case config_load ((bt_config b)\<lparr>ce_path := sc_config_path config\<rparr>) (sk_config_file k1) of
                (file, Inl error) \<Rightarrow> (k1\<lparr>sk_config_file := file\<rparr>, Inl error)
              | (file, Inr store) \<Rightarrow>
                  (let k2 = k1\<lparr>sk_config_file := file\<rparr>
                   in case bt_http_client b of
                        Some error \<Rightarrow> (k2, Inl (Server (''failed to create HTTP client: '' @ error)))
                      | None \<Rightarrow>
                          (let config_dir = parent_or_dot (sc_config_path config)
                           in case prefs_load (bt_prefs b config_dir) (sk_prefs_file k2) of
                                Inl error \<Rightarrow> (k2, Inl error)
                              | Inr prefs \<Rightarrow>
                                  (k2, Inr \<lparr>as_store = e1, as_config = store, as_running = [],
                                         as_tokens = jwt_cache_new, as_health = new_health_map,
                                         as_prefs = prefs, as_update = new_update_state (bt_update b),
                                         as_config_dir = config_dir,
                                         as_data_dir = parent_or_dot (sc_data_path config),
                                         as_shutdown = False, as_autostart = False,
                                         as_permit = False\<rparr>)))))"

text \<open>The start binds the address last, after the tasks of the background were spawned; \<open>bind\<close> gives the
  bound address, \<open>local_addr\<close> its text.  Which tasks run is part of the outcome.\<close>

datatype background = Maintenance | Health_Pinger | Url_Upgrade

definition bind_address :: "(string \<Rightarrow> string + 'l) \<Rightarrow> server_config \<Rightarrow> 'l res" where
  "bind_address bind config =
     (let address = sc_host config @ '':'' @ show_nat (sc_port config)
      in map_err (\<lambda>error. Server (''failed to bind to '' @ address @ '': '' @ error)) (bind address))"

definition start_server ::
  "('d, 'e) start_env \<Rightarrow> (string \<Rightarrow> string + 'l) \<Rightarrow> ('l \<Rightarrow> string option) \<Rightarrow> server_config \<Rightarrow> 'd start_disk \<Rightarrow>
     'd start_disk \<times> background list \<times> unit res" where
  "start_server b bind serve config k =
     (case create_app_state b config k of
        (k1, Inl error) \<Rightarrow> (k1, [], Inl error)
      | (k1, Inr _) \<Rightarrow>
          (k1, [Maintenance, Health_Pinger, Url_Upgrade],
           and_then (bind_address bind config) (\<lambda>listener.
             case serve listener of
               None \<Rightarrow> Inr () | Some error \<Rightarrow> Inl (Server (''server error: '' @ error)))))"

definition start_server_with_handle ::
  "('d, 'e) start_env \<Rightarrow> (string \<Rightarrow> string + 'l) \<Rightarrow> ('l \<Rightarrow> string + string) \<Rightarrow> server_config \<Rightarrow>
     'd start_disk \<Rightarrow> 'd start_disk \<times> background list \<times> (string \<times> 'l) res" where
  "start_server_with_handle b bind local_addr config k =
     (case create_app_state b config k of
        (k1, Inl error) \<Rightarrow> (k1, [], Inl error)
      | (k1, Inr _) \<Rightarrow>
          (k1, [Maintenance, Health_Pinger, Url_Upgrade],
           and_then (bind_address bind config) (\<lambda>listener.
             and_then (map_err (\<lambda>error. Server (''failed to get local address: '' @ error))
                         (local_addr listener))
               (\<lambda>bound. Inr (bound, listener)))))"

section \<open>Which handler answers\<close>

lemma match_compare:
  "seg_matches p xs \<Longrightarrow> seg_matches q xs \<Longrightarrow> p \<noteq> q \<Longrightarrow> more_specific p q \<or> more_specific q p"
proof (induction p xs arbitrary: q rule: seg_matches.induct)
  case 1
  then show ?case by (cases q) auto
next
  case (2 a ps x xs)
  show ?case
  proof (cases q)
    case (Cons s q')
    with 2 show ?thesis by (cases s) auto
  qed (use 2 in simp)
next
  case (3 ps x xs)
  show ?case
  proof (cases q)
    case (Cons s q')
    with 3 show ?thesis by (cases s) auto
  qed (use 3 in simp)
next
  case (4 x xs)
  show ?case
  proof (cases q)
    case (Cons s q')
    with 4 show ?thesis by (cases s; cases q') auto
  qed (use 4 in simp)
qed simp_all

lemma more_specific_trans: "more_specific p q \<Longrightarrow> more_specific q r \<Longrightarrow> more_specific p r"
proof (induction p q arbitrary: r rule: more_specific.induct)
  case (1 a p b q)
  then show ?case
  proof (cases r)
    case (Cons s r')
    with 1 show ?thesis by (cases s) auto
  qed simp
next
  case (2 p q)
  then show ?case
  proof (cases r)
    case (Cons s r')
    with 2 show ?thesis by (cases s) auto
  qed simp
next
  case (3 a p q)
  then show ?case
  proof (cases r)
    case (Cons s r')
    with 3 show ?thesis by (cases s) auto
  qed simp
next
  case (4 a p q)
  then show ?case
  proof (cases r)
    case (Cons s r')
    with 4 show ?thesis by (cases s) auto
  qed simp
next
  case (5 p q)
  then show ?case
  proof (cases r)
    case (Cons s r')
    with 5 show ?thesis by (cases s) auto
  qed simp
qed simp_all

lemma more_specific_irrefl [simp]: "\<not> more_specific p p"
proof (induction p)
  case (Cons s p)
  then show ?case by (cases s) auto
qed simp

text \<open>The reference: the first route of the table that matches and that no matching one beats.\<close>

definition reference_router :: router where
  "reference_router patterns path = find (best patterns path) patterns"

lemma most_specific_exists:
  assumes "p \<in> set ps" "seg_matches p xs"
  shows "\<exists>p\<in>set ps. best ps xs p"
proof -
  let ?A = "{p \<in> set ps. seg_matches p xs}"
  have "asymp_on ?A (\<lambda>x y. more_specific y x)" "transp_on ?A (\<lambda>x y. more_specific y x)"
    by (auto intro!: asymp_onI transp_onI dest: more_specific_trans)
  from Finite_Set.bex_max_element [OF _ this] assms obtain m where
    m: "m \<in> ?A" "\<forall>x\<in>?A. x \<noteq> m \<longrightarrow> \<not> more_specific x m" by auto
  then have "\<not> more_specific x m" if "x \<in> ?A" for x using that by (cases "x = m") auto
  with m show ?thesis by (auto simp: best_def list_ex_iff)
qed

lemma reference_router_None: "reference_router ps xs = None \<longleftrightarrow> \<not> list_ex (\<lambda>p. seg_matches p xs) ps"
proof
  assume "reference_router ps xs = None"
  then have "\<not> (\<exists>p\<in>set ps. best ps xs p)" by (auto simp: reference_router_def find_None_iff)
  with most_specific_exists show "\<not> list_ex (\<lambda>p. seg_matches p xs) ps"
    unfolding list_ex_iff by blast
next
  assume "\<not> list_ex (\<lambda>p. seg_matches p xs) ps"
  then show "reference_router ps xs = None"
    by (auto simp: reference_router_def find_None_iff list_ex_iff best_def)
qed

lemma reference_router_Some: "reference_router ps xs = Some p \<Longrightarrow> p \<in> set ps \<and> best ps xs p"
  by (auto simp: reference_router_def find_Some_iff)

lemma reference_router_ok: "router_ok reference_router"
  by (auto simp: router_ok_def reference_router_None reference_router_Some
      dest: reference_router_Some split: option.split)

lemma best_unique: "best ps xs p \<Longrightarrow> best ps xs q \<Longrightarrow> p \<in> set ps \<Longrightarrow> q \<in> set ps \<Longrightarrow> p = q"
  using match_compare [of p xs q] by (auto simp: best_def list_ex_iff)

lemma router_unique:
  assumes "router_ok f"
  shows "f ps xs = reference_router ps xs"
proof -
  have f: "case f ps xs of None \<Rightarrow> \<not> list_ex (\<lambda>p. seg_matches p xs) ps
      | Some p \<Rightarrow> p \<in> set ps \<and> best ps xs p"
    using assms by (simp only: router_ok_def)
  show ?thesis
  proof (cases "f ps xs")
    case None
    with f reference_router_None [of ps xs] show ?thesis by simp
  next
    case (Some p)
    with f have p: "p \<in> set ps" "best ps xs p" by simp_all
    then have "reference_router ps xs \<noteq> None"
      by (auto simp: reference_router_None list_ex_iff best_def)
    then obtain q where q: "reference_router ps xs = Some q" by auto
    with p reference_router_Some [OF q] Some show ?thesis using best_unique by auto
  qed
qed

lemma api_patterns_distinct: "distinct api_patterns"
  by code_simp

lemma dispatch_reference: "router_ok f \<Longrightarrow> dispatch f m path = dispatch reference_router m path"
  by (simp add: dispatch_def router_unique)



section \<open>Files with the name of an operation\<close>

lemma best_dispatch:
  assumes f: "router_ok f" and p: "p \<in> set api_patterns" "best api_patterns path p"
  shows "f api_patterns path = Some p"
proof -
  have "reference_router api_patterns path \<noteq> None"
    using p by (auto simp: reference_router_None list_ex_iff best_def)
  then obtain q where q: "reference_router api_patterns path = Some q" by auto
  with reference_router_Some [OF q] p best_unique have "q = p" by blast
  with q f show ?thesis by (simp add: router_unique)
qed

text \<open>A file called \<open>open\<close> at the root of a relationship cannot be read, written or deleted: its path is
  the route of the operation, which knows only POST.\<close>

lemma file_named_open_is_unreachable:
  assumes "router_ok f" "i \<noteq> []" "m \<noteq> POST"
  shows "dispatch f m [''files'', i, ''open''] = Status_405"
proof -
  let ?p = "[Static ''files'', Param, Static ''open'']"
  have mem: "?p \<in> set api_patterns" by code_simp
  have pats: "api_patterns = map (pattern_of \<circ> fst) api_routes" by (simp add: api_patterns_def)
  have "best api_patterns [''files'', i, ''open''] ?p"
  proof -
    have "\<not> more_specific q ?p" if "q \<in> set api_patterns" for q
    proof -
      have "list_all (\<lambda>q. \<not> more_specific q ?p) api_patterns" by code_simp
      with that show ?thesis by (simp add: list_all_iff)
    qed
    with assms(2) show ?thesis by (auto simp: best_def list_ex_iff)
  qed
  from best_dispatch [OF assms(1) mem this]
  have r: "f api_patterns [''files'', i, ''open''] = Some ?p" .
  have "find (\<lambda>r. pattern_of (fst r) = ?p) api_routes =
      Some (''/files/{relationship_id}/open'', [(POST, ''files::open_locally'')])" by code_simp
  with r assms(3) show ?thesis by (auto simp: dispatch_def)
qed

end
