(* ===== verification/Cli.thy ===== *)
theory Cli
  imports Sync_Routes
begin

text \<open>
  The commands of \<open>cli/\<close>: each sends requests to a running client and prints.  The state is the
  world the requests act on and what was printed so far; a command that fails keeps both.
\<close>

section \<open>Requests and output\<close>

text \<open>A request and its answer, an error text or a status with a body (or why it is not JSON); the
  display of a status; and \<open>serde_json::to_string_pretty\<close>.\<close>

record 'w cli_env =
  li_send :: "http_method \<Rightarrow> string \<Rightarrow> json option \<Rightarrow> 'w \<Rightarrow> 'w \<times> (string + nat \<times> (string + json))"
  li_status :: "nat \<Rightarrow> string"
  li_pretty :: "json \<Rightarrow> string"

type_synonym 'w cli = "'w \<times> string"

definition newline :: string where "newline = [CHR 0x0A]"

definition dash :: string where "dash = '' '' @ [CHR 0xE2, CHR 0x80, CHR 0x94] @ '' ''"

definition out :: "string \<Rightarrow> 'w cli \<Rightarrow> 'w cli" where
  "out s c = (fst c, snd c @ s)"

definition println :: "string \<Rightarrow> 'w cli \<Rightarrow> 'w cli" where
  "println s c = out (s @ newline) c"

text \<open>\<open>value[key]\<close> and the text found there.\<close>

definition str_at :: "string \<Rightarrow> json \<Rightarrow> string \<Rightarrow> string" where
  "str_at d v k = (case Option.bind (jget v k) as_str of Some s \<Rightarrow> s | None \<Rightarrow> d)"

definition u64_at :: "json \<Rightarrow> string \<Rightarrow> nat" where
  "u64_at v k = (case Option.bind (jget v k) as_u64 of Some n \<Rightarrow> n | None \<Rightarrow> 0)"

definition bool_at :: "bool \<Rightarrow> json \<Rightarrow> string \<Rightarrow> bool" where
  "bool_at d v k = (case Option.bind (jget v k) as_bool of Some b \<Rightarrow> b | None \<Rightarrow> d)"

definition array_of :: "json \<Rightarrow> json list" where
  "array_of v = (case as_array v of Some xs \<Rightarrow> xs | None \<Rightarrow> [])"

text \<open>The error of an answer whose status is not a success.\<close>

definition api_error :: "'w cli_env \<Rightarrow> nat \<Rightarrow> string + json \<Rightarrow> string" where
  "api_error env status body =
     ''HTTP '' @ li_status env status @ dash @
     str_at ''unknown error'' (case body of Inr j \<Rightarrow> j | Inl _ \<Rightarrow> JNull) ''error''"

definition api_answer :: "'w cli_env \<Rightarrow> string + nat \<times> (string + json) \<Rightarrow> string + (string + json)" where
  "api_answer env r =
     (case r of
        Inl error \<Rightarrow> Inl error
      | Inr (status, body) \<Rightarrow>
          if is_success status then Inr body else Inl (api_error env status body))"

definition api_get :: "'w cli_env \<Rightarrow> string \<Rightarrow> string \<Rightarrow> 'w cli \<Rightarrow> 'w cli \<times> (string + json)" where
  "api_get env host path c =
     (case li_send env GET (host @ path) None (fst c) of
        (w, r) \<Rightarrow> ((w, snd c), and_then (api_answer env r) (\<lambda>body. body)))"

definition api_post :: "'w cli_env \<Rightarrow> string \<Rightarrow> string \<Rightarrow> json \<Rightarrow> 'w cli \<Rightarrow> 'w cli \<times> (string + json)" where
  "api_post env host path body c =
     (case li_send env POST (host @ path) (Some body) (fst c) of
        (w, r) \<Rightarrow> ((w, snd c), and_then (api_answer env r) (\<lambda>body. body)))"

definition api_delete :: "'w cli_env \<Rightarrow> string \<Rightarrow> string \<Rightarrow> 'w cli \<Rightarrow> 'w cli \<times> (string + unit)" where
  "api_delete env host path c =
     (case li_send env DELETE (host @ path) None (fst c) of
        (w, r) \<Rightarrow> ((w, snd c), and_then (api_answer env r) (\<lambda>_. Inr ())))"

definition print_output ::
  "'w cli_env \<Rightarrow> bool \<Rightarrow> json \<Rightarrow> ('w cli \<Rightarrow> 'w cli) \<Rightarrow> 'w cli \<Rightarrow> 'w cli" where
  "print_output env json_mode v formatter c =
     (if json_mode then println (li_pretty env v) c else formatter c)"

text \<open>A left-aligned column: padded to a number of characters, not of bytes.\<close>

definition char_count :: "string \<Rightarrow> nat" where
  "char_count s = length (filter (\<lambda>c. \<not> (128 \<le> byte c \<and> byte c < 192)) s)"

definition column :: "nat \<Rightarrow> string \<Rightarrow> string" where
  "column n s = s @ replicate (n - char_count s) CHR '' ''"

section \<open>Status\<close>

definition status_run :: "'w cli_env \<Rightarrow> string \<Rightarrow> bool \<Rightarrow> 'w cli \<Rightarrow> 'w cli \<times> (string + unit)" where
  "status_run env host json_mode c =
     then_st (api_get env host ''/api/v1/status'' c) (\<lambda>c v.
       (print_output env json_mode v
          (println (''Client Name: '' @ str_at ''unknown'' v ''client_name'') \<circ>
           println (''Client ID:   '' @ str_at ''unknown'' v ''client_id'') \<circ>
           println (''Uptime:      '' @ show_nat (u64_at v ''uptime'') @ ''s'') \<circ>
           println (''Version:     '' @ str_at ''unknown'' v ''version'') \<circ>
           println (''Status:      '' @ str_at ''unknown'' v ''status'')) c, Inr ()))"

section \<open>Connections\<close>

definition connection_row :: "json \<Rightarrow> string" where
  "connection_row v =
     column 38 (str_at [] v ''id'') @ '' '' @ column 20 (str_at [] v ''name'') @ '' '' @
     column 40 (str_at [] v ''url'') @ '' '' @ str_at ''none'' v ''auth_type''"

definition connections_list :: "'w cli_env \<Rightarrow> string \<Rightarrow> bool \<Rightarrow> 'w cli \<Rightarrow> 'w cli \<times> (string + unit)" where
  "connections_list env host json_mode c =
     then_st (api_get env host ''/api/v1/connections'' c) (\<lambda>c v.
       (print_output env json_mode v (\<lambda>c.
          if array_of v = [] then println ''No connections configured.'' c
          else fold (println \<circ> connection_row) (array_of v)
                 (println (replicate 105 CHR ''-'')
                   (println (column 38 ''ID'' @ '' '' @ column 20 ''NAME'' @ '' '' @ column 40 ''URL'' @
                             '' '' @ ''AUTH'') c))) c, Inr ()))"

definition opt_str :: "string option \<Rightarrow> json" where
  "opt_str x = (case x of Some s \<Rightarrow> JStr s | None \<Rightarrow> JNull)"

definition connections_add ::
  "'w cli_env \<Rightarrow> string \<Rightarrow> bool \<Rightarrow> string \<Rightarrow> string \<Rightarrow> string option \<Rightarrow> 'w cli \<Rightarrow> 'w cli \<times> (string + unit)" where
  "connections_add env host json_mode name url api_key c =
     (let auth_type = (if api_key \<noteq> None then ''api_key'' else ''none'');
          body = JObj [(''name'', JStr name), (''url'', JStr url), (''auth_type'', JStr auth_type),
                       (''api_key'', opt_str api_key)]
      in then_st (api_post env host ''/api/v1/connections'' body c) (\<lambda>c v.
           (print_output env json_mode v
              (println (''  URL:  '' @ str_at [] v ''url'') \<circ> println (''  Name: '' @ str_at [] v ''name'') \<circ>
               println (''  ID:   '' @ str_at [] v ''id'') \<circ> println ''Created connection:'') c, Inr ())))"

definition connections_remove :: "'w cli_env \<Rightarrow> string \<Rightarrow> string \<Rightarrow> 'w cli \<Rightarrow> 'w cli \<times> (string + unit)" where
  "connections_remove env host i c =
     then_st (api_delete env host (''/api/v1/connections/'' @ i) c) (\<lambda>c _.
       (println (''Connection '' @ i @ '' deleted.'') c, Inr ()))"

definition connections_test ::
  "'w cli_env \<Rightarrow> string \<Rightarrow> bool \<Rightarrow> string \<Rightarrow> 'w cli \<Rightarrow> 'w cli \<times> (string + unit)" where
  "connections_test env host json_mode i c =
     then_st (api_post env host (''/api/v1/connections/'' @ i @ ''/test'') (JObj []) c) (\<lambda>c v.
       (print_output env json_mode v
          (println
             (let message = str_at ''unknown'' v ''message''
              in if bool_at False v ''success'' then
                   ''OK'' @ dash @ message @
                   (case Option.bind (jget v ''latency_ms'') as_u64 of
                      Some latency \<Rightarrow> '' ('' @ show_nat latency @ ''ms)'' | None \<Rightarrow> [])
                 else ''FAILED'' @ dash @ message)) c, Inr ()))"

section \<open>Syncs\<close>

definition sync_row :: "json \<Rightarrow> string" where
  "sync_row v =
     column 38 (str_at [] v ''id'') @ '' '' @ column 15 (str_at [] v ''name'') @ '' '' @
     column 20 (str_at [] v ''remote_path'') @ '' '' @ column 12 (str_at [] v ''direction'') @ '' '' @
     (if bool_at False v ''enabled'' then ''yes'' else ''no'')"

definition sync_list :: "'w cli_env \<Rightarrow> string \<Rightarrow> bool \<Rightarrow> 'w cli \<Rightarrow> 'w cli \<times> (string + unit)" where
  "sync_list env host json_mode c =
     then_st (api_get env host ''/api/v1/sync'' c) (\<lambda>c v.
       (print_output env json_mode v (\<lambda>c.
          if array_of v = [] then println ''No sync relationships configured.'' c
          else fold (println \<circ> sync_row) (array_of v)
                 (println (replicate 100 CHR ''-'')
                   (println (column 38 ''ID'' @ '' '' @ column 15 ''NAME'' @ '' '' @
                             column 20 ''REMOTE PATH'' @ '' '' @ column 12 ''DIRECTION'' @ '' '' @
                             ''ENABLED'') c))) c, Inr ()))"

definition direction_value :: "string \<Rightarrow> string + string" where
  "direction_value d =
     (if d = ''bidirectional'' \<or> d = ''bi'' then Inr ''bidirectional''
      else if d = ''pull-only'' \<or> d = ''pull'' then Inr ''pull_only''
      else if d = ''push-only'' \<or> d = ''push'' then Inr ''push_only''
      else Inl (''invalid direction '' @ quoted d @ dash @ ''use bidirectional, pull-only, or push-only''))"

definition sync_add ::
  "'w cli_env \<Rightarrow> string \<Rightarrow> bool \<Rightarrow> string \<Rightarrow> string \<Rightarrow> string \<Rightarrow> string \<Rightarrow> string \<Rightarrow> string option \<Rightarrow>
     'w cli \<Rightarrow> 'w cli \<times> (string + unit)" where
  "sync_add env host json_mode name connection_id remote_path local_path direction filter' c =
     then_st (c, direction_value direction) (\<lambda>c d.
       let body = JObj [(''name'', JStr name), (''remote_connection_id'', JStr connection_id),
                        (''remote_path'', JStr remote_path), (''local_path'', JStr local_path),
                        (''direction'', JStr d), (''filter'', opt_str filter')]
       in then_st (api_post env host ''/api/v1/sync'' body c) (\<lambda>c v.
            (print_output env json_mode v
               (println (''  Direction:   '' @ str_at [] v ''direction'') \<circ>
                println (''  Local:       '' @ str_at [] v ''local_path'') \<circ>
                println (''  Remote:      '' @ str_at [] v ''remote_path'') \<circ>
                println (''  Name:        '' @ str_at [] v ''name'') \<circ>
                println (''  ID:          '' @ str_at [] v ''id'') \<circ>
                println ''Created sync relationship:'') c, Inr ())))"

definition sync_remove :: "'w cli_env \<Rightarrow> string \<Rightarrow> string \<Rightarrow> 'w cli \<Rightarrow> 'w cli \<times> (string + unit)" where
  "sync_remove env host i c =
     then_st (api_delete env host (''/api/v1/sync/'' @ i) c) (\<lambda>c _.
       (println (''Sync relationship '' @ i @ '' deleted.'') c, Inr ()))"

definition sync_status_command ::
  "'w cli_env \<Rightarrow> string \<Rightarrow> bool \<Rightarrow> string option \<Rightarrow> 'w cli \<Rightarrow> 'w cli \<times> (string + unit)" where
  "sync_status_command env host json_mode i c =
     (case i of
        None \<Rightarrow> sync_list env host json_mode c
      | Some i \<Rightarrow>
          then_st (api_get env host (''/api/v1/sync/'' @ i) c) (\<lambda>c v.
            (print_output env json_mode v
               ((case Option.bind (jget v ''filter'') as_str of
                   Some f \<Rightarrow> println (''  Filter:    '' @ f) | None \<Rightarrow> id) \<circ>
                println (''  Enabled:   '' @ (if bool_at False v ''enabled'' then ''true'' else ''false'')) \<circ>
                println (''  Direction: '' @ str_at [] v ''direction'') \<circ>
                println (''  Local:     '' @ str_at [] v ''local_path'') \<circ>
                println (''  Remote:    '' @ str_at [] v ''remote_path'') \<circ>
                println (''  ID:        '' @ str_at [] v ''id'') \<circ>
                println (''Sync Relationship: '' @ str_at ''unknown'' v ''name'')) c, Inr ())))"

definition trigger_report :: "json \<Rightarrow> 'w cli \<Rightarrow> 'w cli" where
  "trigger_report v =
     (case Option.bind (jget v ''errors'') as_array of
        Some (e # es) \<Rightarrow>
          fold (\<lambda>e. println (''    - '' @ (case as_str e of Some m \<Rightarrow> m | None \<Rightarrow> ''unknown''))) (e # es) \<circ>
          println ''  Errors:''
      | _ \<Rightarrow> id) \<circ>
     println (''  Duration:   '' @ show_nat (u64_at v ''duration_ms'') @ ''ms'') \<circ>
     println (''  Failed:     '' @ show_nat (u64_at v ''files_failed'') @ '' files'') \<circ>
     println (''  Skipped:    '' @ show_nat (u64_at v ''files_skipped'') @ '' files (unchanged)'') \<circ>
     println (''  Downloaded: '' @ show_nat (u64_at v ''files_downloaded'') @ '' files ('' @
              show_nat (u64_at v ''total_bytes'') @ '' bytes)'') \<circ>
     println ''Sync complete:''"

definition sync_trigger ::
  "'w cli_env \<Rightarrow> string \<Rightarrow> bool \<Rightarrow> string \<Rightarrow> 'w cli \<Rightarrow> 'w cli \<times> (string + unit)" where
  "sync_trigger env host json_mode i c =
     then_st (api_post env host (''/api/v1/sync/'' @ i @ ''/trigger'') (JObj [])
                (println (''Triggering sync for '' @ i @ ''...'') c))
       (\<lambda>c v. (print_output env json_mode v (trigger_report v) c, Inr ()))"

definition switch_path :: "string \<Rightarrow> string \<Rightarrow> string" where
  "switch_path i operation = ''/api/v1/sync/'' @ i @ ''/'' @ operation"

text \<open>The loops of \<open>pause\<close> and \<open>resume\<close> over all relationships: one request for each whose switch has to
  change; the first failure ends the command.\<close>

fun switch_all ::
  "'w cli_env \<Rightarrow> string \<Rightarrow> (json \<Rightarrow> bool) \<Rightarrow> string \<Rightarrow> string \<Rightarrow> json list \<Rightarrow> 'w cli \<Rightarrow>
     'w cli \<times> (string + unit)" where
  "switch_all env host wanted operation done_text [] c = (c, Inr ())"
| "switch_all env host wanted operation done_text (v # vs) c =
     (case Option.bind (jget v ''id'') as_str of
        None \<Rightarrow> switch_all env host wanted operation done_text vs c
      | Some i \<Rightarrow>
          if wanted v then
            then_st (api_post env host (switch_path i operation) (JObj []) c) (\<lambda>c _.
              switch_all env host wanted operation done_text vs
                (println (done_text @ str_at i v ''name'') c))
          else switch_all env host wanted operation done_text vs c)"

definition sync_pause :: "'w cli_env \<Rightarrow> string \<Rightarrow> string option \<Rightarrow> 'w cli \<Rightarrow> 'w cli \<times> (string + unit)" where
  "sync_pause env host i c =
     (case i of
        Some i \<Rightarrow>
          then_st (api_post env host (switch_path i ''disable'') (JObj []) c) (\<lambda>c _.
            (println (''Sync '' @ i @ '' paused.'') c, Inr ()))
      | None \<Rightarrow>
          then_st (api_get env host ''/api/v1/sync'' c) (\<lambda>c v.
            switch_all env host (\<lambda>v. bool_at False v ''enabled'') ''disable'' ''Paused: '' (array_of v) c))"

definition sync_resume :: "'w cli_env \<Rightarrow> string \<Rightarrow> string option \<Rightarrow> 'w cli \<Rightarrow> 'w cli \<times> (string + unit)" where
  "sync_resume env host i c =
     (case i of
        Some i \<Rightarrow>
          then_st (api_post env host (switch_path i ''enable'') (JObj []) c) (\<lambda>c _.
            (println (''Sync '' @ i @ '' resumed.'') c, Inr ()))
      | None \<Rightarrow>
          then_st (api_get env host ''/api/v1/sync'' c) (\<lambda>c v.
            switch_all env host (\<lambda>v. \<not> bool_at True v ''enabled'') ''enable'' ''Resumed: '' (array_of v) c))"

end
