(* ===== verification/Cli_Spec.thy ===== *)
theory Cli_Spec
  imports Cli Sync_Routes_Spec
begin

text \<open>
  The commands of theory Cli against a running client whose handlers are those of theory
  Sync_Routes: pausing everything leaves no relationship enabled.  And what \<open>sync trigger\<close> prints
  of the answer the client gives.
\<close>

section \<open>A running client\<close>

definition direction_json :: "sync_direction \<Rightarrow> json" where
  "direction_json d =
     JStr (case d of Bidirectional \<Rightarrow> ''bidirectional'' | PullOnly \<Rightarrow> ''pull_only''
                   | PushOnly \<Rightarrow> ''push_only'')"

text \<open>\<open>time\<close> writes a time stamp.\<close>

definition relationship_json :: "(timestamp \<Rightarrow> string) \<Rightarrow> sync_relationship \<Rightarrow> json" where
  "relationship_json time r =
     JObj [(''id'', JStr (sr_id r)), (''name'', JStr (sr_name r)),
           (''remote_connection_id'', JStr (sr_remote_connection_id r)),
           (''remote_path'', JStr (sr_remote_path r)), (''local_path'', JStr (sr_local_path r)),
           (''direction'', direction_json (sr_direction r)), (''filter'', opt_str (sr_filter r)),
           (''delete_propagation'',
             JObj [(''local_to_remote'', JBool (dp_local_to_remote (sr_delete_propagation r))),
                   (''remote_to_local'', JBool (dp_remote_to_local (sr_delete_propagation r)))]),
           (''enabled'', JBool (sr_enabled r)), (''created_at'', JStr (time (sr_created_at r))),
           (''updated_at'', JStr (time (sr_updated_at r)))]"

definition error_response :: "client_error \<Rightarrow> nat \<times> (string + json)" where
  "error_response e =
     (case into_response e of
        (status, body) \<Rightarrow>
          (status, Inr (JObj [(''error'', JStr (eb_error body)), (''category'', JStr (eb_category body))])))"

text \<open>The requests the pause command makes, answered by the handlers; any other is not found.\<close>

definition daemon_send ::
  "('w, 'e) app_env \<Rightarrow> (timestamp \<Rightarrow> string) \<Rightarrow> string \<Rightarrow> http_method \<Rightarrow> string \<Rightarrow> json option \<Rightarrow>
     ('w, 'e) app \<Rightarrow> ('w, 'e) app \<times> (string + nat \<times> (string + json))" where
  "daemon_send env time host m url body a =
     (if m = GET \<and> url = host @ ''/api/v1/sync'' then
        (a, Inr (200, Inr (JArr (map (relationship_json time) (list_relationships a)))))
      else case strip_prefix url (host @ ''/api/v1/sync/'') of
             Some rest \<Rightarrow>
               if m = POST \<and> ends_with rest ''/disable'' then
                 (case disable_relationship env (take (length rest - 8) rest) a of
                    (a1, Inr r) \<Rightarrow> (a1, Inr (200, Inr (relationship_json time r)))
                  | (a1, Inl e) \<Rightarrow> (a1, Inr (error_response e)))
               else (a, Inr (404, Inl ''''))
           | None \<Rightarrow> (a, Inr (404, Inl '''')))"

definition daemon_cli ::
  "('w, 'e) app_env \<Rightarrow> (timestamp \<Rightarrow> string) \<Rightarrow> string \<Rightarrow> ('w, 'e) app cli_env" where
  "daemon_cli env time host =
     \<lparr>li_send = daemon_send env time host, li_status = show_nat, li_pretty = (\<lambda>j. [])\<rparr>"

section \<open>Switching off\<close>

abbreviation rels_of :: "('w, 'e) app \<Rightarrow> sync_relationship list" where
  "rels_of a \<equiv> cc_relationships (cs_config (ap_config a))"

definition switches :: "('w, 'e) app \<Rightarrow> (string \<times> bool) list" where
  "switches a = map (\<lambda>r. (sr_id r, sr_enabled r)) (rels_of a)"

lemma apply_disable [simp]:
  "sr_id (apply_relationship_update now (enabled_request b) r) = sr_id r"
  "sr_enabled (apply_relationship_update now (enabled_request b) r) = b"
  by (simp_all add: apply_relationship_update_def enabled_request_def)

lemma update_first_switches:
  "distinct (map sr_id rs) \<Longrightarrow>
    map (\<lambda>r. (sr_id r, sr_enabled r))
      (fst (update_first (\<lambda>x. sr_id x = i) (apply_relationship_update now (enabled_request False)) rs)) =
    map (\<lambda>r. (sr_id r, sr_enabled r \<and> sr_id r \<noteq> i)) rs"
proof (induction rs)
  case (Cons r rs)
  show ?case
  proof (cases "sr_id r = i")
    case True
    with Cons.prems have "\<forall>x\<in>set rs. sr_id x \<noteq> i" by (auto simp: image_iff)
    with True show ?thesis by simp
  next
    case False
    obtain ys x where "update_first (\<lambda>x. sr_id x = i)
        (apply_relationship_update now (enabled_request False)) rs = (ys, x)" by force
    with Cons False show ?thesis by simp
  qed
qed simp

lemma rels_of_put_config [simp]: "rels_of (put_config s a) = cc_relationships (cs_config s)"
  by (simp add: put_config_def)

lemma rels_of_try_stop [simp]: "rels_of (try_stop i a) = rels_of a"
  by (simp add: try_stop_def)

lemma disable_switches:
  assumes "distinct (map sr_id (rels_of a))" "disable_relationship env i a = (a1, r)"
  shows "switches a1 = map (\<lambda>(k, b). (k, b \<and> k \<noteq> i)) (switches a)"
proof -
  let ?f = "relationship_update_closure (av_now env) i (enabled_request False)"
  obtain s r1 where u: "config_update (av_config env) ?f (ap_config a) = (s, r1)" by force
  have "cs_config s = fst (?f (cs_config (ap_config a)))"
    using u by (auto simp: config_update_def split: prod.splits sum.splits)
  then have "map (\<lambda>r. (sr_id r, sr_enabled r)) (cc_relationships (cs_config s)) =
      map (\<lambda>(k, b). (k, b \<and> k \<noteq> i)) (switches a)"
    using update_first_switches [OF assms(1), of i "av_now env"]
    by (simp add: relationship_update_closure_def switches_def split: prod.splits)
  moreover have "rels_of a1 = cc_relationships (cs_config s)"
    using assms(2) u
    by (auto simp: disable_relationship_def relationship_disable_def relationship_update_def
        split: prod.splits sum.splits option.splits)
  ultimately show ?thesis by (simp add: switches_def)
qed

lemma switches_ids: "map fst (switches a) = map sr_id (rels_of a)"
  by (simp add: switches_def)

lemma daemon_disable:
  "daemon_send env time host POST (host @ switch_path i ''disable'') body a =
    (case disable_relationship env i a of
       (a1, Inr r) \<Rightarrow> (a1, Inr (200, Inr (relationship_json time r)))
     | (a1, Inl e) \<Rightarrow> (a1, Inr (error_response e)))"
  proof -
  have "strip_prefix (host @ switch_path i ''disable'') (host @ ''/api/v1/sync/'') = Some (i @ ''/disable'')"
    by (simp add: strip_prefix_Some_iff switch_path_def)
  moreover have "suffix ''/disable'' (i @ ''/disable'')" by (rule suffixI) (rule refl)
  ultimately show ?thesis by (simp add: daemon_send_def)
qed

lemma api_post_disable:
  assumes "api_post (daemon_cli env time host) host (switch_path i ''disable'') body (a, o1) =
      ((a1, o2), r)" "distinct (map sr_id (rels_of a))"
  shows "switches a1 = map (\<lambda>(k, b). (k, b \<and> k \<noteq> i)) (switches a)"
proof -
  obtain a2 r2 where d: "disable_relationship env i a = (a2, r2)" by force
  with assms(1) have "a1 = a2"
    by (cases r2) (auto simp: api_post_def daemon_cli_def daemon_disable)
  with disable_switches [OF assms(2) d] show ?thesis by simp
qed

lemma switches_distinct:
  "switches a1 = map (\<lambda>(k, b). (k, b \<and> Q k)) (switches a) \<Longrightarrow>
    map sr_id (rels_of a1) = map sr_id (rels_of a)"
  using switches_ids [of a1] switches_ids [of a] by (simp add: comp_def case_prod_unfold)

lemma relationship_json_fields [simp]:
  "jget (relationship_json time r) ''id'' = Some (JStr (sr_id r))"
  "jget (relationship_json time r) ''name'' = Some (JStr (sr_name r))"
  "jget (relationship_json time r) ''enabled'' = Some (JBool (sr_enabled r))"
  by (simp_all add: relationship_json_def jget_def)

lemma switch_all_pauses:
  "switch_all (daemon_cli env time host) host (\<lambda>v. bool_at False v ''enabled'') ''disable'' t
      (map (relationship_json time) rs) (a, o1) = ((a', o2), Inr ()) \<Longrightarrow>
    distinct (map sr_id (rels_of a)) \<Longrightarrow>
    switches a' = map (\<lambda>(k, b). (k, b \<and> k \<notin> sr_id ` set (filter sr_enabled rs))) (switches a)"
proof (induction rs arbitrary: a o1)
  case Nil
  then show ?case by (simp add: case_prod_unfold)
next
  case (Cons r rs)
  show ?case
  proof (cases "sr_enabled r")
    case False
    with Cons show ?thesis by (simp add: as_str_def bool_at_def as_bool_def)
  next
    case True
    obtain a1 o3 r1 where post: "api_post (daemon_cli env time host) host
        (switch_path (sr_id r) ''disable'') (JObj []) (a, o1) = ((a1, o3), r1)"
      by (metis surj_pair)
    note one = api_post_disable [OF post Cons.prems(2)]
    have d: "distinct (map sr_id (rels_of a1))" using switches_distinct [OF one] Cons.prems(2) by simp
    obtain v where r1: "r1 = Inr v"
      using Cons.prems(1) True post by (cases r1) (simp_all add: as_str_def bool_at_def as_bool_def then_st_def)
    from Cons.prems(1) True post r1 obtain o4 where
      "switch_all (daemon_cli env time host) host (\<lambda>v. bool_at False v ''enabled'') ''disable'' t
        (map (relationship_json time) rs) (a1, o4) = ((a', o2), Inr ())"
      by (simp add: as_str_def bool_at_def as_bool_def then_st_def println_def out_def)
    from Cons.IH [OF this d] one True show ?thesis by (auto simp: case_prod_unfold)
  qed
qed

text \<open>C39. The command \<open>sync pause\<close> without an argument, when it reports success, leaves no relationship of the
  running client enabled, whatever was enabled before: it asks for the list, and disables each
  enabled one through the handler of the local API.\<close>

theorem pause_all_disables_all:
  assumes ids: "distinct (map sr_id (rels_of a))"
    and run: "sync_pause (daemon_cli env time host) host None (a, printed) = ((a', printed'), Inr ())"
  shows "filter sr_enabled (list_relationships a') = []"
proof -
  have "api_get (daemon_cli env time host) host ''/api/v1/sync'' (a, printed) =
      ((a, printed), Inr (JArr (map (relationship_json time) (list_relationships a))))"
    by (simp add: api_get_def daemon_cli_def daemon_send_def api_answer_def is_success_def and_then_def)
  with run have "switch_all (daemon_cli env time host) host (\<lambda>v. bool_at False v ''enabled'') ''disable''
      ''Paused: '' (map (relationship_json time) (list_relationships a)) (a, printed) = ((a', printed'), Inr ())"
    by (simp add: sync_pause_def then_st_def array_of_def as_array_def)
  from switch_all_pauses [OF this ids]
  have s: "switches a' = map (\<lambda>(k, b). (k, b \<and> k \<notin> sr_id ` set (filter sr_enabled (rels_of a)))) (switches a)"
    by (simp add: list_relationships_def relationship_list_def config_get_def)
  have "\<not> sr_enabled r" if "r \<in> set (rels_of a')" for r
  proof
    assume "sr_enabled r"
    with that have "(sr_id r, True) \<in> set (switches a')" by (auto simp: switches_def image_iff)
    with s obtain r' where "r' \<in> set (rels_of a)" "sr_enabled r'" "sr_id r' = sr_id r"
      "sr_id r \<notin> sr_id ` set (filter sr_enabled (rels_of a))" by (auto simp: switches_def)
    then show False by (auto simp: image_iff)
  qed
  then show ?thesis
    by (simp add: list_relationships_def relationship_list_def config_get_def filter_empty_conv)
qed

lemma pause_all_disables_all_witness:
  "map sr_enabled (list_relationships docs_app) = [True] \<and>
   (\<exists>a' printed. sync_pause (daemon_cli docs_env show_int ''http://h'') ''http://h'' None (docs_app, []) =
      ((a', printed), Inr ()) \<and> filter sr_enabled (list_relationships a') = [])"
proof
  let ?run = "sync_pause (daemon_cli docs_env show_int ''http://h'') ''http://h'' None (docs_app, [])"
  show "map sr_enabled (list_relationships docs_app) = [True]" by code_simp
  have ids: "distinct (map sr_id (rels_of docs_app))" by code_simp
  have "is_ok (snd ?run)" by code_simp
  then have "snd ?run = Inr ()" by (cases "snd ?run") (simp_all add: is_ok_def)
  moreover obtain c r where "?run = (c, r)" by (rule prod.exhaust)
  moreover obtain a' printed where "c = (a', printed)" by (rule prod.exhaust)
  ultimately have run: "?run = ((a', printed), Inr ())" by simp
  with pause_all_disables_all [OF ids run]
  show "\<exists>a' printed. ?run = ((a', printed), Inr ()) \<and> filter sr_enabled (list_relationships a') = []" by blast
qed

section \<open>What \<open>sync trigger\<close> prints\<close>

text \<open>The answer of the handler has the counters inside \<open>push\<close> and \<open>pull\<close>; the command reads them at
  the top, so it reports that nothing was downloaded whatever the sync did.\<close>

lemma trigger_reports_zeros:
  "trigger_report (sync_response r) =
     trigger_report (JObj [])"
  by (simp add: trigger_report_def sync_response_def jget_def u64_at_def fun_eq_iff)

end
