(* ===== verification/Startup.thy ===== *)
theory Startup
  imports Cli Server
begin

text \<open>
  The program around the library (\<open>aeordb-client/src/main.rs\<close>, \<open>static_files.rs\<close>): the options of the
  start, the lock that keeps a second instance away and the takeover from a running one, the exit,
  the commands, the tray's pause item, the links opened in the browser, and the assets of the user
  interface.  Theory Desktop has the program while it runs.
\<close>

section \<open>Options\<close>

record start_options =
  so_headless :: bool
  so_minimized :: bool
  so_bind :: string
  so_port :: nat
  so_config :: "string option"
  so_database :: "string option"

datatype connection_action = Conn_List | Conn_Add string string "string option" | Conn_Remove string | Conn_Test string

datatype sync_action =
    Sync_List
  | Sync_Add string string string string string "string option"
  | Sync_Remove string
  | Sync_Status "string option"
  | Sync_Trigger string
  | Sync_Pause "string option"
  | Sync_Resume "string option"

datatype command =
    Cmd_Start start_options
  | Cmd_Status
  | Cmd_Stop
  | Cmd_Connections connection_action
  | Cmd_Sync sync_action

text \<open>Without a command the client starts with its defaults; a path that is not given is the default
  of the library.\<close>

definition start_settings ::
  "string option \<Rightarrow> string option \<Rightarrow> start_options option \<Rightarrow> bool \<times> bool \<times> server_config" where
  "start_settings config_dir data_dir options =
     (case options of
        Some opt \<Rightarrow>
          (so_headless opt, so_minimized opt,
           \<lparr>sc_host = so_bind opt, sc_port = so_port opt,
            sc_config_path = (case so_config opt of Some p \<Rightarrow> p | None \<Rightarrow> default_config_path config_dir),
            sc_data_path = (case so_database opt of Some p \<Rightarrow> p | None \<Rightarrow> default_data_path data_dir)\<rparr>)
      | None \<Rightarrow>
          (False, False,
           \<lparr>sc_host = ''127.0.0.1'', sc_port = 9400, sc_config_path = default_config_path config_dir,
            sc_data_path = default_data_path data_dir\<rparr>))"

section \<open>One instance\<close>

definition lock_path :: "string \<Rightarrow> string" where
  "lock_path data_path = path_join (parent_or_dot data_path) ''aeordb-client.lock''"

text \<open>The system: creating and locking the file, the clock in milliseconds, the pause of 200 of them, the
  request to the running instance, the output of \<open>fuser\<close>, and SIGTERM to a process, with None when
  the process is this one and is gone.\<close>

record 'w lock_env =
  lk_create :: "string \<Rightarrow> 'w \<Rightarrow> 'w \<times> (string + unit)"
  lk_try :: "'w \<Rightarrow> 'w \<times> bool"
  lk_now :: "'w \<Rightarrow> nat"
  lk_sleep :: "nat \<Rightarrow> 'w \<Rightarrow> 'w"
  lk_post :: "string \<Rightarrow> 'w \<Rightarrow> 'w \<times> bool"
  lk_fuser :: "string \<Rightarrow> 'w \<Rightarrow> 'w \<times> string option"
  lk_kill :: "int \<Rightarrow> 'w \<Rightarrow> 'w option"

text \<open>\<open>wait_for_lock\<close> is the loop up to a deadline; \<open>fuel\<close> bounds its turns, and None means it was not
  enough.\<close>

fun wait_for_lock :: "'w lock_env \<Rightarrow> nat \<Rightarrow> nat \<Rightarrow> 'w \<Rightarrow> ('w \<times> bool) option" where
  "wait_for_lock env 0 deadline w = None"
| "wait_for_lock env (Suc fuel) deadline w =
     (if \<not> lk_now env w < deadline then Some (w, False)
      else case lk_try env w of
             (w1, True) \<Rightarrow> Some (w1, True)
           | (w1, False) \<Rightarrow> wait_for_lock env fuel deadline (lk_sleep env 200 w1))"

text \<open>Text of a 32-bit number: an optional sign and digits, in range.\<close>

definition digits_value :: "string \<Rightarrow> nat option" where
  "digits_value s =
     (if s \<noteq> [] \<and> list_all (\<lambda>c. 48 \<le> byte c \<and> byte c \<le> 57) s
      then Some (fold (\<lambda>c n. 10 * n + (byte c - 48)) s 0) else None)"

definition parse_i32 :: "string \<Rightarrow> int option" where
  "parse_i32 s =
     (case (case s of
              c # rest \<Rightarrow>
                if c = CHR ''-'' then map_option (\<lambda>n. - int n) (digits_value rest)
                else if c = CHR ''+'' then map_option int (digits_value rest)
                else map_option int (digits_value s)
            | [] \<Rightarrow> None) of
        Some i \<Rightarrow> if - (2 ^ 31) \<le> i \<and> i < 2 ^ 31 then Some i else None
      | None \<Rightarrow> None)"

definition words_of :: "string \<Rightarrow> string list" where
  "words_of s = filter (\<lambda>w. w \<noteq> [])
     (split_on CHR '' '' (map (\<lambda>c. if byte c \<in> {9, 10, 11, 12, 13} then CHR '' '' else c) s))"

fun kill_each :: "'w lock_env \<Rightarrow> int list \<Rightarrow> 'w \<Rightarrow> 'w option" where
  "kill_each env [] w = Some w"
| "kill_each env (pid # pids) w =
     (case lk_kill env pid w of None \<Rightarrow> None | Some w1 \<Rightarrow> kill_each env pids w1)"

definition kill_holders :: "'w lock_env \<Rightarrow> string \<Rightarrow> 'w \<Rightarrow> 'w option" where
  "kill_holders env path w =
     (case lk_fuser env path w of
        (w1, None) \<Rightarrow> Some w1
      | (w1, Some output) \<Rightarrow> kill_each env (List.map_filter parse_i32 (words_of output)) w1)"

datatype takeover = Acquired | Exit_1 | Killed | Create_Failed string | Out_Of_Fuel

definition takeover_fuel :: nat where "takeover_fuel = 26"

definition force_takeover :: "'w lock_env \<Rightarrow> string \<Rightarrow> 'w \<Rightarrow> 'w option \<times> takeover" where
  "force_takeover env path w =
     (case kill_holders env path w of
        None \<Rightarrow> (None, Killed)
      | Some w1 \<Rightarrow>
          (case wait_for_lock env takeover_fuel (lk_now env w1 + 5000) w1 of
             None \<Rightarrow> (None, Out_Of_Fuel)
           | Some (w2, acquired) \<Rightarrow> (Some w2, if acquired then Acquired else Exit_1)))"

definition acquire_lock :: "'w lock_env \<Rightarrow> server_config \<Rightarrow> 'w \<Rightarrow> 'w option \<times> takeover" where
  "acquire_lock env config w =
     (let path = lock_path (sc_data_path config)
      in case lk_create env path w of
           (w1, Inl e) \<Rightarrow> (Some w1, Create_Failed (''failed to create lock file: '' @ e))
         | (w1, Inr _) \<Rightarrow>
             (case lk_try env w1 of
                (w2, True) \<Rightarrow> (Some w2, Acquired)
              | (w2, False) \<Rightarrow>
                  (let url = ''http://'' @ sc_host config @ '':'' @ show_nat (sc_port config) @
                             ''/api/v1/shutdown'';
                       w3 = fst (lk_post env url w2)
                   in case wait_for_lock env takeover_fuel (lk_now env w3 + 5000) w3 of
                        None \<Rightarrow> (None, Out_Of_Fuel)
                      | Some (w4, True) \<Rightarrow> (Some w4, Acquired)
                      | Some (w4, False) \<Rightarrow> force_takeover env path w4)))"

section \<open>Running and exit\<close>

text \<open>Every way out of the program, the signal, the request of the API and the tray's item, stops the
  runners and then closes the database; a failure to close is logged.\<close>

definition graceful_exit :: "'e engine \<Rightarrow> running_map \<times> 'e \<Rightarrow> running_map \<times> 'e" where
  "graceful_exit en s = (case s of (running, e) \<Rightarrow> (stop_all running, fst (state_shutdown en e)))"

text \<open>The task that starts the loops runs after the probe has rewritten the connections.\<close>

definition startup_task ::
  "config_env \<Rightarrow> probe_env \<Rightarrow> (config_store \<Rightarrow> config_store) \<Rightarrow> config_store \<times> jwt_cache \<times> running_map \<Rightarrow>
     config_store \<times> jwt_cache \<times> running_map" where
  "startup_task e pe later s =
     (case s of (store, tokens, running) \<Rightarrow>
       (case probe_and_upgrade_connection_urls e pe (store, tokens) of
          (store1, tokens1) \<Rightarrow>
            (later store1, tokens1, start_all_enabled_if_configured store1 (later store1) running)))"

section \<open>Commands\<close>

definition stop_command :: "'w cli_env \<Rightarrow> string \<Rightarrow> 'w cli \<Rightarrow> 'w cli \<times> (string + unit)" where
  "stop_command env host c =
     (case api_post env host ''/api/v1/shutdown'' (JObj []) c of
        (c1, Inr _) \<Rightarrow> (println ''Shutdown initiated.'' c1, Inr ())
      | (c1, Inl error) \<Rightarrow> (c1, Inl (''Failed to stop instance: '' @ error)))"

fun connection_command ::
  "'w cli_env \<Rightarrow> string \<Rightarrow> bool \<Rightarrow> connection_action \<Rightarrow> 'w cli \<Rightarrow> 'w cli \<times> (string + unit)" where
  "connection_command env host json Conn_List c = connections_list env host json c"
| "connection_command env host json (Conn_Add name url key) c = connections_add env host json name url key c"
| "connection_command env host json (Conn_Remove i) c = connections_remove env host i c"
| "connection_command env host json (Conn_Test i) c = connections_test env host json i c"

fun sync_command ::
  "'w cli_env \<Rightarrow> string \<Rightarrow> bool \<Rightarrow> sync_action \<Rightarrow> 'w cli \<Rightarrow> 'w cli \<times> (string + unit)" where
  "sync_command env host json Sync_List c = sync_list env host json c"
| "sync_command env host json (Sync_Add name conn remote local direction f) c =
     sync_add env host json name conn remote local direction f c"
| "sync_command env host json (Sync_Remove i) c = sync_remove env host i c"
| "sync_command env host json (Sync_Status i) c = sync_status_command env host json i c"
| "sync_command env host json (Sync_Trigger i) c = sync_trigger env host json i c"
| "sync_command env host json (Sync_Pause i) c = sync_pause env host i c"
| "sync_command env host json (Sync_Resume i) c = sync_resume env host i c"

section \<open>The tray\<close>

text \<open>The pause item: the request is sent, and any answer, whatever its status, flips the state and the
  label.\<close>

definition tray_pause ::
  "(string \<Rightarrow> 'w \<Rightarrow> 'w \<times> bool) \<Rightarrow> string \<Rightarrow> bool \<times> 'w \<Rightarrow> (bool \<times> 'w) \<times> string option" where
  "tray_pause post api_base s =
     (case s of (is_paused, w) \<Rightarrow>
       (case post (api_base @ (if is_paused then ''/api/v1/sync/resume-all'' else ''/api/v1/sync/pause-all'')) w of
          (w1, True) \<Rightarrow>
            ((\<not> is_paused, w1), Some (if \<not> is_paused then ''Resume All Sync'' else ''Pause All Sync''))
        | (w1, False) \<Rightarrow> ((is_paused, w1), None)))"

section \<open>Links\<close>

datatype platform = Linux | Macos | Windows | Other_Platform

text \<open>The command that is spawned for a URL, or why none is.\<close>

definition url_command :: "platform \<Rightarrow> string \<Rightarrow> string + string list" where
  "url_command platform url =
     (if \<not> (starts_with url ''https://'' \<or> starts_with url ''http://'' \<or> starts_with url ''mailto:'')
      then Inl (''only http(s) and mailto: URLs are allowed; got: '' @ url)
      else case platform of
             Linux \<Rightarrow> Inr [''xdg-open'', url]
           | Macos \<Rightarrow> Inr [''open'', url]
           | Windows \<Rightarrow> Inr [''cmd'', ''/C'', ''start'', '''', url]
           | Other_Platform \<Rightarrow> Inl ''unsupported platform'')"

definition open_external_url ::
  "platform \<Rightarrow> (string list \<Rightarrow> 'w \<Rightarrow> 'w \<times> string option) \<Rightarrow> string \<Rightarrow> 'w \<Rightarrow> 'w \<times> (string + unit)" where
  "open_external_url platform start_process url w =
     (case url_command platform url of
        Inl error \<Rightarrow> (w, Inl error)
      | Inr command \<Rightarrow>
          (case start_process command w of
             (w1, None) \<Rightarrow> (w1, Inr ())
           | (w1, Some error) \<Rightarrow> (w1, Inl (''spawn failed: '' @ error))))"

section \<open>Assets\<close>

definition mime_from_path :: "string \<Rightarrow> string" where
  "mime_from_path path =
     (case find (\<lambda>(e, _). ends_with path e)
        [(''.html'', ''text/html; charset=utf-8''), (''.css'', ''text/css; charset=utf-8''),
         (''.js'', ''application/javascript; charset=utf-8''),
         (''.mjs'', ''application/javascript; charset=utf-8''), (''.json'', ''application/json''),
         (''.svg'', ''image/svg+xml''), (''.png'', ''image/png''), (''.ico'', ''image/x-icon''),
         (''.woff2'', ''font/woff2''), (''.woff'', ''font/woff'')] of
        Some (_, t) \<Rightarrow> t | None \<Rightarrow> ''application/octet-stream'')"

text \<open>The assets: read from the source directory in a debug build, embedded in a release build.\<close>

datatype assets = Debug_Assets string "string \<Rightarrow> string option" | Embedded "string \<Rightarrow> string option"

fun read_asset :: "assets \<Rightarrow> string \<Rightarrow> string option" where
  "read_asset (Debug_Assets dir read_file) path = read_file (path_join dir path)"
| "read_asset (Embedded get) path = get path"

definition serve_index :: "assets \<Rightarrow> web_response" where
  "serve_index a =
     (case read_asset a ''index.html'' of
        Some bytes \<Rightarrow> \<lparr>wr_status = 200, wr_headers = [(''content-type'', ''text/html; charset=utf-8'')],
                       wr_body = bytes\<rparr>
      | None \<Rightarrow> \<lparr>wr_status = 404, wr_headers = [], wr_body = ''index.html not found''\<rparr>)"

definition serve_static :: "assets \<Rightarrow> string \<Rightarrow> web_response" where
  "serve_static a path =
     (case read_asset a path of
        Some bytes \<Rightarrow> \<lparr>wr_status = 200, wr_headers = [(''content-type'', mime_from_path path),
                         (''cache-control'', ''no-cache'')], wr_body = bytes\<rparr>
      | None \<Rightarrow> \<lparr>wr_status = 404, wr_headers = [], wr_body = ''not found''\<rparr>)"

section \<open>The takeover ends\<close>

text \<open>What the standard library promises of a pause, and that trying the lock does not turn the clock
  back.\<close>

definition clock_runs :: "'w lock_env \<Rightarrow> bool" where
  "clock_runs env \<longleftrightarrow>
     (\<forall>w ms. lk_now env w + ms \<le> lk_now env (lk_sleep env ms w)) \<and>
     (\<forall>w. lk_now env w \<le> lk_now env (fst (lk_try env w)))"

lemma wait_for_lock_ends:
  assumes clock: "clock_runs env"
  shows "deadline \<le> lk_now env w + 200 * n \<Longrightarrow> wait_for_lock env (Suc n) deadline w \<noteq> None"
proof (induction n arbitrary: w)
  case (Suc n)
  show ?case
  proof (cases "lk_now env w < deadline")
    case True
    obtain w1 b where t: "lk_try env w = (w1, b)" by force
    have "lk_now env w \<le> lk_now env w1" using clock t unfolding clock_runs_def by (metis fst_conv)
    also have "lk_now env w1 + 200 \<le> lk_now env (lk_sleep env 200 w1)"
      using clock unfolding clock_runs_def by blast
    ultimately have "deadline \<le> lk_now env (lk_sleep env 200 w1) + 200 * n" using Suc.prems by simp
    from Suc.IH [OF this] True t show ?thesis by (cases b) simp_all
  qed simp
qed simp

lemma wait_within_fuel:
  "clock_runs env \<Longrightarrow> wait_for_lock env takeover_fuel (lk_now env w + 5000) w \<noteq> None"
  using wait_for_lock_ends [of env "lk_now env w + 5000" w 25] by (simp add: takeover_fuel_def)

text \<open>C35. Starting while another instance runs ends: each of the two waits tries the lock at most 26 times, so
  the start acquires the lock, exits with an error, or is killed.\<close>

theorem takeover_ends:
  assumes "clock_runs env"
  shows "snd (acquire_lock env config w) \<noteq> Out_Of_Fuel"
proof -
  have wait: "\<exists>w' b. wait_for_lock env takeover_fuel (lk_now env w + 5000) w = Some (w', b)" for w
    using wait_within_fuel [OF assms, of w] by auto
  have force: "snd (force_takeover env path w) \<noteq> Out_Of_Fuel" for path w
  proof (cases "kill_holders env path w")
    case (Some w1)
    with wait [of w1] show ?thesis by (auto simp: force_takeover_def split: if_splits)
  qed (simp add: force_takeover_def)
  let ?path = "lock_path (sc_data_path config)"
  let ?url = "''http://'' @ sc_host config @ '':'' @ show_nat (sc_port config) @ ''/api/v1/shutdown''"
  obtain w1 r where c: "lk_create env ?path w = (w1, r)" by force
  obtain w2 b where t: "lk_try env w1 = (w2, b)" by force
  let ?w3 = "fst (lk_post env ?url w2)"
  obtain w4 b4 where "wait_for_lock env takeover_fuel (lk_now env ?w3 + 5000) ?w3 = Some (w4, b4)"
    using wait by blast
  with c t force [of ?path w4] show ?thesis
    by (cases r; cases b; cases b4) (simp_all add: acquire_lock_def Let_def)
qed

section \<open>The forced takeover kills its own process\<close>

text \<open>\<open>fuser\<close> lists every process that has the file open; the new instance has, since it created it.\<close>

lemma kill_each_self:
  "self \<in> set pids \<Longrightarrow> (\<And>w. lk_kill env self w = None) \<Longrightarrow> kill_each env pids w = None"
  by (induction pids arbitrary: w) (auto split: option.split)

text \<open>If the running instance does not give the lock back in time, the takeover by force never succeeds:
  the new instance is among the processes that \<open>fuser\<close> names and it signals itself.\<close>

theorem forced_takeover_is_suicide:
  assumes "lk_fuser env path w = (w1, Some output)" "self \<in> set (List.map_filter parse_i32 (words_of output))"
    and "\<And>w. lk_kill env self w = None"
  shows "force_takeover env path w = (None, Killed)"
  using kill_each_self [OF assms(2,3)] assms(1) by (simp add: force_takeover_def kill_holders_def)

section \<open>Links and assets\<close>

text \<open>Whatever the page asks to open, what is spawned is an opener with a web or mail address.\<close>

lemma only_web_links:
  "url_command platform url = Inr command \<Longrightarrow>
    (starts_with url ''https://'' \<or> starts_with url ''http://'' \<or> starts_with url ''mailto:'') \<and>
    last command = url"
  by (auto simp: url_command_def split: if_splits platform.splits)

text \<open>A path that is absolute leaves the directory of the assets in a debug build.\<close>

lemma debug_assets_absolute:
  "path_is_absolute path \<Longrightarrow> read_asset (Debug_Assets dir read_file) path = read_file path"
  by (simp add: path_join_def path_is_absolute_def)

section \<open>A sample\<close>

text \<open>A machine with another instance: its process and whether it lives.  Process 7 is this one.\<close>

record sample_host =
  mc_now :: nat
  mc_other :: bool

definition sample_lock_env :: "sample_host lock_env" where
  "sample_lock_env =
     \<lparr>lk_create = (\<lambda>p w. (w, Inr ())), lk_try = (\<lambda>w. (w, \<not> mc_other w)), lk_now = mc_now,
      lk_sleep = (\<lambda>ms w. w\<lparr>mc_now := mc_now w + ms\<rparr>), lk_post = (\<lambda>u w. (w, False)),
      lk_fuser = (\<lambda>p w. (w, Some ('' 7 9'' @ newline))),
      lk_kill = (\<lambda>pid w. if pid = 7 then None else Some (w\<lparr>mc_other := False\<rparr>))\<rparr>"

lemma sample_clock: "clock_runs sample_lock_env"
  by (simp add: clock_runs_def sample_lock_env_def)

lemma takeover_ends_witness:
  "snd (acquire_lock sample_lock_env (default_server_config None None) \<lparr>mc_now = 3, mc_other = True\<rparr>) \<noteq>
     Out_Of_Fuel"
  by (rule takeover_ends [OF sample_clock])

lemma forced_takeover_is_suicide_witness:
  "force_takeover sample_lock_env ''/d/aeordb-client.lock'' \<lparr>mc_now = 3, mc_other = True\<rparr> = (None, Killed)"
proof (rule forced_takeover_is_suicide)
  show "lk_fuser sample_lock_env ''/d/aeordb-client.lock'' \<lparr>mc_now = 3, mc_other = True\<rparr> =
      (\<lparr>mc_now = 3, mc_other = True\<rparr>, Some ('' 7 9'' @ newline))" by (simp add: sample_lock_env_def)
  show "7 \<in> set (List.map_filter parse_i32 (words_of ('' 7 9'' @ newline)))" by code_simp
  show "lk_kill sample_lock_env 7 w = None" for w by (simp add: sample_lock_env_def)
qed

end
