(* ===== verification/Desktop.thy ===== *)
theory Desktop
  imports Startup Machines
begin

text \<open>
  The program while it runs (\<open>aeordb-client/src/main.rs\<close>, from the tasks of the start to the exit): the
  task of the HTTP server, the main thread, which waits for a signal without a window or runs the
  window and the tray, and the ways out.  Their steps interleave.  A shutdown wakes whoever waits at
  that moment (theory Local_Routes), and a task waits only once it has been polled; Tauri calls the
  handlers of the window and the tray.
\<close>

section \<open>The state\<close>

datatype server_task = Srv_Binding | Srv_Serving | Srv_Stopped

text \<open>The main thread: before the server is ready, before the window is set up, running, on the way out,
  and out, with what \<open>main\<close> returns.\<close>

datatype main_task = Awaiting_Ready | Building | Running | Leaving | Exited "string + unit" | Signalled

record ('w, 'e) desktop =
  dt_options :: start_options
  dt_server :: server_task
  dt_ready :: "(string + string) option"
  dt_server_waits :: bool
  dt_main_waits :: bool
  dt_handler :: bool
  dt_main :: main_task
  dt_url :: string
  dt_window :: "bool option"
  dt_paused :: bool
  dt_pause_text :: string
  dt_running :: running_map
  dt_store :: 'e
  dt_world :: 'w

definition desktop_init :: "start_options \<Rightarrow> 'e \<Rightarrow> 'w \<Rightarrow> ('w, 'e) desktop" where
  "desktop_init options e w =
     \<lparr>dt_options = options, dt_server = Srv_Binding, dt_ready = None, dt_server_waits = False,
      dt_main_waits = False, dt_handler = False, dt_main = Awaiting_Ready, dt_url = '''', dt_window = None,
      dt_paused = False, dt_pause_text = ''Pause All Sync'', dt_running = [], dt_store = e, dt_world = w\<rparr>"

text \<open>What the start spawns on the runtime, in this order; the first is \<open>startup_task\<close>, the last the server.\<close>

datatype spawned_task = Upgrade_Then_Sync | Pinger | Update_Check | Maintain | Http_Server

definition spawned_tasks :: "spawned_task list" where
  "spawned_tasks = [Upgrade_Then_Sync, Pinger, Update_Check, Maintain, Http_Server]"

section \<open>The server's task\<close>

text \<open>The bind, and what it sends to the main thread.\<close>

definition server_bind :: "(string \<Rightarrow> string + string) \<Rightarrow> ('w, 'e) desktop \<Rightarrow> ('w, 'e) desktop" where
  "server_bind bind s =
     (let address = so_bind (dt_options s) @ '':'' @ show_nat (so_port (dt_options s))
      in case bind address of
           Inl error \<Rightarrow>
             s\<lparr>dt_server := Srv_Stopped,
               dt_ready := Some (Inl (''failed to bind to '' @ address @ '': '' @ error))\<rparr>
         | Inr bound_addr \<Rightarrow> s\<lparr>dt_server := Srv_Serving, dt_ready := Some (Inr bound_addr)\<rparr>)"

text \<open>The first poll of the shutdown future installs the handlers of the signals and waits for both.\<close>

definition server_polls :: "('w, 'e) desktop \<Rightarrow> ('w, 'e) desktop" where
  "server_polls s = s\<lparr>dt_server_waits := True, dt_handler := True\<rparr>"

section \<open>The main thread\<close>

definition main_ready :: "string + string \<Rightarrow> ('w, 'e) desktop \<Rightarrow> ('w, 'e) desktop" where
  "main_ready ready s =
     (case ready of
        Inl error \<Rightarrow> s\<lparr>dt_ready := None, dt_main := Exited (Inl error)\<rparr>
      | Inr bound_addr \<Rightarrow>
          s\<lparr>dt_ready := None, dt_url := ''http://'' @ bound_addr,
            dt_main := if so_headless (dt_options s) then Running else Building\<rparr>)"

text \<open>The set-up spawns the task that waits for a shutdown, and builds the window and the tray.\<close>

definition setup_window :: "('w, 'e) desktop \<Rightarrow> ('w, 'e) desktop" where
  "setup_window s = s\<lparr>dt_window := Some (\<not> so_minimized (dt_options s)), dt_main := Running\<rparr>"

text \<open>Without a window the main thread itself waits, with one the task of the set-up.\<close>

definition main_polls :: "('w, 'e) desktop \<Rightarrow> ('w, 'e) desktop" where
  "main_polls s = s\<lparr>dt_main_waits := True, dt_handler := True\<rparr>"

definition close_requested :: "('w, 'e) desktop \<Rightarrow> ('w, 'e) desktop" where
  "close_requested s = s\<lparr>dt_window := Some False\<rparr>"

definition show_window :: "('w, 'e) desktop \<Rightarrow> ('w, 'e) desktop" where
  "show_window s = s\<lparr>dt_window := Some True\<rparr>"

definition menu_event ::
  "(string \<Rightarrow> 'w \<Rightarrow> 'w \<times> bool) \<Rightarrow> string \<Rightarrow> ('w, 'e) desktop \<Rightarrow> ('w, 'e) desktop" where
  "menu_event post i s =
     (if i = ''open'' then show_window s
      else if i = ''pause'' then
        (case tray_pause post (dt_url s) (dt_paused s, dt_world s) of
           ((paused, w), text_opt) \<Rightarrow>
             s\<lparr>dt_paused := paused, dt_world := w,
               dt_pause_text := (case text_opt of Some t \<Rightarrow> t | None \<Rightarrow> dt_pause_text s)\<rparr>)
      else if i = ''quit'' then s\<lparr>dt_main := Leaving\<rparr>
      else s)"

text \<open>The way out.\<close>

definition leave :: "'e engine \<Rightarrow> ('w, 'e) desktop \<Rightarrow> ('w, 'e) desktop" where
  "leave en s =
     (case graceful_exit en (dt_running s, dt_store s) of
        (running, e) \<Rightarrow> s\<lparr>dt_running := running, dt_store := e, dt_main := Exited (Inr ())\<rparr>)"

section \<open>Shutdown\<close>

datatype waiter = Server_Waiter | Main_Waiter

definition waiters :: "('w, 'e) desktop \<Rightarrow> waiter list" where
  "waiters s = (if dt_server_waits s then [Server_Waiter] else []) @ (if dt_main_waits s then [Main_Waiter] else [])"

text \<open>A woken task: the server stops, the main thread leaves.\<close>

definition wake :: "waiter list \<Rightarrow> ('w, 'e) desktop \<Rightarrow> ('w, 'e) desktop" where
  "wake ws s =
     s\<lparr>dt_server := (if Server_Waiter \<in> set ws then Srv_Stopped else dt_server s),
       dt_server_waits := dt_server_waits s \<and> Server_Waiter \<notin> set ws,
       dt_main := (if Main_Waiter \<in> set ws then Leaving else dt_main s),
       dt_main_waits := dt_main_waits s \<and> Main_Waiter \<notin> set ws\<rparr>"

definition shutdown_request :: "('w, 'e) desktop \<Rightarrow> ('w, 'e) desktop \<times> nat \<times> json" where
  "shutdown_request s =
     (case shutdown_route (Some (waiters s)) of (woken, answer) \<Rightarrow> (wake woken s, answer))"

text \<open>A signal: while no task has installed a handler, it ends the process.\<close>

definition os_signal :: "('w, 'e) desktop \<Rightarrow> ('w, 'e) desktop" where
  "os_signal s = (if dt_handler s then wake (waiters s) s else s\<lparr>dt_main := Signalled\<rparr>)"

section \<open>The steps\<close>

definition live :: "('w, 'e) desktop \<Rightarrow> bool" where
  "live s \<longleftrightarrow> (case dt_main s of Exited _ \<Rightarrow> False | Signalled \<Rightarrow> False | _ \<Rightarrow> True)"

inductive desktop_step ::
  "'e engine \<Rightarrow> (string \<Rightarrow> string + string) \<Rightarrow> (string \<Rightarrow> 'w \<Rightarrow> 'w \<times> bool) \<Rightarrow> ('w, 'e) desktop \<Rightarrow>
     ('w, 'e) desktop \<Rightarrow> bool" for en bind post where
  binds: "live s \<Longrightarrow> dt_server s = Srv_Binding \<Longrightarrow> desktop_step en bind post s (server_bind bind s)"
| server_polled: "live s \<Longrightarrow> dt_server s = Srv_Serving \<Longrightarrow> \<not> dt_server_waits s \<Longrightarrow>
    desktop_step en bind post s (server_polls s)"
| ready: "dt_main s = Awaiting_Ready \<Longrightarrow> dt_ready s = Some r \<Longrightarrow> desktop_step en bind post s (main_ready r s)"
| sets_up: "dt_main s = Building \<Longrightarrow> desktop_step en bind post s (setup_window s)"
| main_polled: "dt_main s = Running \<Longrightarrow> \<not> dt_main_waits s \<Longrightarrow> desktop_step en bind post s (main_polls s)"
| closes: "dt_main s = Running \<Longrightarrow> dt_window s \<noteq> None \<Longrightarrow> desktop_step en bind post s (close_requested s)"
| menu: "dt_main s = Running \<Longrightarrow> dt_window s \<noteq> None \<Longrightarrow> desktop_step en bind post s (menu_event post i s)"
| double_click: "dt_main s = Running \<Longrightarrow> dt_window s \<noteq> None \<Longrightarrow> desktop_step en bind post s (show_window s)"
| requested: "live s \<Longrightarrow> dt_server s = Srv_Serving \<Longrightarrow> desktop_step en bind post s (fst (shutdown_request s))"
| signalled: "live s \<Longrightarrow> desktop_step en bind post s (os_signal s)"
| works: "live s \<Longrightarrow> desktop_step en bind post s (s\<lparr>dt_running := r, dt_store := e\<rparr>)"
| leaves: "dt_main s = Leaving \<Longrightarrow> desktop_step en bind post s (leave en s)"

inductive_cases desktop_stepE: "desktop_step en bind post s s'"

definition desktop_reachable ::
  "'e engine \<Rightarrow> (string \<Rightarrow> string + string) \<Rightarrow> (string \<Rightarrow> 'w \<Rightarrow> 'w \<times> bool) \<Rightarrow> start_options \<Rightarrow> 'e \<Rightarrow> 'w \<Rightarrow>
     ('w, 'e) desktop \<Rightarrow> bool" where
  "desktop_reachable en bind post options e w = (desktop_step en bind post)\<^sup>*\<^sup>* (desktop_init options e w)"

section \<open>The invariant\<close>

text \<open>Without a window there is none; a running program with one has the window and its tray; a task waits only
  once it is up; who has left without an error has stopped every loop and closed the database.\<close>

definition desktop_ok :: "'e engine \<Rightarrow> ('w, 'e) desktop \<Rightarrow> bool" where
  "desktop_ok en s \<longleftrightarrow>
     (so_headless (dt_options s) \<longrightarrow> dt_window s = None \<and> dt_main s \<noteq> Building) \<and>
     (dt_main s \<in> {Running, Leaving} \<longrightarrow> dt_window s \<noteq> None \<or> so_headless (dt_options s)) \<and>
     (dt_main_waits s \<longrightarrow> dt_main s \<notin> {Awaiting_Ready, Building}) \<and>
     (dt_server_waits s \<longrightarrow> dt_server s = Srv_Serving) \<and>
     (dt_main_waits s \<or> dt_server_waits s \<longrightarrow> dt_handler s) \<and>
     (dt_server s = Srv_Binding \<longrightarrow> dt_main s \<in> {Awaiting_Ready, Signalled}) \<and>
     (dt_server s = Srv_Binding \<longrightarrow> dt_ready s = None) \<and>
     (dt_main s = Exited (Inr ()) \<longrightarrow> dt_running s = [] \<and> (\<exists>e. dt_store s = fst (state_shutdown en e)))"

lemma bind_ok: "desktop_ok en s \<Longrightarrow> live s \<Longrightarrow> dt_server s = Srv_Binding \<Longrightarrow> desktop_ok en (server_bind bind s)"
  by (auto simp: desktop_ok_def live_def server_bind_def Let_def split: sum.split main_task.splits)

lemma poll_ok:
  "desktop_ok en s \<Longrightarrow> live s \<Longrightarrow> dt_server s = Srv_Serving \<Longrightarrow> desktop_ok en (server_polls s)"
  "desktop_ok en s \<Longrightarrow> dt_main s = Running \<Longrightarrow> desktop_ok en (main_polls s)"
  by (auto simp: desktop_ok_def live_def server_polls_def main_polls_def)

lemma ready_ok:
  "desktop_ok en s \<Longrightarrow> dt_main s = Awaiting_Ready \<Longrightarrow> dt_ready s = Some r \<Longrightarrow> desktop_ok en (main_ready r s)"
  by (cases r) (auto simp: desktop_ok_def main_ready_def)

lemma setup_ok: "desktop_ok en s \<Longrightarrow> dt_main s = Building \<Longrightarrow> desktop_ok en (setup_window s)"
  by (auto simp: desktop_ok_def setup_window_def)

lemma window_ok:
  "desktop_ok en s \<Longrightarrow> dt_main s = Running \<Longrightarrow> dt_window s = Some v \<Longrightarrow> desktop_ok en (s\<lparr>dt_window := Some b\<rparr>)"
  by (auto simp: desktop_ok_def)

lemma menu_ok:
  "desktop_ok en s \<Longrightarrow> dt_main s = Running \<Longrightarrow> dt_window s = Some v \<Longrightarrow> desktop_ok en (menu_event post i s)"
  by (auto simp: menu_event_def show_window_def window_ok split: prod.split) (auto simp: desktop_ok_def)

lemma wake_waiters:
  "wake (waiters s) s =
     s\<lparr>dt_server := (if dt_server_waits s then Srv_Stopped else dt_server s), dt_server_waits := False,
       dt_main := (if dt_main_waits s then Leaving else dt_main s), dt_main_waits := False\<rparr>"
  by (simp add: wake_def waiters_def)

lemma wake_ok: "desktop_ok en s \<Longrightarrow> live s \<Longrightarrow> desktop_ok en (wake (waiters s) s)"
  unfolding wake_waiters
  by (cases "dt_main s"; cases "dt_main_waits s"; cases "dt_server_waits s") (simp_all add: desktop_ok_def live_def)

lemma signal_ok: "desktop_ok en s \<Longrightarrow> live s \<Longrightarrow> desktop_ok en (os_signal s)"
  by (auto simp: os_signal_def wake_ok) (auto simp: desktop_ok_def)

lemma leave_ok: "desktop_ok en s \<Longrightarrow> dt_main s = Leaving \<Longrightarrow> desktop_ok en (leave en s)"
proof -
  assume "desktop_ok en s" "dt_main s = Leaving"
  moreover have "leave en s = s\<lparr>dt_running := [], dt_store := fst (state_shutdown en (dt_store s)),
      dt_main := Exited (Inr ())\<rparr>"
    by (simp add: leave_def graceful_exit_def stop_all_def)
  ultimately show ?thesis unfolding desktop_ok_def by (elim conjE, intro conjI impI exI [of _ "dt_store s"]) auto
qed

lemma works_ok: "desktop_ok en s \<Longrightarrow> live s \<Longrightarrow> desktop_ok en (s\<lparr>dt_running := r, dt_store := e\<rparr>)"
  by (cases "dt_main s") (simp_all add: desktop_ok_def live_def)

interpretation desktop: step_machine "desktop_step en bind post" "desktop_ok en" for en bind post
  by unfold_locales
    (auto elim!: desktop_stepE simp: close_requested_def show_window_def shutdown_request_def shutdown_route_def
      intro: bind_ok poll_ok ready_ok setup_ok window_ok menu_ok wake_ok signal_ok leave_ok works_ok)

lemma init_ok: "desktop_ok en (desktop_init options e w)"
  by (simp add: desktop_ok_def desktop_init_def)

lemma reachable_ok: "desktop_reachable en bind post options e w s \<Longrightarrow> desktop_ok en s"
  unfolding desktop_reachable_def by (erule desktop.inv_run) (rule init_ok)

lemma reachable_next:
  "desktop_reachable en bind post options e w s \<Longrightarrow> desktop_step en bind post s s' \<Longrightarrow>
    desktop_reachable en bind post options e w s'"
  by (simp add: desktop_reachable_def)

section \<open>The way out\<close>

text \<open>However the steps interleave, a program that has ended well has stopped every loop and closed the
  database, whichever way out was taken.\<close>

theorem program_leaves_cleanly:
  assumes "desktop_reachable en bind post options e w s" "dt_main s = Exited (Inr ())"
  shows "dt_running s = [] \<and> (\<exists>e. dt_store s = fst (state_shutdown en e))"
  using reachable_ok [OF assms(1)] assms(2) by (simp add: desktop_ok_def)

text \<open>With both tasks waiting, one request stops the server and lets the main thread leave.\<close>

lemma shutdown_wakes_both:
  assumes "dt_server_waits s" "dt_main_waits s"
  shows "dt_server (fst (shutdown_request s)) = Srv_Stopped \<and> dt_main (fst (shutdown_request s)) = Leaving \<and>
    fst (snd (shutdown_request s)) = 200"
  using assms by (simp add: shutdown_request_def shutdown_route_def waiters_def wake_def)

text \<open>While the program runs with a window, the user can always show it and can always leave: closing the
  window, or losing the server, takes neither away.\<close>

theorem tray_stays_in_charge:
  assumes "desktop_reachable en bind post options e w s" "dt_main s = Running" "\<not> so_headless (dt_options s)"
  shows "\<exists>s1 s2. desktop_step en bind post s (menu_event post ''open'' s) \<and>
    dt_window (menu_event post ''open'' s) = Some True \<and>
    desktop_step en bind post s s1 \<and> desktop_step en bind post s1 s2 \<and> dt_main s2 = Exited (Inr ())"
proof -
  have window: "dt_window s \<noteq> None" using reachable_ok [OF assms(1)] assms(2,3) by (simp add: desktop_ok_def)
  let ?s1 = "menu_event post ''quit'' s"
  have "dt_main ?s1 = Leaving" by (simp add: menu_event_def)
  then have "desktop_step en bind post ?s1 (leave en ?s1)" by (rule desktop_step.leaves)
  moreover have "dt_main (leave en ?s1) = Exited (Inr ())" by (simp add: leave_def split: prod.split)
  moreover have "dt_window (menu_event post ''open'' s) = Some True" by (simp add: menu_event_def show_window_def)
  ultimately show ?thesis
    using desktop_step.menu [OF assms(2) window, of en bind post "''open''"]
      desktop_step.menu [OF assms(2) window, of en bind post "''quit''"] by blast
qed

section \<open>A shutdown that is lost\<close>

text \<open>A request for a shutdown between the start of the server and the set-up of the window is answered and
  stops the server; the main thread, which did not wait yet, goes on to run the window without one.  No other
  request can reach the program after that.\<close>

lemma shutdown_lost:
  assumes "bind (so_bind options @ '':'' @ show_nat (so_port options)) = Inr a" "\<not> so_headless options"
  shows "\<exists>s. desktop_reachable en bind post options e w s \<and> dt_main s = Running \<and> dt_main_waits s \<and>
    dt_server s = Srv_Stopped"
proof -
  let ?go = "desktop_reachable en bind post options e w" and ?s0 = "desktop_init options e w"
  let ?s1 = "?s0\<lparr>dt_server := Srv_Serving, dt_ready := Some (Inr a)\<rparr>"
  let ?s2 = "server_polls ?s1"
  let ?s3 = "main_ready (Inr a) ?s2"
  let ?s4 = "fst (shutdown_request ?s3)"
  let ?s5 = "setup_window ?s4"
  have "?go ?s0" by (simp add: desktop_reachable_def)
  moreover have "server_bind bind ?s0 = ?s1" using assms(1) by (simp add: server_bind_def desktop_init_def)
  ultimately have "?go ?s1"
    using reachable_next desktop_step.binds [of ?s0 en bind post] by (force simp: live_def desktop_init_def)
  then have "?go ?s2"
    by (rule reachable_next, intro desktop_step.server_polled) (simp_all add: live_def desktop_init_def)
  then have "?go ?s3"
    by (rule reachable_next, intro desktop_step.ready) (simp_all add: desktop_init_def server_polls_def)
  then have "?go ?s4"
    by (rule reachable_next, intro desktop_step.requested)
      (use assms(2) in \<open>simp_all add: live_def desktop_init_def server_polls_def main_ready_def\<close>)
  then have "?go ?s5"
    by (rule reachable_next, intro desktop_step.sets_up)
      (use assms(2) in \<open>simp add: desktop_init_def server_polls_def main_ready_def shutdown_request_def
        shutdown_route_def wake_def waiters_def\<close>)
  then have "?go (main_polls ?s5)"
    by (rule reachable_next, intro desktop_step.main_polled)
      (use assms(2) in \<open>simp_all add: desktop_init_def server_polls_def main_ready_def shutdown_request_def
        shutdown_route_def wake_def waiters_def setup_window_def\<close>)
  then show ?thesis
    by (rule exI [of _ "main_polls ?s5", OF conjI])
      (simp add: main_polls_def setup_window_def desktop_init_def server_polls_def main_ready_def
        shutdown_request_def shutdown_route_def wake_def waiters_def assms(2))
qed

end
