(* ===== verification/Autostart.thy ===== *)
theory Autostart
  imports Local_Routes
begin

text \<open>
  The autostart choice on its way to the operating system: the handler of the settings
  (theory Local_Routes) and the listener of \<open>main.rs\<close>, which shares the desired state and a signal
  with it.  Both run in threads of their own, so their steps interleave; a handler saves the
  choice, stores it, and notifies, and the listener seeds the desired state from the configuration
  once and then applies it after every notification.
\<close>

section \<open>The steps\<close>

text \<open>The stages of one handler call that was saved, and of the listener.\<close>

datatype handler = Storing bool | Notifying

datatype listener = Seeding | Seed_Read bool | Loading | Applying bool | Waiting

record autostart =
  au_config :: bool
  au_desired :: bool
  au_permit :: bool
  au_applied :: "bool option"
  au_handlers :: "handler list"
  au_listener :: listener

definition autostart_init :: "bool \<Rightarrow> autostart" where
  "autostart_init config =
     \<lparr>au_config = config, au_desired = False, au_permit = False, au_applied = None, au_handlers = [],
      au_listener = Seeding\<rparr>"

text \<open>The listener's next step; waiting goes on only with a permit, which it takes.\<close>

fun listener_next :: "autostart \<Rightarrow> listener \<Rightarrow> autostart option" where
  "listener_next s Seeding = Some (s\<lparr>au_listener := Seed_Read (au_config s)\<rparr>)"
| "listener_next s (Seed_Read c) = Some (s\<lparr>au_desired := c, au_listener := Loading\<rparr>)"
| "listener_next s Loading = Some (s\<lparr>au_listener := Applying (au_desired s)\<rparr>)"
| "listener_next s (Applying d) = Some (s\<lparr>au_applied := Some d, au_listener := Waiting\<rparr>)"
| "listener_next s Waiting =
     (if au_permit s then Some (s\<lparr>au_permit := False, au_listener := Loading\<rparr>) else None)"

fun handler_next :: "autostart \<Rightarrow> handler \<Rightarrow> handler list \<Rightarrow> autostart" where
  "handler_next s (Storing b) others = s\<lparr>au_desired := b, au_handlers := Notifying # others\<rparr>"
| "handler_next s Notifying others = s\<lparr>au_permit := True, au_handlers := others\<rparr>"

inductive autostart_step :: "autostart \<Rightarrow> autostart \<Rightarrow> bool" where
  saved: "autostart_step s (s\<lparr>au_config := b, au_handlers := Storing b # au_handlers s\<rparr>)"
| handler: "au_handlers s = hs @ h # hs' \<Longrightarrow> autostart_step s (handler_next s h (hs @ hs'))"
| listener: "listener_next s (au_listener s) = Some s' \<Longrightarrow> autostart_step s s'"

inductive_cases autostart_stepE: "autostart_step s s'"

definition autostart_reachable :: "bool \<Rightarrow> autostart \<Rightarrow> bool" where
  "autostart_reachable config = autostart_step\<^sup>*\<^sup>* (autostart_init config)"

lemma reachable_start: "autostart_reachable config (autostart_init config)"
  by (simp add: autostart_reachable_def)

lemma reachable_step:
  "autostart_reachable config s \<Longrightarrow> autostart_step s s' \<Longrightarrow> autostart_reachable config s'"
  by (simp add: autostart_reachable_def)

section \<open>No choice is lost\<close>

text \<open>A notification is on its way.\<close>

definition pending :: "autostart \<Rightarrow> bool" where
  "pending s \<longleftrightarrow> au_permit s \<or> Notifying \<in> set (au_handlers s)"

definition up_to_date :: "autostart \<Rightarrow> bool" where
  "up_to_date s \<longleftrightarrow>
     (case au_listener s of
        Waiting \<Rightarrow> pending s \<or> au_applied s = Some (au_desired s)
      | Applying d \<Rightarrow> pending s \<or> d = au_desired s
      | _ \<Rightarrow> True)"

lemma up_to_date_handler: "au_handlers s = hs @ h # hs' \<Longrightarrow> up_to_date s \<Longrightarrow> up_to_date (handler_next s h (hs @ hs'))"
  by (cases h) (auto simp: up_to_date_def pending_def split: listener.splits)

lemma up_to_date_listener:
  "listener_next s (au_listener s) = Some s' \<Longrightarrow> up_to_date s \<Longrightarrow> up_to_date s'"
  by (cases "au_listener s") (auto simp: up_to_date_def pending_def split: if_splits)

lemma up_to_date_saved:
  "up_to_date s \<Longrightarrow> up_to_date (s\<lparr>au_config := b, au_handlers := Storing b # au_handlers s\<rparr>)"
  by (auto simp: up_to_date_def pending_def split: listener.splits)

interpretation autostart: step_machine autostart_step up_to_date
  by unfold_locales
    (auto elim!: autostart_stepE intro: up_to_date_handler up_to_date_listener up_to_date_saved)

lemma reachable_up_to_date: "autostart_reachable config s \<Longrightarrow> up_to_date s"
  unfolding autostart_reachable_def
  by (erule autostart.inv_run) (simp add: up_to_date_def autostart_init_def)

text \<open>C36. However the steps interleave: when the listener waits, no permit is left and no handler is about to
  notify, the operating system was last told the state that is desired.\<close>

theorem autostart_settles:
  assumes "autostart_reachable config s" "au_listener s = Waiting" "\<not> au_permit s"
    "Notifying \<notin> set (au_handlers s)"
  shows "au_applied s = Some (au_desired s)"
  using reachable_up_to_date [OF assms(1)] assms(2-4) by (simp add: up_to_date_def pending_def)

section \<open>The seed can overwrite a choice\<close>

lemma listener_path:
  "autostart_reachable config s \<Longrightarrow> listener_next s (au_listener s) = Some s' \<Longrightarrow> autostart_reachable config s'"
  by (erule reachable_step) (erule autostart_step.listener)

lemma handler_path:
  "autostart_reachable config s \<Longrightarrow> au_handlers s = h # hs \<Longrightarrow> autostart_reachable config (handler_next s h hs)"
  using autostart_step.handler [of s "[]" h hs] by (auto intro: reachable_step)

text \<open>A run that ends at rest with a setting that is not in force: the listener reads the old setting, the
  handler saves, stores and notifies the new one, and then the listener stores what it had read.\<close>

lemma seed_loses_choice:
  "\<exists>s. autostart_reachable False s \<and> au_listener s = Waiting \<and> \<not> au_permit s \<and> au_handlers s = [] \<and>
     au_config s \<and> au_applied s = Some False"
proof -
  let ?s0 = "autostart_init False"
  let ?s1 = "?s0\<lparr>au_listener := Seed_Read False\<rparr>"
  let ?s2 = "?s1\<lparr>au_config := True, au_handlers := [Storing True]\<rparr>"
  let ?s3 = "?s2\<lparr>au_desired := True, au_handlers := [Notifying]\<rparr>"
  let ?s4 = "?s3\<lparr>au_permit := True, au_handlers := []\<rparr>"
  let ?s5 = "?s4\<lparr>au_desired := False, au_listener := Loading\<rparr>"
  let ?s6 = "?s5\<lparr>au_listener := Applying False\<rparr>"
  let ?s7 = "?s6\<lparr>au_applied := Some False, au_listener := Waiting\<rparr>"
  let ?s8 = "?s7\<lparr>au_permit := False, au_listener := Loading\<rparr>"
  let ?s9 = "?s8\<lparr>au_listener := Applying False\<rparr>"
  let ?s10 = "?s9\<lparr>au_applied := Some False, au_listener := Waiting\<rparr>"
  have "autostart_reachable False ?s1"
    by (rule listener_path [OF reachable_start]) (simp add: autostart_init_def)
  then have "autostart_reachable False ?s2"
    by (rule reachable_step) (use autostart_step.saved [of ?s1 True] in \<open>simp add: autostart_init_def\<close>)
  from handler_path [OF this] have "autostart_reachable False ?s3" by (simp add: autostart_init_def)
  from handler_path [OF this] have "autostart_reachable False ?s4" by (simp add: autostart_init_def)
  from listener_path [OF this] have "autostart_reachable False ?s5" by (simp add: autostart_init_def)
  from listener_path [OF this] have "autostart_reachable False ?s6" by (simp add: autostart_init_def)
  from listener_path [OF this] have "autostart_reachable False ?s7" by (simp add: autostart_init_def)
  from listener_path [OF this] have "autostart_reachable False ?s8" by (simp add: autostart_init_def)
  from listener_path [OF this] have "autostart_reachable False ?s9" by (simp add: autostart_init_def)
  from listener_path [OF this] have "autostart_reachable False ?s10" by (simp add: autostart_init_def)
  then show ?thesis by (intro exI [of _ ?s10]) (simp add: autostart_init_def)
qed

lemma autostart_settles_witness:
  "au_applied (autostart_init True\<lparr>au_listener := Waiting, au_desired := True, au_applied := Some True\<rparr>) = Some True"
proof -
  let ?s3 = "autostart_init True\<lparr>au_desired := True, au_listener := Loading\<rparr>"
  have "autostart_reachable True (autostart_init True\<lparr>au_listener := Seed_Read True\<rparr>)"
    by (rule listener_path [OF reachable_start]) (simp add: autostart_init_def)
  from listener_path [OF this] have "autostart_reachable True ?s3" by (simp add: autostart_init_def)
  from listener_path [OF this] have "autostart_reachable True (?s3\<lparr>au_listener := Applying True\<rparr>)"
    by (simp add: autostart_init_def)
  from listener_path [OF this] have
    "autostart_reachable True (?s3\<lparr>au_applied := Some True, au_listener := Waiting\<rparr>)"
    by (simp add: autostart_init_def)
  from autostart_settles [OF this] show ?thesis by (simp add: autostart_init_def)
qed

end
