(* ===== verification/Push_Progress.thy ===== *)
theory Push_Progress
  imports Activity Push_Batch
begin

text \<open>
  What a push says while it runs (\<open>sync/push.rs\<close>): the reporter that logs an event and broadcasts
  it, when it reports, the percentages, and the texts of a batch.  Times are parameters: the
  milliseconds of the stages of a batch, the seconds since a heartbeat.  The uuid and clock of an
  event are a \<open>stamp\<close>, and \<open>render\<close> is the text of a floating-point number.
\<close>

section \<open>The reporter\<close>

record reporter =
  rp_relationship_id :: string
  rp_relationship_name :: string

text \<open>What events act on: the database, the latest progress of each relationship, and what was sent to the
  subscribers.\<close>

record 'e report_state =
  rs_store :: 'e
  rs_progress :: progress_map
  rs_sent :: "sync_event list"

definition push_progress_event ::
  "(f64 \<Rightarrow> string) \<Rightarrow> stamp \<Rightarrow> reporter \<Rightarrow> string \<Rightarrow> string \<Rightarrow> nat \<Rightarrow> nat \<Rightarrow> nat \<Rightarrow> f64 option \<Rightarrow> sync_event" where
  "push_progress_event render k rp event_type summary files bytes ms percent =
     (make_event k (rp_relationship_id rp) (rp_relationship_name rp) event_type summary files bytes ms [])
       \<lparr>ev_progress_percent := map_option render percent\<rparr>"

definition emit_with_type ::
  "'e engine \<Rightarrow> (f64 \<Rightarrow> string) \<Rightarrow> stamp \<Rightarrow> reporter \<Rightarrow> string \<Rightarrow> string \<Rightarrow> nat \<Rightarrow> nat \<Rightarrow> nat \<Rightarrow> f64 option \<Rightarrow>
     'e report_state \<Rightarrow> 'e report_state" where
  "emit_with_type en render k rp event_type summary files bytes ms percent s =
     (let v = push_progress_event render k rp event_type summary files bytes ms percent
      in case log_event en v (rs_store s, rs_progress s) of
           ((e, progress), _) \<Rightarrow>
             s\<lparr>rs_store := e, rs_progress := progress, rs_sent := rs_sent s @ [v]\<rparr>)"

definition emit_progress ::
  "'e engine \<Rightarrow> (f64 \<Rightarrow> string) \<Rightarrow> stamp \<Rightarrow> reporter \<Rightarrow> string \<Rightarrow> nat \<Rightarrow> nat \<Rightarrow> nat \<Rightarrow> f64 option \<Rightarrow>
     'e report_state \<Rightarrow> 'e report_state" where
  "emit_progress en render k rp summary files bytes ms percent s =
     emit_with_type en render k rp ''progress'' summary files bytes ms percent s"

section \<open>Percentages\<close>

text \<open>The exact sum, rounded.\<close>

definition f64_add :: "f64 \<Rightarrow> f64 \<Rightarrow> f64" where
  "f64_add x y =
     (let e = min (snd x) (snd y);
          n = fst x * 2 ^ nat (snd x - e) + fst y * 2 ^ nat (snd y - e)
      in f64_div (n * 2 ^ nat e) (2 ^ nat (- e)))"

text \<open>\<open>clamp\<close> between 0 and \<open>k\<close>.\<close>

definition f64_clamp :: "nat \<Rightarrow> f64 \<Rightarrow> f64" where
  "f64_clamp k x = (if f64_ge x k then f64_of k else x)"

definition progress_percent :: "nat \<Rightarrow> nat \<Rightarrow> f64 option" where
  "progress_percent processed entries =
     (if entries = 0 then Some (f64_of 100)
      else Some (f64_clamp 100 (f64_times (f64_quot (f64_of processed) (f64_of entries)) 100)))"

definition chunk_progress_percent :: "nat \<Rightarrow> nat \<Rightarrow> nat \<Rightarrow> nat \<Rightarrow> f64 option" where
  "chunk_progress_percent processed entries uploaded to_upload =
     (if entries = 0 then Some (f64_of 100)
      else if to_upload = 0 then progress_percent processed entries
      else
        let completed_before_file = f64_of (processed - 1);
            file_fraction = f64_clamp 1 (f64_quot (f64_of uploaded) (f64_of to_upload))
        in Some (f64_clamp 100 (f64_times
             (f64_quot (f64_add completed_before_file file_fraction) (f64_of entries)) 100)))"

definition direct_upload_progress_percent :: "nat \<Rightarrow> nat \<Rightarrow> nat \<Rightarrow> nat \<Rightarrow> nat \<Rightarrow> nat \<Rightarrow> f64 option" where
  "direct_upload_progress_percent processed entries file_count file_index sent file_size =
     (if entries = 0 then Some (f64_of 100)
      else
        let completed_before_batch = f64_of (processed - max file_count 1);
            completed_in_batch = f64_of (min file_index file_count);
            file_fraction = (if file_size = 0 then f64_of 1
                             else f64_clamp 1 (f64_quot (f64_of sent) (f64_of file_size)))
        in Some (f64_clamp 100 (f64_times
             (f64_quot (f64_add (f64_add completed_before_batch completed_in_batch) file_fraction)
                (f64_of entries)) 100)))"

section \<open>When a push reports\<close>

definition should_emit_push_scan_heartbeat :: "nat \<Rightarrow> nat \<Rightarrow> bool" where
  "should_emit_push_scan_heartbeat last_emit now \<longleftrightarrow> 30 \<le> now - last_emit"

definition emit_push_scan_progress ::
  "'e engine \<Rightarrow> (f64 \<Rightarrow> string) \<Rightarrow> stamp \<Rightarrow> reporter option \<Rightarrow> nat \<Rightarrow> nat \<Rightarrow> push_result \<Rightarrow> nat \<Rightarrow>
     'e report_state \<Rightarrow> 'e report_state" where
  "emit_push_scan_progress en render k progress processed entries r ms s =
     (if \<not> should_emit_push_scan_progress processed \<and> processed \<noteq> entries then s
      else case progress of
             None \<Rightarrow> s
           | Some rp \<Rightarrow>
               emit_progress en render k rp (push_scan_progress_summary processed entries r ms)
                 (pu_files_pushed r + pu_files_deleted r) (pu_total_bytes r) ms
                 (progress_percent processed entries) s)"

definition emit_push_scan_heartbeat ::
  "'e engine \<Rightarrow> (f64 \<Rightarrow> string) \<Rightarrow> stamp \<Rightarrow> reporter option \<Rightarrow> string \<Rightarrow> nat \<Rightarrow> f64 option \<Rightarrow>
     'e report_state \<Rightarrow> 'e report_state" where
  "emit_push_scan_heartbeat en render k progress summary ms percent s =
     (case progress of
        None \<Rightarrow> s
      | Some rp \<Rightarrow> emit_with_type en render k rp ''scan_heartbeat'' summary 0 0 ms percent s)"

section \<open>The texts of a batch\<close>

record batch_times =
  bt_check_ms :: nat
  bt_upload_ms :: nat
  bt_commit_ms :: nat
  bt_total_ms :: nat

definition scan_start_summary :: "string \<Rightarrow> nat \<Rightarrow> string \<Rightarrow> string" where
  "scan_start_summary label entries local_path =
     label @ '' scanning '' @ format_count entries @ '' local '' @
     (if entries = 1 then ''entry'' else ''entries'') @ '' in '' @ local_path"

definition push_batch_commit_start_summary :: "nat \<Rightarrow> nat \<Rightarrow> nat \<Rightarrow> nat \<Rightarrow> nat \<Rightarrow> string" where
  "push_batch_commit_start_summary files total_bytes checked uploaded uploaded_bytes =
     join_with mid_dot
       ([''Committing '' @ pluralize files ''file'' @ '' from '' @ pluralize checked ''chunk'' @ '' checked'',
         ''totaling '' @ format_bytes_precise total_bytes] @
        (if 0 < uploaded
         then [pluralize uploaded ''missing chunk'' @ '' uploaded'', format_bytes uploaded_bytes @ '' sent'']
         else [''all chunks already present'']))"

definition direct_batch_parts :: "upload_stats \<Rightarrow> batch_times \<Rightarrow> string list" where
  "direct_batch_parts u t =
     [''Streamed '' @ pluralize (us_files u) ''file'' @ '' (totaling '' @
        format_bytes_precise (us_total_file_bytes u) @ '') in '' @ format_duration (bt_total_ms t),
      format_bytes_precise (us_uploaded_bytes u) @ '' sent''] @
     (case format_rate (us_uploaded_bytes u) (bt_total_ms t) of Some rate \<Rightarrow> [rate] | None \<Rightarrow> []) @
     [''direct file upload used for oversized blob manifest'']"

definition chunk_batch_parts :: "upload_stats \<Rightarrow> batch_times \<Rightarrow> string list" where
  "chunk_batch_parts u t =
     (let reused = us_checked_chunks u - us_uploaded_chunks u;
          saved = us_total_file_bytes u - us_uploaded_bytes u
      in [''Checked '' @ pluralize (us_checked_chunks u) ''chunk'' @ mid_dot @ ''committed '' @
            pluralize (us_files u) ''file'' @ '' (totaling '' @
            format_bytes_precise (us_total_file_bytes u) @ '') in '' @ format_duration (bt_total_ms t)] @
         (if 0 < us_uploaded_chunks u
          then [format_bytes (us_uploaded_bytes u) @ '' sent''] @
               (case format_rate (us_uploaded_bytes u) (bt_total_ms t) of Some rate \<Rightarrow> [rate] | None \<Rightarrow> []) @
               [format_count (us_uploaded_chunks u) @ '' missing chunks uploaded'']
          else [''no chunk upload needed'']) @
         (if 0 < reused
          then [format_count reused @ '' chunks reused ('' @ format_bytes_precise saved @ '' saved)'']
          else []) @
         (if 2000 \<le> bt_check_ms t then [''check took '' @ format_duration (bt_check_ms t)] else []) @
         (if 0 < us_uploaded_chunks u \<and> 2000 \<le> bt_upload_ms t
          then [''chunk upload took '' @ format_duration (bt_upload_ms t)] else []) @
         (if 2000 \<le> bt_commit_ms t then [''commit took '' @ format_duration (bt_commit_ms t)] else []))"

definition push_batch_summary :: "upload_stats \<Rightarrow> batch_times \<Rightarrow> string" where
  "push_batch_summary u t =
     join_with mid_dot
       (if us_strategy u = DirectFilePut then direct_batch_parts u t else chunk_batch_parts u t)"

text \<open>While chunks are sent, the first, every hundredth and the last are reported.\<close>

definition reports_chunk :: "nat \<Rightarrow> nat \<Rightarrow> bool" where
  "reports_chunk uploaded to_upload \<longleftrightarrow> uploaded = 1 \<or> uploaded mod 100 = 0 \<or> uploaded = to_upload"

definition chunk_progress_summary :: "nat \<Rightarrow> nat \<Rightarrow> nat \<Rightarrow> string" where
  "chunk_progress_summary uploaded to_upload bytes =
     ''Uploading batch chunks: '' @ format_count uploaded @ '' of '' @ format_count to_upload @ mid_dot @
     format_bytes bytes @ '' sent''"

section \<open>Percentages lie between 0 and 100\<close>

text \<open>The value of a number is at most \<open>k\<close>.\<close>

definition f64_le :: "f64 \<Rightarrow> nat \<Rightarrow> bool" where
  "f64_le x k \<longleftrightarrow> fst x * 2 ^ nat (snd x) \<le> k * 2 ^ nat (- snd x)"

lemma f64_clamp_le: "f64_le (f64_of k) k \<Longrightarrow> f64_le (f64_clamp k x) k"
  by (auto simp: f64_clamp_def f64_le_def f64_ge_def)

lemma f64_of_100: "f64_le (f64_of 100) 100"
  by code_simp

theorem percentages_are_percentages:
  "(case progress_percent processed entries of Some p \<Rightarrow> f64_le p 100 | None \<Rightarrow> False) \<and>
   (case chunk_progress_percent processed entries uploaded to_upload of Some p \<Rightarrow> f64_le p 100 | None \<Rightarrow> False) \<and>
   (case direct_upload_progress_percent processed entries n i sent file_size of
      Some p \<Rightarrow> f64_le p 100 | None \<Rightarrow> False)"
  using f64_clamp_le [OF f64_of_100] f64_of_100
  by (simp add: progress_percent_def chunk_progress_percent_def direct_upload_progress_percent_def Let_def)

section \<open>Progress is not written to the database\<close>

lemma emit_store:
  "rs_store (emit_progress en render k rp summary files bytes ms percent s) = rs_store s"
  "length (rs_sent (emit_progress en render k rp summary files bytes ms percent s)) = length (rs_sent s) + 1"
  by (simp_all add: emit_progress_def emit_with_type_def log_event_def push_progress_event_def make_event_def Let_def)

lemma emit_push_scan_progress_store:
  "rs_store (emit_push_scan_progress en render k progress processed entries r ms s) = rs_store s"
  by (simp add: emit_push_scan_progress_def emit_store split: option.split)

lemma batch_summary_sample:
  "push_batch_commit_start_summary 10 13170000 93 0 0 =
     ''Committing 10 files from 93 chunks checked'' @ mid_dot @ ''totaling 12.56 MB'' @ mid_dot @
     ''all chunks already present''"
  by code_simp

end
