(* ===== verification/Spec2Isabelle.thy ===== *)
theory Spec2Isabelle
  imports Sync_Routes_Spec Sync_Guards Sse Jwt_Cache Preferences Update_Spec File_Spec
    Push_Tree Pull_Refinement Server Cli_Spec Desktop Autostart Push_Progress
begin

text \<open>
  AeorDB client: a model of the file synchronisation client, its library
  (\<open>src/aeordb-client-lib\<close>) and the program around it (\<open>src/aeordb-client\<close>).

  The client keeps \<^emph>\<open>connections\<close> (a server URL with optional credentials) and \<^emph>\<open>sync
  relationships\<close> (a local directory bound to a remote path of a connection) in a YAML
  configuration, and what it knows of every synchronised file in an embedded state database.
  A \<^emph>\<open>push\<close> walks a local directory, hashes what may have changed, sends missing chunks in
  batches, commits files, moves renamed ones and deletes what is gone.  A \<^emph>\<open>pull\<close> asks the server
  for the changes since a checkpoint, assembles the changed files of old local chunks and fetched
  ones, and deletes what went.  A cycle is a pull and then a push.  One \<^emph>\<open>loop\<close> per enabled
  relationship runs cycles: at the start, after local changes (the file watcher), after changes on
  the server (its event stream), at an interval, after a failure that may pass, and on demand.
  Beside the loops run the health pinger and the checker of signed self-updates.  A local HTTP API
  serves the user interface: connections, relationships, files, preferences, settings, conflicts,
  events and updates.  The program holds the lock of the one instance, parses the command line,
  and its other commands are requests to that API.

  \<^bold>\<open>Reading the model.\<close>  Strings are lists of bytes (HOL \<open>char\<close>).  Unsigned 64-bit counters are
  natural numbers with the saturation of the code written out; signed timestamps are integers; a
  float is an exact dyadic rounded as the code rounds (theory Format).
  A \<open>Result\<close> is the sum \<open>client_error + 'a\<close> (type \<open>'a res\<close>), a mutable state is passed and
  returned, so \<open>s \<times> 'a res\<close> is what a method leaves and answers, and the question mark is
  \<open>and_then\<close> (values) or \<open>then_st\<close> (with a state).  A \<open>HashMap\<close> is an association list with
  distinct keys, its order the order of iteration.  Code outside the repository is an argument:
  the HTTP transport (record \<open>net\<close>), the embedded engine (record \<open>engine\<close>, with the laws
  \<open>engine_ok\<close> and the instance \<open>mem_engine\<close>), the file system (\<open>local_fs\<close>, \<open>scan_fs\<close>, \<open>disk\<close>,
  \<open>web_env\<close>), BLAKE3 (\<open>hash\<close>), SHA-256 and Ed25519 (record \<open>update_env\<close>), glob matching, the YAML
  codec, the router, the system's dialogs, clocks and identifiers.

  \<^bold>\<open>Theories.\<close>
  \<^item> Prelude: Rust standard-library operations on strings, integers, maps and loops.
    Paths: \<open>std::path\<close> on Unix.  Http: header values.  Machines: the locales \<open>step_machine\<close> (steps
    that keep an invariant) and \<open>handler_machine\<close> (requests that do), interpreted for the
    configuration, the execution guards, the autostart listener, the running program and the settings.
  \<^item> Client_Error: \<open>error.rs\<close>.  File_Filter: \<open>sync/filter.rs\<close>, \<open>sync/content_type.rs\<close>.
  \<^item> Config: \<open>config.rs\<close>, and the locale \<open>value_store\<close> of a value behind a lock that is saved
    after each update, interpreted as \<open>cfg\<close>.  Connections: \<open>connections.rs\<close>.  Relationships:
    \<open>sync/relationships.rs\<close>, \<open>sync/hierarchy.rs\<close>.  Config_Steps: their operations as a state
    machine.  Registry: the contract both managers keep (locale \<open>registry\<close>, interpreted as
    \<open>connections\<close> and \<open>relationships\<close>).  Jwt_Cache: \<open>jwt_cache.rs\<close>.
  \<^item> Json: JSON values, the merge patch, and the locale \<open>json_codec\<close> of what is written and reads
    back, interpreted for every type the database and the preferences keep.  Preferences: \<open>preferences.rs\<close> and its routes.
    State_Store: \<open>state.rs\<close>.  Metadata: \<open>sync/metadata.rs\<close>, with the locale \<open>meta_table\<close> for its
    table contract, interpreted as \<open>meta\<close>.
  \<^item> Remote_Client: authentication, redirects and error classes of \<open>remote/mod.rs\<close>; Remote_Api:
    its endpoints, and the record \<open>remote_ops\<close> through which a sync uses them.
  \<^item> Push_Plan, Push_Scan, Push_Batch, Push: \<open>sync/push.rs\<close>; Push_Progress: the reports of a push;
    Push_Spec: what a push promises whatever fails; Push_Refinement, Push_Tree: a push in which
    nothing failed refines an update of the server's tree.
  \<^item> Pull_Files, Pull: \<open>sync/pull.rs\<close>; Pull_Spec: what a pull promises whatever fails;
    Pull_Refinement: a pull in which nothing failed refines an update of the local tree.
    Replication: \<open>sync/replication.rs\<close>.
  \<^item> Format, Activity_Log, Activity: \<open>sync/activity.rs\<close>: the texts, the event log, the events of a
    sync.  Fs_Watcher: \<open>sync/fs_watcher.rs\<close>.  Sse: \<open>sync/sse_listener.rs\<close>.  Health: \<open>health.rs\<close>.
  \<^item> Runner: the loop of \<open>sync/runner.rs\<close>; Runner_Control: starting and stopping loops; Runner_Spec,
    Runner_Props: what the loop does; Sync_Guards: the guards that keep two tasks off one
    relationship, as interleaved steps.
  \<^item> Sync_Routes, Sync_Routes_Spec: \<open>api/routes/sync.rs\<close>.  File_Paths, File_Routes, File_Spec:
    \<open>api/routes/files.rs\<close>.  Connection_Routes: \<open>api/routes/connections.rs\<close>, \<open>shares.rs\<close>.
    Local_Routes: \<open>settings.rs\<close>, \<open>status.rs\<close>, \<open>system.rs\<close>, \<open>conflicts.rs\<close>.  Event_Routes:
    \<open>events.rs\<close>.  Server: \<open>server.rs\<close>, the table of routes and the start of the background tasks.
  \<^item> Trust_Store: \<open>security/sig.rs\<close>.  Update, Update_Spec: \<open>update.rs\<close> and \<open>api/routes/update.rs\<close>.
  \<^item> Cli, Cli_Spec: \<open>cli/\<close>, and its commands run against the handlers of Sync_Routes.  Startup:
    \<open>main.rs\<close> up to the start of the server, and \<open>static_files.rs\<close>.  Desktop: the running
    program, its server task, main thread, window, tray and ways out, as interleaved steps.
    Autostart: the handler and the listener of the autostart setting, likewise.

  \<^bold>\<open>What is shown.\<close>  Each theory ends with its properties; those of the program as a whole are
  marked with claim ids.  The central ones: a push plans the same work with any number of workers
  and removes nothing it has seen, and one in which nothing failed leaves on the server exactly the
  local files under their paths; a pull in which nothing
  failed leaves exactly the tree the diff describes, and any pull touches only the files of its
  diff and counts each once; no sequence of API calls leaves a relationship without its connection
  or an interval out of range; two tasks never sync one relationship at once; a served file lies
  inside its directory; nothing is installed that a trusted key did not sign.

  \<^bold>\<open>Bounds.\<close>  The redirect walk of the token exchange recurs on the chain of visited URLs, at most
  five; the authenticated walk has the code's counter.  Reading a file until a buffer is full, the
  walk of a directory and the chunking of a file recur on what is left.  \<open>app_root_above\<close> has as
  fuel the number of components of the path, one of which each turn removes.  \<open>wait_for_lock\<close> has
  fuel 26: it pauses 200 ms between tries and gives up after 5 s on a clock that runs on while it
  pauses (\<open>clock_runs\<close>); that this is enough is part of \<open>takeover_ends\<close>.

  \<^bold>\<open>Not modelled.\<close>  Logging; when a timer fires and how far apart heartbeats are (the loop is given
  what woke it); the locking inside one operation; the concurrency of uploads and downloads: work
  the code runs concurrently is a sequence in an order the environment chooses.  What the window
  shows (Tauri), the grammar of the command line (the clap crate), the HTTP
  framing and the search of the router (the axum crate: any router that finds a matching route
  than which none is more specific), the user interface (JavaScript) and the build scripts.
\<close>

end
